(* ===== verification/Prelude.thy ===== *)
theory Prelude
  imports Complex_Main
begin

text \<open>
  Shared vocabulary of the development: Python exceptions as values, sequencing of computations
  that may raise, the Python text type, and the collections of rewrite rules the component
  theories add to.

    - \<open>py_error\<close> lists the exceptions the modelled code can raise; a computation that may
      raise has type \<open>'a result\<close>, which is \<open>py_error + 'a\<close>, and \<open>Inl e\<close> is the raised
      exception.
    - \<open>ebind\<close> runs one computation after another and stops at the first exception, as a Python
      block does.  \<open>catch\<close> is a \<open>try\<close>/\<open>except\<close> block.
    - \<open>float_simps\<close> collects the equations that evaluate binary64 arithmetic on values that need
      no rounding, \<open>sim_defs\<close> the definitions a proof about one simulation step unfolds.
\<close>

named_theorems float_simps
named_theorems sim_defs

section \<open>Exceptions as values\<close>

datatype py_error =
    ValueError string
  | TypeError
  | ZeroDivisionError
  | OverflowError
  | KeyError string
  | IndexError
  | AttributeError
  | NotImplementedError string

type_synonym 'a result = "py_error + 'a"

definition ebind :: "'a result \<Rightarrow> ('a \<Rightarrow> 'b result) \<Rightarrow> 'b result" where
  "ebind m f = (case m of Inl e \<Rightarrow> Inl e | Inr x \<Rightarrow> f x)"

text \<open>Evaluation unfolds it, so that a continuation is evaluated only when it is reached.\<close>

declare ebind_def [code_unfold]

definition raise :: "py_error \<Rightarrow> 'a result" where
  "raise e = Inl e"

definition catch :: "'a result \<Rightarrow> (py_error \<Rightarrow> 'a result) \<Rightarrow> 'a result" where
  "catch m h = (case m of Inl e \<Rightarrow> h e | Inr x \<Rightarrow> Inr x)"

lemma ebind_Inl [simp]: "ebind (Inl e) f = Inl e"
  by (simp add: ebind_def)

lemma ebind_Inr [simp]: "ebind (Inr x) f = f x"
  by (simp add: ebind_def)

lemma ebind_eq_Inr: "ebind m f = Inr y \<longleftrightarrow> (\<exists>x. m = Inr x \<and> f x = Inr y)"
  by (cases m) auto

lemma ebindE [elim!]:
  "ebind m f = Inr y \<Longrightarrow> (\<And>x. m = Inr x \<Longrightarrow> f x = Inr y \<Longrightarrow> P) \<Longrightarrow> P"
  by (cases m) auto

lemma ebind_eq_Inl: "ebind m f = Inl e \<longleftrightarrow> m = Inl e \<or> (\<exists>x. m = Inr x \<and> f x = Inl e)"
  by (cases m) auto

lemma not_isl: "\<not> isl m \<longleftrightarrow> (\<exists>x. m = Inr x)"
  by (cases m) auto

lemma not_isl_ebind:
  "\<not> isl (ebind m f) \<longleftrightarrow> (case m of Inl _ \<Rightarrow> False | Inr x \<Rightarrow> \<not> isl (f x))"
  by (cases m) auto

lemma ebind_assoc: "ebind (ebind m f) g = ebind m (\<lambda>x. ebind (f x) g)"
  by (cases m) auto

lemma ebind_if: "ebind (if b then m else n) f = (if b then ebind m f else ebind n f)"
  by simp

lemma raise_neq_Inr [simp]: "raise e \<noteq> Inr x"
  by (simp add: raise_def)

lemma catch_simps [simp]: "catch (Inr x) h = Inr x" "catch (Inl e) h = h e"
  by (simp_all add: catch_def)

section \<open>Loops over a list\<close>

text \<open>A Python \<open>for\<close> loop whose body updates a state and may raise.\<close>

fun efold :: "('b \<Rightarrow> 'a \<Rightarrow> 'a result) \<Rightarrow> 'b list \<Rightarrow> 'a \<Rightarrow> 'a result" where
  "efold f [] s = Inr s"
| "efold f (x # xs) s = ebind (f x s) (efold f xs)"

lemma efold_append: "efold f (xs @ ys) s = ebind (efold f xs s) (efold f ys)"
proof (induction xs arbitrary: s)
  case Nil
  then show ?case by simp
next
  case (Cons x xs)
  then have "efold f (xs @ ys) = (\<lambda>u. ebind (efold f xs u) (efold f ys))" by blast
  then show ?case by (simp add: ebind_assoc)
qed

lemma efold_append_Inr:
  "efold f (xs @ ys) s = Inr t \<longleftrightarrow> (\<exists>u. efold f xs s = Inr u \<and> efold f ys u = Inr t)"
  by (simp add: efold_append ebind_eq_Inr)

text \<open>An invariant of the body is an invariant of the loop.\<close>

lemma efold_invariant:
  assumes "\<And>x s t. x \<in> set xs \<Longrightarrow> f x s = Inr t \<Longrightarrow> P s \<Longrightarrow> P t"
  shows "efold f xs s = Inr t \<Longrightarrow> P s \<Longrightarrow> P t"
  using assms
proof (induction xs arbitrary: s)
  case Nil
  then show ?case by simp
next
  case (Cons x xs)
  from Cons.prems(1) obtain u where u: "f x s = Inr u" "efold f xs u = Inr t" by auto
  have "P u" using Cons.prems(3) [OF _ u(1)] Cons.prems(2) by simp
  moreover have "\<And>y a b. y \<in> set xs \<Longrightarrow> f y a = Inr b \<Longrightarrow> P a \<Longrightarrow> P b"
    using Cons.prems(3) by (meson list.set_intros(2))
  ultimately show ?case using Cons.IH [OF u(2)] by blast
qed

text \<open>A loop whose body never raises never raises.\<close>

lemma efold_total:
  assumes "\<And>x s. \<not> isl (f x s)"
  shows "\<not> isl (efold f xs s)"
proof (induction xs arbitrary: s)
  case (Cons x xs)
  from assms [of x s] obtain t where "f x s = Inr t" by (auto simp: not_isl)
  then show ?case using Cons by simp
qed simp

text \<open>A Python list comprehension whose element expression may raise.\<close>

fun emap :: "('a \<Rightarrow> 'b result) \<Rightarrow> 'a list \<Rightarrow> 'b list result" where
  "emap f [] = Inr []"
| "emap f (x # xs) = ebind (f x) (\<lambda>y. ebind (emap f xs) (\<lambda>ys. Inr (y # ys)))"

lemma emap_length: "emap f xs = Inr ys \<Longrightarrow> length ys = length xs"
  by (induction xs arbitrary: ys) auto

lemma emap_cong: "(\<And>x. x \<in> set xs \<Longrightarrow> f x = g x) \<Longrightarrow> emap f xs = emap g xs"
  by (induction xs) auto

lemma emap_nth: "emap f xs = Inr ys \<Longrightarrow> i < length xs \<Longrightarrow> f (xs ! i) = Inr (ys ! i)"
  by (induction xs arbitrary: ys i) (auto simp: nth_Cons split: nat.splits)

section \<open>Lists\<close>

text \<open>\<open>xs[:-1] + [y]\<close>, the effect of \<open>xs[-1] = y\<close> on a non-empty list.\<close>

definition set_last :: "'a \<Rightarrow> 'a list \<Rightarrow> 'a list" where
  "set_last y xs = butlast xs @ [y]"

lemma length_set_last [simp]: "xs \<noteq> [] \<Longrightarrow> length (set_last y xs) = length xs"
  by (simp add: set_last_def)

lemma butlast_set_last [simp]: "butlast (set_last y xs) = butlast xs"
  by (simp add: set_last_def)

lemma last_set_last [simp]: "last (set_last y xs) = y"
  by (simp add: set_last_def)

end
