(* ===== verification/PyFloat.thy ===== *)
theory PyFloat
  imports Prelude
begin

text \<open>
  Python's \<open>float\<close>, which is IEEE 754 binary64, computed exactly.

    - \<open>rnd\<close> rounds a rational number to the nearest binary64 value with ties to even, with an
      unbounded exponent range upwards; \<open>flr\<close> adds overflow to the infinities.
    - \<open>flt\<close> is the type of floats: \<open>Fin q\<close> for a finite value \<open>q\<close>, the two infinities and
      NaN.  Every operation of the code computes the exact rational result and rounds it once.
      Comparisons with NaN are false, division by zero raises \<open>ZeroDivisionError\<close>, as in Python.
    - The sign of a zero is not represented: the modelled code never divides by a zero, so only
      the printed form of a zero depends on it.
    - The locale \<open>rounding\<close> states what the users of the arithmetic rely on (a monotone,
      idempotent, odd rounding that keeps 0 and 1) and derives the bounds the simulation needs;
      \<open>b64\<close> interprets it for \<open>rnd\<close>.
\<close>

section \<open>Rounding to binary64\<close>

text \<open>Number of binary digits of a positive integer.\<close>

function bit_length :: "int \<Rightarrow> int" where
  "bit_length n = (if n \<le> 0 then 0 else 1 + bit_length (n div 2))"
  by pat_completeness auto
termination by (relation "measure nat") auto

declare bit_length.simps [simp del]

text \<open>The exponent of the binade of a positive rational: \<open>2 powi k \<le> q < 2 powi (k + 1)\<close>.\<close>

definition ilog2 :: "rat \<Rightarrow> int" where
  "ilog2 q =
     (case quotient_of q of (n, d) \<Rightarrow>
        let k = bit_length n - bit_length d
        in if 2 powi k \<le> q then k else k - 1)"

text \<open>Round to the nearest integer, ties to even.\<close>

definition rne :: "rat \<Rightarrow> int" where
  "rne x = (let f = \<lfloor>x\<rfloor>; r = x - of_int f
            in if r < 1/2 \<or> (r = 1/2 \<and> even f) then f else f + 1)"

text \<open>The exponent of the last significand bit; subnormals stop at \<open>-1074\<close>.\<close>

definition ulp_exp :: "rat \<Rightarrow> int" where
  "ulp_exp q = max (- 1074) (ilog2 \<bar>q\<bar> - 52)"

definition rnd :: "rat \<Rightarrow> rat" where
  "rnd q = (if q = 0 then 0
            else let e = ulp_exp q in of_int (rne (q / 2 powi e)) * 2 powi e)"

lemma bit_length_nonneg: "0 \<le> bit_length n"
  by (induction n rule: bit_length.induct) (subst bit_length.simps, simp)

lemma bit_length_pos: "0 < n \<Longrightarrow> 1 \<le> bit_length n"
  by (subst bit_length.simps) (simp add: bit_length_nonneg)

lemma bit_length_bounds:
  "0 < n \<Longrightarrow> 2 ^ nat (bit_length n - 1) \<le> n \<and> n < 2 ^ nat (bit_length n)"
proof (induction n rule: bit_length.induct)
  case (1 n)
  show ?case
  proof (cases "n = 1")
    case True
    then show ?thesis by (simp add: bit_length.simps)
  next
    case False
    with "1.prems" have half: "0 < n div 2" by auto
    let ?k = "bit_length (n div 2)"
    have k: "1 \<le> ?k" using half by (rule bit_length_pos)
    have IH: "2 ^ nat (?k - 1) \<le> n div 2 \<and> n div 2 < 2 ^ nat ?k"
      using "1.IH" "1.prems" half by auto
    have eq: "bit_length n = 1 + ?k"
      using "1.prems" by (subst bit_length.simps) simp
    have p1: "(2::int) ^ nat ?k = 2 * 2 ^ nat (?k - 1)"
      using k by (metis Suc_nat_eq_nat_zadd1 add.commute diff_add_cancel diff_ge_0_iff_ge power_Suc)
    have p2: "(2::int) ^ nat (1 + ?k) = 2 * 2 ^ nat ?k"
      using k by (simp add: nat_add_distrib)
    have "2 ^ nat ?k \<le> n \<and> n < 2 ^ nat (1 + ?k)"
      using IH unfolding p1 p2 by linarith
    then show ?thesis unfolding eq by simp
  qed
qed

lemma powi_2_pos [simp]: "0 < (2::rat) powi k"
  by simp

lemma powi_2_add: "(2::rat) powi (a + b) = 2 powi a * 2 powi b"
  by (simp add: power_int_add)

lemma powi_2_le: "a \<le> b \<Longrightarrow> (2::rat) powi a \<le> 2 powi b"
  by (rule power_int_increasing) auto

lemma powi_2_less: "a < b \<Longrightarrow> (2::rat) powi a < 2 powi b"
  by (rule power_int_strict_increasing) auto

lemma powi_2_less_iff: "(2::rat) powi a < 2 powi b \<longleftrightarrow> a < b"
  by (metis linorder_not_less powi_2_le powi_2_less)

lemma bit_length_powi:
  assumes "0 < n"
  shows "(2::rat) powi (bit_length n - 1) \<le> of_int n \<and> (of_int n :: rat) < 2 powi (bit_length n)"
proof -
  have k: "1 \<le> bit_length n" using assms by (rule bit_length_pos)
  have "(2::rat) powi (bit_length n - 1) = of_int (2 ^ nat (bit_length n - 1))"
    using k by (simp add: power_int_nonneg_exp)
  moreover have "(2::rat) powi (bit_length n) = of_int (2 ^ nat (bit_length n))"
    using k by (simp add: power_int_nonneg_exp)
  ultimately show ?thesis
    using bit_length_bounds [OF assms] by (metis of_int_le_iff of_int_less_iff)
qed

lemma ilog2_bounds:
  assumes "0 < q"
  shows "2 powi (ilog2 q) \<le> q \<and> q < 2 powi (ilog2 q + 1)"
proof -
  obtain n d where nd: "quotient_of q = (n, d)" by force
  have d: "0 < d" using nd by (rule quotient_of_denom_pos)
  have q: "q = of_int n / of_int d" using nd by (rule quotient_of_div)
  have n: "0 < n" using assms d unfolding q by (simp add: zero_less_divide_iff)
  let ?a = "bit_length n" and ?b = "bit_length d"
  note bn = bit_length_powi [OF n] and bd = bit_length_powi [OF d]
  have d': "(0::rat) < of_int d" using d by simp
  have lo: "2 powi (?a - ?b - 1) \<le> q"
  proof -
    have "(2::rat) powi (?a - ?b - 1) * of_int d \<le> 2 powi (?a - ?b - 1) * 2 powi ?b"
      using bd by (intro mult_left_mono) auto
    also have "\<dots> = 2 powi (?a - 1)" by (simp flip: powi_2_add)
    also have "\<dots> \<le> of_int n" using bn by simp
    finally show ?thesis unfolding q using d' by (simp add: pos_le_divide_eq)
  qed
  have hi: "q < 2 powi (?a - ?b + 1)"
  proof -
    have "of_int n < (2::rat) powi ?a" using bn by simp
    also have "\<dots> = 2 powi (?a - ?b + 1) * 2 powi (?b - 1)" by (simp flip: powi_2_add)
    also have "\<dots> \<le> 2 powi (?a - ?b + 1) * of_int d"
      using bd by (intro mult_left_mono) auto
    finally show ?thesis unfolding q using d' by (simp add: pos_divide_less_eq)
  qed
  show ?thesis
    using lo hi unfolding ilog2_def nd Let_def by (auto simp: algebra_simps)
qed

lemma ilog2_eqI: "2 powi k \<le> q \<Longrightarrow> q < 2 powi (k + 1) \<Longrightarrow> ilog2 q = k"
proof -
  assume a: "2 powi k \<le> q" "q < 2 powi (k + 1)"
  then have "0 < q" by (meson less_le_trans powi_2_pos)
  then have b: "2 powi (ilog2 q) \<le> q" "q < 2 powi (ilog2 q + 1)" using ilog2_bounds by auto
  from a b have "(2::rat) powi k < 2 powi (ilog2 q + 1)" "(2::rat) powi (ilog2 q) < 2 powi (k + 1)"
    by linarith+
  then show "ilog2 q = k" unfolding powi_2_less_iff by linarith
qed

lemma ilog2_mono: "0 < p \<Longrightarrow> p \<le> q \<Longrightarrow> ilog2 p \<le> ilog2 q"
proof -
  assume a: "0 < p" "p \<le> q"
  then have "2 powi (ilog2 p) \<le> p" "q < 2 powi (ilog2 q + 1)" using ilog2_bounds by auto
  with a have "(2::rat) powi (ilog2 p) < 2 powi (ilog2 q + 1)" by linarith
  then show ?thesis unfolding powi_2_less_iff by linarith
qed

lemma rne_of_int [simp]: "rne (of_int n) = n"
  by (simp add: rne_def)

lemma rne_cases: "rne x = \<lfloor>x\<rfloor> \<or> rne x = \<lfloor>x\<rfloor> + 1"
  by (simp add: rne_def Let_def)

lemma rne_mono: "x \<le> y \<Longrightarrow> rne x \<le> rne y"
proof -
  assume xy: "x \<le> y"
  then have fl: "\<lfloor>x\<rfloor> \<le> \<lfloor>y\<rfloor>" by (rule floor_mono)
  show ?thesis
  proof (cases "\<lfloor>x\<rfloor> = \<lfloor>y\<rfloor>")
    case True
    then show ?thesis using xy by (auto simp: rne_def Let_def)
  next
    case False
    with fl have "\<lfloor>x\<rfloor> + 1 \<le> \<lfloor>y\<rfloor>" by simp
    then show ?thesis using rne_cases [of x] rne_cases [of y] by auto
  qed
qed

lemma rne_error: "\<bar>of_int (rne x) - x\<bar> \<le> 1/2"
proof -
  have "of_int \<lfloor>x\<rfloor> \<le> x" "x < of_int \<lfloor>x\<rfloor> + 1" by linarith+
  then have "rne x = \<lfloor>x\<rfloor> \<and> x - of_int \<lfloor>x\<rfloor> \<le> 1/2 \<or> rne x = \<lfloor>x\<rfloor> + 1 \<and> 1/2 \<le> x - of_int \<lfloor>x\<rfloor>"
    unfolding rne_def Let_def by auto
  then show ?thesis
    using \<open>of_int \<lfloor>x\<rfloor> \<le> x\<close> \<open>x < of_int \<lfloor>x\<rfloor> + 1\<close>
    by (elim disjE conjE) (simp_all only: abs_le_iff of_int_add of_int_1, linarith+)
qed

lemma rne_uminus: "rne (- x) = - rne x"
proof (cases "x = of_int \<lfloor>x\<rfloor>")
  case True
  then show ?thesis by (metis of_int_minus rne_of_int)
next
  case False
  then have "\<lfloor>- x\<rfloor> = - \<lfloor>x\<rfloor> - 1" by linarith
  then show ?thesis by (auto simp: rne_def Let_def)
qed


lemma rnd_0 [simp]: "rnd 0 = 0"
  by (simp add: rnd_def)

lemma ulp_exp_uminus [simp]: "ulp_exp (- q) = ulp_exp q"
  by (simp add: ulp_exp_def)

lemma rnd_uminus [simp]: "rnd (- q) = - rnd q"
proof -
  have "rne (- (q / 2 powi ulp_exp q)) = - rne (q / 2 powi ulp_exp q)" by (rule rne_uminus)
  then show ?thesis by (simp add: rnd_def Let_def)
qed

text \<open>A dyadic number with a 53-bit significand is unchanged.\<close>

lemma rne_exact: "x = of_int m \<Longrightarrow> of_int (rne x) = x"
  by simp

lemma rnd_dyadic_pos:
  assumes m: "0 < m" "m \<le> 2 ^ 53" and e: "- 1074 \<le> e" and q: "q = of_int m * 2 powi e"
  shows "rnd q = q"
proof -
  have q0: "0 < q" using m unfolding q by simp
  have "of_int m \<le> (2::rat) ^ 53" using m(2) by (metis of_int_le_iff of_int_numeral of_int_power)
  then have "q \<le> 2 powi 53 * 2 powi e" unfolding q by simp
  then have le: "q \<le> 2 powi (53 + e)" unfolding powi_2_add by simp
  let ?u = "ulp_exp q"
  have "\<exists>k. q / 2 powi ?u = of_int k"
  proof (cases "?u \<le> e")
    case True
    have "q / 2 powi ?u = of_int m * 2 powi (e - ?u)"
      unfolding q by (simp add: power_int_diff)
    also have "\<dots> = of_int (m * 2 ^ nat (e - ?u))"
      using True by (simp add: power_int_nonneg_exp)
    finally show ?thesis by blast
  next
    case False
    then have il: "e < ilog2 q - 52" using e q0 by (auto simp: ulp_exp_def)
    have "2 powi (ilog2 q) \<le> q" using ilog2_bounds [OF q0] by simp
    moreover have "(2::rat) powi (53 + e) \<le> 2 powi (ilog2 q)" using il by (intro powi_2_le) simp
    ultimately have eq: "q = 2 powi (53 + e)" and "2 powi (ilog2 q) = (2::rat) powi (53 + e)"
      using le by linarith+
    then have "ilog2 q = 53 + e" by (metis order.irrefl linorder_neqE powi_2_less)
    then have "?u = e + 1" using e q0 by (simp add: ulp_exp_def)
    then have "q / 2 powi ?u = 2 powi 52" unfolding eq by (simp flip: power_int_diff)
    also have "\<dots> = of_int (2 ^ 52)" by simp
    finally show ?thesis by blast
  qed
  then have "of_int (rne (q / 2 powi ?u)) = q / 2 powi ?u" by (metis rne_of_int)
  then show ?thesis using q0 by (simp add: rnd_def Let_def)
qed

lemma rnd_dyadic:
  assumes m: "\<bar>m\<bar> \<le> 2 ^ 53" and e: "- 1074 \<le> e" and q: "q = of_int m * 2 powi e"
  shows "rnd q = q"
proof (cases "m = 0")
  case True then show ?thesis by (simp add: q)
next
  case False
  have "rnd (of_int \<bar>m\<bar> * 2 powi e) = of_int \<bar>m\<bar> * 2 powi e"
    using False m e by (intro rnd_dyadic_pos [where m = "\<bar>m\<bar>"]) auto
  then show ?thesis
    using rnd_uminus [of q] unfolding q by (cases "0 \<le> m") auto
qed

lemma ulp_exp_bounds:
  assumes "0 < q" shows "q < 2 powi (ulp_exp q + 53)"
proof -
  have "q < 2 powi (ilog2 q + 1)" using ilog2_bounds [OF assms] by simp
  also have "\<dots> \<le> 2 powi (ulp_exp q + 53)"
    using assms by (intro powi_2_le) (simp add: ulp_exp_def)
  finally show ?thesis .
qed

lemma rnd_pos_form:
  assumes "0 < q"
  shows "rnd q = of_int (rne (q / 2 powi ulp_exp q)) * 2 powi ulp_exp q"
    and "0 \<le> rne (q / 2 powi ulp_exp q)" and "rne (q / 2 powi ulp_exp q) \<le> 2 ^ 53"
proof -
  let ?u = "ulp_exp q"
  show "rnd q = of_int (rne (q / 2 powi ?u)) * 2 powi ?u"
    using assms by (simp add: rnd_def Let_def)
  have "rne (of_int 0) \<le> rne (q / 2 powi ?u)"
    using assms by (intro rne_mono) simp
  then show "0 \<le> rne (q / 2 powi ?u)" by (simp only: rne_of_int)
  have "q < 2 powi ?u * 2 powi 53" using ulp_exp_bounds [OF assms] by (simp only: powi_2_add)
  then have "q / 2 powi ?u \<le> of_int (2 ^ 53)" by (simp add: pos_divide_le_eq mult.commute)
  then have "rne (q / 2 powi ?u) \<le> rne (of_int (2 ^ 53))" by (rule rne_mono)
  then show "rne (q / 2 powi ?u) \<le> 2 ^ 53" by (simp only: rne_of_int)
qed

lemma rnd_nonneg: "0 \<le> q \<Longrightarrow> 0 \<le> rnd q"
  by (cases "q = 0") (auto simp: rnd_pos_form)

lemma rnd_idem [simp]: "rnd (rnd q) = rnd q"
proof -
  have pos: "rnd (rnd q) = rnd q" if "0 < q" for q
    using rnd_pos_form [OF that] by (intro rnd_dyadic) (auto simp: ulp_exp_def)
  show ?thesis using pos [of q] pos [of "- q"] by (cases q "0::rat" rule: linorder_cases) auto
qed

lemma rnd_mono_pos:
  assumes "0 < p" "p \<le> q" shows "rnd p \<le> rnd q"
proof -
  have q: "0 < q" using assms by simp
  have "ulp_exp p \<le> ulp_exp q"
    using ilog2_mono [OF assms] assms by (simp add: ulp_exp_def)
  then consider "ulp_exp p = ulp_exp q" | "ulp_exp p < ulp_exp q" by linarith
  then show ?thesis
  proof cases
    case 1
    have "rne (p / 2 powi ulp_exp q) \<le> rne (q / 2 powi ulp_exp q)"
      using assms by (intro rne_mono divide_right_mono) auto
    then show ?thesis using 1 rnd_pos_form(1) [OF assms(1)] rnd_pos_form(1) [OF q] by simp
  next
    case 2
    let ?p = "ulp_exp p" and ?q = "ulp_exp q"
    have "rnd p \<le> of_int (2 ^ 53) * 2 powi ?p"
      unfolding rnd_pos_form(1) [OF assms(1)]
      using rnd_pos_form(3) [OF assms(1)] by (intro mult_right_mono) (simp_all only: of_int_le_iff, simp)
    also have "\<dots> = 2 powi (53 + ?p)" unfolding powi_2_add by simp
    also have "\<dots> \<le> 2 powi (52 + ?q)" using 2 by (intro powi_2_le) simp
    also have "\<dots> = of_int (rne (of_int (2 ^ 52))) * 2 powi ?q"
      unfolding powi_2_add by (simp only: rne_of_int) simp
    also have "\<dots> \<le> of_int (rne (q / 2 powi ?q)) * 2 powi ?q"
    proof -
      have "?q = ilog2 q - 52" using 2 q by (auto simp: ulp_exp_def)
      then have "2 powi (?q + 52) \<le> q" using ilog2_bounds [OF q] by simp
      then have "of_int (2 ^ 52) \<le> q / 2 powi ?q"
        by (simp add: powi_2_add pos_le_divide_eq mult.commute)
      then show ?thesis by (intro mult_right_mono) (simp_all only: of_int_le_iff rne_mono, simp)
    qed
    finally show ?thesis unfolding rnd_pos_form(1) [OF q] .
  qed
qed

lemma rnd_mono: "p \<le> q \<Longrightarrow> rnd p \<le> rnd q"
proof -
  assume pq: "p \<le> q"
  consider "0 < p" | "p \<le> 0" "0 \<le> q" | "q < 0" by linarith
  then show ?thesis
  proof cases
    case 1 then show ?thesis using pq by (rule rnd_mono_pos)
  next
    case 2
    have "0 \<le> rnd (- p)" "0 \<le> rnd q" using 2 by (auto intro!: rnd_nonneg simp del: rnd_uminus)
    then show ?thesis unfolding rnd_uminus by linarith
  next
    case 3
    then have "rnd (- q) \<le> rnd (- p)" using pq by (intro rnd_mono_pos) auto
    then show ?thesis by simp
  qed
qed

section \<open>What the users of the arithmetic rely on\<close>

locale rounding =
  fixes round_to :: "rat \<Rightarrow> rat"
  assumes mono: "p \<le> q \<Longrightarrow> round_to p \<le> round_to q"
    and idem: "round_to (round_to q) = round_to q"
    and odd: "round_to (- q) = - round_to q"
    and one: "round_to 1 = 1"
begin

lemma zero: "round_to 0 = 0"
  using odd [of 0] by simp

lemma nonneg: "0 \<le> q \<Longrightarrow> 0 \<le> round_to q"
  using mono [of 0 q] zero by simp

lemma nonpos: "q \<le> 0 \<Longrightarrow> round_to q \<le> 0"
  using mono [of q 0] zero by simp

text \<open>A bound that is itself representable survives rounding.\<close>

lemma lower: "round_to a = a \<Longrightarrow> a \<le> q \<Longrightarrow> a \<le> round_to q"
  using mono [of a q] by simp

lemma upper: "round_to b = b \<Longrightarrow> q \<le> b \<Longrightarrow> round_to q \<le> b"
  using mono [of q b] by simp

lemma scale_up: "round_to p = p \<Longrightarrow> 0 \<le> p \<Longrightarrow> 1 \<le> f \<Longrightarrow> p \<le> round_to (p * f)"
  using mult_left_mono [of 1 f p] by (intro lower) auto

lemma scale_down: "round_to p = p \<Longrightarrow> 0 \<le> p \<Longrightarrow> f \<le> 1 \<Longrightarrow> round_to (p * f) \<le> p"
  using mult_left_mono [of f 1 p] by (intro upper) auto

lemma one_plus: "0 \<le> x \<Longrightarrow> 1 \<le> round_to (1 + x)"
  using lower [OF one, of "1 + x"] by simp

lemma one_minus: "0 \<le> x \<Longrightarrow> round_to (1 - x) \<le> 1"
  using upper [OF one, of "1 - x"] by simp

lemma add_up: "round_to p = p \<Longrightarrow> 0 \<le> x \<Longrightarrow> p \<le> round_to (p + x)"
  by (rule lower) auto

lemma sub_down: "round_to p = p \<Longrightarrow> 0 \<le> x \<Longrightarrow> round_to (p - x) \<le> p"
  by (rule upper) auto

end

lemma rnd_1 [simp]: "rnd 1 = 1"
  by (rule rnd_dyadic [where m = 1 and e = 0]) auto

interpretation b64: rounding rnd
  by unfold_locales (auto intro: rnd_mono)

lemma rnd_int: "\<bar>n\<bar> \<le> 2 ^ 53 \<Longrightarrow> rnd (of_int n) = of_int n"
  by (rule rnd_dyadic [where m = n and e = 0]) auto

lemma rnd_numeral [float_simps]: "(numeral n :: int) \<le> 2 ^ 53 \<Longrightarrow> rnd (numeral n) = numeral n"
  using rnd_int [of "numeral n"] by simp

section \<open>The type of floats\<close>

datatype flt = Fin rat | PosInf | NegInf | NaN

text \<open>Rounding with overflow: a rounded magnitude of \<open>2 ^ 1024\<close> or more is an infinity.\<close>

definition flr :: "rat \<Rightarrow> flt" where
  "flr q = (let r = rnd q
            in if r = 0 \<or> ilog2 \<bar>r\<bar> < 1024 then Fin r else if 0 < r then PosInf else NegInf)"

text \<open>The values a Python float can have.\<close>

fun is_f64 :: "flt \<Rightarrow> bool" where
  "is_f64 (Fin q) = (flr q = Fin q)"
| "is_f64 _ = True"

fun is_nan :: "flt \<Rightarrow> bool" where
  "is_nan NaN = True"
| "is_nan _ = False"

text \<open>\<open>math.isfinite\<close>.\<close>

fun is_finite :: "flt \<Rightarrow> bool" where
  "is_finite (Fin _) = True"
| "is_finite _ = False"

instantiation flt :: "{zero, one, plus, uminus, minus, times, abs, ord}"
begin

definition zero_flt :: flt where "zero_flt = Fin 0"

definition one_flt :: flt where "one_flt = Fin 1"

fun plus_flt :: "flt \<Rightarrow> flt \<Rightarrow> flt" where
  "plus_flt (Fin a) (Fin b) = flr (a + b)"
| "plus_flt NaN _ = NaN"
| "plus_flt _ NaN = NaN"
| "plus_flt PosInf NegInf = NaN"
| "plus_flt NegInf PosInf = NaN"
| "plus_flt PosInf _ = PosInf"
| "plus_flt _ PosInf = PosInf"
| "plus_flt NegInf _ = NegInf"
| "plus_flt _ NegInf = NegInf"

fun uminus_flt :: "flt \<Rightarrow> flt" where
  "uminus_flt (Fin a) = Fin (- a)"
| "uminus_flt PosInf = NegInf"
| "uminus_flt NegInf = PosInf"
| "uminus_flt NaN = NaN"

definition minus_flt :: "flt \<Rightarrow> flt \<Rightarrow> flt" where
  "minus_flt x y = x + (- y)"

fun times_flt :: "flt \<Rightarrow> flt \<Rightarrow> flt" where
  "times_flt (Fin a) (Fin b) = flr (a * b)"
| "times_flt NaN _ = NaN"
| "times_flt _ NaN = NaN"
| "times_flt (Fin a) PosInf = (if a = 0 then NaN else if 0 < a then PosInf else NegInf)"
| "times_flt (Fin a) NegInf = (if a = 0 then NaN else if 0 < a then NegInf else PosInf)"
| "times_flt PosInf (Fin b) = (if b = 0 then NaN else if 0 < b then PosInf else NegInf)"
| "times_flt NegInf (Fin b) = (if b = 0 then NaN else if 0 < b then NegInf else PosInf)"
| "times_flt PosInf PosInf = PosInf"
| "times_flt PosInf NegInf = NegInf"
| "times_flt NegInf PosInf = NegInf"
| "times_flt NegInf NegInf = PosInf"

fun abs_flt :: "flt \<Rightarrow> flt" where
  "abs_flt (Fin a) = Fin \<bar>a\<bar>"
| "abs_flt NaN = NaN"
| "abs_flt _ = PosInf"

fun less_eq_flt :: "flt \<Rightarrow> flt \<Rightarrow> bool" where
  "less_eq_flt NaN _ = False"
| "less_eq_flt _ NaN = False"
| "less_eq_flt (Fin a) (Fin b) = (a \<le> b)"
| "less_eq_flt NegInf _ = True"
| "less_eq_flt _ PosInf = True"
| "less_eq_flt _ _ = False"

fun less_flt :: "flt \<Rightarrow> flt \<Rightarrow> bool" where
  "less_flt NaN _ = False"
| "less_flt _ NaN = False"
| "less_flt (Fin a) (Fin b) = (a < b)"
| "less_flt NegInf NegInf = False"
| "less_flt NegInf _ = True"
| "less_flt PosInf _ = False"
| "less_flt _ PosInf = True"
| "less_flt _ NegInf = False"

instance ..

end

text \<open>Python's \<open>==\<close>: unlike HOL's equality it is false on NaN.\<close>

definition feq :: "flt \<Rightarrow> flt \<Rightarrow> bool" where
  "feq x y \<longleftrightarrow> x = y \<and> x \<noteq> NaN"

text \<open>Python's \<open>/\<close>.\<close>

fun fdiv :: "flt \<Rightarrow> flt \<Rightarrow> flt result" where
  "fdiv x (Fin b) =
     (if b = 0 then Inl ZeroDivisionError
      else Inr (case x of
          Fin a \<Rightarrow> flr (a / b)
        | PosInf \<Rightarrow> (if 0 < b then PosInf else NegInf)
        | NegInf \<Rightarrow> (if 0 < b then NegInf else PosInf)
        | NaN \<Rightarrow> NaN))"
| "fdiv (Fin a) PosInf = Inr (Fin 0)"
| "fdiv (Fin a) NegInf = Inr (Fin 0)"
| "fdiv _ _ = Inr NaN"

text \<open>Python's two-argument \<open>max\<close> and \<open>min\<close>: the first argument unless the second is better.\<close>

definition py_max :: "flt \<Rightarrow> flt \<Rightarrow> flt" where
  "py_max x y = (if x < y then y else x)"

definition py_min :: "flt \<Rightarrow> flt \<Rightarrow> flt" where
  "py_min x y = (if y < x then y else x)"

text \<open>
  \<open>round(x, n)\<close>: the exact binary value is rounded to \<open>n\<close> decimals with ties to even and the
  result is converted to the nearest float.
\<close>

fun py_round :: "nat \<Rightarrow> flt \<Rightarrow> flt" where
  "py_round n (Fin q) = flr (of_int (rne (q * 10 ^ n)) / 10 ^ n)"
| "py_round n x = x"

text \<open>\<open>float(i)\<close> of an integer.\<close>

definition float_of_int :: "int \<Rightarrow> flt result" where
  "float_of_int i = (case flr (of_int i) of Fin q \<Rightarrow> Inr (Fin q) | _ \<Rightarrow> Inl OverflowError)"

text \<open>\<open>math.isclose(a, b, rel_tol=r)\<close> with the default absolute tolerance 0.\<close>

definition isclose :: "flt \<Rightarrow> flt \<Rightarrow> flt \<Rightarrow> bool" where
  "isclose r a b =
     (if feq a b then True
      else if a = PosInf \<or> a = NegInf \<or> b = PosInf \<or> b = NegInf then False
      else (let diff = \<bar>b - a\<bar> in diff \<le> \<bar>r * b\<bar> \<or> diff \<le> \<bar>r * a\<bar> \<or> diff \<le> 0))"

section \<open>Laws of the operations\<close>

definition max_bound :: rat where
  "max_bound = 2 ^ 1024"

lemma max_bound_pos [simp]: "0 < max_bound" "1 < max_bound"
  by (simp_all add: max_bound_def one_less_power)

lemma ilog2_less_iff:
  assumes "0 < q"
  shows "ilog2 q < k \<longleftrightarrow> q < 2 powi k"
proof
  assume "ilog2 q < k"
  then have "(2::rat) powi (ilog2 q + 1) \<le> 2 powi k" by (intro powi_2_le) simp
  then show "q < 2 powi k" using ilog2_bounds [OF assms] by linarith
next
  assume "q < 2 powi k"
  then have "(2::rat) powi (ilog2 q) < 2 powi k" using ilog2_bounds [OF assms] by linarith
  then show "ilog2 q < k" unfolding powi_2_less_iff .
qed

lemma flr_alt:
  "flr q = (if max_bound \<le> rnd q then PosInf
            else if rnd q \<le> - max_bound then NegInf else Fin (rnd q))"
proof -
  let ?r = "rnd q"
  have "?r \<noteq> 0 \<Longrightarrow> ilog2 \<bar>?r\<bar> < 1024 \<longleftrightarrow> \<bar>?r\<bar> < max_bound"
    using ilog2_less_iff [of "\<bar>?r\<bar>" 1024] by (simp add: max_bound_def)
  then have "(?r = 0 \<or> ilog2 \<bar>?r\<bar> < 1024) = (\<bar>?r\<bar> < max_bound)"
    using max_bound_pos(1) by (cases "?r = 0") simp_all
  moreover have "\<bar>?r\<bar> < max_bound \<longleftrightarrow> \<not> max_bound \<le> ?r \<and> \<not> ?r \<le> - max_bound"
    by linarith
  moreover have "max_bound \<le> ?r \<Longrightarrow> 0 < ?r" and "?r \<le> - max_bound \<Longrightarrow> \<not> 0 < ?r"
    using max_bound_pos(1) by linarith+
  ultimately show ?thesis by (simp add: flr_def Let_def)
qed

lemma flr_not_NaN [simp]: "flr q \<noteq> NaN" "NaN \<noteq> flr q"
  by (simp_all add: flr_alt)

lemma flr_0 [simp]: "flr 0 = Fin 0"
  by (simp add: flr_def)

lemma flr_Fin: "flr q = Fin r \<Longrightarrow> r = rnd q"
  by (simp add: flr_alt split: if_splits)

lemma flr_uminus: "flr (- q) = - flr q"
  by (auto simp: flr_alt) (use max_bound_pos(1) in linarith)+

lemma is_f64_flr [simp]: "is_f64 (flr q)"
  by (simp add: flr_alt)

lemma is_f64_Fin: "is_f64 (Fin q) \<Longrightarrow> rnd q = q"
  using flr_Fin [of q q] by simp

lemma flr_int [float_simps]: "\<bar>n\<bar> \<le> 2 ^ 53 \<Longrightarrow> flr (of_int n) = Fin (of_int n)"
proof -
  assume a: "\<bar>n\<bar> \<le> 2 ^ 53"
  have "(2::rat) ^ 53 < max_bound" unfolding max_bound_def by (rule power_strict_increasing) auto
  moreover have "\<bar>of_int n\<bar> \<le> (2::rat) ^ 53"
    using a by (metis of_int_abs of_int_le_iff of_int_numeral of_int_power)
  ultimately have "\<bar>of_int n\<bar> < max_bound" by linarith
  then show ?thesis using rnd_int [OF a] by (simp add: flr_alt abs_less_iff)
qed

lemma flr_numeral [float_simps]: "(numeral n :: int) \<le> 2 ^ 53 \<Longrightarrow> flr (numeral n) = Fin (numeral n)"
  using flr_int [of "numeral n"] by simp

lemma flr_1 [simp]: "flr 1 = Fin 1"
  using flr_int [of 1] by simp

section \<open>Evaluation on integers\<close>

text \<open>
  Code equations for \<open>rnd\<close> and \<open>flr\<close> that work on the numerator and the denominator only, leave a
  dyadic number with a short significand as it is, and store every result as an evaluated fraction
  \<open>fraction n d\<close> (rationals are an abstract type for the code generator, so that sums and products
  would stay symbolic otherwise).
\<close>

definition fraction :: "int \<Rightarrow> int \<Rightarrow> rat" where
  "fraction n d = of_int n / of_int d"

definition is_pow2 :: "int \<Rightarrow> bool" where
  "is_pow2 d \<longleftrightarrow> d = 1 \<or> d = 2 ^ nat (bit_length d - 1)"

lemma fraction_code [code abstract]:
  "quotient_of (fraction n d) = (if odd n \<and> is_pow2 d then (n, d) else Rat.normalize (n, d))"
proof -
  have f: "fraction n d = Fract n d" by (simp add: fraction_def Fract_of_int_quotient)
  have "quotient_of (Fract n d) = (n, d)" if "odd n" "is_pow2 d"
  proof -
    obtain k where d: "d = 2 ^ k" using \<open>is_pow2 d\<close> unfolding is_pow2_def by (metis power_0)
    have "coprime n d" using \<open>odd n\<close> unfolding d by simp
    then show ?thesis unfolding d by (simp add: quotient_of_Fract Rat.normalize_def)
  qed
  then show ?thesis by (simp add: f quotient_of_Fract)
qed

definition evaluated :: "rat \<Rightarrow> rat" where
  "evaluated q = (case quotient_of q of (n, d) \<Rightarrow> if d = 1 then of_int n else fraction n d)"

lemma evaluated: "evaluated q = q"
  by (cases "quotient_of q") (simp add: evaluated_def fraction_def quotient_of_div [of q])

definition rne_div :: "int \<Rightarrow> int \<Rightarrow> int" where
  "rne_div a b = (let f = a div b; r = 2 * (a mod b)
                  in if r < b \<or> (r = b \<and> even f) then f else f + 1)"

lemma rne_fraction: "0 < b \<Longrightarrow> rne (of_int a / of_int b) = rne_div a b"
proof -
  assume b: "0 < b"
  have f: "\<lfloor>of_int a / of_int b :: rat\<rfloor> = a div b" by (rule floor_divide_of_int_eq)
  have "(of_int a :: rat) = of_int (a div b) * of_int b + of_int (a mod b)"
    by (metis div_mult_mod_eq of_int_add of_int_mult)
  then have r: "(of_int a :: rat) / of_int b - of_int (a div b) = of_int (a mod b) / of_int b"
    using b by (simp add: field_simps)
  have "of_int (a mod b) / of_int b < (1/2 :: rat) \<longleftrightarrow> 2 * of_int (a mod b) < (of_int b :: rat)"
    and "of_int (a mod b) / of_int b = (1/2 :: rat) \<longleftrightarrow> 2 * of_int (a mod b) = (of_int b :: rat)"
    using b by (auto simp: field_simps)
  moreover have "2 * of_int (a mod b) < (of_int b :: rat) \<longleftrightarrow> 2 * (a mod b) < b"
    by (metis of_int_less_iff of_int_mult of_int_numeral)
  moreover have "2 * of_int (a mod b) = (of_int b :: rat) \<longleftrightarrow> 2 * (a mod b) = b"
    by (metis of_int_eq_iff of_int_mult of_int_numeral)
  ultimately show ?thesis unfolding rne_def rne_div_def Let_def f r by simp
qed

definition ilog2_div :: "int \<Rightarrow> int \<Rightarrow> int" where
  "ilog2_div n d =
     (let k = bit_length n - bit_length d
      in if (if 0 \<le> k then d * 2 ^ nat k \<le> n else d \<le> n * 2 ^ nat (- k)) then k else k - 1)"

lemma powi_2_split:
  "(2::rat) powi e = (if 0 \<le> e then of_int (2 ^ nat e) else 1 / of_int (2 ^ nat (- e)))"
  by (simp add: power_int_def field_simps)

lemma ilog2_fraction:
  assumes "quotient_of q = (n, d)"
  shows "ilog2 q = ilog2_div n d"
proof -
  have d: "0 < d" using assms by (rule quotient_of_denom_pos)
  have q: "q = of_int n / of_int d" using assms by (rule quotient_of_div)
  have "2 powi k \<le> q \<longleftrightarrow> (if 0 \<le> k then d * 2 ^ nat k \<le> n else d \<le> n * 2 ^ nat (- k))" for k
  proof -
    have "(of_int (d * 2 ^ nat k) :: rat) \<le> of_int n \<longleftrightarrow> d * 2 ^ nat k \<le> n"
      "(of_int d :: rat) \<le> of_int (n * 2 ^ nat (- k)) \<longleftrightarrow> d \<le> n * 2 ^ nat (- k)"
      by (rule of_int_le_iff)+
    then show ?thesis using d unfolding powi_2_split q by (auto simp: field_simps)
  qed
  then show ?thesis by (simp add: ilog2_def ilog2_div_def assms)
qed

lemma rnd_code [code]:
  "rnd q = (case quotient_of q of (n, d) \<Rightarrow>
     if n = 0 then 0 else
       let e = max (- 1074) (ilog2_div \<bar>n\<bar> d - 52)
       in if 0 \<le> e then of_int (rne_div n (d * 2 ^ nat e) * 2 ^ nat e)
          else evaluated (of_int (rne_div (n * 2 ^ nat (- e)) d) / of_int (2 ^ nat (- e))))"
proof -
  obtain n d where nd: "quotient_of q = (n, d)" by force
  have d: "0 < d" using nd by (rule quotient_of_denom_pos)
  have q: "q = of_int n / of_int d" using nd by (rule quotient_of_div)
  have "quotient_of \<bar>q\<bar> = (\<bar>n\<bar>, d)" using nd by (simp add: rat_abs_code)
  then have e: "ulp_exp q = max (- 1074) (ilog2_div \<bar>n\<bar> d - 52)"
    by (simp add: ulp_exp_def ilog2_fraction)
  have n: "q = 0 \<longleftrightarrow> n = 0" using d unfolding q by simp
  define u where "u = ulp_exp q"
  have "q / 2 powi u = (if 0 \<le> u then of_int n / of_int (d * 2 ^ nat u)
                        else of_int (n * 2 ^ nat (- u)) / of_int d)"
    unfolding powi_2_split q by simp
  then have "rne (q / 2 powi u) = (if 0 \<le> u then rne_div n (d * 2 ^ nat u)
                        else rne_div (n * 2 ^ nat (- u)) d)"
    using d by (simp add: rne_fraction del: of_int_mult of_int_power)
  then show ?thesis
    using n unfolding rnd_def nd Let_def prod.case u_def [symmetric] e [symmetric]
    by (simp add: powi_2_split evaluated)
qed

lemma flr_dyadic_fraction:
  assumes "quotient_of q = (n, d)" "\<bar>n\<bar> \<le> 2 ^ 53" "d = 2 ^ nat k" "k \<le> 1074"
  shows "flr q = Fin q"
proof -
  have q: "q = of_int n / of_int d" using assms(1) by (rule quotient_of_div)
  define j where "j = int (nat k)"
  have "d = 2 ^ nat j" "0 \<le> j" "j \<le> 1074" using assms by (auto simp: j_def)
  then have "q = of_int n * 2 powi (- j)" unfolding q powi_2_split by auto
  then have r: "rnd q = q" using assms(2) \<open>j \<le> 1074\<close> by (intro rnd_dyadic) auto
  have d: "1 \<le> d" using quotient_of_denom_pos [OF assms(1)] by simp
  have "\<bar>q\<bar> \<le> of_int \<bar>n\<bar>" unfolding q using d by (simp add: divide_le_eq abs_divide mult_le_cancel_left1)
  also have "\<dots> \<le> 2 ^ 53" using assms(2) by (metis of_int_le_iff of_int_numeral of_int_power)
  also have "\<dots> < max_bound" unfolding max_bound_def by (rule power_strict_increasing) auto
  finally show ?thesis using r by (simp add: flr_alt abs_less_iff)
qed

lemma flr_code [code]:
  "flr q = (case quotient_of q of (n, d) \<Rightarrow>
     if \<bar>n\<bar> \<le> 9007199254740992 \<and> is_pow2 d \<and> bit_length d \<le> 1075
     then Fin (if d = 1 then of_int n else fraction n d)
     else let r = rnd q
          in if ilog2_div \<bar>n\<bar> d < 1000 \<or> r = 0 \<or> ilog2 \<bar>r\<bar> < 1024 then Fin r
             else if 0 < r then PosInf else NegInf)"
proof -
  obtain n d where nd: "quotient_of q = (n, d)" by force
  have "ilog2_div \<bar>n\<bar> d < 1000 \<Longrightarrow> flr q = Fin (rnd q)"
  proof -
    have "quotient_of \<bar>q\<bar> = (\<bar>n\<bar>, d)" using nd by (simp add: rat_abs_code)
    moreover assume "ilog2_div \<bar>n\<bar> d < 1000"
    ultimately have l: "ilog2 \<bar>q\<bar> < 1000" by (simp add: ilog2_fraction)
    have "\<bar>q\<bar> \<le> 2 powi 1000"
      using ilog2_less_iff [of "\<bar>q\<bar>" 1000] l by (cases "q = 0") auto
    moreover have p: "rnd (2 powi 1000) = 2 powi 1000" by (rule rnd_dyadic [where m = 1 and e = 1000]) auto
    ultimately have "rnd q \<le> 2 powi 1000" "rnd (- q) \<le> 2 powi 1000"
      using rnd_mono [of q "2 powi 1000"] rnd_mono [of "- q" "2 powi 1000"] by (simp_all only: p abs_le_iff)
    moreover have "(2::rat) powi 1000 < max_bound"
      using powi_2_less [of 1000 1024] by (simp add: max_bound_def)
    ultimately show ?thesis by (simp add: flr_alt)
  qed
  moreover have "flr q = Fin q" if "\<bar>n\<bar> \<le> 9007199254740992" "is_pow2 d" "bit_length d \<le> 1075"
    using flr_dyadic_fraction [OF nd, of 0] flr_dyadic_fraction [OF nd, of "bit_length d - 1"] that
    by (auto simp: is_pow2_def)
  moreover have e: "(if d = 1 then of_int n else fraction n d) = q"
    using evaluated [of q] by (simp add: evaluated_def nd)
  moreover have "rnd q = 0 \<or> ilog2 \<bar>rnd q\<bar> < 1024 \<Longrightarrow> flr q = Fin (rnd q)"
    and "\<not> (rnd q = 0 \<or> ilog2 \<bar>rnd q\<bar> < 1024) \<Longrightarrow> flr q = (if 0 < rnd q then PosInf else NegInf)"
    by (simp_all add: flr_def)
  ultimately show ?thesis unfolding nd prod.case Let_def e by presburger
qed

lemma uminus_flt_code [code]:
  "- Fin a = Fin (evaluated (- a))" "- PosInf = NegInf" "- NegInf = PosInf" "- NaN = NaN"
  by (simp_all add: evaluated)

lemma abs_flt_code [code]:
  "\<bar>Fin a\<bar> = Fin (evaluated \<bar>a\<bar>)" "\<bar>PosInf\<bar> = PosInf" "\<bar>NegInf\<bar> = PosInf" "\<bar>NaN\<bar> = NaN"
  by (simp_all add: evaluated)

lemma rne_code [code]: "rne x = (case quotient_of x of (n, d) \<Rightarrow> rne_div n d)"
proof -
  obtain n d where nd: "quotient_of x = (n, d)" by force
  have "rne (of_int n / of_int d) = rne_div n d" using nd by (intro rne_fraction quotient_of_denom_pos)
  then show ?thesis by (simp only: nd prod.case quotient_of_div [OF nd, symmetric])
qed

lemma is_f64_consts [simp]: "is_f64 0" "is_f64 1"
  by (simp_all add: zero_flt_def one_flt_def)

lemma is_f64_plus [simp]: "is_f64 (x + y)"
  by (cases x; cases y) simp_all

lemma is_f64_times [simp]: "is_f64 (x * y)"
  by (cases x; cases y) simp_all

lemma is_f64_uminus [simp]: "is_f64 x \<Longrightarrow> is_f64 (- x)"
  by (cases x) (simp_all add: flr_uminus)

lemma is_f64_minus [simp]: "is_f64 (x - y)"
  by (simp add: minus_flt_def)

lemma is_f64_abs [simp]: "is_f64 x \<Longrightarrow> is_f64 \<bar>x\<bar>"
  by (cases x) (auto simp: abs_if flr_uminus)

lemma is_f64_fdiv: "fdiv x y = Inr z \<Longrightarrow> is_f64 z"
  by (cases x; cases y) (auto split: if_splits)

lemma is_f64_py_round [simp]: "is_f64 x \<Longrightarrow> is_f64 (py_round n x)"
  by (cases x) simp_all

section \<open>Order\<close>

lemma flt_le_not_NaN: "x \<le> y \<Longrightarrow> x \<noteq> NaN \<and> y \<noteq> NaN" for x y :: flt
  by (cases x; cases y) simp_all

lemma flt_less_not_NaN: "x < y \<Longrightarrow> x \<noteq> NaN \<and> y \<noteq> NaN" for x y :: flt
  by (cases x; cases y) simp_all

lemma flt_NaN_order [simp]:
  "\<not> NaN \<le> x" "\<not> x \<le> NaN" "\<not> NaN < x" "\<not> x < NaN" for x :: flt
  by (cases x; simp)+

lemma flt_refl: "x \<noteq> NaN \<Longrightarrow> x \<le> x" for x :: flt
  by (cases x) simp_all

lemma flt_le_refl_iff [simp]: "x \<le> x \<longleftrightarrow> x \<noteq> NaN" for x :: flt
  by (cases x) simp_all

lemma flt_less_irrefl [simp]: "\<not> x < x" for x :: flt
  by (cases x) simp_all

lemma flt_trans [trans]: "x \<le> y \<Longrightarrow> y \<le> z \<Longrightarrow> x \<le> z" for x y z :: flt
  by (cases x; cases y; cases z) simp_all

lemma flt_less_trans [trans]: "x < y \<Longrightarrow> y < z \<Longrightarrow> x < z" for x y z :: flt
  by (cases x; cases y; cases z) simp_all

lemma flt_le_less_trans [trans]: "x \<le> y \<Longrightarrow> y < z \<Longrightarrow> x < z" for x y z :: flt
  by (cases x; cases y; cases z) simp_all

lemma flt_less_le_trans [trans]: "x < y \<Longrightarrow> y \<le> z \<Longrightarrow> x < z" for x y z :: flt
  by (cases x; cases y; cases z) simp_all

lemma flt_less_imp_le: "x < y \<Longrightarrow> x \<le> y" for x y :: flt
  by (cases x; cases y) simp_all

lemma flt_not_less: "x \<noteq> NaN \<Longrightarrow> y \<noteq> NaN \<Longrightarrow> \<not> x < y \<longleftrightarrow> y \<le> x" for x y :: flt
  by (cases x; cases y) auto

lemma flt_not_le: "x \<noteq> NaN \<Longrightarrow> y \<noteq> NaN \<Longrightarrow> \<not> x \<le> y \<longleftrightarrow> y < x" for x y :: flt
  by (cases x; cases y) auto

lemma flt_less_asym: "x < y \<Longrightarrow> \<not> y \<le> x" "x < y \<Longrightarrow> \<not> y < x" for x y :: flt
  by (cases x; cases y; simp)+

lemma flt_antisym: "x \<le> y \<Longrightarrow> y \<le> x \<Longrightarrow> x = y" for x y :: flt
  by (cases x; cases y) auto

lemma feq_refl [simp]: "feq x x \<longleftrightarrow> x \<noteq> NaN"
  by (simp add: feq_def)

lemma isclose_refl: "a \<noteq> NaN \<Longrightarrow> isclose r a a"
  by (simp add: isclose_def)

lemma flr_mono: "p \<le> q \<Longrightarrow> flr p \<le> flr q"
  using rnd_mono [of p q] max_bound_pos(1) by (auto simp: flr_alt)

lemma flr_le_upper: "is_f64 (Fin b) \<Longrightarrow> q \<le> b \<Longrightarrow> flr q \<le> Fin b"
  using flr_mono [of q b] by simp

lemma flr_ge_lower: "is_f64 (Fin a) \<Longrightarrow> a \<le> q \<Longrightarrow> Fin a \<le> flr q"
  using flr_mono [of a q] by simp

lemma flt_abs_nonneg: "x \<noteq> NaN \<Longrightarrow> 0 \<le> \<bar>x\<bar>" for x :: flt
  by (cases x) (simp_all add: zero_flt_def)

lemma flt_abs_NaN [simp]: "\<bar>x\<bar> = NaN \<longleftrightarrow> x = NaN" for x :: flt
  by (cases x) simp_all

lemma flt_uminus_NaN [simp]: "- x = NaN \<longleftrightarrow> x = NaN" for x :: flt
  by (cases x) simp_all

lemma flt_uminus_less_0 [simp]: "- x < 0 \<longleftrightarrow> 0 < x" "0 < - x \<longleftrightarrow> x < 0" for x :: flt
  by (cases x; simp add: zero_flt_def)+

lemma flt_abs_of_pos: "0 < x \<Longrightarrow> \<bar>x\<bar> = x" for x :: flt
  by (cases x) (simp_all add: zero_flt_def)

lemma flt_abs_of_neg: "x < 0 \<Longrightarrow> \<bar>x\<bar> = - x" for x :: flt
  by (cases x) (simp_all add: zero_flt_def)

text \<open>Costs and slippage move a price in one direction only, also after rounding.\<close>

lemma flt_scale_up: "is_f64 p \<Longrightarrow> 0 < p \<Longrightarrow> 1 \<le> f \<Longrightarrow> p \<le> p * f"
proof (cases p; cases f)
  fix a b assume a: "is_f64 p" "0 < p" "1 \<le> f" "p = Fin a" "f = Fin b"
  then have "a \<le> a * b" using mult_left_mono [of 1 b a] by (simp add: zero_flt_def one_flt_def)
  then show ?thesis using a by (auto intro: flr_ge_lower)
qed (auto simp: zero_flt_def one_flt_def)

lemma flt_scale_down: "is_f64 p \<Longrightarrow> 0 < p \<Longrightarrow> is_finite p \<Longrightarrow> f \<le> 1 \<Longrightarrow> p * f \<le> p"
proof (cases p; cases f)
  fix a b assume a: "is_f64 p" "0 < p" "f \<le> 1" "p = Fin a" "f = Fin b"
  then have "a * b \<le> a" using mult_left_mono [of b 1 a] by (simp add: zero_flt_def one_flt_def)
  then show ?thesis using a by (auto intro: flr_le_upper)
qed (auto simp: zero_flt_def one_flt_def)

lemma flt_one_plus: "0 \<le> x \<Longrightarrow> 1 \<le> 1 + x" for x :: flt
  by (cases x) (auto simp: zero_flt_def one_flt_def intro: flr_ge_lower)

lemma flt_one_minus: "0 \<le> x \<Longrightarrow> 1 - x \<le> 1" for x :: flt
  by (cases x) (auto simp: zero_flt_def one_flt_def minus_flt_def intro: flr_le_upper)

lemma flt_times_nonneg: "0 \<le> x \<Longrightarrow> 0 \<le> y \<Longrightarrow> x * y \<noteq> NaN \<Longrightarrow> 0 \<le> x * y" for x y :: flt
  by (cases x; cases y) (auto simp: zero_flt_def intro: flr_ge_lower split: if_splits)

lemma flt_fdiv_nonneg: "fdiv x y = Inr z \<Longrightarrow> 0 \<le> x \<Longrightarrow> 0 \<le> y \<Longrightarrow> z \<noteq> NaN \<Longrightarrow> 0 \<le> z"
  by (cases x; cases y) (auto simp: zero_flt_def intro!: flr_ge_lower split: if_splits)

lemma flt_sub_down: "is_f64 x \<Longrightarrow> 0 \<le> y \<Longrightarrow> x - y \<noteq> NaN \<Longrightarrow> x - y \<le> x" for x y :: flt
  by (cases x; cases y) (auto simp: zero_flt_def minus_flt_def intro: flr_le_upper)

lemma flt_add_up: "is_f64 x \<Longrightarrow> 0 \<le> y \<Longrightarrow> x + y \<noteq> NaN \<Longrightarrow> x \<le> x + y" for x y :: flt
  by (cases x; cases y) (auto simp: zero_flt_def intro: flr_ge_lower)

lemma fdiv_pos_total: "0 < y \<Longrightarrow> \<exists>z. fdiv x y = Inr z"
  by (cases x; cases y) (auto simp: zero_flt_def)

lemma py_max_cases: "py_max x y = x \<or> py_max x y = y"
  by (simp add: py_max_def)

lemma py_max_ge: "x \<noteq> NaN \<Longrightarrow> x \<le> py_max x y"
  by (simp add: py_max_def flt_less_imp_le)

lemma py_min_le: "x \<noteq> NaN \<Longrightarrow> py_min x y \<le> x"
  by (simp add: py_min_def flt_less_imp_le)

section \<open>Rounding to decimals and NaN\<close>

lemma zero_not_NaN [simp]: "(0::flt) \<noteq> NaN"
  by (simp add: zero_flt_def)

lemma py_round_mono: "x \<le> y \<Longrightarrow> py_round n x \<le> py_round n y"
proof (cases x; cases y)
  fix p q assume "x \<le> y" "x = Fin p" "y = Fin q"
  then have "rne (p * 10 ^ n) \<le> rne (q * 10 ^ n)" by (intro rne_mono) simp
  then show ?thesis using \<open>x = Fin p\<close> \<open>y = Fin q\<close>
    by (simp add: flr_mono divide_right_mono)
next
  fix p assume "x \<le> y" "x = Fin p" "y = PosInf"
  then show ?thesis by (cases "flr (of_int (rne (p * 10 ^ n)) / 10 ^ n)") simp_all
next
  fix q assume "x \<le> y" "x = NegInf" "y = Fin q"
  then show ?thesis by (cases "flr (of_int (rne (q * 10 ^ n)) / 10 ^ n)") simp_all
qed simp_all

lemma py_round_zero [simp]: "py_round n 0 = 0"
  using rne_of_int [of 0] by (simp add: zero_flt_def)

lemma py_round_NaN [simp]: "py_round n x = NaN \<longleftrightarrow> x = NaN"
  by (cases x) simp_all

lemma py_round_nonneg: "0 \<le> x \<Longrightarrow> 0 \<le> py_round n x"
  using py_round_mono [of 0 x n] by simp

lemma flt_NaN_arith [simp]:
  "x + NaN = NaN" "NaN + x = NaN" "x - NaN = NaN" "NaN - x = NaN" "x * NaN = NaN" "NaN * x = NaN"
  by (cases x; simp add: minus_flt_def)+

lemma flt_minus_nonneg: "v \<le> p \<Longrightarrow> p - v \<noteq> NaN \<Longrightarrow> 0 \<le> p - v" for v p :: flt
  using flr_mono [of 0] by (cases v; cases p) (auto simp: minus_flt_def zero_flt_def)

end
