(* ===== verification/PyVal.thy ===== *)
theory PyVal
  imports PyFloat
begin

text \<open>
  Dynamically typed Python values and the parts of \<open>str\<close>, \<open>float\<close>, \<open>bool\<close> and \<open>format\<close> the code
  applies to them.

    - \<open>pyval\<close> has a constructor per type a bar, a strategy literal or a parameter can hold.
    - \<open>truthy\<close> is \<open>bool(x)\<close>; \<open>py_float\<close> is \<open>float(x)\<close> with its three exceptions; \<open>parse_float\<close>
      is the text grammar of \<open>float\<close>; \<open>py_str\<close> is \<open>str(x)\<close>, \<open>float_repr\<close> the shortest
      representation that reads back as the same float; \<open>fmt_fixed\<close> is the format \<open>.nf\<close>.
    - Text is a list of characters; only ASCII text is given a meaning here.
\<close>

section \<open>Text\<close>

definition digits10 :: string where
  "digits10 = ''0123456789''"

definition is_digit :: "char \<Rightarrow> bool" where
  "is_digit c \<longleftrightarrow> c \<in> set digits10"

definition digit_val :: "char \<Rightarrow> int" where
  "digit_val c = (of_char c :: int) - 48"

text \<open>The characters C's \<open>isspace\<close> accepts.\<close>

definition is_space :: "char \<Rightarrow> bool" where
  "is_space c = (let n = (of_char c :: int) in (9 \<le> n \<and> n \<le> 13) \<or> n = 32)"

definition py_strip :: "string \<Rightarrow> string" where
  "py_strip s = rev (dropWhile is_space (rev (dropWhile is_space s)))"

text \<open>\<open>str.strip\<close>, which also removes the separators 28 to 31 and two Latin-1 spaces.\<close>

definition is_py_space :: "char \<Rightarrow> bool" where
  "is_py_space c =
     (let n = (of_char c :: int)
      in (9 \<le> n \<and> n \<le> 13) \<or> (28 \<le> n \<and> n \<le> 32) \<or> n = 133 \<or> n = 160)"

definition str_strip :: "string \<Rightarrow> string" where
  "str_strip s = rev (dropWhile is_py_space (rev (dropWhile is_py_space s)))"

definition lower_char :: "char \<Rightarrow> char" where
  "lower_char c = (let n = (of_char c :: int) in if 65 \<le> n \<and> n \<le> 90 then char_of (n + 32) else c)"

definition py_lower :: "string \<Rightarrow> string" where
  "py_lower s = map lower_char s"

definition upper_char :: "char \<Rightarrow> char" where
  "upper_char c = (let n = (of_char c :: int) in if 97 \<le> n \<and> n \<le> 122 then char_of (n - 32) else c)"

definition py_upper :: "string \<Rightarrow> string" where
  "py_upper s = map upper_char s"

text \<open>\<open>str.startswith\<close>, \<open>str.endswith\<close> and \<open>str.isdigit\<close>.\<close>

definition starts_with :: "string \<Rightarrow> string \<Rightarrow> bool" where
  "starts_with p s \<longleftrightarrow> take (length p) s = p"

definition ends_with :: "string \<Rightarrow> string \<Rightarrow> bool" where
  "ends_with p s \<longleftrightarrow> starts_with (rev p) (rev s)"

definition is_number :: "string \<Rightarrow> bool" where
  "is_number s \<longleftrightarrow> s \<noteq> [] \<and> list_all is_digit s"

text \<open>The value of a string of decimal digits, most significant first.\<close>

definition digits_value :: "string \<Rightarrow> int" where
  "digits_value s = fold (\<lambda>c n. 10 * n + digit_val c) s 0"

function show_pos :: "int \<Rightarrow> string \<Rightarrow> string" where
  "show_pos n acc =
     (if n < 10 then digits10 ! nat n # acc
      else show_pos (n div 10) (digits10 ! nat (n mod 10) # acc))"
  by pat_completeness auto
termination by (relation "measure (\<lambda>(n, _). nat n)") auto

declare show_pos.simps [simp del]

definition show_int :: "int \<Rightarrow> string" where
  "show_int n = (if n < 0 then ''-'' @ show_pos (- n) [] else show_pos n [])"

definition pad_left :: "nat \<Rightarrow> char \<Rightarrow> string \<Rightarrow> string" where
  "pad_left w c s = replicate (w - length s) c @ s"

section \<open>Formatting floats\<close>

text \<open>\<open>format(x, '.nf')\<close> for \<open>n > 0\<close>.\<close>

fun fmt_fixed :: "nat \<Rightarrow> flt \<Rightarrow> string" where
  "fmt_fixed n (Fin q) =
     (let m = rne (\<bar>q\<bar> * 10 ^ n); s = pad_left (Suc n) CHR ''0'' (show_int m);
          k = length s - n
      in (if q < 0 then ''-'' else '''') @ take k s @ ''.'' @ drop k s)"
| "fmt_fixed n PosInf = ''inf''"
| "fmt_fixed n NegInf = ''-inf''"
| "fmt_fixed n NaN = ''nan''"

text \<open>
  \<open>decimal_exp q\<close> is the \<open>k\<close> with \<open>10 ^ (k - 1) \<le> q < 10 ^ k\<close>, found by moving a first guess.
\<close>

definition pow10 :: "int \<Rightarrow> rat" where
  "pow10 k = (if 0 \<le> k then 10 ^ nat k else 1 / 10 ^ nat (- k))"

definition decimal_exp :: "rat \<Rightarrow> int" where
  "decimal_exp q =
     (let g = ilog2 q * 3 div 10 - 1
      in fold (\<lambda>_ k. if pow10 k \<le> q then k + 1 else k) [0..7 + \<bar>ilog2 q\<bar> div 300] g)"

text \<open>The shortest digit string, nearest to the value, that reads back as the same float.\<close>

fun shortest :: "nat \<Rightarrow> rat \<Rightarrow> int \<Rightarrow> nat \<Rightarrow> int" where
  "shortest 0 q k n = rne (q * pow10 (int n - k))"
| "shortest (Suc f) q k n =
     (let m = rne (q * pow10 (int n - k))
      in if flr (of_int m / pow10 (int n - k)) = Fin q then m * 10 ^ (17 - n)
         else shortest f q k (Suc n))"

definition strip_zeros :: "string \<Rightarrow> string" where
  "strip_zeros s = rev (dropWhile (\<lambda>c. c = CHR ''0'') (rev s))"

definition repr_pos :: "rat \<Rightarrow> string" where
  "repr_pos q =
     (let k0 = decimal_exp q; m = shortest 16 q k0 1;
          k = (if 10 ^ 17 \<le> m then k0 + 1 else k0);
          ds = strip_zeros (show_int m); n = int (length ds)
      in if - 4 < k \<and> k \<le> 16
         then (if k \<le> 0 then ''0.'' @ replicate (nat (- k)) CHR ''0'' @ ds
               else if n \<le> k then ds @ replicate (nat (k - n)) CHR ''0'' @ ''.0''
               else take (nat k) ds @ ''.'' @ drop (nat k) ds)
         else take 1 ds @ (if n = 1 then '''' else ''.'' @ drop 1 ds) @ ''e''
              @ (if k - 1 < 0 then ''-'' else ''+'') @ pad_left 2 CHR ''0'' (show_int \<bar>k - 1\<bar>))"

fun float_repr :: "flt \<Rightarrow> string" where
  "float_repr (Fin q) =
     (if q = 0 then ''0.0'' else if q < 0 then ''-'' @ repr_pos (- q) else repr_pos q)"
| "float_repr PosInf = ''inf''"
| "float_repr NegInf = ''-inf''"
| "float_repr NaN = ''nan''"

section \<open>Reading floats\<close>

text \<open>Underscores may stand between two digits and nowhere else.\<close>

fun underscores_ok :: "char option \<Rightarrow> string \<Rightarrow> bool" where
  "underscores_ok p [] = True"
| "underscores_ok p (c # s) =
     ((c = CHR ''_'' \<longrightarrow>
         (case p of Some d \<Rightarrow> is_digit d | None \<Rightarrow> False) \<and>
         (case s of d # _ \<Rightarrow> is_digit d | [] \<Rightarrow> False)) \<and>
      underscores_ok (Some c) s)"

definition split_sign :: "string \<Rightarrow> bool \<times> string" where
  "split_sign s =
     (case s of c # r \<Rightarrow> if c = CHR ''-'' then (True, r) else if c = CHR ''+'' then (False, r) else (False, s)
      | [] \<Rightarrow> (False, s))"

definition parse_exponent :: "string \<Rightarrow> int option" where
  "parse_exponent s =
     (case s of
        [] \<Rightarrow> Some 0
      | c # r \<Rightarrow>
          if c = CHR ''e'' \<or> c = CHR ''E''
          then (case split_sign r of (neg, ds) \<Rightarrow>
                  if ds \<noteq> [] \<and> list_all is_digit ds
                  then Some (if neg then - digits_value ds else digits_value ds) else None)
          else None)"

definition parse_unsigned :: "string \<Rightarrow> rat option" where
  "parse_unsigned s =
     (let ip = takeWhile is_digit s; r = dropWhile is_digit s;
          (fp, e) = (case r of c # r' \<Rightarrow> if c = CHR ''.'' then (takeWhile is_digit r', dropWhile is_digit r') else ([], r)
                     | [] \<Rightarrow> ([], []))
      in if ip = [] \<and> fp = [] then None
         else map_option (\<lambda>x. of_int (digits_value (ip @ fp)) * pow10 (x - int (length fp)))
                (parse_exponent e))"

definition parse_float :: "string \<Rightarrow> flt option" where
  "parse_float raw =
     (let s = py_strip raw
      in if \<not> underscores_ok None s then None
         else (case split_sign (filter (\<lambda>c. c \<noteq> CHR ''_'') s) of (neg, r) \<Rightarrow>
             if py_lower r = ''nan'' then Some NaN
             else if py_lower r = ''inf'' \<or> py_lower r = ''infinity''
             then Some (if neg then NegInf else PosInf)
             else map_option (\<lambda>q. flr (if neg then - q else q)) (parse_unsigned r)))"

section \<open>Values\<close>

datatype pyval =
    PNone
  | PBool bool
  | PInt int
  | PFloat flt
  | PStr string
  | PList "pyval list"
  | PDict "(string \<times> pyval) list"

fun truthy :: "pyval \<Rightarrow> bool" where
  "truthy PNone = False"
| "truthy (PBool b) = b"
| "truthy (PInt i) = (i \<noteq> 0)"
| "truthy (PFloat x) = (x \<noteq> 0)"
| "truthy (PStr s) = (s \<noteq> [])"
| "truthy (PList xs) = (xs \<noteq> [])"
| "truthy (PDict kvs) = (kvs \<noteq> [])"

text \<open>\<open>float(x)\<close>.\<close>

fun py_float :: "pyval \<Rightarrow> flt result" where
  "py_float PNone = Inl TypeError"
| "py_float (PBool b) = Inr (if b then 1 else 0)"
| "py_float (PInt i) = float_of_int i"
| "py_float (PFloat x) = Inr x"
| "py_float (PStr s) =
     (case parse_float s of
        None \<Rightarrow> Inl (ValueError ''could not convert string to float'')
      | Some x \<Rightarrow> Inr x)"
| "py_float (PList _) = Inl TypeError"
| "py_float (PDict _) = Inl TypeError"

text \<open>\<open>str(x)\<close>; inside a list the elements are shown by \<open>repr\<close>.\<close>

definition hex_digit :: "int \<Rightarrow> char" where
  "hex_digit d = ''0123456789abcdef'' ! nat d"

definition repr_char :: "char \<Rightarrow> char \<Rightarrow> string" where
  "repr_char quote c =
     (let n = (of_char c :: int)
      in if c = quote \<or> n = 92 then [CHR 92, c]
         else if n = 10 then [CHR 92, CHR ''n'']
         else if n = 13 then [CHR 92, CHR ''r'']
         else if n = 9 then [CHR 92, CHR ''t'']
         else if n < 32 \<or> 126 < n then [CHR 92, CHR ''x'', hex_digit (n div 16), hex_digit (n mod 16)]
         else [c])"

definition str_repr :: "string \<Rightarrow> string" where
  "str_repr s =
     (let quote = (if CHR 39 \<in> set s \<and> CHR 34 \<notin> set s then CHR 34 else CHR 39)
      in quote # concat (map (repr_char quote) s) @ [quote])"

fun intercalate :: "string \<Rightarrow> string list \<Rightarrow> string" where
  "intercalate sep [] = []"
| "intercalate sep [s] = s"
| "intercalate sep (s # ss) = s @ sep @ intercalate sep ss"

fun py_repr :: "pyval \<Rightarrow> string" where
  "py_repr PNone = ''None''"
| "py_repr (PBool b) = (if b then ''True'' else ''False'')"
| "py_repr (PInt i) = show_int i"
| "py_repr (PFloat x) = float_repr x"
| "py_repr (PStr s) = str_repr s"
| "py_repr (PList xs) = ''['' @ intercalate '', '' (map py_repr xs) @ '']''"
| "py_repr (PDict kvs) =
     ''{'' @ intercalate '', '' (map (\<lambda>(k, v). str_repr k @ '': '' @ py_repr v) kvs) @ ''}''"

fun py_str :: "pyval \<Rightarrow> string" where
  "py_str (PStr s) = s"
| "py_str v = py_repr v"

text \<open>\<open>dict.get\<close> with a default, and \<open>x or d\<close>.\<close>

definition get_or :: "('k \<rightharpoonup> 'v) \<Rightarrow> 'k \<Rightarrow> 'v \<Rightarrow> 'v" where
  "get_or m k d = (case m k of Some v \<Rightarrow> v | None \<Rightarrow> d)"

definition py_or :: "pyval \<Rightarrow> pyval \<Rightarrow> pyval" where
  "py_or x d = (if truthy x then x else d)"

lemma py_float_zero_int [simp]: "py_float (PInt 0) = Inr 0"
  using flr_int [of 0] by (simp add: float_of_int_def zero_flt_def)

end
