(* ===== verification/SimConfig.thy ===== *)
theory SimConfig
  imports PyVal
begin

text \<open>
  Execution settings of a backtest: \<open>simulation/enums.py\<close>, \<open>simulation/execution_config.py\<close> and
  \<open>simulation/leverage_config.py\<close>.

    - The five string enumerations, each with its \<open>value\<close> function and the list of its values.
    - \<open>ExecutionConfig\<close>, the frozen dataclass; \<open>mk_ExecutionConfig\<close> is its constructor with the
      checks of \<open>__post_init__\<close>, so a value it returns satisfies \<open>wf_config\<close>.
    - \<open>LeverageConfig\<close> and its liquidation price, affordability and margin arithmetic.
\<close>

section \<open>Enumerations\<close>

datatype RiskMode = FIXED_EQUITY_RISK | LEVERAGE_SCALED_RISK

fun RiskMode_value :: "RiskMode \<Rightarrow> string" where
  "RiskMode_value FIXED_EQUITY_RISK = ''fixed_equity_risk''"
| "RiskMode_value LEVERAGE_SCALED_RISK = ''leverage_scaled_risk''"

definition RiskMode_values :: "string list" where
  "RiskMode_values = map RiskMode_value [FIXED_EQUITY_RISK, LEVERAGE_SCALED_RISK]"

datatype MarginMode = SIMPLIFIED | FULL

fun MarginMode_value :: "MarginMode \<Rightarrow> string" where
  "MarginMode_value SIMPLIFIED = ''simplified''"
| "MarginMode_value FULL = ''full''"

definition MarginMode_values :: "string list" where
  "MarginMode_values = map MarginMode_value [SIMPLIFIED, FULL]"

datatype RiskPriceBasis = SIGNAL_CLOSE | ENTRY_FILL

fun RiskPriceBasis_value :: "RiskPriceBasis \<Rightarrow> string" where
  "RiskPriceBasis_value SIGNAL_CLOSE = ''signal_close''"
| "RiskPriceBasis_value ENTRY_FILL = ''entry_fill''"

definition RiskPriceBasis_values :: "string list" where
  "RiskPriceBasis_values = map RiskPriceBasis_value [SIGNAL_CLOSE, ENTRY_FILL]"

datatype BorrowTimeBasis = CALENDAR_DAY | TIMESTAMP_DELTA

fun BorrowTimeBasis_value :: "BorrowTimeBasis \<Rightarrow> string" where
  "BorrowTimeBasis_value CALENDAR_DAY = ''calendar_day''"
| "BorrowTimeBasis_value TIMESTAMP_DELTA = ''timestamp_delta''"

definition BorrowTimeBasis_values :: "string list" where
  "BorrowTimeBasis_values = map BorrowTimeBasis_value [CALENDAR_DAY, TIMESTAMP_DELTA]"

datatype MarketCalendar = EQUITY_REGULAR_HOURS | CRYPTO_24_7

fun MarketCalendar_value :: "MarketCalendar \<Rightarrow> string" where
  "MarketCalendar_value EQUITY_REGULAR_HOURS = ''equity_regular_hours''"
| "MarketCalendar_value CRYPTO_24_7 = ''crypto_24_7''"

definition MarketCalendar_values :: "string list" where
  "MarketCalendar_values = map MarketCalendar_value [EQUITY_REGULAR_HOURS, CRYPTO_24_7]"

section \<open>ExecutionConfig\<close>

record ExecutionConfig =
  commission_pct :: flt
  slippage_pct :: flt
  leverage_multiplier :: flt
  risk_mode :: string
  cap_explicit_size :: bool
  reject_oversized_explicit_orders :: bool
  allow_negative_cash :: bool
  market_calendar :: string
  borrow_fee_annual_pct :: flt
  margin_mode :: string
  maintenance_margin_pct :: flt
  enable_funding :: bool
  funding_rate :: flt
  risk_price_basis :: string
  borrow_time_basis :: string

definition default_config :: ExecutionConfig where
  "default_config = \<lparr>
     commission_pct = 0, slippage_pct = 0, leverage_multiplier = 1,
     risk_mode = ''fixed_equity_risk'', cap_explicit_size = True,
     reject_oversized_explicit_orders = False, allow_negative_cash = False,
     market_calendar = ''equity_regular_hours'', borrow_fee_annual_pct = 0,
     margin_mode = ''simplified'', maintenance_margin_pct = flr (5 / 1000),
     enable_funding = False, funding_rate = flr (1 / 10000),
     risk_price_basis = ''signal_close'', borrow_time_basis = ''calendar_day'' \<rparr>"

text \<open>
  \<open>_validate_enum_field\<close>.  The message lists the allowed values sorted; sorting is the
  lexicographic order of the texts, written out for the two-element enumerations of this module.
\<close>

fun string_le :: "string \<Rightarrow> string \<Rightarrow> bool" where
  "string_le [] _ = True"
| "string_le (_ # _) [] = False"
| "string_le (a # s) (b # t) =
     ((of_char a :: int) < of_char b \<or> (a = b \<and> string_le s t))"

fun insert_string :: "string \<Rightarrow> string list \<Rightarrow> string list" where
  "insert_string s [] = [s]"
| "insert_string s (t # ts) = (if string_le s t then s # t # ts else t # insert_string s ts)"

definition sort_strings :: "string list \<Rightarrow> string list" where
  "sort_strings ss = foldr insert_string ss []"

definition validate_enum_field :: "string \<Rightarrow> string \<Rightarrow> string list \<Rightarrow> unit result" where
  "validate_enum_field field_name v allowed =
     (if v \<notin> set allowed
      then raise (ValueError (''ExecutionConfig.'' @ field_name @ ''='' @ str_repr v
             @ '' is not one of '' @ py_repr (PList (map PStr (sort_strings allowed))) @ '' (typo?)''))
      else Inr ())"

definition post_init :: "ExecutionConfig \<Rightarrow> unit result" where
  "post_init c =
     ebind (validate_enum_field ''risk_mode'' (risk_mode c) RiskMode_values) (\<lambda>_.
     ebind (validate_enum_field ''margin_mode'' (margin_mode c) MarginMode_values) (\<lambda>_.
     ebind (validate_enum_field ''risk_price_basis'' (risk_price_basis c) RiskPriceBasis_values) (\<lambda>_.
     ebind (validate_enum_field ''borrow_time_basis'' (borrow_time_basis c) BorrowTimeBasis_values) (\<lambda>_.
     validate_enum_field ''market_calendar'' (market_calendar c) MarketCalendar_values))))"

text \<open>Constructing the dataclass: the fields are stored, then \<open>__post_init__\<close> runs.\<close>

definition mk_ExecutionConfig :: "ExecutionConfig \<Rightarrow> ExecutionConfig result" where
  "mk_ExecutionConfig c = ebind (post_init c) (\<lambda>_. Inr c)"

definition risk_budget_multiplier :: "ExecutionConfig \<Rightarrow> flt" where
  "risk_budget_multiplier c =
     (if risk_mode c = RiskMode_value LEVERAGE_SCALED_RISK
      then py_max (leverage_multiplier c) 1 else 1)"

definition wf_config :: "ExecutionConfig \<Rightarrow> bool" where
  "wf_config c \<longleftrightarrow>
     risk_mode c \<in> set RiskMode_values \<and> margin_mode c \<in> set MarginMode_values \<and>
     risk_price_basis c \<in> set RiskPriceBasis_values \<and>
     borrow_time_basis c \<in> set BorrowTimeBasis_values \<and>
     market_calendar c \<in> set MarketCalendar_values"

lemma validate_enum_field_Inr [simp]:
  "validate_enum_field f v allowed = Inr u \<longleftrightarrow> v \<in> set allowed"
  by (simp add: validate_enum_field_def)

lemma validate_enum_field_error:
  "validate_enum_field f v allowed = Inl e \<Longrightarrow> \<exists>msg. e = ValueError msg"
  by (auto simp: validate_enum_field_def raise_def split: if_splits)

lemma mk_ExecutionConfig_Inr: "mk_ExecutionConfig c = Inr d \<longleftrightarrow> d = c \<and> wf_config c"
  by (auto simp: mk_ExecutionConfig_def post_init_def wf_config_def ebind_eq_Inr)

lemma mk_ExecutionConfig_Inl: "mk_ExecutionConfig c = Inl e \<Longrightarrow> \<exists>msg. e = ValueError msg"
  by (auto simp: mk_ExecutionConfig_def post_init_def ebind_eq_Inl dest: validate_enum_field_error)

section \<open>LeverageConfig\<close>

record LeverageConfig =
  multiplier :: flt
  lev_maintenance_margin_pct :: flt

definition is_spot :: "LeverageConfig \<Rightarrow> bool" where
  "is_spot l \<longleftrightarrow> multiplier l \<le> 1"

definition unknown_direction :: "string \<Rightarrow> py_error" where
  "unknown_direction d =
     ValueError (''Unknown direction '' @ str_repr d @ ''; expected '' @ str_repr ''long'' @ '' or ''
       @ str_repr ''short'')"

definition liquidation_price :: "LeverageConfig \<Rightarrow> flt \<Rightarrow> string \<Rightarrow> flt result" where
  "liquidation_price l entry_price direction =
     (if multiplier l \<le> 1 then Inr entry_price
      else ebind (fdiv 1 (multiplier l)) (\<lambda>initial_margin_fraction.
        if direction = ''long''
        then Inr (entry_price * (1 - initial_margin_fraction + lev_maintenance_margin_pct l))
        else if direction = ''short''
        then Inr (entry_price * (1 + initial_margin_fraction - lev_maintenance_margin_pct l))
        else raise (unknown_direction direction)))"

definition max_affordable :: "LeverageConfig \<Rightarrow> flt \<Rightarrow> flt \<Rightarrow> flt result" where
  "max_affordable l cash_amount price =
     (if price \<le> 0 then Inr 0 else fdiv (cash_amount * multiplier l) price)"

definition margin_required :: "LeverageConfig \<Rightarrow> flt \<Rightarrow> flt result" where
  "margin_required l position_value =
     (if multiplier l \<le> 0
      then raise (ValueError (''Leverage multiplier must be positive, got '' @ float_repr (multiplier l)))
      else fdiv position_value (multiplier l))"

definition validate_stop :: "LeverageConfig \<Rightarrow> flt \<Rightarrow> flt \<Rightarrow> string \<Rightarrow> bool result" where
  "validate_stop l stop_price entry_price direction =
     (if is_spot l then Inr True
      else ebind (liquidation_price l entry_price direction) (\<lambda>liq.
        if direction = ''long'' then Inr (liq < stop_price)
        else if direction = ''short'' then Inr (stop_price < liq)
        else raise (unknown_direction direction)))"

definition leverage_of :: "ExecutionConfig \<Rightarrow> LeverageConfig" where
  "leverage_of c = \<lparr>multiplier = leverage_multiplier c,
                    lev_maintenance_margin_pct = maintenance_margin_pct c\<rparr>"

lemma leverage_of_simps [simp]:
  "multiplier (leverage_of c) = leverage_multiplier c"
  "lev_maintenance_margin_pct (leverage_of c) = maintenance_margin_pct c"
  by (simp_all add: leverage_of_def)

lemma liquidation_price_spot: "is_spot l \<Longrightarrow> liquidation_price l p d = Inr p"
  by (simp add: liquidation_price_def is_spot_def)

lemma margin_required_total: "0 < multiplier l \<Longrightarrow> \<exists>m. margin_required l v = Inr m"
  using fdiv_pos_total [of "multiplier l" v]
  by (auto simp: margin_required_def dest: flt_less_asym)

lemma margin_required_nonpos: "multiplier l \<le> 0 \<Longrightarrow> \<exists>msg. margin_required l v = Inl (ValueError msg)"
  by (simp add: margin_required_def raise_def)

text \<open>With leverage the long liquidation price lies below the entry price, the short one above.\<close>

lemma initial_margin_fraction_bounds:
  assumes "1 < m" "fdiv 1 m = Inr f"
  shows "0 \<le> f" and "f \<le> 1"
proof -
  have "0 \<le> f \<and> f \<le> 1"
  proof (cases m)
    case (Fin b)
    then have b: "1 < b" using assms by (simp add: one_flt_def)
    then have "f = flr (1 / b)" using assms Fin by (simp add: one_flt_def)
    then show ?thesis
      using b flr_mono [of 0 "1 / b"] flr_mono [of "1 / b" 1] by (simp add: zero_flt_def one_flt_def)
  qed (use assms in \<open>auto simp: one_flt_def zero_flt_def\<close>)
  then show "0 \<le> f" and "f \<le> 1" by auto
qed

end
