(* ===== verification/PyDatetime.thy ===== *)
theory PyDatetime
  imports PyVal
begin

text \<open>
  The part of Python's \<open>datetime\<close> the simulation uses: \<open>datetime.fromisoformat\<close> (the algorithm
  of CPython 3.12, with calendar dates, ISO weeks, compact forms and UTC offsets), the difference
  of two datetimes in seconds, and \<open>strftime\<close> with the two formats of the bar dates.

    - \<open>py_datetime\<close> holds the fields of a \<open>datetime\<close>; \<open>utcoffset\<close> is \<open>None\<close> for a naive one.
    - \<open>fromisoformat\<close> returns the datetime or raises \<open>ValueError\<close>.
    - \<open>seconds_between\<close> raises \<open>TypeError\<close> when one side is naive and the other aware.
\<close>

record py_datetime =
  dt_year :: int
  dt_month :: int
  dt_day :: int
  dt_hour :: int
  dt_minute :: int
  dt_second :: int
  dt_micro :: int
  dt_utcoffset :: "int option" \<comment> \<open>microseconds\<close>

section \<open>Calendar\<close>

definition is_leap :: "int \<Rightarrow> bool" where
  "is_leap y \<longleftrightarrow> y mod 4 = 0 \<and> (y mod 100 \<noteq> 0 \<or> y mod 400 = 0)"

definition month_lengths :: "int list" where
  "month_lengths = [31, 28, 31, 30, 31, 30, 31, 31, 30, 31, 30, 31]"

definition days_in_month :: "int \<Rightarrow> int \<Rightarrow> int" where
  "days_in_month y m = (if m = 2 \<and> is_leap y then 29 else month_lengths ! nat (m - 1))"

definition days_before_month :: "int \<Rightarrow> int \<Rightarrow> int" where
  "days_before_month y m =
     sum_list (take (nat (m - 1)) month_lengths) + (if 2 < m \<and> is_leap y then 1 else 0)"

definition days_before_year :: "int \<Rightarrow> int" where
  "days_before_year y = (let p = y - 1 in 365 * p + p div 4 - p div 100 + p div 400)"

definition ymd_to_ord :: "int \<Rightarrow> int \<Rightarrow> int \<Rightarrow> int" where
  "ymd_to_ord y m d = days_before_year y + days_before_month y m + d"

definition weekday :: "int \<Rightarrow> int \<Rightarrow> int \<Rightarrow> int" where
  "weekday y m d = (ymd_to_ord y m d + 6) mod 7"

text \<open>The month of the \<open>n\<close>-th day (from 0) of a year.\<close>

fun month_of :: "int \<Rightarrow> int \<Rightarrow> nat \<Rightarrow> int \<times> int" where
  "month_of y n 0 = (1, n + 1)"
| "month_of y n (Suc k) =
     (let m = int (Suc (Suc k))
      in if days_before_month y m \<le> n then (m, n - days_before_month y m + 1) else month_of y n k)"

definition ord_to_ymd :: "int \<Rightarrow> int \<times> int \<times> int" where
  "ord_to_ymd ordinal =
     (let n = ordinal - 1;
          n400 = n div 146097; a = n mod 146097;
          n100 = a div 36524; b = a mod 36524;
          n4 = b div 1461; c = b mod 1461;
          n1 = c div 365; d = c mod 365;
          y = n400 * 400 + n100 * 100 + n4 * 4 + n1 + 1
      in if n1 = 4 \<or> n100 = 4 then (y - 1, 12, 31)
         else (case month_of y d 11 of (m, dd) \<Rightarrow> (y, m, dd)))"

definition iso_week1_monday :: "int \<Rightarrow> int" where
  "iso_week1_monday y =
     (let first_day = ymd_to_ord y 1 1;
          first_weekday = (first_day + 6) mod 7;
          week1_monday = first_day - first_weekday
      in if 3 < first_weekday then week1_monday + 7 else week1_monday)"

definition valid_date :: "int \<times> int \<times> int \<Rightarrow> bool" where
  "valid_date x = (case x of (y, m, d) \<Rightarrow>
     1 \<le> y \<and> y \<le> 9999 \<and> 1 \<le> m \<and> m \<le> 12 \<and> 1 \<le> d \<and> d \<le> days_in_month y m)"

definition iso_to_ymd :: "int \<Rightarrow> int \<Rightarrow> int \<Rightarrow> (int \<times> int \<times> int) option" where
  "iso_to_ymd y w d =
     (if y < 1 \<or> 9999 < y then None
      else if (w \<le> 0 \<or> 53 \<le> w) \<and>
              \<not> (w = 53 \<and> (let f = weekday y 1 1 in f = 3 \<or> (f = 2 \<and> is_leap y)))
      then None
      else if d \<le> 0 \<or> 8 \<le> d then None
      else Some (ord_to_ymd (iso_week1_monday y + (w - 1) * 7 + d - 1)))"

section \<open>fromisoformat\<close>

text \<open>Reading position \<open>i\<close> of a text that ends with a NUL character.\<close>

definition char_at :: "string \<Rightarrow> nat \<Rightarrow> char" where
  "char_at s i = (if i < length s then s ! i else CHR 0x00)"

definition parse_digits :: "nat \<Rightarrow> string \<Rightarrow> int option" where
  "parse_digits n s =
     (let ds = take n s in if length ds = n \<and> list_all is_digit ds then Some (digits_value ds) else None)"

definition find_separator :: "string \<Rightarrow> nat option" where
  "find_separator s =
     (let n = length s
      in if n = 7 then Some 7
         else if s ! 4 = CHR ''-'' then
           (if s ! 5 = CHR ''W'' then
              (if n < 8 then None
               else if 8 < n \<and> s ! 8 = CHR ''-'' then
                 (if n = 9 then None
                  else if 10 < n \<and> is_digit (s ! 10) then Some 8 else Some 10)
               else Some 8)
            else Some 10)
         else if s ! 4 = CHR ''W'' then
           (let pos = 7 + length (takeWhile is_digit (drop 7 s))
            in if pos < 9 then Some pos else if even pos then Some 7 else Some 8)
         else Some 8)"

definition parse_iso_date :: "string \<Rightarrow> nat \<Rightarrow> (int \<times> int \<times> int) option" where
  "parse_iso_date s len =
     Option.bind (parse_digits 4 s) (\<lambda>y.
       let sep = char_at s 4 = CHR ''-''; p = (if sep then 5 else 4)
       in if char_at s p = CHR ''W'' then
            Option.bind (parse_digits 2 (drop (p + 1) s)) (\<lambda>w.
              if p + 3 < len then
                (if sep \<and> char_at s (p + 3) \<noteq> CHR ''-'' then None
                 else Option.bind (parse_digits 1 (drop (if sep then p + 4 else p + 3) s)) (iso_to_ymd y w))
              else iso_to_ymd y w 1)
          else
            Option.bind (parse_digits 2 (drop p s)) (\<lambda>m.
              if sep \<and> char_at s (p + 2) \<noteq> CHR ''-'' then None
              else Option.bind (parse_digits 2 (drop (if sep then p + 3 else p + 2) s)) (\<lambda>d.
                Some (y, m, d))))"

text \<open>
  Hours, minutes, seconds and the fraction of a time or an offset.  The result holds the values
  read and whether text is left over.
\<close>

definition parse_fraction :: "int list \<Rightarrow> string \<Rightarrow> (int list \<times> bool) option" where
  "parse_fraction vals s =
     (let n = min 6 (length s)
      in Option.bind (parse_digits n s) (\<lambda>us.
           Some (take 3 (vals @ [0, 0, 0]) @ [us * 10 ^ (6 - n)],
                 dropWhile is_digit (drop n s) \<noteq> [])))"

fun parse_hms :: "nat \<Rightarrow> bool \<Rightarrow> int list \<Rightarrow> string \<Rightarrow> (int list \<times> bool) option" where
  "parse_hms 0 has_sep vals s = parse_fraction vals s"
| "parse_hms (Suc k) has_sep vals s =
     Option.bind (parse_digits 2 s) (\<lambda>v.
       let vals' = vals @ [v]; r = drop 2 s; c = char_at r 0;
           has_sep' = (if vals = [] then c = CHR '':'' else has_sep)
       in if length r \<le> 1 then Some (take 4 (vals' @ [0, 0, 0, 0]), r \<noteq> [])
          else if has_sep' \<and> c = CHR '':'' then parse_hms k has_sep' vals' (drop 1 r)
          else if c = CHR ''.'' \<or> c = CHR '','' then parse_fraction vals' (drop 1 r)
          else if \<not> has_sep' then parse_hms k has_sep' vals' r
          else None)"

definition hms_micros :: "int list \<Rightarrow> int" where
  "hms_micros v = ((v ! 0 * 60 + v ! 1) * 60 + v ! 2) * 1000000 + v ! 3"

definition is_tz_char :: "char \<Rightarrow> bool" where
  "is_tz_char c \<longleftrightarrow> c = CHR ''+'' \<or> c = CHR ''-'' \<or> c = CHR ''Z''"

definition parse_iso_time :: "string \<Rightarrow> (int list \<times> int option) option" where
  "parse_iso_time s =
     (let t = takeWhile (\<lambda>c. \<not> is_tz_char c) s; z = dropWhile (\<lambda>c. \<not> is_tz_char c) s
      in Option.bind (parse_hms 3 True [] t) (\<lambda>(v, left_over).
           case z of
             [] \<Rightarrow> if left_over then None else Some (v, None)
           | c # r \<Rightarrow>
               if c = CHR ''Z'' then (if r = [] then Some (v, Some 0) else None)
               else Option.bind (parse_hms 3 True [] r) (\<lambda>(o', left').
                 if left' then None
                 else (let whole = hms_micros (take 3 o' @ [0])
                       in if whole = 0 then Some (v, Some 0)
                          else Some (v, Some ((if c = CHR ''-'' then - 1 else 1) * hms_micros o'))))))"

definition valid_time :: "int list \<Rightarrow> bool" where
  "valid_time v \<longleftrightarrow> v ! 0 \<le> 23 \<and> v ! 1 \<le> 59 \<and> v ! 2 \<le> 59"

definition valid_offset :: "int option \<Rightarrow> bool" where
  "valid_offset z = (case z of None \<Rightarrow> True | Some u \<Rightarrow> \<bar>u\<bar> < 24 * 3600 * 1000000)"

definition fromisoformat_opt :: "string \<Rightarrow> py_datetime option" where
  "fromisoformat_opt s =
     (if length s < 7 then None
      else Option.bind (find_separator s) (\<lambda>sep.
        Option.bind (parse_iso_date s sep) (\<lambda>(y, m, d).
        Option.bind (if sep < length s then parse_iso_time (drop (sep + 1) s)
                     else Some ([0, 0, 0, 0], None)) (\<lambda>(v, z).
          if valid_date (y, m, d) \<and> valid_time v \<and> valid_offset z
          then Some \<lparr>dt_year = y, dt_month = m, dt_day = d, dt_hour = v ! 0, dt_minute = v ! 1,
                     dt_second = v ! 2, dt_micro = v ! 3, dt_utcoffset = z\<rparr>
          else None))))"

definition fromisoformat :: "string \<Rightarrow> py_datetime result" where
  "fromisoformat s =
     (case fromisoformat_opt s of
        Some d \<Rightarrow> Inr d
      | None \<Rightarrow> raise (ValueError (''Invalid isoformat string: '' @ str_repr s)))"

section \<open>Differences\<close>

definition dt_micros :: "py_datetime \<Rightarrow> int" where
  "dt_micros t =
     ymd_to_ord (dt_year t) (dt_month t) (dt_day t) * 86400000000
     + hms_micros [dt_hour t, dt_minute t, dt_second t, dt_micro t]
     - (case dt_utcoffset t of None \<Rightarrow> 0 | Some u \<Rightarrow> u)"

text \<open>\<open>(b - a).total_seconds()\<close>: the exact number of microseconds, divided by a million once.\<close>

definition seconds_between :: "py_datetime \<Rightarrow> py_datetime \<Rightarrow> flt result" where
  "seconds_between a b =
     (if (dt_utcoffset a = None) \<noteq> (dt_utcoffset b = None) then raise TypeError
      else Inr (flr (of_int (dt_micros b - dt_micros a) / 1000000)))"

section \<open>strftime\<close>

definition two_digits :: "int \<Rightarrow> string" where
  "two_digits n = pad_left 2 CHR ''0'' (show_int n)"

definition format_date :: "py_datetime \<Rightarrow> string" where
  "format_date t = show_int (dt_year t) @ ''-'' @ two_digits (dt_month t) @ ''-'' @ two_digits (dt_day t)"

definition format_datetime :: "py_datetime \<Rightarrow> string" where
  "format_datetime t =
     format_date t @ ''T'' @ two_digits (dt_hour t) @ '':'' @ two_digits (dt_minute t)
     @ '':'' @ two_digits (dt_second t)"

lemma fromisoformat_error: "fromisoformat s = Inl e \<Longrightarrow> \<exists>msg. e = ValueError msg"
  by (auto simp: fromisoformat_def raise_def split: option.splits)

lemma fromisoformat_short: "length s < 7 \<Longrightarrow> \<exists>msg. fromisoformat s = Inl (ValueError msg)"
  by (simp add: fromisoformat_def fromisoformat_opt_def raise_def)

end
