(* ===== verification/SimState.thy ===== *)
theory SimState
  imports SimConfig PyDatetime
begin

text \<open>
  The state of a backtest: \<open>simulated_position.py\<close>, \<open>pending_entry.py\<close>, \<open>pending_exit.py\<close>,
  \<open>backtest_diagnostic.py\<close>, \<open>trade_record.py\<close>, \<open>simulation_state.py\<close>, and the full-margin
  account of \<open>margin_account.py\<close>.

    - One record per dataclass, with the fields of the source (prefixed where a field name would
      clash); a position is flat when its size is 0.
    - \<open>add_diagnostic\<close> is the single place where a diagnostic is built.
    - \<open>trade_to_dict\<close> is the serialised trade with its rounding.
    - \<open>MarginAccount\<close> with locking, release, funding and borrow; locking and releasing move an
      amount between free cash and the margin book and never more than is there.
\<close>

section \<open>Position\<close>

record SimulatedPosition =
  p_size :: flt
  p_direction :: string
  p_entry_price :: flt
  p_entry_date :: string
  p_stop_price :: flt
  p_target_price :: flt
  p_liquidation_price :: flt
  p_bars_held :: int
  p_entry_commission :: flt
  p_entry_slippage :: flt

definition new_position :: SimulatedPosition where
  "new_position = \<lparr>
     p_size = 0, p_direction = '''', p_entry_price = 0, p_entry_date = '''', p_stop_price = 0,
     p_target_price = 0, p_liquidation_price = 0, p_bars_held = 0, p_entry_commission = 0,
     p_entry_slippage = 0 \<rparr>"

definition position_reset :: "SimulatedPosition \<Rightarrow> SimulatedPosition" where
  "position_reset p = p\<lparr>
     p_size := 0, p_direction := '''', p_entry_price := 0, p_entry_date := '''', p_stop_price := 0,
     p_target_price := 0, p_liquidation_price := 0, p_bars_held := 0, p_entry_commission := 0,
     p_entry_slippage := 0 \<rparr>"

text \<open>The snapshot \<open>to_dict\<close> hands to the strategy, as a dictionary of Python values.\<close>

definition position_to_dict :: "SimulatedPosition \<Rightarrow> (string \<rightharpoonup> pyval)" where
  "position_to_dict p = map_of [
     (''size'', PFloat (p_size p)),
     (''direction'', PStr (p_direction p)),
     (''entry_price'', PFloat (p_entry_price p)),
     (''entry_date'', PStr (p_entry_date p)),
     (''stop_price'', PFloat (p_stop_price p)),
     (''target_price'', PFloat (p_target_price p)),
     (''liquidation_price'', PFloat (p_liquidation_price p)),
     (''bars_held'', PInt (p_bars_held p)),
     (''entry_commission'', PFloat (p_entry_commission p)),
     (''entry_slippage'', PFloat (p_entry_slippage p))]"

definition is_flat :: "SimulatedPosition \<Rightarrow> bool" where
  "is_flat p \<longleftrightarrow> feq (p_size p) 0"

lemma is_flat_new [simp]: "is_flat new_position"
  by (simp add: is_flat_def new_position_def zero_flt_def)

lemma position_reset_eq [simp]: "position_reset p = new_position"
  by (simp add: position_reset_def new_position_def)

section \<open>Pending orders\<close>

record PendingEntry =
  pe_direction :: string
  pe_stop_price :: flt
  pe_target_price :: flt
  pe_position_size :: int
  pe_explicit_size :: bool
  pe_risk_per_trade :: flt
  pe_signal_close :: flt

record PendingExit =
  px_direction :: string
  px_confidence :: flt

section \<open>Diagnostics\<close>

record BacktestDiagnostic =
  d_severity :: string
  d_code :: string
  d_message :: string
  d_date :: string
  d_metadata :: "(string \<times> flt) list"

text \<open>
  \<open>to_dict\<close>: four text entries, then the metadata entries, which win over an entry of the same
  name.
\<close>

definition diagnostic_to_dict :: "BacktestDiagnostic \<Rightarrow> (string \<rightharpoonup> pyval)" where
  "diagnostic_to_dict d =
     map_of [(''severity'', PStr (d_severity d)), (''code'', PStr (d_code d)),
             (''date'', PStr (d_date d)), (''message'', PStr (d_message d))]
     ++ (\<lambda>k. map_option PFloat (map_of (d_metadata d) k))"

section \<open>Trades\<close>

record TradeRecord =
  t_entry_date :: string
  t_exit_date :: string
  t_entry_price :: flt
  t_exit_price :: flt
  t_size :: flt
  t_gross_pnl :: flt
  t_net_pnl :: flt
  t_entry_commission :: flt
  t_exit_commission :: flt
  t_borrow_cost :: flt
  t_total_commission :: flt
  t_pnl_pct :: flt
  t_duration_bars :: int
  t_direction :: string
  t_exit_reason :: string

record TradeDict =
  td_entry_date :: string
  td_exit_date :: string
  td_entry_price :: flt
  td_exit_price :: flt
  td_size :: flt
  td_pnl :: flt
  td_net_pnl :: flt
  td_gross_pnl :: flt
  td_entry_commission :: flt
  td_exit_commission :: flt
  td_borrow_cost :: flt
  td_total_commission :: flt
  td_pnl_pct :: flt
  td_duration_bars :: int
  td_direction :: string
  td_exit_reason :: string

definition trade_to_dict :: "TradeRecord \<Rightarrow> TradeDict" where
  "trade_to_dict t = \<lparr>
     td_entry_date = t_entry_date t, td_exit_date = t_exit_date t,
     td_entry_price = py_round 8 (t_entry_price t), td_exit_price = py_round 8 (t_exit_price t),
     td_size = t_size t,
     td_pnl = py_round 2 (t_net_pnl t), td_net_pnl = py_round 2 (t_net_pnl t),
     td_gross_pnl = py_round 2 (t_gross_pnl t),
     td_entry_commission = py_round 2 (t_entry_commission t),
     td_exit_commission = py_round 2 (t_exit_commission t),
     td_borrow_cost = py_round 2 (t_borrow_cost t),
     td_total_commission = py_round 2 (t_total_commission t),
     td_pnl_pct = py_round 4 (t_pnl_pct t),
     td_duration_bars = t_duration_bars t,
     td_direction = t_direction t, td_exit_reason = t_exit_reason t \<rparr>"

section \<open>Simulation state\<close>

record EquityPoint =
  eq_date :: string
  eq_close :: flt
  eq_value :: flt
  eq_drawdown :: flt
  eq_position :: flt

record SimulationState =
  initial_cash :: flt
  cash :: flt
  position :: SimulatedPosition
  trades :: "TradeDict list"
  equity_curve :: "EquityPoint list"
  pending_entry :: "PendingEntry option"
  pending_exit :: "PendingExit option"
  peak_value :: flt
  total_commission :: flt
  total_slippage :: flt
  used_margin :: flt
  diagnostics :: "BacktestDiagnostic list"
  total_borrow_cost :: flt
  total_funding :: flt

definition new_state :: "flt \<Rightarrow> SimulationState" where
  "new_state c = \<lparr>
     initial_cash = c, cash = c, position = new_position, trades = [], equity_curve = [],
     pending_entry = None, pending_exit = None, peak_value = c, total_commission = 0,
     total_slippage = 0, used_margin = 0, diagnostics = [], total_borrow_cost = 0,
     total_funding = 0 \<rparr>"

definition add_diagnostic ::
    "string \<Rightarrow> string \<Rightarrow> string \<Rightarrow> string \<Rightarrow> (string \<times> flt) list \<Rightarrow> SimulationState \<Rightarrow> SimulationState"
where
  "add_diagnostic severity code message date metadata s =
     s\<lparr>diagnostics := diagnostics s @
        [\<lparr>d_severity = severity, d_code = code, d_message = message, d_date = date,
          d_metadata = metadata\<rparr>]\<rparr>"

lemma add_diagnostic_frame [simp]:
  "cash (add_diagnostic sev cd m d md s) = cash s"
  "position (add_diagnostic sev cd m d md s) = position s"
  "trades (add_diagnostic sev cd m d md s) = trades s"
  "equity_curve (add_diagnostic sev cd m d md s) = equity_curve s"
  "pending_entry (add_diagnostic sev cd m d md s) = pending_entry s"
  "pending_exit (add_diagnostic sev cd m d md s) = pending_exit s"
  "peak_value (add_diagnostic sev cd m d md s) = peak_value s"
  "used_margin (add_diagnostic sev cd m d md s) = used_margin s"
  "initial_cash (add_diagnostic sev cd m d md s) = initial_cash s"
  "total_commission (add_diagnostic sev cd m d md s) = total_commission s"
  "total_slippage (add_diagnostic sev cd m d md s) = total_slippage s"
  "total_borrow_cost (add_diagnostic sev cd m d md s) = total_borrow_cost s"
  "total_funding (add_diagnostic sev cd m d md s) = total_funding s"
  by (simp_all add: add_diagnostic_def)

section \<open>Full-margin account\<close>

record MarginAccount =
  ma_cash :: flt
  ma_margin_book :: flt
  ma_unrealized_pnl :: flt
  ma_total_borrow_cost :: flt
  ma_total_funding_paid :: flt

definition new_account :: "flt \<Rightarrow> MarginAccount" where
  "new_account c = \<lparr>ma_cash = c, ma_margin_book = 0, ma_unrealized_pnl = 0,
                     ma_total_borrow_cost = 0, ma_total_funding_paid = 0\<rparr>"

definition ma_equity :: "MarginAccount \<Rightarrow> flt" where
  "ma_equity a = ma_cash a"

definition available_margin :: "MarginAccount \<Rightarrow> flt" where
  "available_margin a = py_max 0 (ma_equity a - ma_margin_book a)"

definition lock_margin :: "flt \<Rightarrow> MarginAccount \<Rightarrow> MarginAccount" where
  "lock_margin amount a =
     (let actual = py_min amount (ma_cash a)
      in a\<lparr>ma_cash := ma_cash a - actual, ma_margin_book := ma_margin_book a + actual\<rparr>)"

definition account_release_margin :: "flt \<Rightarrow> MarginAccount \<Rightarrow> MarginAccount" where
  "account_release_margin amount a =
     (let actual = py_min amount (ma_margin_book a)
      in a\<lparr>ma_margin_book := ma_margin_book a - actual, ma_cash := ma_cash a + actual\<rparr>)"

definition account_apply_funding :: "flt \<Rightarrow> MarginAccount \<Rightarrow> MarginAccount" where
  "account_apply_funding payment a =
     a\<lparr>ma_cash := ma_cash a - payment, ma_total_funding_paid := ma_total_funding_paid a + \<bar>payment\<bar>\<rparr>"

definition account_apply_borrow :: "flt \<Rightarrow> MarginAccount \<Rightarrow> MarginAccount" where
  "account_apply_borrow cost a =
     a\<lparr>ma_cash := ma_cash a - cost, ma_total_borrow_cost := ma_total_borrow_cost a + cost\<rparr>"

end
