(* ===== verification/MarginManager.thy ===== *)
theory MarginManager
  imports SimState
begin

text \<open>
  Full-margin accounting, \<open>margin_account_manager.py\<close>.  The manager's own state is its
  \<open>MarginAccount\<close>; the configuration it copies at construction is read from \<open>ExecutionConfig\<close>.

    - \<open>lock_entry_margin\<close> and \<open>credit_entry_short\<close> mirror an entry the opener has applied to the
      simulation's cash; \<open>settle_exit\<close> mirrors an exit; \<open>sync_state_equity\<close> copies back.
    - \<open>manager_apply_funding\<close> charges one bar's funding; \<open>check_margin_call\<close> compares the close with the
      liquidation price.
    - The lemmas show that after an exit the account's cash is the simulation's cash, so a
      synchronisation changes nothing.
\<close>

definition new_manager :: "flt \<Rightarrow> MarginAccount" where
  "new_manager initial = new_account initial"

definition rel_tol_cash :: flt where
  "rel_tol_cash = flr (1 / 10 ^ 12)"

text \<open>The division by a positive leverage multiplier cannot raise.\<close>

definition margin_share :: "ExecutionConfig \<Rightarrow> flt \<Rightarrow> flt result" where
  "margin_share c v =
     (if 0 < leverage_multiplier c then fdiv v (leverage_multiplier c) else Inr v)"

definition lock_entry_margin ::
    "ExecutionConfig \<Rightarrow> SimulationState \<Rightarrow> flt \<Rightarrow> flt \<Rightarrow> MarginAccount \<Rightarrow> MarginAccount result" where
  "lock_entry_margin c s cost commission a =
     ebind (margin_share c cost) (\<lambda>margin.
       let a1 = a\<lparr>ma_margin_book := ma_margin_book a + margin\<rparr>
       in Inr (if isclose rel_tol_cash (cash s) (ma_cash a1)
               then a1\<lparr>ma_cash := ma_cash a1 - (cost + commission)\<rparr>
               else a1\<lparr>ma_cash := cash s\<rparr>))"

definition credit_entry_short ::
    "SimulationState \<Rightarrow> flt \<Rightarrow> flt \<Rightarrow> MarginAccount \<Rightarrow> MarginAccount" where
  "credit_entry_short s cost commission a =
     (if isclose rel_tol_cash (cash s) (ma_cash a)
      then a\<lparr>ma_cash := ma_cash a + (cost - commission)\<rparr>
      else a\<lparr>ma_cash := cash s\<rparr>)"

definition settle_exit ::
    "ExecutionConfig \<Rightarrow> SimulationState \<Rightarrow> flt \<Rightarrow> flt \<Rightarrow> MarginAccount \<Rightarrow> MarginAccount result" where
  "settle_exit c s abs_size entry_price a =
     ebind (margin_share c (abs_size * entry_price)) (\<lambda>margin_locked.
       let a1 = account_release_margin (py_min margin_locked (ma_margin_book a)) a
       in Inr (a1\<lparr>ma_cash := cash s\<rparr>))"

definition sync_state_equity :: "MarginAccount \<Rightarrow> SimulationState \<Rightarrow> SimulationState" where
  "sync_state_equity a s = s\<lparr>cash := ma_equity a\<rparr>"

text \<open>Returns the signed payment and the account after it.\<close>

definition manager_apply_funding ::
    "ExecutionConfig \<Rightarrow> SimulatedPosition \<Rightarrow> MarginAccount \<Rightarrow> flt \<times> MarginAccount" where
  "manager_apply_funding c p a =
     (if \<not> enable_funding c \<or> feq (p_size p) 0 then (0, a)
      else (let abs_size = \<bar>p_size p\<bar>
            in if abs_size \<le> 0 \<or> p_entry_price p \<le> 0 then (0, a)
               else (let notional = abs_size * p_entry_price p;
                         payment0 = notional * funding_rate c;
                         payment = (if p_size p < 0 then - payment0 else payment0)
                     in (payment, account_apply_funding payment a))))"

definition check_margin_call :: "ExecutionConfig \<Rightarrow> SimulatedPosition \<Rightarrow> flt \<Rightarrow> string option" where
  "check_margin_call c p close =
     (if feq (p_size p) 0 \<or> leverage_multiplier c \<le> 1 then None
      else (let abs_size = \<bar>p_size p\<bar>; entry_price = p_entry_price p
            in if entry_price \<le> 0 \<or> abs_size \<le> 0 then None
               else if 0 < p_liquidation_price p \<and> 0 < p_size p \<and> close \<le> p_liquidation_price p
               then Some ''liquidation''
               else if 0 < p_liquidation_price p \<and> p_size p < 0 \<and> p_liquidation_price p \<le> close
               then Some ''liquidation''
               else None))"

lemma margin_share_total: "\<exists>m. margin_share c v = Inr m"
  using fdiv_pos_total [of "leverage_multiplier c" v] by (simp add: margin_share_def)

lemma lock_entry_margin_total: "\<exists>a'. lock_entry_margin c s cost com a = Inr a'"
  using margin_share_total [of c cost] by (auto simp: lock_entry_margin_def Let_def)

lemma settle_exit_total: "\<exists>a'. settle_exit c s z p a = Inr a'"
  using margin_share_total [of c "z * p"] by (auto simp: settle_exit_def Let_def)

lemma settle_exit_cash: "settle_exit c s z p a = Inr a' \<Longrightarrow> ma_cash a' = cash s"
  by (auto simp: settle_exit_def Let_def)

lemma sync_after_settle:
  "settle_exit c s z p a = Inr a' \<Longrightarrow> sync_state_equity a' s = s"
  by (simp add: sync_state_equity_def ma_equity_def settle_exit_cash)

lemma credit_entry_short_synced:
  "\<not> isclose rel_tol_cash (cash s) (ma_cash a) \<Longrightarrow> ma_cash (credit_entry_short s cost com a) = cash s"
  by (simp add: credit_entry_short_def)

lemma manager_apply_funding_flat [simp]: "is_flat p \<Longrightarrow> manager_apply_funding c p a = (0, a)"
  by (simp add: manager_apply_funding_def is_flat_def)

lemma check_margin_call_flat [simp]: "is_flat p \<Longrightarrow> check_margin_call c p x = None"
  by (simp add: check_margin_call_def is_flat_def)

end
