(* ===== verification/PositionCloser.thy ===== *)
theory PositionCloser
  imports MarginManager
begin

text \<open>
  \<open>position_closer.py\<close>: exit settlement.

    - \<open>Book\<close> is what one backtest mutates: the simulation state and, in full-margin mode, the
      margin account.
    - \<open>apply_slippage\<close> and \<open>commission\<close> are the shared cost helpers; \<open>time_held\<close> and
      \<open>borrow_cost\<close> the holding cost of a short; \<open>calc_pnl\<close>, \<open>cash_settlement\<close> and
      \<open>build_trade\<close> the arithmetic of the trade record; \<open>close_position\<close> is the whole settlement
      in the order of the source; \<open>check_liquidation\<close> takes the executor's callback as argument.
    - The lemmas give the direction of slippage, the sign of the costs, and what a successful close
      does: one trade more, a flat position, cash moved by exactly the settlement.
\<close>

record Book =
  bk_state :: SimulationState
  bk_margin :: "MarginAccount option"

section \<open>Cost helpers\<close>

definition SLIPPAGE_SIGN :: "(string \<times> string) \<rightharpoonup> flt" where
  "SLIPPAGE_SIGN = map_of [
     ((''long'', ''entry''), Fin 1), ((''long'', ''exit''), Fin (- 1)),
     ((''short'', ''entry''), Fin (- 1)), ((''short'', ''exit''), Fin 1)]"

definition apply_slippage :: "flt \<Rightarrow> string \<Rightarrow> string \<Rightarrow> flt \<Rightarrow> flt" where
  "apply_slippage price direction side slip =
     (if slip \<le> 0 then price
      else (let sign = get_or SLIPPAGE_SIGN (direction, side) 0
            in if feq sign 0 then price else price * (1 + sign * slip)))"

definition commission :: "flt \<Rightarrow> flt \<Rightarrow> flt" where
  "commission gross pct = (if pct \<le> 0 then 0 else \<bar>gross\<bar> * pct)"

section \<open>Borrow cost\<close>

definition parse_timestamp :: "string \<Rightarrow> string \<Rightarrow> py_datetime result" where
  "parse_timestamp raw0 time_basis =
     (let raw1 = str_strip raw0;
          raw2 = (if raw1 \<noteq> [] \<and> last raw1 = CHR ''Z'' then butlast raw1 @ ''+00:00'' else raw1)
      in if time_basis = ''calendar_day''
         then (if length raw2 < 10
               then raise (ValueError (''Timestamp too short for calendar_day parsing: '' @ str_repr raw2))
               else fromisoformat (take 10 raw2))
         else fromisoformat raw2)"

definition time_held :: "string \<Rightarrow> string \<Rightarrow> string \<Rightarrow> flt result" where
  "time_held entry_date exit_date time_basis =
     ebind (parse_timestamp entry_date time_basis) (\<lambda>entry.
     ebind (parse_timestamp exit_date time_basis) (\<lambda>exit'.
     ebind (seconds_between entry exit') (\<lambda>secs.
     ebind (fdiv secs (Fin 86400)) (\<lambda>days. Inr (py_max 0 days)))))"

text \<open>\<open>except (ValueError, TypeError, OSError)\<close> around the holding period.\<close>

definition borrow_cost ::
    "ExecutionConfig \<Rightarrow> flt \<Rightarrow> flt \<Rightarrow> string \<Rightarrow> string \<Rightarrow> string \<Rightarrow> flt result" where
  "borrow_cost c abs_size entry_price direction entry_date exit_date =
     (if direction \<noteq> ''short'' \<or> borrow_fee_annual_pct c \<le> 0 \<or> abs_size \<le> 0 \<or> entry_price \<le> 0
      then Inr 0
      else (case time_held entry_date exit_date (borrow_time_basis c) of
          Inl (ValueError _) \<Rightarrow> Inr 0
        | Inl TypeError \<Rightarrow> Inr 0
        | Inl e \<Rightarrow> Inl e
        | Inr days \<Rightarrow>
            (let notional = abs_size * entry_price
             in ebind (fdiv days (Fin 365)) (\<lambda>years.
                  Inr (notional * borrow_fee_annual_pct c * years)))))"

section \<open>Trade arithmetic\<close>

definition calc_pnl :: "flt \<Rightarrow> flt \<Rightarrow> flt \<Rightarrow> flt \<Rightarrow> flt" where
  "calc_pnl sz entry_price exit_price abs_size =
     (if 0 < sz then (exit_price - entry_price) * abs_size
      else (entry_price - exit_price) * abs_size)"

definition cash_settlement :: "flt \<Rightarrow> flt \<Rightarrow> flt \<Rightarrow> flt \<Rightarrow> flt" where
  "cash_settlement sz fill_cost com borrow =
     (if 0 < sz then fill_cost - com else - (fill_cost + com + borrow))"

definition state_release_margin ::
    "ExecutionConfig \<Rightarrow> flt \<Rightarrow> flt \<Rightarrow> SimulationState \<Rightarrow> SimulationState result" where
  "state_release_margin c abs_size entry_price s =
     (if \<not> is_spot (leverage_of c) \<and> 0 < entry_price
      then ebind (margin_required (leverage_of c) (abs_size * entry_price)) (\<lambda>released.
             Inr (s\<lparr>used_margin := py_max 0 (used_margin s - released)\<rparr>))
      else Inr s)"

definition build_trade ::
    "SimulationState \<Rightarrow> string \<Rightarrow> string \<Rightarrow> flt \<Rightarrow> flt \<Rightarrow> flt \<Rightarrow> flt \<Rightarrow> flt \<Rightarrow> flt \<Rightarrow> flt \<Rightarrow> flt
       \<Rightarrow> string \<Rightarrow> string \<Rightarrow> TradeRecord result" where
  "build_trade s entry_date exit_date entry_price exit_price abs_size gross_pnl net_pnl
     entry_commission exit_commission borrow direction exit_reason =
     ebind (if 0 < entry_price \<and> 0 < abs_size then fdiv net_pnl (entry_price * abs_size) else Inr 0)
       (\<lambda>pnl_pct. Inr \<lparr>
          t_entry_date = entry_date, t_exit_date = exit_date, t_entry_price = entry_price,
          t_exit_price = exit_price, t_size = abs_size, t_gross_pnl = gross_pnl,
          t_net_pnl = net_pnl, t_entry_commission = entry_commission,
          t_exit_commission = exit_commission, t_borrow_cost = borrow,
          t_total_commission = entry_commission + exit_commission, t_pnl_pct = pnl_pct,
          t_duration_bars = p_bars_held (position s), t_direction = direction,
          t_exit_reason = exit_reason \<rparr>)"

text \<open>The percentage in the log line; its division is evaluated like any other argument.\<close>

definition log_pct :: "flt \<Rightarrow> flt \<Rightarrow> flt \<Rightarrow> flt result" where
  "log_pct net_pnl entry_price abs_size =
     (if 0 < entry_price
      then ebind (fdiv net_pnl (entry_price * abs_size)) (\<lambda>q. Inr (q * Fin 100)) else Inr 0)"

section \<open>Closing a position\<close>

definition close_position ::
    "ExecutionConfig \<Rightarrow> flt \<Rightarrow> string \<Rightarrow> string \<Rightarrow> Book \<Rightarrow> Book result" where
  "close_position c exit_price bar_date exit_reason b =
     (let s = bk_state b;
          p = position s;
          abs_size = \<bar>p_size p\<bar>;
          entry_price = p_entry_price p;
          entry_date = p_entry_date p;
          direction = p_direction p;
          fill_price = apply_slippage exit_price direction ''exit'' (slippage_pct c);
          fill_cost = abs_size * fill_price;
          com = commission fill_cost (commission_pct c);
          s1 = s\<lparr>total_commission := total_commission s + com,
                 total_slippage := total_slippage s + \<bar>fill_price - exit_price\<bar> * abs_size\<rparr>;
          gross_pnl = calc_pnl (p_size p) entry_price fill_price abs_size;
          entry_com = p_entry_commission p
      in ebind (borrow_cost c abs_size entry_price direction entry_date bar_date) (\<lambda>borrow.
         let net_pnl = gross_pnl - entry_com - com - borrow;
             s2 = s1\<lparr>total_borrow_cost := total_borrow_cost s1 + borrow,
                     cash := cash s1 + cash_settlement (p_size p) fill_cost com borrow\<rparr>
         in ebind (state_release_margin c abs_size entry_price s2) (\<lambda>s3.
            ebind (case bk_margin b of
                     None \<Rightarrow> Inr None
                   | Some a \<Rightarrow> ebind (settle_exit c s3 abs_size entry_price a) (\<lambda>a'. Inr (Some a')))
              (\<lambda>margin.
            ebind (build_trade s3 entry_date bar_date entry_price fill_price abs_size gross_pnl net_pnl
                     entry_com com borrow direction exit_reason) (\<lambda>trade.
            ebind (log_pct net_pnl entry_price abs_size) (\<lambda>_.
              Inr (b\<lparr>bk_state := s3\<lparr>trades := trades s3 @ [trade_to_dict trade],
                                    position := position_reset p\<rparr>,
                     bk_margin := margin\<rparr>)))))))"

text \<open>
  \<open>check_liquidation\<close>: the callback closes the position at the liquidation price.
\<close>

definition check_liquidation ::
    "ExecutionConfig \<Rightarrow> flt \<Rightarrow> flt \<Rightarrow> string \<Rightarrow> (flt \<Rightarrow> string \<Rightarrow> string \<Rightarrow> Book \<Rightarrow> Book result)
       \<Rightarrow> Book \<Rightarrow> (bool \<times> Book) result" where
  "check_liquidation c high low date on_liquidated b =
     (let p = position (bk_state b); liq = p_liquidation_price p
      in if is_spot (leverage_of c) \<or> feq (p_size p) 0 then Inr (False, b)
         else if (0 < p_size p \<and> low \<le> liq) \<or> (p_size p < 0 \<and> liq \<le> high)
         then ebind (on_liquidated liq date ''liquidation'' b) (\<lambda>b'. Inr (True, b'))
         else Inr (False, b))"

section \<open>Lemmas\<close>

lemma SLIPPAGE_SIGN_simps [simp]:
  "get_or SLIPPAGE_SIGN (''long'', ''entry'') 0 = Fin 1"
  "get_or SLIPPAGE_SIGN (''long'', ''exit'') 0 = Fin (- 1)"
  "get_or SLIPPAGE_SIGN (''short'', ''entry'') 0 = Fin (- 1)"
  "get_or SLIPPAGE_SIGN (''short'', ''exit'') 0 = Fin 1"
  by (simp_all add: SLIPPAGE_SIGN_def get_or_def)

lemma flt_sign_mult [simp]: "is_f64 x \<Longrightarrow> Fin 1 * x = x" "is_f64 x \<Longrightarrow> Fin (- 1) * x = - x"
  by (cases x; simp add: flr_uminus)+

text \<open>Slippage is never in the trader's favour.\<close>

lemma apply_slippage_none [simp]: "slip \<le> 0 \<Longrightarrow> apply_slippage p d side slip = p"
  by (simp add: apply_slippage_def)

lemma slippage_adverse_up:
  assumes "is_f64 p" "0 < p" "is_f64 slip" "slip \<noteq> NaN"
    and "get_or SLIPPAGE_SIGN (d, side) 0 = Fin 1"
  shows "p \<le> apply_slippage p d side slip"
proof (cases "slip \<le> 0")
  case True
  then show ?thesis using flt_less_not_NaN [OF assms(2)] by simp
next
  case False
  then have "0 \<le> slip" using assms(4) by (auto simp: flt_not_le zero_flt_def intro: flt_less_imp_le)
  then have "p \<le> p * (1 + slip)" using assms by (intro flt_scale_up flt_one_plus)
  then show ?thesis using False assms by (simp add: apply_slippage_def feq_def zero_flt_def)
qed

lemma slippage_adverse_down:
  assumes "is_f64 p" "0 < p" "is_finite p" "is_f64 slip" "slip \<noteq> NaN"
    and "get_or SLIPPAGE_SIGN (d, side) 0 = Fin (- 1)"
  shows "apply_slippage p d side slip \<le> p"
proof (cases "slip \<le> 0")
  case True
  then show ?thesis using flt_less_not_NaN [OF assms(2)] by simp
next
  case False
  then have "0 \<le> slip" using assms(5) by (auto simp: flt_not_le zero_flt_def intro: flt_less_imp_le)
  then have "p * (1 - slip) \<le> p" using assms by (intro flt_scale_down flt_one_minus)
  then show ?thesis using False assms by (simp add: apply_slippage_def feq_def zero_flt_def minus_flt_def)
qed

lemma is_f64_apply_slippage [simp]: "is_f64 p \<Longrightarrow> is_f64 (apply_slippage p d side slip)"
  by (simp add: apply_slippage_def Let_def)

lemma commission_nonneg: "commission g pct \<noteq> NaN \<Longrightarrow> 0 \<le> commission g pct"
proof (cases "pct \<le> 0")
  case True
  then show ?thesis by (simp add: commission_def zero_flt_def)
next
  case False
  assume nn: "commission g pct \<noteq> NaN"
  then have m: "\<bar>g\<bar> * pct \<noteq> NaN" using False by (simp add: commission_def)
  then have "g \<noteq> NaN" "pct \<noteq> NaN" by (cases g; cases pct; auto)+
  then have "0 \<le> \<bar>g\<bar>" "0 \<le> pct"
    using False by (auto simp: flt_not_le zero_flt_def intro: flt_abs_nonneg [unfolded zero_flt_def] flt_less_imp_le)
  then show ?thesis using False m by (simp add: commission_def flt_times_nonneg)
qed

lemma borrow_cost_long [simp]: "d \<noteq> ''short'' \<Longrightarrow> borrow_cost c z p d e x = Inr 0"
  by (simp add: borrow_cost_def)

lemma borrow_cost_no_fee: "borrow_fee_annual_pct c \<le> 0 \<Longrightarrow> borrow_cost c z p d e x = Inr 0"
  by (simp add: borrow_cost_def)

lemma fdiv_const_total: "q \<noteq> 0 \<Longrightarrow> \<exists>z. fdiv x (Fin q) = Inr z"
  by (cases x) auto

lemma parse_timestamp_error: "parse_timestamp r b = Inl e \<Longrightarrow> \<exists>m. e = ValueError m"
  by (auto simp: parse_timestamp_def Let_def raise_def dest: fromisoformat_error split: if_splits)

lemma time_held_error: "time_held a b tb = Inl e \<Longrightarrow> (\<exists>m. e = ValueError m) \<or> e = TypeError"
  using fdiv_const_total [of 86400]
  by (auto simp: time_held_def ebind_eq_Inl seconds_between_def raise_def split: if_splits
        dest: parse_timestamp_error)

text \<open>The borrow cost never raises: unreadable dates give 0.\<close>

lemma borrow_cost_total: "\<exists>v. borrow_cost c z p d e x = Inr v"
proof (cases "time_held e x (borrow_time_basis c)")
  case (Inl err)
  then show ?thesis using time_held_error [OF Inl] by (auto simp: borrow_cost_def)
next
  case (Inr days)
  obtain y where "fdiv days (Fin 365) = Inr y" using fdiv_const_total [of 365 days] by auto
  then show ?thesis using Inr by (auto simp: borrow_cost_def Let_def)
qed

lemma time_held_nonneg: "time_held a b tb = Inr v \<Longrightarrow> 0 \<le> v"
  by (auto simp: time_held_def zero_flt_def intro: py_max_ge)

lemma state_release_margin_frame:
  "state_release_margin c z p s = Inr t \<Longrightarrow> \<exists>m. t = s\<lparr>used_margin := m\<rparr>"
proof -
  have "\<exists>m. s = s\<lparr>used_margin := m\<rparr>" by (rule exI [of _ "used_margin s"]) simp
  then show "state_release_margin c z p s = Inr t \<Longrightarrow> \<exists>m. t = s\<lparr>used_margin := m\<rparr>"
    by (auto simp: state_release_margin_def split: if_splits)
qed

text \<open>What a close that returns has done.\<close>

lemma close_positionE:
  assumes "close_position c x d r b = Inr b'"
  obtains borrow m margin trade where
    "borrow_cost c \<bar>p_size (position (bk_state b))\<bar> (p_entry_price (position (bk_state b)))
       (p_direction (position (bk_state b))) (p_entry_date (position (bk_state b))) d = Inr borrow"
    "bk_state b' = (bk_state b)\<lparr>
        total_commission := total_commission (bk_state b) + commission (\<bar>p_size (position (bk_state b))\<bar> *
           apply_slippage x (p_direction (position (bk_state b))) ''exit'' (slippage_pct c)) (commission_pct c),
        total_slippage := total_slippage (bk_state b) +
           \<bar>apply_slippage x (p_direction (position (bk_state b))) ''exit'' (slippage_pct c) - x\<bar>
             * \<bar>p_size (position (bk_state b))\<bar>,
        total_borrow_cost := total_borrow_cost (bk_state b) + borrow,
        cash := cash (bk_state b) + cash_settlement (p_size (position (bk_state b)))
           (\<bar>p_size (position (bk_state b))\<bar> *
              apply_slippage x (p_direction (position (bk_state b))) ''exit'' (slippage_pct c))
           (commission (\<bar>p_size (position (bk_state b))\<bar> *
              apply_slippage x (p_direction (position (bk_state b))) ''exit'' (slippage_pct c)) (commission_pct c))
           borrow,
        used_margin := m,
        trades := trades (bk_state b) @ [trade_to_dict trade],
        position := new_position\<rparr>"
    "bk_margin b' = margin"
    "(bk_margin b = None \<longleftrightarrow> margin = None)"
    "\<And>a. margin = Some a \<Longrightarrow> ma_cash a = cash (bk_state b')"
    "t_exit_reason trade = r" "t_exit_date trade = d"
    "t_direction trade = p_direction (position (bk_state b))"
    "t_entry_date trade = p_entry_date (position (bk_state b))"
    "t_size trade = \<bar>p_size (position (bk_state b))\<bar>"
    "t_entry_price trade = p_entry_price (position (bk_state b))"
    "t_exit_price trade = apply_slippage x (p_direction (position (bk_state b))) ''exit'' (slippage_pct c)"
    "t_duration_bars trade = p_bars_held (position (bk_state b))"
    "t_borrow_cost trade = borrow"
  using assms unfolding close_position_def Let_def
  apply (elim ebindE)
  apply (drule state_release_margin_frame)
  apply (elim exE)
  subgoal premises prems for borrow s3 margin trade lp m
    apply (rule prems(1) [where borrow = borrow and m = m and trade = trade and margin = margin])
    using prems(2-)
                 apply (auto simp: build_trade_def settle_exit_cash split: option.splits)
    done
  done

end
