(* ===== verification/PositionOpener.thy ===== *)
theory PositionOpener
  imports PositionCloser PositionSizer
begin

text \<open>
  \<open>position_opener.py\<close>: entry validation and position creation.

    - \<open>stop_valid\<close> rejects a stop on the wrong side of the entry price or, with leverage, beyond the
      liquidation price; \<open>open_position\<close> moves the cash, mirrors the entry in the margin account and
      fills in the position.
    - The lemmas give what a stop accepted by \<open>stop_valid\<close> satisfies and what a successful open has
      done to the book.
\<close>

definition stop_valid :: "ExecutionConfig \<Rightarrow> PendingEntry \<Rightarrow> flt \<Rightarrow> bool result" where
  "stop_valid c e price =
     (if pe_stop_price e \<le> 0 then Inr True
      else if pe_direction e = ''long'' \<and> price \<le> pe_stop_price e then Inr False
      else if pe_direction e = ''short'' \<and> pe_stop_price e \<le> price then Inr False
      else if \<not> is_spot (leverage_of c)
      then ebind (liquidation_price (leverage_of c) price (pe_direction e)) (\<lambda>_.
             validate_stop (leverage_of c) (pe_stop_price e) price (pe_direction e))
      else Inr True)"

definition open_position ::
    "ExecutionConfig \<Rightarrow> PendingEntry \<Rightarrow> flt \<Rightarrow> flt \<Rightarrow> flt \<Rightarrow> string \<Rightarrow> Book \<Rightarrow> Book result" where
  "open_position c e sz raw_price fill_price date b =
     (let s = bk_state b;
          cost = sz * fill_price;
          com = commission cost (commission_pct c);
          entry_slippage = \<bar>fill_price - raw_price\<bar> * sz;
          s1 = s\<lparr>total_commission := total_commission s + com,
                 total_slippage := total_slippage s + entry_slippage\<rparr>;
          finish = (\<lambda>s2 margin p.
            ebind (liquidation_price (leverage_of c) fill_price (pe_direction e)) (\<lambda>liq.
            ebind (margin_required (leverage_of c) cost) (\<lambda>m.
              Inr (b\<lparr>bk_margin := margin,
                     bk_state := s2\<lparr>
                       position := p\<lparr>p_entry_price := fill_price, p_entry_date := date,
                         p_stop_price := pe_stop_price e, p_target_price := pe_target_price e,
                         p_entry_commission := com, p_entry_slippage := entry_slippage,
                         p_liquidation_price := liq\<rparr>,
                       used_margin := used_margin s2 + m\<rparr>\<rparr>))))
      in if pe_direction e = ''long'' then
           (let s2 = s1\<lparr>cash := cash s1 - (cost + com)\<rparr>
            in ebind (case bk_margin b of
                        None \<Rightarrow> Inr None
                      | Some a \<Rightarrow> ebind (lock_entry_margin c s2 cost com a) (\<lambda>a'. Inr (Some a')))
                 (\<lambda>margin. finish s2 margin (new_position\<lparr>p_size := sz, p_direction := ''long''\<rparr>)))
         else if pe_direction e = ''short'' then
           (let s2 = s1\<lparr>cash := cash s1 + (cost - com)\<rparr>
            in finish s2 (map_option (credit_entry_short s2 cost com) (bk_margin b))
                 (new_position\<lparr>p_size := - sz, p_direction := ''short''\<rparr>))
         else Inr (b\<lparr>bk_state := s1\<rparr>))"

text \<open>An accepted stop lies strictly between the liquidation price and the entry price.\<close>

lemma stop_valid_long:
  assumes "stop_valid c e price = Inr True" "pe_direction e = ''long''" "0 < pe_stop_price e"
  shows "\<not> price \<le> pe_stop_price e"
    and "\<not> is_spot (leverage_of c) \<Longrightarrow>
         \<exists>liq. liquidation_price (leverage_of c) price ''long'' = Inr liq \<and> liq < pe_stop_price e"
  using assms by (auto simp: stop_valid_def validate_stop_def flt_less_asym split: if_splits)

lemma stop_valid_short:
  assumes "stop_valid c e price = Inr True" "pe_direction e = ''short''" "0 < pe_stop_price e"
  shows "\<not> pe_stop_price e \<le> price"
    and "\<not> is_spot (leverage_of c) \<Longrightarrow>
         \<exists>liq. liquidation_price (leverage_of c) price ''short'' = Inr liq \<and> pe_stop_price e < liq"
  using assms by (auto simp: stop_valid_def validate_stop_def flt_less_asym split: if_splits)

text \<open>
  The parts of the state an open leaves alone, and the shape of what it creates.
\<close>

lemma open_position_frame:
  assumes "open_position c e sz raw fill d b = Inr b'"
  shows "trades (bk_state b') = trades (bk_state b)"
    and "equity_curve (bk_state b') = equity_curve (bk_state b)"
    and "pending_entry (bk_state b') = pending_entry (bk_state b)"
    and "pending_exit (bk_state b') = pending_exit (bk_state b)"
    and "peak_value (bk_state b') = peak_value (bk_state b)"
    and "initial_cash (bk_state b') = initial_cash (bk_state b)"
    and "total_funding (bk_state b') = total_funding (bk_state b)"
    and "total_borrow_cost (bk_state b') = total_borrow_cost (bk_state b)"
    and "diagnostics (bk_state b') = diagnostics (bk_state b)"
    and "bk_margin b' = None \<longleftrightarrow> bk_margin b = None"
  using assms by (auto simp: open_position_def Let_def split: if_splits option.splits)

lemma open_position_long:
  assumes "open_position c e sz raw fill d b = Inr b'" "pe_direction e = ''long''"
  shows "cash (bk_state b') = cash (bk_state b) - (sz * fill + commission (sz * fill) (commission_pct c))"
    and "p_size (position (bk_state b')) = sz"
    and "p_direction (position (bk_state b')) = ''long''"
    and "p_entry_price (position (bk_state b')) = fill"
    and "p_stop_price (position (bk_state b')) = pe_stop_price e"
    and "p_target_price (position (bk_state b')) = pe_target_price e"
    and "p_bars_held (position (bk_state b')) = 0"
    and "p_entry_commission (position (bk_state b')) = commission (sz * fill) (commission_pct c)"
    and "p_entry_date (position (bk_state b')) = d"
  using assms by (auto simp: open_position_def Let_def new_position_def)

lemma open_position_short:
  assumes "open_position c e sz raw fill d b = Inr b'" "pe_direction e = ''short''"
  shows "cash (bk_state b') = cash (bk_state b) + (sz * fill - commission (sz * fill) (commission_pct c))"
    and "p_size (position (bk_state b')) = - sz"
    and "p_direction (position (bk_state b')) = ''short''"
    and "p_entry_price (position (bk_state b')) = fill"
    and "p_stop_price (position (bk_state b')) = pe_stop_price e"
    and "p_target_price (position (bk_state b')) = pe_target_price e"
    and "p_bars_held (position (bk_state b')) = 0"
    and "p_entry_commission (position (bk_state b')) = commission (sz * fill) (commission_pct c)"
    and "p_entry_date (position (bk_state b')) = d"
  using assms by (auto simp: open_position_def Let_def new_position_def)

lemma open_position_other:
  assumes "open_position c e sz raw fill d b = Inr b'"
    and "pe_direction e \<noteq> ''long''" "pe_direction e \<noteq> ''short''"
  shows "position (bk_state b') = position (bk_state b)" "cash (bk_state b') = cash (bk_state b)"
  using assms by (auto simp: open_position_def Let_def)

end
