(* ===== verification/PositionExecutor.thy ===== *)
theory PositionExecutor
  imports PositionOpener ExitResolver
begin

text \<open>
  \<open>position_executor.py\<close>: the facade the bar loop calls.

    - \<open>setup_full_margin\<close>, \<open>sync_margin_equity\<close>, \<open>apply_funding\<close> and \<open>margin_call_check\<close> act in
      full-margin mode only; \<open>enter_position\<close>, \<open>exit_position\<close>, \<open>check_exit_conditions\<close> and
      \<open>liquidate_open\<close> are the position life cycle; \<open>portfolio_value\<close> marks the book to a price.
    - The lemmas say which fields each operation can change and that a position is only ever
      opened from flat and closed to flat.
\<close>

definition full_margin :: "ExecutionConfig \<Rightarrow> bool" where
  "full_margin c \<longleftrightarrow> margin_mode c = ''full''"

definition setup_full_margin :: "ExecutionConfig \<Rightarrow> flt \<Rightarrow> MarginAccount option" where
  "setup_full_margin c initial = (if full_margin c then Some (new_manager initial) else None)"

definition sync_margin_equity :: "ExecutionConfig \<Rightarrow> Book \<Rightarrow> Book" where
  "sync_margin_equity c b =
     (case bk_margin b of
        Some a \<Rightarrow> if full_margin c then b\<lparr>bk_state := sync_state_equity a (bk_state b)\<rparr> else b
      | None \<Rightarrow> b)"

definition apply_funding :: "ExecutionConfig \<Rightarrow> Book \<Rightarrow> Book" where
  "apply_funding c b =
     (case bk_margin b of
        Some a \<Rightarrow>
          if full_margin c
          then (case manager_apply_funding c (position (bk_state b)) a of (payment, a') \<Rightarrow>
                  let s = bk_state b;
                      s' = (if \<not> feq payment 0 then s\<lparr>total_funding := total_funding s + payment\<rparr> else s)
                  in b\<lparr>bk_margin := Some a', bk_state := sync_state_equity a' s'\<rparr>)
          else b
      | None \<Rightarrow> b)"

definition exit_position :: "ExecutionConfig \<Rightarrow> flt \<Rightarrow> string \<Rightarrow> string \<Rightarrow> Book \<Rightarrow> Book result" where
  "exit_position c exit_price bar_date exit_reason b = close_position c exit_price bar_date exit_reason b"

definition margin_call_check :: "ExecutionConfig \<Rightarrow> flt \<Rightarrow> Book \<Rightarrow> Book result" where
  "margin_call_check c close b =
     (if \<not> full_margin c \<or> bk_margin b = None then Inr b
      else if check_margin_call c (position (bk_state b)) close = Some ''liquidation''
      then exit_position c close '''' ''margin_call'' b
      else Inr b)"

definition portfolio_value :: "SimulationState \<Rightarrow> flt \<Rightarrow> flt" where
  "portfolio_value s close =
     (let z = p_size (position s)
      in if 0 < z then cash s + z * close
         else if z < 0 then cash s - \<bar>z\<bar> * close
         else cash s)"

definition scale_price :: "flt \<Rightarrow> flt \<Rightarrow> flt \<Rightarrow> flt \<Rightarrow> flt" where
  "scale_price old_price signal_close fill_price ratio =
     (if old_price \<le> 0 then old_price else fill_price + (old_price - signal_close) * ratio)"

definition rebase_risk_prices :: "ExecutionConfig \<Rightarrow> PendingEntry \<Rightarrow> flt \<Rightarrow> PendingEntry result" where
  "rebase_risk_prices c e fill_price =
     (if risk_price_basis c \<noteq> ''entry_fill'' then Inr e
      else if pe_signal_close e \<le> 0 then Inr e
      else ebind (fdiv fill_price (pe_signal_close e)) (\<lambda>ratio.
        Inr (e\<lparr>pe_stop_price := scale_price (pe_stop_price e) (pe_signal_close e) fill_price ratio,
               pe_target_price := scale_price (pe_target_price e) (pe_signal_close e) fill_price ratio\<rparr>)))"

definition msg_size_zero :: string where
  "msg_size_zero = ''Entry skipped because resolved position size was zero.''"

definition enter_position ::
    "ExecutionConfig \<Rightarrow> PendingEntry \<Rightarrow> flt \<Rightarrow> string \<Rightarrow> Book \<Rightarrow> Book result" where
  "enter_position c e0 price date b =
     (let fill_price = apply_slippage price (pe_direction e0) ''entry'' (slippage_pct c)
      in ebind (rebase_risk_prices c e0 fill_price) (\<lambda>e.
         ebind (stop_valid c e fill_price) (\<lambda>ok.
           if \<not> ok then Inr b
           else (let portfolio = portfolio_value (bk_state b) fill_price
                 in ebind (resolve_size c (bk_state b) e fill_price portfolio date) (\<lambda>(sz, s1).
                      if sz \<le> 0
                      then Inr (b\<lparr>bk_state := add_diagnostic ''order_rejected'' ''entry_size_zero''
                                     msg_size_zero date [] s1\<rparr>)
                      else open_position c e sz price fill_price date (b\<lparr>bk_state := s1\<rparr>))))))"

definition on_liquidated :: "ExecutionConfig \<Rightarrow> flt \<Rightarrow> string \<Rightarrow> string \<Rightarrow> Book \<Rightarrow> Book result" where
  "on_liquidated c price date reason b = exit_position c price date reason b"

definition bump_bars_held :: "Book \<Rightarrow> Book" where
  "bump_bars_held b = b\<lparr>bk_state := (bk_state b)\<lparr>position :=
     (position (bk_state b))\<lparr>p_bars_held := p_bars_held (position (bk_state b)) + 1\<rparr>\<rparr>\<rparr>"

definition check_exit_conditions ::
    "ExecutionConfig \<Rightarrow> flt \<Rightarrow> flt \<Rightarrow> flt \<Rightarrow> string \<Rightarrow> Book \<Rightarrow> Book result" where
  "check_exit_conditions c open_price high low bar_date b =
     (let b1 = bump_bars_held b
      in ebind (check_liquidation c high low bar_date (on_liquidated c) b1) (\<lambda>(liquidated, b2).
           if liquidated then Inr b2
           else (case resolve_exit (position (bk_state b2)) open_price high low of
                   None \<Rightarrow> Inr b2
                 | Some (exit_price, reason) \<Rightarrow> exit_position c exit_price bar_date reason b2)))"

text \<open>Replacing the last equity point after the final liquidation.\<close>

definition liquidate_open :: "ExecutionConfig \<Rightarrow> flt \<Rightarrow> string \<Rightarrow> Book \<Rightarrow> Book result" where
  "liquidate_open c final_close final_date b =
     (if feq (p_size (position (bk_state b))) 0 then Inr b
      else ebind (exit_position c final_close final_date ''end_of_backtest'' b) (\<lambda>b1.
        let s = bk_state b1
        in if equity_curve s = [] then Inr b1
           else (let portfolio_val = portfolio_value s final_close;
                     s1 = (if peak_value s < portfolio_val then s\<lparr>peak_value := portfolio_val\<rparr> else s)
                 in ebind (if 0 < peak_value s1
                           then fdiv (peak_value s1 - portfolio_val) (peak_value s1) else Inr 0) (\<lambda>dd.
                      Inr (b1\<lparr>bk_state := s1\<lparr>equity_curve :=
                        set_last ((last (equity_curve s1))\<lparr>eq_value := portfolio_val, eq_position := 0,
                                    eq_drawdown := dd\<rparr>) (equity_curve s1)\<rparr>\<rparr>)))))"

section \<open>Frames\<close>

text \<open>The part of the book the executor's exits and entries never touch.\<close>

definition same_orders :: "SimulationState \<Rightarrow> SimulationState \<Rightarrow> bool" where
  "same_orders s t \<longleftrightarrow> equity_curve t = equity_curve s \<and> pending_entry t = pending_entry s \<and>
     pending_exit t = pending_exit s \<and> initial_cash t = initial_cash s \<and> peak_value t = peak_value s"

lemma same_orders_refl [simp]: "same_orders s s"
  by (simp add: same_orders_def)

lemma same_orders_trans [trans]: "same_orders s t \<Longrightarrow> same_orders t u \<Longrightarrow> same_orders s u"
  by (simp add: same_orders_def)

lemma same_ordersD:
  assumes "same_orders s t"
  shows "equity_curve t = equity_curve s" "pending_entry t = pending_entry s"
    "pending_exit t = pending_exit s" "initial_cash t = initial_cash s" "peak_value t = peak_value s"
  using assms by (simp_all add: same_orders_def)

lemma exit_position_orders: "exit_position c x d r b = Inr b' \<Longrightarrow> same_orders (bk_state b) (bk_state b')"
  by (auto simp: exit_position_def same_orders_def elim!: close_positionE)

lemma exit_position_flat: "exit_position c x d r b = Inr b' \<Longrightarrow> position (bk_state b') = new_position"
  by (auto simp: exit_position_def elim!: close_positionE)

lemma exit_position_trades:
  "exit_position c x d r b = Inr b' \<Longrightarrow>
   \<exists>t. trades (bk_state b') = trades (bk_state b) @ [t] \<and> td_exit_reason t = r \<and> td_exit_date t = d
       \<and> td_direction t = p_direction (position (bk_state b))"
  by (auto simp: exit_position_def trade_to_dict_def elim!: close_positionE)

lemma exit_position_funding:
  "exit_position c x d r b = Inr b' \<Longrightarrow> total_funding (bk_state b') = total_funding (bk_state b)
     \<and> diagnostics (bk_state b') = diagnostics (bk_state b)"
  by (auto simp: exit_position_def elim!: close_positionE)

lemma exit_position_margin:
  "exit_position c x d r b = Inr b' \<Longrightarrow> bk_margin b' = None \<longleftrightarrow> bk_margin b = None"
  by (auto simp: exit_position_def elim!: close_positionE)

lemma margin_call_check_orders: "margin_call_check c x b = Inr b' \<Longrightarrow> same_orders (bk_state b) (bk_state b')"
  by (auto simp: margin_call_check_def exit_position_orders split: if_splits)

lemma sync_margin_equity_orders [simp]: "same_orders (bk_state b) (bk_state (sync_margin_equity c b))"
  by (auto simp: sync_margin_equity_def sync_state_equity_def same_orders_def split: option.splits)

lemma sync_margin_equity_position [simp]: "position (bk_state (sync_margin_equity c b)) = position (bk_state b)"
  by (auto simp: sync_margin_equity_def sync_state_equity_def split: option.splits)

lemma apply_funding_orders [simp]: "same_orders (bk_state b) (bk_state (apply_funding c b))"
  by (auto simp: apply_funding_def sync_state_equity_def same_orders_def Let_def split: option.splits prod.splits)

lemma apply_funding_position [simp]: "position (bk_state (apply_funding c b)) = position (bk_state b)"
  by (auto simp: apply_funding_def sync_state_equity_def Let_def split: option.splits prod.splits)

lemma enter_position_orders:
  assumes "enter_position c e p d b = Inr b'" shows "same_orders (bk_state b) (bk_state b')"
proof -
  have f: "resolve_size c s e' p' pv d' = Inr (z, s1) \<Longrightarrow> same_orders s s1" for s e' p' pv d' z s1
    by (drule resolve_size_frame) (auto simp: same_orders_def dest: diag_extD)
  have o: "open_position c e' z raw fill d' b1 = Inr b2 \<Longrightarrow> same_orders (bk_state b1) (bk_state b2)"
    for e' z raw fill d' b1 b2
    using open_position_frame by (auto simp: same_orders_def)
  show ?thesis
    using assms
    by (auto simp: enter_position_def Let_def split: if_splits dest!: f o intro: same_orders_trans)
       (auto simp: same_orders_def)
qed

end
