(* ===== verification/Conditions.thy ===== *)
theory Conditions
  imports PyVal Prelude
begin

text \<open>
  The condition trees of a JSON strategy and their evaluator
  (\<open>evaluation/condition_evaluator.py\<close> and the entities \<open>operand\<close>, \<open>condition\<close> and
  \<open>condition_group\<close> of the strategy runtime).

    - A bar is a dict from column names to values, \<open>string \<rightharpoonup> pyval\<close>; the crossover state
      (\<open>PrevValues\<close>) a dict from crossover keys to the pair of numbers last seen.
    - \<open>collect_state\<close> is the first pass, which records the numbers of every crossover of the
      tree; \<open>eval_bool\<close> the second, which computes the truth value with the short-circuit of
      Python's \<open>all\<close> and \<open>any\<close> and returns the dict it has written to; \<open>evaluate\<close> runs both.
    - \<open>to_float\<close> swallows \<open>TypeError\<close> and \<open>ValueError\<close>; the \<open>OverflowError\<close> of a huge integer
      escapes, so every operation returns a \<open>result\<close>.
\<close>

section \<open>Operands, conditions and groups\<close>

record Operand =
  od_kind :: string
  od_value :: pyval
  od_label :: string
  od_sources :: "string list"

record Condition =
  cn_left :: Operand
  cn_operator :: string
  cn_right :: "Operand option"

datatype ConditionGroup =
  ConditionGroup (cg_kind: string) (cg_children: "ConditionGroup list")
    (cg_condition: "Condition option")

type_synonym bar = "string \<rightharpoonup> pyval"
type_synonym prev_values = "string \<rightharpoonup> (flt \<times> flt)"

definition empty_bar :: bar where
  "empty_bar = (\<lambda>_. None)"

section \<open>Operand values\<close>

definition crossover_operators :: "string list" where
  "crossover_operators = [''crosses_above'', ''crosses_below'']"

definition key_sep :: string where
  "key_sep = [CHR 0x1F]"

definition crossover_key :: "string \<Rightarrow> string \<Rightarrow> string \<Rightarrow> string" where
  "crossover_key left_label right_label operator =
     left_label @ key_sep @ right_label @ key_sep @ operator"

text \<open>Only a float can be a NaN.\<close>

fun value_is_nan :: "pyval \<Rightarrow> bool" where
  "value_is_nan (PFloat x) = is_nan x"
| "value_is_nan _ = False"

text \<open>\<open>bar.get(k)\<close>: a missing column reads as \<open>None\<close>.\<close>

definition bar_get :: "bar \<Rightarrow> string \<Rightarrow> pyval" where
  "bar_get bar k = get_or bar k PNone"

definition usable :: "pyval \<Rightarrow> bool" where
  "usable v \<longleftrightarrow> v \<noteq> PNone \<and> \<not> value_is_nan v"

fun first_usable :: "bar \<Rightarrow> string list \<Rightarrow> pyval" where
  "first_usable bar [] = PNone"
| "first_usable bar (k # ks) =
     (if usable (bar_get bar k) then bar_get bar k else first_usable bar ks)"

definition column_kinds :: "string list" where
  "column_kinds = [''field'', ''indicator'', ''feature'', ''column'']"

definition resolve_operand :: "Operand \<Rightarrow> bar \<Rightarrow> pyval" where
  "resolve_operand operand bar =
     (if od_kind operand \<in> set column_kinds
      then first_usable bar (py_str (od_value operand) # od_sources operand)
      else od_value operand)"

definition is_bool :: "pyval \<Rightarrow> bool" where
  "is_bool v = (case v of PBool _ \<Rightarrow> True | _ \<Rightarrow> False)"

text \<open>\<open>_to_float\<close>: \<open>None\<close> for a value that is not a number or is a NaN.\<close>

definition to_float :: "pyval \<Rightarrow> flt option result" where
  "to_float v =
     (if v = PNone \<or> is_bool v then Inr None
      else (case py_float v of
              Inl TypeError \<Rightarrow> Inr None
            | Inl (ValueError _) \<Rightarrow> Inr None
            | Inl e \<Rightarrow> Inl e
            | Inr x \<Rightarrow> Inr (if is_nan x then None else Some x)))"

section \<open>Pass 1: collecting the state of crossovers\<close>

definition right_label :: "Condition \<Rightarrow> string" where
  "right_label c = (case cn_right c of Some r \<Rightarrow> od_label r | None \<Rightarrow> '''')"

definition condition_key :: "Condition \<Rightarrow> string" where
  "condition_key c = crossover_key (od_label (cn_left c)) (right_label c) (cn_operator c)"

definition collect_crossover :: "Condition \<Rightarrow> bar \<Rightarrow> prev_values \<Rightarrow> prev_values result" where
  "collect_crossover c bar pv =
     (if cn_operator c \<notin> set crossover_operators then Inr pv
      else (case cn_right c of
              None \<Rightarrow> Inr pv
            | Some r \<Rightarrow>
                ebind (to_float (resolve_operand (cn_left c) bar)) (\<lambda>left_n.
                ebind (to_float (resolve_operand r bar)) (\<lambda>right_n.
                  case (left_n, right_n) of
                    (Some x, Some y) \<Rightarrow> Inr (pv(condition_key c \<mapsto> (x, y)))
                  | _ \<Rightarrow> Inr pv))))"

fun collect_group :: "ConditionGroup \<Rightarrow> bar \<Rightarrow> prev_values \<Rightarrow> prev_values result"
and collect_groups :: "ConditionGroup list \<Rightarrow> bar \<Rightarrow> prev_values \<Rightarrow> prev_values result" where
  "collect_group (ConditionGroup kind children cond) bar pv =
     (if kind = ''all'' \<or> kind = ''any'' then collect_groups children bar pv
      else if kind = ''not''
      then (case children of g # _ \<Rightarrow> collect_group g bar pv | [] \<Rightarrow> Inr pv)
      else if kind = ''condition''
      then (case cond of Some c \<Rightarrow> collect_crossover c bar pv | None \<Rightarrow> Inr pv)
      else Inr pv)"
| "collect_groups [] bar pv = Inr pv"
| "collect_groups (g # gs) bar pv = ebind (collect_group g bar pv) (collect_groups gs bar)"

definition collect_state :: "ConditionGroup option \<Rightarrow> bar \<Rightarrow> prev_values \<Rightarrow> prev_values result" where
  "collect_state grp bar pv =
     (case grp of None \<Rightarrow> Inr pv | Some g \<Rightarrow> collect_group g bar pv)"

section \<open>Pass 2: truth values\<close>

definition between :: "pyval \<Rightarrow> pyval \<Rightarrow> bool result" where
  "between left right =
     ebind (to_float left) (\<lambda>left_number.
       case (left_number, right) of
         (Some x, PList [lo, hi]) \<Rightarrow>
           ebind (to_float lo) (\<lambda>low.
           ebind (to_float hi) (\<lambda>high.
             case (low, high) of
               (Some a, Some b) \<Rightarrow> Inr (a \<le> x \<and> x \<le> b)
             | _ \<Rightarrow> Inr False))
       | _ \<Rightarrow> Inr False)"

definition eq_tolerance :: flt where
  "eq_tolerance = flr (1 / 10 ^ 9)"

definition compare_values :: "flt \<Rightarrow> string \<Rightarrow> flt \<Rightarrow> bool" where
  "compare_values left operator right =
     (if operator = ''<'' then left < right
      else if operator = ''>'' then right < left
      else if operator = ''<='' then left \<le> right
      else if operator = ''>='' then right \<le> left
      else if operator = ''=='' then \<bar>left - right\<bar> < eq_tolerance
      else if operator = ''!='' then eq_tolerance \<le> \<bar>left - right\<bar>
      else False)"

definition crossed ::
  "Condition \<Rightarrow> flt \<Rightarrow> flt \<Rightarrow> prev_values \<Rightarrow> prev_values \<Rightarrow> bool \<times> prev_values" where
  "crossed c left right prev pv =
     (let key = condition_key c; pv' = pv(key \<mapsto> (left, right))
      in (case prev key of
            None \<Rightarrow> (False, pv')
          | Some (previous_left, previous_right) \<Rightarrow>
              (if cn_operator c = ''crosses_above''
               then previous_left \<le> previous_right \<and> right < left
               else if cn_operator c = ''crosses_below''
               then previous_right \<le> previous_left \<and> left < right
               else False, pv')))"

definition compare_operators :: "string list" where
  "compare_operators = [''<'', ''>'', ''<='', ''>='', ''=='', ''!='']"

definition eval_condition ::
  "Condition \<Rightarrow> bar \<Rightarrow> prev_values \<Rightarrow> prev_values \<Rightarrow> (bool \<times> prev_values) result" where
  "eval_condition c bar prev pv =
     (let left = resolve_operand (cn_left c) bar; operator = cn_operator c
      in if operator = ''exists'' then Inr (left \<noteq> PNone, pv)
         else if operator = ''missing'' then Inr (left = PNone, pv)
         else if operator = ''is_true'' then Inr (truthy left, pv)
         else if operator = ''is_false'' then Inr (\<not> truthy left, pv)
         else (case cn_right c of
                 None \<Rightarrow> Inr (False, pv)
               | Some r \<Rightarrow>
                   (let right = resolve_operand r bar
                    in if operator = ''between'' then ebind (between left right) (\<lambda>b. Inr (b, pv))
                       else if operator = ''not_between''
                       then ebind (between left right) (\<lambda>b. Inr (\<not> b, pv))
                       else
                         ebind (to_float left) (\<lambda>left_number.
                         ebind (to_float right) (\<lambda>right_number.
                           case (left_number, right_number) of
                             (Some x, Some y) \<Rightarrow>
                               (if operator \<in> set compare_operators
                                then Inr (compare_values x operator y, pv)
                                else if operator \<in> set crossover_operators
                                then Inr (crossed c x y prev pv)
                                else Inr (False, pv))
                           | _ \<Rightarrow> Inr (False, pv))))))"

text \<open>\<open>eval_all\<close> and \<open>eval_any\<close> are Python's \<open>all\<close> and \<open>any\<close> over the generator of child results.\<close>

fun eval_group :: "ConditionGroup \<Rightarrow> bar \<Rightarrow> prev_values \<Rightarrow> prev_values \<Rightarrow> (bool \<times> prev_values) result"
and eval_all :: "ConditionGroup list \<Rightarrow> bar \<Rightarrow> prev_values \<Rightarrow> prev_values \<Rightarrow> (bool \<times> prev_values) result"
and eval_any :: "ConditionGroup list \<Rightarrow> bar \<Rightarrow> prev_values \<Rightarrow> prev_values \<Rightarrow> (bool \<times> prev_values) result" where
  "eval_group (ConditionGroup kind children cond) bar prev pv =
     (if kind = ''all'' then eval_all children bar prev pv
      else if kind = ''any'' then eval_any children bar prev pv
      else if kind = ''not''
      then (case children of
              g # _ \<Rightarrow> ebind (eval_group g bar prev pv) (\<lambda>(b, pv'). Inr (\<not> b, pv'))
            | [] \<Rightarrow> Inr (False, pv))
      else if kind = ''condition''
      then (case cond of Some c \<Rightarrow> eval_condition c bar prev pv | None \<Rightarrow> Inr (False, pv))
      else Inr (False, pv))"
| "eval_all [] bar prev pv = Inr (True, pv)"
| "eval_all (g # gs) bar prev pv =
     ebind (eval_group g bar prev pv) (\<lambda>(b, pv').
       if b then eval_all gs bar prev pv' else Inr (False, pv'))"
| "eval_any [] bar prev pv = Inr (False, pv)"
| "eval_any (g # gs) bar prev pv =
     ebind (eval_group g bar prev pv) (\<lambda>(b, pv').
       if b then Inr (True, pv') else eval_any gs bar prev pv')"

definition eval_bool ::
  "ConditionGroup option \<Rightarrow> bar \<Rightarrow> prev_values \<Rightarrow> prev_values \<Rightarrow> (bool \<times> prev_values) result" where
  "eval_bool grp bar prev pv =
     (case grp of None \<Rightarrow> Inr (False, pv) | Some g \<Rightarrow> eval_group g bar prev pv)"

section \<open>The two passes\<close>

definition commit :: "prev_values \<Rightarrow> prev_values \<Rightarrow> prev_values" where
  "commit previous pending = previous ++ pending"

text \<open>
  \<open>evaluate\<close> returns the truth value, the previous values (changed only when the caller passed no
  pending dict, which commits at once) and the pending dict it has filled.
\<close>

definition evaluate ::
  "ConditionGroup option \<Rightarrow> bar \<Rightarrow> prev_values \<Rightarrow> prev_values option \<Rightarrow>
   (bool \<times> prev_values \<times> prev_values) result" where
  "evaluate grp bar prev pending =
     (let pv = (case pending of None \<Rightarrow> Map.empty | Some p \<Rightarrow> p)
      in ebind (collect_state grp bar pv) (\<lambda>pv1.
         ebind (eval_bool grp bar prev pv1) (\<lambda>(b, pv2).
           Inr (b, if pending = None then commit prev pv2 else prev, pv2))))"

section \<open>The meaning of a tree\<close>

text \<open>
  The conditions a walk of the tree can reach, the crossover entry each of them contributes, and
  the truth value of the tree as a formula over its conditions, with no order of evaluation.
\<close>

fun tree_conditions :: "ConditionGroup \<Rightarrow> Condition list" where
  "tree_conditions (ConditionGroup kind children cond) =
     (if kind = ''all'' \<or> kind = ''any'' then concat (map tree_conditions children)
      else if kind = ''not'' then (case children of g # _ \<Rightarrow> tree_conditions g | [] \<Rightarrow> [])
      else if kind = ''condition'' then (case cond of Some c \<Rightarrow> [c] | None \<Rightarrow> [])
      else [])"

definition entry_of :: "bar \<Rightarrow> Condition \<Rightarrow> (string \<times> flt \<times> flt) option" where
  "entry_of bar c =
     (if cn_operator c \<notin> set crossover_operators then None
      else (case cn_right c of
              None \<Rightarrow> None
            | Some r \<Rightarrow>
                (case (to_float (resolve_operand (cn_left c) bar), to_float (resolve_operand r bar)) of
                   (Inr (Some x), Inr (Some y)) \<Rightarrow> Some (condition_key c, x, y)
                 | _ \<Rightarrow> None)))"

definition tree_entries :: "bar \<Rightarrow> Condition list \<Rightarrow> (string \<times> flt \<times> flt) list" where
  "tree_entries bar cs = List.map_filter (entry_of bar) cs"

definition atom_holds :: "bar \<Rightarrow> prev_values \<Rightarrow> Condition \<Rightarrow> bool" where
  "atom_holds bar prev c =
     (case eval_condition c bar prev Map.empty of Inr (b, _) \<Rightarrow> b | Inl _ \<Rightarrow> False)"

fun tree_holds :: "bar \<Rightarrow> prev_values \<Rightarrow> ConditionGroup \<Rightarrow> bool" where
  "tree_holds bar prev (ConditionGroup kind children cond) =
     (if kind = ''all'' then list_all (tree_holds bar prev) children
      else if kind = ''any'' then list_ex (tree_holds bar prev) children
      else if kind = ''not''
      then (case children of g # _ \<Rightarrow> \<not> tree_holds bar prev g | [] \<Rightarrow> False)
      else if kind = ''condition''
      then (case cond of Some c \<Rightarrow> atom_holds bar prev c | None \<Rightarrow> False)
      else False)"

text \<open>No two crossovers of the tree share a key and disagree on the numbers.\<close>

definition consistent :: "bar \<Rightarrow> Condition list \<Rightarrow> bool" where
  "consistent bar cs \<longleftrightarrow>
     list_all (\<lambda>(k, v). list_all (\<lambda>(k', v'). k = k' \<longrightarrow> v = v') (tree_entries bar cs))
       (tree_entries bar cs)"

definition write_entries :: "(string \<times> flt \<times> flt) list \<Rightarrow> prev_values \<Rightarrow> prev_values" where
  "write_entries es pv = fold (\<lambda>(k, v) m. m(k \<mapsto> v)) es pv"

lemma tree_entries_append [simp]:
  "tree_entries bar (xs @ ys) = tree_entries bar xs @ tree_entries bar ys"
  by (simp add: tree_entries_def map_filter_def)

lemma tree_entries_Nil [simp]: "tree_entries bar [] = []"
  by (simp add: tree_entries_def map_filter_def)

lemma tree_entries_single [simp]:
  "tree_entries bar [c] = (case entry_of bar c of Some e \<Rightarrow> [e] | None \<Rightarrow> [])"
  by (simp add: tree_entries_def map_filter_def split: option.splits)

lemma write_entries_Nil [simp]: "write_entries [] pv = pv"
  by (simp add: write_entries_def)

lemma write_entries_append [simp]:
  "write_entries (xs @ ys) pv = write_entries ys (write_entries xs pv)"
  by (simp add: write_entries_def)

lemma write_entries_Cons [simp]:
  "write_entries ((k, v) # es) pv = write_entries es (pv(k \<mapsto> v))"
  by (simp add: write_entries_def)

lemma write_entries_other: "k \<notin> fst ` set es \<Longrightarrow> write_entries es pv k = pv k"
proof (induction es arbitrary: pv)
  case (Cons e es)
  then show ?case by (cases e) simp
qed simp

lemma write_entries_agree:
  "(\<And>v'. (k, v') \<in> set es \<Longrightarrow> v' = v) \<Longrightarrow> k \<in> fst ` set es \<or> pv k = Some v \<Longrightarrow>
   write_entries es pv k = Some v"
proof (induction es arbitrary: pv)
  case (Cons e es)
  obtain k' v' where e: "e = (k', v')" by (cases e)
  show ?case
  proof (cases "k' = k")
    case True
    have "v' = v" using Cons.prems(1) [of v'] e True by simp
    moreover have "write_entries es (pv(k \<mapsto> v)) k = Some v"
      using Cons.prems(1) by (intro Cons.IH) simp_all
    ultimately show ?thesis using True e by simp
  next
    case False
    then show ?thesis using e Cons.prems by (auto intro!: Cons.IH)
  qed
qed simp

lemma write_entries_same:
  "(\<And>k v. (k, v) \<in> set es \<Longrightarrow> pv k = Some v) \<Longrightarrow> write_entries es pv = pv"
proof (induction es)
  case (Cons e es)
  obtain k v where e: "e = (k, v)" by (cases e)
  then have "pv(k \<mapsto> v) = pv" using Cons.prems by (simp add: fun_upd_idem)
  then show ?case using e Cons by simp
qed simp

lemma consistentD:
  "consistent bar cs \<Longrightarrow> (k, v) \<in> set (tree_entries bar cs) \<Longrightarrow>
   (k, v') \<in> set (tree_entries bar cs) \<Longrightarrow> v = v'"
  by (fastforce simp: consistent_def list_all_iff)

section \<open>What each pass writes\<close>

lemma collect_crossover_entry:
  "collect_crossover c bar pv = Inr pv' \<Longrightarrow> pv' = write_entries (tree_entries bar [c]) pv"
  by (auto simp: collect_crossover_def entry_of_def split: if_splits option.splits)

lemma collect_group_entries:
  "collect_group g bar pv = Inr pv' \<Longrightarrow>
     pv' = write_entries (tree_entries bar (tree_conditions g)) pv"
  "collect_groups gs bar pv = Inr pv' \<Longrightarrow>
     pv' = write_entries (tree_entries bar (concat (map tree_conditions gs))) pv"
proof (induction g bar pv and gs bar pv arbitrary: pv' and pv'
       rule: collect_group_collect_groups.induct)
  case (1 kind children cond bar pv)
  then show ?case
    by (auto split: if_splits option.splits list.splits dest: collect_crossover_entry
        simp del: tree_entries_single)
next
  case (2 bar pv)
  then show ?case by simp
next
  case (3 g gs bar pv)
  then show ?case by auto
qed

lemma eval_condition_entry:
  assumes "eval_condition c bar prev pv = Inr (b, pv')"
  shows "\<exists>es. pv' = write_entries es pv \<and> set es \<subseteq> set (tree_entries bar [c])"
proof (cases "pv' = pv")
  case True
  then have "pv' = write_entries [] pv \<and> set [] \<subseteq> set (tree_entries bar [c])" by simp
  then show ?thesis by blast
next
  case False
  then have "\<exists>v. entry_of bar c = Some (condition_key c, v) \<and> pv' = pv(condition_key c \<mapsto> v)"
    using assms
    by (auto simp: eval_condition_def entry_of_def crossed_def Let_def
        split: if_splits option.splits prod.splits)
  then obtain v where "entry_of bar c = Some (condition_key c, v)"
    "pv' = write_entries [(condition_key c, v)] pv" by auto
  then show ?thesis by (intro exI [of _ "[(condition_key c, v)]"]) simp
qed

lemma eval_group_entries:
  "eval_group g bar prev pv = Inr (b, pv') \<Longrightarrow>
     \<exists>es. pv' = write_entries es pv \<and> set es \<subseteq> set (tree_entries bar (tree_conditions g))"
  "eval_all gs bar prev pv = Inr (b, pv') \<Longrightarrow>
     \<exists>es. pv' = write_entries es pv \<and>
          set es \<subseteq> set (tree_entries bar (concat (map tree_conditions gs)))"
  "eval_any gs bar prev pv = Inr (b, pv') \<Longrightarrow>
     \<exists>es. pv' = write_entries es pv \<and>
          set es \<subseteq> set (tree_entries bar (concat (map tree_conditions gs)))"
proof (induction g bar prev pv and gs bar prev pv and gs bar prev pv arbitrary: b pv' and b pv' and b pv'
       rule: eval_group_eval_all_eval_any.induct)
  case (1 kind children cond bar prev pv)
  have none: "\<exists>es. pv = write_entries es pv \<and> set es \<subseteq> X" for X
    by (intro exI [of _ "[]"]) simp
  show ?case
    using 1 none
    by (auto split: if_splits option.splits list.splits dest: eval_condition_entry
        simp del: tree_entries_single)
next
  case (2 bar prev pv)
  then show ?case by (intro exI [of _ "[]"]) simp
next
  case (3 g gs bar prev pv)
  from 3(3) obtain b1 pv1 where g: "eval_group g bar prev pv = Inr (b1, pv1)"
    and r: "(if b1 then eval_all gs bar prev pv1 else Inr (False, pv1)) = Inr (b, pv')" by auto
  obtain es where es: "pv1 = write_entries es pv" "set es \<subseteq> set (tree_entries bar (tree_conditions g))"
    using 3(1) [OF g] by blast
  show ?case
  proof (cases b1)
    case True
    then obtain es' where "pv' = write_entries es' pv1"
      "set es' \<subseteq> set (tree_entries bar (concat (map tree_conditions gs)))"
      using 3(2) [OF TrueI, of pv1] r by auto
    then show ?thesis using es by (intro exI [of _ "es @ es'"]) auto
  next
    case False
    then show ?thesis using es r by (intro exI [of _ es]) auto
  qed
next
  case (4 bar prev pv)
  then show ?case by (intro exI [of _ "[]"]) simp
next
  case (5 g gs bar prev pv)
  from 5(3) obtain b1 pv1 where g: "eval_group g bar prev pv = Inr (b1, pv1)"
    and r: "(if b1 then Inr (True, pv1) else eval_any gs bar prev pv1) = Inr (b, pv')" by auto
  obtain es where es: "pv1 = write_entries es pv" "set es \<subseteq> set (tree_entries bar (tree_conditions g))"
    using 5(1) [OF g] by blast
  show ?case
  proof (cases b1)
    case False
    then obtain es' where "pv' = write_entries es' pv1"
      "set es' \<subseteq> set (tree_entries bar (concat (map tree_conditions gs)))"
      using 5(2) [of False pv1] r by auto
    then show ?thesis using es by (intro exI [of _ "es @ es'"]) auto
  next
    case True
    then show ?thesis using es r by (intro exI [of _ es]) auto
  qed
qed

lemma write_entries_idem:
  assumes "consistent bar cs" "set es \<subseteq> set (tree_entries bar cs)"
  shows "write_entries es (write_entries (tree_entries bar cs) pv) = write_entries (tree_entries bar cs) pv"
proof (rule write_entries_same)
  fix k v assume "(k, v) \<in> set es"
  then have m: "(k, v) \<in> set (tree_entries bar cs)" using assms(2) by blast
  show "write_entries (tree_entries bar cs) pv k = Some v"
  proof (rule write_entries_agree)
    show "v' = v" if "(k, v') \<in> set (tree_entries bar cs)" for v'
      using consistentD [OF assms(1) that m] .
    show "k \<in> fst ` set (tree_entries bar cs) \<or>
          pv k = Some v"
      using image_eqI [OF _ m, of k fst] by simp
  qed
qed

section \<open>The truth value does not depend on the pending dict\<close>

lemma eval_condition_pending:
  "eval_condition c bar prev pv = Inr (b, pv') \<Longrightarrow> atom_holds bar prev c = b"
  by (auto simp: atom_holds_def eval_condition_def crossed_def Let_def
      split: if_splits option.splits prod.splits)

lemma eval_group_holds:
  "eval_group g bar prev pv = Inr (b, pv') \<Longrightarrow> tree_holds bar prev g = b"
  "eval_all gs bar prev pv = Inr (b, pv') \<Longrightarrow> list_all (tree_holds bar prev) gs = b"
  "eval_any gs bar prev pv = Inr (b, pv') \<Longrightarrow> list_ex (tree_holds bar prev) gs = b"
proof (induction g bar prev pv and gs bar prev pv and gs bar prev pv arbitrary: b pv' and b pv' and b pv'
       rule: eval_group_eval_all_eval_any.induct)
  case (1 kind children cond bar prev pv)
  then show ?case
    by (auto split: if_splits option.splits list.splits dest: eval_condition_pending)
next
  case (3 g gs bar prev pv)
  from 3(3) obtain b1 pv1 where g: "eval_group g bar prev pv = Inr (b1, pv1)"
    and r: "(if b1 then eval_all gs bar prev pv1 else Inr (False, pv1)) = Inr (b, pv')" by auto
  show ?case using 3(1) [OF g] 3(2) [OF TrueI, of pv1 b pv'] r by (cases b1) auto
next
  case (5 g gs bar prev pv)
  from 5(3) obtain b1 pv1 where g: "eval_group g bar prev pv = Inr (b1, pv1)"
    and r: "(if b1 then Inr (True, pv1) else eval_any gs bar prev pv1) = Inr (b, pv')" by auto
  show ?case using 5(1) [OF g] 5(2) [of False pv1 b pv'] r by (cases b1) auto
qed auto

section \<open>Values whose conversion cannot overflow\<close>

fun float_safe :: "pyval \<Rightarrow> bool" where
  "float_safe (PInt i) = (case float_of_int i of Inl _ \<Rightarrow> False | Inr _ \<Rightarrow> True)"
| "float_safe (PList xs) = list_all float_safe xs"
| "float_safe _ = True"

definition safe_bar :: "bar \<Rightarrow> bool" where
  "safe_bar bar \<longleftrightarrow> (\<forall>v \<in> ran bar. float_safe v)"

definition safe_condition :: "Condition \<Rightarrow> bool" where
  "safe_condition c \<longleftrightarrow>
     float_safe (od_value (cn_left c)) \<and>
     (case cn_right c of Some r \<Rightarrow> float_safe (od_value r) | None \<Rightarrow> True)"

lemma to_float_total: "float_safe v \<Longrightarrow> \<exists>x. to_float v = Inr x"
  by (cases v) (auto simp: to_float_def is_bool_def split: sum.splits option.splits)

lemma first_usable_safe: "safe_bar bar \<Longrightarrow> float_safe (first_usable bar ks)"
  by (induction ks) (auto simp: safe_bar_def bar_get_def get_or_def ran_def split: option.splits)

lemma resolve_operand_safe:
  "safe_bar bar \<Longrightarrow> float_safe (od_value operand) \<Longrightarrow> float_safe (resolve_operand operand bar)"
  by (simp add: resolve_operand_def first_usable_safe del: first_usable.simps)

lemma between_total:
  assumes "float_safe left" "float_safe right"
  shows "\<exists>b. between left right = Inr b"
proof -
  obtain x where x: "to_float left = Inr x" using to_float_total [OF assms(1)] by blast
  show ?thesis
  proof (cases "\<exists>lo hi. right = PList [lo, hi]")
    case True
    then obtain lo hi where r: "right = PList [lo, hi]" by blast
    then obtain a b where "to_float lo = Inr a" "to_float hi = Inr b"
      using assms(2) to_float_total [of lo] to_float_total [of hi] by auto
    then show ?thesis using x r by (auto simp: between_def split: option.splits)
  next
    case False
    then show ?thesis using x
      by (auto simp: between_def split: option.splits pyval.splits list.splits)
  qed
qed

lemma collect_crossover_total:
  assumes "safe_bar bar" "safe_condition c"
  shows "\<not> isl (collect_crossover c bar pv)"
proof (cases "cn_right c")
  case None
  then show ?thesis by (simp add: collect_crossover_def)
next
  case (Some r)
  obtain x y where "to_float (resolve_operand (cn_left c) bar) = Inr x"
    "to_float (resolve_operand r bar) = Inr y"
    using assms Some resolve_operand_safe to_float_total
    by (metis option.simps(5) safe_condition_def)
  then show ?thesis using Some by (auto simp: collect_crossover_def split: option.splits)
qed

lemma eval_condition_total:
  assumes "safe_bar bar" "safe_condition c"
  shows "\<not> isl (eval_condition c bar prev pv)"
proof (cases "cn_right c")
  case None
  then show ?thesis by (auto simp: eval_condition_def Let_def)
next
  case (Some r)
  have l: "float_safe (resolve_operand (cn_left c) bar)" and r: "float_safe (resolve_operand r bar)"
    using assms Some by (simp_all add: safe_condition_def resolve_operand_safe)
  obtain b where b: "between (resolve_operand (cn_left c) bar) (resolve_operand r bar) = Inr b"
    using between_total [OF l r] by blast
  obtain x y where "to_float (resolve_operand (cn_left c) bar) = Inr x"
    "to_float (resolve_operand r bar) = Inr y"
    using to_float_total [OF l] to_float_total [OF r] by blast
  then show ?thesis using Some b
    by (cases x; cases y) (simp_all add: eval_condition_def Let_def crossed_def)
qed

lemma collect_group_total:
  "safe_bar bar \<Longrightarrow> list_all safe_condition (tree_conditions g) \<Longrightarrow>
     \<not> isl (collect_group g bar pv)"
  "safe_bar bar \<Longrightarrow> list_all safe_condition (concat (map tree_conditions gs)) \<Longrightarrow>
     \<not> isl (collect_groups gs bar pv)"
proof (induction g bar pv and gs bar pv rule: collect_group_collect_groups.induct)
  case (1 kind children cond bar pv)
  then show ?case by (cases children; cases cond) (auto simp: collect_crossover_total)
next
  case (3 g gs bar pv)
  then show ?case by (auto simp: not_isl_ebind not_isl)
qed simp

lemma eval_group_total:
  "safe_bar bar \<Longrightarrow> list_all safe_condition (tree_conditions g) \<Longrightarrow>
     \<not> isl (eval_group g bar prev pv)"
  "safe_bar bar \<Longrightarrow> list_all safe_condition (concat (map tree_conditions gs)) \<Longrightarrow>
     \<not> isl (eval_all gs bar prev pv)"
  "safe_bar bar \<Longrightarrow> list_all safe_condition (concat (map tree_conditions gs)) \<Longrightarrow>
     \<not> isl (eval_any gs bar prev pv)"
proof (induction g bar prev pv and gs bar prev pv and gs bar prev pv
       rule: eval_group_eval_all_eval_any.induct)
  case (1 kind children cond bar prev pv)
  consider "kind = ''all''" | "kind = ''any''" | "kind = ''not''"
    | "kind \<noteq> ''all''" "kind \<noteq> ''any''" "kind \<noteq> ''not''" by blast
  then show ?case
  proof cases
    case 3
    show ?thesis
    proof (cases children)
      case (Cons g gs)
      then have "\<not> isl (eval_group g bar prev pv)" using 1(3) [of g gs] 1(4,5) 3 by simp
      then show ?thesis using 3 Cons by (auto simp: not_isl)
    qed (simp add: 3)
  next
    case 4
    then show ?thesis using 1(4,5) by (cases "kind = ''condition''"; cases cond) (simp_all add: eval_condition_total)
  qed (use 1 in simp_all)
next
  case (3 g gs bar prev pv)
  then obtain b pv' where g: "eval_group g bar prev pv = Inr (b, pv')" by (auto simp: not_isl)
  show ?case using 3 g by (cases b) auto
next
  case (5 g gs bar prev pv)
  then obtain b pv' where g: "eval_group g bar prev pv = Inr (b, pv')" by (auto simp: not_isl)
  show ?case using 5 g by (cases b) auto
qed simp_all

section \<open>Properties of the evaluator\<close>

lemma crossover_key_parts:
  "CHR 0x1F \<notin> set a \<Longrightarrow> CHR 0x1F \<notin> set a' \<Longrightarrow>
   a @ CHR 0x1F # r = a' @ CHR 0x1F # r' \<longleftrightarrow> a = a' \<and> r = r'"
proof (induction a arbitrary: a')
  case Nil
  then show ?case by (cases a') auto
next
  case (Cons x xs)
  then show ?case by (cases a') auto
qed

text \<open>
  Keys of the crossover state do not collide: when no label contains the unit separator,
  the key determines both labels and the operator.
\<close>

theorem crossover_key_injective:
  assumes "CHR 0x1F \<notin> set l" "CHR 0x1F \<notin> set r" "CHR 0x1F \<notin> set l'" "CHR 0x1F \<notin> set r'"
  shows "crossover_key l r op = crossover_key l' r' op' \<longleftrightarrow> l = l' \<and> r = r' \<and> op = op'"
  using assms by (simp add: crossover_key_def key_sep_def crossover_key_parts)

theorem crossover_key_injective_witness:
  "crossover_key ''a:b'' ''c'' ''crosses_above'' \<noteq> crossover_key ''a'' ''b:c'' ''crosses_above''"
  by (subst crossover_key_injective) simp_all

text \<open>
  C9.  The two-pass evaluator computes the meaning of the tree: whenever it returns, its truth
  value is the conjunction, disjunction and negation of the conditions of the tree over the
  bar and the previous crossover values, and does not depend on the order of evaluation, on the
  short-circuit or on what the pending dict held before.
\<close>

theorem evaluate_refines_meaning:
  assumes "evaluate grp bar prev pending = Inr (b, prev', pv')"
  shows "b = (case grp of None \<Rightarrow> False | Some g \<Rightarrow> tree_holds bar prev g)"
  using assms
  by (auto simp: evaluate_def eval_bool_def Let_def split: option.splits dest: eval_group_holds)

text \<open>
  C10.  The pending dict after an evaluation holds every crossover of the tree whose operands are
  numbers, whichever of them the short-circuit skipped, and nothing else changes; the second
  pass adds nothing.  The previous values are changed only when the evaluator owns the pending
  dict.  Crossovers of one tree that share a key must agree on their numbers.
\<close>

theorem evaluate_records_every_crossover:
  assumes "evaluate (Some g) bar prev pending = Inr (b, prev', pv')"
    and "consistent bar (tree_conditions g)"
  shows "pv' = write_entries (tree_entries bar (tree_conditions g))
                 (case pending of None \<Rightarrow> Map.empty | Some p \<Rightarrow> p) \<and>
         prev' = (if pending = None then commit prev pv' else prev)"
proof -
  define pv where "pv = (case pending of None \<Rightarrow> Map.empty | Some p \<Rightarrow> p)"
  from assms(1) obtain pv1 where c: "collect_group g bar pv = Inr pv1"
    and e: "eval_group g bar prev pv1 = Inr (b, pv')"
    and p: "prev' = (if pending = None then commit prev pv' else prev)"
    by (auto simp: evaluate_def collect_state_def eval_bool_def Let_def pv_def)
  have pv1: "pv1 = write_entries (tree_entries bar (tree_conditions g)) pv"
    using c by (rule collect_group_entries)
  obtain es where "pv' = write_entries es pv1" "set es \<subseteq> set (tree_entries bar (tree_conditions g))"
    using eval_group_entries(1) [OF e] by blast
  then have "pv' = pv1" using write_entries_idem [OF assms(2)] pv1 by simp
  then show ?thesis using p pv1 by (simp add: pv_def)
qed

text \<open>
  The evaluator returns for every tree and every bar whose integers fit a float: the only
  exception that can escape it is the \<open>OverflowError\<close> of an integer beyond the float range.
\<close>

theorem evaluate_total:
  assumes "safe_bar bar" "list_all safe_condition (tree_conditions g)"
  shows "\<not> isl (evaluate (Some g) bar prev pending)"
proof -
  obtain pv1 where "collect_group g bar (case pending of None \<Rightarrow> Map.empty | Some p \<Rightarrow> p) = Inr pv1"
    using collect_group_total(1) [OF assms] by (auto simp: not_isl)
  moreover obtain b pv2 where "eval_group g bar prev pv1 = Inr (b, pv2)"
    using eval_group_total(1) [OF assms, of prev pv1] by (auto simp: not_isl)
  ultimately show ?thesis
    by (simp add: evaluate_def collect_state_def eval_bool_def Let_def)
qed

definition leaf :: "Condition \<Rightarrow> ConditionGroup" where
  "leaf c = ConditionGroup ''condition'' [] (Some c)"

lemma evaluate_crossover:
  assumes "cn_operator c \<in> set crossover_operators" "entry_of bar c = Some (k, l, r)"
  shows "\<exists>pv. evaluate (Some (leaf c)) bar prev None =
           Inr (case prev (condition_key c) of
                  None \<Rightarrow> False
                | Some (pl, pr) \<Rightarrow>
                    if cn_operator c = ''crosses_above'' then pl \<le> pr \<and> r < l else pr \<le> pl \<and> l < r,
                prev(condition_key c \<mapsto> (l, r)), pv)"
  using assms
  by (auto simp: evaluate_def collect_state_def eval_bool_def leaf_def collect_crossover_def Let_def
      entry_of_def eval_condition_def crossover_operators_def compare_operators_def crossed_def commit_def
      split: option.splits sum.splits if_splits)

text \<open>
  What a crossover means over two bars: after any bar on which both sides are numbers, the
  next evaluation fires exactly when the first bar was on the other side (or level) and the
  second bar is strictly across.
\<close>

theorem crossover_two_bars:
  assumes "cn_operator c \<in> set crossover_operators"
    and "entry_of bar1 c = Some (k1, l1, r1)" "entry_of bar2 c = Some (k2, l2, r2)"
  shows "\<exists>b1 prev1 pv1 prev2 pv2.
           evaluate (Some (leaf c)) bar1 prev None = Inr (b1, prev1, pv1) \<and>
           evaluate (Some (leaf c)) bar2 prev1 None =
             Inr (if cn_operator c = ''crosses_above'' then l1 \<le> r1 \<and> r2 < l2 else r1 \<le> l1 \<and> l2 < r2,
                  prev2, pv2)"
proof -
  obtain b1 pv1 where 1: "evaluate (Some (leaf c)) bar1 prev None =
      Inr (b1, prev(condition_key c \<mapsto> (l1, r1)), pv1)"
    using evaluate_crossover [OF assms(1,2), of prev] by blast
  show ?thesis
    using 1 evaluate_crossover [OF assms(1,3), of "prev(condition_key c \<mapsto> (l1, r1))"] by auto
qed

text \<open>A crossover never fires on two bars in a row.\<close>

theorem crossover_fires_once:
  assumes "cn_operator c \<in> set crossover_operators"
    and "entry_of bar1 c = Some (k1, l1, r1)" "entry_of bar2 c = Some (k2, l2, r2)"
    and "evaluate (Some (leaf c)) bar1 prev None = Inr (True, prev1, pv1)"
    and "evaluate (Some (leaf c)) bar2 prev1 None = Inr (b, prev2, pv2)"
  shows "\<not> b"
proof -
  have p: "prev1 = prev(condition_key c \<mapsto> (l1, r1))"
    and o: "if cn_operator c = ''crosses_above'' then r1 < l1 else l1 < r1"
    using evaluate_crossover [OF assms(1,2), of prev] assms(4)
    by (auto split: option.splits if_splits)
  show ?thesis
    using evaluate_crossover [OF assms(1,3), of prev1] assms(5) o
    by (auto simp: p dest: flt_less_asym split: if_splits)
qed

section \<open>The properties at concrete inputs\<close>

definition sample_operand :: "string \<Rightarrow> Operand" where
  "sample_operand k = \<lparr>od_kind = ''field'', od_value = PStr k, od_label = k, od_sources = []\<rparr>"

definition sample_cross :: Condition where
  "sample_cross = \<lparr>cn_left = sample_operand ''close'', cn_operator = ''crosses_above'',
                   cn_right = Some (sample_operand ''sma'')\<rparr>"

definition sample_tree :: ConditionGroup where
  "sample_tree = ConditionGroup ''any''
     [ConditionGroup ''condition'' [] (Some (sample_cross\<lparr>cn_operator := ''>''\<rparr>)),
      ConditionGroup ''not'' [leaf sample_cross] None] None"

definition sample_bar :: "rat \<Rightarrow> rat \<Rightarrow> bar" where
  "sample_bar close sma = [''close'' \<mapsto> PFloat (Fin close), ''sma'' \<mapsto> PFloat (Fin sma)]"

lemma sample_entry:
  "entry_of (sample_bar x y) sample_cross = Some (condition_key sample_cross, Fin x, Fin y)"
  by (simp add: entry_of_def sample_cross_def sample_operand_def sample_bar_def crossover_operators_def
      resolve_operand_def column_kinds_def bar_get_def get_or_def usable_def to_float_def is_bool_def)

lemma sample_entry_bars:
  "entry_of (sample_bar 9 10) sample_cross = Some (condition_key sample_cross, Fin 9, Fin 10)"
  "entry_of (sample_bar 11 10) sample_cross = Some (condition_key sample_cross, Fin 11, Fin 10)"
  "entry_of (sample_bar 12 10) sample_cross = Some (condition_key sample_cross, Fin 12, Fin 10)"
  by (rule sample_entry)+

lemma sample_cross_operator: "cn_operator sample_cross \<in> set crossover_operators"
  by (simp add: sample_cross_def crossover_operators_def)

theorem evaluate_refines_meaning_witness:
  "\<exists>b prev' pv'. evaluate (Some sample_tree) (sample_bar 11 10) Map.empty None = Inr (b, prev', pv') \<and>
     b = tree_holds (sample_bar 11 10) Map.empty sample_tree"
proof -
  have "case evaluate (Some sample_tree) (sample_bar 11 10) Map.empty None of Inr _ \<Rightarrow> True | Inl _ \<Rightarrow> False"
    by code_simp
  then obtain b prev' pv' where
    e: "evaluate (Some sample_tree) (sample_bar 11 10) Map.empty None = Inr (b, prev', pv')"
    by (auto split: sum.splits)
  show ?thesis using evaluate_refines_meaning [OF e] e by auto
qed

theorem evaluate_records_every_crossover_witness:
  "\<exists>b prev' pv'. evaluate (Some sample_tree) (sample_bar 11 10) Map.empty None = Inr (b, prev', pv') \<and>
     pv' (condition_key sample_cross) = Some (Fin 11, Fin 10)"
proof -
  have "case evaluate (Some sample_tree) (sample_bar 11 10) Map.empty None of Inr _ \<Rightarrow> True | Inl _ \<Rightarrow> False"
    by code_simp
  then obtain b prev' pv' where
    e: "evaluate (Some sample_tree) (sample_bar 11 10) Map.empty None = Inr (b, prev', pv')"
    by (auto split: sum.splits)
  have c: "consistent (sample_bar 11 10) (tree_conditions sample_tree)" by code_simp
  have "write_entries (tree_entries (sample_bar 11 10) (tree_conditions sample_tree)) Map.empty
          (condition_key sample_cross) = Some (Fin 11, Fin 10)" by code_simp
  then show ?thesis using evaluate_records_every_crossover [OF e c] e by auto
qed

theorem evaluate_total_witness:
  "\<not> isl (evaluate (Some sample_tree) (sample_bar 11 10) Map.empty None)"
proof (rule evaluate_total)
  show "safe_bar (sample_bar 11 10)" by (auto simp: safe_bar_def sample_bar_def ran_def)
  show "list_all safe_condition (tree_conditions sample_tree)" by code_simp
qed

theorem crossover_two_bars_witness:
  "\<exists>b1 prev1 pv1 prev2 pv2.
     evaluate (Some (leaf sample_cross)) (sample_bar 9 10) Map.empty None = Inr (b1, prev1, pv1) \<and>
     evaluate (Some (leaf sample_cross)) (sample_bar 11 10) prev1 None = Inr (True, prev2, pv2)"
proof -
  have "cn_operator sample_cross = ''crosses_above'' \<and> Fin 9 \<le> Fin 10 \<and> Fin 10 < Fin 11"
    by (simp add: sample_cross_def)
  then show ?thesis
    using crossover_two_bars [OF sample_cross_operator sample_entry_bars(1,2), of Map.empty] by simp
qed

theorem crossover_fires_once_witness:
  "\<exists>b1 prev1 pv1 b2 prev2 pv2.
     evaluate (Some (leaf sample_cross)) (sample_bar 11 10)
       [condition_key sample_cross \<mapsto> (Fin 9, Fin 10)] None = Inr (True, prev1, pv1) \<and>
     evaluate (Some (leaf sample_cross)) (sample_bar 12 10) prev1 None = Inr (b2, prev2, pv2) \<and> \<not> b2"
proof -
  let ?p = "[condition_key sample_cross \<mapsto> (Fin 9, Fin 10)]"
  have "cn_operator sample_cross = ''crosses_above'' \<and> Fin 9 \<le> Fin 10 \<and> Fin 10 < Fin 11"
    by (simp add: sample_cross_def)
  then obtain prev1 pv1 where
    1: "evaluate (Some (leaf sample_cross)) (sample_bar 11 10) ?p None = Inr (True, prev1, pv1)"
    using evaluate_crossover [OF sample_cross_operator sample_entry_bars(2), of ?p] by auto
  obtain b2 prev2 pv2 where
    2: "evaluate (Some (leaf sample_cross)) (sample_bar 12 10) prev1 None = Inr (b2, prev2, pv2)"
    using evaluate_crossover [OF sample_cross_operator sample_entry_bars(3), of prev1] by auto
  have "\<not> b2"
    using crossover_fires_once [OF sample_cross_operator sample_entry_bars(2,3) 1 2] .
  then show ?thesis using 1 2 by blast
qed

end
