(* ===== verification/RiskPrices.thy ===== *)
theory RiskPrices
  imports Conditions
begin

text \<open>
  Stop and target prices of an entry signal: \<open>evaluation/json_risk_price_calculator.py\<close> with the
  entity \<open>risk_spec\<close>.

    - \<open>RiskSpec\<close> is the settings record; the two dispatch tables are \<open>calculate_stop\<close> and
      \<open>calculate_target\<close>, with a branch per handler and \<open>0.0\<close> for an unknown type.
    - The locale \<open>side_prices\<close> states what a calculator promises to the strategy that calls it;
      it is interpreted on \<open>calculate_prices\<close>.
\<close>

record RiskSpec =
  rk_stop_loss_type :: string
  rk_stop_indicator :: string
  rk_stop_multiplier :: flt
  rk_stop_pct :: flt
  rk_take_profit_type :: string
  rk_take_profit_indicator :: string
  rk_take_profit_multiplier :: flt
  rk_take_profit_pct :: flt
  rk_risk_reward_ratio :: flt

definition default_risk :: RiskSpec where
  "default_risk = \<lparr>
     rk_stop_loss_type = ''none'', rk_stop_indicator = '''', rk_stop_multiplier = 0,
     rk_stop_pct = 0, rk_take_profit_type = ''none'', rk_take_profit_indicator = '''',
     rk_take_profit_multiplier = 0, rk_take_profit_pct = 0, rk_risk_reward_ratio = 0 \<rparr>"

text \<open>\<open>float(bar.get(k, 0) or 0)\<close>.\<close>

definition column_or_zero :: "bar \<Rightarrow> string \<Rightarrow> flt result" where
  "column_or_zero bar k = py_float (py_or (get_or bar k (PInt 0)) (PInt 0))"

section \<open>Stop handlers\<close>

definition stop_atr :: "RiskSpec \<Rightarrow> bar \<Rightarrow> flt \<Rightarrow> string \<Rightarrow> flt result" where
  "stop_atr risk bar close side =
     ebind (column_or_zero bar (rk_stop_indicator risk)) (\<lambda>atr.
       if atr \<le> 0 \<or> rk_stop_multiplier risk \<le> 0 then Inr 0
       else (let distance = atr * rk_stop_multiplier risk
             in Inr (if side = ''long'' then close - distance else close + distance)))"

definition stop_fixed_pct :: "RiskSpec \<Rightarrow> bar \<Rightarrow> flt \<Rightarrow> string \<Rightarrow> flt result" where
  "stop_fixed_pct risk bar close side =
     Inr (if rk_stop_pct risk \<le> 0 then 0
          else if side = ''long'' then close * (1 - rk_stop_pct risk)
          else close * (1 + rk_stop_pct risk))"

definition calculate_stop :: "RiskSpec \<Rightarrow> bar \<Rightarrow> flt \<Rightarrow> string \<Rightarrow> flt result" where
  "calculate_stop risk bar close side =
     (if rk_stop_loss_type risk = ''atr'' then stop_atr risk bar close side
      else if rk_stop_loss_type risk = ''fixed_pct'' then stop_fixed_pct risk bar close side
      else Inr 0)"

section \<open>Target handlers\<close>

definition target_atr :: "RiskSpec \<Rightarrow> bar \<Rightarrow> flt \<Rightarrow> string \<Rightarrow> flt \<Rightarrow> flt result" where
  "target_atr risk bar close side stop =
     ebind (column_or_zero bar (rk_take_profit_indicator risk)) (\<lambda>atr.
       if atr \<le> 0 \<or> rk_take_profit_multiplier risk \<le> 0 then Inr 0
       else (let distance = atr * rk_take_profit_multiplier risk
             in Inr (if side = ''long'' then close + distance else close - distance)))"

definition target_fixed_pct :: "RiskSpec \<Rightarrow> bar \<Rightarrow> flt \<Rightarrow> string \<Rightarrow> flt \<Rightarrow> flt result" where
  "target_fixed_pct risk bar close side stop =
     Inr (if rk_take_profit_pct risk \<le> 0 then 0
          else if side = ''long'' then close * (1 + rk_take_profit_pct risk)
          else close * (1 - rk_take_profit_pct risk))"

definition target_risk_reward :: "RiskSpec \<Rightarrow> bar \<Rightarrow> flt \<Rightarrow> string \<Rightarrow> flt \<Rightarrow> flt result" where
  "target_risk_reward risk bar close side stop =
     Inr (if stop \<le> 0 \<or> rk_risk_reward_ratio risk \<le> 0 then 0
          else (let distance = \<bar>close - stop\<bar> * rk_risk_reward_ratio risk
                in if side = ''long'' then close + distance else close - distance))"

definition calculate_target :: "RiskSpec \<Rightarrow> bar \<Rightarrow> flt \<Rightarrow> string \<Rightarrow> flt \<Rightarrow> flt result" where
  "calculate_target risk bar close side stop =
     (if rk_take_profit_type risk = ''atr'' then target_atr risk bar close side stop
      else if rk_take_profit_type risk = ''fixed_pct'' then target_fixed_pct risk bar close side stop
      else if rk_take_profit_type risk = ''risk_reward''
      then target_risk_reward risk bar close side stop
      else Inr 0)"

definition calculate_prices :: "RiskSpec option \<Rightarrow> bar \<Rightarrow> string \<Rightarrow> (flt \<times> flt) result" where
  "calculate_prices risk_opt bar side =
     (case risk_opt of
        None \<Rightarrow> Inr (0, 0)
      | Some risk \<Rightarrow>
          ebind (column_or_zero bar ''close'') (\<lambda>close.
          ebind (calculate_stop risk bar close side) (\<lambda>stop.
          ebind (calculate_target risk bar close side stop) (\<lambda>target.
            Inr (py_round 2 stop, py_round 2 target)))))"

section \<open>Which side of the price each level is on\<close>

text \<open>\<open>at_most p c\<close>: the level is disabled, not a number, or at most the price.\<close>

definition at_most :: "flt \<Rightarrow> flt \<Rightarrow> bool" where
  "at_most p c \<longleftrightarrow> p = NaN \<or> feq p 0 \<or> p \<le> c"

definition at_least :: "flt \<Rightarrow> flt \<Rightarrow> bool" where
  "at_least p c \<longleftrightarrow> p = NaN \<or> feq p 0 \<or> c \<le> p"

lemma feq_zero [simp]: "feq x 0 \<longleftrightarrow> x = 0"
  by (cases x) (simp_all add: zero_flt_def feq_def)

lemma at_most_simps [simp]: "at_most 0 c" "at_most NaN c"
  by (simp_all add: at_most_def)

lemma at_least_simps [simp]: "at_least 0 c" "at_least NaN c"
  by (simp_all add: at_least_def)

lemma positive_product: "\<not> x \<le> 0 \<Longrightarrow> \<not> y \<le> 0 \<Longrightarrow> x * y = NaN \<or> 0 \<le> x * y" for x y :: flt
  using flt_times_nonneg [of x y] by (cases x; cases y) (auto simp: zero_flt_def)

lemma nonneg_product: "0 \<le> x \<Longrightarrow> \<not> y \<le> 0 \<Longrightarrow> x * y = NaN \<or> 0 \<le> x * y" for x y :: flt
  using flt_times_nonneg [of x y] by (cases x; cases y) (auto simp: zero_flt_def)

lemma at_most_minus: "is_f64 c \<Longrightarrow> d = NaN \<or> 0 \<le> d \<Longrightarrow> at_most (c - d) c"
  using flt_sub_down [of c d] by (auto simp: at_most_def)

lemma at_least_plus: "is_f64 c \<Longrightarrow> d = NaN \<or> 0 \<le> d \<Longrightarrow> at_least (c + d) c"
  using flt_add_up [of c d] by (auto simp: at_least_def)

lemma at_most_minus_product: "is_f64 c \<Longrightarrow> \<not> x \<le> 0 \<Longrightarrow> \<not> y \<le> 0 \<Longrightarrow> at_most (c - x * y) c"
  by (intro at_most_minus positive_product)

lemma at_least_plus_product: "is_f64 c \<Longrightarrow> \<not> x \<le> 0 \<Longrightarrow> \<not> y \<le> 0 \<Longrightarrow> at_least (c + x * y) c"
  by (intro at_least_plus positive_product)

lemma at_most_times:
  assumes "is_f64 c" "0 < c" "is_finite c" "\<not> p \<le> 0"
  shows "at_most (c * (1 - p)) c"
proof (cases "p = NaN")
  case False
  then have "0 \<le> p" using assms(4) by (cases p) (auto simp: zero_flt_def)
  then show ?thesis using flt_scale_down [OF assms(1-3)] flt_one_minus by (simp add: at_most_def)
qed simp

lemma at_least_times:
  assumes "is_f64 c" "0 < c" "\<not> p \<le> 0"
  shows "at_least (c * (1 + p)) c"
proof (cases "p = NaN")
  case False
  then have "0 \<le> p" using assms(3) by (cases p) (auto simp: zero_flt_def)
  then show ?thesis using flt_scale_up [OF assms(1,2)] flt_one_plus by (simp add: at_least_def)
qed simp

lemma at_most_round: "at_most p c \<Longrightarrow> at_most (py_round n p) (py_round n c)"
  by (auto simp: at_most_def py_round_mono)

lemma at_least_round: "at_least p c \<Longrightarrow> at_least (py_round n p) (py_round n c)"
  by (auto simp: at_least_def py_round_mono)

lemma flt_abs_diff: "\<bar>x - y\<bar> = NaN \<or> 0 \<le> \<bar>x - y\<bar>" for x y :: flt
  using flt_abs_nonneg by auto

lemma calculate_stop_side:
  assumes "calculate_stop risk bar close side = Inr stop"
    and "is_f64 close" "0 < close" "is_finite close"
  shows "side = ''long'' \<Longrightarrow> at_most stop close" "side \<noteq> ''long'' \<Longrightarrow> at_least stop close"
  using assms
  by (auto simp: calculate_stop_def stop_atr_def stop_fixed_pct_def Let_def
      intro: at_most_minus at_least_plus at_most_minus_product at_least_plus_product
      at_most_times at_least_times split: if_splits)

lemma calculate_target_side:
  assumes "calculate_target risk bar close side stop = Inr target"
    and "is_f64 close" "0 < close" "is_finite close"
  shows "side = ''long'' \<Longrightarrow> at_least target close" "side \<noteq> ''long'' \<Longrightarrow> at_most target close"
proof -
  have d: "\<bar>close - stop\<bar> * r = NaN \<or> 0 \<le> \<bar>close - stop\<bar> * r" if "\<not> r \<le> 0" for r
    using flt_abs_diff [of close stop] nonneg_product [OF _ that, of "\<bar>close - stop\<bar>"] by auto
  show "side = ''long'' \<Longrightarrow> at_least target close" "side \<noteq> ''long'' \<Longrightarrow> at_most target close"
    using assms d
    by (auto simp: calculate_target_def target_atr_def target_fixed_pct_def target_risk_reward_def
        Let_def intro: at_most_minus at_least_plus at_most_minus_product at_least_plus_product
      at_most_times at_least_times split: if_splits)
qed

section \<open>The contract of a risk price calculator\<close>

text \<open>
  What the strategy relies on: without a risk spec both levels are disabled, and the levels stand
  on the right sides of the rounded close.
\<close>

locale side_prices =
  fixes calc :: "RiskSpec option \<Rightarrow> bar \<Rightarrow> string \<Rightarrow> (flt \<times> flt) result"
  assumes no_risk: "calc None bar side = Inr (0, 0)"
    and stop_side: "\<lbrakk>calc (Some risk) bar side = Inr (stop, target);
           column_or_zero bar ''close'' = Inr close; is_f64 close; 0 < close; is_finite close\<rbrakk> \<Longrightarrow>
           (if side = ''long'' then at_most stop (py_round 2 close)
            else at_least stop (py_round 2 close))"
    and target_side: "\<lbrakk>calc (Some risk) bar side = Inr (stop, target);
           column_or_zero bar ''close'' = Inr close; is_f64 close; 0 < close; is_finite close\<rbrakk> \<Longrightarrow>
           (if side = ''long'' then at_least target (py_round 2 close)
            else at_most target (py_round 2 close))"
begin

text \<open>For a long entry with both levels set, the stop is at most the target.\<close>

lemma long_stop_le_target:
  assumes "calc (Some risk) bar ''long'' = Inr (stop, target)"
    and "column_or_zero bar ''close'' = Inr close" "is_f64 close" "0 < close" "is_finite close"
    and "0 < stop" "0 < target"
  shows "stop \<le> py_round 2 close" "py_round 2 close \<le> target" "stop \<le> target"
proof -
  show "stop \<le> py_round 2 close"
    using stop_side [OF assms(1-5)] assms(6) by (auto simp: at_most_def)
  moreover show "py_round 2 close \<le> target"
    using target_side [OF assms(1-5)] assms(7) by (auto simp: at_least_def)
  ultimately show "stop \<le> target" by (rule flt_trans)
qed

lemma short_target_le_stop:
  assumes "calc (Some risk) bar ''short'' = Inr (stop, target)"
    and "column_or_zero bar ''close'' = Inr close" "is_f64 close" "0 < close" "is_finite close"
    and "0 < stop" "0 < target"
  shows "target \<le> py_round 2 close" "py_round 2 close \<le> stop" "target \<le> stop"
proof -
  show "target \<le> py_round 2 close"
    using target_side [OF assms(1-5)] assms(7) by (auto simp: at_most_def)
  moreover show "py_round 2 close \<le> stop"
    using stop_side [OF assms(1-5)] assms(6) by (auto simp: at_least_def)
  ultimately show "target \<le> stop" by (rule flt_trans)
qed

end

interpretation json_prices: side_prices calculate_prices
proof
  show "calculate_prices None bar side = Inr (0, 0)" for bar side
    by (simp add: calculate_prices_def)
  show "if side = ''long'' then at_most stop (py_round 2 close) else at_least stop (py_round 2 close)"
    if "calculate_prices (Some risk) bar side = Inr (stop, target)"
      "column_or_zero bar ''close'' = Inr close" "is_f64 close" "0 < close" "is_finite close"
    for risk bar side stop target close
    using that calculate_stop_side
    by (auto simp: calculate_prices_def intro!: at_most_round at_least_round)
  show "if side = ''long'' then at_least target (py_round 2 close) else at_most target (py_round 2 close)"
    if "calculate_prices (Some risk) bar side = Inr (stop, target)"
      "column_or_zero bar ''close'' = Inr close" "is_f64 close" "0 < close" "is_finite close"
    for risk bar side stop target close
    using that calculate_target_side
    by (auto simp: calculate_prices_def intro!: at_most_round at_least_round)
qed

section \<open>Properties\<close>

text \<open>
  The levels of a signal bracket its price: for a long signal an active stop is at most the
  close rounded to cents and an active target at least that; for a short signal the other way
  round.  This holds for every combination of stop and target type.
\<close>

theorem risk_levels_bracket_close:
  assumes "calculate_prices (Some risk) bar side = Inr (stop, target)"
    and "column_or_zero bar ''close'' = Inr close" "is_f64 close" "0 < close" "is_finite close"
    and "0 < stop" "0 < target"
  shows "if side = ''long'' then stop \<le> py_round 2 close \<and> py_round 2 close \<le> target
         else target \<le> py_round 2 close \<and> py_round 2 close \<le> stop"
  using json_prices.stop_side [OF assms(1-5)] json_prices.target_side [OF assms(1-5)] assms(6,7)
  by (auto simp: at_most_def at_least_def split: if_splits)

definition sample_risk :: RiskSpec where
  "sample_risk = default_risk\<lparr>rk_stop_loss_type := ''fixed_pct'', rk_stop_pct := flr (1 / 20),
                              rk_take_profit_type := ''risk_reward'', rk_risk_reward_ratio := Fin 2\<rparr>"

lemma sample_close: "column_or_zero [''close'' \<mapsto> PFloat (Fin 100)] ''close'' = Inr (Fin 100)"
  by code_simp

theorem risk_levels_bracket_close_witness:
  "calculate_prices (Some sample_risk) [''close'' \<mapsto> PFloat (Fin 100)] ''long'' = Inr (Fin 95, Fin 110) \<and>
   Fin 95 \<le> py_round 2 (Fin 100) \<and> py_round 2 (Fin 100) \<le> Fin 110"
proof -
  have p: "calculate_prices (Some sample_risk) [''close'' \<mapsto> PFloat (Fin 100)] ''long'' = Inr (Fin 95, Fin 110)"
    by code_simp
  have "is_f64 (Fin 100) \<and> 0 < Fin 100 \<and> is_finite (Fin 100) \<and> 0 < Fin 95 \<and> 0 < Fin 110"
    by code_simp
  then show ?thesis using risk_levels_bracket_close [OF p sample_close] p by simp
qed

text \<open>
  Rounding to cents disables the stop of cheap assets: when the close is below half a cent
  no long signal ever carries an active stop, whatever its risk settings.
\<close>

theorem cheap_asset_has_no_stop:
  assumes "calculate_prices risk bar ''long'' = Inr (stop, target)"
    and "column_or_zero bar ''close'' = Inr close" "is_f64 close" "0 < close"
    and "close \<le> flr (4 / 1000)"
  shows "\<not> 0 < stop"
proof (cases risk)
  case None
  then show ?thesis using assms(1) json_prices.no_risk by simp
next
  case (Some r)
  have "\<not> PosInf \<le> flr (4 / 1000)" by code_simp
  then have fin: "is_finite close" using assms(4,5) by (cases close) (auto simp: zero_flt_def)
  have "py_round 2 close \<le> py_round 2 (flr (4 / 1000))" using assms(5) by (rule py_round_mono)
  moreover have "py_round 2 (flr (4 / 1000)) = 0" by code_simp
  ultimately have "py_round 2 close \<le> 0" by simp
  moreover have "at_most stop (py_round 2 close)"
    using json_prices.stop_side [of r bar "''long''" stop target close] assms Some fin by simp
  ultimately have "stop = NaN \<or> stop \<le> 0"
    using flt_trans by (auto simp: at_most_def)
  then show ?thesis using flt_less_asym by auto
qed

theorem cheap_asset_has_no_stop_witness:
  "\<exists>stop target. calculate_prices (Some sample_risk) [''close'' \<mapsto> PFloat (flr (4 / 1000))] ''long'' =
     Inr (stop, target) \<and> \<not> 0 < stop"
proof -
  let ?bar = "[''close'' \<mapsto> PFloat (flr (4 / 1000))]"
  have "\<not> isl (calculate_prices (Some sample_risk) ?bar ''long'')" by code_simp
  then obtain stop target where p: "calculate_prices (Some sample_risk) ?bar ''long'' = Inr (stop, target)"
    by (auto simp: not_isl)
  have "column_or_zero ?bar ''close'' = Inr (flr (4 / 1000))" by code_simp
  moreover have "is_f64 (flr (4 / 1000)) \<and> 0 < flr (4 / 1000) \<and> flr (4 / 1000) \<le> flr (4 / 1000)"
    by code_simp
  ultimately have "\<not> 0 < stop" using cheap_asset_has_no_stop [OF p] by blast
  then show ?thesis using p by blast
qed

end
