(* ===== verification/StrategyEntities.thy ===== *)
theory StrategyEntities
  imports RiskPrices
begin

text \<open>
  The entities of a parsed strategy document, from \<open>domain/entities\<close>: side rules, indicator and feature
  specifications, runtime parameters, timeframe declarations and the definition that joins them.  Dicts
  are association lists in insertion order with distinct keys.
\<close>

record SideRules =
  sd_side :: string
  sd_entry :: ConditionGroup
  sd_exit :: "ConditionGroup option"
  sd_entry_confidence :: flt
  sd_exit_confidence :: flt

record IndicatorSpec =
  is_name :: string
  is_type :: string
  is_concrete_name :: string
  is_expected_column :: string
  is_timeframe :: string
  is_sources :: "string list"
  is_period :: pyval
  is_source :: string
  is_raw_period :: pyval

definition column_name :: "IndicatorSpec \<Rightarrow> string" where
  "column_name spec =
     (if is_expected_column spec \<noteq> [] then is_expected_column spec else is_concrete_name spec)"

record FeatureSpec =
  ft_name :: string
  ft_type :: string
  ft_source :: string
  ft_window :: pyval
  ft_shift :: int
  ft_raw_window :: pyval
  ft_raw_expr :: pyval

record StrategyParameter =
  sp_name :: string
  sp_type :: string
  sp_default :: pyval
  sp_minimum :: "flt option"
  sp_maximum :: "flt option"
  sp_description :: string

record InformativeTimeframe =
  it_alias :: string
  it_interval :: string
  it_symbol :: string

record TimeframeDeclaration =
  tf_primary :: string
  tf_informative :: "InformativeTimeframe list"

definition interval_for :: "TimeframeDeclaration \<Rightarrow> string \<Rightarrow> string option" where
  "interval_for t alias =
     (if alias = ''primary'' then Some (tf_primary t)
      else map_option it_interval (find (\<lambda>i. it_alias i = alias) (tf_informative t)))"

record StrategyDefinition =
  df_name :: string
  df_sides :: "(string \<times> SideRules) list"
  df_schema_version :: string
  df_description :: string
  df_parameters :: "(string \<times> StrategyParameter) list"
  df_resolved_params :: "(string \<times> pyval) list"
  df_indicators :: "IndicatorSpec list"
  df_features :: "FeatureSpec list"
  df_timeframes :: "TimeframeDeclaration option"
  df_risk :: "RiskSpec option"
  df_metadata :: "(string \<times> pyval) list"

end
