(* ===== verification/RuleStrategy.thy ===== *)
theory RuleStrategy
  imports StrategyEntities
begin

text \<open>
  The strategy that executes a validated JSON definition:
  \<open>evaluation/json_rule_based_strategy.py\<close>, with the entities \<open>strategy_definition\<close>,
  \<open>side_rules\<close>, \<open>signal_result\<close> and \<open>strategy_meta\<close> and the interface
  \<open>domain/interfaces/trading_strategy.py\<close>.

    - \<open>JsonRuleBasedStrategy\<close> is the object: its definition, the injected risk calculator and the
      crossover values of the last bar, which is all the state it keeps between bars.
    - \<open>on_bar\<close> returns the signal and the object after the call.
    - The locale \<open>trading_strategy\<close> states what the backtest engine relies on for every strategy;
      it is interpreted on this one.
\<close>

section \<open>Entities\<close>

record SignalResult =
  sr_action :: string
  sr_direction :: string
  sr_stop_price :: flt
  sr_target_price :: flt
  sr_confidence :: flt
  sr_position_size :: int
  sr_metadata :: "(string \<times> pyval) list"

definition default_signal :: SignalResult where
  "default_signal = \<lparr>
     sr_action = ''hold'', sr_direction = '''', sr_stop_price = 0, sr_target_price = 0,
     sr_confidence = 0, sr_position_size = 0, sr_metadata = [] \<rparr>"

datatype DataMode = PROXY | REAL

record StrategyMeta =
  sm_name :: string
  sm_variant :: DataMode
  sm_description :: string
  sm_required_indicators :: "string list"
  sm_params :: "(string \<times> pyval) list"

section \<open>The strategy object\<close>

type_synonym risk_calculator = "RiskSpec option \<Rightarrow> bar \<Rightarrow> string \<Rightarrow> (flt \<times> flt) result"

record JsonRuleBasedStrategy =
  js_definition :: StrategyDefinition
  js_risk_calculator :: risk_calculator
  js_previous_values :: prev_values

definition new_strategy :: "StrategyDefinition \<Rightarrow> risk_calculator option \<Rightarrow> JsonRuleBasedStrategy" where
  "new_strategy df calc = \<lparr>
     js_definition = df,
     js_risk_calculator = (case calc of Some c \<Rightarrow> c | None \<Rightarrow> calculate_prices),
     js_previous_values = Map.empty \<rparr>"

definition strategy_meta :: "JsonRuleBasedStrategy \<Rightarrow> StrategyMeta" where
  "strategy_meta s = \<lparr>
     sm_name = df_name (js_definition s),
     sm_variant = REAL,
     sm_description = df_description (js_definition s),
     sm_required_indicators = map is_concrete_name (df_indicators (js_definition s)),
     sm_params = df_resolved_params (js_definition s) \<rparr>"

definition on_reset :: "JsonRuleBasedStrategy \<Rightarrow> JsonRuleBasedStrategy" where
  "on_reset s = s\<lparr>js_previous_values := Map.empty\<rparr>"

text \<open>Both passes of the evaluator share the pending dict, which the two signal methods return.\<close>

definition try_side ::
  "JsonRuleBasedStrategy \<Rightarrow> bar \<Rightarrow> string \<Rightarrow> SignalResult option \<times> prev_values \<Rightarrow>
   (SignalResult option \<times> prev_values) result" where
  "try_side s bar side acc =
     (case acc of
        (Some sig, pv) \<Rightarrow> Inr (Some sig, pv)
      | (None, pv) \<Rightarrow>
          (case map_of (df_sides (js_definition s)) side of
             None \<Rightarrow> Inr (None, pv)
           | Some rules \<Rightarrow>
               ebind (evaluate (Some (sd_entry rules)) bar (js_previous_values s) (Some pv))
                 (\<lambda>(b, _, pv').
                   if b
                   then ebind (js_risk_calculator s (df_risk (js_definition s)) bar side)
                          (\<lambda>(stop, target). Inr (Some (default_signal\<lparr>
                             sr_action := (if side = ''long'' then ''buy'' else ''sell''),
                             sr_direction := side,
                             sr_confidence := sd_entry_confidence rules,
                             sr_stop_price := stop,
                             sr_target_price := target\<rparr>), pv'))
                   else Inr (None, pv'))))"

definition entry_signal ::
  "JsonRuleBasedStrategy \<Rightarrow> bar \<Rightarrow> prev_values \<Rightarrow> (SignalResult \<times> prev_values) result" where
  "entry_signal s bar pv =
     ebind (efold (try_side s bar) [''long'', ''short''] (None, pv)) (\<lambda>(sig, pv').
       Inr (case sig of Some x \<Rightarrow> x | None \<Rightarrow> default_signal, pv'))"

definition exit_signal ::
  "JsonRuleBasedStrategy \<Rightarrow> bar \<Rightarrow> string \<Rightarrow> prev_values \<Rightarrow> (SignalResult \<times> prev_values) result" where
  "exit_signal s bar direction pv =
     (case map_of (df_sides (js_definition s)) direction of
        None \<Rightarrow> Inr (default_signal, pv)
      | Some rules \<Rightarrow>
          (case sd_exit rules of
             None \<Rightarrow> Inr (default_signal, pv)
           | Some g \<Rightarrow>
               ebind (evaluate (Some g) bar (js_previous_values s) (Some pv)) (\<lambda>(b, _, pv').
                 if \<not> b then Inr (default_signal, pv')
                 else Inr (default_signal\<lparr>
                        sr_action := (if direction = ''long'' then ''sell'' else ''buy''),
                        sr_direction := ''exit'',
                        sr_confidence := sd_exit_confidence rules\<rparr>, pv'))))"

definition collect_side :: "bar \<Rightarrow> string \<times> SideRules \<Rightarrow> prev_values \<Rightarrow> prev_values result" where
  "collect_side bar side pv =
     ebind (collect_state (Some (sd_entry (snd side))) bar pv) (\<lambda>pv'.
       case sd_exit (snd side) of
         None \<Rightarrow> Inr pv'
       | Some g \<Rightarrow> collect_state (Some g) bar pv')"

definition position_size_of :: "(string \<rightharpoonup> pyval) option \<Rightarrow> flt result" where
  "position_size_of position =
     py_float (py_or (get_or (case position of Some p \<Rightarrow> p | None \<Rightarrow> Map.empty) ''size'' (PInt 0)) (PInt 0))"

definition position_direction :: "(string \<rightharpoonup> pyval) option \<Rightarrow> string" where
  "position_direction position =
     py_str (get_or (case position of Some p \<Rightarrow> p | None \<Rightarrow> Map.empty) ''direction'' (PStr ''''))"

definition on_bar ::
  "JsonRuleBasedStrategy \<Rightarrow> bar \<Rightarrow> (string \<rightharpoonup> pyval) option \<Rightarrow>
   (SignalResult \<times> JsonRuleBasedStrategy) result" where
  "on_bar s bar position =
     ebind (position_size_of position) (\<lambda>size.
     ebind (efold (collect_side bar) (df_sides (js_definition s)) Map.empty) (\<lambda>pv.
     ebind (if \<not> feq size 0 then exit_signal s bar (position_direction position) pv
            else entry_signal s bar pv) (\<lambda>(sig, pv').
       Inr (sig, s\<lparr>js_previous_values := commit (js_previous_values s) pv'\<rparr>))))"

section \<open>What a signal can be\<close>

definition entry_or_hold :: "SignalResult \<Rightarrow> bool" where
  "entry_or_hold sig \<longleftrightarrow>
     (sr_action sig, sr_direction sig) \<in> {(''hold'', ''''), (''buy'', ''long''), (''sell'', ''short'')}"

definition exit_or_hold :: "string \<Rightarrow> SignalResult \<Rightarrow> bool" where
  "exit_or_hold direction sig \<longleftrightarrow>
     (sr_action sig, sr_direction sig) \<in>
       {(''hold'', ''''), (if direction = ''long'' then ''sell'' else ''buy'', ''exit'')}"

lemma default_signal_simps [simp]:
  "sr_action default_signal = ''hold''" "sr_direction default_signal = ''''"
  "sr_position_size default_signal = 0"
  by (simp_all add: default_signal_def)

lemma try_side_result:
  assumes "try_side s bar side acc = Inr (r, pv)"
  shows "r = fst acc \<or>
         (\<exists>sig. r = Some sig \<and> fst acc = None \<and> sr_direction sig = side \<and> sr_position_size sig = 0 \<and>
            sr_action sig = (if side = ''long'' then ''buy'' else ''sell''))"
  using assms by (auto simp: try_side_def split: prod.splits option.splits if_splits)

lemma entry_signal_shape:
  "entry_signal s bar pv = Inr (sig, pv') \<Longrightarrow> entry_or_hold sig \<and> sr_position_size sig = 0"
  by (auto simp: entry_signal_def entry_or_hold_def split: option.splits prod.splits dest!: try_side_result)

lemma exit_signal_shape:
  "exit_signal s bar direction pv = Inr (sig, pv') \<Longrightarrow>
   exit_or_hold direction sig \<and> sr_position_size sig = 0"
  by (auto simp: exit_signal_def exit_or_hold_def split: option.splits prod.splits if_splits)

section \<open>The crossover state the strategy keeps\<close>

definition side_conditions :: "string \<times> SideRules \<Rightarrow> Condition list" where
  "side_conditions side =
     tree_conditions (sd_entry (snd side)) @
     (case sd_exit (snd side) of None \<Rightarrow> [] | Some g \<Rightarrow> tree_conditions g)"

definition strategy_conditions :: "StrategyDefinition \<Rightarrow> Condition list" where
  "strategy_conditions df = concat (map side_conditions (df_sides df))"

lemma set_tree_entries: "set (tree_entries bar cs) = {e. \<exists>c \<in> set cs. entry_of bar c = Some e}"
  by (force simp: tree_entries_def map_filter_def)

lemma tree_entries_mono: "set cs \<subseteq> set ds \<Longrightarrow> set (tree_entries bar cs) \<subseteq> set (tree_entries bar ds)"
  by (auto simp: set_tree_entries)

lemma evaluate_pending_entries:
  assumes "evaluate (Some g) bar prev (Some pv) = Inr (b, prev', pv')"
  shows "\<exists>es. pv' = write_entries es pv \<and> set es \<subseteq> set (tree_entries bar (tree_conditions g))"
proof -
  from assms obtain pv1 where c: "collect_group g bar pv = Inr pv1"
    and e: "eval_group g bar prev pv1 = Inr (b, pv')"
    by (auto simp: evaluate_def collect_state_def eval_bool_def Let_def)
  obtain es where "pv' = write_entries es pv1" "set es \<subseteq> set (tree_entries bar (tree_conditions g))"
    using eval_group_entries(1) [OF e] by blast
  then show ?thesis using collect_group_entries(1) [OF c]
    by (intro exI [of _ "tree_entries bar (tree_conditions g) @ es"]) simp
qed

lemma collect_side_entries:
  "collect_side bar side pv = Inr pv' \<Longrightarrow> pv' = write_entries (tree_entries bar (side_conditions side)) pv"
  by (auto simp: collect_side_def collect_state_def side_conditions_def split: option.splits
      dest!: collect_group_entries(1))

lemma collect_sides_entries:
  "efold (collect_side bar) sides pv = Inr pv' \<Longrightarrow>
   pv' = write_entries (tree_entries bar (concat (map side_conditions sides))) pv"
  by (induction sides arbitrary: pv) (auto dest!: collect_side_entries)

lemma map_of_side_conditions:
  "map_of sides k = Some rules \<Longrightarrow> set (side_conditions (k, rules)) \<subseteq> set (concat (map side_conditions sides))"
  by (drule map_of_SomeD) auto

lemma entry_conditions_subset:
  "map_of (df_sides df) side = Some rules \<Longrightarrow>
   set (tree_conditions (sd_entry rules)) \<subseteq> set (strategy_conditions df)"
  using map_of_side_conditions [of "df_sides df" side rules]
  by (simp add: strategy_conditions_def side_conditions_def)

lemma exit_conditions_subset:
  "map_of (df_sides df) side = Some rules \<Longrightarrow> sd_exit rules = Some g \<Longrightarrow>
   set (tree_conditions g) \<subseteq> set (strategy_conditions df)"
  using map_of_side_conditions [of "df_sides df" side rules]
  by (simp add: strategy_conditions_def side_conditions_def)

definition strategy_entries :: "JsonRuleBasedStrategy \<Rightarrow> bar \<Rightarrow> (string \<times> flt \<times> flt) list" where
  "strategy_entries s bar = tree_entries bar (strategy_conditions (js_definition s))"

text \<open>\<open>writes_only es pv pv'\<close>: \<open>pv'\<close> comes from \<open>pv\<close> by writing entries among \<open>es\<close>.\<close>

definition writes_only :: "(string \<times> flt \<times> flt) list \<Rightarrow> prev_values \<Rightarrow> prev_values \<Rightarrow> bool" where
  "writes_only es pv pv' \<longleftrightarrow> (\<exists>ws. set ws \<subseteq> set es \<and> pv' = write_entries ws pv)"

lemma writes_only_refl [simp]: "writes_only es pv pv"
  unfolding writes_only_def by (intro exI [of _ "[]"]) simp

lemma writes_only_trans: "writes_only es a b \<Longrightarrow> writes_only es b c \<Longrightarrow> writes_only es a c"
  unfolding writes_only_def by (metis Un_least set_append write_entries_append)

lemma evaluate_writes_only:
  assumes "evaluate (Some g) bar prev (Some pv) = Inr (b, prev', pv')"
    and "set (tree_conditions g) \<subseteq> set (strategy_conditions (js_definition s))"
  shows "writes_only (strategy_entries s bar) pv pv'"
  using evaluate_pending_entries [OF assms(1)] tree_entries_mono [OF assms(2), of bar]
  by (auto simp: writes_only_def strategy_entries_def)

lemma try_side_writes_only:
  "try_side s bar side (acc, pv) = Inr (r, pv') \<Longrightarrow> writes_only (strategy_entries s bar) pv pv'"
  by (auto simp: try_side_def split: prod.splits option.splits if_splits
      dest: evaluate_writes_only [OF _ entry_conditions_subset])

lemma entry_signal_writes_only:
  assumes "entry_signal s bar pv = Inr (sig, pv')"
  shows "writes_only (strategy_entries s bar) pv pv'"
proof -
  from assms obtain a pv1 b where
    1: "try_side s bar ''long'' (None, pv) = Inr (a, pv1)" and
    2: "try_side s bar ''short'' (a, pv1) = Inr (b, pv')"
    by (auto simp: entry_signal_def)
  show ?thesis using try_side_writes_only [OF 1] try_side_writes_only [OF 2] by (rule writes_only_trans)
qed

lemma exit_signal_writes_only:
  "exit_signal s bar direction pv = Inr (sig, pv') \<Longrightarrow> writes_only (strategy_entries s bar) pv pv'"
  by (auto simp: exit_signal_def split: prod.splits option.splits if_splits
      dest: evaluate_writes_only [OF _ exit_conditions_subset])

lemma on_barE:
  assumes "on_bar s bar position = Inr (sig, s')"
  obtains size pv pv' where
    "position_size_of position = Inr size"
    "pv = write_entries (strategy_entries s bar) Map.empty"
    "writes_only (strategy_entries s bar) pv pv'"
    "s' = s\<lparr>js_previous_values := commit (js_previous_values s) pv'\<rparr>"
    "if \<not> feq size 0 then exit_signal s bar (position_direction position) pv = Inr (sig, pv')
     else entry_signal s bar pv = Inr (sig, pv')"
proof -
  from assms obtain size pv pv' where 1: "position_size_of position = Inr size"
    and 2: "efold (collect_side bar) (df_sides (js_definition s)) Map.empty = Inr pv"
    and 3: "(if \<not> feq size 0 then exit_signal s bar (position_direction position) pv
             else entry_signal s bar pv) = Inr (sig, pv')"
    and 4: "s' = s\<lparr>js_previous_values := commit (js_previous_values s) pv'\<rparr>"
    by (auto simp: on_bar_def)
  have "pv = write_entries (strategy_entries s bar) Map.empty"
    using collect_sides_entries [OF 2] by (simp add: strategy_entries_def strategy_conditions_def)
  then show ?thesis
    using that 1 3 4 entry_signal_writes_only exit_signal_writes_only by (metis (no_types))
qed

lemma on_bar_frame:
  "on_bar s bar position = Inr (sig, s') \<Longrightarrow>
   js_definition s' = js_definition s \<and> js_risk_calculator s' = js_risk_calculator s"
  by (elim on_barE) simp

section \<open>The contract of a strategy\<close>

text \<open>
  What the engine relies on.  \<open>same\<close> relates two states of one strategy that differ only in what
  the bars have taught it; a reset forgets exactly that.
\<close>

locale trading_strategy =
  fixes step :: "'s \<Rightarrow> bar \<Rightarrow> (string \<rightharpoonup> pyval) option \<Rightarrow> (SignalResult option \<times> 's) result"
    and reset :: "'s \<Rightarrow> 's"
    and same :: "'s \<Rightarrow> 's \<Rightarrow> bool"
  assumes same_refl: "same s s"
    and same_trans: "same s t \<Longrightarrow> same t u \<Longrightarrow> same s u"
    and step_same: "step s bar position = Inr (r, s') \<Longrightarrow> same s s'"
    and reset_same: "same s t \<Longrightarrow> reset s = reset t"
    and reset_keeps: "same s (reset s)"
    and flat_signal: "\<lbrakk>step s bar position = Inr (Some sig, s'); position_size_of position = Inr sz; feq sz 0\<rbrakk>
                      \<Longrightarrow> entry_or_hold sig"
    and open_signal: "\<lbrakk>step s bar position = Inr (Some sig, s'); position_size_of position = Inr sz; \<not> feq sz 0\<rbrakk>
                      \<Longrightarrow> exit_or_hold (position_direction position) sig"
begin

lemma reset_after_step: "step s bar position = Inr (r, s') \<Longrightarrow> reset s' = reset s"
  using step_same reset_same by metis

lemma reset_idem: "reset (reset s) = reset s"
  using reset_same reset_keeps by metis

end

text \<open>What the engine sees of \<open>on_bar\<close>; its interface also allows \<open>None\<close> for no signal.\<close>

definition json_step ::
  "JsonRuleBasedStrategy \<Rightarrow> bar \<Rightarrow> (string \<rightharpoonup> pyval) option \<Rightarrow>
   (SignalResult option \<times> JsonRuleBasedStrategy) result" where
  "json_step s bar position = ebind (on_bar s bar position) (\<lambda>(sig, s'). Inr (Some sig, s'))"

lemma json_step_Inr: "json_step s bar position = Inr (r, s') \<longleftrightarrow> (\<exists>sig. r = Some sig \<and> on_bar s bar position = Inr (sig, s'))"
  by (auto simp: json_step_def ebind_eq_Inr)

definition same_strategy :: "JsonRuleBasedStrategy \<Rightarrow> JsonRuleBasedStrategy \<Rightarrow> bool" where
  "same_strategy s t \<longleftrightarrow>
     js_definition s = js_definition t \<and> js_risk_calculator s = js_risk_calculator t"

interpretation json_strategy: trading_strategy json_step on_reset same_strategy
proof
  show "same_strategy s s'" if "json_step s bar position = Inr (r, s')" for s bar position r s'
    using that on_bar_frame by (auto simp: same_strategy_def json_step_Inr)
  show "on_reset s = on_reset t" if "same_strategy s t" for s t
    using that by (simp add: same_strategy_def on_reset_def)
  show "entry_or_hold sig"
    if "json_step s bar position = Inr (Some sig, s')" "position_size_of position = Inr sz" "feq sz 0"
    for s bar position sig s' sz
    using that by (auto simp: json_step_Inr elim!: on_barE dest: entry_signal_shape)
  show "exit_or_hold (position_direction position) sig"
    if "json_step s bar position = Inr (Some sig, s')" "position_size_of position = Inr sz" "\<not> feq sz 0"
    for s bar position sig s' sz
    using that by (auto simp: json_step_Inr elim!: on_barE dest: exit_signal_shape)
qed (simp_all add: same_strategy_def on_reset_def)

section \<open>Properties\<close>

text \<open>
  The signal of a bar fits the position: flat, the strategy holds or asks for a long buy or a
  short sell; in a position, it holds or asks for the exit that closes the side it is on.
\<close>

theorem signal_fits_position:
  assumes "on_bar s bar position = Inr (sig, s')" "position_size_of position = Inr sz"
  shows "if feq sz 0 then entry_or_hold sig else exit_or_hold (position_direction position) sig"
  using json_strategy.flat_signal [of s bar position sig s' sz] json_strategy.open_signal [of s bar position sig s' sz]
    assms by (simp add: json_step_Inr)

text \<open>
  C12.  Crossover state never goes stale: what the strategy remembers after a bar is the entry of
  every crossover of every entry and exit rule of both sides, whether or not it was in a position
  and whichever rules it evaluated.
\<close>

theorem crossover_state_independent_of_position:
  assumes "consistent bar (strategy_conditions (js_definition s))"
    and "on_bar s bar position = Inr (sig, s')"
  shows "js_previous_values s' =
           commit (js_previous_values s) (write_entries (strategy_entries s bar) Map.empty)"
  using assms(2)
proof (rule on_barE)
  fix sz pv pv'
  assume pv: "pv = write_entries (strategy_entries s bar) Map.empty"
    and w: "writes_only (strategy_entries s bar) pv pv'"
    and s': "s' = s\<lparr>js_previous_values := commit (js_previous_values s) pv'\<rparr>"
  from w obtain ws where "set ws \<subseteq> set (strategy_entries s bar)" "pv' = write_entries ws pv"
    by (auto simp: writes_only_def)
  then have "pv' = pv"
    using write_entries_idem [OF assms(1), of ws Map.empty] pv by (simp add: strategy_entries_def)
  then show ?thesis using pv s' by simp
qed

definition side_fires :: "JsonRuleBasedStrategy \<Rightarrow> bar \<Rightarrow> string \<Rightarrow> bool" where
  "side_fires s bar side =
     (case map_of (df_sides (js_definition s)) side of
        None \<Rightarrow> False
      | Some rules \<Rightarrow> tree_holds bar (js_previous_values s) (sd_entry rules))"

lemma evaluate_pending_holds:
  "evaluate (Some g) bar prev (Some pv) = Inr (b, prev', pv') \<Longrightarrow> b = tree_holds bar prev g"
  by (auto simp: evaluate_def eval_bool_def Let_def dest: eval_group_holds)

lemma try_side_fires:
  "try_side s bar side (None, pv) = Inr (r, pv') \<Longrightarrow>
   (r \<noteq> None) = side_fires s bar side \<and> (\<forall>sig. r = Some sig \<longrightarrow> sr_direction sig = side)"
  by (auto simp: try_side_def side_fires_def split: prod.splits option.splits if_splits
      dest!: evaluate_pending_holds)

lemma entry_signal_direction:
  assumes "entry_signal s bar pv = Inr (sig, pv')"
  shows "sr_direction sig =
           (if side_fires s bar ''long'' then ''long''
            else if side_fires s bar ''short'' then ''short'' else '''')"
proof -
  from assms obtain a pv1 b where
    1: "try_side s bar ''long'' (None, pv) = Inr (a, pv1)" and
    2: "try_side s bar ''short'' (a, pv1) = Inr (b, pv')" and
    3: "sig = (case b of Some x \<Rightarrow> x | None \<Rightarrow> default_signal)"
    by (auto simp: entry_signal_def)
  show ?thesis
  proof (cases a)
    case None
    then show ?thesis using try_side_fires [OF 1] try_side_fires [of s bar "''short''" pv1 b pv'] 2 3
      by (cases b) auto
  next
    case (Some x)
    then have "b = Some x" using 2 by (simp add: try_side_def)
    then show ?thesis using try_side_fires [OF 1] Some 3 by simp
  qed
qed

text \<open>
  When flat, the direction of the signal is decided by the meaning of the entry rules: long
  when the long rules hold, else short when the short rules hold, else hold.  The long side has
  priority.
\<close>

theorem flat_entry_direction:
  assumes "on_bar s bar position = Inr (sig, s')" "position_size_of position = Inr sz" "feq sz 0"
  shows "sr_direction sig =
           (if side_fires s bar ''long'' then ''long''
            else if side_fires s bar ''short'' then ''short'' else '''')"
  using assms by (auto elim!: on_barE simp: entry_signal_direction)

section \<open>The properties at concrete inputs\<close>

definition sample_definition :: StrategyDefinition where
  "sample_definition = \<lparr>
     df_name = ''cross'',
     df_sides = [(''long'', \<lparr>sd_side = ''long'', sd_entry = leaf sample_cross,
                     sd_exit = Some (leaf (sample_cross\<lparr>cn_operator := ''crosses_below''\<rparr>)),
                     sd_entry_confidence = Fin (1/2), sd_exit_confidence = Fin (1/2)\<rparr>)],
     df_schema_version = ''2.0'', df_description = '''', df_parameters = [], df_resolved_params = [],
     df_indicators = [], df_features = [], df_timeframes = None, df_risk = Some sample_risk, df_metadata = [] \<rparr>"

definition sample_strategy :: JsonRuleBasedStrategy where
  "sample_strategy = (new_strategy sample_definition None)
     \<lparr>js_previous_values := [condition_key sample_cross \<mapsto> (Fin 9, Fin 10)]\<rparr>"

lemma sample_on_bar:
  "\<exists>sig s'. on_bar sample_strategy (sample_bar 11 10) None = Inr (sig, s') \<and>
     sr_action sig = ''buy'' \<and> sr_direction sig = ''long''"
proof -
  have "case on_bar sample_strategy (sample_bar 11 10) None of
          Inr (sig, _) \<Rightarrow> sr_action sig = ''buy'' \<and> sr_direction sig = ''long'' | Inl _ \<Rightarrow> False"
    by code_simp
  then show ?thesis by (auto split: sum.splits)
qed

lemma sample_flat: "position_size_of None = Inr 0"
  by code_simp

theorem signal_fits_position_witness:
  "\<exists>sig s'. on_bar sample_strategy (sample_bar 11 10) None = Inr (sig, s') \<and> entry_or_hold sig"
proof -
  obtain sig s' where o: "on_bar sample_strategy (sample_bar 11 10) None = Inr (sig, s')"
    using sample_on_bar by blast
  show ?thesis using signal_fits_position [OF o sample_flat] o by simp
qed

theorem crossover_state_independent_of_position_witness:
  "\<exists>sig s'. on_bar sample_strategy (sample_bar 11 10) None = Inr (sig, s') \<and>
     js_previous_values s' (condition_key sample_cross) = Some (Fin 11, Fin 10)"
proof -
  obtain sig s' where o: "on_bar sample_strategy (sample_bar 11 10) None = Inr (sig, s')"
    using sample_on_bar by blast
  have c: "consistent (sample_bar 11 10) (strategy_conditions (js_definition sample_strategy))"
    by code_simp
  have "commit (js_previous_values sample_strategy)
          (write_entries (strategy_entries sample_strategy (sample_bar 11 10)) Map.empty)
          (condition_key sample_cross) = Some (Fin 11, Fin 10)"
    by code_simp
  then show ?thesis using crossover_state_independent_of_position [OF c o] o by auto
qed

theorem flat_entry_direction_witness:
  "\<exists>sig s'. on_bar sample_strategy (sample_bar 11 10) None = Inr (sig, s') \<and>
     side_fires sample_strategy (sample_bar 11 10) ''long'' \<and> sr_direction sig = ''long''"
proof -
  obtain sig s' where o: "on_bar sample_strategy (sample_bar 11 10) None = Inr (sig, s')"
    using sample_on_bar by blast
  have "side_fires sample_strategy (sample_bar 11 10) ''long''" by code_simp
  moreover have "feq (0::flt) 0" by simp
  ultimately show ?thesis using flat_entry_direction [OF o sample_flat] o by simp
qed

end
