(* ===== verification/BacktestLoop.thy ===== *)
theory BacktestLoop
  imports PositionExecutor RuleStrategy "HOL-Library.Sublist"
begin

text \<open>
  The bar loop of the backtest engine: \<open>_run_loop\<close> of
  \<open>finbar/infrastructure/services/backtest_runner.py\<close> with its helpers.

    - A \<open>BarRow\<close> is one row of the data frame: its index label, the four price cells and the other
      columns.  The strategy is an argument: its \<open>on_bar\<close> and its current state.
    - \<open>execute_pending\<close>, \<open>process_signal\<close> and \<open>track_equity\<close> are the helpers, \<open>loop_bar\<close> one
      iteration in the order of the source, \<open>run_bars\<close> the loop and \<open>run_loop\<close> the loop with the
      final liquidation.  Log lines, which have no effect on the state, are left out.
    - \<open>orders_ok\<close> is the order book invariant of the loop.
\<close>

section \<open>Rows\<close>

datatype index_value =
    IDatetime py_datetime
  | IMissing
  | IOther string

record BarRow =
  row_index :: index_value
  row_open :: pyval
  row_high :: pyval
  row_low :: pyval
  row_close :: pyval
  row_extra :: "string \<rightharpoonup> pyval"

text \<open>\<open>_precompute_dates\<close>, for one index value.\<close>

definition row_date :: "index_value \<Rightarrow> string" where
  "row_date v =
     (case v of
        IMissing \<Rightarrow> ''''
      | IDatetime ts \<Rightarrow>
          (if dt_hour ts \<noteq> 0 \<or> dt_minute ts \<noteq> 0 \<or> dt_second ts \<noteq> 0 \<or> dt_micro ts \<noteq> 0
           then format_datetime ts else format_date ts)
      | IOther s \<Rightarrow> s)"

definition price_columns :: "string list" where
  "price_columns = [''open'', ''high'', ''low'', ''close'']"

text \<open>The dict handed to the strategy: the four prices as floats, then every other column.\<close>

definition bar_dict :: "flt \<Rightarrow> flt \<Rightarrow> flt \<Rightarrow> flt \<Rightarrow> (string \<rightharpoonup> pyval) \<Rightarrow> bar" where
  "bar_dict o' h l c extra =
     (\<lambda>k. if k \<in> set price_columns
          then map_of [(''open'', PFloat o'), (''high'', PFloat h), (''low'', PFloat l), (''close'', PFloat c)] k
          else extra k)"

section \<open>The helpers of one bar\<close>

type_synonym 's strategy_step =
  "'s \<Rightarrow> bar \<Rightarrow> (string \<rightharpoonup> pyval) option \<Rightarrow> (SignalResult option \<times> 's) result"

definition is_open :: "Book \<Rightarrow> bool" where
  "is_open b \<longleftrightarrow> \<not> feq (p_size (position (bk_state b))) 0"

definition set_pending_exit :: "PendingExit option \<Rightarrow> Book \<Rightarrow> Book" where
  "set_pending_exit x b = b\<lparr>bk_state := (bk_state b)\<lparr>pending_exit := x\<rparr>\<rparr>"

definition set_pending_entry :: "PendingEntry option \<Rightarrow> Book \<Rightarrow> Book" where
  "set_pending_entry e b = b\<lparr>bk_state := (bk_state b)\<lparr>pending_entry := e\<rparr>\<rparr>"

definition execute_pending :: "ExecutionConfig \<Rightarrow> flt \<Rightarrow> string \<Rightarrow> Book \<Rightarrow> Book result" where
  "execute_pending c price date b =
     ebind (if pending_exit (bk_state b) \<noteq> None \<and> is_open b
            then ebind (exit_position c price date ''signal_exit_next_open'' b)
                   (\<lambda>b1. Inr (set_pending_exit None b1))
            else Inr b) (\<lambda>b1.
       case pending_entry (bk_state b1) of
         None \<Rightarrow> Inr b1
       | Some entry \<Rightarrow>
           if is_open b1 then Inr b1
           else enter_position c entry price date (set_pending_entry None b1))"

definition is_trade_action :: "SignalResult \<Rightarrow> bool" where
  "is_trade_action sig \<longleftrightarrow> sr_action sig \<in> {''buy'', ''sell''}"

definition handle_signal :: "SignalResult \<Rightarrow> flt \<Rightarrow> flt \<Rightarrow> Book \<Rightarrow> Book" where
  "handle_signal sig close risk_per_trade b =
     (if sr_direction sig = ''exit'' \<and> is_trade_action sig \<and> is_open b
      then set_pending_exit (Some \<lparr>px_direction = p_direction (position (bk_state b)),
                                   px_confidence = sr_confidence sig\<rparr>) b
      else if \<not> is_open b \<and> is_trade_action sig \<and> sr_direction sig \<in> {''long'', ''short''}
      then set_pending_entry (Some \<lparr>
             pe_direction = sr_direction sig,
             pe_stop_price = sr_stop_price sig,
             pe_target_price = sr_target_price sig,
             pe_position_size = (if 0 < sr_position_size sig then sr_position_size sig else 0),
             pe_explicit_size = (0 < sr_position_size sig),
             pe_risk_per_trade = risk_per_trade,
             pe_signal_close = close\<rparr>) b
      else b)"

definition process_signal ::
  "'s strategy_step \<Rightarrow> bar \<Rightarrow> flt \<Rightarrow> flt \<Rightarrow> Book \<times> 's \<Rightarrow> (Book \<times> 's) result" where
  "process_signal step bar close risk_per_trade bs =
     (case bs of (b, st) \<Rightarrow>
        ebind (step st bar (Some (position_to_dict (position (bk_state b))))) (\<lambda>(signal, st').
          case signal of
            None \<Rightarrow> Inr (b, st')
          | Some sig \<Rightarrow> Inr (handle_signal sig close risk_per_trade b, st')))"

definition track_equity :: "flt \<Rightarrow> string \<Rightarrow> Book \<Rightarrow> Book result" where
  "track_equity close date b =
     (let s = bk_state b; v = portfolio_value s close;
          s1 = (if peak_value s < v then s\<lparr>peak_value := v\<rparr> else s)
      in ebind (if 0 < peak_value s1 then fdiv (peak_value s1 - v) (peak_value s1) else Inr 0) (\<lambda>dd.
           Inr (b\<lparr>bk_state := s1\<lparr>equity_curve := equity_curve s1 @
                    [\<lparr>eq_date = date, eq_close = close, eq_value = v, eq_drawdown = dd,
                      eq_position = p_size (position s1)\<rparr>]\<rparr>\<rparr>)))"

definition update_warmup_state :: "'s strategy_step \<Rightarrow> bar \<Rightarrow> Book \<times> 's \<Rightarrow> (Book \<times> 's) result" where
  "update_warmup_state step bar bs =
     (case bs of (b, st) \<Rightarrow>
        ebind (step st bar (Some (position_to_dict (position (bk_state b))))) (\<lambda>(_, st'). Inr (b, st')))"

section \<open>One bar\<close>

definition live_bar ::
  "ExecutionConfig \<Rightarrow> 's strategy_step \<Rightarrow> flt \<Rightarrow> string \<Rightarrow> flt \<Rightarrow> flt \<Rightarrow> flt \<Rightarrow> flt \<Rightarrow> bar \<Rightarrow>
   Book \<times> 's \<Rightarrow> (Book \<times> 's) result" where
  "live_bar c step rpt date o' h l cl bar bs =
     (case bs of (b, st) \<Rightarrow>
        ebind (execute_pending c o' date b) (\<lambda>b1.
        ebind (check_exit_conditions c o' h l date b1) (\<lambda>b2.
        ebind (margin_call_check c cl b2) (\<lambda>b3.
        ebind (process_signal step bar cl rpt (apply_funding c b3, st)) (\<lambda>(b4, st').
        ebind (track_equity cl date b4) (\<lambda>b5.
          Inr (sync_margin_equity c b5, st')))))))"

definition loop_bar ::
  "ExecutionConfig \<Rightarrow> 's strategy_step \<Rightarrow> flt \<Rightarrow> nat \<Rightarrow> nat \<times> BarRow \<Rightarrow> Book \<times> 's \<Rightarrow> (Book \<times> 's) result" where
  "loop_bar c step rpt first_tradable ir bs =
     (case ir of (i, row) \<Rightarrow>
        ebind (py_float (row_open row)) (\<lambda>o'.
        ebind (py_float (row_high row)) (\<lambda>h.
        ebind (py_float (row_low row)) (\<lambda>l.
        ebind (py_float (row_close row)) (\<lambda>cl.
          let bar = bar_dict o' h l cl (row_extra row); date = row_date (row_index row)
          in if i < first_tradable then update_warmup_state step bar bs
             else live_bar c step rpt date o' h l cl bar bs)))))"

section \<open>The loop\<close>

definition initial_book :: "ExecutionConfig \<Rightarrow> flt \<Rightarrow> Book" where
  "initial_book c initial = \<lparr>bk_state = new_state initial, bk_margin = setup_full_margin c initial\<rparr>"

definition run_bars ::
  "ExecutionConfig \<Rightarrow> 's strategy_step \<Rightarrow> flt \<Rightarrow> nat \<Rightarrow> BarRow list \<Rightarrow> Book \<times> 's \<Rightarrow> (Book \<times> 's) result" where
  "run_bars c step rpt first_tradable rows = efold (loop_bar c step rpt first_tradable) (enumerate 0 rows)"

text \<open>\<open>final_close\<close> and \<open>final_date\<close> after the loop.\<close>

definition final_mark :: "BarRow list \<Rightarrow> (flt \<times> string) result" where
  "final_mark rows =
     (if rows = [] then Inr (0, '''')
      else ebind (py_float (row_close (last rows))) (\<lambda>cl. Inr (cl, row_date (row_index (last rows)))))"

definition run_loop ::
  "ExecutionConfig \<Rightarrow> 's strategy_step \<Rightarrow> BarRow list \<Rightarrow> 's \<Rightarrow> flt \<Rightarrow> flt \<Rightarrow> nat \<Rightarrow> (Book \<times> 's) result" where
  "run_loop c step rows st initial rpt first_tradable =
     ebind (run_bars c step rpt first_tradable rows (initial_book c initial, st)) (\<lambda>(b, st').
     ebind (final_mark rows) (\<lambda>(final_close, final_date).
     ebind (liquidate_open c final_close final_date b) (\<lambda>b'. Inr (b', st'))))"

section \<open>The order book invariant\<close>

text \<open>
  Between bars: an exit is queued only while a position is open, an entry only while flat, and a
  queued entry has a side and a size that is not negative.
\<close>

definition entry_ok :: "PendingEntry \<Rightarrow> bool" where
  "entry_ok e \<longleftrightarrow> pe_direction e \<in> {''long'', ''short''} \<and> 0 \<le> pe_position_size e \<and>
     (pe_explicit_size e \<longleftrightarrow> 0 < pe_position_size e)"

definition orders_ok :: "Book \<Rightarrow> bool" where
  "orders_ok b \<longleftrightarrow>
     (pending_exit (bk_state b) \<noteq> None \<longrightarrow> is_open b) \<and>
     (case pending_entry (bk_state b) of None \<Rightarrow> True | Some e \<Rightarrow> \<not> is_open b \<and> entry_ok e)"

text \<open>Inside a bar, once the queue has been served: nothing is pending.\<close>

definition no_orders :: "Book \<Rightarrow> bool" where
  "no_orders b \<longleftrightarrow> pending_exit (bk_state b) = None \<and> pending_entry (bk_state b) = None"

lemma no_orders_ok: "no_orders b \<Longrightarrow> orders_ok b"
  by (simp add: no_orders_def orders_ok_def)

lemma same_orders_no_orders: "same_orders (bk_state b) (bk_state b') \<Longrightarrow> no_orders b \<Longrightarrow> no_orders b'"
  by (simp add: same_orders_def no_orders_def)

lemma exit_position_closed: "exit_position c x d r b = Inr b' \<Longrightarrow> \<not> is_open b'"
  by (drule exit_position_flat) (simp add: is_open_def new_position_def zero_flt_def feq_def)

lemma execute_pending_no_orders:
  assumes "execute_pending c price date b = Inr b'" "orders_ok b"
  shows "no_orders b'"
proof -
  from assms(1) obtain b1 where
    1: "(if pending_exit (bk_state b) \<noteq> None \<and> is_open b
         then ebind (exit_position c price date ''signal_exit_next_open'' b) (\<lambda>b1. Inr (set_pending_exit None b1))
         else Inr b) = Inr b1" and
    2: "(case pending_entry (bk_state b1) of None \<Rightarrow> Inr b1
         | Some entry \<Rightarrow> if is_open b1 then Inr b1
                         else enter_position c entry price date (set_pending_entry None b1)) = Inr b'"
    by (auto simp: execute_pending_def)
  have p: "pending_exit (bk_state b1) = None"
    using 1 assms(2) by (auto simp: orders_ok_def set_pending_exit_def split: if_splits)
  have o: "pending_entry (bk_state b1) \<noteq> None \<Longrightarrow> \<not> is_open b1"
    using 1 assms(2)
    by (auto simp: orders_ok_def set_pending_exit_def is_open_def
        dest!: exit_position_orders exit_position_closed same_ordersD split: if_splits option.splits)
  show ?thesis
  proof (cases "pending_entry (bk_state b1)")
    case None
    then show ?thesis using 2 p by (simp add: no_orders_def)
  next
    case (Some e)
    then have "enter_position c e price date (set_pending_entry None b1) = Inr b'" using 2 o by simp
    from enter_position_orders [OF this] show ?thesis
      using p by (simp add: no_orders_def set_pending_entry_def same_orders_def)
  qed
qed

lemma bump_bars_held_orders [simp]: "same_orders (bk_state b) (bk_state (bump_bars_held b))"
  by (simp add: bump_bars_held_def same_orders_def)

lemma bump_bars_held_open [simp]: "is_open (bump_bars_held b) = is_open b"
  by (simp add: bump_bars_held_def is_open_def)

lemma check_liquidation_orders:
  "check_liquidation c h l d (on_liquidated c) b = Inr (x, b') \<Longrightarrow> same_orders (bk_state b) (bk_state b')"
  by (auto simp: check_liquidation_def on_liquidated_def Let_def exit_position_orders split: if_splits)

lemma check_exit_conditions_orders:
  assumes "check_exit_conditions c o' h l d b = Inr b'"
  shows "same_orders (bk_state b) (bk_state b')"
proof -
  from assms obtain x b1 where
    1: "check_liquidation c h l d (on_liquidated c) (bump_bars_held b) = Inr (x, b1)" and
    2: "(if x then Inr b1
         else (case resolve_exit (position (bk_state b1)) o' h l of
                 None \<Rightarrow> Inr b1
               | Some (exit_price, reason) \<Rightarrow> exit_position c exit_price d reason b1)) = Inr b'"
    by (auto simp: check_exit_conditions_def)
  have "same_orders (bk_state b) (bk_state b1)"
    using check_liquidation_orders [OF 1] bump_bars_held_orders by (rule same_orders_trans [rotated])
  moreover have "same_orders (bk_state b1) (bk_state b')"
    using 2 by (auto dest: exit_position_orders split: if_splits option.splits)
  ultimately show ?thesis by (rule same_orders_trans)
qed

lemma handle_signal_orders_ok:
  "no_orders b \<Longrightarrow> orders_ok (handle_signal sig close rpt b)"
  by (auto simp: handle_signal_def no_orders_def orders_ok_def set_pending_exit_def set_pending_entry_def
      is_open_def entry_ok_def)

lemma is_open_cong: "position (bk_state b') = position (bk_state b) \<Longrightarrow> is_open b' = is_open b"
  by (simp add: is_open_def)

lemma orders_ok_cong:
  "same_orders (bk_state b) (bk_state b') \<Longrightarrow> position (bk_state b') = position (bk_state b) \<Longrightarrow>
   orders_ok b' = orders_ok b"
  using is_open_cong [of b' b] by (simp add: orders_ok_def same_orders_def split: option.split)

lemma track_equityE:
  assumes "track_equity cl date b = Inr b'"
  obtains dd where
    "bk_state b' = (bk_state b)\<lparr>
       peak_value := (if peak_value (bk_state b) < portfolio_value (bk_state b) cl
                      then portfolio_value (bk_state b) cl else peak_value (bk_state b)),
       equity_curve := equity_curve (bk_state b) @
         [\<lparr>eq_date = date, eq_close = cl, eq_value = portfolio_value (bk_state b) cl, eq_drawdown = dd,
           eq_position = p_size (position (bk_state b))\<rparr>]\<rparr>"
    "bk_margin b' = bk_margin b"
    "if 0 < peak_value (bk_state b')
     then fdiv (peak_value (bk_state b') - portfolio_value (bk_state b) cl) (peak_value (bk_state b')) = Inr dd
     else dd = 0"
  using assms by (auto simp: track_equity_def Let_def split: if_splits)

lemma track_equity_orders_ok: "track_equity cl date b = Inr b' \<Longrightarrow> orders_ok b' = orders_ok b"
  by (erule track_equityE) (simp add: orders_ok_def is_open_def split: option.split)

text \<open>The intermediate books of a live bar.\<close>

lemma live_barE:
  assumes "live_bar c step rpt date o' h l cl bar (b, st) = Inr (b', st')"
  obtains b1 b2 b3 signal b4 b5 where
    "execute_pending c o' date b = Inr b1"
    "check_exit_conditions c o' h l date b1 = Inr b2"
    "margin_call_check c cl b2 = Inr b3"
    "step st bar (Some (position_to_dict (position (bk_state (apply_funding c b3))))) = Inr (signal, st')"
    "b4 = (case signal of None \<Rightarrow> apply_funding c b3 | Some sig \<Rightarrow> handle_signal sig cl rpt (apply_funding c b3))"
    "track_equity cl date b4 = Inr b5"
    "b' = sync_margin_equity c b5"
proof -
  from assms obtain b1 b2 b3 b4 st4 b5 where
    a: "execute_pending c o' date b = Inr b1"
       "check_exit_conditions c o' h l date b1 = Inr b2"
       "margin_call_check c cl b2 = Inr b3"
    and p: "process_signal step bar cl rpt (apply_funding c b3, st) = Inr (b4, st4)"
    and t: "track_equity cl date b4 = Inr b5" "b' = sync_margin_equity c b5" "st' = st4"
    by (auto simp: live_bar_def)
  from p obtain signal where
    s: "step st bar (Some (position_to_dict (position (bk_state (apply_funding c b3))))) = Inr (signal, st4)"
       "b4 = (case signal of None \<Rightarrow> apply_funding c b3 | Some sig \<Rightarrow> handle_signal sig cl rpt (apply_funding c b3))"
    by (auto simp: process_signal_def split: option.splits)
  show ?thesis by (rule that [OF a s(1) [folded t(3)] s(2) t(1,2)])
qed

lemma live_bar_orders_ok:
  assumes "live_bar c step rpt date o' h l cl bar (b, st) = Inr (b', st')" "orders_ok b"
  shows "orders_ok b'"
  using assms(1)
proof (rule live_barE)
  fix b1 b2 b3 signal b4 b5
  assume 1: "execute_pending c o' date b = Inr b1" and 2: "check_exit_conditions c o' h l date b1 = Inr b2"
    and 3: "margin_call_check c cl b2 = Inr b3"
    and 4: "b4 = (case signal of None \<Rightarrow> apply_funding c b3 | Some sig \<Rightarrow> handle_signal sig cl rpt (apply_funding c b3))"
    and 5: "track_equity cl date b4 = Inr b5" and 6: "b' = sync_margin_equity c b5"
  have "no_orders b1" using execute_pending_no_orders [OF 1 assms(2)] .
  then have "no_orders b2" by (rule same_orders_no_orders [OF check_exit_conditions_orders [OF 2]])
  then have "no_orders b3" by (rule same_orders_no_orders [OF margin_call_check_orders [OF 3]])
  then have "no_orders (apply_funding c b3)" by (rule same_orders_no_orders [OF apply_funding_orders])
  then have "orders_ok b4" using 4 by (auto simp: no_orders_ok handle_signal_orders_ok split: option.splits)
  then have "orders_ok b5" using track_equity_orders_ok [OF 5] by simp
  then show "orders_ok b'" using 6 orders_ok_cong [of b5 b'] by simp
qed

lemma loop_barE:
  assumes "loop_bar c step rpt first (i, row) (b, st) = Inr (b', st')"
  obtains (warmup) o' h l cl r where
      "i < first" "b' = b"
      "step st (bar_dict o' h l cl (row_extra row)) (Some (position_to_dict (position (bk_state b)))) = Inr (r, st')"
  | (live) o' h l cl where
      "\<not> i < first"
      "py_float (row_open row) = Inr o'" "py_float (row_high row) = Inr h"
      "py_float (row_low row) = Inr l" "py_float (row_close row) = Inr cl"
      "live_bar c step rpt (row_date (row_index row)) o' h l cl (bar_dict o' h l cl (row_extra row)) (b, st)
         = Inr (b', st')"
  using assms by (auto simp: loop_bar_def update_warmup_state_def Let_def split: if_splits)

lemma loop_bar_orders_ok:
  "loop_bar c step rpt first ir bs = Inr bs' \<Longrightarrow> orders_ok (fst bs) \<Longrightarrow> orders_ok (fst bs')"
  by (cases ir; cases bs; cases bs') (auto elim!: loop_barE dest: live_bar_orders_ok)

lemma initial_orders_ok: "orders_ok (initial_book c x)"
  by (simp add: initial_book_def new_state_def orders_ok_def)

lemma run_bars_orders_ok:
  "run_bars c step rpt first rows bs = Inr bs' \<Longrightarrow> orders_ok (fst bs) \<Longrightarrow> orders_ok (fst bs')"
  unfolding run_bars_def
  by (erule efold_invariant [where P = "\<lambda>bs. orders_ok (fst bs)", rotated]) (auto dest: loop_bar_orders_ok)

section \<open>What a bar adds to the record\<close>

definition exit_reasons :: "string list" where
  "exit_reasons = [''signal_exit_next_open'', ''liquidation'', ''margin_call'', ''stop_loss_gap'',
     ''take_profit_gap'', ''stop_loss'', ''take_profit'', ''end_of_backtest'']"

text \<open>Trades are only appended, each with a known reason; the curve and the peak stay.\<close>

definition extends :: "Book \<Rightarrow> Book \<Rightarrow> bool" where
  "extends b b' \<longleftrightarrow>
     (\<exists>ts. trades (bk_state b') = trades (bk_state b) @ ts \<and>
        (\<forall>t \<in> set ts. td_exit_reason t \<in> set exit_reasons)) \<and>
     equity_curve (bk_state b') = equity_curve (bk_state b) \<and>
     peak_value (bk_state b') = peak_value (bk_state b)"

lemma extends_refl [simp]: "extends b b"
  by (simp add: extends_def)

lemma extends_trans: "extends a b \<Longrightarrow> extends b c \<Longrightarrow> extends a c"
  unfolding extends_def by (metis Un_iff append.assoc set_append)

lemma exit_position_extends:
  "exit_position c x d r b = Inr b' \<Longrightarrow> r \<in> set exit_reasons \<Longrightarrow> extends b b'"
  using exit_position_trades [of c x d r b b'] exit_position_orders [of c x d r b b']
  by (auto simp: extends_def same_orders_def)

lemma enter_position_trades:
  assumes "enter_position c e p d b = Inr b'"
  shows "trades (bk_state b') = trades (bk_state b)"
proof -
  have f: "resolve_size c s e' p' pv d' = Inr (z, s1) \<Longrightarrow> trades s1 = trades s" for s e' p' pv d' z s1
    by (drule resolve_size_frame) (auto dest: diag_extD)
  show ?thesis using assms
    by (auto simp: enter_position_def Let_def split: if_splits dest!: f open_position_frame(1))
qed

lemma enter_position_extends: "enter_position c e p d b = Inr b' \<Longrightarrow> extends b b'"
  using enter_position_trades [of c e p d b b'] enter_position_orders [of c e p d b b']
  by (auto simp: extends_def same_orders_def)

lemma resolve_exit_reason:
  "resolve_exit p o' h l = Some (x, r) \<Longrightarrow> r \<in> set exit_reasons"
  by (auto simp: resolve_exit_def resolve_long_def resolve_short_def exit_reasons_def Let_def split: if_splits)

lemma bump_bars_held_extends [simp]: "extends b (bump_bars_held b)"
  by (simp add: bump_bars_held_def extends_def)

lemma set_pending_extends [simp]:
  "extends b (set_pending_exit x b)" "extends b (set_pending_entry e b)"
  by (simp_all add: extends_def set_pending_exit_def set_pending_entry_def)

lemma apply_funding_trades [simp]: "trades (bk_state (apply_funding c b)) = trades (bk_state b)"
  by (auto simp: apply_funding_def sync_state_equity_def Let_def split: option.splits prod.splits)

lemma apply_funding_extends [simp]: "extends b (apply_funding c b)"
  using apply_funding_orders [of b c] by (auto simp: extends_def same_orders_def)

lemma sync_margin_equity_extends [simp]: "extends b (sync_margin_equity c b)"
  using sync_margin_equity_orders [of b c]
  by (auto simp: extends_def same_orders_def sync_margin_equity_def sync_state_equity_def split: option.splits)

lemma handle_signal_extends [simp]: "extends b (handle_signal sig x r b)"
  by (simp add: handle_signal_def)

lemma margin_call_check_extends: "margin_call_check c x b = Inr b' \<Longrightarrow> extends b b'"
  by (auto simp: margin_call_check_def exit_reasons_def intro: exit_position_extends split: if_splits)

lemma check_exit_conditions_extends:
  assumes "check_exit_conditions c o' h l d b = Inr b'" shows "extends b b'"
proof -
  from assms obtain x b1 where
    1: "check_liquidation c h l d (on_liquidated c) (bump_bars_held b) = Inr (x, b1)" and
    2: "(if x then Inr b1
         else (case resolve_exit (position (bk_state b1)) o' h l of
                 None \<Rightarrow> Inr b1
               | Some (exit_price, reason) \<Rightarrow> exit_position c exit_price d reason b1)) = Inr b'"
    by (auto simp: check_exit_conditions_def)
  have "extends (bump_bars_held b) b1"
    using 1 by (auto simp: check_liquidation_def on_liquidated_def Let_def exit_reasons_def
        intro: exit_position_extends split: if_splits)
  moreover have "extends b1 b'"
    using 2 by (auto intro: exit_position_extends resolve_exit_reason split: if_splits option.splits)
  ultimately show ?thesis by (meson bump_bars_held_extends extends_trans)
qed

lemma execute_pending_extends:
  assumes "execute_pending c price date b = Inr b'" shows "extends b b'"
proof -
  from assms obtain b1 where
    1: "(if pending_exit (bk_state b) \<noteq> None \<and> is_open b
         then ebind (exit_position c price date ''signal_exit_next_open'' b) (\<lambda>b1. Inr (set_pending_exit None b1))
         else Inr b) = Inr b1" and
    2: "(case pending_entry (bk_state b1) of None \<Rightarrow> Inr b1
         | Some entry \<Rightarrow> if is_open b1 then Inr b1
                         else enter_position c entry price date (set_pending_entry None b1)) = Inr b'"
    by (auto simp: execute_pending_def)
  have "''signal_exit_next_open'' \<in> set exit_reasons" by (simp add: exit_reasons_def)
  then have "extends b b1"
    using 1 by (auto intro: extends_trans [OF exit_position_extends] split: if_splits)
  moreover have "extends b1 b'"
    using 2 by (auto intro: extends_trans [OF set_pending_extends(2) enter_position_extends]
        split: if_splits option.splits)
  ultimately show ?thesis by (rule extends_trans)
qed

text \<open>The equity point of a live bar, and the book just before it is appended.\<close>

lemma live_bar_record:
  assumes "live_bar c step rpt date o' h l cl bar (b, st) = Inr (b', st')"
  obtains b4 b5 where "extends b b4" "track_equity cl date b4 = Inr b5" "extends b5 b'"
    "position (bk_state b') = position (bk_state b4)"
  using assms
proof (rule live_barE)
  fix b1 b2 b3 signal b4 b5
  assume 1: "execute_pending c o' date b = Inr b1" and 2: "check_exit_conditions c o' h l date b1 = Inr b2"
    and 3: "margin_call_check c cl b2 = Inr b3"
    and 4: "b4 = (case signal of None \<Rightarrow> apply_funding c b3 | Some sig \<Rightarrow> handle_signal sig cl rpt (apply_funding c b3))"
    and 5: "track_equity cl date b4 = Inr b5" and 6: "b' = sync_margin_equity c b5"
  have "extends b b3"
    using execute_pending_extends [OF 1] check_exit_conditions_extends [OF 2] margin_call_check_extends [OF 3]
    by (meson extends_trans)
  then have "extends b b4" using 4
    by (auto intro: extends_trans [OF _ apply_funding_extends]
        extends_trans [OF extends_trans [OF _ apply_funding_extends] handle_signal_extends] split: option.splits)
  moreover have "extends b5 b'" using 6 by simp
  moreover have "position (bk_state b') = position (bk_state b4)"
    using 6 5 by (auto elim!: track_equityE)
  ultimately show ?thesis using that 5 by blast
qed

section \<open>Whole runs\<close>

definition book_grows :: "Book \<Rightarrow> Book \<Rightarrow> bool" where
  "book_grows b b' \<longleftrightarrow>
     prefix (trades (bk_state b)) (trades (bk_state b')) \<and>
     prefix (equity_curve (bk_state b)) (equity_curve (bk_state b'))"

lemma book_grows_refl [simp]: "book_grows b b"
  by (simp add: book_grows_def)

lemma book_grows_trans: "book_grows a b \<Longrightarrow> book_grows b c \<Longrightarrow> book_grows a c"
  by (auto simp: book_grows_def)

lemma extends_grows: "extends b b' \<Longrightarrow> book_grows b b'"
  by (auto simp: extends_def book_grows_def)

lemma track_equity_grows: "track_equity cl date b = Inr b' \<Longrightarrow> book_grows b b'"
  by (auto simp: book_grows_def elim!: track_equityE)

lemma loop_bar_grows:
  assumes "loop_bar c step rpt first (i, row) (b, st) = Inr (b', st')"
  shows "book_grows b b'"
  using assms
proof (cases rule: loop_barE)
  case (live o' h l cl)
  from live(6) show ?thesis
  proof (rule live_bar_record)
    fix b4 b5
    assume "extends b b4" "track_equity cl (row_date (row_index row)) b4 = Inr b5" "extends b5 b'"
    then show "book_grows b b'" by (meson book_grows_trans extends_grows track_equity_grows)
  qed
qed simp

lemma efold_loop_grows:
  "efold (loop_bar c step rpt first) irs bs = Inr bs' \<Longrightarrow> book_grows (fst bs) (fst bs')"
proof (induction irs arbitrary: bs)
  case (Cons ir irs)
  then obtain u where u: "loop_bar c step rpt first ir bs = Inr u"
    "efold (loop_bar c step rpt first) irs u = Inr bs'" by auto
  have "book_grows (fst bs) (fst u)"
    using u(1) loop_bar_grows [of c step rpt first "fst ir" "snd ir" "fst bs" "snd bs" "fst u" "snd u"]
    by simp
  then show ?case using Cons.IH [OF u(2)] book_grows_trans by blast
qed simp

lemma run_bars_append:
  "run_bars c step rpt first (xs @ ys) bs =
     ebind (run_bars c step rpt first xs bs) (efold (loop_bar c step rpt first) (enumerate (length xs) ys))"
  by (simp add: run_bars_def enumerate_append_eq efold_append)

text \<open>Bars before the first tradable one do not touch the book.\<close>

lemma efold_loop_warmup:
  "efold (loop_bar c step rpt first) (enumerate n rows) bs = Inr bs' \<Longrightarrow> n + length rows \<le> first \<Longrightarrow>
   fst bs' = fst bs"
proof (induction rows arbitrary: n bs)
  case (Cons row rows)
  then obtain u where u: "loop_bar c step rpt first (n, row) bs = Inr u"
    "efold (loop_bar c step rpt first) (enumerate (Suc n) rows) u = Inr bs'" by auto
  have "fst u = fst bs"
    using u(1) Cons.prems(2) loop_barE [of c step rpt first n row "fst bs" "snd bs" "fst u" "snd u"]
    by fastforce
  then show ?case using Cons.IH [OF u(2)] Cons.prems(2) by simp
qed simp

lemma run_bars_warmup:
  "run_bars c step rpt first rows bs = Inr bs' \<Longrightarrow> length rows \<le> first \<Longrightarrow> fst bs' = fst bs"
  unfolding run_bars_def by (drule efold_loop_warmup) simp_all

text \<open>What is appended to the curve by each kind of bar.\<close>

definition row_point :: "BarRow \<Rightarrow> string \<times> flt result" where
  "row_point row = (row_date (row_index row), py_float (row_close row))"

definition curve_marks :: "SimulationState \<Rightarrow> (string \<times> flt result) list" where
  "curve_marks s = map (\<lambda>p. (eq_date p, Inr (eq_close p))) (equity_curve s)"

lemma loop_bar_marks:
  assumes "loop_bar c step rpt first (i, row) (b, st) = Inr (b', st')"
  shows "curve_marks (bk_state b') =
           curve_marks (bk_state b) @ (if i < first then [] else [row_point row])"
  using assms
proof (cases rule: loop_barE)
  case (live o' h l cl)
  from live(6) show ?thesis
  proof (rule live_bar_record)
    fix b4 b5
    assume a: "extends b b4" "track_equity cl (row_date (row_index row)) b4 = Inr b5" "extends b5 b'"
    then show ?thesis using live
      by (auto simp: curve_marks_def extends_def row_point_def elim!: track_equityE)
  qed
qed simp

lemma efold_loop_marks:
  "efold (loop_bar c step rpt first) (enumerate n rows) bs = Inr bs' \<Longrightarrow>
   curve_marks (bk_state (fst bs')) =
     curve_marks (bk_state (fst bs)) @ map row_point (drop (first - n) rows)"
proof (induction rows arbitrary: n bs)
  case (Cons row rows)
  then obtain u where u: "loop_bar c step rpt first (n, row) bs = Inr u"
    "efold (loop_bar c step rpt first) (enumerate (Suc n) rows) u = Inr bs'" by auto
  have "curve_marks (bk_state (fst u)) =
      curve_marks (bk_state (fst bs)) @ (if n < first then [] else [row_point row])"
    using u(1) loop_bar_marks [of c step rpt first n row "fst bs" "snd bs" "fst u" "snd u"] by simp
  moreover have "first - n = (if n < first then Suc (first - Suc n) else 0)"
    "\<not> n < first \<Longrightarrow> first - Suc n = 0" by (simp_all add: Suc_diff_Suc)
  ultimately show ?case using Cons.IH [OF u(2)] by (cases "n < first") simp_all
qed simp

lemma run_bars_marks:
  "run_bars c step rpt first rows (initial_book c x, st) = Inr (b, st') \<Longrightarrow>
   curve_marks (bk_state b) = map row_point (drop first rows)"
  unfolding run_bars_def
  by (drule efold_loop_marks) (simp add: initial_book_def new_state_def curve_marks_def)

section \<open>Equity and drawdown\<close>

text \<open>Every point is at most the peak, and its drawdown is not negative.\<close>

definition point_ok :: "flt \<Rightarrow> EquityPoint \<Rightarrow> bool" where
  "point_ok peak p \<longleftrightarrow>
     (eq_value p = NaN \<or> eq_value p \<le> peak) \<and> (eq_drawdown p = NaN \<or> 0 \<le> eq_drawdown p)"

definition curve_ok :: "Book \<Rightarrow> bool" where
  "curve_ok b \<longleftrightarrow> peak_value (bk_state b) \<noteq> NaN \<and>
     list_all (point_ok (peak_value (bk_state b))) (equity_curve (bk_state b))"

lemma point_ok_mono: "point_ok p x \<Longrightarrow> p \<le> q \<Longrightarrow> point_ok q x"
  by (auto simp: point_ok_def intro: flt_trans)

lemma flt_zero_le: "(0::flt) \<le> 0"
  by simp

lemma drawdown_nonneg:
  assumes "if 0 < peak then fdiv (peak - v) peak = Inr dd else dd = 0" "v = NaN \<or> v \<le> peak"
  shows "dd = NaN \<or> 0 \<le> dd"
proof (cases "0 < peak")
  case True
  show ?thesis
  proof (cases "peak - v = NaN")
    case True
    then show ?thesis using assms(1) \<open>0 < peak\<close> by (cases peak) (auto simp: zero_flt_def)
  next
    case False
    then have "0 \<le> peak - v" using assms(2) by (auto intro: flt_minus_nonneg)
    then show ?thesis using assms(1) True flt_fdiv_nonneg flt_less_imp_le by fastforce
  qed
qed (use assms in simp)

lemma track_equity_curve_ok:
  assumes "track_equity cl date b = Inr b'" "curve_ok b"
  shows "curve_ok b'"
  using assms(1)
proof (rule track_equityE)
  fix dd
  let ?v = "portfolio_value (bk_state b) cl" and ?p = "peak_value (bk_state b)" and ?p' = "peak_value (bk_state b')"
  assume s: "bk_state b' = (bk_state b)\<lparr>peak_value := (if ?p < ?v then ?v else ?p),
       equity_curve := equity_curve (bk_state b) @
         [\<lparr>eq_date = date, eq_close = cl, eq_value = ?v, eq_drawdown = dd,
           eq_position = p_size (position (bk_state b))\<rparr>]\<rparr>"
    and d: "if 0 < ?p' then fdiv (?p' - ?v) ?p' = Inr dd else dd = 0"
  have p': "?p' = (if ?p < ?v then ?v else ?p)" using s by simp
  have nn: "?p \<noteq> NaN" and old: "list_all (point_ok ?p) (equity_curve (bk_state b))"
    using assms(2) by (simp_all add: curve_ok_def)
  have le: "?p \<le> ?p'" "?p' \<noteq> NaN" "?v = NaN \<or> ?v \<le> ?p'"
    using nn p' flt_not_less [OF nn, of ?v] flt_less_not_NaN [of ?p ?v] by (auto intro: flt_less_imp_le)
  have "list_all (point_ok ?p') (equity_curve (bk_state b))"
    using old le(1) point_ok_mono by (auto simp: list_all_iff)
  then show "curve_ok b'"
    using s le drawdown_nonneg [OF d le(3)] by (simp add: curve_ok_def point_ok_def)
qed

lemma extends_curve_ok: "extends b b' \<Longrightarrow> curve_ok b' = curve_ok b"
  by (auto simp: extends_def curve_ok_def)

lemma loop_bar_curve_ok:
  assumes "loop_bar c step rpt first (i, row) (b, st) = Inr (b', st')" "curve_ok b"
  shows "curve_ok b'"
  using assms(1)
proof (cases rule: loop_barE)
  case (live o' h l cl)
  from live(6) show ?thesis
  proof (rule live_bar_record)
    fix b4 b5
    assume "extends b b4" "track_equity cl (row_date (row_index row)) b4 = Inr b5" "extends b5 b'"
    then show "curve_ok b'" using assms(2) extends_curve_ok track_equity_curve_ok by blast
  qed
qed (use assms in simp)

lemma run_bars_curve_ok:
  "run_bars c step rpt first rows bs = Inr bs' \<Longrightarrow> curve_ok (fst bs) \<Longrightarrow> curve_ok (fst bs')"
  unfolding run_bars_def
  by (erule efold_invariant [where P = "\<lambda>bs. curve_ok (fst bs)", rotated])
     (auto dest: loop_bar_curve_ok)

section \<open>Where positions open and close\<close>

lemma exit_position_not_open:
  "exit_position c x d r b = Inr b' \<Longrightarrow> is_open b' \<Longrightarrow> P"
  using exit_position_closed by blast

lemma check_exit_conditions_not_opened:
  assumes "check_exit_conditions c o' h l d b = Inr b'" "is_open b'"
  shows "position (bk_state b') = position (bk_state (bump_bars_held b))"
proof -
  from assms(1) obtain x b1 where
    1: "check_liquidation c h l d (on_liquidated c) (bump_bars_held b) = Inr (x, b1)" and
    2: "(if x then Inr b1
         else (case resolve_exit (position (bk_state b1)) o' h l of
                 None \<Rightarrow> Inr b1
               | Some (exit_price, reason) \<Rightarrow> exit_position c exit_price d reason b1)) = Inr b'"
    by (auto simp: check_exit_conditions_def)
  have "b' = b1" using 2 assms(2) by (auto elim: exit_position_not_open split: if_splits option.splits)
  then show ?thesis using 1 assms(2)
    by (auto simp: check_liquidation_def on_liquidated_def Let_def elim: exit_position_not_open split: if_splits)
qed

lemma margin_call_check_not_opened:
  "margin_call_check c x b = Inr b' \<Longrightarrow> is_open b' \<Longrightarrow> b' = b"
  by (auto simp: margin_call_check_def elim: exit_position_not_open split: if_splits)

lemma handle_signal_position [simp]:
  "position (bk_state (handle_signal sig x r b)) = position (bk_state b)"
  by (simp add: handle_signal_def set_pending_exit_def set_pending_entry_def)

text \<open>A live bar that ends with an open position: what the position was after the orders were served.\<close>

lemma live_bar_position:
  assumes "live_bar c step rpt date o' h l cl bar (b, st) = Inr (b', st')" "is_open b'"
  obtains b1 where "execute_pending c o' date b = Inr b1" "is_open b1"
    "position (bk_state b') = position (bk_state (bump_bars_held b1))"
  using assms(1)
proof (rule live_barE)
  fix b1 b2 b3 signal b4 b5
  assume 1: "execute_pending c o' date b = Inr b1" and 2: "check_exit_conditions c o' h l date b1 = Inr b2"
    and 3: "margin_call_check c cl b2 = Inr b3"
    and 4: "b4 = (case signal of None \<Rightarrow> apply_funding c b3 | Some sig \<Rightarrow> handle_signal sig cl rpt (apply_funding c b3))"
    and 5: "track_equity cl date b4 = Inr b5" and 6: "b' = sync_margin_equity c b5"
  have "position (bk_state b') = position (bk_state b3)"
    using 4 5 6 by (auto split: option.splits elim!: track_equityE)
  then have o3: "is_open b3" "position (bk_state b') = position (bk_state b3)"
    using assms(2) by (simp_all add: is_open_def)
  have "b3 = b2" using margin_call_check_not_opened [OF 3 o3(1)] .
  then have p: "position (bk_state b') = position (bk_state (bump_bars_held b1))"
    using check_exit_conditions_not_opened [OF 2] o3 by simp
  then have "is_open b1" using assms(2) is_open_cong bump_bars_held_open by blast
  then show ?thesis using that 1 p by blast
qed

lemma execute_pending_from_flat:
  assumes "execute_pending c price date b = Inr b'" "\<not> is_open b" "is_open b'"
  shows "\<exists>e. pending_entry (bk_state b) = Some e \<and>
           enter_position c e price date (set_pending_entry None b) = Inr b'"
  using assms by (auto simp: execute_pending_def split: option.splits if_splits)

lemma resolve_size_position:
  "resolve_size c s e p pv d = Inr (z, s1) \<Longrightarrow> position s1 = position s"
  by (drule resolve_size_frame) (auto dest: diag_extD)

lemma enter_position_opens:
  assumes "enter_position c e p d b = Inr b'" "\<not> is_open b" "is_open b'"
  shows "pe_direction e \<in> {''long'', ''short''} \<and>
         p_direction (position (bk_state b')) = pe_direction e \<and>
         p_entry_price (position (bk_state b')) = apply_slippage p (pe_direction e) ''entry'' (slippage_pct c) \<and>
         p_entry_date (position (bk_state b')) = d \<and>
         p_bars_held (position (bk_state b')) = 0"
proof -
  define fill where "fill = apply_slippage p (pe_direction e) ''entry'' (slippage_pct c)"
  have "pe_direction e1 = pe_direction e" if "rebase_risk_prices c e fill = Inr e1" for e1
    using that by (auto simp: rebase_risk_prices_def split: if_splits)
  moreover obtain e1 sz s1 where "rebase_risk_prices c e fill = Inr e1" and
    r: "resolve_size c (bk_state b) e1 fill (portfolio_value (bk_state b) fill) d = Inr (sz, s1)" and
    o: "open_position c e1 sz p fill d (b\<lparr>bk_state := s1\<rparr>) = Inr b'"
    using assms resolve_size_position
    by (auto simp: enter_position_def fill_def is_open_def Let_def split: if_splits)
  ultimately have d: "pe_direction e1 = pe_direction e" by blast
  consider "pe_direction e1 = ''long''" | "pe_direction e1 = ''short''"
    | "pe_direction e1 \<noteq> ''long''" "pe_direction e1 \<noteq> ''short''" by blast
  then show ?thesis
  proof cases
    case 1
    then show ?thesis using open_position_long [OF o 1] d by (simp add: fill_def)
  next
    case 2
    then show ?thesis using open_position_short [OF o 2] d by (simp add: fill_def)
  next
    case 3
    then have "position (bk_state b') = position (bk_state b)"
      using open_position_other [OF o] resolve_size_position [OF r] by simp
    then show ?thesis using assms(2,3) is_open_cong by blast
  qed
qed

lemma liquidate_open_closed: "liquidate_open c x d b = Inr b' \<Longrightarrow> \<not> is_open b'"
proof (cases "is_open b")
  case True
  assume l: "liquidate_open c x d b = Inr b'"
  then obtain b1 where e: "exit_position c x d ''end_of_backtest'' b = Inr b1"
    and p: "position (bk_state b') = position (bk_state b1)"
    using True by (auto simp: liquidate_open_def is_open_def Let_def split: if_splits)
  then show ?thesis using exit_position_closed [OF e] is_open_cong by blast
next
  case False
  assume "liquidate_open c x d b = Inr b'"
  then show ?thesis using False by (simp add: liquidate_open_def is_open_def)
qed

text \<open>The final liquidation keeps the dates and closes of the curve.\<close>

lemma marks_set_last:
  "xs \<noteq> [] \<Longrightarrow>
   map (\<lambda>p. (eq_date p, Inr (eq_close p)))
     (set_last ((last xs)\<lparr>eq_value := v, eq_position := z, eq_drawdown := dd\<rparr>) xs) =
   map (\<lambda>p. (eq_date p, Inr (eq_close p))) xs"
  by (induction xs rule: rev_induct) (simp_all add: set_last_def)

lemma liquidate_open_marks:
  assumes "liquidate_open c x d b = Inr b'"
  shows "curve_marks (bk_state b') = curve_marks (bk_state b)"
proof (cases "is_open b")
  case True
  then obtain b1 where e: "exit_position c x d ''end_of_backtest'' b = Inr b1" and
    p: "curve_marks (bk_state b') = curve_marks (bk_state b1)"
    using assms
    by (auto simp: liquidate_open_def is_open_def Let_def curve_marks_def marks_set_last split: if_splits)
  then show ?thesis using exit_position_orders [OF e] by (simp add: same_orders_def curve_marks_def)
qed (use assms in \<open>simp add: liquidate_open_def is_open_def\<close>)

lemma liquidate_open_trades:
  assumes "liquidate_open c x d b = Inr b'"
  shows "\<exists>ts. trades (bk_state b') = trades (bk_state b) @ ts \<and>
           (\<forall>t \<in> set ts. td_exit_reason t = ''end_of_backtest'')"
proof (cases "is_open b")
  case True
  then obtain b1 where e: "exit_position c x d ''end_of_backtest'' b = Inr b1" and
    p: "trades (bk_state b') = trades (bk_state b1)"
    using assms by (auto simp: liquidate_open_def is_open_def Let_def split: if_splits)
  then show ?thesis using exit_position_trades [OF e] by auto
qed (use assms in \<open>simp add: liquidate_open_def is_open_def\<close>)

lemma run_loopE:
  assumes "run_loop c step rows st initial rpt first = Inr (b', st')"
  obtains b x d where "run_bars c step rpt first rows (initial_book c initial, st) = Inr (b, st')"
    "liquidate_open c x d b = Inr b'"
  using assms by (auto simp: run_loop_def)

section \<open>Running a strategy again\<close>

context trading_strategy
begin

lemma loop_bar_same:
  assumes "loop_bar c step rpt first (i, row) (b, st) = Inr (b', st')"
  shows "same st st'"
  using assms by (cases rule: loop_barE) (auto elim!: live_barE dest: step_same)

lemma efold_loop_same:
  "efold (loop_bar c step rpt first) irs bs = Inr bs' \<Longrightarrow> same (snd bs) (snd bs')"
proof (induction irs arbitrary: bs)
  case Nil
  then show ?case by (simp add: same_refl)
next
  case (Cons ir irs)
  then obtain u where u: "loop_bar c step rpt first ir bs = Inr u"
    "efold (loop_bar c step rpt first) irs u = Inr bs'" by auto
  have "same (snd bs) (snd u)"
    using u(1) loop_bar_same [of c rpt first "fst ir" "snd ir" "fst bs" "snd bs" "fst u" "snd u"] by simp
  then show ?case using Cons.IH [OF u(2)] same_trans by blast
qed

lemma run_loop_same: "run_loop c step rows st x rpt first = Inr (b, st') \<Longrightarrow> same st st'"
  by (erule run_loopE) (auto simp: run_bars_def dest: efold_loop_same)

lemma rerun:
  assumes "run_loop c step rows (reset st) x rpt first = Inr (b, st')"
  shows "run_loop c step rows' (reset st') x' rpt' first' = run_loop c step rows' (reset st) x' rpt' first'"
  using reset_same [OF run_loop_same [OF assms]] reset_idem by simp

end

section \<open>Properties of the loop\<close>

text \<open>
  C2.  The order book is always consistent: after any number of bars a queued exit implies an open
  position and a queued entry implies a flat book, so the two are never queued together; a queued
  entry is long or short with a size that is not negative.
\<close>

theorem order_book_invariant:
  assumes "run_bars c step rpt first rows (initial_book c initial, st) = Inr (b, st')"
  shows "orders_ok b"
  using run_bars_orders_ok [OF assms] initial_orders_ok by simp


text \<open>
  The equity curve of a finished backtest has one point per tradable bar: the dates are those
  of the bars after the warmup, in order, and each close is the close of its bar.
\<close>

theorem equity_curve_follows_bars:
  assumes "run_loop c step rows st initial rpt first = Inr (b, st')"
  shows "curve_marks (bk_state b) = map row_point (drop first rows)"
  using assms by (rule run_loopE) (metis liquidate_open_marks run_bars_marks)

text \<open>
  The peak is an upper bound of every recorded portfolio value and no recorded drawdown is
  negative, for every price history and every strategy.
\<close>

theorem drawdown_never_negative:
  assumes "run_bars c step rpt first rows (initial_book c initial, st) = Inr (b, st')" "initial \<noteq> NaN"
  shows "\<forall>p \<in> set (equity_curve (bk_state b)).
           (eq_value p = NaN \<or> eq_value p \<le> peak_value (bk_state b)) \<and>
           (eq_drawdown p = NaN \<or> 0 \<le> eq_drawdown p)"
  using run_bars_curve_ok [OF assms(1)] assms(2)
  by (auto simp: curve_ok_def list_all_iff point_ok_def initial_book_def new_state_def)

text \<open>A backtest ends flat: whatever was open is closed at the last close.\<close>

theorem backtest_ends_flat:
  assumes "run_loop c step rows st initial rpt first = Inr (b, st')"
  shows "\<not> is_open b"
  using assms by (rule run_loopE) (rule liquidate_open_closed)

text \<open>
  C3.  Entries happen at the next open only: if a bar starts flat and ends with a position, the
  entry was queued before the bar, its side is the queued side, the fill is the open of this bar
  with slippage against the trader, the entry date is the date of this bar, and the position has
  been held for one bar.
\<close>

theorem entry_at_next_open:
  assumes "live_bar c step rpt date o' h l cl bar (b, st) = Inr (b', st')"
    and "\<not> is_open b" "is_open b'"
  shows "\<exists>e. pending_entry (bk_state b) = Some e \<and>
           p_direction (position (bk_state b')) = pe_direction e \<and>
           p_entry_price (position (bk_state b')) = apply_slippage o' (pe_direction e) ''entry'' (slippage_pct c) \<and>
           p_entry_date (position (bk_state b')) = date \<and>
           p_bars_held (position (bk_state b')) = 1"
  using assms(1,3)
proof (rule live_bar_position)
  fix b1
  assume 1: "execute_pending c o' date b = Inr b1" "is_open b1"
    and p: "position (bk_state b') = position (bk_state (bump_bars_held b1))"
  obtain e where e: "pending_entry (bk_state b) = Some e"
    and en: "enter_position c e o' date (set_pending_entry None b) = Inr b1"
    using execute_pending_from_flat [OF 1(1) assms(2) 1(2)] by blast
  have "\<not> is_open (set_pending_entry None b)" using assms(2) by (simp add: is_open_def set_pending_entry_def)
  from enter_position_opens [OF en this 1(2)] show ?thesis
    using e p by (simp add: bump_bars_held_def)
qed

text \<open>
  Warmup bars feed the strategy and nothing else: while the index is below the first tradable
  one the book, with its cash, orders, trades and curve, does not change.
\<close>

theorem warmup_never_trades:
  assumes "run_bars c step rpt first rows (b, st) = Inr (b', st')" "length rows \<le> first"
  shows "b' = b"
  using run_bars_warmup [OF assms] by simp

text \<open>Every trade of a backtest carries one of the eight documented exit reasons.\<close>

theorem trade_reasons_known:
  assumes "run_loop c step rows st initial rpt first = Inr (b, st')"
  shows "\<forall>t \<in> set (trades (bk_state b)). td_exit_reason t \<in> set exit_reasons"
  using assms
proof (rule run_loopE)
  fix b1 x d
  assume 1: "run_bars c step rpt first rows (initial_book c initial, st) = Inr (b1, st')"
    and 2: "liquidate_open c x d b1 = Inr b"
  let ?P = "\<lambda>bs. \<forall>t \<in> set (trades (bk_state (fst bs))). td_exit_reason t \<in> set exit_reasons"
  have "?P bs'" if "loop_bar c step rpt first ir bs = Inr bs'" "?P bs" for ir bs bs'
  proof -
    from that(1) have "loop_bar c step rpt first (fst ir, snd ir) (fst bs, snd bs) = Inr (fst bs', snd bs')"
      by simp
    then show ?thesis
    proof (cases rule: loop_barE)
    case (live o' h l cl)
    from live(6) show ?thesis
    proof (rule live_bar_record)
      fix b4 b5
      assume "extends (fst bs) b4" "track_equity cl (row_date (row_index (snd ir))) b4 = Inr b5" "extends b5 (fst bs')"
      then show ?thesis using that(2) by (auto simp: extends_def elim!: track_equityE)
    qed
    qed (use that in simp)
  qed
  then have "?P (b1, st')"
    using 1 unfolding run_bars_def
    by (elim efold_invariant [where P = ?P, rotated]) (auto simp: initial_book_def new_state_def)
  moreover have "''end_of_backtest'' \<in> set exit_reasons" by (simp add: exit_reasons_def)
  ultimately show ?thesis using liquidate_open_trades [OF 2] by auto
qed

text \<open>
  A backtest of a JSON strategy can be repeated: once the strategy is reset, a second run on
  any data gives what a first run would have given, so no state leaks from one run to the next.
\<close>

theorem json_backtest_repeatable:
  assumes "run_loop c json_step rows (on_reset s) initial rpt first = Inr (b, s')"
  shows "run_loop c json_step rows' (on_reset s') initial' rpt' first' =
         run_loop c json_step rows' (on_reset s) initial' rpt' first'"
  using assms by (rule json_strategy.rerun)

section \<open>The properties at concrete inputs\<close>

text \<open>A strategy that always asks for a long position with a target of 12, over three days.\<close>

definition sample_step :: "unit strategy_step" where
  "sample_step st bar pos = Inr (Some (default_signal\<lparr>sr_action := ''buy'', sr_direction := ''long'',
     sr_target_price := Fin 12\<rparr>), ())"

definition sample_row :: "int \<Rightarrow> rat \<Rightarrow> BarRow" where
  "sample_row d p = \<lparr>
     row_index = IDatetime \<lparr>dt_year = 2024, dt_month = 1, dt_day = d, dt_hour = 0, dt_minute = 0,
                   dt_second = 0, dt_micro = 0, dt_utcoffset = None\<rparr>,
     row_open = PFloat (Fin p), row_high = PFloat (Fin (p + 1)), row_low = PFloat (Fin (p - 1)),
     row_close = PFloat (Fin p), row_extra = [''sma'' \<mapsto> PFloat (Fin 10)]\<rparr>"

definition sample_rows :: "BarRow list" where
  "sample_rows = [sample_row 1 8, sample_row 2 9, sample_row 3 10]"

definition sample_bars :: "(Book \<times> unit) result" where
  "sample_bars = run_bars default_config sample_step 0 1 (sample_rows @ [sample_row 4 13])
     (initial_book default_config (Fin 10000), ())"

lemma sample_bars_value:
  "case sample_bars of
     Inr (b, _) \<Rightarrow> map td_exit_reason (trades (bk_state b)) = [''take_profit_gap''] \<and>
       map eq_value (equity_curve (bk_state b)) = [Fin 10000, Fin 10000, Fin 10300]
   | Inl _ \<Rightarrow> False"
  by code_simp

definition sample_run :: "(Book \<times> unit) result" where
  "sample_run = run_loop default_config sample_step sample_rows () (Fin 10000) 0 1"

lemma sample_run_value:
  "case sample_run of
     Inr (b, _) \<Rightarrow> map td_exit_reason (trades (bk_state b)) = [''end_of_backtest''] | Inl _ \<Rightarrow> False"
  by code_simp

lemma sample_bars_Inr:
  obtains b where "run_bars default_config sample_step 0 1 (sample_rows @ [sample_row 4 13])
      (initial_book default_config (Fin 10000), ()) = Inr (b, ())"
    "map td_exit_reason (trades (bk_state b)) = [''take_profit_gap'']"
    "map eq_value (equity_curve (bk_state b)) = [Fin 10000, Fin 10000, Fin 10300]"
  using sample_bars_value by (auto simp: sample_bars_def split: sum.splits)

lemma sample_run_Inr:
  obtains b where "run_loop default_config sample_step sample_rows () (Fin 10000) 0 1 = Inr (b, ())"
    "map td_exit_reason (trades (bk_state b)) = [''end_of_backtest'']"
  using sample_run_value by (auto simp: sample_run_def split: sum.splits)

theorem order_book_invariant_witness:
  "\<exists>b. run_bars default_config sample_step 0 1 (sample_rows @ [sample_row 4 13])
         (initial_book default_config (Fin 10000), ()) = Inr (b, ()) \<and>
       map td_exit_reason (trades (bk_state b)) = [''take_profit_gap''] \<and> orders_ok b"
proof (rule sample_bars_Inr)
  fix b
  assume r: "run_bars default_config sample_step 0 1 (sample_rows @ [sample_row 4 13])
      (initial_book default_config (Fin 10000), ()) = Inr (b, ())"
    and t: "map td_exit_reason (trades (bk_state b)) = [''take_profit_gap'']"
  show ?thesis by (intro exI conjI) (rule r, rule t, rule order_book_invariant [OF r])
qed


theorem equity_curve_follows_bars_witness:
  "\<exists>b. run_loop default_config sample_step sample_rows () (Fin 10000) 0 1 = Inr (b, ()) \<and>
       curve_marks (bk_state b) = [(''2024-01-02'', Inr (Fin 9)), (''2024-01-03'', Inr (Fin 10))]"
proof (rule sample_run_Inr)
  fix b
  assume r: "run_loop default_config sample_step sample_rows () (Fin 10000) 0 1 = Inr (b, ())"
  have "map row_point (drop 1 sample_rows) = [(''2024-01-02'', Inr (Fin 9)), (''2024-01-03'', Inr (Fin 10))]"
    by code_simp
  then show ?thesis using equity_curve_follows_bars [OF r] r by simp
qed

theorem drawdown_never_negative_witness:
  "\<exists>b. run_bars default_config sample_step 0 1 (sample_rows @ [sample_row 4 13])
         (initial_book default_config (Fin 10000), ()) = Inr (b, ()) \<and>
       length (equity_curve (bk_state b)) = 3 \<and>
       (\<forall>p \<in> set (equity_curve (bk_state b)).
           (eq_value p = NaN \<or> eq_value p \<le> peak_value (bk_state b)) \<and>
           (eq_drawdown p = NaN \<or> 0 \<le> eq_drawdown p))"
proof (rule sample_bars_Inr)
  fix b
  assume r: "run_bars default_config sample_step 0 1 (sample_rows @ [sample_row 4 13])
      (initial_book default_config (Fin 10000), ()) = Inr (b, ())"
    and t: "map eq_value (equity_curve (bk_state b)) = [Fin 10000, Fin 10000, Fin 10300]"
  from arg_cong [OF t, of length] have "length (equity_curve (bk_state b)) = 3" by simp
  moreover have "Fin 10000 \<noteq> NaN" by simp
  ultimately show ?thesis using drawdown_never_negative [OF r] r by blast
qed

theorem backtest_ends_flat_witness:
  "\<exists>b. run_loop default_config sample_step sample_rows () (Fin 10000) 0 1 = Inr (b, ()) \<and>
       map td_exit_reason (trades (bk_state b)) = [''end_of_backtest''] \<and> \<not> is_open b"
proof (rule sample_run_Inr)
  fix b
  assume r: "run_loop default_config sample_step sample_rows () (Fin 10000) 0 1 = Inr (b, ())"
    and t: "map td_exit_reason (trades (bk_state b)) = [''end_of_backtest'']"
  show ?thesis by (intro exI conjI) (rule r, rule t, rule backtest_ends_flat [OF r])
qed

theorem trade_reasons_known_witness:
  "\<exists>b. run_loop default_config sample_step sample_rows () (Fin 10000) 0 1 = Inr (b, ()) \<and>
       trades (bk_state b) \<noteq> [] \<and>
       (\<forall>t \<in> set (trades (bk_state b)). td_exit_reason t \<in> set exit_reasons)"
proof (rule sample_run_Inr)
  fix b
  assume r: "run_loop default_config sample_step sample_rows () (Fin 10000) 0 1 = Inr (b, ())"
    and t: "map td_exit_reason (trades (bk_state b)) = [''end_of_backtest'']"
  from t have "trades (bk_state b) \<noteq> []" by auto
  then show ?thesis using trade_reasons_known [OF r] r by blast
qed

definition sample_entry_book :: Book where
  "sample_entry_book = set_pending_entry (Some \<lparr>
     pe_direction = ''long'', pe_stop_price = Fin 8, pe_target_price = Fin 12, pe_position_size = 0,
     pe_explicit_size = False, pe_risk_per_trade = flr (1 / 100), pe_signal_close = Fin 9\<rparr>)
     (initial_book default_config (Fin 10000))"

theorem entry_at_next_open_witness:
  "\<exists>b'. live_bar default_config sample_step 0 ''2024-01-03'' (Fin 10) (Fin 11) (Fin 9) (Fin 10) Map.empty
          (sample_entry_book, ()) = Inr (b', ()) \<and>
        is_open b' \<and> p_entry_price (position (bk_state b')) = Fin 10 \<and>
        p_entry_date (position (bk_state b')) = ''2024-01-03''"
proof -
  have "case live_bar default_config sample_step 0 ''2024-01-03'' (Fin 10) (Fin 11) (Fin 9) (Fin 10) Map.empty
          (sample_entry_book, ()) of Inr (b', _) \<Rightarrow> is_open b' | Inl _ \<Rightarrow> False" by code_simp
  then obtain b' where l: "live_bar default_config sample_step 0 ''2024-01-03'' (Fin 10) (Fin 11) (Fin 9)
      (Fin 10) Map.empty (sample_entry_book, ()) = Inr (b', ())" and o: "is_open b'"
    by (auto split: sum.splits)
  have f: "\<not> is_open sample_entry_book"
    by (simp add: sample_entry_book_def set_pending_entry_def initial_book_def new_state_def is_open_def
        new_position_def)
  obtain e where "pending_entry (bk_state sample_entry_book) = Some e"
    "p_entry_price (position (bk_state b')) = apply_slippage (Fin 10) (pe_direction e) ''entry'' (slippage_pct default_config)"
    "p_entry_date (position (bk_state b')) = ''2024-01-03''"
    using entry_at_next_open [OF l f o] by blast
  moreover have "apply_slippage (Fin 10) d ''entry'' (slippage_pct default_config) = Fin 10" for d
    by (simp add: default_config_def)
  ultimately show ?thesis using l o by auto
qed

theorem warmup_never_trades_witness:
  "\<exists>b'. run_bars default_config sample_step 0 3 sample_rows (sample_entry_book, ()) = Inr (b', ()) \<and>
        b' = sample_entry_book"
proof -
  have "\<not> isl (run_bars default_config sample_step 0 3 sample_rows (sample_entry_book, ()))" by code_simp
  then obtain b' where r: "run_bars default_config sample_step 0 3 sample_rows (sample_entry_book, ()) = Inr (b', ())"
    by (auto simp: not_isl)
  have "length sample_rows \<le> 3" by (simp add: sample_rows_def)
  from warmup_never_trades [OF r this] show ?thesis using r by simp
qed

theorem json_backtest_repeatable_witness:
  "\<exists>b s'. run_loop default_config json_step [sample_row 1 9] (on_reset sample_strategy) (Fin 10000) 0 0 = Inr (b, s') \<and>
     run_loop default_config json_step sample_rows (on_reset s') (Fin 5000) 0 0 =
     run_loop default_config json_step sample_rows (on_reset sample_strategy) (Fin 5000) 0 0"
proof -
  have "\<not> isl (run_loop default_config json_step [sample_row 1 9] (on_reset sample_strategy) (Fin 10000) 0 0)"
    by code_simp
  then obtain b s' where
    r: "run_loop default_config json_step [sample_row 1 9] (on_reset sample_strategy) (Fin 10000) 0 0 = Inr (b, s')"
    by (auto simp: not_isl)
  show ?thesis using json_backtest_repeatable [OF r] r by blast
qed

end
