(* ===== verification/DataValidator.thy ===== *)
theory DataValidator
  imports BacktestLoop
begin

text \<open>
  The check of the bar frame before a backtest: \<open>backtest_data_validator.py\<close>.

    - A \<open>BarFrame\<close> has the names of its columns and its rows.  What pandas does is the parameter
      \<open>pandas_ops\<close>: how an index label is printed, whether an index is monotonic, and the numeric
      coercion of a cell (\<open>to_numeric\<close> with \<open>errors="coerce"\<close>, NaN for a cell that is not a number).
    - The checks return the first error as text, \<open>None\<close> when the frame can be executed; a mask over
      the rows is a filter, its first label the label of the first row that satisfies it.
    - \<open>frame_accepted\<close> says in one predicate what an accepted frame is.
\<close>

section \<open>Frames\<close>

record BarFrame =
  fr_columns :: "string list"
  fr_rows :: "BarRow list"

record pandas_ops =
  pd_label :: "index_value \<Rightarrow> string"
  pd_monotonic :: "index_value list \<Rightarrow> bool"
  pd_numeric :: "pyval \<Rightarrow> flt"

record PriceRow =
  pr_index :: index_value
  pr_open :: flt
  pr_high :: flt
  pr_low :: flt
  pr_close :: flt

section \<open>Index\<close>

text \<open>\<open>index[index.duplicated()][0]\<close>: the first label that occurred before.\<close>

fun first_duplicate :: "'a list \<Rightarrow> 'a list \<Rightarrow> 'a option" where
  "first_duplicate seen [] = None"
| "first_duplicate seen (x # xs) = (if x \<in> set seen then Some x else first_duplicate (x # seen) xs)"

definition validate_index :: "pandas_ops \<Rightarrow> index_value list \<Rightarrow> string option" where
  "validate_index pd idx =
     (case first_duplicate [] idx of
        Some d \<Rightarrow> Some (''Duplicate bar timestamp/index: '' @ pd_label pd d)
      | None \<Rightarrow> if pd_monotonic pd idx then None
                else Some ''Backtest bars must be sorted by timestamp/index'')"

section \<open>Prices\<close>

definition numeric_prices :: "pandas_ops \<Rightarrow> BarFrame \<Rightarrow> PriceRow list" where
  "numeric_prices pd f = map (\<lambda>r. \<lparr>pr_index = row_index r,
     pr_open = pd_numeric pd (row_open r), pr_high = pd_numeric pd (row_high r),
     pr_low = pd_numeric pd (row_low r), pr_close = pd_numeric pd (row_close r)\<rparr>) (fr_rows f)"

definition row_prices :: "PriceRow \<Rightarrow> flt list" where
  "row_prices p = [pr_open p, pr_high p, pr_low p, pr_close p]"

text \<open>The error of a mask: the message with the label of the first row it selects.\<close>

definition mask_error ::
  "pandas_ops \<Rightarrow> (PriceRow \<Rightarrow> bool) \<Rightarrow> PriceRow list \<Rightarrow> string \<Rightarrow> string option" where
  "mask_error pd sel prices msg =
     (case find sel prices of None \<Rightarrow> None | Some p \<Rightarrow> Some (msg @ pd_label pd (pr_index p)))"

text \<open>The first error of two checks in order.\<close>

definition or_else :: "'a option \<Rightarrow> 'a option \<Rightarrow> 'a option" where
  "or_else x y = (case x of Some e \<Rightarrow> Some e | None \<Rightarrow> y)"

definition validate_numeric_prices :: "pandas_ops \<Rightarrow> PriceRow list \<Rightarrow> string option" where
  "validate_numeric_prices pd prices =
     or_else (mask_error pd (\<lambda>p. list_ex (\<lambda>x. x = NaN) (row_prices p)) prices
                ''OHLC values must be numeric and non-missing at '')
             (mask_error pd (\<lambda>p. list_ex (\<lambda>x. x \<le> 0) (row_prices p)) prices
                ''OHLC values must be positive at '')"

definition validate_price_consistency :: "pandas_ops \<Rightarrow> PriceRow list \<Rightarrow> string option" where
  "validate_price_consistency pd prices =
     or_else (mask_error pd (\<lambda>p. pr_high p < pr_low p) prices
                ''Invalid OHLC bar: high is below low at '')
    (or_else (mask_error pd (\<lambda>p. pr_high p < pr_open p \<or> pr_high p < pr_close p) prices
                ''Invalid OHLC bar: high is below open/close at '')
             (mask_error pd (\<lambda>p. pr_open p < pr_low p \<or> pr_close p < pr_low p) prices
                ''Invalid OHLC bar: low is above open/close at ''))"

definition validate_backtest_frame :: "pandas_ops \<Rightarrow> BarFrame \<Rightarrow> string option" where
  "validate_backtest_frame pd f =
     (let missing_columns = filter (\<lambda>c. c \<notin> set (fr_columns f)) price_columns
      in if missing_columns \<noteq> []
         then Some (''Missing required OHLC columns: '' @ intercalate '', '' missing_columns)
         else or_else (validate_index pd (map row_index (fr_rows f)))
             (or_else (validate_numeric_prices pd (numeric_prices pd f))
                      (validate_price_consistency pd (numeric_prices pd f))))"

section \<open>What is accepted\<close>

lemma or_else_None [simp]: "or_else x y = None \<longleftrightarrow> x = None \<and> y = None"
  by (cases x) (auto simp: or_else_def)

lemma mask_error_None [simp]: "mask_error pd m ps msg = None \<longleftrightarrow> (\<forall>p\<in>set ps. \<not> m p)"
  using find_None_iff [of m ps] by (cases "find m ps") (auto simp: mask_error_def)

lemma first_duplicate_None: "first_duplicate seen xs = None \<longleftrightarrow> distinct xs \<and> set xs \<inter> set seen = {}"
  by (induction xs arbitrary: seen) auto

lemma validate_index_None:
  "validate_index pd idx = None \<longleftrightarrow> distinct idx \<and> pd_monotonic pd idx"
  by (simp add: validate_index_def first_duplicate_None split: option.split)
    (metis first_duplicate_None inf_bot_right list.set(1) option.distinct(1))

text \<open>An executable bar: four numbers, all positive, low and high enclosing open and close.\<close>

definition price_row_ok :: "PriceRow \<Rightarrow> bool" where
  "price_row_ok p \<longleftrightarrow> 0 < pr_low p \<and>
     pr_low p \<le> pr_open p \<and> pr_low p \<le> pr_close p \<and> pr_open p \<le> pr_high p \<and> pr_close p \<le> pr_high p"

lemma flt_cases_le: "x \<noteq> NaN \<Longrightarrow> y \<noteq> NaN \<Longrightarrow> \<not> x < y \<longleftrightarrow> y \<le> x" for x y :: flt
  by (cases x; cases y) auto

lemma price_row_ok_masks:
  "price_row_ok p \<longleftrightarrow>
     \<not> list_ex (\<lambda>x. x = NaN) (row_prices p) \<and> \<not> list_ex (\<lambda>x. x \<le> 0) (row_prices p) \<and>
     \<not> pr_high p < pr_low p \<and> \<not> (pr_high p < pr_open p \<or> pr_high p < pr_close p) \<and>
     \<not> (pr_open p < pr_low p \<or> pr_close p < pr_low p)"
  unfolding price_row_ok_def row_prices_def zero_flt_def
  by (cases "pr_open p"; cases "pr_high p"; cases "pr_low p"; cases "pr_close p") auto

definition frame_accepted :: "pandas_ops \<Rightarrow> BarFrame \<Rightarrow> bool" where
  "frame_accepted pd f \<longleftrightarrow>
     set price_columns \<subseteq> set (fr_columns f) \<and>
     distinct (map row_index (fr_rows f)) \<and> pd_monotonic pd (map row_index (fr_rows f)) \<and>
     list_all price_row_ok (numeric_prices pd f)"

lemma frame_accepted_iff:
  "validate_backtest_frame pd f = None \<longleftrightarrow> frame_accepted pd f"
proof -
  have m: "filter (\<lambda>c. c \<notin> set (fr_columns f)) price_columns = [] \<longleftrightarrow> set price_columns \<subseteq> set (fr_columns f)"
    by (auto simp: filter_empty_conv)
  have p: "validate_numeric_prices pd ps = None \<and> validate_price_consistency pd ps = None \<longleftrightarrow>
           list_all price_row_ok ps" for ps
    unfolding validate_numeric_prices_def validate_price_consistency_def or_else_None mask_error_None
      list_all_iff price_row_ok_masks
    by blast
  show ?thesis
    unfolding validate_backtest_frame_def frame_accepted_def Let_def p [symmetric] m [symmetric]
    by (simp add: validate_index_None)
qed

text \<open>
  The validator accepts exactly the executable frames: no error is returned if and only if the four
  price columns are there, the index has no duplicate and is sorted, and every bar has four positive
  prices with low and high enclosing open and close.
\<close>

theorem validator_accepts_executable_frames:
  "validate_backtest_frame pd f = None \<longleftrightarrow> frame_accepted pd f"
  by (rule frame_accepted_iff)

end
