(* ===== verification/Metrics.thy ===== *)
theory Metrics
  imports PyVal Prelude
begin

text \<open>
  Performance metrics: \<open>simulation/metrics/backtest_metrics.py\<close> and \<open>annualization.py\<close> (finbar's
  \<open>core/domain/services\<close> holds a second copy of both).

    - \<open>py_sum\<close> is Python's \<open>sum\<close> of floats, which since 3.12 carries a compensation term;
      \<open>py_sqrt\<close> is \<open>math.sqrt\<close>, the correctly rounded root; \<open>int_div\<close> the true division of two
      integers.
    - \<open>x ** y\<close> on floats is the C library's \<open>pow\<close>, which is not correctly rounded: it is the
      argument \<open>fpow\<close> of the definitions that use it.
    - The lemmas show which metrics can never raise and the range of the drawdown.
\<close>

section \<open>Numeric builtins\<close>

fun is_infinite :: "flt \<Rightarrow> bool" where
  "is_infinite PosInf = True"
| "is_infinite NegInf = True"
| "is_infinite _ = False"

definition sum_step :: "flt \<Rightarrow> flt \<times> flt \<Rightarrow> flt \<times> flt" where
  "sum_step x fc =
     (case fc of (f, c) \<Rightarrow>
        let t = f + x
        in (t, c + (if \<bar>x\<bar> \<le> \<bar>f\<bar> then (f - t) + x else (x - t) + f)))"

definition py_sum :: "flt list \<Rightarrow> flt" where
  "py_sum xs =
     (case fold sum_step xs (0, 0) of (f, c) \<Rightarrow>
        if \<not> feq c 0 \<and> is_finite c then f + c else f)"

text \<open>The integer square root, two bits at a time.\<close>

function isqrt :: "int \<Rightarrow> int" where
  "isqrt n = (if n \<le> 0 then 0
              else (let r = 2 * isqrt (n div 4) in if (r + 1) * (r + 1) \<le> n then r + 1 else r))"
  by auto
termination by (relation "measure nat") auto

declare isqrt.simps [simp del]

text \<open>
  \<open>sqrt\<close> of a positive rational: at least 60 bits of the root, and a last bit that records whether
  the root was exact, so that the final rounding is the rounding of the real root.
\<close>

definition sqrt_rat :: "rat \<Rightarrow> rat" where
  "sqrt_rat q =
     (let k = max 0 (64 - ilog2 q div 2); s = q * 4 ^ nat k; n = \<lfloor>s\<rfloor>; r = isqrt n
      in (of_int (2 * r + (if of_int (r * r) = s then 0 else 1))) / 2 ^ (nat k + 1))"

fun py_sqrt :: "flt \<Rightarrow> flt result" where
  "py_sqrt (Fin q) = (if q < 0 then raise (ValueError ''math domain error'')
                      else if q = 0 then Inr 0 else Inr (flr (sqrt_rat q)))"
| "py_sqrt PosInf = Inr PosInf"
| "py_sqrt NegInf = raise (ValueError ''math domain error'')"
| "py_sqrt NaN = Inr NaN"

definition int_div :: "int \<Rightarrow> int \<Rightarrow> flt result" where
  "int_div a b = (if b = 0 then raise ZeroDivisionError
                  else (case flr (of_int a / of_int b) of Fin q \<Rightarrow> Inr (Fin q) | _ \<Rightarrow> Inl OverflowError))"

text \<open>Division of a float by a length.\<close>

definition div_len :: "flt \<Rightarrow> int \<Rightarrow> flt result" where
  "div_len x n = ebind (float_of_int n) (fdiv x)"

type_synonym pow_fun = "flt \<Rightarrow> flt \<Rightarrow> flt result"

section \<open>Backtest metrics\<close>

definition TRADING_DAYS_PER_YEAR :: flt where
  "TRADING_DAYS_PER_YEAR = Fin 252"

definition std_epsilon :: flt where
  "std_epsilon = flr (1 / 10 ^ 12)"

definition sqrt_if_positive :: "flt \<Rightarrow> flt result" where
  "sqrt_if_positive v = (if 0 < v then py_sqrt v else Inr 0)"

definition calculate_sharpe :: "pow_fun \<Rightarrow> flt list \<Rightarrow> flt \<Rightarrow> flt \<Rightarrow> flt result" where
  "calculate_sharpe fpow daily_returns risk_free_rate annualization =
     (let n = int (length daily_returns)
      in if n < 2 then Inr 0
         else
           ebind (fdiv risk_free_rate annualization) (\<lambda>periodic.
           ebind (div_len (py_sum daily_returns) n) (\<lambda>mean_all.
           let mean_ret = mean_all - periodic in
           ebind (emap (\<lambda>r. fpow (r - mean_all) (Fin 2)) daily_returns) (\<lambda>squares.
           ebind (div_len (py_sum squares) (n - 1)) (\<lambda>variance.
           ebind (sqrt_if_positive variance) (\<lambda>std_ret.
             if std_ret < std_epsilon then Inr 0
             else ebind (fdiv mean_ret std_ret) (\<lambda>q.
                  ebind (py_sqrt annualization) (\<lambda>a. Inr (q * a)))))))))"

definition calculate_sortino :: "pow_fun \<Rightarrow> flt list \<Rightarrow> flt \<Rightarrow> flt \<Rightarrow> flt result" where
  "calculate_sortino fpow daily_returns risk_free_rate annualization =
     (let n = int (length daily_returns)
      in if n < 2 then Inr 0
         else
           ebind (fdiv risk_free_rate annualization) (\<lambda>periodic.
           ebind (div_len (py_sum daily_returns) n) (\<lambda>mean_all.
           let mean_ret = mean_all - periodic;
               downside = map (\<lambda>r. r - periodic) (filter (\<lambda>r. r < periodic) daily_returns)
           in if downside = [] then Inr 0
              else
                ebind (emap (\<lambda>r. fpow r (Fin 2)) downside) (\<lambda>squares.
                ebind (div_len (py_sum squares) (n - 1)) (\<lambda>downside_var.
                ebind (sqrt_if_positive downside_var) (\<lambda>downside_std.
                  if feq downside_std 0 then Inr 0
                  else ebind (fdiv mean_ret downside_std) (\<lambda>q.
                       ebind (py_sqrt annualization) (\<lambda>a. Inr (q * a)))))))))"

text \<open>One iteration over the curve: the running peak and the largest drawdown.\<close>

definition drawdown_step :: "flt \<Rightarrow> flt \<times> flt \<Rightarrow> (flt \<times> flt) result" where
  "drawdown_step v pm =
     (case pm of (peak, max_dd) \<Rightarrow>
        let peak' = (if peak < v then v else peak)
        in ebind (if 0 < peak' then fdiv (peak' - v) peak' else Inr 0) (\<lambda>dd.
             Inr (peak', if max_dd < dd then dd else max_dd)))"

definition calculate_max_drawdown :: "flt list \<Rightarrow> flt result" where
  "calculate_max_drawdown equity_values =
     (if length equity_values < 2 then Inr 0
      else ebind (efold drawdown_step equity_values (hd equity_values, 0)) (\<lambda>pm. Inr (snd pm)))"

definition calculate_profit_factor :: "flt \<Rightarrow> flt \<Rightarrow> flt result" where
  "calculate_profit_factor gross_profit gross_loss =
     (if gross_loss \<le> 0 then Inr (if 0 < gross_profit then PosInf else 0)
      else fdiv gross_profit gross_loss)"

definition calculate_calmar_ratio :: "flt \<Rightarrow> flt \<Rightarrow> flt result" where
  "calculate_calmar_ratio annualised_return max_drawdown =
     (if max_drawdown \<le> 0 then Inr 0 else fdiv annualised_return max_drawdown)"

definition calculate_win_rate :: "int \<Rightarrow> int \<Rightarrow> flt result" where
  "calculate_win_rate winning total_n = (if total_n \<le> 0 then Inr 0 else int_div winning total_n)"

definition calculate_total_return :: "flt \<Rightarrow> flt \<Rightarrow> flt result" where
  "calculate_total_return initial final =
     (if initial \<le> 0 then Inr 0 else fdiv (final - initial) initial)"

definition calculate_annualised_return :: "pow_fun \<Rightarrow> flt \<Rightarrow> int \<Rightarrow> flt \<Rightarrow> flt result" where
  "calculate_annualised_return fpow total_return trading_days annualization =
     (if trading_days \<le> 0 \<or> annualization \<le> 0 then Inr 0
      else ebind (float_of_int trading_days) (\<lambda>d.
           ebind (fdiv d annualization) (\<lambda>years.
             if years \<le> 0 then Inr 0
             else (let base = 1 + total_return
                   in if base \<le> 0 then Inr (- 1)
                      else ebind (fdiv 1 years) (\<lambda>e. ebind (fpow base e) (\<lambda>p. Inr (p - 1)))))))"

fun returns_from :: "flt \<Rightarrow> flt list \<Rightarrow> flt list result" where
  "returns_from prev [] = Inr []"
| "returns_from prev (v # vs) =
     ebind (if 0 < prev then fdiv (v - prev) prev else Inr 0) (\<lambda>r.
     ebind (returns_from v vs) (\<lambda>rs. Inr (r # rs)))"

definition calculate_daily_returns :: "flt list \<Rightarrow> flt list result" where
  "calculate_daily_returns equity_values =
     (case equity_values of [] \<Rightarrow> Inr [] | v # vs \<Rightarrow> returns_from v vs)"

section \<open>Annualization\<close>

definition equity_regular_hours_factors :: "(string \<times> flt) list" where
  "equity_regular_hours_factors = [
     (''1d'', Fin 252), (''1w'', Fin 52), (''1h'', Fin 252 * Fin (13/2)), (''1m'', Fin 252 * Fin 390),
     (''1min'', Fin 252 * Fin 390), (''5m'', Fin 252 * Fin 78), (''5min'', Fin 252 * Fin 78),
     (''15m'', Fin 252 * Fin 26), (''15min'', Fin 252 * Fin 26), (''30m'', Fin 252 * Fin 13),
     (''30min'', Fin 252 * Fin 13), (''4h'', Fin 252 * Fin (13/8))]"

text \<open>\<open>365.0 / 7.0\<close> is a constant, so the entry is written as its value.\<close>

definition crypto_24_7_factors :: "(string \<times> flt) list" where
  "crypto_24_7_factors = [
     (''1d'', Fin 365), (''1w'', flr (365 / 7)), (''1h'', Fin 365 * Fin 24),
     (''1m'', Fin 365 * Fin 24 * Fin 60), (''1min'', Fin 365 * Fin 24 * Fin 60),
     (''5m'', Fin 365 * Fin 24 * Fin 12), (''5min'', Fin 365 * Fin 24 * Fin 12),
     (''15m'', Fin 365 * Fin 24 * Fin 4), (''15min'', Fin 365 * Fin 24 * Fin 4),
     (''30m'', Fin 365 * Fin 24 * Fin 2), (''30min'', Fin 365 * Fin 24 * Fin 2),
     (''4h'', Fin 365 * Fin 6)]"

definition calendar_factors :: "string \<Rightarrow> (string \<times> flt) list" where
  "calendar_factors market_calendar =
     (if market_calendar = ''crypto_24_7'' then crypto_24_7_factors else equity_regular_hours_factors)"

definition msg_no_interval :: string where
  "msg_no_interval = ''No interval supplied; annualized metrics use 1d bars.''"

definition msg_unknown_interval :: "string \<Rightarrow> string" where
  "msg_unknown_interval calendar =
     ''Unknown interval; annualized metrics use 1d '' @ calendar @ '' calendar assumption.''"

definition annualization_factor :: "string \<Rightarrow> string \<Rightarrow> flt \<times> string" where
  "annualization_factor interval market_calendar =
     (let normalized = str_strip (py_lower interval);
          calendar = str_strip (py_lower
            (if market_calendar = [] then ''equity_regular_hours'' else market_calendar));
          factors = calendar_factors calendar;
          daily = get_or (map_of factors) ''1d'' 0
      in case map_of factors normalized of
           Some x \<Rightarrow> (x, '''')
         | None \<Rightarrow> if normalized = [] then (daily, msg_no_interval)
                   else (daily, msg_unknown_interval calendar))"

section \<open>Which metrics can raise\<close>

lemma positive_of_not_le: "\<not> x \<le> 0 \<Longrightarrow> x = NaN \<or> 0 < x" for x :: flt
  by (cases x) (auto simp: zero_flt_def)

lemma fdiv_not_zero_total: "\<not> y \<le> 0 \<Longrightarrow> \<exists>z. fdiv x y = Inr z"
  using positive_of_not_le [of y] fdiv_pos_total [of y x] by (cases x) auto

lemma guarded_div_total: "\<not> isl (if 0 < p then fdiv x p else Inr y)"
  using fdiv_pos_total [of p x] by (auto simp: not_isl)

lemma drawdown_step_total: "\<not> isl (drawdown_step v pm)"
proof -
  obtain peak m where pm: "pm = (peak, m)" by (cases pm)
  define p' where "p' = (if peak < v then v else peak)"
  obtain dd where "(if 0 < p' then fdiv (p' - v) p' else Inr 0) = Inr dd"
    using guarded_div_total [of p' "p' - v" 0] by (auto simp: not_isl)
  then have "drawdown_step v pm = Inr (p', if m < dd then dd else m)"
    unfolding drawdown_step_def pm prod.case Let_def p'_def [symmetric] by simp
  then show ?thesis by simp
qed

lemma calculate_max_drawdown_total: "\<not> isl (calculate_max_drawdown vs)"
proof -
  obtain pm where "efold drawdown_step vs (hd vs, 0) = Inr pm"
    using efold_total [of drawdown_step vs "(hd vs, 0)", OF drawdown_step_total] by (auto simp: not_isl)
  then show ?thesis by (simp add: calculate_max_drawdown_def)
qed

lemma returns_from_total: "\<exists>rs. returns_from p vs = Inr rs \<and> length rs = length vs"
proof (induction vs arbitrary: p)
  case (Cons v vs)
  obtain rs where "returns_from v vs = Inr rs" "length rs = length vs" using Cons by blast
  moreover have "\<exists>r. (if 0 < p then fdiv (v - p) p else Inr 0) = Inr r"
    using fdiv_pos_total [of p] by auto
  ultimately show ?case by (auto simp: ebind_eq_Inr)
qed simp

section \<open>The range of the drawdown\<close>

text \<open>The loop never leaves these bounds while every value is a finite non-negative float.\<close>

definition value_ok :: "flt \<Rightarrow> bool" where
  "value_ok v \<longleftrightarrow> is_f64 v \<and> is_finite v \<and> 0 \<le> v"

definition drawdown_inv :: "flt \<times> flt \<Rightarrow> bool" where
  "drawdown_inv pm \<longleftrightarrow> value_ok (fst pm) \<and> 0 \<le> snd pm \<and> snd pm \<le> 1"

lemma is_finite_Fin: "is_finite v \<longleftrightarrow> (\<exists>q. v = Fin q)"
  by (cases v) auto

lemma drawdown_unit:
  assumes "value_ok v" "value_ok p" "v \<le> p" "0 < p" "fdiv (p - v) p = Inr dd"
  shows "0 \<le> dd \<and> dd \<le> 1"
proof -
  obtain a b where v: "v = Fin a" and p: "p = Fin b"
    using assms(1,2) by (auto simp: value_ok_def is_finite_Fin)
  have ab: "0 \<le> a" "a \<le> b" "0 < b" "flr b = Fin b"
    using assms by (auto simp: v p value_ok_def zero_flt_def)
  have le: "flr (b - a) \<le> Fin b" using flr_mono [of "b - a" b] ab by simp
  have ge: "Fin 0 \<le> flr (b - a)" using flr_mono [of 0 "b - a"] ab by simp
  obtain c where c: "flr (b - a) = Fin c" "0 \<le> c" "c \<le> b"
    using le ge by (cases "flr (b - a)") auto
  have dd: "dd = flr (c / b)" using assms(5) ab c by (simp add: v p minus_flt_def)
  have "0 \<le> c / b" "c / b \<le> 1" using c ab by simp_all
  then have "flr 0 \<le> dd \<and> dd \<le> flr 1" unfolding dd by (intro conjI flr_mono)
  then show ?thesis by (simp add: zero_flt_def one_flt_def)
qed

lemma value_ok_le: "value_ok p \<Longrightarrow> value_ok v \<Longrightarrow> \<not> p < v \<Longrightarrow> v \<le> p"
  by (auto simp: value_ok_def is_finite_Fin)

lemma drawdown_step_inv:
  assumes "drawdown_step v pm = Inr pm'" "value_ok v" "drawdown_inv pm"
  shows "drawdown_inv pm'"
proof -
  obtain p m where pm: "pm = (p, m)" by (cases pm)
  define p' where "p' = (if p < v then v else p)"
  have ok: "value_ok p'" "v \<le> p'"
    using assms(2,3) value_ok_le [of p v] pm
    by (auto simp: p'_def drawdown_inv_def value_ok_def is_finite_Fin)
  obtain dd where d: "(if 0 < p' then fdiv (p' - v) p' else Inr 0) = Inr dd"
    and r: "pm' = (p', if m < dd then dd else m)"
    using assms(1) unfolding drawdown_step_def pm prod.case Let_def p'_def [symmetric] by auto
  have "0 \<le> dd \<and> dd \<le> 1"
  proof (cases "0 < p'")
    case True
    then show ?thesis using drawdown_unit [OF assms(2) ok True] d by simp
  next
    case False
    then show ?thesis using d by (auto simp: zero_flt_def one_flt_def)
  qed
  then show ?thesis using r ok(1) assms(3) pm by (auto simp: drawdown_inv_def)
qed

text \<open>
  The maximum drawdown of a curve of non-negative values always exists and is a fraction
  between 0 and 1; the metric never divides by zero.
\<close>

theorem max_drawdown_fraction:
  assumes "list_all value_ok vs"
  shows "\<exists>d. calculate_max_drawdown vs = Inr d \<and> 0 \<le> d \<and> d \<le> 1"
proof (cases "length vs < 2")
  case True
  then show ?thesis by (simp add: calculate_max_drawdown_def zero_flt_def one_flt_def)
next
  case False
  then obtain v ws where vs: "vs = v # ws" by (cases vs) auto
  obtain pm where pm: "efold drawdown_step vs (v, 0) = Inr pm"
    using efold_total [of drawdown_step vs "(v, 0)", OF drawdown_step_total] by (auto simp: not_isl)
  have "drawdown_inv (v, 0)"
    using assms vs by (simp add: drawdown_inv_def zero_flt_def one_flt_def)
  moreover have "drawdown_inv b" if "x \<in> set vs" "drawdown_step x a = Inr b" "drawdown_inv a" for x a b
    using that assms drawdown_step_inv by (auto simp: list_all_iff)
  ultimately have "drawdown_inv pm" using efold_invariant [OF _ pm] by blast
  moreover have "calculate_max_drawdown vs = Inr (snd pm)"
    using pm False by (simp add: calculate_max_drawdown_def vs [THEN arg_cong, of hd, simplified])
  ultimately show ?thesis by (simp add: drawdown_inv_def)
qed

theorem max_drawdown_fraction_witness:
  "calculate_max_drawdown [Fin 100, Fin 80, Fin 120, Fin 90] = Inr (Fin (1 / 4)) \<and>
   (\<exists>d. calculate_max_drawdown [Fin 100, Fin 80, Fin 120, Fin 90] = Inr d \<and> 0 \<le> d \<and> d \<le> 1)"
proof
  show "calculate_max_drawdown [Fin 100, Fin 80, Fin 120, Fin 90] = Inr (Fin (1 / 4))" by code_simp
  have "list_all value_ok [Fin 100, Fin 80, Fin 120, Fin 90]" by code_simp
  then show "\<exists>d. calculate_max_drawdown [Fin 100, Fin 80, Fin 120, Fin 90] = Inr d \<and> 0 \<le> d \<and> d \<le> 1"
    by (rule max_drawdown_fraction)
qed

end
