(* ===== verification/RollingMetrics.thy ===== *)
theory RollingMetrics
  imports Metrics SimState
begin

text \<open>
  Bar-level analytics: \<open>simulation/metrics/rolling_metrics.py\<close> (finbar's \<open>core/domain/services\<close>
  holds a second copy).

    - One definition per function; a list that the code fills by index is updated by index here, a
      dict that is iterated in order is an association list.
    - The rolling win rate is computed with prefix sums; \<open>window_rate\<close> is the direct count over the
      trades of the window, and the two agree.
    - Windows are positive naturals.  \<open>sorted\<close> of floats is modelled by stable insertion, which is
      what it computes when no value is a NaN.
\<close>

section \<open>Rolling Sharpe\<close>

fun raw_returns_from :: "flt \<Rightarrow> flt list \<Rightarrow> flt list result" where
  "raw_returns_from prev [] = Inr []"
| "raw_returns_from prev (v # vs) =
     ebind (if feq prev 0 then Inr 0 else fdiv (v - prev) prev) (\<lambda>r.
     ebind (raw_returns_from v vs) (\<lambda>rs. Inr (r # rs)))"

definition raw_daily_returns :: "flt list \<Rightarrow> flt list result" where
  "raw_daily_returns vs = (case vs of [] \<Rightarrow> Inr [] | v # ws \<Rightarrow> raw_returns_from v ws)"

definition half :: flt where
  "half = Fin (1 / 2)"

definition window_mean_var :: "nat \<Rightarrow> flt \<Rightarrow> flt \<Rightarrow> (flt \<times> flt) result" where
  "window_mean_var window win_sum win_sq_sum =
     ebind (div_len win_sum (int window)) (\<lambda>mean.
     ebind (div_len (win_sq_sum - mean * win_sum) (int window - 1)) (\<lambda>var. Inr (mean, var)))"

definition sharpe_entry :: "pow_fun \<Rightarrow> flt \<Rightarrow> flt \<Rightarrow> flt \<Rightarrow> flt result" where
  "sharpe_entry fpow ann mean var =
     ebind (fpow var half) (\<lambda>std. ebind (fdiv mean std) (\<lambda>q. Inr (py_round 4 (q * ann))))"

text \<open>One step of the sliding loop: index, running sums and the result so far.\<close>

definition sharpe_step ::
  "pow_fun \<Rightarrow> nat \<Rightarrow> flt \<Rightarrow> flt list \<Rightarrow> nat \<Rightarrow> flt \<times> flt \<times> flt option list \<Rightarrow>
   (flt \<times> flt \<times> flt option list) result" where
  "sharpe_step fpow window ann returns i st =
     (case st of (win_sum, win_sq_sum, res) \<Rightarrow>
        let outgoing = returns ! (i - window); incoming = returns ! i;
            s = win_sum + (incoming - outgoing);
            q = win_sq_sum + (incoming * incoming - outgoing * outgoing)
        in ebind (window_mean_var window s q) (\<lambda>(mean, var).
             if var \<le> 0 then Inr (s, q, res[i + 1 := Some 0])
             else ebind (sharpe_entry fpow ann mean var) (\<lambda>x. Inr (s, q, res[i + 1 := Some x]))))"

definition calculate_rolling_sharpe :: "pow_fun \<Rightarrow> flt list \<Rightarrow> nat \<Rightarrow> flt \<Rightarrow> flt option list result" where
  "calculate_rolling_sharpe fpow equity_values window periods_per_year =
     (let n = length equity_values; blank = replicate n None
      in if n < 2 then Inr blank
         else ebind (raw_daily_returns equity_values) (\<lambda>returns.
           if length returns < window then Inr blank
           else (let seed = take window returns; win_sum = py_sum seed;
                     win_sq_sum = py_sum (map (\<lambda>r. r * r) seed)
                 in ebind (window_mean_var window win_sum win_sq_sum) (\<lambda>(mean, var).
                    ebind (if 0 < var
                           then ebind (fpow var half) (\<lambda>std. ebind (fdiv mean std) (\<lambda>q.
                                ebind (fpow periods_per_year half) (\<lambda>a. Inr (py_round 4 (q * a)))))
                           else Inr 0) (\<lambda>first.
                    ebind (fpow periods_per_year half) (\<lambda>ann.
                    ebind (efold (sharpe_step fpow window ann returns) [window..<length returns]
                             (win_sum, win_sq_sum, blank[window := Some first]))
                      (\<lambda>(_, _, res). Inr res)))))))"

section \<open>Rolling win rate\<close>

definition date_index :: "string list \<Rightarrow> string \<rightharpoonup> nat" where
  "date_index ds = fold (\<lambda>(i, d) m. if m d = None then m(d \<mapsto> i) else m) (enumerate 0 ds) Map.empty"

definition count_trade ::
  "(string \<rightharpoonup> nat) \<Rightarrow> TradeDict \<Rightarrow> nat list \<times> nat list \<Rightarrow> nat list \<times> nat list" where
  "count_trade idx t wt =
     (case wt of (wins_at, total_at) \<Rightarrow>
        case idx (td_exit_date t) of
          None \<Rightarrow> (wins_at, total_at)
        | Some i \<Rightarrow>
            (if 0 < td_pnl t then wins_at[i := wins_at ! i + 1] else wins_at,
             total_at[i := total_at ! i + 1]))"

fun prefix_sums :: "nat \<Rightarrow> nat list \<Rightarrow> nat list" where
  "prefix_sums acc [] = [acc]"
| "prefix_sums acc (x # xs) = acc # prefix_sums (acc + x) xs"

definition win_rate_entry :: "nat list \<Rightarrow> nat list \<Rightarrow> nat \<Rightarrow> nat \<Rightarrow> flt option result" where
  "win_rate_entry prefix_wins prefix_total window i =
     (if i + 1 < window then Inr None
      else (let window_start = i + 1 - window;
                w = int (prefix_wins ! (i + 1)) - int (prefix_wins ! window_start);
                t = int (prefix_total ! (i + 1)) - int (prefix_total ! window_start)
            in if 0 < t then ebind (int_div w t) (\<lambda>x. Inr (Some (py_round 4 x))) else Inr None))"

definition calculate_rolling_win_rate ::
  "TradeDict list \<Rightarrow> EquityPoint list \<Rightarrow> nat \<Rightarrow> flt option list result" where
  "calculate_rolling_win_rate trade_list curve window =
     (let n = length curve; blank = replicate n None
      in if trade_list = [] \<or> n < 2 then Inr blank
         else (let idx = date_index (map eq_date curve);
                   (wins_at, total_at) = fold (count_trade idx) trade_list (replicate n 0, replicate n 0)
               in if list_all (\<lambda>k. k = 0) total_at then Inr blank
                  else emap (win_rate_entry (prefix_sums 0 wins_at) (prefix_sums 0 total_at) window)
                         [0..<n]))"

section \<open>Rolling drawdown and PnL\<close>

fun drawdowns_from :: "flt \<Rightarrow> flt list \<Rightarrow> flt list result" where
  "drawdowns_from peak [] = Inr []"
| "drawdowns_from peak (v # vs) =
     (let p = py_max peak v
      in ebind (if 0 < p then fdiv (v - p) p else Inr 0) (\<lambda>dd.
         ebind (drawdowns_from p vs) (\<lambda>dds. Inr (py_round 4 dd # dds))))"

definition calculate_rolling_drawdown :: "flt list \<Rightarrow> flt list result" where
  "calculate_rolling_drawdown equity_values =
     (if equity_values = [] then Inr [] else drawdowns_from (hd equity_values) equity_values)"

fun pnls_from :: "flt \<Rightarrow> flt list \<Rightarrow> flt option list result" where
  "pnls_from prev [] = Inr []"
| "pnls_from prev (v # vs) =
     ebind (if feq prev 0 then Inr 0
            else ebind (fdiv (v - prev) prev) (\<lambda>r. Inr (py_round 2 (r * prev)))) (\<lambda>x.
     ebind (pnls_from v vs) (\<lambda>xs. Inr (Some x # xs)))"

definition calculate_rolling_pnl :: "flt list \<Rightarrow> flt option list result" where
  "calculate_rolling_pnl equity_values =
     (case equity_values of
        [] \<Rightarrow> Inr []
      | v # vs \<Rightarrow> ebind (pnls_from v vs) (\<lambda>xs. Inr (None # xs)))"

section \<open>Calendar returns\<close>

text \<open>Appending to the list of a key of a dict, in insertion order.\<close>

fun push_key :: "'k \<Rightarrow> 'v \<Rightarrow> ('k \<times> 'v list) list \<Rightarrow> ('k \<times> 'v list) list" where
  "push_key k v [] = [(k, [v])]"
| "push_key k v ((k', vs) # m) = (if k' = k then (k', vs @ [v]) # m else (k', vs) # push_key k v m)"

definition month_groups :: "EquityPoint list \<Rightarrow> (string \<times> flt list) list" where
  "month_groups curve =
     fold (\<lambda>e m. if 7 \<le> length (eq_date e) then push_key (take 7 (eq_date e)) (eq_value e) m else m)
       curve []"

definition month_step ::
  "(string \<times> flt list) list \<Rightarrow> string \<Rightarrow> (string \<times> flt) list \<times> flt option \<Rightarrow>
   ((string \<times> flt) list \<times> flt option) result" where
  "month_step months k st =
     (case st of (res, previous_close) \<Rightarrow>
        case map_of months k of
          None \<Rightarrow> Inr st
        | Some values \<Rightarrow>
            (if values = [] then Inr st
             else (let month_end = last values;
                       month_start = (case previous_close of Some p \<Rightarrow> p | None \<Rightarrow> hd values)
                   in if 0 < month_start
                      then ebind (fdiv (month_end - month_start) month_start) (\<lambda>r.
                             Inr (res @ [(k, py_round 4 r)], Some month_end))
                      else Inr (res, Some month_end))))"

definition calculate_monthly_returns :: "EquityPoint list \<Rightarrow> (string \<times> flt) list result" where
  "calculate_monthly_returns curve =
     (if curve = [] then Inr []
      else (let months = month_groups curve
            in ebind (efold (month_step months) (sort_strings (map fst months)) ([], None))
                 (\<lambda>(res, _). Inr res)))"

definition year_groups :: "(string \<times> flt) list \<Rightarrow> (string \<times> flt list) list" where
  "year_groups monthly = fold (\<lambda>(k, r) m. push_key (take 4 k) r m) monthly []"

definition calculate_yearly_returns :: "EquityPoint list \<Rightarrow> (string \<times> flt) list result" where
  "calculate_yearly_returns curve =
     ebind (calculate_monthly_returns curve) (\<lambda>monthly.
       let years = year_groups monthly
       in Inr (map (\<lambda>y. (y, py_round 4
                 (fold (\<lambda>r compound. compound * (1 + r)) (get_or (map_of years) y []) 1 - 1)))
                (sort_strings (map fst years))))"

section \<open>Exposure\<close>

definition exposure_entry :: "EquityPoint \<Rightarrow> flt result" where
  "exposure_entry e =
     (let position_size = \<bar>eq_position e\<bar>;
          value = (if feq (eq_value e) 0 then 1 else eq_value e)
      in if 0 < value
         then (let deployed = (if feq (eq_close e) 0 then 0 else position_size * eq_close e)
               in ebind (fdiv deployed value) (\<lambda>x. Inr (py_round 4 (py_min x 1))))
         else Inr 0)"

definition calculate_exposure :: "EquityPoint list \<Rightarrow> flt list result" where
  "calculate_exposure curve = emap exposure_entry curve"

section \<open>Distributions\<close>

definition list_min :: "flt \<Rightarrow> flt list \<Rightarrow> flt" where
  "list_min x xs = fold (\<lambda>y m. if y < m then y else m) xs x"

definition list_max :: "flt \<Rightarrow> flt list \<Rightarrow> flt" where
  "list_max x xs = fold (\<lambda>y m. if m < y then y else m) xs x"

text \<open>\<open>int(x)\<close> truncates towards zero.\<close>

fun py_trunc :: "flt \<Rightarrow> int result" where
  "py_trunc (Fin q) = Inr (if 0 \<le> q then \<lfloor>q\<rfloor> else - \<lfloor>- q\<rfloor>)"
| "py_trunc NaN = raise (ValueError ''cannot convert float NaN to integer'')"
| "py_trunc _ = raise OverflowError"

text \<open>\<open>counts[i] += 1\<close> with Python's negative indices.\<close>

definition bump :: "int \<Rightarrow> nat list \<Rightarrow> nat list result" where
  "bump i counts =
     (let n = int (length counts); j = (if i < 0 then i + n else i)
      in if 0 \<le> j \<and> j < n then Inr (counts[nat j := counts ! nat j + 1]) else raise IndexError)"

definition count_value :: "flt \<Rightarrow> flt \<Rightarrow> flt \<Rightarrow> nat \<Rightarrow> flt \<Rightarrow> nat list \<Rightarrow> nat list result" where
  "count_value min_val max_val bin_width bins v counts =
     (if feq v max_val then bump (- 1) counts
      else ebind (fdiv (v - min_val) bin_width) (\<lambda>x.
           ebind (py_trunc x) (\<lambda>idx. bump (min idx (int bins - 1)) counts)))"

record Histogram =
  bin_edges :: "flt list"
  bin_counts :: "nat list"

definition histogram :: "flt list \<Rightarrow> nat \<Rightarrow> Histogram result" where
  "histogram values bins =
     (case values of
        [] \<Rightarrow> Inr \<lparr>bin_edges = [], bin_counts = []\<rparr>
      | v # vs \<Rightarrow>
          (let min_val = list_min v vs; max_val = list_max v vs
           in if feq min_val max_val
              then Inr \<lparr>bin_edges = map (py_round 2) [min_val, max_val + 1], bin_counts = [length values]\<rparr>
              else ebind (div_len (max_val - min_val) (int bins)) (\<lambda>bin_width.
                   ebind (emap (\<lambda>i. ebind (float_of_int (int i)) (\<lambda>k. Inr (py_round 2 (min_val + k * bin_width))))
                            [0..<bins + 1]) (\<lambda>edges.
                   ebind (efold (count_value min_val max_val bin_width bins) values (replicate bins 0)) (\<lambda>counts.
                     Inr \<lparr>bin_edges = edges, bin_counts = counts\<rparr>)))))"

fun insert_flt :: "flt \<Rightarrow> flt list \<Rightarrow> flt list" where
  "insert_flt x [] = [x]"
| "insert_flt x (y # ys) = (if y < x then y # insert_flt x ys else x # y # ys)"

definition sort_flts :: "flt list \<Rightarrow> flt list" where
  "sort_flts xs = foldr insert_flt xs []"

definition percentile :: "flt list \<Rightarrow> int \<Rightarrow> flt result" where
  "percentile sorted_values pct =
     (let n = int (length sorted_values)
      in ebind (int_div (n * pct) 100) (\<lambda>x. ebind (py_trunc x) (\<lambda>idx.
           Inr (py_round 2 (sorted_values ! nat (min idx (n - 1)))))))"

definition percentile_names :: "(string \<times> int) list" where
  "percentile_names = [(''p25'', 25), (''p50'', 50), (''p75'', 75), (''p90'', 90), (''p95'', 95), (''p99'', 99)]"

definition percentiles :: "flt list \<Rightarrow> (string \<times> flt) list result" where
  "percentiles sorted_values =
     (if sorted_values = [] then Inr []
      else emap (\<lambda>(k, pct). ebind (percentile sorted_values pct) (\<lambda>x. Inr (k, x))) percentile_names)"

record TradeDistribution =
  tdist_pnl :: Histogram
  tdist_pnl_percentiles :: "(string \<times> flt) list"
  tdist_duration :: Histogram
  tdist_duration_percentiles :: "(string \<times> flt) list"
  tdist_avg_pnl :: flt
  tdist_avg_duration :: flt

definition empty_histogram :: Histogram where
  "empty_histogram = \<lparr>bin_edges = [], bin_counts = []\<rparr>"

definition calculate_trade_distribution :: "TradeDict list \<Rightarrow> TradeDistribution result" where
  "calculate_trade_distribution trade_list =
     (if trade_list = []
      then Inr \<lparr>tdist_pnl = empty_histogram, tdist_pnl_percentiles = [],
                tdist_duration = empty_histogram, tdist_duration_percentiles = [],
                tdist_avg_pnl = 0, tdist_avg_duration = 0\<rparr>
      else (let pnls = map td_pnl trade_list; n = int (length trade_list)
            in ebind (emap (\<lambda>t. float_of_int (td_duration_bars t)) trade_list) (\<lambda>durations.
               ebind (histogram pnls 10) (\<lambda>pnl_hist.
               ebind (histogram durations 8) (\<lambda>dur_hist.
               ebind (percentiles (sort_flts pnls)) (\<lambda>pnl_pcts.
               ebind (percentiles (sort_flts durations)) (\<lambda>dur_pcts.
               ebind (div_len (py_sum pnls) n) (\<lambda>avg_pnl.
               ebind (div_len (py_sum durations) n) (\<lambda>avg_dur.
                 Inr \<lparr>tdist_pnl = pnl_hist, tdist_pnl_percentiles = pnl_pcts,
                      tdist_duration = dur_hist, tdist_duration_percentiles = dur_pcts,
                      tdist_avg_pnl = py_round 2 avg_pnl, tdist_avg_duration = py_round 1 avg_dur\<rparr>)))))))))"

section \<open>The first bar of a date\<close>

lemma date_index_fold:
  "fold (\<lambda>(i, d) m. if m d = None then m(d \<mapsto> i) else m) (enumerate k ds) m d =
     (case m d of Some i \<Rightarrow> Some i
      | None \<Rightarrow> if d \<in> set ds then Some (k + length (takeWhile (\<lambda>x. x \<noteq> d) ds)) else None)"
proof (induction ds arbitrary: k m)
  case (Cons x ds)
  then show ?case by (cases "x = d") (auto split: option.splits)
qed (simp split: option.split)

lemma date_index_eq:
  "date_index ds d = (if d \<in> set ds then Some (length (takeWhile (\<lambda>x. x \<noteq> d) ds)) else None)"
  by (simp add: date_index_def date_index_fold)

lemma takeWhile_before: "d \<in> set ds \<Longrightarrow> length (takeWhile (\<lambda>x. x \<noteq> d) ds) < length ds"
  by (induction ds) auto

lemma date_index_bound: "date_index ds d = Some i \<Longrightarrow> i < length ds"
  using takeWhile_before by (auto simp: date_index_eq split: if_splits)

section \<open>Counting trades per bar\<close>

definition exits_at :: "(string \<rightharpoonup> nat) \<Rightarrow> TradeDict list \<Rightarrow> nat \<Rightarrow> TradeDict list" where
  "exits_at idx ts i = filter (\<lambda>t. idx (td_exit_date t) = Some i) ts"

lemma count_trade_step:
  assumes "\<And>i. idx (td_exit_date t) = Some i \<Longrightarrow> i < n" "length w = n" "length c = n" "j < n"
  shows "fst (count_trade idx t (w, c)) ! j =
           w ! j + (if idx (td_exit_date t) = Some j \<and> 0 < td_pnl t then 1 else 0)"
    and "snd (count_trade idx t (w, c)) ! j = c ! j + (if idx (td_exit_date t) = Some j then 1 else 0)"
    and "length (fst (count_trade idx t (w, c))) = n" "length (snd (count_trade idx t (w, c))) = n"
  using assms by (auto simp: count_trade_def nth_list_update split: option.split)

lemma count_trades:
  assumes "\<And>t i. t \<in> set ts \<Longrightarrow> idx (td_exit_date t) = Some i \<Longrightarrow> i < n"
    and "length (fst wc) = n" "length (snd wc) = n" "j < n"
  shows "fst (fold (count_trade idx) ts wc) ! j =
           fst wc ! j + length (filter (\<lambda>t. 0 < td_pnl t) (exits_at idx ts j)) \<and>
         snd (fold (count_trade idx) ts wc) ! j = snd wc ! j + length (exits_at idx ts j) \<and>
         length (fst (fold (count_trade idx) ts wc)) = n \<and> length (snd (fold (count_trade idx) ts wc)) = n"
  using assms
proof (induction ts arbitrary: wc)
  case Nil
  then show ?case by (simp add: exits_at_def)
next
  case (Cons t ts)
  obtain w c where wc: "wc = (w, c)" by (cases wc)
  note s = count_trade_step [of idx t n w c j]
  have b: "\<And>i. idx (td_exit_date t) = Some i \<Longrightarrow> i < n" by (rule Cons.prems(1)) simp_all
  have b': "\<And>u i. u \<in> set ts \<Longrightarrow> idx (td_exit_date u) = Some i \<Longrightarrow> i < n" by (rule Cons.prems(1)) simp_all
  have "fst (fold (count_trade idx) ts (count_trade idx t wc)) ! j =
           fst (count_trade idx t wc) ! j + length (filter (\<lambda>t. 0 < td_pnl t) (exits_at idx ts j)) \<and>
         snd (fold (count_trade idx) ts (count_trade idx t wc)) ! j =
           snd (count_trade idx t wc) ! j + length (exits_at idx ts j) \<and>
         length (fst (fold (count_trade idx) ts (count_trade idx t wc))) = n \<and>
         length (snd (fold (count_trade idx) ts (count_trade idx t wc))) = n"
    using Cons.prems(2-4) s [OF b] wc by (intro Cons.IH) (erule (1) b' | simp)+
  then show ?case using s [OF b] Cons.prems(2-4) wc by (simp add: exits_at_def)
qed

lemma prefix_sums_nth: "k \<le> length xs \<Longrightarrow> prefix_sums a xs ! k = a + sum_list (take k xs)"
  by (induction xs arbitrary: a k) (auto simp: nth_Cons take_Cons split: nat.splits)

lemma prefix_sums_diff:
  assumes "s \<le> k" "k \<le> length xs"
  shows "int (prefix_sums 0 xs ! k) - int (prefix_sums 0 xs ! s) = int (\<Sum>j\<leftarrow>[s..<k]. xs ! j)"
proof -
  have t: "take k xs = take s xs @ drop s (take k xs)"
    using append_take_drop_id [of s "take k xs"] assms(1) by (simp add: min_def)
  have d: "drop s (take k xs) = map ((!) xs) [s..<k]"
    using assms by (intro nth_equalityI) auto
  have "sum_list (take k xs) = sum_list (take s xs) + (\<Sum>j\<leftarrow>[s..<k]. xs ! j)"
    by (subst t) (simp add: d)
  then show ?thesis using assms by (simp add: prefix_sums_nth)
qed

definition exits_within :: "(string \<rightharpoonup> nat) \<Rightarrow> TradeDict list \<Rightarrow> nat \<Rightarrow> nat \<Rightarrow> TradeDict list" where
  "exits_within idx ts s k =
     filter (\<lambda>t. case idx (td_exit_date t) of Some j \<Rightarrow> s \<le> j \<and> j < k | None \<Rightarrow> False) ts"

lemma sum_count_one:
  "(\<Sum>j\<leftarrow>[s..<k]. if i = j then 1 else 0 :: nat) = (if s \<le> i \<and> i < k then 1 else 0)" for i j :: nat
  by (induction k) auto

lemma sum_exits:
  "(\<Sum>j\<leftarrow>[s..<k]. length (filter P (exits_at idx ts j))) = length (filter P (exits_within idx ts s k))"
proof (induction ts)
  case (Cons t ts)
  have "(\<Sum>j\<leftarrow>[s..<k]. length (filter P (exits_at idx (t # ts) j))) =
        (\<Sum>j\<leftarrow>[s..<k]. if idx (td_exit_date t) = Some j \<and> P t then 1 else 0 :: nat) +
        (\<Sum>j\<leftarrow>[s..<k]. length (filter P (exits_at idx ts j)))"
    by (simp add: exits_at_def flip: sum_list_addf) (intro arg_cong [where f = sum_list] map_cong, auto)
  also have "(\<Sum>j\<leftarrow>[s..<k]. if idx (td_exit_date t) = Some j \<and> P t then 1 else 0 :: nat) =
        (case idx (td_exit_date t) of Some i \<Rightarrow> if s \<le> i \<and> i < k \<and> P t then 1 else 0 | None \<Rightarrow> 0)"
    using sum_count_one [of _ s k] by (cases "P t") (auto split: option.split)
  finally show ?case using Cons by (auto simp: exits_within_def split: option.split)
qed (simp add: exits_at_def exits_within_def)

section \<open>The rolling win rate is the win rate of the window\<close>

definition window_rate :: "TradeDict list \<Rightarrow> EquityPoint list \<Rightarrow> nat \<Rightarrow> nat \<Rightarrow> flt option result" where
  "window_rate ts curve window i =
     (let closed = exits_within (date_index (map eq_date curve)) ts (i + 1 - window) (i + 1)
      in if i + 1 < window \<or> closed = [] then Inr None
         else ebind (int_div (int (length (filter (\<lambda>t. 0 < td_pnl t) closed))) (int (length closed)))
                (\<lambda>x. Inr (Some (py_round 4 x))))"

lemma exit_counts:
  assumes "fold (count_trade (date_index (map eq_date curve))) ts
             (replicate (length curve) 0, replicate (length curve) 0) = (w, c)"
  shows "length w = length curve" and "length c = length curve"
    and "j < length curve \<Longrightarrow>
           w ! j = length (filter (\<lambda>t. 0 < td_pnl t) (exits_at (date_index (map eq_date curve)) ts j))"
    and "j < length curve \<Longrightarrow> c ! j = length (exits_at (date_index (map eq_date curve)) ts j)"
proof -
  let ?idx = "date_index (map eq_date curve)" and ?n = "length curve"
  have b: "\<And>t j. t \<in> set ts \<Longrightarrow> ?idx (td_exit_date t) = Some j \<Longrightarrow> j < ?n"
    using date_index_bound by fastforce
  note cnt = count_trades [of ts ?idx ?n "(replicate ?n 0, replicate ?n 0)", OF b]
  show "j < ?n \<Longrightarrow> w ! j = length (filter (\<lambda>t. 0 < td_pnl t) (exits_at ?idx ts j))"
    "j < ?n \<Longrightarrow> c ! j = length (exits_at ?idx ts j)"
    using cnt assms by simp_all
  have "length (fst (fold (count_trade idx) us wc)) = length (fst wc) \<and>
        length (snd (fold (count_trade idx) us wc)) = length (snd wc)" for idx us wc
    by (induction us arbitrary: wc) (auto simp: count_trade_def split: option.split prod.split)
  from this [of ?idx ts "(replicate ?n 0, replicate ?n 0)"]
  show "length w = ?n" "length c = ?n" using assms by simp_all
qed

lemma win_rate_entry_window:
  assumes "i < length curve" "0 < window"
    and f: "fold (count_trade (date_index (map eq_date curve))) ts
             (replicate (length curve) 0, replicate (length curve) 0) = (w, c)"
  shows "win_rate_entry (prefix_sums 0 w) (prefix_sums 0 c) window i = window_rate ts curve window i"
proof -
  let ?idx = "date_index (map eq_date curve)" and ?n = "length curve" and ?s = "i + 1 - window"
  have "(\<Sum>j\<leftarrow>[?s..<i + 1]. w ! j) = (\<Sum>j\<leftarrow>[?s..<i + 1]. length (filter (\<lambda>t. 0 < td_pnl t) (exits_at ?idx ts j)))"
    "(\<Sum>j\<leftarrow>[?s..<i + 1]. c ! j) = (\<Sum>j\<leftarrow>[?s..<i + 1]. length (filter (\<lambda>_. True) (exits_at ?idx ts j)))"
    using assms(1) exit_counts(3,4) [OF f] by (auto intro!: arg_cong [where f = sum_list])
  then have diffs: "int (prefix_sums 0 w ! (i + 1)) - int (prefix_sums 0 w ! ?s) =
      int (length (filter (\<lambda>t. 0 < td_pnl t) (exits_within ?idx ts ?s (i + 1))))"
    "int (prefix_sums 0 c ! (i + 1)) - int (prefix_sums 0 c ! ?s) =
      int (length (exits_within ?idx ts ?s (i + 1)))"
    using prefix_sums_diff [of ?s "i + 1" w] prefix_sums_diff [of ?s "i + 1" c] assms(1)
      exit_counts(1,2) [OF f]
    unfolding sum_exits by (simp_all del: upt_Suc)
  show ?thesis
    unfolding win_rate_entry_def window_rate_def Let_def diffs
    by (cases "exits_within ?idx ts ?s (i + 1) = []") simp_all
qed

lemma no_exits:
  assumes "list_all (\<lambda>k. k = 0) c" "i < length curve"
    and f: "fold (count_trade (date_index (map eq_date curve))) ts
             (replicate (length curve) 0, replicate (length curve) 0) = (w, c)"
  shows "window_rate ts curve window i = Inr None"
proof -
  let ?idx = "date_index (map eq_date curve)"
  have "exits_at ?idx ts j = []" if "j < length curve" for j
    using exit_counts(2,4) [OF f] assms(1) that by (fastforce simp: list_all_length)
  then have "exits_within ?idx ts s (i + 1) = []" for s
    using assms(2) by (fastforce simp: exits_within_def exits_at_def filter_empty_conv split: option.splits)
  then show ?thesis by (simp add: window_rate_def Let_def)
qed

lemma blank_windows:
  assumes "\<And>i. i < n \<Longrightarrow> f i = Inr None"
  shows "emap f [0..<n] = Inr (replicate n None)"
proof -
  have "emap f is = Inr (replicate (length is) None)" if "\<And>i. i \<in> set is \<Longrightarrow> f i = Inr None" for "is"
    using that by (induction "is") auto
  from this [of "[0..<n]"] show ?thesis using assms by simp
qed

text \<open>
  C31. Equivalence of the optimised routine: the prefix-sum computation of the rolling win rate returns,
  for a curve of at least two bars, exactly the list of the win rates counted directly over the trades
  whose exit falls on a bar of each window.
\<close>

theorem rolling_win_rate_counts_window:
  assumes "0 < window" and "2 \<le> length curve"
  shows "calculate_rolling_win_rate trade_list curve window =
           emap (window_rate trade_list curve window) [0..<length curve]"
proof -
  let ?n = "length curve" and ?idx = "date_index (map eq_date curve)"
  obtain w c where f: "fold (count_trade ?idx) trade_list (replicate ?n 0, replicate ?n 0) = (w, c)"
    by (metis surj_pair)
  show ?thesis
  proof (cases "trade_list = [] \<or> list_all (\<lambda>k. k = 0) c")
    case True
    then have "window_rate trade_list curve window i = Inr None" if "i < ?n" for i
      using no_exits [OF _ that f] by (auto simp: window_rate_def exits_within_def)
    then show ?thesis using True assms f
      by (auto simp: calculate_rolling_win_rate_def Let_def blank_windows)
  next
    case False
    have "emap (win_rate_entry (prefix_sums 0 w) (prefix_sums 0 c) window) [0..<?n] =
          emap (window_rate trade_list curve window) [0..<?n]"
      using win_rate_entry_window [OF _ assms(1) f] by (intro emap_cong) simp_all
    then show ?thesis using False assms f by (simp add: calculate_rolling_win_rate_def Let_def)
  qed
qed

definition two_days :: "EquityPoint list" where
  "two_days = [\<lparr>eq_date = ''d1'', eq_close = 0, eq_value = 1, eq_drawdown = 0, eq_position = 0\<rparr>,
               \<lparr>eq_date = ''d2'', eq_close = 0, eq_value = 1, eq_drawdown = 0, eq_position = 0\<rparr>]"

definition small_win :: TradeDict where
  "small_win = \<lparr>td_entry_date = ''d1'', td_exit_date = ''d2'', td_entry_price = 1, td_exit_price = Fin 2,
     td_size = 1, td_pnl = 1, td_net_pnl = 1, td_gross_pnl = 1, td_entry_commission = 0,
     td_exit_commission = 0, td_borrow_cost = 0, td_total_commission = 0, td_pnl_pct = 1,
     td_duration_bars = 1, td_direction = ''long'', td_exit_reason = ''signal''\<rparr>"

lemma rolling_win_rate_counts_window_witness:
  "calculate_rolling_win_rate [small_win] two_days 1 =
     emap (window_rate [small_win] two_days 1) [0..<length two_days]"
  by (rule rolling_win_rate_counts_window) (simp_all add: two_days_def)

end
