(* ===== verification/ResultBuilder.thy ===== *)
theory ResultBuilder
  imports RollingMetrics SimConfig
begin

text \<open>
  The report of a backtest: \<open>backtest_result_builder.py\<close>.

    - The dictionaries that the builder returns are records with one field per key, in the order of
      the source; the \<open>trades\<close> and the equity curve are those of the final state.
    - \<open>compute_metrics\<close>, \<open>compute_reconciliation\<close>, \<open>build_trust_diagnostics\<close> and \<open>compute_analytics\<close>
      are the four helpers, \<open>build\<close> runs them in the order of the source and stops at the first
      exception.
    - The strategy contributes its name only (\<open>strategy.meta().name\<close>).
\<close>

section \<open>Performance metrics\<close>

record MetricsDict =
  m_final_value :: flt
  m_total_return :: flt
  m_annualized_return :: flt
  m_annualization_factor :: flt
  m_annualization_warning :: string
  m_total_trades :: nat
  m_winning_trades :: nat
  m_losing_trades :: nat
  m_win_rate :: flt
  m_max_drawdown :: flt
  m_sharpe_ratio :: flt
  m_sortino_ratio :: flt
  m_profit_factor :: flt
  m_calmar_ratio :: flt

definition equity_values_of :: "SimulationState \<Rightarrow> flt list" where
  "equity_values_of s = map eq_value (equity_curve s)"

definition final_value_of :: "SimulationState \<Rightarrow> flt \<Rightarrow> flt" where
  "final_value_of s initial =
     (let vs = equity_values_of s in if vs = [] then initial else last vs)"

definition finite_trades :: "SimulationState \<Rightarrow> TradeDict list" where
  "finite_trades s = filter (\<lambda>t. is_finite (td_pnl t)) (trades s)"

definition winners :: "TradeDict list \<Rightarrow> TradeDict list" where
  "winners ts = filter (\<lambda>t. 0 < td_pnl t) ts"

definition losers :: "TradeDict list \<Rightarrow> TradeDict list" where
  "losers ts = filter (\<lambda>t. td_pnl t \<le> 0) ts"

text \<open>The four annualised ratios: Sharpe, Sortino, return and Calmar.\<close>

definition annualised_ratios ::
  "pow_fun \<Rightarrow> SimulationState \<Rightarrow> flt list \<Rightarrow> flt \<Rightarrow> flt \<Rightarrow> flt \<Rightarrow> (flt \<times> flt \<times> flt \<times> flt) result" where
  "annualised_ratios fpow s daily_returns total_ret max_dd ann_factor =
     ebind (if daily_returns = [] then Inr 0 else calculate_sharpe fpow daily_returns 0 ann_factor) (\<lambda>sharpe.
     ebind (if daily_returns = [] then Inr 0 else calculate_sortino fpow daily_returns 0 ann_factor) (\<lambda>sortino.
     ebind (calculate_annualised_return fpow total_ret (int (length (equity_curve s))) ann_factor) (\<lambda>ann_ret.
     ebind (calculate_calmar_ratio ann_ret max_dd) (\<lambda>calmar.
       Inr (sharpe, sortino, ann_ret, calmar)))))"

definition compute_metrics ::
  "pow_fun \<Rightarrow> SimulationState \<Rightarrow> flt \<Rightarrow> ExecutionConfig \<Rightarrow> string \<Rightarrow> MetricsDict result" where
  "compute_metrics fpow s initial c interval =
     (let vs = equity_values_of s; final_value = final_value_of s initial;
          (ann_factor, ann_warning) = annualization_factor interval (market_calendar c);
          ts = finite_trades s
      in ebind (if 1 < length vs then calculate_daily_returns vs else Inr []) (\<lambda>daily_returns.
         ebind (calculate_total_return initial final_value) (\<lambda>total_ret.
         ebind (if vs = [] then Inr 0 else calculate_max_drawdown vs) (\<lambda>max_dd.
         ebind (if ann_warning \<noteq> [] then Inr (0, 0, 0, 0)
                else annualised_ratios fpow s daily_returns total_ret max_dd ann_factor)
               (\<lambda>(sharpe, sortino, ann_ret, calmar).
         let gross_profit = py_sum (map td_pnl (winners ts));
             gross_loss = \<bar>py_sum (map td_pnl (losers ts))\<bar>
         in ebind (calculate_profit_factor gross_profit gross_loss) (\<lambda>pf.
            ebind (if ts = [] then Inr 0
                   else int_div (int (length (winners ts))) (int (length ts))) (\<lambda>win_rate.
            Inr \<lparr>m_final_value = py_round 2 final_value,
                 m_total_return = py_round 4 total_ret,
                 m_annualized_return = py_round 4 ann_ret,
                 m_annualization_factor = ann_factor,
                 m_annualization_warning = ann_warning,
                 m_total_trades = length ts,
                 m_winning_trades = length (winners ts),
                 m_losing_trades = length (losers ts),
                 m_win_rate = py_round 4 win_rate,
                 m_max_drawdown = py_round 4 max_dd,
                 m_sharpe_ratio = py_round 4 sharpe,
                 m_sortino_ratio = py_round 4 sortino,
                 m_profit_factor = (if feq pf PosInf then Fin 9999 else py_round 4 pf),
                 m_calmar_ratio = py_round 4 calmar\<rparr>)))))))"

section \<open>Reconciliation\<close>

record ReconciliationDict =
  rc_total_commission :: flt
  rc_total_borrow_cost :: flt
  rc_total_funding :: flt
  rc_total_fees :: flt
  rc_total_slippage :: flt
  rc_realized_pnl :: flt
  rc_cash :: flt
  rc_ending_position_size :: flt
  rc_reconciliation_error :: flt

definition compute_reconciliation :: "SimulationState \<Rightarrow> flt \<Rightarrow> ReconciliationDict" where
  "compute_reconciliation s initial =
     (let final_value = final_value_of s initial;
          realized_pnl = py_sum (map td_pnl (finite_trades s))
      in \<lparr>rc_total_commission = py_round 2 (total_commission s),
          rc_total_borrow_cost = py_round 2 (total_borrow_cost s),
          rc_total_funding = py_round 2 (total_funding s),
          rc_total_fees = py_round 2 (total_commission s),
          rc_total_slippage = py_round 2 (total_slippage s),
          rc_realized_pnl = py_round 2 realized_pnl,
          rc_cash = py_round 2 (cash s),
          rc_ending_position_size = p_size (position s),
          rc_reconciliation_error =
            py_round 2 (final_value - initial - realized_pnl + total_funding s)\<rparr>)"

section \<open>Trust diagnostics\<close>

record TrustDiagnostics =
  tr_gap_aware_fills :: bool
  tr_lookahead_safe_mtf :: bool
  tr_liquidated_on_close :: bool
  tr_net_trade_metrics :: bool
  tr_entry_slippage_accounted :: bool
  tr_entry_model :: string
  tr_exit_model :: string
  tr_equity_valuation :: string
  tr_cost_model :: string
  tr_warmup_bars :: int
  tr_first_tradable :: string
  tr_commission_pct :: flt
  tr_slippage_pct :: flt
  tr_risk_mode :: string
  tr_leverage :: flt
  tr_cap_explicit_size :: bool
  tr_reject_oversized_explicit_orders :: bool
  tr_allow_negative_cash :: bool
  tr_borrow_fee_annual_pct :: flt
  tr_margin_mode :: string
  tr_maintenance_margin_pct :: flt
  tr_market_calendar :: string
  tr_risk_price_basis :: string
  tr_borrow_time_basis :: string
  tr_funding_schedule :: string
  tr_annualization_factor :: flt
  tr_annualization_warning :: string
  tr_metric_input_policy :: string
  tr_diagnostics :: "(string \<rightharpoonup> pyval) list"

definition diagnostics_to_dicts :: "BacktestDiagnostic list \<Rightarrow> (string \<rightharpoonup> pyval) list" where
  "diagnostics_to_dicts items = map diagnostic_to_dict items"

definition build_trust_diagnostics ::
  "ExecutionConfig \<Rightarrow> int \<Rightarrow> string \<Rightarrow> flt \<Rightarrow> string \<Rightarrow> SimulationState \<Rightarrow> TrustDiagnostics" where
  "build_trust_diagnostics c warmup_bars first_tradable ann_factor ann_warning s = \<lparr>
     tr_gap_aware_fills = True,
     tr_lookahead_safe_mtf = True,
     tr_liquidated_on_close = True,
     tr_net_trade_metrics = True,
     tr_entry_slippage_accounted = True,
     tr_entry_model = ''next_bar_open'',
     tr_exit_model = ''next_bar_open'',
     tr_equity_valuation = ''bar_close'',
     tr_cost_model = (if 0 < commission_pct c \<or> 0 < slippage_pct c
                      then ''commission_and_slippage'' else ''zero_cost''),
     tr_warmup_bars = warmup_bars,
     tr_first_tradable = first_tradable,
     tr_commission_pct = py_round 6 (commission_pct c),
     tr_slippage_pct = py_round 6 (slippage_pct c),
     tr_risk_mode = risk_mode c,
     tr_leverage = leverage_multiplier c,
     tr_cap_explicit_size = cap_explicit_size c,
     tr_reject_oversized_explicit_orders = reject_oversized_explicit_orders c,
     tr_allow_negative_cash = allow_negative_cash c,
     tr_borrow_fee_annual_pct = borrow_fee_annual_pct c,
     tr_margin_mode = margin_mode c,
     tr_maintenance_margin_pct = maintenance_margin_pct c,
     tr_market_calendar = market_calendar c,
     tr_risk_price_basis = risk_price_basis c,
     tr_borrow_time_basis = borrow_time_basis c,
     tr_funding_schedule = (if enable_funding c then ''per_bar'' else ''disabled''),
     tr_annualization_factor = ann_factor,
     tr_annualization_warning = ann_warning,
     tr_metric_input_policy = ''strict'',
     tr_diagnostics = diagnostics_to_dicts (diagnostics s) \<rparr>"

section \<open>Analytics\<close>

record Analytics =
  an_rolling_sharpe_60 :: "flt option list"
  an_rolling_win_rate_60 :: "flt option list"
  an_rolling_drawdown :: "flt list"
  an_rolling_pnl_60 :: "flt option list"
  an_monthly_returns :: "(string \<times> flt) list"
  an_yearly_returns :: "(string \<times> flt) list"
  an_exposure :: "flt list"
  an_trade_distribution :: TradeDistribution

definition empty_analytics :: Analytics where
  "empty_analytics = \<lparr>
     an_rolling_sharpe_60 = [], an_rolling_win_rate_60 = [], an_rolling_drawdown = [],
     an_rolling_pnl_60 = [], an_monthly_returns = [], an_yearly_returns = [], an_exposure = [],
     an_trade_distribution =
       \<lparr>tdist_pnl = empty_histogram, tdist_pnl_percentiles = [],
        tdist_duration = empty_histogram, tdist_duration_percentiles = [],
        tdist_avg_pnl = 0, tdist_avg_duration = 0\<rparr> \<rparr>"

definition compute_analytics :: "pow_fun \<Rightarrow> SimulationState \<Rightarrow> flt \<Rightarrow> nat \<Rightarrow> Analytics result" where
  "compute_analytics fpow s periods_per_year trade_count =
     (let vs = equity_values_of s
      in if vs = [] then Inr empty_analytics
         else
           ebind (calculate_rolling_sharpe fpow vs 60 periods_per_year) (\<lambda>sharpe.
           ebind (calculate_rolling_win_rate (trades s) (equity_curve s) 60) (\<lambda>win_rate.
           ebind (calculate_rolling_drawdown vs) (\<lambda>drawdown.
           ebind (calculate_rolling_pnl vs) (\<lambda>pnl.
           ebind (calculate_monthly_returns (equity_curve s)) (\<lambda>monthly.
           ebind (calculate_yearly_returns (equity_curve s)) (\<lambda>yearly.
           ebind (calculate_exposure (equity_curve s)) (\<lambda>exposure.
           ebind (calculate_trade_distribution (if 0 < trade_count then trades s else [])) (\<lambda>dist.
             Inr \<lparr>an_rolling_sharpe_60 = sharpe, an_rolling_win_rate_60 = win_rate,
                  an_rolling_drawdown = drawdown, an_rolling_pnl_60 = pnl,
                  an_monthly_returns = monthly, an_yearly_returns = yearly,
                  an_exposure = exposure, an_trade_distribution = dist\<rparr>)))))))))"

section \<open>The report\<close>

record BacktestReport =
  rp_strategy_name :: string
  rp_symbol :: string
  rp_interval :: string
  rp_start_date :: string
  rp_end_date :: string
  rp_bar_count :: nat
  rp_initial_cash :: flt
  rp_position_sizing :: string
  rp_warmup_bars :: int
  rp_first_tradable :: string
  rp_commission_pct :: flt
  rp_slippage_pct :: flt
  rp_trades :: "TradeDict list"
  rp_equity_curve :: "EquityPoint list"
  rp_metrics :: MetricsDict
  rp_reconciliation :: ReconciliationDict
  rp_analytics :: Analytics
  rp_trust_diagnostics :: TrustDiagnostics
  rp_diagnostics :: "(string \<rightharpoonup> pyval) list"

definition build ::
  "pow_fun \<Rightarrow> string \<Rightarrow> SimulationState \<Rightarrow> flt \<Rightarrow> string \<Rightarrow> int \<Rightarrow> string \<Rightarrow> ExecutionConfig \<Rightarrow>
   BacktestReport result" where
  "build fpow name s initial interval warmup_bars first_tradable c =
     ebind (compute_metrics fpow s initial c interval) (\<lambda>metrics.
       let reconciliation = compute_reconciliation s initial;
           trust = build_trust_diagnostics c warmup_bars first_tradable
                     (m_annualization_factor metrics) (m_annualization_warning metrics) s;
           dates = map eq_date (equity_curve s)
       in ebind (compute_analytics fpow s (m_annualization_factor metrics) (m_total_trades metrics))
            (\<lambda>analytics.
              Inr \<lparr>rp_strategy_name = name, rp_symbol = '''', rp_interval = '''',
                   rp_start_date = (if dates = [] then '''' else hd dates),
                   rp_end_date = (if dates = [] then '''' else last dates),
                   rp_bar_count = length (equity_curve s),
                   rp_initial_cash = initial,
                   rp_position_sizing = ''risk-based-v3-fill-price'',
                   rp_warmup_bars = warmup_bars, rp_first_tradable = first_tradable,
                   rp_commission_pct = py_round 6 (commission_pct c),
                   rp_slippage_pct = py_round 6 (slippage_pct c),
                   rp_trades = trades s, rp_equity_curve = equity_curve s,
                   rp_metrics = metrics, rp_reconciliation = reconciliation,
                   rp_analytics = analytics, rp_trust_diagnostics = trust,
                   rp_diagnostics = diagnostics_to_dicts (diagnostics s)\<rparr>))"


section \<open>Counts and rates\<close>

lemma winners_losers:
  "\<forall>t\<in>set ts. is_finite (td_pnl t) \<Longrightarrow> length (winners ts) + length (losers ts) = length ts"
  by (induction ts) (auto simp: winners_def losers_def is_finite_Fin zero_flt_def)

lemma int_div_rate:
  assumes "0 \<le> a" "a \<le> b" "int_div a b = Inr x"
  shows "0 \<le> x \<and> x \<le> 1"
proof -
  from assms have b: "0 < b" and x: "flr (of_int a / of_int b) = x"
    by (auto simp: int_div_def split: if_splits flt.splits)
  have "(of_int a :: rat) / of_int b \<le> 1" "0 \<le> (of_int a :: rat) / of_int b"
    using assms(1,2) b by simp_all
  from flr_mono [OF this(1)] flr_mono [OF this(2)]
  show ?thesis unfolding x by (simp add: zero_flt_def one_flt_def)
qed

lemma py_round_one [simp]: "py_round n 1 = 1"
proof -
  have "rne (10 ^ n) = 10 ^ n" using rne_of_int [of "10 ^ n"] by simp
  then show ?thesis by (simp add: one_flt_def)
qed

lemma compute_metrics_counts:
  assumes "compute_metrics fpow s initial c interval = Inr ms"
  shows "m_winning_trades ms + m_losing_trades ms = m_total_trades ms"
    and "m_total_trades ms \<le> length (trades s)"
    and "0 \<le> m_win_rate ms \<and> m_win_rate ms \<le> 1"
proof -
  let ?ts = "finite_trades s"
  from assms obtain x where
    n: "m_total_trades ms = length ?ts" "m_winning_trades ms = length (winners ?ts)"
       "m_losing_trades ms = length (losers ?ts)" and
    x: "(if ?ts = [] then Inr 0 else int_div (int (length (winners ?ts))) (int (length ?ts))) = Inr x"
       "m_win_rate ms = py_round 4 x"
    by (auto simp: compute_metrics_def Let_def split: prod.splits simp del: length_0_conv)
  show "m_winning_trades ms + m_losing_trades ms = m_total_trades ms"
    unfolding n by (rule winners_losers) (simp add: finite_trades_def)
  show "m_total_trades ms \<le> length (trades s)" unfolding n by (simp add: finite_trades_def)
  have "length (winners ?ts) \<le> length ?ts" by (simp add: winners_def)
  then have "0 \<le> x \<and> x \<le> 1" using x(1) int_div_rate [of "int (length (winners ?ts))" "int (length ?ts)" x]
    by (auto simp: one_flt_def zero_flt_def split: if_splits)
  then show "0 \<le> m_win_rate ms \<and> m_win_rate ms \<le> 1"
    using py_round_mono [of 0 x 4] py_round_mono [of x 1 4] unfolding x(2) by simp
qed

lemma compute_metrics_unknown_interval:
  assumes "compute_metrics fpow s initial c interval = Inr ms"
    and "snd (annualization_factor interval (market_calendar c)) \<noteq> []"
  shows "m_sharpe_ratio ms = 0 \<and> m_sortino_ratio ms = 0 \<and> m_annualized_return ms = 0 \<and>
         m_calmar_ratio ms = 0 \<and> m_annualization_warning ms \<noteq> []"
  using assms by (auto simp: compute_metrics_def Let_def split: prod.splits if_splits)

end
