(* ===== verification/BacktestRunner.thy ===== *)
theory BacktestRunner
  imports DataValidator ResultBuilder
begin

text \<open>
  The entry point of the engine: \<open>BacktestRunner.run\<close> of \<open>backtest_runner.py\<close> with the reading of
  its parameters.

    - The keyword parameters are a map from names to Python values; \<open>pop_or\<close> is
      \<open>params.pop(name, default) or fallback\<close>.
    - \<open>run\<close> checks the frame, resets the strategy, reads the parameters, runs the loop and builds
      the report.  Its value is an error text, a report, or the exception that leaves it.
    - The power function, pandas and the strategy (its step, reset and name) are arguments.
\<close>

section \<open>Parameters\<close>

definition parse_int :: "string \<Rightarrow> int option" where
  "parse_int raw =
     (let s = py_strip raw
      in if \<not> underscores_ok None s then None
         else (case split_sign (filter (\<lambda>c. c \<noteq> CHR ''_'') s) of (neg, ds) \<Rightarrow>
             if ds \<noteq> [] \<and> list_all is_digit ds
             then Some (if neg then - digits_value ds else digits_value ds) else None))"

text \<open>\<open>int(x)\<close>.\<close>

fun py_int :: "pyval \<Rightarrow> int result" where
  "py_int PNone = Inl TypeError"
| "py_int (PBool b) = Inr (if b then 1 else 0)"
| "py_int (PInt i) = Inr i"
| "py_int (PFloat x) = py_trunc x"
| "py_int (PStr s) = (case parse_int s of Some i \<Rightarrow> Inr i
                      | None \<Rightarrow> Inl (ValueError (''invalid literal for int() with base 10: '' @ str_repr s)))"
| "py_int (PList xs) = Inl TypeError"
| "py_int (PDict kvs) = Inl TypeError"

definition pop_or :: "(string \<rightharpoonup> pyval) \<Rightarrow> string \<Rightarrow> pyval \<Rightarrow> pyval \<Rightarrow> pyval" where
  "pop_or params k dflt fallback = py_or (get_or params k dflt) fallback"

definition true_texts :: "string list" where
  "true_texts = [''1'', ''true'', ''yes'', ''on'']"

fun bool_param :: "pyval \<Rightarrow> bool" where
  "bool_param (PBool b) = b"
| "bool_param (PStr s) = (py_lower (str_strip s) \<in> set true_texts)"
| "bool_param v = truthy v"

definition execution_config_from_params ::
  "(string \<rightharpoonup> pyval) \<Rightarrow> flt \<Rightarrow> flt \<Rightarrow> ExecutionConfig result" where
  "execution_config_from_params params comm slip =
     ebind (py_float (pop_or params ''leverage'' (PFloat 1) (PFloat 1))) (\<lambda>lev.
     ebind (py_float (pop_or params ''borrow_fee_annual_pct'' (PFloat 0) (PFloat 0))) (\<lambda>fee.
     ebind (py_float (pop_or params ''maintenance_margin_pct'' (PFloat (flr (5 / 1000))) (PFloat (flr (5 / 1000))))) (\<lambda>mm.
     ebind (py_float (pop_or params ''funding_rate'' (PFloat (flr (1 / 10000))) (PFloat (flr (1 / 10000))))) (\<lambda>rate.
       mk_ExecutionConfig \<lparr>
         commission_pct = comm, slippage_pct = slip, leverage_multiplier = lev,
         risk_mode = py_str (pop_or params ''risk_mode'' (PStr ''fixed_equity_risk'') (PStr ''fixed_equity_risk'')),
         cap_explicit_size = bool_param (get_or params ''cap_explicit_size'' (PBool True)),
         reject_oversized_explicit_orders =
           bool_param (get_or params ''reject_oversized_explicit_orders'' (PBool False)),
         allow_negative_cash = bool_param (get_or params ''allow_negative_cash'' (PBool False)),
         market_calendar = py_str (pop_or params ''market_calendar'' (PStr ''equity_regular_hours'') (PStr '''')),
         borrow_fee_annual_pct = fee,
         margin_mode = py_str (pop_or params ''margin_mode'' (PStr ''simplified'') (PStr ''simplified'')),
         maintenance_margin_pct = mm,
         enable_funding = bool_param (get_or params ''enable_funding'' (PBool False)),
         funding_rate = rate,
         risk_price_basis = py_str (pop_or params ''risk_price_basis'' (PStr ''signal_close'') (PStr ''signal_close'')),
         borrow_time_basis = py_str (pop_or params ''borrow_time_basis'' (PStr ''calendar_day'') (PStr ''calendar_day''))
       \<rparr>))))"

section \<open>One backtest\<close>

datatype BacktestResult =
    ErrorResult string
  | Report BacktestReport

record 's TradingStrategy =
  ts_meta_name :: "'s \<Rightarrow> string"
  ts_reset :: "'s \<Rightarrow> 's"
  ts_on_bar :: "'s strategy_step"

definition default_risk_per_trade :: pyval where
  "default_risk_per_trade = PFloat (flr (2 / 100))"

definition run ::
  "pandas_ops \<Rightarrow> pow_fun \<Rightarrow> BarFrame \<Rightarrow> 's TradingStrategy \<Rightarrow> 's \<Rightarrow> flt \<Rightarrow> (string \<rightharpoonup> pyval) \<Rightarrow>
   (BacktestResult \<times> 's) result" where
  "run pd fpow frame strategy st initial params =
     (if fr_rows frame = [] \<or> fr_columns frame = [] then Inr (ErrorResult ''No bars provided'', st)
      else (case validate_backtest_frame pd frame of
        Some msg \<Rightarrow> Inr (ErrorResult msg, st)
      | None \<Rightarrow>
          (let st0 = ts_reset strategy st;
               interval = py_str (pop_or params ''interval'' (PStr '''') (PStr ''''));
               first_tradable = py_str (pop_or params ''first_tradable'' (PStr '''') (PStr ''''))
           in ebind (py_float (get_or params ''risk_per_trade'' default_risk_per_trade)) (\<lambda>risk.
              ebind (py_int (pop_or params ''warmup_bars'' (PInt 0) (PInt 0))) (\<lambda>w.
              let warmup_bars = max 0 w in
              ebind (py_float (pop_or params ''commission_pct'' (PFloat 0) (PFloat 0))) (\<lambda>comm.
              ebind (py_float (pop_or params ''slippage_pct'' (PFloat 0) (PFloat 0))) (\<lambda>slip.
              ebind (execution_config_from_params params comm slip) (\<lambda>c.
              ebind (run_loop c (ts_on_bar strategy) (fr_rows frame) st0 initial risk (nat warmup_bars)) (\<lambda>(b, st1).
              ebind (build fpow (ts_meta_name strategy st1) (bk_state b) initial interval warmup_bars first_tradable c)
                (\<lambda>r. Inr (Report r, st1)))))))))))"

section \<open>What a run guarantees\<close>

lemma runE:
  assumes "run pd fpow frame strategy st initial params = Inr (Report r, st')"
  obtains risk w c b interval first_tradable where
    "validate_backtest_frame pd frame = None" "wf_config c"
    "run_loop c (ts_on_bar strategy) (fr_rows frame) (ts_reset strategy st) initial risk (nat (max 0 w)) = Inr (b, st')"
    "build fpow (ts_meta_name strategy st') (bk_state b) initial interval (max 0 w) first_tradable c = Inr r"
  using assms
  by (auto simp: run_def Let_def execution_config_from_params_def mk_ExecutionConfig_Inr
      split: if_splits option.splits prod.splits)

lemma buildE:
  assumes "build fpow name s initial interval w ft c = Inr r"
  obtains ms an where
    "compute_metrics fpow s initial c interval = Inr ms"
    "compute_analytics fpow s (m_annualization_factor ms) (m_total_trades ms) = Inr an"
    "rp_metrics r = ms" "rp_analytics r = an" "rp_trades r = trades s" "rp_equity_curve r = equity_curve s"
    "rp_bar_count r = length (equity_curve s)" "rp_reconciliation r = compute_reconciliation s initial"
    "rp_warmup_bars r = w"
    "rp_start_date r = (if equity_curve s = [] then '''' else eq_date (hd (equity_curve s)))"
    "rp_end_date r = (if equity_curve s = [] then '''' else eq_date (last (equity_curve s)))"
  using assms by (auto simp: build_def Let_def hd_map last_map)


lemma flat_zero: "\<not> is_open b \<longleftrightarrow> feq (p_size (position (bk_state b))) 0"
  by (simp add: is_open_def)

lemma curve_length:
  "curve_marks s = map f xs \<Longrightarrow> length (equity_curve s) = length xs"
  by (drule arg_cong [of _ _ length]) (simp add: curve_marks_def)

lemma curve_dates:
  assumes "curve_marks s = map row_point rows"
  shows "map eq_date (equity_curve s) = map (\<lambda>r. row_date (row_index r)) rows"
  using arg_cong [OF assms, of "map fst"] by (simp add: curve_marks_def row_point_def comp_def)

lemma run_loop_curve:
  "run_loop c step rows st initial rpt first = Inr (b, st') \<Longrightarrow>
   curve_marks (bk_state b) = map row_point (drop first rows)"
  by (erule run_loopE) (metis liquidate_open_marks run_bars_marks)

lemma run_loop_flat: "run_loop c step rows st initial rpt first = Inr (b, st') \<Longrightarrow> \<not> is_open b"
  by (erule run_loopE) (rule liquidate_open_closed)

text \<open>
  Refusals: a run answers with an error text exactly when the frame is empty or the validator's
  conditions for an executable frame do not hold; then the strategy is left in the state it was in,
  whatever the parameters are.
\<close>

theorem run_refuses_exactly_bad_frames:
  "(\<exists>msg. run pd fpow frame strategy st initial params = Inr (ErrorResult msg, st')) \<longleftrightarrow>
     \<not> (fr_rows frame \<noteq> [] \<and> fr_columns frame \<noteq> [] \<and> frame_accepted pd frame) \<and> st' = st"
proof (cases "fr_rows frame = [] \<or> fr_columns frame = []")
  case True
  then show ?thesis by (auto simp: run_def)
next
  case False
  then show ?thesis
    by (cases "validate_backtest_frame pd frame")
      (auto simp: run_def Let_def ebind_eq_Inr frame_accepted_iff [symmetric] split: prod.splits)
qed

text \<open>
  C14. A report is consistent: it covers one bar per row after the warmup, from the date of the first
  such row to the date of the last row; it ends without a position; winning and losing trades add up to
  the counted trades, which are among the trades of the report, and the win rate lies between 0 and 1.
\<close>

theorem report_is_consistent:
  assumes "run pd fpow frame strategy st initial params = Inr (Report r, st')"
  shows "let live = drop (nat (rp_warmup_bars r)) (fr_rows frame); ms = rp_metrics r in
           rp_bar_count r = length live \<and>
           rp_start_date r = (if live = [] then '''' else row_date (row_index (hd live))) \<and>
           rp_end_date r = (if live = [] then '''' else row_date (row_index (last live))) \<and>
           feq (rc_ending_position_size (rp_reconciliation r)) 0 \<and>
           m_winning_trades ms + m_losing_trades ms = m_total_trades ms \<and>
           m_total_trades ms \<le> length (rp_trades r) \<and>
           0 \<le> m_win_rate ms \<and> m_win_rate ms \<le> 1"
  using assms
proof (rule runE)
  fix risk w c b interval ft
  assume l: "run_loop c (ts_on_bar strategy) (fr_rows frame) (ts_reset strategy st) initial risk (nat (max 0 w)) = Inr (b, st')"
    and b: "build fpow (ts_meta_name strategy st') (bk_state b) initial interval (max 0 w) ft c = Inr r"
  let ?live = "drop (nat (max 0 w)) (fr_rows frame)"
  have m: "curve_marks (bk_state b) = map row_point ?live" using l by (rule run_loop_curve)
  note len = curve_length [OF m] and dates = curve_dates [OF m]
  have e: "equity_curve (bk_state b) = [] \<longleftrightarrow> ?live = []" using len by (metis length_0_conv)
  have h: "eq_date (hd (equity_curve (bk_state b))) = row_date (row_index (hd ?live))"
    "eq_date (last (equity_curve (bk_state b))) = row_date (row_index (last ?live))" if "?live \<noteq> []"
    using arg_cong [OF dates, of hd] arg_cong [OF dates, of last] that e by (simp_all add: hd_map last_map)
  from b show ?thesis
  proof (rule buildE)
    fix ms an
    assume ms: "compute_metrics fpow (bk_state b) initial c interval = Inr ms" and
      r: "rp_metrics r = ms" "rp_trades r = trades (bk_state b)" "rp_warmup_bars r = max 0 w"
        "rp_bar_count r = length (equity_curve (bk_state b))"
        "rp_reconciliation r = compute_reconciliation (bk_state b) initial"
        "rp_start_date r = (if equity_curve (bk_state b) = [] then '''' else eq_date (hd (equity_curve (bk_state b))))"
        "rp_end_date r = (if equity_curve (bk_state b) = [] then '''' else eq_date (last (equity_curve (bk_state b))))"
    show ?thesis
      unfolding Let_def r len e
      using compute_metrics_counts [OF ms] run_loop_flat [OF l] h
      by (auto simp: compute_reconciliation_def Let_def flat_zero)
  qed
qed

end
