(* ===== verification/RunProperties.thy ===== *)
theory RunProperties
  imports BacktestRunner
begin

text \<open>
  Properties of whole runs that join several components: queued exits are served, validated bars fill
  inside their range, and the witnesses of the report.
\<close>

section \<open>Queued exits\<close>

lemma execute_pending_exit:
  assumes "execute_pending c price date b = Inr b'" "pending_exit (bk_state b) \<noteq> None" "is_open b"
  shows "\<exists>t. trades (bk_state b') = trades (bk_state b) @ [t] \<and> td_exit_reason t = ''signal_exit_next_open'' \<and>
           td_exit_date t = date \<and> td_direction t = p_direction (position (bk_state b))"
proof -
  from assms obtain b1 where
    e: "exit_position c price date ''signal_exit_next_open'' b = Inr b1" and
    n: "(case pending_entry (bk_state (set_pending_exit None b1)) of None \<Rightarrow> Inr (set_pending_exit None b1)
         | Some entry \<Rightarrow> if is_open (set_pending_exit None b1) then Inr (set_pending_exit None b1)
             else enter_position c entry price date (set_pending_entry None (set_pending_exit None b1))) = Inr b'"
    by (auto simp: execute_pending_def)
  have "trades (bk_state b') = trades (bk_state b1)"
    using n enter_position_trades
    by (fastforce simp: set_pending_exit_def set_pending_entry_def split: option.splits if_splits)
  then show ?thesis using exit_position_trades [OF e] by auto
qed

lemma loop_bar_exit:
  assumes "loop_bar c step rpt first (i, row) (b, st) = Inr (b', st')" "first \<le> i"
    and "pending_exit (bk_state b) \<noteq> None" "is_open b"
  shows "\<exists>t ts. trades (bk_state b') = trades (bk_state b) @ t # ts \<and> td_exit_reason t = ''signal_exit_next_open'' \<and>
           td_exit_date t = row_date (row_index row) \<and> td_direction t = p_direction (position (bk_state b))"
  using assms(1)
proof (cases rule: loop_barE)
  case (live o' h l cl)
  from live(6) show ?thesis
  proof (rule live_barE)
    fix b1 b2 b3 signal b4 b5
    assume 1: "execute_pending c o' (row_date (row_index row)) b = Inr b1"
      and 2: "check_exit_conditions c o' h l (row_date (row_index row)) b1 = Inr b2"
      and 3: "margin_call_check c cl b2 = Inr b3"
      and 4: "b4 = (case signal of None \<Rightarrow> apply_funding c b3 | Some sig \<Rightarrow> handle_signal sig cl rpt (apply_funding c b3))"
      and 5: "track_equity cl (row_date (row_index row)) b4 = Inr b5" and 6: "b' = sync_margin_equity c b5"
    have "extends b1 b3"
      using check_exit_conditions_extends [OF 2] margin_call_check_extends [OF 3] extends_trans by blast
    moreover have "extends b3 b4"
      using 4 extends_trans [OF apply_funding_extends handle_signal_extends] by (auto split: option.splits)
    ultimately have "extends b1 b4" by (rule extends_trans)
    moreover have "trades (bk_state b5) = trades (bk_state b4)" using 5 by (auto elim!: track_equityE)
    moreover have "extends b5 b'" using 6 by simp
    ultimately obtain ts where "trades (bk_state b') = trades (bk_state b1) @ ts" by (auto simp: extends_def)
    then show ?thesis using execute_pending_exit [OF 1 assms(3,4)] by auto
  qed
qed (use assms(2) in simp)

lemma efold_loop_trades:
  "efold (loop_bar c step rpt first) irs bs = Inr bs' \<Longrightarrow>
   \<exists>ts. trades (bk_state (fst bs')) = trades (bk_state (fst bs)) @ ts"
  by (drule efold_loop_grows) (auto simp: book_grows_def prefix_def)

lemma liquidate_open_trade:
  assumes "liquidate_open c x d b = Inr b'" "is_open b"
  shows "\<exists>t. trades (bk_state b') = trades (bk_state b) @ [t] \<and> td_exit_reason t = ''end_of_backtest'' \<and>
           td_direction t = p_direction (position (bk_state b))"
proof -
  from assms obtain b1 where e: "exit_position c x d ''end_of_backtest'' b = Inr b1" and
    p: "trades (bk_state b') = trades (bk_state b1)"
    by (auto simp: liquidate_open_def is_open_def Let_def split: if_splits)
  show ?thesis using exit_position_trades [OF e] p by auto
qed

text \<open>
  C11. Queued exits are served: whenever the strategy has asked to leave a position, the next trade of the
  finished backtest closes that side; it is the exit at the open of the next bar if there is one, and
  the liquidation at the end of the data otherwise.
\<close>

theorem exit_signal_is_served:
  assumes "run_bars c step rpt first xs (initial_book c initial, st) = Inr (b1, st1)"
    and "pending_exit (bk_state b1) \<noteq> None"
    and "run_loop c step (xs @ ys) st initial rpt first = Inr (b, st')"
  shows "\<exists>t ts. trades (bk_state b) = trades (bk_state b1) @ t # ts \<and>
           td_direction t = p_direction (position (bk_state b1)) \<and>
           (if ys = [] then td_exit_reason t = ''end_of_backtest''
            else td_exit_reason t = ''signal_exit_next_open'' \<and> td_exit_date t = row_date (row_index (hd ys)))"
proof -
  have "orders_ok b1" using run_bars_orders_ok [OF assms(1)] initial_orders_ok by simp
  then have open1: "is_open b1" using assms(2) by (simp add: orders_ok_def)
  have live: "first \<le> length xs"
  proof (rule ccontr)
    assume "\<not> first \<le> length xs"
    then have "b1 = initial_book c initial" using run_bars_warmup [OF assms(1)] by simp
    then show False using assms(2) by (simp add: initial_book_def new_state_def)
  qed
  from assms(3) show ?thesis
  proof (rule run_loopE)
    fix b2 x d
    assume r: "run_bars c step rpt first (xs @ ys) (initial_book c initial, st) = Inr (b2, st')"
      and l: "liquidate_open c x d b2 = Inr b"
    then have rest: "efold (loop_bar c step rpt first) (enumerate (length xs) ys) (b1, st1) = Inr (b2, st')"
      using assms(1) by (simp add: run_bars_append)
    show ?thesis
    proof (cases ys)
      case Nil
      then have "b2 = b1" using rest by simp
      then show ?thesis using liquidate_open_trade [OF l] open1 Nil by auto
    next
      case (Cons row rows)
      then obtain u where u: "loop_bar c step rpt first (length xs, row) (b1, st1) = Inr u"
        "efold (loop_bar c step rpt first) (enumerate (Suc (length xs)) rows) u = Inr (b2, st')"
        using rest by auto
      obtain t ts where "trades (bk_state (fst u)) = trades (bk_state b1) @ t # ts"
        "td_exit_reason t = ''signal_exit_next_open''" "td_exit_date t = row_date (row_index row)"
        "td_direction t = p_direction (position (bk_state b1))"
        using loop_bar_exit [of c step rpt first "length xs" row b1 st1 "fst u" "snd u"] u(1) live assms(2) open1
        by auto
      then show ?thesis using efold_loop_trades [OF u(2)] liquidate_open_trades [OF l] Cons by auto
    qed
  qed
qed

section \<open>Validated bars\<close>

text \<open>What pandas documents for a cell it reads as a number: \<open>float\<close> reads the same number.\<close>

definition numeric_agrees :: "pandas_ops \<Rightarrow> bool" where
  "numeric_agrees pd \<longleftrightarrow> (\<forall>v. pd_numeric pd v \<noteq> NaN \<longrightarrow> py_float v = Inr (pd_numeric pd v))"

text \<open>
  C13. Validation protects the loop: on an accepted frame the loop reads all four prices of every bar
  without raising, they are positive, and any stop or target that a bar triggers fills at a positive
  price between the low and the high of that bar.
\<close>

theorem validated_bars_fill_inside:
  assumes "validate_backtest_frame pd f = None" "numeric_agrees pd" "row \<in> set (fr_rows f)"
  shows "\<exists>o' h l cl. py_float (row_open row) = Inr o' \<and> py_float (row_high row) = Inr h \<and>
           py_float (row_low row) = Inr l \<and> py_float (row_close row) = Inr cl \<and>
           0 < l \<and> l \<le> cl \<and> cl \<le> h \<and> bar_ordered o' h l \<and>
           (\<forall>p price reason. resolve_exit p o' h l = Some (price, reason) \<longrightarrow>
              0 < price \<and> l \<le> price \<and> price \<le> h)"
proof -
  let ?n = "pd_numeric pd"
  have "list_all price_row_ok (numeric_prices pd f)"
    using assms(1) by (simp add: frame_accepted_iff frame_accepted_def)
  then have ok: "price_row_ok \<lparr>pr_index = row_index row, pr_open = ?n (row_open row), pr_high = ?n (row_high row),
       pr_low = ?n (row_low row), pr_close = ?n (row_close row)\<rparr>"
    using assms(3) by (simp add: numeric_prices_def list_all_iff)
  then have b: "0 < ?n (row_low row)" "bar_ordered (?n (row_open row)) (?n (row_high row)) (?n (row_low row))"
    "?n (row_low row) \<le> ?n (row_close row)" "?n (row_close row) \<le> ?n (row_high row)"
    by (simp_all add: price_row_ok_def bar_ordered_def)
  have "?n v \<noteq> NaN \<Longrightarrow> py_float v = Inr (?n v)" for v using assms(2) by (simp add: numeric_agrees_def)
  then have r: "py_float (row_open row) = Inr (?n (row_open row))" "py_float (row_high row) = Inr (?n (row_high row))"
    "py_float (row_low row) = Inr (?n (row_low row))" "py_float (row_close row) = Inr (?n (row_close row))"
    using b flt_le_not_NaN by (auto simp: bar_ordered_def)
  have "0 < price \<and> ?n (row_low row) \<le> price \<and> price \<le> ?n (row_high row)"
    if "resolve_exit p (?n (row_open row)) (?n (row_high row)) (?n (row_low row)) = Some (price, reason)" for p price reason
    using resolve_exit_within_bar [OF that b(2)] flt_less_le_trans [OF b(1)] by blast
  then show ?thesis using r b by blast
qed

section \<open>Witnesses\<close>

text \<open>Buys on the first bar it sees and asks to leave as soon as it holds a position.\<close>

definition flip_step :: "unit strategy_step" where
  "flip_step st b pos =
     Inr (Some (default_signal\<lparr>sr_action := ''buy'',
            sr_direction := (if (case pos of Some p \<Rightarrow> p ''size'' = Some (PFloat 0) | None \<Rightarrow> True)
                             then ''long'' else ''exit'')\<rparr>), ())"

lemma flip_queued:
  "case run_bars default_config flip_step 0 0 [sample_row 1 8, sample_row 2 8]
          (initial_book default_config (Fin 16384), ()) of
     Inr (b, _) \<Rightarrow> pending_exit (bk_state b) \<noteq> None \<and> trades (bk_state b) = [] | Inl _ \<Rightarrow> False"
  by code_simp

lemma flip_finished:
  "case run_loop default_config flip_step ([sample_row 1 8, sample_row 2 8] @ [sample_row 3 12]) () (Fin 16384) 0 0 of
     Inr _ \<Rightarrow> True | Inl _ \<Rightarrow> False"
  by code_simp

theorem exit_signal_is_served_witness:
  "\<exists>b t ts. run_loop default_config flip_step ([sample_row 1 8, sample_row 2 8] @ [sample_row 3 12]) () (Fin 16384) 0 0
           = Inr (b, ()) \<and>
     trades (bk_state b) = t # ts \<and> td_exit_reason t = ''signal_exit_next_open'' \<and> td_exit_date t = ''2024-01-03''"
proof -
  obtain b1 where 1: "run_bars default_config flip_step 0 0 [sample_row 1 8, sample_row 2 8]
      (initial_book default_config (Fin 16384), ()) = Inr (b1, ())"
    "pending_exit (bk_state b1) \<noteq> None" "trades (bk_state b1) = []"
    using flip_queued by (auto split: sum.splits)
  obtain b where 2: "run_loop default_config flip_step ([sample_row 1 8, sample_row 2 8] @ [sample_row 3 12]) ()
      (Fin 16384) 0 0 = Inr (b, ())"
    using flip_finished by (auto split: sum.splits)
  have "row_date (row_index (sample_row 3 12)) = ''2024-01-03''" by code_simp
  then show ?thesis using exit_signal_is_served [OF 1(1,2) 2] 1(3) 2 by auto
qed

definition sample_pandas :: pandas_ops where
  "sample_pandas = \<lparr>pd_label = row_date,
     pd_monotonic = (\<lambda>is. sort_strings (map row_date is) = map row_date is),
     pd_numeric = (\<lambda>v. case py_float v of Inr x \<Rightarrow> x | Inl _ \<Rightarrow> NaN)\<rparr>"

definition sample_frame :: BarFrame where
  "sample_frame = \<lparr>fr_columns = price_columns, fr_rows = [sample_row 1 8, sample_row 2 8]\<rparr>"

lemma sample_frame_valid: "validate_backtest_frame sample_pandas sample_frame = None"
  by code_simp

lemma sample_pandas_agrees: "numeric_agrees sample_pandas"
  by (auto simp: numeric_agrees_def sample_pandas_def split: sum.splits)

theorem validated_bars_fill_inside_witness:
  "\<exists>o' h l cl. py_float (row_open (sample_row 2 8)) = Inr o' \<and> py_float (row_high (sample_row 2 8)) = Inr h \<and>
     py_float (row_low (sample_row 2 8)) = Inr l \<and> py_float (row_close (sample_row 2 8)) = Inr cl \<and>
     0 < l \<and> l \<le> cl \<and> cl \<le> h \<and> bar_ordered o' h l \<and>
     (\<forall>p price reason. resolve_exit p o' h l = Some (price, reason) \<longrightarrow> 0 < price \<and> l \<le> price \<and> price \<le> h)"
  by (rule validated_bars_fill_inside [OF sample_frame_valid sample_pandas_agrees]) (simp add: sample_frame_def)

definition flip_strategy :: "unit TradingStrategy" where
  "flip_strategy = \<lparr>ts_meta_name = (\<lambda>_. ''sample''), ts_reset = (\<lambda>s. s), ts_on_bar = flip_step\<rparr>"

definition square_pow :: pow_fun where
  "square_pow x y = Inr (x * x)"

lemma sample_report:
  "case run sample_pandas square_pow sample_frame flip_strategy () (Fin 16384) Map.empty of
     Inr (Report r, _) \<Rightarrow> rp_warmup_bars r = 0 | _ \<Rightarrow> False"
  by code_simp

theorem report_is_consistent_witness:
  "\<exists>r. run sample_pandas square_pow sample_frame flip_strategy () (Fin 16384) Map.empty = Inr (Report r, ()) \<and>
     rp_bar_count r = 2 \<and> rp_start_date r = ''2024-01-01'' \<and>
     m_winning_trades (rp_metrics r) + m_losing_trades (rp_metrics r) = m_total_trades (rp_metrics r)"
proof -
  obtain r where r: "run sample_pandas square_pow sample_frame flip_strategy () (Fin 16384) Map.empty = Inr (Report r, ())"
    and w: "rp_warmup_bars r = 0"
    using sample_report by (auto split: sum.splits BacktestResult.splits)
  have "row_date (row_index (sample_row 1 8)) = ''2024-01-01''" by code_simp
  then show ?thesis using report_is_consistent [OF r] r w by (auto simp: Let_def sample_frame_def)
qed

end
