(* ===== verification/ExecutionProperties.thy ===== *)
theory ExecutionProperties
  imports PositionExecutor
begin

text \<open>
  The properties of the execution layer (sizing, entries, exits, costs and margin), each a few
  lines over the lemmas of the theory that models the part, and their instances at concrete inputs.
\<close>

section \<open>Exits inside a bar\<close>

text \<open>
  Every exit a bar triggers fills at a price the bar traded at: between its low and its high,
  gaps included.
\<close>

theorem exit_price_within_bar:
  assumes "resolve_exit p open_price high low = Some (price, reason)" "bar_ordered open_price high low"
  shows "low \<le> price \<and> price \<le> high"
  using assms by (rule resolve_exit_within_bar)

definition sample_long :: SimulatedPosition where
  "sample_long = new_position\<lparr>p_size := Fin 10, p_direction := ''long'', p_entry_price := Fin 100,
     p_entry_date := ''2024-01-02'', p_stop_price := Fin 95, p_target_price := Fin 105\<rparr>"

definition sample_short :: SimulatedPosition where
  "sample_short = sample_long\<lparr>p_size := Fin (- 10), p_direction := ''short'', p_stop_price := Fin 105,
     p_target_price := Fin 95\<rparr>"

lemma sample_resolve:
  "resolve_exit sample_long (Fin 100) (Fin 106) (Fin 94) = Some (Fin 95, ''stop_loss'')"
  by code_simp

theorem exit_price_within_bar_witness:
  "resolve_exit sample_long (Fin 100) (Fin 106) (Fin 94) = Some (Fin 95, ''stop_loss'') \<and>
   Fin 94 \<le> Fin 95 \<and> Fin 95 \<le> Fin 106"
proof -
  have "bar_ordered (Fin 100) (Fin 106) (Fin 94)" by (simp add: bar_ordered_def)
  from exit_price_within_bar [OF sample_resolve this] show ?thesis using sample_resolve by simp
qed



section \<open>Costs\<close>

text \<open>
  Slippage is never in the trader's favour: entries of a long and exits of a short fill at or
  above the raw price, entries of a short and exits of a long at or below it.
\<close>

theorem slippage_never_favourable:
  assumes "is_f64 price" "0 < price" "is_finite price" "is_f64 slip" "slip \<noteq> NaN"
  shows "price \<le> apply_slippage price ''long'' ''entry'' slip \<and>
         apply_slippage price ''long'' ''exit'' slip \<le> price \<and>
         apply_slippage price ''short'' ''entry'' slip \<le> price \<and>
         price \<le> apply_slippage price ''short'' ''exit'' slip"
  using assms by (simp_all add: slippage_adverse_up slippage_adverse_down)

theorem slippage_never_favourable_witness:
  "Fin 100 \<le> apply_slippage (Fin 100) ''long'' ''entry'' (flr (1 / 1000)) \<and>
   apply_slippage (Fin 100) ''long'' ''exit'' (flr (1 / 1000)) \<le> Fin 100"
proof -
  have "is_f64 (Fin 100) \<and> 0 < Fin 100 \<and> is_finite (Fin 100) \<and> is_f64 (flr (1 / 1000))" by code_simp
  then show ?thesis
    using slippage_never_favourable [of "Fin 100" "flr (1 / 1000)"] by simp
qed

text \<open>
  The borrow cost of an exit is total: it is 0 for longs and without a fee, it is 0 when a
  date cannot be read, and no input makes it raise.
\<close>

theorem borrow_cost_never_raises:
  "\<exists>v. borrow_cost c abs_size entry_price direction entry_date exit_date = Inr v \<and>
     (direction \<noteq> ''short'' \<or> borrow_fee_annual_pct c \<le> 0 \<longrightarrow> v = 0) \<and>
     (\<forall>m. time_held entry_date exit_date (borrow_time_basis c) = Inl (ValueError m) \<longrightarrow> v = 0)"
proof -
  obtain v where v: "borrow_cost c abs_size entry_price direction entry_date exit_date = Inr v"
    using borrow_cost_total by blast
  show ?thesis using v by (intro exI [of _ v]) (auto simp: borrow_cost_def split: if_splits)
qed

theorem borrow_cost_never_raises_witness:
  "\<exists>v. borrow_cost (default_config\<lparr>borrow_fee_annual_pct := flr (1 / 100)\<rparr>) (Fin 10) (Fin 100) ''short''
         ''2024-01-02'' '''' = Inr v \<and> v = 0"
proof -
  have "\<exists>m. time_held ''2024-01-02'' '''' ''calendar_day'' = Inl (ValueError m)"
  proof -
    have "case time_held ''2024-01-02'' '''' ''calendar_day'' of Inl (ValueError _) \<Rightarrow> True | _ \<Rightarrow> False"
      by code_simp
    then show ?thesis by (auto split: sum.splits py_error.splits)
  qed
  then show ?thesis
    using borrow_cost_never_raises [of "default_config\<lparr>borrow_fee_annual_pct := flr (1 / 100)\<rparr>" "Fin 10"
        "Fin 100" "''short''" "''2024-01-02''" "''''"]
    by (auto simp: default_config_def)
qed

section \<open>Closing\<close>


definition sample_book :: Book where
  "sample_book = \<lparr>bk_state = (new_state (Fin 9000))\<lparr>position := sample_long\<rparr>, bk_margin = None\<rparr>"


section \<open>Sizing and entries\<close>

text \<open>
  C15.  An entry never exceeds the buying power: unless negative cash is allowed, a resolved size
  that is positive is at most the affordable size at the fill price, commission included.  An
  explicit size needs one of the two explicit-size policies for this.
\<close>

theorem resolved_size_affordable:
  assumes "resolve_size c s e price portfolio date = Inr (sz, t)"
    and "\<not> allow_negative_cash c" "0 < price" "0 < sz"
    and "pe_explicit_size e \<Longrightarrow> cap_explicit_size c \<or> reject_oversized_explicit_orders c"
    and "max_affordable_size c (cash s) price = Inr cap"
    and "\<And>z u. raw_size c e portfolio price date s = Inr (z, u) \<Longrightarrow> z \<noteq> NaN"
  shows "sz \<le> cap"
proof -
  from assms(1,4) obtain z u where r: "raw_size c e portfolio price date s = Inr (z, u)"
    and a: "apply_affordability_cap c e z price date u = Inr (sz, t)"
    by (auto simp: resolve_size_def split: if_splits)
  have "cash u = cash s" using diag_extD [OF raw_size_frame [OF r]] by simp
  then show ?thesis
    using apply_affordability_cap_bound [OF a assms(2,3,4) assms(5) _ assms(7) [OF r]] assms(6) by simp
qed

definition probe_entry :: PendingEntry where
  "probe_entry = \<lparr>pe_direction = ''long'', pe_stop_price = Fin 95, pe_target_price = Fin 110,
     pe_position_size = 0, pe_explicit_size = False, pe_risk_per_trade = flr (1 / 50),
     pe_signal_close = Fin 100\<rparr>"

theorem resolved_size_affordable_witness:
  "\<exists>sz t cap. resolve_size default_config (new_state (Fin 1000)) probe_entry (Fin 100) (Fin 10000) '''' = Inr (sz, t) \<and>
     max_affordable_size default_config (Fin 1000) (Fin 100) = Inr cap \<and> 0 < sz \<and> sz \<le> cap"
proof -
  have "case resolve_size default_config (new_state (Fin 1000)) probe_entry (Fin 100) (Fin 10000) '''' of
          Inr (sz, _) \<Rightarrow> 0 < sz | Inl _ \<Rightarrow> False" by code_simp
  then obtain sz t where r: "resolve_size default_config (new_state (Fin 1000)) probe_entry (Fin 100) (Fin 10000) '''' = Inr (sz, t)"
    and z: "0 < sz" by (auto split: sum.splits)
  have m: "max_affordable_size default_config (cash (new_state (Fin 1000))) (Fin 100) = Inr (Fin 10)" by code_simp
  have "case raw_size default_config probe_entry (Fin 10000) (Fin 100) '''' (new_state (Fin 1000)) of
          Inr (y, _) \<Rightarrow> y = Fin 40 | Inl _ \<Rightarrow> False" by code_simp
  then have n: "y \<noteq> NaN" if "raw_size default_config probe_entry (Fin 10000) (Fin 100) '''' (new_state (Fin 1000)) = Inr (y, u)" for y u
    using that by auto
  have c: "\<not> allow_negative_cash default_config" "0 < Fin 100" "\<not> pe_explicit_size probe_entry"
    by (simp_all add: default_config_def probe_entry_def zero_flt_def)
  have "sz \<le> Fin 10"
    using c(3) by (intro resolved_size_affordable [OF r c(1,2) z _ m]) (blast dest: n)+
  then show ?thesis using r z m by (simp add: new_state_def)
qed



text \<open>
  An execution configuration exists only with known settings: constructing one succeeds
  exactly when the five text settings are values of their enumerations, and the failure is a
  \<open>ValueError\<close>.
\<close>

theorem config_construction:
  "(\<forall>d. mk_ExecutionConfig c = Inr d \<longleftrightarrow> d = c \<and> wf_config c) \<and>
   (\<forall>e. mk_ExecutionConfig c = Inl e \<longrightarrow> (\<exists>msg. e = ValueError msg))"
  using mk_ExecutionConfig_Inr mk_ExecutionConfig_Inl by blast

theorem config_construction_witness:
  "mk_ExecutionConfig default_config = Inr default_config \<and>
   (\<exists>e msg. mk_ExecutionConfig (default_config\<lparr>risk_mode := ''fixed''\<rparr>) = Inl e \<and> e = ValueError msg)"
proof -
  have "wf_config default_config" "\<not> wf_config (default_config\<lparr>risk_mode := ''fixed''\<rparr>)" by code_simp+
  then have "mk_ExecutionConfig default_config = Inr default_config"
    "isl (mk_ExecutionConfig (default_config\<lparr>risk_mode := ''fixed''\<rparr>))"
    using config_construction [of default_config]
      config_construction [of "default_config\<lparr>risk_mode := ''fixed''\<rparr>"]
    by (auto simp: not_isl) (meson not_isl)
  then show ?thesis
    using config_construction [of "default_config\<lparr>risk_mode := ''fixed''\<rparr>"]
    by (cases "mk_ExecutionConfig (default_config\<lparr>risk_mode := ''fixed''\<rparr>)") auto
qed

section \<open>Margin calls\<close>

lemma parse_timestamp_empty: "\<exists>m. parse_timestamp '''' basis = Inl (ValueError m)"
  using fromisoformat_short [of "''''"]
  by (cases "basis = ''calendar_day''") (auto simp: parse_timestamp_def str_strip_def raise_def)

lemma time_held_empty: "\<exists>m. time_held a '''' basis = Inl (ValueError m)"
proof (cases "parse_timestamp a basis")
  case (Inl e)
  then show ?thesis using parse_timestamp_error [OF Inl] by (auto simp: time_held_def)
next
  case (Inr t)
  then show ?thesis using parse_timestamp_empty [of basis] by (auto simp: time_held_def)
qed

lemma borrow_cost_empty_date: "borrow_cost c z p dir en '''' = Inr 0"
  using time_held_empty [of en "borrow_time_basis c"] by (auto simp: borrow_cost_def)

text \<open>
  A margin call loses the exit date: the trade it records has an empty exit date and is never
  charged a borrow cost, whatever the borrow fee and the time the short was held.
\<close>

theorem margin_call_forgets_date:
  assumes "margin_call_check c close b = Inr b'"
    and "check_margin_call c (position (bk_state b)) close = Some ''liquidation''"
    and "full_margin c" "bk_margin b \<noteq> None"
  shows "\<exists>t. trades (bk_state b') = trades (bk_state b) @ [t] \<and> td_exit_reason t = ''margin_call'' \<and>
           td_exit_date t = '''' \<and> td_borrow_cost t = 0"
proof -
  have e: "close_position c close '''' ''margin_call'' b = Inr b'"
    using assms by (simp add: margin_call_check_def exit_position_def)
  show ?thesis using e
    by (auto elim!: close_positionE simp: trade_to_dict_def borrow_cost_empty_date)
qed

definition sample_liquidated :: Book where
  "sample_liquidated = \<lparr>
     bk_state = (new_state (Fin 9000))\<lparr>position := sample_short\<lparr>p_liquidation_price := Fin 120\<rparr>\<rparr>,
     bk_margin = Some (new_account (Fin 9000))\<rparr>"

definition full_config :: ExecutionConfig where
  "full_config = default_config\<lparr>margin_mode := ''full'', leverage_multiplier := Fin 4,
     borrow_fee_annual_pct := flr (1 / 10)\<rparr>"

theorem margin_call_forgets_date_witness:
  "\<exists>b' t. margin_call_check full_config (Fin 125) sample_liquidated = Inr b' \<and>
     trades (bk_state b') = [t] \<and> td_exit_date t = '''' \<and> td_borrow_cost t = 0"
proof -
  have "\<not> isl (margin_call_check full_config (Fin 125) sample_liquidated)" by code_simp
  then obtain b' where m: "margin_call_check full_config (Fin 125) sample_liquidated = Inr b'"
    by (auto simp: not_isl)
  have l: "check_margin_call full_config (position (bk_state sample_liquidated)) (Fin 125) = Some ''liquidation''"
    by code_simp
  have f: "full_margin full_config" "bk_margin sample_liquidated \<noteq> None"
    "trades (bk_state sample_liquidated) = []"
    by (simp_all add: full_margin_def full_config_def sample_liquidated_def new_state_def)
  show ?thesis using margin_call_forgets_date [OF m l f(1,2)] m f(3) by auto
qed

section \<open>Margin bookkeeping\<close>

text \<open>
  Locking margin never takes more than the free cash and releasing never more than was
  locked: neither side of the account becomes negative.
\<close>

theorem margin_account_never_negative:
  assumes "0 \<le> ma_cash a" "0 \<le> ma_margin_book a" "amount \<noteq> NaN"
    and "is_finite (ma_cash a)" "is_finite (ma_margin_book a)"
  shows "0 \<le> ma_cash (lock_margin amount a) \<and> 0 \<le> ma_margin_book (account_release_margin amount a)"
proof -
  have "0 \<le> x - py_min amount x" if "0 \<le> x" "is_finite x" for x
  proof -
    have "py_min amount x \<le> x"
      using assms(3) that flt_not_less [of x amount] by (auto simp: py_min_def dest: flt_le_not_NaN)
    moreover have "x - py_min amount x \<noteq> NaN"
      using that(2) calculation by (cases x; cases "py_min amount x") (auto simp: minus_flt_def)
    ultimately show ?thesis by (rule flt_minus_nonneg)
  qed
  then show ?thesis using assms by (simp add: lock_margin_def account_release_margin_def Let_def)
qed

theorem margin_account_never_negative_witness:
  "0 \<le> ma_cash (lock_margin (Fin 150) ((new_account (Fin 100))\<lparr>ma_margin_book := Fin 20\<rparr>)) \<and>
   0 \<le> ma_margin_book (account_release_margin (Fin 150) ((new_account (Fin 100))\<lparr>ma_margin_book := Fin 20\<rparr>))"
  by (rule margin_account_never_negative) (simp_all add: new_account_def zero_flt_def)

text \<open>
  Spot trading leaks used margin: in spot mode an entry adds the full notional to
  \<open>used_margin\<close> and the exit that closes the position releases none of it.
\<close>

theorem spot_close_keeps_used_margin:
  assumes "is_spot (leverage_of c)" "close_position c x d r b = Inr b'"
  shows "used_margin (bk_state b') = used_margin (bk_state b)"
  using assms by (auto simp: close_position_def Let_def state_release_margin_def)

theorem spot_close_keeps_used_margin_witness:
  "\<exists>b1 b2. open_position default_config probe_entry (Fin 10) (Fin 100) (Fin 100) ''2024-01-02''
       \<lparr>bk_state = new_state (Fin 9000), bk_margin = None\<rparr> = Inr b1 \<and>
     close_position default_config (Fin 105) ''2024-01-05'' ''take_profit'' b1 = Inr b2 \<and>
     position (bk_state b2) = new_position \<and> used_margin (bk_state b2) = Fin 1000"
proof -
  let ?b = "\<lparr>bk_state = new_state (Fin 9000), bk_margin = None\<rparr>"
  have "case open_position default_config probe_entry (Fin 10) (Fin 100) (Fin 100) ''2024-01-02'' ?b of
          Inr b1 \<Rightarrow> used_margin (bk_state b1) = Fin 1000 \<and>
            \<not> isl (close_position default_config (Fin 105) ''2024-01-05'' ''take_profit'' b1)
        | Inl _ \<Rightarrow> False" by code_simp
  then obtain b1 b2 where
    o: "open_position default_config probe_entry (Fin 10) (Fin 100) (Fin 100) ''2024-01-02'' ?b = Inr b1"
    and u: "used_margin (bk_state b1) = Fin 1000"
    and c: "close_position default_config (Fin 105) ''2024-01-05'' ''take_profit'' b1 = Inr b2"
    by (auto simp: not_isl split: sum.splits)
  have "is_spot (leverage_of default_config)" by (simp add: is_spot_def default_config_def one_flt_def)
  from spot_close_keeps_used_margin [OF this c] have "used_margin (bk_state b2) = Fin 1000" using u by simp
  moreover have "position (bk_state b2) = new_position"
    using exit_position_flat [of default_config "Fin 105" _ _ b1 b2] c by (simp add: exit_position_def)
  ultimately show ?thesis using o c by blast
qed

end
