(* ===== verification/StreamingStates.thy ===== *)
theory StreamingStates
  imports Metrics Conditions
begin

text \<open>
  The incremental indicators of the strategy runtime: the classes of \<open>indicators/streaming\<close> that keep
  a constant amount of state per bar.

    - One record per class, with the fields of its \<open>__init__\<close>; \<open>new_*\<close> is the constructor, \<open>*_update\<close>
      the method \<open>update\<close> (the value returned and the new state, or the exception), \<open>*_reset\<close> the
      method \<open>reset\<close>, \<open>*_value\<close> the property read by the engine.
    - \<open>push_max\<close> appends to a \<open>deque(maxlen=n)\<close>.
    - \<open>streaming_state\<close> states what a user of a state relies on: an invariant, and that \<open>reset\<close> gives
      back the state of construction.  Every class is an instance; a replay after a reset repeats the
      outputs.
\<close>

section \<open>Bars and bounded buffers\<close>

text \<open>\<open>float(bar[k])\<close>.\<close>

definition bar_float :: "bar \<Rightarrow> string \<Rightarrow> flt result" where
  "bar_float b k = (case b k of None \<Rightarrow> raise (KeyError k) | Some v \<Rightarrow> py_float v)"

definition push_max :: "nat \<Rightarrow> 'a \<Rightarrow> 'a list \<Rightarrow> 'a list" where
  "push_max n x xs = (let ys = xs @ [x] in drop (length ys - n) ys)"

text \<open>\<open>max(k, period)\<close> for a period.\<close>

definition period_floor :: "nat \<Rightarrow> int \<Rightarrow> nat" where
  "period_floor k period = max k (nat period)"

definition len_flt :: "nat \<Rightarrow> flt result" where
  "len_flt n = float_of_int (int n)"

section \<open>Simple moving average\<close>

record SmaState =
  sma_period :: nat
  sma_buffer :: "flt list"
  sma_sum :: flt

definition new_sma :: "int \<Rightarrow> SmaState" where
  "new_sma period = \<lparr>sma_period = period_floor 1 period, sma_buffer = [], sma_sum = 0\<rparr>"

definition sma_value :: "SmaState \<Rightarrow> flt result" where
  "sma_value s = (if length (sma_buffer s) < sma_period s then Inr NaN
                  else div_len (sma_sum s) (int (length (sma_buffer s))))"

definition sma_update :: "bar \<Rightarrow> SmaState \<Rightarrow> (flt \<times> SmaState) result" where
  "sma_update b s =
     ebind (bar_float b ''close'') (\<lambda>close.
       let sum1 = (if length (sma_buffer s) = sma_period s then sma_sum s - hd (sma_buffer s) else sma_sum s);
           s' = s\<lparr>sma_buffer := push_max (sma_period s) close (sma_buffer s), sma_sum := sum1 + close\<rparr>
       in ebind (sma_value s') (\<lambda>v. Inr (v, s')))"

definition sma_reset :: "SmaState \<Rightarrow> SmaState" where
  "sma_reset s = s\<lparr>sma_buffer := [], sma_sum := 0\<rparr>"

section \<open>Exponential moving average\<close>

record EmaState =
  ema_period :: nat
  ema_alpha :: flt
  ema_ema :: flt
  ema_seed_buffer :: "flt list"
  ema_seed_sum :: flt
  ema_seeded :: bool

definition new_ema :: "int \<Rightarrow> EmaState result" where
  "new_ema period =
     (let n = period_floor 2 period
      in ebind (len_flt n) (\<lambda>p. ebind (fdiv (Fin 2) (p + 1)) (\<lambda>alpha.
           Inr \<lparr>ema_period = n, ema_alpha = alpha, ema_ema = NaN, ema_seed_buffer = [],
                ema_seed_sum = 0, ema_seeded = False\<rparr>)))"

definition smooth :: "flt \<Rightarrow> flt \<Rightarrow> flt \<Rightarrow> flt" where
  "smooth alpha x prev = alpha * x + (1 - alpha) * prev"

definition ema_update :: "bar \<Rightarrow> EmaState \<Rightarrow> (flt \<times> EmaState) result" where
  "ema_update b s =
     ebind (bar_float b ''close'') (\<lambda>close.
       if \<not> ema_seeded s
       then (let s1 = s\<lparr>ema_seed_buffer := push_max (ema_period s) close (ema_seed_buffer s),
                        ema_seed_sum := ema_seed_sum s + close\<rparr>
             in if length (ema_seed_buffer s1) = ema_period s
                then ebind (div_len (ema_seed_sum s1) (int (ema_period s))) (\<lambda>e.
                       Inr (e, s1\<lparr>ema_ema := e, ema_seeded := True\<rparr>))
                else Inr (NaN, s1))
       else (let e = smooth (ema_alpha s) close (ema_ema s) in Inr (e, s\<lparr>ema_ema := e\<rparr>)))"

definition ema_reset :: "EmaState \<Rightarrow> EmaState" where
  "ema_reset s = s\<lparr>ema_seed_buffer := [], ema_seed_sum := 0, ema_ema := NaN, ema_seeded := False\<rparr>"

definition ema_value :: "EmaState \<Rightarrow> flt result" where
  "ema_value s = Inr (ema_ema s)"

section \<open>Relative strength index\<close>

record RsiState =
  rsi_period :: nat
  rsi_alpha :: flt
  rsi_prev_close :: flt
  rsi_avg_gain :: flt
  rsi_avg_loss :: flt

definition new_rsi :: "int \<Rightarrow> RsiState result" where
  "new_rsi period =
     (let n = period_floor 2 period
      in ebind (div_len 1 (int n)) (\<lambda>alpha.
           Inr \<lparr>rsi_period = n, rsi_alpha = alpha, rsi_prev_close = NaN, rsi_avg_gain = NaN,
                rsi_avg_loss = NaN\<rparr>))"

text \<open>The index of the two averages.\<close>

definition rsi_of :: "flt \<Rightarrow> flt \<Rightarrow> flt result" where
  "rsi_of avg_gain avg_loss =
     (if feq avg_loss 0 then Inr (Fin 100)
      else ebind (fdiv avg_gain avg_loss) (\<lambda>rs. ebind (fdiv (Fin 100) (1 + rs)) (\<lambda>x. Inr (Fin 100 - x))))"

definition rsi_update :: "bar \<Rightarrow> RsiState \<Rightarrow> (flt \<times> RsiState) result" where
  "rsi_update b s =
     ebind (bar_float b ''close'') (\<lambda>close.
       if is_nan (rsi_prev_close s) then Inr (NaN, s\<lparr>rsi_prev_close := close\<rparr>)
       else
         (let change = close - rsi_prev_close s;
              gain = (if 0 < change then change else 0);
              loss = (if change < 0 then - change else 0);
              s1 = s\<lparr>rsi_prev_close := close\<rparr>;
              s2 = (if is_nan (rsi_avg_gain s1) then s1\<lparr>rsi_avg_gain := gain, rsi_avg_loss := loss\<rparr>
                    else s1\<lparr>rsi_avg_gain := smooth (rsi_alpha s1) gain (rsi_avg_gain s1),
                            rsi_avg_loss := smooth (rsi_alpha s1) loss (rsi_avg_loss s1)\<rparr>)
          in ebind (rsi_of (rsi_avg_gain s2) (rsi_avg_loss s2)) (\<lambda>v. Inr (v, s2))))"

definition rsi_reset :: "RsiState \<Rightarrow> RsiState" where
  "rsi_reset s = s\<lparr>rsi_prev_close := NaN, rsi_avg_gain := NaN, rsi_avg_loss := NaN\<rparr>"

definition rsi_value :: "RsiState \<Rightarrow> flt result" where
  "rsi_value s = (if is_nan (rsi_avg_gain s) then Inr NaN else rsi_of (rsi_avg_gain s) (rsi_avg_loss s))"

section \<open>Average true range\<close>

record AtrState =
  atr_period :: nat
  atr_alpha :: flt
  atr_prev_close :: flt
  atr_atr :: flt
  atr_seed_trs :: "flt list"
  atr_seeded :: bool

definition new_atr :: "int \<Rightarrow> AtrState result" where
  "new_atr period =
     (let n = period_floor 1 period
      in ebind (div_len 1 (int n)) (\<lambda>alpha.
           Inr \<lparr>atr_period = n, atr_alpha = alpha, atr_prev_close = NaN, atr_atr = NaN,
                atr_seed_trs = [], atr_seeded = False\<rparr>))"

definition true_range :: "flt \<Rightarrow> flt \<Rightarrow> flt \<Rightarrow> flt" where
  "true_range high low prev_close = py_max (py_max (high - low) \<bar>high - prev_close\<bar>) \<bar>low - prev_close\<bar>"

definition atr_update :: "bar \<Rightarrow> AtrState \<Rightarrow> (flt \<times> AtrState) result" where
  "atr_update b s =
     ebind (bar_float b ''high'') (\<lambda>high.
     ebind (bar_float b ''low'') (\<lambda>low.
     ebind (bar_float b ''close'') (\<lambda>close.
       if is_nan (atr_prev_close s)
       then Inr (NaN, s\<lparr>atr_prev_close := close,
                        atr_seed_trs := push_max (atr_period s) (high - low) (atr_seed_trs s)\<rparr>)
       else
         (let tr = true_range high low (atr_prev_close s); s1 = s\<lparr>atr_prev_close := close\<rparr>
          in if \<not> atr_seeded s1
             then (let s2 = s1\<lparr>atr_seed_trs := push_max (atr_period s1) tr (atr_seed_trs s1)\<rparr>
                   in if length (atr_seed_trs s2) = atr_period s2
                      then ebind (div_len (py_sum (atr_seed_trs s2)) (int (atr_period s2))) (\<lambda>a.
                             Inr (a, s2\<lparr>atr_atr := a, atr_seeded := True\<rparr>))
                      else Inr (NaN, s2))
             else (let a = smooth (atr_alpha s1) tr (atr_atr s1) in Inr (a, s1\<lparr>atr_atr := a\<rparr>))))))"

definition atr_reset :: "AtrState \<Rightarrow> AtrState" where
  "atr_reset s = s\<lparr>atr_prev_close := NaN, atr_atr := NaN, atr_seed_trs := [], atr_seeded := False\<rparr>"

definition atr_value :: "AtrState \<Rightarrow> flt result" where
  "atr_value s = Inr (atr_atr s)"

section \<open>Average directional index\<close>

record AdxState =
  adx_period :: nat
  adx_alpha :: flt
  adx_prev_high :: flt
  adx_prev_low :: flt
  adx_prev_close :: flt
  adx_sm_dmp :: flt
  adx_sm_dmm :: flt
  adx_sm_tr :: flt
  adx_adx :: flt
  adx_seed_dmp :: "flt list"
  adx_seed_dmm :: "flt list"
  adx_seed_tr :: "flt list"
  adx_seeded :: bool
  adx_dx_values :: "flt list"

definition new_adx :: "int \<Rightarrow> AdxState result" where
  "new_adx period =
     (let n = period_floor 2 period
      in ebind (div_len 1 (int n)) (\<lambda>alpha.
           Inr \<lparr>adx_period = n, adx_alpha = alpha, adx_prev_high = NaN, adx_prev_low = NaN,
                adx_prev_close = NaN, adx_sm_dmp = NaN, adx_sm_dmm = NaN, adx_sm_tr = NaN,
                adx_adx = NaN, adx_seed_dmp = [], adx_seed_dmm = [], adx_seed_tr = [],
                adx_seeded = False, adx_dx_values = []\<rparr>))"

definition directional_index :: "flt \<Rightarrow> flt \<Rightarrow> flt \<Rightarrow> flt result" where
  "directional_index sm_dmp sm_dmm sm_tr =
     ebind (if feq sm_tr 0 then Inr 0 else fdiv (Fin 100 * sm_dmp) sm_tr) (\<lambda>di_p.
     ebind (if feq sm_tr 0 then Inr 0 else fdiv (Fin 100 * sm_dmm) sm_tr) (\<lambda>di_m.
       let di_sum = di_p + di_m
       in if feq di_sum 0 then Inr 0 else fdiv (Fin 100 * \<bar>di_p - di_m\<bar>) di_sum))"

definition update_adx :: "AdxState \<Rightarrow> (flt \<times> AdxState) result" where
  "update_adx s =
     ebind (directional_index (adx_sm_dmp s) (adx_sm_dmm s) (adx_sm_tr s)) (\<lambda>dx.
       let s1 = s\<lparr>adx_dx_values := push_max (adx_period s) dx (adx_dx_values s)\<rparr>
       in if is_nan (adx_adx s1)
          then (if length (adx_dx_values s1) = adx_period s1
                then ebind (div_len (py_sum (adx_dx_values s1)) (int (adx_period s1))) (\<lambda>a.
                       Inr (NaN, s1\<lparr>adx_adx := a\<rparr>))
                else Inr (NaN, s1))
          else (let a = smooth (adx_alpha s1) dx (adx_adx s1) in Inr (a, s1\<lparr>adx_adx := a\<rparr>)))"

definition adx_update :: "bar \<Rightarrow> AdxState \<Rightarrow> (flt \<times> AdxState) result" where
  "adx_update b s =
     ebind (bar_float b ''high'') (\<lambda>high.
     ebind (bar_float b ''low'') (\<lambda>low.
     ebind (bar_float b ''close'') (\<lambda>close.
       let prev = s\<lparr>adx_prev_high := high, adx_prev_low := low, adx_prev_close := close\<rparr>
       in if is_nan (adx_prev_high s) then Inr (NaN, prev)
          else
            (let up_move = high - adx_prev_high s;
                 down_move = adx_prev_low s - low;
                 dmp = (if down_move < up_move \<and> 0 < up_move then up_move else 0);
                 dmm = (if up_move < down_move \<and> 0 < down_move then down_move else 0);
                 tr = true_range high low (adx_prev_close s)
             in if \<not> adx_seeded prev
                then (let s2 = prev\<lparr>adx_seed_dmp := push_max (adx_period s) dmp (adx_seed_dmp s),
                                    adx_seed_dmm := push_max (adx_period s) dmm (adx_seed_dmm s),
                                    adx_seed_tr := push_max (adx_period s) tr (adx_seed_tr s)\<rparr>;
                          n = int (adx_period s)
                      in if length (adx_seed_dmp s2) = adx_period s
                         then ebind (div_len (py_sum (adx_seed_dmp s2)) n) (\<lambda>p.
                              ebind (div_len (py_sum (adx_seed_dmm s2)) n) (\<lambda>m.
                              ebind (div_len (py_sum (adx_seed_tr s2)) n) (\<lambda>t.
                                update_adx (s2\<lparr>adx_sm_dmp := p, adx_sm_dmm := m, adx_sm_tr := t,
                                               adx_seeded := True\<rparr>))))
                         else Inr (NaN, s2))
                else update_adx (prev\<lparr>adx_sm_dmp := smooth (adx_alpha s) dmp (adx_sm_dmp s),
                                      adx_sm_dmm := smooth (adx_alpha s) dmm (adx_sm_dmm s),
                                      adx_sm_tr := smooth (adx_alpha s) tr (adx_sm_tr s)\<rparr>)))))"

definition adx_reset :: "AdxState \<Rightarrow> AdxState" where
  "adx_reset s = s\<lparr>adx_prev_high := NaN, adx_prev_low := NaN, adx_prev_close := NaN, adx_sm_dmp := NaN,
     adx_sm_dmm := NaN, adx_sm_tr := NaN, adx_adx := NaN, adx_seed_dmp := [], adx_seed_dmm := [],
     adx_seed_tr := [], adx_dx_values := [], adx_seeded := False\<rparr>"

definition adx_value :: "AdxState \<Rightarrow> flt result" where
  "adx_value s = Inr (adx_adx s)"

section \<open>Bollinger bands\<close>

record BbState =
  bb_period :: nat
  bb_nbdev :: flt
  bb_buffer :: "flt list"
  bb_sum :: flt
  bb_sum_sq :: flt

definition new_bb :: "int \<Rightarrow> flt \<Rightarrow> BbState" where
  "new_bb period nbdev = \<lparr>bb_period = period_floor 2 period, bb_nbdev = nbdev, bb_buffer = [], bb_sum = 0,
                          bb_sum_sq = 0\<rparr>"

definition bb_update :: "bar \<Rightarrow> BbState \<Rightarrow> (flt \<times> BbState) result" where
  "bb_update b s =
     ebind (bar_float b ''close'') (\<lambda>close.
       let full = (length (bb_buffer s) = bb_period s); old = hd (bb_buffer s);
           s1 = (if full then s\<lparr>bb_sum := bb_sum s - old, bb_sum_sq := bb_sum_sq s - old * old\<rparr> else s)
       in Inr (NaN, s1\<lparr>bb_buffer := push_max (bb_period s) close (bb_buffer s),
                       bb_sum := bb_sum s1 + close, bb_sum_sq := bb_sum_sq s1 + close * close\<rparr>))"

definition bb_reset :: "BbState \<Rightarrow> BbState" where
  "bb_reset s = s\<lparr>bb_buffer := [], bb_sum := 0, bb_sum_sq := 0\<rparr>"

definition bb_std :: "BbState \<Rightarrow> flt result" where
  "bb_std s =
     (let n = int (length (bb_buffer s))
      in if n < 2 then Inr 0
         else ebind (div_len (bb_sum s) n) (\<lambda>mean.
              ebind (div_len (bb_sum_sq s) n) (\<lambda>msq.
              let v0 = msq - mean * mean; v1 = (if v0 < 0 then 0 else v0)
              in ebind (float_of_int n) (\<lambda>nf.
                 ebind (div_len (v1 * nf) (n - 1)) py_sqrt))))"

definition bb_middle :: "BbState \<Rightarrow> flt result" where
  "bb_middle s = (if length (bb_buffer s) < bb_period s then Inr NaN
                  else div_len (bb_sum s) (int (length (bb_buffer s))))"

definition bb_band :: "(flt \<Rightarrow> flt \<Rightarrow> flt) \<Rightarrow> BbState \<Rightarrow> flt result" where
  "bb_band f s =
     (if length (bb_buffer s) < bb_period s then Inr NaN
      else ebind (bb_std s) (\<lambda>std.
           ebind (bb_middle s) (\<lambda>m.
             Inr (if is_nan std \<or> feq std 0 then m else f m (bb_nbdev s * std)))))"

definition bb_upper :: "BbState \<Rightarrow> flt result" where
  "bb_upper s = bb_band (+) s"

definition bb_lower :: "BbState \<Rightarrow> flt result" where
  "bb_lower s = bb_band (-) s"

section \<open>Internal bar strength\<close>

record IbsState =
  ibs_current :: flt

definition new_ibs :: IbsState where
  "new_ibs = \<lparr>ibs_current = NaN\<rparr>"

definition ibs_update :: "bar \<Rightarrow> IbsState \<Rightarrow> (flt \<times> IbsState) result" where
  "ibs_update b s =
     ebind (bar_float b ''high'') (\<lambda>high.
     ebind (bar_float b ''low'') (\<lambda>low.
     ebind (bar_float b ''close'') (\<lambda>close.
       let rng = high - low
       in if feq rng 0 then Inr (NaN, s\<lparr>ibs_current := NaN\<rparr>)
          else ebind (fdiv (close - low) rng) (\<lambda>v. Inr (v, s\<lparr>ibs_current := v\<rparr>)))))"

definition ibs_reset :: "IbsState \<Rightarrow> IbsState" where
  "ibs_reset s = s\<lparr>ibs_current := NaN\<rparr>"

definition ibs_value :: "IbsState \<Rightarrow> flt result" where
  "ibs_value s = Inr (ibs_current s)"

section \<open>Efficiency ratio\<close>

record KerState =
  ker_period :: nat
  ker_closes :: "flt list"
  ker_abs_changes :: "flt list"
  ker_abs_changes_sum :: flt
  ker_prev_close :: flt

definition new_ker :: "int \<Rightarrow> KerState" where
  "new_ker period = \<lparr>ker_period = period_floor 2 period, ker_closes = [], ker_abs_changes = [],
                     ker_abs_changes_sum = 0, ker_prev_close = NaN\<rparr>"

definition ker_value :: "KerState \<Rightarrow> flt result" where
  "ker_value s =
     (if length (ker_closes s) < ker_period s + 1 then Inr NaN
      else (let numerator = \<bar>last (ker_closes s) - hd (ker_closes s)\<bar>
            in if feq (ker_abs_changes_sum s) 0 then Inr (if feq numerator 0 then 0 else NaN)
               else fdiv numerator (ker_abs_changes_sum s)))"

definition ker_update :: "bar \<Rightarrow> KerState \<Rightarrow> (flt \<times> KerState) result" where
  "ker_update b s =
     ebind (bar_float b ''close'') (\<lambda>close.
       if is_nan (ker_prev_close s)
       then Inr (NaN, s\<lparr>ker_prev_close := close, ker_closes := push_max (ker_period s + 1) close (ker_closes s)\<rparr>)
       else
         (let abs_change = \<bar>close - ker_prev_close s\<bar>;
              sum1 = (if length (ker_abs_changes s) = ker_period s
                      then ker_abs_changes_sum s - hd (ker_abs_changes s) else ker_abs_changes_sum s);
              s1 = s\<lparr>ker_prev_close := close,
                     ker_abs_changes := push_max (ker_period s) abs_change (ker_abs_changes s),
                     ker_abs_changes_sum := sum1 + abs_change,
                     ker_closes := push_max (ker_period s + 1) close (ker_closes s)\<rparr>
          in ebind (ker_value s1) (\<lambda>v. Inr (v, s1))))"

definition ker_reset :: "KerState \<Rightarrow> KerState" where
  "ker_reset s = s\<lparr>ker_closes := [], ker_abs_changes := [], ker_abs_changes_sum := 0, ker_prev_close := NaN\<rparr>"

section \<open>Adaptive moving average\<close>

record KamaState =
  kama_ker :: KerState
  kama_fast_sc :: flt
  kama_slow_sc :: flt
  kama_kama :: flt

definition new_kama :: "int \<Rightarrow> int \<Rightarrow> int \<Rightarrow> KamaState result" where
  "new_kama period fast_period slow_period =
     ebind (float_of_int fast_period) (\<lambda>f.
     ebind (fdiv (Fin 2) (f + 1)) (\<lambda>fast.
     ebind (float_of_int slow_period) (\<lambda>w.
     ebind (fdiv (Fin 2) (w + 1)) (\<lambda>slow.
       Inr \<lparr>kama_ker = new_ker period, kama_fast_sc = fast, kama_slow_sc = slow, kama_kama = NaN\<rparr>))))"

definition kama_update :: "pow_fun \<Rightarrow> bar \<Rightarrow> KamaState \<Rightarrow> (flt \<times> KamaState) result" where
  "kama_update fpow b s =
     ebind (bar_float b ''close'') (\<lambda>close.
     ebind (ker_update b (kama_ker s)) (\<lambda>(er, k).
       let s1 = s\<lparr>kama_ker := k\<rparr>
       in if is_nan er then Inr (NaN, s1)
          else ebind (fpow (er * (kama_fast_sc s1 - kama_slow_sc s1) + kama_slow_sc s1) (Fin 2)) (\<lambda>sc.
               if is_nan (kama_kama s1) then Inr (close, s1\<lparr>kama_kama := close\<rparr>)
               else (let v = kama_kama s1 + sc * (close - kama_kama s1) in Inr (v, s1\<lparr>kama_kama := v\<rparr>)))))"

definition kama_reset :: "KamaState \<Rightarrow> KamaState" where
  "kama_reset s = s\<lparr>kama_ker := ker_reset (kama_ker s), kama_kama := NaN\<rparr>"

definition kama_value :: "KamaState \<Rightarrow> flt result" where
  "kama_value s = Inr (kama_kama s)"

section \<open>MACD\<close>

record MacdState =
  macd_fast :: EmaState
  macd_slow :: EmaState
  macd_signal_ema :: EmaState
  macd_macd :: flt
  macd_signal_val :: flt

definition new_macd :: "MacdState result" where
  "new_macd =
     ebind (new_ema 12) (\<lambda>f. ebind (new_ema 26) (\<lambda>s. ebind (new_ema 9) (\<lambda>g.
       Inr \<lparr>macd_fast = f, macd_slow = s, macd_signal_ema = g, macd_macd = NaN, macd_signal_val = NaN\<rparr>)))"

definition macd_update :: "bar \<Rightarrow> MacdState \<Rightarrow> (flt \<times> MacdState) result" where
  "macd_update b s =
     ebind (ema_update b (macd_fast s)) (\<lambda>(fast_val, f).
     ebind (ema_update b (macd_slow s)) (\<lambda>(slow_val, w).
       let s1 = s\<lparr>macd_fast := f, macd_slow := w\<rparr>
       in if is_nan fast_val \<or> is_nan slow_val then Inr (NaN, s1)
          else (let m = fast_val - slow_val
                in ebind (ema_update [''close'' \<mapsto> PFloat m] (macd_signal_ema s1)) (\<lambda>(sig, g).
                     Inr (NaN, s1\<lparr>macd_macd := m, macd_signal_ema := g, macd_signal_val := sig\<rparr>)))))"

definition macd_reset :: "MacdState \<Rightarrow> MacdState" where
  "macd_reset s = s\<lparr>macd_fast := ema_reset (macd_fast s), macd_slow := ema_reset (macd_slow s),
     macd_signal_ema := ema_reset (macd_signal_ema s), macd_macd := NaN, macd_signal_val := NaN\<rparr>"

definition macd_line :: "MacdState \<Rightarrow> flt" where
  "macd_line s = macd_macd s"

definition macd_signal :: "MacdState \<Rightarrow> flt" where
  "macd_signal s = macd_signal_val s"

definition macd_hist :: "MacdState \<Rightarrow> flt" where
  "macd_hist s = (if is_nan (macd_macd s) \<or> is_nan (macd_signal_val s) then NaN
                  else macd_macd s - macd_signal_val s)"

section \<open>Relative volume\<close>

record RvolState =
  rvol_period :: nat
  rvol_buffer :: "flt list"
  rvol_sum :: flt

definition new_rvol :: "int \<Rightarrow> RvolState" where
  "new_rvol period = \<lparr>rvol_period = period_floor 1 period, rvol_buffer = [], rvol_sum = 0\<rparr>"

definition rvol_value :: "RvolState \<Rightarrow> flt result" where
  "rvol_value s =
     (if length (rvol_buffer s) < rvol_period s then Inr NaN
      else ebind (div_len (rvol_sum s) (int (length (rvol_buffer s)))) (\<lambda>avg.
           if feq avg 0 then Inr NaN else fdiv (last (rvol_buffer s)) avg))"

definition rvol_update :: "bar \<Rightarrow> RvolState \<Rightarrow> (flt \<times> RvolState) result" where
  "rvol_update b s =
     ebind (bar_float b ''volume'') (\<lambda>volume.
       let sum1 = (if length (rvol_buffer s) = rvol_period s then rvol_sum s - hd (rvol_buffer s) else rvol_sum s);
           s' = s\<lparr>rvol_buffer := push_max (rvol_period s) volume (rvol_buffer s), rvol_sum := sum1 + volume\<rparr>
       in if length (rvol_buffer s') < rvol_period s' then Inr (NaN, s')
          else ebind (div_len (rvol_sum s') (int (length (rvol_buffer s')))) (\<lambda>avg.
               if feq avg 0 then Inr (NaN, s') else ebind (fdiv volume avg) (\<lambda>v. Inr (v, s'))))"

definition rvol_reset :: "RvolState \<Rightarrow> RvolState" where
  "rvol_reset s = s\<lparr>rvol_buffer := [], rvol_sum := 0\<rparr>"

section \<open>Session VWAP\<close>

text \<open>
  The calendar date of a time stamp is read with pandas; it is the argument \<open>bar_date\<close>.
\<close>

record VwapState =
  vwap_cum_pv :: flt
  vwap_cum_vol :: flt
  vwap_last_date :: "string option"

definition new_vwap :: VwapState where
  "new_vwap = \<lparr>vwap_cum_pv = 0, vwap_cum_vol = 0, vwap_last_date = None\<rparr>"

definition vwap_value :: "VwapState \<Rightarrow> flt result" where
  "vwap_value s = (if feq (vwap_cum_vol s) 0 then Inr NaN else fdiv (vwap_cum_pv s) (vwap_cum_vol s))"

definition vwap_session :: "(pyval \<Rightarrow> string result) \<Rightarrow> pyval option \<Rightarrow> VwapState \<Rightarrow> VwapState result" where
  "vwap_session bar_date ts s =
     (if ts = None \<or> ts = Some PNone then Inr s
      else ebind (bar_date (the ts)) (\<lambda>d.
        let s1 = (if vwap_last_date s \<noteq> None \<and> vwap_last_date s \<noteq> Some d
                  then s\<lparr>vwap_cum_pv := 0, vwap_cum_vol := 0\<rparr> else s)
        in Inr (s1\<lparr>vwap_last_date := Some d\<rparr>)))"

definition vwap_update ::
  "(pyval \<Rightarrow> string result) \<Rightarrow> bar \<Rightarrow> VwapState \<Rightarrow> (flt \<times> VwapState) result" where
  "vwap_update bar_date b s =
     ebind (bar_float b ''high'') (\<lambda>high.
     ebind (bar_float b ''low'') (\<lambda>low.
     ebind (bar_float b ''close'') (\<lambda>close.
     ebind (bar_float b ''volume'') (\<lambda>volume.
     ebind (fdiv (high + low + close) (Fin 3)) (\<lambda>typical_price.
     ebind (vwap_session bar_date (b ''timestamp'') s) (\<lambda>s1.
       let s2 = (if volume \<le> 0 then s1
                 else s1\<lparr>vwap_cum_pv := vwap_cum_pv s1 + typical_price * volume,
                         vwap_cum_vol := vwap_cum_vol s1 + volume\<rparr>)
       in ebind (vwap_value s2) (\<lambda>v. Inr (v, s2))))))))"

definition vwap_reset :: "VwapState \<Rightarrow> VwapState" where
  "vwap_reset s = s\<lparr>vwap_cum_pv := 0, vwap_cum_vol := 0, vwap_last_date := None\<rparr>"

section \<open>The interface of a state\<close>

text \<open>Feeding bars one after the other; the values returned and the last state.\<close>

fun feed :: "(bar \<Rightarrow> 's \<Rightarrow> ('v \<times> 's) result) \<Rightarrow> bar list \<Rightarrow> 's \<Rightarrow> ('v list \<times> 's) result" where
  "feed update [] s = Inr ([], s)"
| "feed update (b # bs) s =
     ebind (update b s) (\<lambda>(v, s1). ebind (feed update bs s1) (\<lambda>(vs, s2). Inr (v # vs, s2)))"

lemma feed_append:
  "feed update (bs @ cs) s =
     ebind (feed update bs s) (\<lambda>(vs, s1). ebind (feed update cs s1) (\<lambda>(ws, s2). Inr (vs @ ws, s2)))"
proof (induction bs arbitrary: s)
  case Nil
  then show ?case by (cases "feed update cs s") (auto split: prod.splits)
next
  case (Cons b bs)
  show ?case
  proof (cases "update b s")
    case (Inr vs)
    show ?thesis
    proof (cases "feed update bs (snd vs)")
      case (Inr ws)
      then show ?thesis using Cons.IH [of "snd vs"] \<open>update b s = Inr vs\<close>
        by (cases "feed update cs (snd ws)") (auto split: prod.splits)
    qed (use Cons.IH [of "snd vs"] Inr in \<open>auto split: prod.splits\<close>)
  qed simp
qed

lemma feed_length: "feed update bs s = Inr (vs, s') \<Longrightarrow> length vs = length bs"
  by (induction bs arbitrary: s vs) (auto split: prod.splits)

lemma feed_invariant:
  "feed update bs s = Inr (vs, s') \<Longrightarrow> P s \<Longrightarrow>
   (\<And>b s v s'. update b s = Inr (v, s') \<Longrightarrow> P s \<Longrightarrow> P s' \<and> Q v) \<Longrightarrow> P s' \<and> list_all Q vs"
proof (induction bs arbitrary: s vs)
  case (Cons b bs)
  then obtain v s1 ws where u: "update b s = Inr (v, s1)" "feed update bs s1 = Inr (ws, s')" "vs = v # ws"
    by (auto split: prod.splits)
  show ?case using Cons.IH [OF u(2)] Cons.prems(2,3) u(1,3) by auto
qed simp

locale streaming_state =
  fixes fresh :: "'s \<Rightarrow> bool"
    and update :: "bar \<Rightarrow> 's \<Rightarrow> ('v \<times> 's) result"
    and reset :: "'s \<Rightarrow> 's"
  assumes reset_fresh: "fresh s \<Longrightarrow> reset s = s"
    and update_reset: "update b s = Inr (v, s') \<Longrightarrow> reset s' = reset s"
begin

lemma feed_reset: "feed update bs s = Inr (vs, s') \<Longrightarrow> reset s' = reset s"
proof (induction bs arbitrary: s vs)
  case (Cons b bs)
  then obtain v s1 ws where u: "update b s = Inr (v, s1)" "feed update bs s1 = Inr (ws, s')"
    by (auto split: prod.splits)
  show ?case using Cons.IH [OF u(2)] update_reset [OF u(1)] by simp
qed simp

lemma reset_to_fresh: "fresh s \<Longrightarrow> feed update bs s = Inr (vs, s') \<Longrightarrow> reset s' = s"
  using feed_reset reset_fresh by metis

lemma replay:
  "fresh s \<Longrightarrow> feed update bs s = Inr (vs, s') \<Longrightarrow> feed update cs (reset s') = feed update cs s"
  by (simp add: reset_to_fresh)

end

text \<open>States whose \<open>value\<close> property is the value the last update returned.\<close>

locale streaming_value = streaming_state +
  fixes val :: "'s \<Rightarrow> 'v result" and inv :: "'s \<Rightarrow> bool"
  assumes inv_fresh: "fresh s \<Longrightarrow> inv s"
    and inv_update: "inv s \<Longrightarrow> update b s = Inr (v, s') \<Longrightarrow> inv s'"
    and update_val: "inv s \<Longrightarrow> update b s = Inr (v, s') \<Longrightarrow> val s' = Inr v"
begin

lemma feed_inv: "inv s \<Longrightarrow> feed update bs s = Inr (vs, s') \<Longrightarrow> inv s'"
  by (induction bs arbitrary: s vs) (auto intro: inv_update split: prod.splits)

lemma value_is_last_output:
  assumes "fresh s" "feed update bs s = Inr (vs, s')" "bs \<noteq> []"
  shows "val s' = Inr (last vs)"
proof -
  obtain cs b where bs: "bs = cs @ [b]" using assms(3) by (cases bs rule: rev_cases) auto
  with assms(2) obtain ws s1 v where f: "feed update cs s = Inr (ws, s1)" "update b s1 = Inr (v, s')"
    "vs = ws @ [v]"
    by (auto simp: feed_append split: prod.splits)
  show ?thesis using update_val [OF feed_inv [OF inv_fresh [OF assms(1)] f(1)] f(2)] f(3) by simp
qed

end

text \<open>The laws hold for every class.\<close>

lemma length_push_max: "length xs \<le> n \<Longrightarrow> length (push_max n x xs) = min n (Suc (length xs))"
  by (simp add: push_max_def)

lemma push_max_last [simp]: "0 < n \<Longrightarrow> push_max n x xs \<noteq> [] \<and> last (push_max n x xs) = x"
  by (simp add: push_max_def Let_def last_drop)

lemma at_least_pos [simp]: "0 < k \<Longrightarrow> 0 < period_floor k n"
  by (simp add: period_floor_def)

interpretation sma: streaming_value "\<lambda>s. \<exists>n. s = new_sma n" sma_update sma_reset sma_value "\<lambda>_. True"
  by unfold_locales (auto simp: new_sma_def sma_reset_def sma_update_def Let_def)

interpretation ema: streaming_value "\<lambda>s. \<exists>n. new_ema n = Inr s" ema_update ema_reset ema_value
  "\<lambda>s. \<not> ema_seeded s \<longrightarrow> ema_ema s = NaN"
  by unfold_locales
    (auto simp: new_ema_def ema_reset_def ema_update_def ema_value_def Let_def split: if_splits)

interpretation rsi: streaming_state "\<lambda>s. \<exists>n. new_rsi n = Inr s" rsi_update rsi_reset
  by unfold_locales (auto simp: new_rsi_def rsi_reset_def rsi_update_def Let_def split: if_splits)

interpretation atr: streaming_state "\<lambda>s. \<exists>n. new_atr n = Inr s" atr_update atr_reset
  by unfold_locales (auto simp: new_atr_def atr_reset_def atr_update_def Let_def split: if_splits)

lemma update_adx_reset: "update_adx s = Inr (v, s') \<Longrightarrow> adx_reset s' = adx_reset s"
  by (auto simp: update_adx_def adx_reset_def Let_def split: if_splits)

interpretation adx: streaming_state "\<lambda>s. \<exists>n. new_adx n = Inr s" adx_update adx_reset
proof unfold_locales
  show "\<exists>n. new_adx n = Inr s \<Longrightarrow> adx_reset s = s" for s
    by (auto simp: new_adx_def adx_reset_def Let_def)
  show "adx_update b s = Inr (v, s') \<Longrightarrow> adx_reset s' = adx_reset s" for b s v s'
    by (auto simp: adx_update_def Let_def split: if_splits dest!: update_adx_reset)
      (simp_all add: adx_reset_def)
qed

interpretation bb: streaming_state "\<lambda>s. \<exists>n d. s = new_bb n d" bb_update bb_reset
  by unfold_locales (auto simp: new_bb_def bb_reset_def bb_update_def Let_def)

interpretation ibs: streaming_value "\<lambda>s. s = new_ibs" ibs_update ibs_reset ibs_value "\<lambda>_. True"
  by unfold_locales
    (auto simp: new_ibs_def ibs_reset_def ibs_update_def ibs_value_def Let_def split: if_splits)

interpretation ker: streaming_state "\<lambda>s. \<exists>n. s = new_ker n" ker_update ker_reset
  by unfold_locales (auto simp: new_ker_def ker_reset_def ker_update_def Let_def split: if_splits)

interpretation kama: streaming_state "\<lambda>s. \<exists>p f w. new_kama p f w = Inr s" "kama_update fpow" kama_reset for fpow
proof unfold_locales
  show "\<exists>p f w. new_kama p f w = Inr s \<Longrightarrow> kama_reset s = s" for s
    using ker.reset_fresh [OF exI, OF refl] by (auto simp: new_kama_def kama_reset_def)
  show "kama_update fpow b s = Inr (v, s') \<Longrightarrow> kama_reset s' = kama_reset s" for b s v s'
    by (auto simp: kama_update_def kama_reset_def Let_def split: if_splits prod.splits dest!: ker.update_reset)
qed

interpretation macd: streaming_state "\<lambda>s. new_macd = Inr s" macd_update macd_reset
proof unfold_locales
  show "new_macd = Inr s \<Longrightarrow> macd_reset s = s" for s
    using ema.reset_fresh [OF exI] by (auto simp: new_macd_def macd_reset_def)
  show "macd_update b s = Inr (v, s') \<Longrightarrow> macd_reset s' = macd_reset s" for b s v s'
    by (auto simp: macd_update_def macd_reset_def Let_def split: if_splits prod.splits dest!: ema.update_reset)
qed

interpretation rvol: streaming_value "\<lambda>s. \<exists>n. s = new_rvol n" rvol_update rvol_reset rvol_value
  "\<lambda>s. 0 < rvol_period s"
  by unfold_locales
    (auto simp: new_rvol_def rvol_reset_def rvol_update_def rvol_value_def Let_def split: if_splits)

lemma vwap_session_reset: "vwap_session d ts s = Inr s' \<Longrightarrow> vwap_reset s' = vwap_reset s"
  by (auto simp: vwap_session_def vwap_reset_def Let_def split: if_splits)

interpretation vwap: streaming_value "\<lambda>s. s = new_vwap" "vwap_update bar_date" vwap_reset vwap_value "\<lambda>_. True"
  for bar_date
  by unfold_locales
    (auto simp: new_vwap_def vwap_update_def vwap_reset_def Let_def)

lemmas fresh_resets =
  sma.reset_fresh [OF exI, OF refl] ema.reset_fresh [OF exI] rsi.reset_fresh [OF exI]
  atr.reset_fresh [OF exI] adx.reset_fresh [OF exI] bb.reset_fresh [OF exI, OF exI, OF refl]
  macd.reset_fresh vwap.reset_fresh [OF refl] ibs.reset_fresh [OF refl] rvol.reset_fresh [OF exI, OF refl]
  ker.reset_fresh [OF exI, OF refl] kama.reset_fresh [OF exI, OF exI, OF exI]

lemmas update_resets =
  sma.update_reset ema.update_reset rsi.update_reset atr.update_reset adx.update_reset bb.update_reset
  macd.update_reset vwap.update_reset ibs.update_reset rvol.update_reset ker.update_reset kama.update_reset

end
