(* ===== verification/StreamingProperties.thy ===== *)
theory StreamingProperties
  imports StreamingStates
begin

text \<open>
  What the incremental indicators compute: the ranges of RSI and of the internal bar strength, the
  simple moving average against the mean of its window, and what a NaN close does to it.
\<close>

section \<open>Non-negative floats\<close>

definition nn :: "flt \<Rightarrow> bool" where
  "nn x \<longleftrightarrow> x = NaN \<or> 0 \<le> x"

lemma nn_NaN [simp]: "nn NaN" and nn_zero [simp]: "nn 0"
  by (simp_all add: nn_def)

lemma nn_plus: "nn x \<Longrightarrow> nn y \<Longrightarrow> nn (x + y)"
  using flr_mono [of 0] by (cases x; cases y) (auto simp: nn_def zero_flt_def)

lemma nn_times: "nn x \<Longrightarrow> nn y \<Longrightarrow> nn (x * y)"
  using flt_times_nonneg [of x y] by (auto simp: nn_def)

lemma nn_fdiv: "nn x \<Longrightarrow> nn y \<Longrightarrow> fdiv x y = Inr z \<Longrightarrow> nn z"
  using flt_fdiv_nonneg [of x y z] by (cases "x = NaN"; cases "y = NaN"; cases y) (auto simp: nn_def split: if_splits)

lemma nn_smooth:
  assumes "0 \<le> alpha" "alpha \<le> 1" "nn x" "nn y"
  shows "nn (smooth alpha x y)"
proof -
  have "nn (1 - alpha)" using assms(1,2) flt_minus_nonneg [of alpha 1] by (auto simp: nn_def)
  moreover have "nn alpha" using assms(1) by (simp add: nn_def)
  ultimately show ?thesis using assms(3,4) by (simp add: smooth_def nn_plus nn_times)
qed

section \<open>RSI\<close>

definition percent :: "flt \<Rightarrow> bool" where
  "percent v \<longleftrightarrow> v = NaN \<or> 0 \<le> v \<and> v \<le> Fin 100"

lemma rsi_of_percent:
  assumes "nn g" "nn l"
  shows "\<exists>v. rsi_of g l = Inr v \<and> percent v"
proof (cases "feq l 0")
  case True
  then show ?thesis by (simp add: rsi_of_def percent_def zero_flt_def)
next
  case False
  have l: "l = NaN \<or> 0 < l" using assms(2) False by (cases l) (auto simp: nn_def feq_def zero_flt_def)
  then obtain rs where rs: "fdiv g l = Inr rs" using fdiv_pos_total [of l g] by (cases g) auto
  have "nn rs" using nn_fdiv [OF assms rs] .
  then have b: "1 + rs = NaN \<or> 1 \<le> 1 + rs" using flt_one_plus by (auto simp: nn_def)
  obtain x where x: "fdiv (Fin 100) (1 + rs) = Inr x" and xp: "percent x"
  proof (cases "1 + rs")
    case (Fin q)
    then have q: "1 \<le> q" using b by (simp add: one_flt_def)
    then have "(0::rat) \<le> 100 / q" "100 / q \<le> 100" by (simp_all add: divide_le_eq)
    from flr_mono [OF this(1)] flr_mono [OF this(2)] have "percent (flr (100 / q))"
      by (simp add: percent_def zero_flt_def float_simps)
    then show ?thesis using that Fin q by simp
  qed (use b that in \<open>auto simp: percent_def zero_flt_def one_flt_def\<close>)
  have "percent (Fin 100 - x)"
  proof (cases x)
    case (Fin q)
    then have "0 \<le> 100 - q" "100 - q \<le> 100" using xp by (simp_all add: percent_def zero_flt_def)
    from flr_mono [OF this(1)] flr_mono [OF this(2)] show ?thesis using Fin
      by (simp add: percent_def zero_flt_def minus_flt_def float_simps)
  qed (use xp in \<open>auto simp: percent_def zero_flt_def\<close>)
  then show ?thesis using False rs x by (simp add: rsi_of_def)
qed

definition rsi_ok :: "RsiState \<Rightarrow> bool" where
  "rsi_ok s \<longleftrightarrow> 0 \<le> rsi_alpha s \<and> rsi_alpha s \<le> 1 \<and> nn (rsi_avg_gain s) \<and> nn (rsi_avg_loss s)"

lemma unit_div_len:
  assumes "0 < n" "div_len 1 (int n) = Inr a"
  shows "0 \<le> a \<and> a \<le> 1"
proof -
  obtain p where p: "float_of_int (int n) = Inr p" "fdiv 1 p = Inr a" using assms(2) by (auto simp: div_len_def)
  have "Fin 1 \<le> flr (of_nat n)" using assms(1) flr_mono [of 1 "of_nat n"] by simp
  moreover have "p = flr (of_nat n)" using p(1)
    by (auto simp: float_of_int_def raise_def split: flt.splits)
  ultimately have "1 \<le> p" by (simp add: one_flt_def)
  then show ?thesis
  proof (cases p)
    case (Fin q)
    then have "(0::rat) \<le> 1 / q" "1 / q \<le> 1" using \<open>1 \<le> p\<close> by (simp_all add: one_flt_def)
    from flr_mono [OF this(1)] flr_mono [OF this(2)] show ?thesis using p(2) Fin
      by (auto simp: one_flt_def zero_flt_def split: if_splits)
  qed (use p(2) in \<open>auto simp: one_flt_def zero_flt_def\<close>)
qed

lemma new_rsi_ok:
  assumes "new_rsi n = Inr s"
  shows "rsi_ok s"
proof -
  from assms obtain a where a: "div_len 1 (int (period_floor 2 n)) = Inr a"
    and s: "rsi_alpha s = a" "rsi_avg_gain s = NaN" "rsi_avg_loss s = NaN"
    by (auto simp: new_rsi_def Let_def)
  have "0 < period_floor 2 n" by simp
  from unit_div_len [OF this a] show ?thesis by (simp add: rsi_ok_def s)
qed

lemma rsi_update_ok:
  assumes "rsi_update b s = Inr (v, s')" "rsi_ok s"
  shows "rsi_ok s' \<and> percent v"
proof -
  obtain close where c: "bar_float b ''close'' = Inr close" using assms(1) by (auto simp: rsi_update_def)
  let ?change = "close - rsi_prev_close s"
  define gain where "gain = (if 0 < ?change then ?change else 0)"
  define loss where "loss = (if ?change < 0 then - ?change else 0)"
  have nn: "nn gain" "nn loss"
    by (auto simp: gain_def loss_def nn_def intro: flt_less_imp_le)
  show ?thesis
  proof (cases "is_nan (rsi_prev_close s)")
    case True
    then show ?thesis using assms c by (auto simp: rsi_update_def rsi_ok_def percent_def)
  next
    case False
    define s2 where "s2 = (if is_nan (rsi_avg_gain s)
       then s\<lparr>rsi_prev_close := close, rsi_avg_gain := gain, rsi_avg_loss := loss\<rparr>
       else s\<lparr>rsi_prev_close := close, rsi_avg_gain := smooth (rsi_alpha s) gain (rsi_avg_gain s),
              rsi_avg_loss := smooth (rsi_alpha s) loss (rsi_avg_loss s)\<rparr>)"
    have ok: "rsi_ok s2" using assms(2) nn by (auto simp: s2_def rsi_ok_def nn_smooth)
    have "rsi_update b s = ebind (rsi_of (rsi_avg_gain s2) (rsi_avg_loss s2)) (\<lambda>v. Inr (v, s2))"
      using False c by (auto simp: rsi_update_def s2_def gain_def loss_def Let_def)
    moreover obtain w where "rsi_of (rsi_avg_gain s2) (rsi_avg_loss s2) = Inr w" "percent w"
      using rsi_of_percent [of "rsi_avg_gain s2" "rsi_avg_loss s2"] ok by (auto simp: rsi_ok_def)
    ultimately show ?thesis using assms(1) ok by simp
  qed
qed

text \<open>
  RSI stays in its range: whatever bars are fed, in whatever order and with whatever NaN or infinite
  closes, every value returned is a NaN or lies between 0 and 100.
\<close>

theorem rsi_between_0_and_100:
  assumes "new_rsi n = Inr s" "feed rsi_update bs s = Inr (vs, s')"
  shows "list_all percent vs"
  using feed_invariant [OF assms(2), of rsi_ok percent] new_rsi_ok [OF assms(1)] rsi_update_ok by blast


section \<open>IBS\<close>

text \<open>A bar whose close lies between its low and its high.\<close>

definition enclosed_bar :: "bar \<Rightarrow> bool" where
  "enclosed_bar b \<longleftrightarrow>
     (\<exists>h l c. bar_float b ''high'' = Inr (Fin h) \<and> bar_float b ''low'' = Inr (Fin l) \<and>
              bar_float b ''close'' = Inr (Fin c) \<and> l \<le> c \<and> c \<le> h)"

lemma unit_ratio:
  assumes "0 \<le> x" "x \<le> y" "\<not> feq y 0"
  shows "\<exists>v. fdiv x y = Inr v \<and> (v = NaN \<or> 0 \<le> v \<and> v \<le> 1)"
proof (cases y)
  case (Fin b)
  then obtain a where x: "x = Fin a" using assms by (cases x) (auto simp: zero_flt_def)
  have ab: "0 \<le> a" "a \<le> b" "b \<noteq> 0" using assms Fin x by (auto simp: zero_flt_def feq_def)
  then have "0 \<le> a / b" "a / b \<le> 1" by (simp_all add: divide_le_eq)
  from flr_mono [OF this(1)] flr_mono [OF this(2)] show ?thesis
    using ab Fin x by (simp add: zero_flt_def one_flt_def)
qed (use assms in \<open>cases x; auto simp: zero_flt_def one_flt_def\<close>)+

text \<open>
  The internal bar strength of a bar whose close lies between low and high never raises, is NaN or
  lies between 0 and 1, and is the value the state keeps.
\<close>

theorem ibs_between_0_and_1:
  assumes "enclosed_bar b"
  shows "\<exists>v s'. ibs_update b s = Inr (v, s') \<and> ibs_value s' = Inr v \<and> (v = NaN \<or> 0 \<le> v \<and> v \<le> 1)"
proof -
  from assms obtain h l c where
    b: "bar_float b ''high'' = Inr (Fin h)" "bar_float b ''low'' = Inr (Fin l)" "bar_float b ''close'' = Inr (Fin c)"
    and o: "l \<le> c" "c \<le> h" by (auto simp: enclosed_bar_def)
  have "0 \<le> c - l" "c - l \<le> h - l" using o by simp_all
  from flr_mono [OF this(1)] flr_mono [OF this(2)]
  have r: "0 \<le> Fin c - Fin l" "Fin c - Fin l \<le> Fin h - Fin l"
    by (simp_all add: minus_flt_def zero_flt_def)
  show ?thesis
  proof (cases "feq (Fin h - Fin l) 0")
    case True
    then show ?thesis by (simp add: ibs_update_def b ibs_value_def Let_def)
  next
    case False
    from unit_ratio [OF r this] obtain v where "fdiv (Fin c - Fin l) (Fin h - Fin l) = Inr v"
      "v = NaN \<or> 0 \<le> v \<and> v \<le> 1" by blast
    then show ?thesis using False by (simp add: ibs_update_def b ibs_value_def Let_def)
  qed
qed

section \<open>The moving average and its window\<close>

text \<open>Prices on a grid of \<open>2 powi e\<close>; their sums are exact while they stay below 53 bits.\<close>

definition tick :: "int \<Rightarrow> int \<Rightarrow> flt" where
  "tick e m = Fin (of_int m * 2 powi e)"

definition close_bar :: "flt \<Rightarrow> bar" where
  "close_bar x = [''close'' \<mapsto> PFloat x]"

definition window :: "nat \<Rightarrow> 'a list \<Rightarrow> 'a list" where
  "window n xs = drop (length xs - n) xs"

lemma bar_float_close_bar [simp]: "bar_float (close_bar x) ''close'' = Inr x"
  by (simp add: bar_float_def close_bar_def)

lemma flr_tick:
  assumes "\<bar>m\<bar> \<le> 2 ^ 53" "- 1074 \<le> e" "e \<le> 970"
  shows "flr (of_int m * 2 powi e) = Fin (of_int m * 2 powi e)"
proof -
  have r: "rnd (of_int m * 2 powi e) = of_int m * 2 powi e" using assms by (intro rnd_dyadic) auto
  have "\<bar>of_int m\<bar> \<le> (2::rat) powi 53"
    using assms(1) by (metis of_int_abs of_int_le_iff of_int_numeral of_int_power power_int_numeral)
  from mult_mono [OF this powi_2_le [OF assms(3)]]
  have "\<bar>of_int m * 2 powi e\<bar> \<le> (2::rat) powi 53 * 2 powi 970" by (simp add: abs_mult)
  also have "\<dots> < max_bound" unfolding max_bound_def powi_2_add [symmetric] by (simp add: power_int_def)
  finally show ?thesis by (simp add: flr_alt r abs_less_iff)
qed

definition grid_ok :: "int \<Rightarrow> bool" where
  "grid_ok e \<longleftrightarrow> - 1074 \<le> e \<and> e \<le> 970"

lemma tick_plus: "grid_ok e \<Longrightarrow> \<bar>m + k\<bar> \<le> 2 ^ 53 \<Longrightarrow> tick e m + tick e k = tick e (m + k)"
  using flr_tick [of "m + k" e] by (simp add: grid_ok_def tick_def distrib_right)

lemma tick_minus: "grid_ok e \<Longrightarrow> \<bar>m - k\<bar> \<le> 2 ^ 53 \<Longrightarrow> tick e m - tick e k = tick e (m - k)"
  using flr_tick [of "m - k" e] by (simp add: grid_ok_def tick_def minus_flt_def left_diff_distrib)

lemma tick_zero: "tick e 0 = 0"
  by (simp add: tick_def zero_flt_def)

lemma window_snoc: "0 < n \<Longrightarrow> window n (xs @ [x]) = push_max n x (window n xs)"
  by (cases "n \<le> length xs") (simp_all add: window_def push_max_def Let_def Suc_diff_le)

lemma window_map: "window n (map f xs) = map f (window n xs)"
  by (simp add: window_def drop_map)

lemma length_window: "length (window n xs) = min n (length xs)"
  by (simp add: window_def)

lemma sum_list_bound:
  fixes ms :: "int list"
  shows "list_all (\<lambda>m. \<bar>m\<bar> \<le> B) ms \<Longrightarrow> \<bar>sum_list ms\<bar> \<le> int (length ms) * B"
  by (induction ms) (auto simp: distrib_right)

definition sma_tracks :: "int \<Rightarrow> nat \<Rightarrow> int list \<Rightarrow> SmaState \<Rightarrow> bool" where
  "sma_tracks e n ms s \<longleftrightarrow>
     sma_period s = n \<and> sma_buffer s = map (tick e) (window n ms) \<and>
     sma_sum s = tick e (sum_list (window n ms))"

lemma sum_list_window_snoc:
  fixes ms :: "int list"
  assumes "0 < n"
  shows "sum_list (window n (ms @ [m])) =
           (if n \<le> length ms then sum_list (window n ms) - hd (window n ms) else sum_list (window n ms)) + m"
proof (cases "n \<le> length ms")
  case True
  then obtain w ws where w: "window n ms = w # ws"
    using assms length_window [of n ms] by (cases "window n ms") auto
  then have "length ws = n - 1" using length_window [of n ms] True by simp
  then have "push_max n m (window n ms) = ws @ [m]" using assms by (simp add: push_max_def w)
  then show ?thesis using True assms by (simp add: window_snoc w)
next
  case False
  then have "window n ms = ms" "window n (ms @ [m]) = ms @ [m]" by (simp_all add: window_def)
  then show ?thesis using False by simp
qed

lemma sma_update_tracks:
  assumes e: "grid_ok e" and n: "0 < n" and B: "list_all (\<lambda>m. \<bar>m\<bar> \<le> B) (ms @ [m])" "int n * B \<le> 2 ^ 53"
    and s: "sma_tracks e n ms s"
  shows "\<exists>s'. sma_update (close_bar (tick e m)) s = ebind (sma_value s') (\<lambda>v. Inr (v, s')) \<and>
           sma_tracks e n (ms @ [m]) s'"
proof -
  let ?w = "window n ms" and ?w' = "window n (ms @ [m])"
  have in_w: "list_all (\<lambda>m. \<bar>m\<bar> \<le> B) ?w" "list_all (\<lambda>m. \<bar>m\<bar> \<le> B) ?w'"
    using B(1) by (auto simp: list_all_iff window_def dest: in_set_dropD)
  have B0: "0 \<le> B" using B(1) by auto
  have small: "\<bar>sum_list v\<bar> \<le> 2 ^ 53" if "list_all (\<lambda>m. \<bar>m\<bar> \<le> B) v" "length v \<le> n" for v
    using sum_list_bound [OF that(1)] mult_right_mono [of "int (length v)" "int n" B] that(2) B0 B(2) by linarith
  define k where "k = (if n \<le> length ms then sum_list ?w - hd ?w else sum_list ?w)"
  have kt: "(if n \<le> length ms then tick e (sum_list ?w) - tick e (hd ?w) else tick e (sum_list ?w)) = tick e k"
    and ks: "\<bar>k + m\<bar> \<le> 2 ^ 53"
  proof -
    show "\<bar>k + m\<bar> \<le> 2 ^ 53" using small [OF in_w(2)] sum_list_window_snoc [OF n, of ms m]
      by (simp add: k_def length_window)
    have "\<bar>sum_list ?w - hd ?w\<bar> \<le> 2 ^ 53" if nl: "n \<le> length ms"
    proof -
      obtain w ws where w: "?w = w # ws" using n nl length_window [of n ms] by (cases ?w) auto
      moreover have "length ws \<le> n" using w length_window [of n ms] by simp
      ultimately show ?thesis using small [of ws] in_w(1) by simp
    qed
    then show "(if n \<le> length ms then tick e (sum_list ?w) - tick e (hd ?w) else tick e (sum_list ?w)) = tick e k"
      using tick_minus [OF e] by (simp add: k_def)
  qed
  have ne: "n \<le> length ms \<Longrightarrow> ?w \<noteq> []" using n length_window [of n ms] by auto
  define s' where "s' = s\<lparr>sma_buffer := map (tick e) ?w', sma_sum := tick e (sum_list ?w')\<rparr>"
  have buf: "push_max n (tick e m) (map (tick e) ?w) = map (tick e) ?w'"
    using window_snoc [OF n, of "map (tick e) ms" "tick e m"] by (simp add: window_map flip: map_append)
      (simp flip: window_map)
  have "sum_list ?w' = k + m" by (simp add: sum_list_window_snoc [OF n] k_def)
  then have sum: "tick e k + tick e m = tick e (sum_list ?w')" using tick_plus [OF e ks] by simp
  have st: "sma_period s = n" "sma_buffer s = map (tick e) ?w" "sma_sum s = tick e (sum_list ?w)"
    using s by (simp_all add: sma_tracks_def)
  have "length (sma_buffer s) = sma_period s \<longleftrightarrow> n \<le> length ms" by (auto simp: st length_window)
  then have old: "(if length (sma_buffer s) = sma_period s then sma_sum s - hd (sma_buffer s) else sma_sum s) =
      tick e k"
    using kt ne by (cases "n \<le> length ms") (simp_all add: st hd_map)
  have "sma_update (close_bar (tick e m)) s = ebind (sma_value s') (\<lambda>v. Inr (v, s'))"
    unfolding sma_update_def bar_float_close_bar ebind_Inr Let_def
    unfolding old sum
    unfolding st(1,2) buf s'_def ..
  moreover have "sma_tracks e n (ms @ [m]) s'" using s by (simp add: sma_tracks_def s'_def)
  ultimately show ?thesis by blast
qed

definition window_mean :: "int \<Rightarrow> nat \<Rightarrow> int list \<Rightarrow> flt result" where
  "window_mean e n ms =
     (if length ms < n then Inr NaN else div_len (tick e (sum_list (window n ms))) (int n))"

lemma div_len_total:
  assumes "0 < n" "int n \<le> 2 ^ 53"
  shows "\<exists>v. div_len x (int n) = Inr v"
proof -
  have "flr (of_nat n) = Fin (of_nat n)" using flr_int [of "int n"] assms(2) by simp
  then have "float_of_int (int n) = Inr (Fin (of_nat n))" by (simp add: float_of_int_def)
  then show ?thesis using assms(1) by (simp add: div_len_def)
qed

lemma sma_value_total: "0 < sma_period s \<Longrightarrow> length (sma_buffer s) \<le> sma_period s \<Longrightarrow>
    int (sma_period s) \<le> 2 ^ 53 \<Longrightarrow> \<exists>v. sma_value s = Inr v"
  using div_len_total [of "sma_period s" "sma_sum s"] by (auto simp: sma_value_def)

lemma sma_feed_tracks:
  assumes "grid_ok e" "0 < n" "int n \<le> 2 ^ 53" "list_all (\<lambda>m. \<bar>m\<bar> \<le> B) ms" "int n * B \<le> 2 ^ 53"
  shows "\<exists>vs s. feed sma_update (map (\<lambda>m. close_bar (tick e m)) ms) (new_sma (int n)) = Inr (vs, s) \<and>
           sma_tracks e n ms s"
  using assms(4)
proof (induction ms rule: rev_induct)
  case Nil
  have "max 1 n = n" using assms(2) by simp
  then show ?case by (simp add: sma_tracks_def new_sma_def period_floor_def window_def tick_zero)
next
  case (snoc m ms)
  then obtain ws s1 where f: "feed sma_update (map (\<lambda>m. close_bar (tick e m)) ms) (new_sma (int n)) = Inr (ws, s1)"
    "sma_tracks e n ms s1" by auto
  from sma_update_tracks [OF assms(1,2) snoc.prems assms(5) f(2)] obtain s' where
    u: "sma_update (close_bar (tick e m)) s1 = ebind (sma_value s') (\<lambda>v. Inr (v, s'))" and
    t: "sma_tracks e n (ms @ [m]) s'" by blast
  obtain v where "sma_value s' = Inr v"
    using sma_value_total [of s'] t assms(2,3) by (auto simp: sma_tracks_def length_window)
  then show ?case using f u t by (simp add: feed_append)
qed

text \<open>
  The moving average against its specification: on closes of a common grid whose window sums stay
  below 53 bits, the running-sum state never raises and after any number of bars holds exactly the last
  \<open>n\<close> closes; its value, which is also the last value returned, is NaN before \<open>n\<close> bars and then the
  exact sum of the last \<open>n\<close> closes, divided by \<open>n\<close> and rounded once.
\<close>

theorem sma_is_window_mean:
  assumes "grid_ok e" "0 < n" "int n \<le> 2 ^ 53" "list_all (\<lambda>m. \<bar>m\<bar> \<le> B) ms" "int n * B \<le> 2 ^ 53"
  shows "\<exists>vs s. feed sma_update (map (\<lambda>m. close_bar (tick e m)) ms) (new_sma (int n)) = Inr (vs, s) \<and>
           sma_buffer s = map (tick e) (window n ms) \<and> sma_value s = window_mean e n ms \<and>
           (ms \<noteq> [] \<longrightarrow> Inr (last vs) = window_mean e n ms)"
proof -
  obtain vs s where f: "feed sma_update (map (\<lambda>m. close_bar (tick e m)) ms) (new_sma (int n)) = Inr (vs, s)"
    and t: "sma_tracks e n ms s" using sma_feed_tracks [OF assms] by blast
  have v: "sma_value s = window_mean e n ms"
    using t by (auto simp: sma_tracks_def sma_value_def window_mean_def length_window)
  have "ms \<noteq> [] \<Longrightarrow> sma_value s = Inr (last vs)" using sma.value_is_last_output [OF _ f] by auto
  then show ?thesis using f t v by (auto simp: sma_tracks_def)
qed

section \<open>What a NaN close does\<close>

lemma fdiv_NaN: "fdiv NaN y = Inr v \<Longrightarrow> v = NaN"
  by (cases y) (auto split: if_splits)

lemma sma_NaN_step: "sma_update b s = Inr (v, s') \<Longrightarrow> sma_sum s = NaN \<Longrightarrow> sma_sum s' = NaN \<and> v = NaN"
  by (auto simp: sma_update_def sma_value_def div_len_def Let_def dest: fdiv_NaN split: if_splits)

text \<open>
  One NaN close is never forgotten: after it has been fed, every later value of the moving average
  is NaN, however many good closes follow and although the NaN left the window long ago.
\<close>

theorem sma_never_recovers_from_NaN:
  assumes "sma_update (close_bar NaN) s = Inr (v, s1)" "feed sma_update bs s1 = Inr (vs, s2)"
  shows "list_all (\<lambda>v. v = NaN) vs \<and> (bs \<noteq> [] \<longrightarrow> sma_value s2 = Inr NaN)"
proof -
  have "sma_sum s1 = NaN" using assms(1) by (auto simp: sma_update_def Let_def)
  with feed_invariant [OF assms(2), of "\<lambda>s. sma_sum s = NaN" "\<lambda>v. v = NaN"] sma_NaN_step
  have vs: "list_all (\<lambda>v. v = NaN) vs" by blast
  have "sma_value s2 = Inr NaN" if ne: "bs \<noteq> []"
  proof -
    obtain cs b where bs: "bs = cs @ [b]" using ne by (cases bs rule: rev_cases) auto
    with assms(2) obtain ws s3 w where u: "sma_update b s3 = Inr (w, s2)" "vs = ws @ [w]"
      by (auto simp: feed_append split: prod.splits)
    then show ?thesis using sma.update_val [OF _ u(1)] vs by simp
  qed
  then show ?thesis using vs by blast
qed


section \<open>RSI on the second bar\<close>

text \<open>
  RSI speaks too early: the class promises NaN for the first \<open>period\<close> bars, but whatever the period
  is the second bar already gets a value, and it is an extreme one: 0 after a fall, 100 otherwise.
\<close>

theorem rsi_extreme_on_second_bar:
  assumes "new_rsi n = Inr s" "a \<noteq> NaN"
  shows "\<exists>s'. feed rsi_update [close_bar a, close_bar b] s =
               Inr ([NaN, if b - a < 0 then 0 else Fin 100], s')"
proof -
  from assms(1) have s: "rsi_prev_close s = NaN" "rsi_avg_gain s = NaN" by (auto simp: new_rsi_def Let_def)
  have na: "\<not> is_nan a" using assms(2) by (cases a) simp_all
  show ?thesis
  proof (cases "b - a < 0")
    case True
    then have g: "\<not> 0 < b - a" by (simp add: flt_less_asym)
    have l: "\<not> feq (- (b - a)) 0" "0 < - (b - a)" using True by (cases "b - a"; simp add: feq_def zero_flt_def)+
    have "fdiv 0 (- (b - a)) = Inr 0" using l(2) by (cases "b - a") (auto simp: zero_flt_def)
    moreover have "fdiv (Fin 100) (1 + 0) = Inr (Fin 100)" "Fin 100 - Fin 100 = 0"
      by (simp_all add: one_flt_def zero_flt_def minus_flt_def float_simps)
    ultimately show ?thesis using True g l s na by (simp add: rsi_update_def rsi_of_def Let_def)
  next
    case False
    then have "\<not> b - a < 0" .
    then show ?thesis using s na by (simp add: rsi_update_def rsi_of_def Let_def)
  qed
qed

section \<open>Witnesses\<close>

definition sample_rsi :: RsiState where
  "sample_rsi = \<lparr>rsi_period = 2, rsi_alpha = Fin (1 / 2), rsi_prev_close = NaN, rsi_avg_gain = NaN,
     rsi_avg_loss = NaN\<rparr>"

lemma sample_rsi_new: "new_rsi 2 = Inr sample_rsi"
  by code_simp

theorem rsi_between_0_and_100_witness:
  "\<exists>vs s'. feed rsi_update [close_bar (Fin 1), close_bar (Fin 2), close_bar (Fin 1)] sample_rsi = Inr (vs, s') \<and>
     length vs = 3 \<and> list_all percent vs"
proof -
  have "case feed rsi_update [close_bar (Fin 1), close_bar (Fin 2), close_bar (Fin 1)] sample_rsi of
          Inr (vs, _) \<Rightarrow> length vs = 3 | Inl _ \<Rightarrow> False" by code_simp
  then obtain vs s' where f: "feed rsi_update [close_bar (Fin 1), close_bar (Fin 2), close_bar (Fin 1)] sample_rsi
      = Inr (vs, s')" "length vs = 3" by (auto split: sum.splits)
  show ?thesis by (intro exI conjI) (rule f(1), rule f(2), rule rsi_between_0_and_100 [OF sample_rsi_new f(1)])
qed

theorem rsi_extreme_on_second_bar_witness:
  "\<exists>s'. feed rsi_update [close_bar (Fin 1), close_bar (Fin 2)] sample_rsi =
          Inr ([NaN, if Fin 2 - Fin 1 < 0 then 0 else Fin 100], s')"
  by (rule rsi_extreme_on_second_bar [OF sample_rsi_new]) simp

definition sample_hlc :: bar where
  "sample_hlc = [''high'' \<mapsto> PFloat (Fin 3), ''low'' \<mapsto> PFloat (Fin 1), ''close'' \<mapsto> PFloat (Fin 2)]"

theorem ibs_between_0_and_1_witness:
  "\<exists>v s'. ibs_update sample_hlc new_ibs = Inr (v, s') \<and> ibs_value s' = Inr v \<and> (v = NaN \<or> 0 \<le> v \<and> v \<le> 1)"
proof (rule ibs_between_0_and_1)
  show "enclosed_bar sample_hlc" by (simp add: enclosed_bar_def sample_hlc_def bar_float_def)
qed

theorem sma_is_window_mean_witness:
  "\<exists>vs s. feed sma_update (map (\<lambda>m. close_bar (tick 0 m)) [1, 2, 6]) (new_sma (int 2)) = Inr (vs, s) \<and>
     sma_buffer s = map (tick 0) (window 2 [1, 2, 6]) \<and> sma_value s = window_mean 0 2 [1, 2, 6] \<and>
     ([1, 2, 6 :: int] \<noteq> [] \<longrightarrow> Inr (last vs) = window_mean 0 2 [1, 2, 6])"
  by (rule sma_is_window_mean [where B = 6]) (simp_all add: grid_ok_def)

definition nan_sma :: SmaState where
  "nan_sma = (new_sma 2)\<lparr>sma_buffer := [NaN], sma_sum := NaN\<rparr>"

theorem sma_never_recovers_from_NaN_witness:
  "\<exists>vs s2. feed sma_update [close_bar (Fin 1), close_bar (Fin 2), close_bar (Fin 3)] nan_sma = Inr (vs, s2) \<and>
     list_all (\<lambda>v. v = NaN) vs \<and> sma_value s2 = Inr NaN"
proof -
  have u: "sma_update (close_bar NaN) (new_sma 2) = Inr (NaN, nan_sma)"
    by (simp add: sma_update_def new_sma_def nan_sma_def period_floor_def sma_value_def push_max_def Let_def)
  have "case feed sma_update [close_bar (Fin 1), close_bar (Fin 2), close_bar (Fin 3)] nan_sma of
          Inr _ \<Rightarrow> True | Inl _ \<Rightarrow> False" by code_simp
  then obtain vs s2 where f: "feed sma_update [close_bar (Fin 1), close_bar (Fin 2), close_bar (Fin 3)] nan_sma
      = Inr (vs, s2)" by (auto split: sum.splits)
  from sma_never_recovers_from_NaN [OF u f] show ?thesis using f by auto
qed

end
