(* ===== verification/StreamingFactory.thy ===== *)
theory StreamingFactory
  imports StreamingStates "HOL-Library.AList"
begin

text \<open>
  Which class serves an indicator name: \<open>_streaming_classifier.py\<close>, the name patterns of
  \<open>_dynamic_dispatch.py\<close> and \<open>_streaming_state_factory.py\<close>.

    - \<open>StreamState\<close> is the union of the state classes; \<open>Other\<close> holds a state whose class computes with
      pandas (windowed, prefix and rolling-profile states), which is a type parameter.
    - A factory is the pair of its two registries; \<open>register_exact\<close> overwrites as a dict does.
    - The handler registry is the parameter \<open>handlers\<close>, a list of names with the names they require.
    - Every name the classifier calls STREAMING is built by the default factory.
\<close>

section \<open>The union of the states\<close>

datatype 'o StreamState =
    Sma SmaState
  | Ema EmaState
  | Rsi RsiState
  | Atr AtrState
  | Adx AdxState
  | Bb BbState
  | Macd MacdState
  | Vwap VwapState
  | Ibs IbsState
  | Rvol RvolState
  | Ker KerState
  | Kama KamaState
  | Other 'o

section \<open>Names\<close>

definition dynamic_prefixes :: "string list" where
  "dynamic_prefixes = [''sma_'', ''ema_'', ''rsi_'', ''atr_'', ''adx_'', ''bb_upper_'', ''bb_middle_'', ''bb_lower_'']"

text \<open>The loop of \<open>_resolve_dynamic\<close>: the first prefix that matches decides.\<close>

fun resolve_in :: "string list \<Rightarrow> string \<Rightarrow> (int \<times> string) option" where
  "resolve_in [] name = None"
| "resolve_in (p # ps) name =
     (if starts_with p name
      then (let period_str = drop (length p) name
            in if is_number period_str \<and> 2 \<le> digits_value period_str
               then Some (digits_value period_str, butlast p) else None)
      else resolve_in ps name)"

definition resolve_dynamic :: "string \<Rightarrow> (int \<times> string) option" where
  "resolve_dynamic name = resolve_in dynamic_prefixes name"

definition is_dynamic :: "string \<Rightarrow> bool" where
  "is_dynamic name \<longleftrightarrow> resolve_dynamic name \<noteq> None"

definition rolling_vp_prefixes :: "string list" where
  "rolling_vp_prefixes = [''vp_poc_'', ''vp_vah_'', ''vp_val_'']"

definition rvp_prefixes :: "string list" where
  "rvp_prefixes = [''rvp_poc_'', ''rvp_vah_'', ''rvp_val_'']"

definition cvp_prefixes :: "string list" where
  "cvp_prefixes = [''cvp_poc_'', ''cvp_vah_'', ''cvp_val_'']"

definition positive_number :: "string \<Rightarrow> bool" where
  "positive_number s \<longleftrightarrow> is_number s \<and> 1 \<le> digits_value s"

definition is_rolling_vp :: "string \<Rightarrow> bool" where
  "is_rolling_vp name \<longleftrightarrow>
     list_ex (\<lambda>p. starts_with p name \<and> positive_number (drop (length p) name)) rvp_prefixes \<or>
     list_ex (\<lambda>p. starts_with p name \<and> ends_with ''d'' name \<and>
                  positive_number (butlast (drop (length p) name)))
       (rolling_vp_prefixes @ cvp_prefixes)"

section \<open>The classifier\<close>

datatype IndicatorKind = STREAMING | WINDOWED | UNKNOWN

definition hand_streaming :: "string list" where
  "hand_streaming = [''sma_10'', ''sma_20'', ''sma_50'', ''sma_200'', ''ema_12'', ''ema_26'', ''rsi_7'',
     ''rsi_14'', ''atr'', ''adx'', ''macd'', ''macd_signal'', ''macd_hist'', ''bb_upper'', ''bb_middle'',
     ''bb_lower'', ''ker'', ''kama'', ''vwap'', ''ibs'', ''rvol'']"

type_synonym handler_registry = "(string \<times> string list) list"

definition classify_indicator :: "handler_registry \<Rightarrow> string \<Rightarrow> IndicatorKind result" where
  "classify_indicator handlers name =
     (if name \<in> set hand_streaming then Inr STREAMING
      else if is_dynamic name then Inr STREAMING
      else if is_rolling_vp name then Inr WINDOWED
      else if map_of handlers name \<noteq> None then Inr WINDOWED
      else raise (ValueError (''Unknown streaming indicator: '' @ str_repr name)))"

section \<open>The factory\<close>

record 'f StreamingStateFactory =
  sf_exact :: "(string \<times> 'f result) list"
  sf_prefixed :: "(string \<times> (int \<Rightarrow> 'f result)) list"

definition empty_factory :: "'f StreamingStateFactory" where
  "empty_factory = \<lparr>sf_exact = [], sf_prefixed = []\<rparr>"

definition register_exact :: "string \<Rightarrow> 'f result \<Rightarrow> 'f StreamingStateFactory \<Rightarrow> 'f StreamingStateFactory" where
  "register_exact name f sf = sf\<lparr>sf_exact := AList.update name f (sf_exact sf)\<rparr>"

definition register_prefix ::
  "string \<Rightarrow> (int \<Rightarrow> 'f result) \<Rightarrow> 'f StreamingStateFactory \<Rightarrow> 'f StreamingStateFactory" where
  "register_prefix prefix f sf = sf\<lparr>sf_prefixed := sf_prefixed sf @ [(prefix, f)]\<rparr>"

text \<open>The scan over the prefixes: a match whose rest is no period of at least 2 goes on.\<close>

fun build_prefixed :: "(string \<times> (int \<Rightarrow> 'f result)) list \<Rightarrow> string \<Rightarrow> 'f result option" where
  "build_prefixed [] name = None"
| "build_prefixed ((p, f) # fs) name =
     (if starts_with p name \<and> is_number (drop (length p) name) \<and> 2 \<le> digits_value (drop (length p) name)
      then Some (f (digits_value (drop (length p) name)))
      else build_prefixed fs name)"

definition factory_build :: "'f StreamingStateFactory \<Rightarrow> string \<Rightarrow> 'f result option" where
  "factory_build sf name =
     (case map_of (sf_exact sf) name of
        Some f \<Rightarrow> Some f
      | None \<Rightarrow> build_prefixed (sf_prefixed sf) name)"

definition state_of :: "('s \<Rightarrow> 'f) \<Rightarrow> 's result \<Rightarrow> 'f result" where
  "state_of con m = ebind m (\<lambda>s. Inr (con s))"

text \<open>\<open>BbState(period)\<close> with the default of two deviations.\<close>

definition bb_of :: "int \<Rightarrow> 'o StreamState result" where
  "bb_of n = Inr (Bb (new_bb n (Fin 2)))"

definition exact_factories :: "(string \<times> 'o StreamState result) list" where
  "exact_factories = [
     (''macd'', state_of Macd new_macd), (''macd_signal'', state_of Macd new_macd),
     (''macd_hist'', state_of Macd new_macd), (''vwap'', Inr (Vwap new_vwap)),
     (''ibs'', Inr (Ibs new_ibs)), (''rvol'', Inr (Rvol (new_rvol 20))),
     (''ker'', Inr (Ker (new_ker 10))), (''kama'', state_of Kama (new_kama 10 2 30)),
     (''atr'', state_of Atr (new_atr 14)), (''adx'', state_of Adx (new_adx 14)),
     (''bb_upper'', bb_of 20), (''bb_middle'', bb_of 20), (''bb_lower'', bb_of 20)]"

definition prefix_factories :: "(string \<times> (int \<Rightarrow> 'o StreamState result)) list" where
  "prefix_factories = [
     (''sma_'', \<lambda>n. Inr (Sma (new_sma n))), (''ema_'', \<lambda>n. state_of Ema (new_ema n)),
     (''rsi_'', \<lambda>n. state_of Rsi (new_rsi n)), (''atr_'', \<lambda>n. state_of Atr (new_atr n)),
     (''adx_'', \<lambda>n. state_of Adx (new_adx n)), (''bb_upper_'', bb_of), (''bb_middle_'', bb_of),
     (''bb_lower_'', bb_of)]"

definition default_factory :: "'o StreamState StreamingStateFactory" where
  "default_factory =
     fold (\<lambda>(p, f). register_prefix p f) prefix_factories
       (fold (\<lambda>(n, f). register_exact n f) exact_factories empty_factory)"

text \<open>\<open>_build_streaming_state\<close>: the factory, then the canonical form of a dynamic name.\<close>

definition build_streaming_state :: "string \<Rightarrow> 'o StreamState result" where
  "build_streaming_state name =
     (case factory_build default_factory name of
        Some s \<Rightarrow> s
      | None \<Rightarrow>
          (case (case resolve_dynamic name of
                   Some (period, prefix) \<Rightarrow> factory_build default_factory (prefix @ ''_'' @ show_int period)
                 | None \<Rightarrow> None) of
             Some s \<Rightarrow> s
           | None \<Rightarrow> raise (NotImplementedError (''Streaming state not yet implemented for: '' @ str_repr name))))"

section \<open>The default factory is complete\<close>

lemma default_factory_prefixed: "sf_prefixed default_factory = prefix_factories"
  by (simp add: default_factory_def prefix_factories_def exact_factories_def empty_factory_def
      register_exact_def register_prefix_def)

lemma default_factory_exact: "sf_exact default_factory = exact_factories"
  by (simp add: default_factory_def prefix_factories_def exact_factories_def empty_factory_def
      register_exact_def register_prefix_def)

lemma resolved_is_built:
  "resolve_in ps name = Some (n, q) \<Longrightarrow> map fst fs = ps \<Longrightarrow> \<exists>f. f \<in> set (map snd fs) \<and> build_prefixed fs name = Some (f n)"
proof (induction fs arbitrary: ps)
  case (Cons pf fs)
  obtain p f where pf: "pf = (p, f)" by (cases pf)
  have ps: "ps = p # map fst fs" using Cons.prems(2) pf by simp
  show ?case
  proof (cases "starts_with p name")
    case True
    then show ?thesis using Cons.prems(1) ps pf by (auto simp: Let_def split: if_splits)
  next
    case False
    then show ?thesis using Cons.IH [of "map fst fs"] Cons.prems(1) ps pf by auto
  qed
qed simp

lemma prefix_names: "map fst prefix_factories = dynamic_prefixes"
  by (simp add: prefix_factories_def dynamic_prefixes_def)

definition exact_names :: "string list" where
  "exact_names = [''macd'', ''macd_signal'', ''macd_hist'', ''vwap'', ''ibs'', ''rvol'', ''ker'', ''kama'',
     ''atr'', ''adx'', ''bb_upper'', ''bb_middle'', ''bb_lower'']"

lemma exact_factories_keys: "fst ` set exact_factories = set exact_names"
  by (simp add: exact_factories_def exact_names_def)

lemma hand_streaming_known: "list_all (\<lambda>n. n \<in> set exact_names \<or> is_dynamic n) hand_streaming"
  by code_simp

lemma exact_built:
  assumes "name \<in> set exact_names"
  shows "factory_build (default_factory :: 'o StreamState StreamingStateFactory) name \<noteq> None"
proof -
  have "map_of (exact_factories :: (string \<times> 'o StreamState result) list) name \<noteq> None"
    using assms by (simp add: map_of_eq_None_iff exact_factories_keys)
  then show ?thesis by (auto simp: factory_build_def default_factory_exact)
qed

lemma dynamic_built:
  assumes "is_dynamic name"
  shows "factory_build default_factory name \<noteq> None"
proof -
  from assms obtain n q where "resolve_in dynamic_prefixes name = Some (n, q)"
    by (auto simp: is_dynamic_def resolve_dynamic_def)
  from resolved_is_built [OF this prefix_names] show ?thesis
    by (auto simp: factory_build_def default_factory_prefixed split: option.split)
qed

text \<open>
  The factory covers the classifier: whenever an indicator name is classified as streaming, the
  default factory has a constructor for it, so building its state never ends in
  \<open>NotImplementedError\<close>.
\<close>

theorem streaming_names_are_built:
  assumes "classify_indicator handlers name = Inr STREAMING"
  shows "\<exists>s :: 'o StreamState result. factory_build default_factory name = Some s \<and> build_streaming_state name = s"
proof -
  have "name \<in> set hand_streaming \<or> is_dynamic name"
    using assms by (auto simp: classify_indicator_def split: if_splits)
  then have "name \<in> set exact_names \<or> is_dynamic name"
    using hand_streaming_known by (auto simp: list_all_iff)
  then have "factory_build (default_factory :: 'o StreamState StreamingStateFactory) name \<noteq> None"
    using exact_built dynamic_built by blast
  then show ?thesis by (auto simp: build_streaming_state_def)
qed

theorem streaming_names_are_built_witness:
  "\<exists>s :: unit StreamState result. factory_build default_factory ''bb_upper_30'' = Some s \<and>
     build_streaming_state ''bb_upper_30'' = s"
proof (rule streaming_names_are_built)
  show "classify_indicator [] ''bb_upper_30'' = Inr STREAMING" by code_simp
qed

end
