(* ===== verification/StreamingEngine.thy ===== *)
theory StreamingEngine
  imports StreamingFactory
begin

text \<open>
  \<open>StreamingIndicatorEngine\<close> (\<open>indicators/streaming/streaming_indicator_engine.py\<close>): the object that
  maps the indicator names of a strategy to shared incremental states.

    - The states whose classes compute with pandas or numpy (windowed, batched, prefix, rolling and
      session volume profile, VP-derived) are values of the type \<open>'o\<close>; what they do is the record
      \<open>engine_env\<close>, together with the handler registry and the metric catalog.
    - \<open>_family_states\<close> is an association list in insertion order from family keys to their state, or to
      \<open>Batched\<close> for the shared batched state; \<open>_states\<close> maps every name to the slot it reads, so that
      names of one family share one state here as they share one object there.
    - \<open>depends_loop\<close> is the worklist of \<open>_any_transitive_depends_on_vp\<close>; it is proved to end and to
      decide reachability in the graph of requirements.
    - An update that raises leaves no state to continue with.
\<close>

section \<open>The environment\<close>

record 'o engine_env =
  ee_handlers :: handler_registry
  ee_resolver :: "(string \<Rightarrow> nat option result) option"
  ee_min_lookback :: "string \<Rightarrow> nat option"
  ee_fpow :: pow_fun
  ee_bar_date :: "pyval \<Rightarrow> string result"
  ee_windowed :: "string \<Rightarrow> nat \<Rightarrow> 'o result"
  ee_prefix :: "string \<Rightarrow> 'o result"
  ee_rolling :: "string \<Rightarrow> 'o result"
  ee_batched :: "string list \<Rightarrow> nat \<Rightarrow> bool \<Rightarrow> 'o"
  ee_session :: 'o
  ee_derived :: "string list \<Rightarrow> 'o"
  ee_update :: "bar \<Rightarrow> 'o \<Rightarrow> 'o result"
  ee_update_batched :: "bar \<Rightarrow> (string \<times> pyval) list \<Rightarrow> 'o \<Rightarrow> 'o result"
  ee_update_derived :: "bar \<Rightarrow> 'o \<Rightarrow> 'o \<Rightarrow> 'o result"
  ee_reset :: "'o \<Rightarrow> 'o"
  ee_attr :: "string \<Rightarrow> 'o \<Rightarrow> pyval result"

section \<open>Names and families\<close>

definition MIN_BARS :: nat where
  "MIN_BARS = 10"

definition vp_derived_metrics :: "string list" where
  "vp_derived_metrics = [''near_val'', ''near_vah'', ''above_value'', ''below_value'', ''inside_value'',
     ''at_poc'', ''balance_status'', ''rejection_from_edge'', ''acceptance_into_value'',
     ''acceptance_outside_value'', ''poc_rejection'', ''value_area_width_pct'', ''distance_to_vah_pct'',
     ''distance_to_val_pct'', ''value_area_migration'', ''edge_volume_building'', ''poc_slope_5'',
     ''poc_slope_20'', ''profile_shape'', ''day_type_classification'', ''stopping_volume'', ''climax_volume'']"

definition macd_names :: "string list" where
  "macd_names = [''macd'', ''macd_signal'', ''macd_hist'']"

definition bb_names :: "string list" where
  "bb_names = [''bb_upper'', ''bb_middle'', ''bb_lower'']"

definition vp_root_names :: "string list" where
  "vp_root_names = [''vp_poc'', ''vp_vah'', ''vp_val'']"

definition canonical_family :: "string \<Rightarrow> string" where
  "canonical_family name =
     (if name \<in> set macd_names then ''macd''
      else if name \<in> set bb_names then ''bb''
      else if list_ex (\<lambda>p. starts_with p name) [''bb_upper_'', ''bb_middle_'', ''bb_lower_''] then ''bb''
      else name)"

definition is_rvp_metric :: "string \<Rightarrow> bool" where
  "is_rvp_metric name \<longleftrightarrow> list_ex (\<lambda>p. starts_with p name \<and> positive_number (drop (length p) name)) rvp_prefixes"

definition prefix_vp_names :: "string list" where
  "prefix_vp_names =
     concat (map (\<lambda>part. map (\<lambda>w. ''cvp_'' @ part @ ''_'' @ w @ ''d'') [''5'', ''10'', ''20''])
       [''poc'', ''vah'', ''val'']) @
     concat (map (\<lambda>part. map (\<lambda>w. ''vp_'' @ part @ ''_'' @ w @ ''d'') [''5'', ''20''])
       [''poc'', ''vah'', ''val''])"

definition prefix_recompute_names :: "string list" where
  "prefix_recompute_names = [''daily_vpin'', ''intraday_volume_curve'', ''empirical_volume_curve'',
     ''cumulative_signed_volume_ofi'', ''daily_return_kurtosis'', ''daily_return_skewness'',
     ''realized_vol_5m'', ''hurst_exponent'', ''bipower_variation'', ''realized_kurtosis'',
     ''realized_skewness'', ''return_volume_correlation'', ''market_regime'', ''fractal_regime'',
     ''day_type_classification'', ''breakout_quality'', ''breakout_signal'', ''premium_discount_zone'',
     ''price_vs_sma20'', ''balance_status'', ''alligator_jaw'', ''alligator_teeth'', ''alligator_lips'',
     ''proxy_atr'', ''proxy_iv'', ''proxy_expected_move'', ''parametric_u_shape'', ''profile_shape'',
     ''is_b_shape'', ''is_neutral_shape'']"

definition is_prefix_metric :: "string \<Rightarrow> bool" where
  "is_prefix_metric name \<longleftrightarrow> name \<in> set prefix_recompute_names \<or> name \<in> set prefix_vp_names"

section \<open>Which names need the session profile\<close>

text \<open>
  The stack of the source grows at its end; here its top is the head.  A name is expanded once.
\<close>

function depends_loop :: "handler_registry \<Rightarrow> string set \<Rightarrow> string list \<Rightarrow> bool" where
  "depends_loop handlers seen [] = False"
| "depends_loop handlers seen (name # stack) =
     (if name \<in> seen then depends_loop handlers seen stack
      else (case map_of handlers name of
              None \<Rightarrow> depends_loop handlers (insert name seen) stack
            | Some deps \<Rightarrow>
                if list_ex (\<lambda>d. d \<in> set vp_root_names) deps then True
                else depends_loop handlers (insert name seen)
                       (rev (filter (\<lambda>d. d \<notin> insert name seen) deps) @ stack)))"
  by pat_completeness auto
termination
proof (relation "(\<lambda>(h, seen, _). card (fst ` set h - seen)) <*mlex*> measure (\<lambda>(_, _, stack). length stack)",
    goal_cases)
  case 1
  show ?case by (intro wf_mlex wf_measure)
next
  case (2 handlers seen name stack)
  then show ?case by (simp add: mlex_leq)
next
  case (3 handlers seen name stack)
  have "card (fst ` set handlers - insert name seen) \<le> card (fst ` set handlers - seen)"
    by (intro card_mono) auto
  then show ?case by (simp add: mlex_leq)
next
  case (4 handlers seen name stack deps)
  then have "name \<in> fst ` set handlers - seen" by (auto dest: map_of_SomeD intro: rev_image_eqI)
  then have "fst ` set handlers - insert name seen \<subset> fst ` set handlers - seen" by auto
  then have "card (fst ` set handlers - insert name seen) < card (fst ` set handlers - seen)"
    by (intro psubset_card_mono) simp_all
  then show ?case by (intro mlex_less) simp
qed

definition any_transitive_depends_on_vp :: "handler_registry \<Rightarrow> string list \<Rightarrow> bool" where
  "any_transitive_depends_on_vp handlers indicators =
     depends_loop handlers {} (rev (filter (\<lambda>n. n \<notin> set vp_root_names) indicators))"

section \<open>One state of the union\<close>

definition stream_update :: "'o engine_env \<Rightarrow> bar \<Rightarrow> 'o StreamState \<Rightarrow> 'o StreamState result" where
  "stream_update env b st =
     (case st of
        Sma s \<Rightarrow> ebind (sma_update b s) (\<lambda>(_, s'). Inr (Sma s'))
      | Ema s \<Rightarrow> ebind (ema_update b s) (\<lambda>(_, s'). Inr (Ema s'))
      | Rsi s \<Rightarrow> ebind (rsi_update b s) (\<lambda>(_, s'). Inr (Rsi s'))
      | Atr s \<Rightarrow> ebind (atr_update b s) (\<lambda>(_, s'). Inr (Atr s'))
      | Adx s \<Rightarrow> ebind (adx_update b s) (\<lambda>(_, s'). Inr (Adx s'))
      | Bb s \<Rightarrow> ebind (bb_update b s) (\<lambda>(_, s'). Inr (Bb s'))
      | Macd s \<Rightarrow> ebind (macd_update b s) (\<lambda>(_, s'). Inr (Macd s'))
      | Vwap s \<Rightarrow> ebind (vwap_update (ee_bar_date env) b s) (\<lambda>(_, s'). Inr (Vwap s'))
      | Ibs s \<Rightarrow> ebind (ibs_update b s) (\<lambda>(_, s'). Inr (Ibs s'))
      | Rvol s \<Rightarrow> ebind (rvol_update b s) (\<lambda>(_, s'). Inr (Rvol s'))
      | Ker s \<Rightarrow> ebind (ker_update b s) (\<lambda>(_, s'). Inr (Ker s'))
      | Kama s \<Rightarrow> ebind (kama_update (ee_fpow env) b s) (\<lambda>(_, s'). Inr (Kama s'))
      | Other x \<Rightarrow> ebind (ee_update env b x) (\<lambda>x'. Inr (Other x')))"

definition stream_reset :: "'o engine_env \<Rightarrow> 'o StreamState \<Rightarrow> 'o StreamState" where
  "stream_reset env st =
     (case st of
        Sma s \<Rightarrow> Sma (sma_reset s)
      | Ema s \<Rightarrow> Ema (ema_reset s)
      | Rsi s \<Rightarrow> Rsi (rsi_reset s)
      | Atr s \<Rightarrow> Atr (atr_reset s)
      | Adx s \<Rightarrow> Adx (adx_reset s)
      | Bb s \<Rightarrow> Bb (bb_reset s)
      | Macd s \<Rightarrow> Macd (macd_reset s)
      | Vwap s \<Rightarrow> Vwap (vwap_reset s)
      | Ibs s \<Rightarrow> Ibs (ibs_reset s)
      | Rvol s \<Rightarrow> Rvol (rvol_reset s)
      | Ker s \<Rightarrow> Ker (ker_reset s)
      | Kama s \<Rightarrow> Kama (kama_reset s)
      | Other x \<Rightarrow> Other (ee_reset env x))"

definition floating :: "flt result \<Rightarrow> pyval result" where
  "floating m = ebind m (\<lambda>x. Inr (PFloat x))"

definition nan_value :: "pyval result" where
  "nan_value = Inr (PFloat NaN)"

text \<open>\<open>getattr(state, "value", nan)\<close>; the multi-output classes have no such property.\<close>

definition value_attr :: "'o engine_env \<Rightarrow> string \<Rightarrow> 'o StreamState \<Rightarrow> pyval result" where
  "value_attr env name st =
     (case st of
        Sma s \<Rightarrow> floating (sma_value s)
      | Ema s \<Rightarrow> floating (ema_value s)
      | Rsi s \<Rightarrow> floating (rsi_value s)
      | Atr s \<Rightarrow> floating (atr_value s)
      | Adx s \<Rightarrow> floating (adx_value s)
      | Bb _ \<Rightarrow> nan_value
      | Macd _ \<Rightarrow> nan_value
      | Vwap s \<Rightarrow> floating (vwap_value s)
      | Ibs s \<Rightarrow> floating (ibs_value s)
      | Rvol s \<Rightarrow> floating (rvol_value s)
      | Ker s \<Rightarrow> floating (ker_value s)
      | Kama s \<Rightarrow> floating (kama_value s)
      | Other x \<Rightarrow> ee_attr env name x)"

definition read_macd :: "(MacdState \<Rightarrow> flt) \<Rightarrow> 'o StreamState \<Rightarrow> pyval result" where
  "read_macd f st = (case st of Macd s \<Rightarrow> Inr (PFloat (f s)) | _ \<Rightarrow> nan_value)"

definition read_bb :: "(BbState \<Rightarrow> flt result) \<Rightarrow> 'o StreamState \<Rightarrow> pyval result" where
  "read_bb f st = (case st of Bb s \<Rightarrow> floating (f s) | _ \<Rightarrow> nan_value)"

definition read_other :: "'o engine_env \<Rightarrow> string \<Rightarrow> 'o StreamState \<Rightarrow> pyval result" where
  "read_other env attr st = (case st of Other x \<Rightarrow> ee_attr env attr x | _ \<Rightarrow> nan_value)"

definition read_output :: "'o engine_env \<Rightarrow> string \<Rightarrow> 'o StreamState \<Rightarrow> pyval result" where
  "read_output env name st =
     (if name = ''macd'' then read_macd macd_line st
      else if name = ''macd_signal'' then read_macd macd_signal st
      else if name = ''macd_hist'' then read_macd macd_hist st
      else if starts_with ''bb_upper'' name then read_bb bb_upper st
      else if starts_with ''bb_middle'' name then read_bb bb_middle st
      else if starts_with ''bb_lower'' name then read_bb bb_lower st
      else if name = ''vp_poc'' then read_other env ''poc'' st
      else if name = ''vp_vah'' then read_other env ''vah'' st
      else if name = ''vp_val'' then read_other env ''val'' st
      else value_attr env name st)"

section \<open>Building a state\<close>

definition parse_vp_window :: "string \<Rightarrow> nat" where
  "parse_vp_window name =
     (case find (\<lambda>p. starts_with p name \<and> is_number (drop (length p) name)) rvp_prefixes of
        Some p \<Rightarrow> max (nat (digits_value (drop (length p) name))) MIN_BARS
      | None \<Rightarrow>
          (case find (\<lambda>p. starts_with p name \<and> ends_with ''d'' name \<and>
                          is_number (butlast (drop (length p) name))) (rolling_vp_prefixes @ cvp_prefixes) of
             Some p \<Rightarrow> max (nat (digits_value (butlast (drop (length p) name)))) MIN_BARS
           | None \<Rightarrow> MIN_BARS))"

definition session_count_window :: "string \<Rightarrow> nat option" where
  "session_count_window name =
     (if name \<in> set [''wyckoff_phase'', ''value_area_migration''] \<or> starts_with ''poc_slope_'' name
      then Some 500 else None)"

definition default_window :: "'o engine_env \<Rightarrow> string \<Rightarrow> nat" where
  "default_window env name =
     (case session_count_window name of
        Some w \<Rightarrow> w
      | None \<Rightarrow> (case ee_min_lookback env name of Some k \<Rightarrow> max k 50 | None \<Rightarrow> 50))"

definition resolve_window :: "'o engine_env \<Rightarrow> string \<Rightarrow> nat result" where
  "resolve_window env name =
     (if is_rolling_vp name then Inr (parse_vp_window name)
      else (case ee_resolver env of
              None \<Rightarrow> Inr (default_window env name)
            | Some resolve \<Rightarrow>
                ebind (resolve name) (\<lambda>r. Inr (case r of Some w \<Rightarrow> w | None \<Rightarrow> default_window env name))))"

definition build_windowed_state :: "'o engine_env \<Rightarrow> string \<Rightarrow> 'o StreamState result" where
  "build_windowed_state env name =
     (if is_rvp_metric name then state_of Other (ee_rolling env name)
      else if is_prefix_metric name then state_of Other (ee_prefix env name)
      else ebind (resolve_window env name) (\<lambda>w. state_of Other (ee_windowed env name w)))"

definition build_state :: "'o engine_env \<Rightarrow> string \<Rightarrow> 'o StreamState result" where
  "build_state env name =
     (if is_prefix_metric name then state_of Other (ee_prefix env name)
      else ebind (classify_indicator (ee_handlers env) name) (\<lambda>kind.
        case kind of
          STREAMING \<Rightarrow> build_streaming_state name
        | WINDOWED \<Rightarrow> build_windowed_state env name
        | UNKNOWN \<Rightarrow> raise (ValueError (''Unknown indicator: '' @ str_repr name))))"

section \<open>The engine\<close>

datatype slot = SessionSlot | DerivedSlot | BatchedSlot | FamilySlot string

datatype 'o family_state = Own "'o StreamState" | Batched

record LatestBar =
  lb_values :: "(string \<times> pyval) list"
  lb_is_ready :: bool
  lb_bars_seen :: nat

definition empty_latest :: LatestBar where
  "empty_latest = \<lparr>lb_values = [], lb_is_ready = False, lb_bars_seen = 0\<rparr>"

record 'o StreamingIndicatorEngine =
  en_indicators :: "string list"
  en_states :: "(string \<times> slot) list"
  en_family :: "(string \<times> 'o family_state) list"
  en_session :: "'o option"
  en_derived :: "'o option"
  en_batched :: "'o option"
  en_bars_seen :: nat
  en_latest :: LatestBar

text \<open>The first pass over the names: the windowed ones that may share a buffer.\<close>

definition windowed_step :: "'o engine_env \<Rightarrow> string \<Rightarrow> string list \<Rightarrow> string list result" where
  "windowed_step env name names =
     (if is_prefix_metric name \<or> is_rvp_metric name \<or> name \<in> set vp_root_names then Inr names
      else ebind (classify_indicator (ee_handlers env) name) (\<lambda>kind.
             Inr (if kind = WINDOWED \<and> canonical_family name = name then names @ [name] else names)))"

text \<open>The second pass: the slot of every name, building the state of a family on its first name.\<close>

definition assign_slot ::
  "'o engine_env \<Rightarrow> string list \<Rightarrow> string list \<Rightarrow> string \<Rightarrow> 'o StreamingIndicatorEngine \<Rightarrow>
   'o StreamingIndicatorEngine result" where
  "assign_slot env derived_names windowed_names name e =
     (let family = canonical_family name
      in if name \<in> set vp_root_names \<and> en_session e \<noteq> None
         then Inr (e\<lparr>en_states := AList.update name SessionSlot (en_states e)\<rparr>)
         else if en_derived e \<noteq> None \<and> name \<in> set derived_names
         then Inr (e\<lparr>en_states := AList.update name DerivedSlot (en_states e)\<rparr>)
         else if en_batched e \<noteq> None \<and> name \<in> set windowed_names
         then Inr (e\<lparr>en_family := AList.update family Batched (en_family e),
                     en_states := AList.update name BatchedSlot (en_states e)\<rparr>)
         else ebind (if map_of (en_family e) family = None
                     then ebind (build_state env name) (\<lambda>st. Inr (en_family e @ [(family, Own st)]))
                     else Inr (en_family e)) (\<lambda>fam.
                Inr (e\<lparr>en_family := fam,
                       en_states := AList.update name (FamilySlot family) (en_states e)\<rparr>)))"

definition batched_of :: "'o engine_env \<Rightarrow> string list \<Rightarrow> bool \<Rightarrow> 'o result" where
  "batched_of env names inject =
     ebind (emap (resolve_window env) names) (\<lambda>ws. Inr (ee_batched env names (fold max ws 0) inject))"

definition new_engine :: "'o engine_env \<Rightarrow> string list \<Rightarrow> 'o StreamingIndicatorEngine result" where
  "new_engine env indicators =
     (let needs_vp = list_ex (\<lambda>n. n \<in> set vp_root_names) indicators \<or>
                     any_transitive_depends_on_vp (ee_handlers env) indicators;
          session = (if needs_vp then Some (ee_session env) else None)
      in ebind (efold (windowed_step env) indicators []) (\<lambda>windowed_names.
         let derived_names = filter (\<lambda>n. n \<in> set vp_derived_metrics) windowed_names;
             truly_windowed = filter (\<lambda>n. n \<notin> set vp_derived_metrics) windowed_names;
             derived = (if derived_names \<noteq> [] \<and> needs_vp then Some (ee_derived env derived_names) else None)
         in ebind (if 2 \<le> length truly_windowed \<or>
                      (length truly_windowed = 1 \<and> needs_vp \<and> derived = None)
                   then ebind (batched_of env truly_windowed needs_vp) (\<lambda>x. Inr (Some x))
                   else Inr None) (\<lambda>batched.
            efold (assign_slot env derived_names truly_windowed) indicators
              \<lparr>en_indicators = indicators, en_states = [], en_family = [], en_session = session,
               en_derived = derived, en_batched = batched, en_bars_seen = 0, en_latest = empty_latest\<rparr>)))"

section \<open>One bar\<close>

definition update_family :: "'o engine_env \<Rightarrow> bar \<Rightarrow> 'o family_state \<Rightarrow> 'o family_state result" where
  "update_family env b fs =
     (case fs of Batched \<Rightarrow> Inr Batched | Own st \<Rightarrow> ebind (stream_update env b st) (\<lambda>st'. Inr (Own st')))"

definition update_families ::
  "'o engine_env \<Rightarrow> bar \<Rightarrow> (string \<times> 'o family_state) list \<Rightarrow> (string \<times> 'o family_state) list result" where
  "update_families env b fam = emap (\<lambda>(k, fs). ebind (update_family env b fs) (\<lambda>fs'. Inr (k, fs'))) fam"

text \<open>The session levels that the batched state gets with the bar.\<close>

definition injected_values :: "'o engine_env \<Rightarrow> 'o option \<Rightarrow> (string \<times> pyval) list result" where
  "injected_values env session =
     (case session of
        None \<Rightarrow> Inr []
      | Some s \<Rightarrow> ebind (ee_attr env ''poc'' s) (\<lambda>poc. ebind (ee_attr env ''vah'' s) (\<lambda>vah.
                 ebind (ee_attr env ''val'' s) (\<lambda>vl.
                   Inr [(''vp_poc'', poc), (''vp_vah'', vah), (''vp_val'', vl)]))))"

definition on_some :: "('a \<Rightarrow> 'a result) \<Rightarrow> 'a option \<Rightarrow> 'a option result" where
  "on_some f x = (case x of None \<Rightarrow> Inr None | Some a \<Rightarrow> ebind (f a) (\<lambda>a'. Inr (Some a')))"

definition update_states :: "'o engine_env \<Rightarrow> bar \<Rightarrow> 'o StreamingIndicatorEngine \<Rightarrow> 'o StreamingIndicatorEngine result" where
  "update_states env b e =
     ebind (on_some (ee_update env b) (en_session e)) (\<lambda>session.
     ebind (on_some (ee_update_derived env b (the session)) (en_derived e)) (\<lambda>derived.
     ebind (on_some (\<lambda>x. ebind (injected_values env session) (\<lambda>inj. ee_update_batched env b inj x))
              (en_batched e)) (\<lambda>batched.
     ebind (update_families env b (en_family e)) (\<lambda>fam.
       Inr (e\<lparr>en_session := session, en_derived := derived, en_batched := batched, en_family := fam\<rparr>)))))"

text \<open>The state behind a name.\<close>

definition slot_state :: "'o StreamingIndicatorEngine \<Rightarrow> slot \<Rightarrow> 'o StreamState option" where
  "slot_state e sl =
     (case sl of
        SessionSlot \<Rightarrow> map_option Other (en_session e)
      | DerivedSlot \<Rightarrow> map_option Other (en_derived e)
      | BatchedSlot \<Rightarrow> map_option Other (en_batched e)
      | FamilySlot k \<Rightarrow>
          (case map_of (en_family e) k of
             None \<Rightarrow> None
           | Some Batched \<Rightarrow> map_option Other (en_batched e)
           | Some (Own st) \<Rightarrow> Some st))"

definition named_state :: "'o StreamingIndicatorEngine \<Rightarrow> string \<Rightarrow> 'o StreamState option" where
  "named_state e name = (case map_of (en_states e) name of None \<Rightarrow> None | Some sl \<Rightarrow> slot_state e sl)"

definition engine_output :: "'o engine_env \<Rightarrow> 'o StreamingIndicatorEngine \<Rightarrow> string \<Rightarrow> pyval result" where
  "engine_output env e name =
     (case named_state e name of None \<Rightarrow> raise (KeyError name) | Some st \<Rightarrow> read_output env name st)"

fun is_missing_value :: "pyval \<Rightarrow> bool" where
  "is_missing_value PNone = True"
| "is_missing_value (PFloat x) = is_nan x"
| "is_missing_value _ = False"

definition collect_output ::
  "'o engine_env \<Rightarrow> 'o StreamingIndicatorEngine \<Rightarrow> string \<Rightarrow> (string \<times> pyval) list \<Rightarrow> (string \<times> pyval) list result" where
  "collect_output env e name vals =
     ebind (engine_output env e name) (\<lambda>v. Inr (if is_missing_value v then vals else AList.update name v vals))"

definition engine_update ::
  "'o engine_env \<Rightarrow> bar \<Rightarrow> 'o StreamingIndicatorEngine \<Rightarrow> (LatestBar \<times> 'o StreamingIndicatorEngine) result" where
  "engine_update env b e =
     ebind (update_states env b (e\<lparr>en_bars_seen := en_bars_seen e + 1\<rparr>)) (\<lambda>e1.
     ebind (efold (collect_output env e1) (en_indicators e1) []) (\<lambda>vals.
       let latest = \<lparr>lb_values = vals, lb_is_ready = (MIN_BARS \<le> en_bars_seen e1),
                     lb_bars_seen = en_bars_seen e1\<rparr>
       in Inr (latest, e1\<lparr>en_latest := latest\<rparr>)))"

definition is_ready :: "'o StreamingIndicatorEngine \<Rightarrow> bool" where
  "is_ready e \<longleftrightarrow> MIN_BARS \<le> en_bars_seen e"

text \<open>\<open>reset\<close>: the derived state is not touched.\<close>

definition reset_family :: "'o engine_env \<Rightarrow> 'o family_state \<Rightarrow> 'o family_state" where
  "reset_family env fs = (case fs of Batched \<Rightarrow> Batched | Own st \<Rightarrow> Own (stream_reset env st))"

definition engine_reset :: "'o engine_env \<Rightarrow> 'o StreamingIndicatorEngine \<Rightarrow> 'o StreamingIndicatorEngine" where
  "engine_reset env e = e\<lparr>
     en_session := map_option (ee_reset env) (en_session e),
     en_batched := map_option (ee_reset env) (en_batched e),
     en_family := map (\<lambda>(k, fs). (k, reset_family env fs)) (en_family e),
     en_bars_seen := 0, en_latest := empty_latest\<rparr>"

end
