(* ===== verification/EngineProperties.thy ===== *)
theory EngineProperties
  imports StreamingEngine
begin

text \<open>
  What the streaming engine computes: the search for volume-profile dependencies decides reachability,
  every name reads the state its family would have on its own, a reset starts over, and two places
  where sharing and reset go wrong.
\<close>

section \<open>The dependency search\<close>

definition requires_rel :: "handler_registry \<Rightarrow> (string \<times> string) set" where
  "requires_rel handlers = {(a, d). \<exists>deps. map_of handlers a = Some deps \<and> d \<in> set deps}"

definition reaches_root :: "handler_registry \<Rightarrow> string \<Rightarrow> bool" where
  "reaches_root handlers n \<longleftrightarrow> (\<exists>r \<in> set vp_root_names. (n, r) \<in> (requires_rel handlers)\<^sup>+)"

text \<open>Expanded names require no root, and what they require is expanded or on the stack.\<close>

definition expanded :: "handler_registry \<Rightarrow> string set \<Rightarrow> string set \<Rightarrow> bool" where
  "expanded handlers seen stack \<longleftrightarrow>
     (\<forall>a \<in> seen. \<forall>d. (a, d) \<in> requires_rel handlers \<longrightarrow> d \<notin> set vp_root_names \<and> d \<in> seen \<union> stack)"

lemma reach_leaves_seen:
  assumes "(n, r) \<in> (requires_rel handlers)\<^sup>+" "r \<in> set vp_root_names" "expanded handlers seen stack" "n \<in> seen"
  shows "\<exists>m \<in> stack. reaches_root handlers m"
  using assms(1,4)
proof (induction rule: converse_trancl_induct)
  case (base n)
  then show ?case using assms(2,3) by (auto simp: expanded_def)
next
  case (step n m)
  then have "m \<in> seen \<union> stack" using assms(3) by (auto simp: expanded_def)
  then show ?case using step.IH step.hyps(2) assms(2) by (auto simp: reaches_root_def)
qed

lemma reaches_root_step:
  "reaches_root handlers n \<longleftrightarrow>
     (\<exists>d. (n, d) \<in> requires_rel handlers \<and> (d \<in> set vp_root_names \<or> reaches_root handlers d))"
  unfolding reaches_root_def by (meson trancl.r_into_trancl trancl_into_trancl2 converse_tranclE)

lemma depends_loop_reaches:
  "expanded handlers seen (set stack) \<Longrightarrow>
   depends_loop handlers seen stack \<longleftrightarrow> (\<exists>n \<in> set stack. reaches_root handlers n)"
proof (induction handlers seen stack rule: depends_loop.induct)
  case (1 handlers seen)
  then show ?case by simp
next
  case (2 handlers seen name stack)
  show ?case
  proof (cases "name \<in> seen")
    case True
    then have e: "expanded handlers seen (set stack)" using 2(4) by (auto simp: expanded_def)
    have "reaches_root handlers name \<Longrightarrow> \<exists>m \<in> set stack. reaches_root handlers m"
      using reach_leaves_seen [OF _ _ e True] by (auto simp: reaches_root_def)
    then show ?thesis using 2(1) [OF True e] True by auto
  next
    case new: False
    show ?thesis
    proof (cases "map_of handlers name")
      case None
      then have no: "(name, d) \<notin> requires_rel handlers" for d by (simp add: requires_rel_def)
      have "expanded handlers (insert name seen) (set stack)" using 2(4) no by (auto simp: expanded_def)
      moreover have "\<not> reaches_root handlers name" using no by (simp add: reaches_root_step [of _ name])
      ultimately show ?thesis using 2(2) [OF new None] new None by simp
    next
      case (Some deps)
      then have rel: "(name, d) \<in> requires_rel handlers \<longleftrightarrow> d \<in> set deps" for d by (simp add: requires_rel_def)
      show ?thesis
      proof (cases "list_ex (\<lambda>d. d \<in> set vp_root_names) deps")
        case True
        then have "reaches_root handlers name" using rel by (auto simp: reaches_root_step [of _ name] list_ex_iff)
        then show ?thesis using new Some True by simp
      next
        case False
        let ?stack = "rev (filter (\<lambda>d. d \<notin> insert name seen) deps) @ stack"
        have e: "expanded handlers (insert name seen) (set ?stack)"
          using 2(4) rel False by (auto simp: expanded_def list_ex_iff)
        have "reaches_root handlers name \<Longrightarrow> \<exists>m \<in> set ?stack. reaches_root handlers m"
          using reach_leaves_seen [OF _ _ e, of name] by (auto simp: reaches_root_def)
        moreover have "d \<in> set deps \<Longrightarrow> reaches_root handlers d \<Longrightarrow> reaches_root handlers name" for d
          using rel by (auto simp: reaches_root_step [of _ name])
        ultimately have "(\<exists>m \<in> set ?stack. reaches_root handlers m) \<longleftrightarrow>
            (\<exists>n \<in> set (name # stack). reaches_root handlers n)"
          by fastforce
        then show ?thesis using 2(3) [OF new Some False e] new Some False by simp
      qed
    qed
  qed
qed

text \<open>
  C32. The dependency search ends and is exact: an engine gets a session volume profile because of its
  derived names exactly when one of them reaches a profile root in the graph of requirements, cycles of
  requirements included.
\<close>

theorem vp_search_decides_reachability:
  "any_transitive_depends_on_vp handlers indicators \<longleftrightarrow>
     (\<exists>n \<in> set indicators. n \<notin> set vp_root_names \<and> reaches_root handlers n)"
  using depends_loop_reaches [of handlers "{}" "rev (filter (\<lambda>n. n \<notin> set vp_root_names) indicators)"]
  by (auto simp: any_transitive_depends_on_vp_def expanded_def)

section \<open>Engines of streaming indicators\<close>

definition plain_name :: "'o engine_env \<Rightarrow> string \<Rightarrow> bool" where
  "plain_name env n \<longleftrightarrow> \<not> is_prefix_metric n \<and> n \<notin> set vp_root_names \<and>
     classify_indicator (ee_handlers env) n = Inr STREAMING"

definition plain_indicators :: "'o engine_env \<Rightarrow> string list \<Rightarrow> bool" where
  "plain_indicators env inds \<longleftrightarrow>
     list_all (plain_name env) inds \<and> \<not> any_transitive_depends_on_vp (ee_handlers env) inds"

lemma windowed_none:
  "list_all (plain_name env) inds \<Longrightarrow> efold (windowed_step env) inds [] = Inr []"
  by (induction inds) (auto simp: windowed_step_def plain_name_def)

text \<open>The name whose state a family has: the first of the family in the list.\<close>

definition family_head :: "string list \<Rightarrow> string \<Rightarrow> string option" where
  "family_head inds k = find (\<lambda>n. canonical_family n = k) inds"

lemma family_head_snoc:
  "family_head (ns @ [n]) k =
     (case family_head ns k of Some m \<Rightarrow> Some m | None \<Rightarrow> if canonical_family n = k then Some n else None)"
  unfolding family_head_def by (induction ns) auto

lemma family_head_None: "family_head ns k = None \<longleftrightarrow> (\<forall>n \<in> set ns. canonical_family n \<noteq> k)"
  unfolding family_head_def by (induction ns) auto

text \<open>The slots and states of an engine without pandas-based states.\<close>

fun head_built :: "'o engine_env \<Rightarrow> string option \<Rightarrow> 'o family_state option \<Rightarrow> bool" where
  "head_built env None x = (x = None)"
| "head_built env (Some m) x = (\<exists>st. build_state env m = Inr st \<and> x = Some (Own st))"

definition assigned :: "'o engine_env \<Rightarrow> string list \<Rightarrow> 'o StreamingIndicatorEngine \<Rightarrow> bool" where
  "assigned env ns e \<longleftrightarrow>
     en_session e = None \<and> en_derived e = None \<and> en_batched e = None \<and>
     (\<forall>n \<in> set ns. map_of (en_states e) n = Some (FamilySlot (canonical_family n))) \<and>
     (\<forall>k. head_built env (family_head ns k) (map_of (en_family e) k))"

lemma head_built_None: "head_built env h x \<Longrightarrow> x = None \<longleftrightarrow> h = None"
  by (cases h) auto

lemma assign_slot_assigned:
  assumes "assign_slot env [] [] n e = Inr e'" "assigned env ns e" "plain_name env n"
  shows "assigned env (ns @ [n]) e'"
proof -
  let ?k = "canonical_family n"
  from assms obtain fam where
    f: "(if map_of (en_family e) ?k = None
         then ebind (build_state env n) (\<lambda>st. Inr (en_family e @ [(?k, Own st)])) else Inr (en_family e)) = Inr fam"
    and e': "e' = e\<lparr>en_family := fam, en_states := AList.update n (FamilySlot ?k) (en_states e)\<rparr>"
    by (auto simp: assign_slot_def assigned_def plain_name_def Let_def)
  have inv: "head_built env (family_head ns k) (map_of (en_family e) k)" for k
    using assms(2) by (simp add: assigned_def)
  have "head_built env (family_head (ns @ [n]) k) (map_of fam k)" for k
  proof (cases "family_head ns ?k")
    case None
    then obtain st where st: "build_state env n = Inr st" "fam = en_family e @ [(?k, Own st)]"
      using f head_built_None [OF inv [of ?k]] by auto
    show ?thesis
    proof (cases "k = ?k")
      case True
      then show ?thesis using None st head_built_None [OF inv [of ?k]] by (simp add: family_head_snoc map_add_def)
    next
      case False
      then have "map_of fam k = map_of (en_family e) k" "family_head (ns @ [n]) k = family_head ns k"
        using st by (simp_all add: family_head_snoc map_add_def split: option.split)
      then show ?thesis using inv [of k] by simp
    qed
  next
    case (Some m)
    then have "map_of (en_family e) ?k \<noteq> None" using head_built_None [OF inv [of ?k]] by simp
    then have "fam = en_family e" using f by auto
    moreover have "family_head (ns @ [n]) k = family_head ns k"
      using Some by (cases "k = ?k") (auto simp: family_head_snoc split: option.split)
    ultimately show ?thesis using inv [of k] by simp
  qed
  then show ?thesis using assms(2) e' by (auto simp: assigned_def update_conv)
qed

lemma assign_all:
  "efold (assign_slot env [] []) ns e0 = Inr e \<Longrightarrow> list_all (plain_name env) ns \<Longrightarrow> assigned env [] e0 \<Longrightarrow>
   assigned env ns e"
proof (induction ns arbitrary: e rule: rev_induct)
  case (snoc n ns)
  then show ?case by (auto simp: efold_append_Inr intro: assign_slot_assigned)
qed simp

definition blank_engine :: "string list \<Rightarrow> 'o StreamingIndicatorEngine" where
  "blank_engine inds = \<lparr>en_indicators = inds, en_states = [], en_family = [], en_session = None,
     en_derived = None, en_batched = None, en_bars_seen = 0, en_latest = empty_latest\<rparr>"

lemma new_engine_assigns:
  assumes "new_engine env inds = Inr e" "plain_indicators env inds"
  shows "efold (assign_slot env [] []) inds (blank_engine inds) = Inr e" "list_all (plain_name env) inds"
proof -
  show p: "list_all (plain_name env) inds" using assms(2) by (simp add: plain_indicators_def)
  then have "\<not> list_ex (\<lambda>n. n \<in> set vp_root_names) inds"
    by (auto simp: list_all_iff list_ex_iff plain_name_def)
  then show "efold (assign_slot env [] []) inds (blank_engine inds) = Inr e"
    using assms windowed_none [OF p] by (simp add: new_engine_def plain_indicators_def blank_engine_def Let_def)
qed

lemma new_engine_plain: "new_engine env inds = Inr e \<Longrightarrow> plain_indicators env inds \<Longrightarrow> assigned env inds e"
  by (rule assign_all [OF new_engine_assigns])
    (simp_all add: assigned_def family_head_def blank_engine_def)

section \<open>Feeding a plain engine\<close>

lemma update_families_map_of:
  "update_families env b fam = Inr fam' \<Longrightarrow>
   (case map_of fam k of None \<Rightarrow> map_of fam' k = None
    | Some fs \<Rightarrow> \<exists>fs'. update_family env b fs = Inr fs' \<and> map_of fam' k = Some fs')"
  unfolding update_families_def
  by (induction fam arbitrary: fam') (auto split: option.splits)

text \<open>Every family holds its first name's state, fed with the bars so far.\<close>

fun head_fed :: "'o engine_env \<Rightarrow> bar list \<Rightarrow> string option \<Rightarrow> 'o family_state option \<Rightarrow> bool" where
  "head_fed env bs None x = (x = None)"
| "head_fed env bs (Some m) x =
     (\<exists>st st'. build_state env m = Inr st \<and> efold (stream_update env) bs st = Inr st' \<and> x = Some (Own st'))"

definition fed :: "'o engine_env \<Rightarrow> string list \<Rightarrow> bar list \<Rightarrow> 'o StreamingIndicatorEngine \<Rightarrow> bool" where
  "fed env ns bs e \<longleftrightarrow>
     en_session e = None \<and> en_derived e = None \<and> en_batched e = None \<and>
     (\<forall>n \<in> set ns. map_of (en_states e) n = Some (FamilySlot (canonical_family n))) \<and>
     (\<forall>k. head_fed env bs (family_head ns k) (map_of (en_family e) k))"

lemma assigned_fed: "assigned env ns e \<Longrightarrow> fed env ns [] e"
proof -
  have "head_built env h x \<Longrightarrow> head_fed env [] h x" for h x by (cases h) auto
  then show "assigned env ns e \<Longrightarrow> fed env ns [] e" by (auto simp: assigned_def fed_def)
qed

lemma engine_updateE:
  assumes "engine_update env b e = Inr (l, e')"
  obtains e1 vals where "update_states env b (e\<lparr>en_bars_seen := en_bars_seen e + 1\<rparr>) = Inr e1"
    "l = \<lparr>lb_values = vals, lb_is_ready = (MIN_BARS \<le> en_bars_seen e1), lb_bars_seen = en_bars_seen e1\<rparr>"
    "e' = e1\<lparr>en_latest := l\<rparr>"
    "efold (collect_output env e1) (en_indicators e1) [] = Inr vals"
  using assms by (auto simp: engine_update_def Let_def)

lemma engine_update_fed:
  assumes "engine_update env b e = Inr (l, e')" "fed env ns bs e"
  shows "fed env ns (bs @ [b]) e'"
  using assms(1)
proof (rule engine_updateE)
  fix e1 vals
  assume u: "update_states env b (e\<lparr>en_bars_seen := en_bars_seen e + 1\<rparr>) = Inr e1" and e': "e' = e1\<lparr>en_latest := l\<rparr>"
  have none: "en_session e = None" "en_derived e = None" "en_batched e = None" using assms(2) by (simp_all add: fed_def)
  from u none obtain fam where f: "update_families env b (en_family e) = Inr fam"
    "e1 = e\<lparr>en_bars_seen := en_bars_seen e + 1, en_family := fam\<rparr>"
    by (auto simp: update_states_def on_some_def)
  have "head_fed env (bs @ [b]) (family_head ns k) (map_of fam k)" for k
  proof (cases "family_head ns k")
    case None
    then have "map_of (en_family e) k = None" using assms(2) by (auto simp: fed_def dest: spec [of _ k])
    then show ?thesis using update_families_map_of [OF f(1), of k] None by simp
  next
    case (Some m)
    then have "head_fed env bs (Some m) (map_of (en_family e) k)" using assms(2) by (auto simp: fed_def dest: spec [of _ k])
    then obtain st st' where st: "build_state env m = Inr st" "efold (stream_update env) bs st = Inr st'"
      "map_of (en_family e) k = Some (Own st')" by auto
    from update_families_map_of [OF f(1), of k] st(3) obtain st2 where
      "stream_update env b st' = Inr st2" "map_of fam k = Some (Own st2)" by (auto simp: update_family_def)
    then show ?thesis using Some st by (simp add: efold_append_Inr)
  qed
  then show ?thesis using assms(2) e' f(2) by (simp add: fed_def)
qed

lemma engine_feed_fed:
  "feed (engine_update env) cs e = Inr (ls, e') \<Longrightarrow> fed env ns bs e \<Longrightarrow> fed env ns (bs @ cs) e'"
proof (induction cs arbitrary: bs e ls)
  case (Cons c cs)
  then obtain l e1 ls' where u: "engine_update env c e = Inr (l, e1)" "feed (engine_update env) cs e1 = Inr (ls', e')"
    by (auto split: prod.splits)
  from Cons.IH [OF u(2) engine_update_fed [OF u(1) Cons.prems(2)]] show ?case by simp
qed simp

lemma engine_serves:
  assumes "new_engine env inds = Inr e" "plain_indicators env inds"
    and "feed (engine_update env) bs e = Inr (ls, e')" "n \<in> set inds"
  obtains m st st' where "family_head inds (canonical_family n) = Some m" "build_state env m = Inr st"
    "efold (stream_update env) bs st = Inr st'" "named_state e' n = Some st'"
proof -
  have f: "fed env inds bs e'"
    using engine_feed_fed [OF assms(3) assigned_fed [OF new_engine_plain [OF assms(1,2)]]] by simp
  have "family_head inds (canonical_family n) \<noteq> None" using assms(4) by (auto simp: family_head_None)
  then obtain m where m: "family_head inds (canonical_family n) = Some m" by auto
  then have "head_fed env bs (Some m) (map_of (en_family e') (canonical_family n))"
    using f by (auto simp: fed_def dest: spec [of _ "canonical_family n"])
  then obtain st st' where "build_state env m = Inr st" "efold (stream_update env) bs st = Inr st'"
    "map_of (en_family e') (canonical_family n) = Some (Own st')" by auto
  then show ?thesis using that m f assms(4) by (auto simp: fed_def named_state_def slot_state_def)
qed



section \<open>Bollinger bands of two periods\<close>

lemma bb_update_period: "bb_update b s = Inr (v, s') \<Longrightarrow> bb_period s' = bb_period s"
  by (auto simp: bb_update_def Let_def split: if_splits)

lemma stream_update_Bb: "stream_update env b (Bb s) = ebind (bb_update b s) (\<lambda>(_, s'). Inr (Bb s'))"
  by (simp add: stream_update_def)

lemma stream_feed_bb:
  "efold (stream_update env) bs (Bb s) = Inr st \<Longrightarrow>
   \<exists>s' vs. st = Bb s' \<and> feed bb_update bs s = Inr (vs, s') \<and> bb_period s' = bb_period s"
proof (induction bs arbitrary: s)
  case (Cons b bs)
  then obtain v s1 where u: "bb_update b s = Inr (v, s1)" "efold (stream_update env) bs (Bb s1) = Inr st"
    by (auto simp: stream_update_Bb split: prod.splits)
  then show ?case using Cons.IH [OF u(2)] bb_update_period [OF u(1)] by auto
qed simp

text \<open>
  Two Bollinger periods collide: in an engine asked for the upper bands of 20 and of 50 bars, both
  names read one state built for 20 bars, so the band of 50 bars is never computed: both outputs are
  the upper band of the same 20-bar state.
\<close>

theorem bb_periods_collide:
  fixes env :: "'o engine_env"
  assumes "\<not> any_transitive_depends_on_vp (ee_handlers env) [''bb_upper_20'', ''bb_upper_50'']"
    and "new_engine env [''bb_upper_20'', ''bb_upper_50''] = Inr e"
    and "feed (engine_update env) bs e = Inr (ls, e')"
  shows "\<exists>s vs. feed bb_update bs (new_bb 20 (Fin 2)) = Inr (vs, s) \<and> bb_period s = 20 \<and>
           engine_output env e' ''bb_upper_20'' = floating (bb_upper s) \<and>
           engine_output env e' ''bb_upper_50'' = floating (bb_upper s)"
proof -
  let ?inds = "[''bb_upper_20'', ''bb_upper_50'']"
  have names: "list_all (\<lambda>n. \<not> is_prefix_metric n \<and> n \<notin> set vp_root_names \<and> is_dynamic n) ?inds" by code_simp
  have "is_dynamic n \<Longrightarrow> classify_indicator (ee_handlers env) n = Inr STREAMING" for n
    by (simp add: classify_indicator_def)
  then have p: "plain_indicators env ?inds"
    using names assms(1) by (auto simp: plain_indicators_def plain_name_def list_all_iff)
  have fam: "canonical_family ''bb_upper_20'' = ''bb''" "canonical_family ''bb_upper_50'' = ''bb''"
    by code_simp+
  then have head: "family_head ?inds ''bb'' = Some ''bb_upper_20''" by (simp add: family_head_def)
  have "factory_build (default_factory :: 'o StreamState StreamingStateFactory) ''bb_upper_20'' = Some (bb_of 20)"
  proof -
    have "map_of (exact_factories :: (string \<times> 'o StreamState result) list) ''bb_upper_20'' = None"
      by (simp add: exact_factories_def)
    moreover have "build_prefixed (prefix_factories :: (string \<times> (int \<Rightarrow> 'o StreamState result)) list)
        ''bb_upper_20'' = Some (bb_of 20)"
      by (simp add: prefix_factories_def starts_with_def is_number_def is_digit_def digits10_def
          digits_value_def digit_val_def)
    ultimately show ?thesis by (simp add: factory_build_def default_factory_exact default_factory_prefixed)
  qed
  then have "build_state env ''bb_upper_20'' = Inr (Bb (new_bb 20 (Fin 2)))"
    using p by (simp add: build_state_def plain_indicators_def plain_name_def build_streaming_state_def bb_of_def)
  moreover obtain m st st' where s: "family_head ?inds ''bb'' = Some m" "build_state env m = Inr st"
    "efold (stream_update env) bs st = Inr st'" "named_state e' ''bb_upper_20'' = Some st'"
    using engine_serves [OF assms(2) p assms(3), of "''bb_upper_20''"] fam by auto
  moreover obtain m2 st2 st2' where s2: "family_head ?inds ''bb'' = Some m2" "build_state env m2 = Inr st2"
    "efold (stream_update env) bs st2 = Inr st2'" "named_state e' ''bb_upper_50'' = Some st2'"
    using engine_serves [OF assms(2) p assms(3), of "''bb_upper_50''"] fam by auto
  ultimately have st: "st = Bb (new_bb 20 (Fin 2))" "st2' = st'" using head by auto
  obtain s' vs where "st' = Bb s'" "feed bb_update bs (new_bb 20 (Fin 2)) = Inr (vs, s')" "bb_period s' = 20"
    using stream_feed_bb [OF s(3) [unfolded st]] by (auto simp: new_bb_def period_floor_def)
  moreover have "read_output env ''bb_upper_20'' st' = read_bb bb_upper st'"
    "read_output env ''bb_upper_50'' st' = read_bb bb_upper st'"
    by (simp_all add: read_output_def starts_with_def)
  ultimately show ?thesis using s(4) s2(4) st(2) by (auto simp: engine_output_def read_bb_def)
qed

section \<open>Reset\<close>

definition is_other :: "'o StreamState \<Rightarrow> bool" where
  "is_other st \<longleftrightarrow> (case st of Other _ \<Rightarrow> True | _ \<Rightarrow> False)"

lemma stream_reset_update:
  "stream_update env b st = Inr st' \<Longrightarrow> \<not> is_other st \<Longrightarrow>
   stream_reset env st' = stream_reset env st \<and> \<not> is_other st'"
  by (cases st)
    (auto simp: stream_update_def stream_reset_def is_other_def update_resets)

lemma stream_reset_feed:
  "efold (stream_update env) bs st = Inr st' \<Longrightarrow> \<not> is_other st \<Longrightarrow> stream_reset env st' = stream_reset env st"
proof (induction bs arbitrary: st)
  case (Cons b bs)
  then obtain st1 where u: "stream_update env b st = Inr st1" "efold (stream_update env) bs st1 = Inr st'" by auto
  then show ?case using Cons.IH [OF u(2)] stream_reset_update [OF u(1) Cons.prems(2)] by simp
qed simp

text \<open>The states the factory builds are states just constructed.\<close>

definition fresh_state :: "'o engine_env \<Rightarrow> 'o StreamState \<Rightarrow> bool" where
  "fresh_state env st \<longleftrightarrow> \<not> is_other st \<and> stream_reset env st = st"

definition builds_fresh :: "'o engine_env \<Rightarrow> 'o StreamState result \<Rightarrow> bool" where
  "builds_fresh env m \<longleftrightarrow> (\<forall>st. m = Inr st \<longrightarrow> fresh_state env st)"

lemma exact_fresh: "list_all (\<lambda>(_, m). builds_fresh env m) exact_factories"
  by (auto simp: fresh_resets exact_factories_def builds_fresh_def fresh_state_def stream_reset_def is_other_def
      state_of_def bb_of_def)

lemma prefix_fresh: "list_all (\<lambda>(_, f). \<forall>n. builds_fresh env (f n)) prefix_factories"
  by (auto simp: fresh_resets prefix_factories_def builds_fresh_def fresh_state_def stream_reset_def is_other_def
      state_of_def bb_of_def)

lemma build_prefixed_fresh:
  "build_prefixed fs name = Some m \<Longrightarrow> list_all (\<lambda>(_, f). \<forall>n. builds_fresh env (f n)) fs \<Longrightarrow> builds_fresh env m"
  by (induction fs) (auto split: if_splits)

lemma factory_fresh: "factory_build default_factory name = Some m \<Longrightarrow> builds_fresh env m"
  using exact_fresh [of env] build_prefixed_fresh [OF _ prefix_fresh, of name m env]
  by (auto simp: factory_build_def default_factory_exact default_factory_prefixed list_all_iff
      dest: map_of_SomeD split: option.splits)

lemma streaming_state_fresh: "build_streaming_state name = Inr st \<Longrightarrow> fresh_state env st"
  using factory_fresh [of _ "Inr st" env]
  by (auto simp: build_streaming_state_def builds_fresh_def raise_def split: option.splits)

lemma plain_state_fresh: "plain_name env n \<Longrightarrow> build_state env n = Inr st \<Longrightarrow> fresh_state env st"
  by (auto simp: plain_name_def build_state_def intro: streaming_state_fresh)

text \<open>An engine without pandas-based states.\<close>

definition pure_engine :: "('o StreamState \<Rightarrow> bool) \<Rightarrow> 'o StreamingIndicatorEngine \<Rightarrow> bool" where
  "pure_engine P e \<longleftrightarrow> en_session e = None \<and> en_derived e = None \<and> en_batched e = None \<and>
     (\<forall>(k, fs) \<in> set (en_family e). \<exists>st. fs = Own st \<and> P st)"

definition unfed :: "'o engine_env \<Rightarrow> 'o StreamingIndicatorEngine \<Rightarrow> bool" where
  "unfed env e \<longleftrightarrow> pure_engine (fresh_state env) e \<and> en_bars_seen e = 0 \<and> en_latest e = empty_latest"

lemma assign_slot_unfed:
  "assign_slot env [] [] n e = Inr e' \<Longrightarrow> plain_name env n \<Longrightarrow> unfed env e \<Longrightarrow> unfed env e'"
  using plain_state_fresh [of env n]
  by (auto simp: assign_slot_def unfed_def pure_engine_def plain_name_def Let_def split: if_splits)

lemma new_engine_unfed:
  assumes "new_engine env inds = Inr e" "plain_indicators env inds"
  shows "unfed env e"
proof (rule efold_invariant [where P = "unfed env", OF _ new_engine_assigns(1) [OF assms]])
  show "unfed env (blank_engine inds)" by (simp add: unfed_def pure_engine_def blank_engine_def)
  show "x \<in> set inds \<Longrightarrow> assign_slot env [] [] x s = Inr t \<Longrightarrow> unfed env s \<Longrightarrow> unfed env t" for x s t
    using new_engine_assigns(2) [OF assms] by (elim assign_slot_unfed) (simp_all add: list_all_iff)
qed

lemma unfed_reset: "unfed env e \<Longrightarrow> engine_reset env e = e"
proof -
  assume u: "unfed env e"
  have "map (\<lambda>(k, fs). (k, reset_family env fs)) (en_family e) = en_family e"
    using u by (intro map_idI) (auto simp: unfed_def pure_engine_def fresh_state_def reset_family_def)
  then show ?thesis using u by (simp add: engine_reset_def unfed_def pure_engine_def)
qed

lemma update_families_reset:
  "update_families env b fam = Inr fam' \<Longrightarrow> \<forall>(k, fs) \<in> set fam. \<exists>st. fs = Own st \<and> \<not> is_other st \<Longrightarrow>
   map (\<lambda>(k, fs). (k, reset_family env fs)) fam' = map (\<lambda>(k, fs). (k, reset_family env fs)) fam \<and>
   (\<forall>(k, fs) \<in> set fam'. \<exists>st. fs = Own st \<and> \<not> is_other st)"
proof (induction fam arbitrary: fam')
  case (Cons kf fam)
  obtain k fs where kf: "kf = (k, fs)" by (cases kf)
  with Cons.prems obtain st st' fam1 where "fs = Own st" "\<not> is_other st"
    "stream_update env b st = Inr st'" "update_families env b fam = Inr fam1" "fam' = (k, Own st') # fam1"
    by (auto simp: update_families_def update_family_def)
  then show ?case using Cons.IH [of fam1] Cons.prems(2) stream_reset_update [of env b st st'] kf
    by (simp add: reset_family_def)
qed (simp add: update_families_def)

lemma engine_update_reset:
  assumes "engine_update env b e = Inr (l, e')" "pure_engine (\<lambda>st. \<not> is_other st) e"
  shows "engine_reset env e' = engine_reset env e \<and> pure_engine (\<lambda>st. \<not> is_other st) e'"
  using assms(1)
proof (rule engine_updateE)
  fix e1 vals
  assume u: "update_states env b (e\<lparr>en_bars_seen := en_bars_seen e + 1\<rparr>) = Inr e1" and e': "e' = e1\<lparr>en_latest := l\<rparr>"
  have none: "en_session e = None" "en_derived e = None" "en_batched e = None"
    using assms(2) by (simp_all add: pure_engine_def)
  from u none obtain fam where f: "update_families env b (en_family e) = Inr fam"
    "e1 = e\<lparr>en_bars_seen := en_bars_seen e + 1, en_family := fam\<rparr>"
    by (auto simp: update_states_def on_some_def)
  have "map (\<lambda>(k, fs). (k, reset_family env fs)) fam = map (\<lambda>(k, fs). (k, reset_family env fs)) (en_family e) \<and>
   (\<forall>(k, fs) \<in> set fam. \<exists>st. fs = Own st \<and> \<not> is_other st)"
    using update_families_reset [OF f(1)] assms(2) by (simp add: pure_engine_def)
  then show ?thesis using e' f(2) none by (simp add: engine_reset_def pure_engine_def)
qed

lemma engine_feed_reset:
  "feed (engine_update env) bs e = Inr (ls, e') \<Longrightarrow> pure_engine (\<lambda>st. \<not> is_other st) e \<Longrightarrow>
   engine_reset env e' = engine_reset env e"
proof (induction bs arbitrary: e ls)
  case (Cons b bs)
  then obtain l e1 ls' where u: "engine_update env b e = Inr (l, e1)" "feed (engine_update env) bs e1 = Inr (ls', e')"
    by (auto split: prod.splits)
  then show ?case using Cons.IH [OF u(2)] engine_update_reset [OF u(1) Cons.prems(2)] by simp
qed simp

text \<open>
  Reset starts over: an engine of streaming indicators that has been fed any bars and is then reset is
  again the engine as constructed, so it answers every further sequence of bars as a new engine does.
\<close>

theorem engine_reset_starts_over:
  assumes "new_engine env inds = Inr e" "plain_indicators env inds"
    and "feed (engine_update env) bs e = Inr (ls, e')"
  shows "engine_reset env e' = e \<and>
         feed (engine_update env) cs (engine_reset env e') = feed (engine_update env) cs e"
proof -
  have u: "unfed env e" using assms(1,2) by (rule new_engine_unfed)
  then have "pure_engine (\<lambda>st. \<not> is_other st) e" by (auto simp: unfed_def pure_engine_def fresh_state_def)
  then have "engine_reset env e' = e" using engine_feed_reset [OF assms(3)] unfed_reset [OF u] by simp
  then show ?thesis by simp
qed

text \<open>
  Reset forgets the derived metrics: a name served by the state of the VP-derived metrics reads the same
  value after a reset as before, while the count of bars is back at zero.
\<close>

theorem reset_keeps_derived_values:
  assumes "map_of (en_states e) name = Some DerivedSlot"
  shows "engine_output env (engine_reset env e) name = engine_output env e name \<and>
         en_bars_seen (engine_reset env e) = 0"
  using assms by (simp add: engine_output_def named_state_def slot_state_def engine_reset_def)


section \<open>Witnesses\<close>

definition sample_env :: "unit engine_env" where
  "sample_env = \<lparr>ee_handlers = [(''near_val'', [''vp_val''])], ee_resolver = None, ee_min_lookback = (\<lambda>_. None),
     ee_fpow = (\<lambda>x _. Inr (x * x)), ee_bar_date = (\<lambda>_. Inr ''d''), ee_windowed = (\<lambda>_ _. Inr ()),
     ee_prefix = (\<lambda>_. Inr ()), ee_rolling = (\<lambda>_. Inr ()), ee_batched = (\<lambda>_ _ _. ()), ee_session = (),
     ee_derived = (\<lambda>_. ()), ee_update = (\<lambda>_ _. Inr ()), ee_update_batched = (\<lambda>_ _ _. Inr ()),
     ee_update_derived = (\<lambda>_ _ _. Inr ()), ee_reset = (\<lambda>_. ()), ee_attr = (\<lambda>_ _. Inr (PFloat (Fin 1)))\<rparr>"

definition band_names :: "string list" where
  "band_names = [''bb_upper_20'', ''bb_upper_50'']"

definition two_bars :: "bar list" where
  "two_bars = [[''close'' \<mapsto> PFloat (Fin 1)], [''close'' \<mapsto> PFloat (Fin 2)]]"

lemma no_vp_bands: "\<not> any_transitive_depends_on_vp (ee_handlers sample_env) band_names"
  by code_simp

lemma plain_bands: "plain_indicators sample_env band_names"
proof -
  have "list_all (plain_name sample_env) band_names" by code_simp
  then show ?thesis using no_vp_bands by (simp add: plain_indicators_def)
qed

lemma bands_run:
  obtains e ls e' where "new_engine sample_env band_names = Inr e"
    "feed (engine_update sample_env) two_bars e = Inr (ls, e')" "length ls = 2"
proof -
  have "case new_engine sample_env band_names of Inl _ \<Rightarrow> False
        | Inr e \<Rightarrow> (case feed (engine_update sample_env) two_bars e of Inl _ \<Rightarrow> False | Inr (ls, _) \<Rightarrow> length ls = 2)"
    by code_simp
  then show ?thesis using that by (auto split: sum.splits)
qed


theorem bb_periods_collide_witness:
  "\<exists>e ls e'. new_engine sample_env band_names = Inr e \<and>
     feed (engine_update sample_env) two_bars e = Inr (ls, e') \<and> length ls = 2 \<and>
     (\<exists>s vs. feed bb_update two_bars (new_bb 20 (Fin 2)) = Inr (vs, s) \<and> bb_period s = 20 \<and>
        engine_output sample_env e' ''bb_upper_20'' = floating (bb_upper s) \<and>
        engine_output sample_env e' ''bb_upper_50'' = floating (bb_upper s))"
proof (rule bands_run)
  fix e ls e'
  assume r: "new_engine sample_env band_names = Inr e" "feed (engine_update sample_env) two_bars e = Inr (ls, e')"
    "length ls = 2"
  from bb_periods_collide [OF no_vp_bands [unfolded band_names_def] r(1) [unfolded band_names_def] r(2)]
  show ?thesis using r by blast
qed

theorem engine_reset_starts_over_witness:
  "\<exists>e ls e'. new_engine sample_env band_names = Inr e \<and>
     feed (engine_update sample_env) two_bars e = Inr (ls, e') \<and> length ls = 2 \<and>
     engine_reset sample_env e' = e"
proof (rule bands_run)
  fix e ls e'
  assume r: "new_engine sample_env band_names = Inr e" "feed (engine_update sample_env) two_bars e = Inr (ls, e')"
    "length ls = 2"
  from engine_reset_starts_over [OF r(1) plain_bands r(2), of "[]"] show ?thesis using r by blast
qed

theorem reset_keeps_derived_values_witness:
  "\<exists>e. new_engine sample_env [''near_val''] = Inr e \<and>
     engine_output sample_env (engine_reset sample_env e) ''near_val'' = engine_output sample_env e ''near_val''"
proof -
  have "case new_engine sample_env [''near_val''] of Inl _ \<Rightarrow> False
        | Inr e \<Rightarrow> map_of (en_states e) ''near_val'' = Some DerivedSlot" by code_simp
  then obtain e where e: "new_engine sample_env [''near_val''] = Inr e"
    "map_of (en_states e) ''near_val'' = Some DerivedSlot" by (auto split: sum.splits)
  from reset_keeps_derived_values [OF e(2), of sample_env] show ?thesis using e(1) by blast
qed

end
