(* ===== verification/DateProperties.thy ===== *)
theory DateProperties
  imports BacktestLoop
begin

text \<open>
  The dates of the simulation: what the loop writes for a bar (\<open>row_date\<close>, from \<open>strftime\<close>) is what the
  position closer reads back (\<open>parse_timestamp\<close>, with \<open>datetime.fromisoformat\<close>).
\<close>

section \<open>Decimal digits\<close>

definition digit :: "int \<Rightarrow> char" where
  "digit n = digits10 ! nat (n mod 10)"

lemma digit_facts:
  "is_digit (digit n) \<and> digit_val (digit n) = n mod 10 \<and> \<not> is_py_space (digit n) \<and>
   digit n \<noteq> CHR ''-'' \<and> digit n \<noteq> CHR ''W'' \<and> digit n \<noteq> CHR ''Z'' \<and> digit n \<noteq> CHR ''+'' \<and>
   digit n \<noteq> CHR '':''"
proof -
  define k where "k = nat (n mod 10)"
  have k: "n mod 10 = int k" "k < 10" by (simp_all add: k_def nat_less_iff)
  have "k = 0 \<or> k = 1 \<or> k = 2 \<or> k = 3 \<or> k = 4 \<or> k = 5 \<or> k = 6 \<or> k = 7 \<or> k = 8 \<or> k = 9"
    using k(2) by (simp add: numeral_eq_Suc less_Suc_eq disj_ac)
  then show ?thesis
    unfolding digit_def k(1)
    by (elim disjE) (simp_all add: digits10_def is_digit_def digit_val_def is_py_space_def Let_def of_char_def)
qed

lemma digit_simps [simp]:
  "is_digit (digit n)" "digit_val (digit n) = n mod 10" "\<not> is_py_space (digit n)"
  "digit n \<noteq> CHR ''-''" "digit n \<noteq> CHR ''W''" "digit n \<noteq> CHR ''Z''" "digit n \<noteq> CHR ''+''" "digit n \<noteq> CHR '':''"
  using digit_facts by simp_all

lemma show_pos_step: "10 \<le> n \<Longrightarrow> show_pos n acc = show_pos (n div 10) (digit n # acc)"
  by (subst show_pos.simps) (simp add: digit_def)

lemma show_pos_last: "0 \<le> n \<Longrightarrow> n < 10 \<Longrightarrow> show_pos n acc = digit n # acc"
  by (subst show_pos.simps) (simp add: digit_def)

lemma show_two:
  assumes "0 \<le> n" "n < 100"
  shows "two_digits n = [digit (n div 10), digit n]"
proof (cases "n < 10")
  case True
  then have "digit (n div 10) = CHR ''0''" using assms(1) by (simp add: digit_def digits10_def)
  then show ?thesis using True assms by (simp add: two_digits_def show_int_def show_pos_last pad_left_def)
next
  case False
  then show ?thesis
    using assms by (simp add: two_digits_def show_int_def show_pos_step show_pos_last pad_left_def)
qed

lemma show_year:
  assumes "1000 \<le> y" "y \<le> 9999"
  shows "show_int y = [digit (y div 1000), digit (y div 100), digit (y div 10), digit y]"
  using assms by (simp add: show_int_def show_pos_step show_pos_last flip: zdiv_zmult2_eq)

lemma two_value: "0 \<le> n \<Longrightarrow> n < 100 \<Longrightarrow> 10 * ((n div 10) mod 10) + n mod 10 = n" for n :: int
  by simp

lemma year_value:
  assumes "1000 \<le> y" "y \<le> (9999::int)"
  shows "10 * (10 * (10 * ((y div 1000) mod 10) + (y div 100) mod 10) + (y div 10) mod 10) + y mod 10 = y"
proof -
  have d: "y div 100 = y div 10 div 10" "y div 1000 = y div 10 div 10 div 10"
    by (simp_all flip: zdiv_zmult2_eq)
  have "0 \<le> y div 1000" "y div 1000 < 10" using assms by linarith+
  then have "(y div 1000) mod 10 = y div 1000" by (rule mod_pos_pos_trivial)
  moreover have "10 * (y div 1000) + (y div 100) mod 10 = y div 100"
    and "10 * (y div 100) + (y div 10) mod 10 = y div 10"
    unfolding d by (rule mult_div_mod_eq)+
  moreover have "10 * (y div 10) + y mod 10 = y" by (rule mult_div_mod_eq)
  ultimately show ?thesis by (simp only:)
qed

section \<open>Reading the text back\<close>

text \<open>The fields a proleptic Gregorian datetime with a four-digit year can have.\<close>

definition valid_datetime :: "py_datetime \<Rightarrow> bool" where
  "valid_datetime t \<longleftrightarrow> 1000 \<le> dt_year t \<and> valid_date (dt_year t, dt_month t, dt_day t) \<and>
     0 \<le> dt_hour t \<and> dt_hour t \<le> 23 \<and> 0 \<le> dt_minute t \<and> dt_minute t \<le> 59 \<and>
     0 \<le> dt_second t \<and> dt_second t \<le> 59"

lemma days_in_month_le: "1 \<le> m \<Longrightarrow> m \<le> 12 \<Longrightarrow> days_in_month y m \<le> 31"
proof -
  assume m: "1 \<le> m" "m \<le> 12"
  then have "list_all (\<lambda>d. d \<le> 31) month_lengths" "nat (m - 1) < length month_lengths"
    by (auto simp: month_lengths_def)
  then show ?thesis by (auto simp: days_in_month_def list_all_length)
qed

lemma valid_datetimeE:
  assumes "valid_datetime t"
  obtains "1000 \<le> dt_year t" "dt_year t \<le> 9999" "0 \<le> dt_month t" "dt_month t < 100" "0 \<le> dt_day t" "dt_day t < 100"
    "0 \<le> dt_hour t" "dt_hour t < 100" "0 \<le> dt_minute t" "dt_minute t < 100" "0 \<le> dt_second t" "dt_second t < 100"
    "valid_date (dt_year t, dt_month t, dt_day t)" "valid_time [dt_hour t, dt_minute t, dt_second t, 0]"
  using assms days_in_month_le [of "dt_month t" "dt_year t"]
  by (auto simp: valid_datetime_def valid_date_def valid_time_def)

definition date_chars :: "py_datetime \<Rightarrow> string" where
  "date_chars t = [digit (dt_year t div 1000), digit (dt_year t div 100), digit (dt_year t div 10), digit (dt_year t),
     CHR ''-'', digit (dt_month t div 10), digit (dt_month t), CHR ''-'', digit (dt_day t div 10), digit (dt_day t)]"

definition time_chars :: "py_datetime \<Rightarrow> string" where
  "time_chars t = [digit (dt_hour t div 10), digit (dt_hour t), CHR '':'', digit (dt_minute t div 10), digit (dt_minute t),
     CHR '':'', digit (dt_second t div 10), digit (dt_second t)]"

lemma format_date_chars: "valid_datetime t \<Longrightarrow> format_date t = date_chars t"
  by (elim valid_datetimeE) (simp add: format_date_def show_year show_two date_chars_def)

lemma format_datetime_chars: "valid_datetime t \<Longrightarrow> format_datetime t = date_chars t @ CHR ''T'' # time_chars t"
  by (frule format_date_chars, elim valid_datetimeE) (simp add: format_datetime_def show_two time_chars_def)

lemma parse_two: "0 \<le> n \<Longrightarrow> n < 100 \<Longrightarrow> parse_digits 2 (digit (n div 10) # digit n # s) = Some n"
  by (simp add: parse_digits_def digits_value_def numeral_2_eq_2 two_value)

lemma parse_four:
  "parse_digits 4 (digit a # digit b # digit c # digit d # s) =
     Some (10 * (10 * (10 * (a mod 10) + b mod 10) + c mod 10) + d mod 10)"
  by (simp add: parse_digits_def digits_value_def)

lemma parse_date_chars:
  assumes "valid_datetime t"
  shows "parse_iso_date (date_chars t @ s) k = Some (dt_year t, dt_month t, dt_day t)"
  using assms
proof (rule valid_datetimeE)
  assume y: "1000 \<le> dt_year t" "dt_year t \<le> 9999" and m: "0 \<le> dt_month t" "dt_month t < 100"
    and d: "0 \<le> dt_day t" "dt_day t < 100"
  have "parse_digits 4 (date_chars t @ s) = Some (dt_year t)"
    unfolding date_chars_def append_Cons parse_four year_value [OF y] ..
  then show ?thesis
    using m d by (simp add: parse_iso_date_def char_at_def date_chars_def parse_two Let_def)
qed

lemma find_date_separator: "find_separator (date_chars t @ s) = Some 10"
  by (simp add: find_separator_def date_chars_def Let_def)

lemma parse_time_chars:
  assumes "valid_datetime t"
  shows "parse_iso_time (time_chars t) = Some ([dt_hour t, dt_minute t, dt_second t, 0], None)"
  using assms
proof (rule valid_datetimeE)
  assume h: "0 \<le> dt_hour t" "dt_hour t < 100" "0 \<le> dt_minute t" "dt_minute t < 100"
    "0 \<le> dt_second t" "dt_second t < 100"
  have "takeWhile (\<lambda>c. \<not> is_tz_char c) (time_chars t) = time_chars t"
    "dropWhile (\<lambda>c. \<not> is_tz_char c) (time_chars t) = []"
    by (simp_all add: time_chars_def is_tz_char_def)
  moreover have "parse_hms 3 True [] (time_chars t) = Some ([dt_hour t, dt_minute t, dt_second t, 0], False)"
    using h by (simp add: time_chars_def numeral_3_eq_3 parse_two char_at_def Let_def)
  ultimately show ?thesis unfolding parse_iso_time_def Let_def by (simp only: bind.bind_lunit prod.case list.case) simp
qed

lemma read_date:
  assumes "valid_datetime t"
  shows "fromisoformat (format_date t) = Inr (t\<lparr>dt_hour := 0, dt_minute := 0, dt_second := 0, dt_micro := 0, dt_utcoffset := None\<rparr>)"
  using assms
proof (rule valid_datetimeE)
  assume v: "valid_date (dt_year t, dt_month t, dt_day t)"
  have "length (date_chars t) = 10" by (simp add: date_chars_def)
  moreover have "find_separator (date_chars t) = Some 10" "parse_iso_date (date_chars t) 10 = Some (dt_year t, dt_month t, dt_day t)"
    using find_date_separator [of t "[]"] parse_date_chars [OF assms, of "[]"] by simp_all
  ultimately show ?thesis
    using v by (simp add: format_date_chars [OF assms] fromisoformat_def fromisoformat_opt_def valid_time_def valid_offset_def)
qed

lemma read_datetime:
  assumes "valid_datetime t"
  shows "fromisoformat (format_datetime t) = Inr (t\<lparr>dt_micro := 0, dt_utcoffset := None\<rparr>)"
  using assms
proof (rule valid_datetimeE)
  assume v: "valid_date (dt_year t, dt_month t, dt_day t)" "valid_time [dt_hour t, dt_minute t, dt_second t, 0]"
  let ?s = "date_chars t @ CHR ''T'' # time_chars t"
  have "length ?s = 19" "drop 11 ?s = time_chars t" by (simp_all add: date_chars_def time_chars_def)
  then show ?thesis
    using v by (simp add: format_datetime_chars [OF assms] fromisoformat_def fromisoformat_opt_def find_date_separator
      parse_date_chars [OF assms] parse_time_chars [OF assms] valid_offset_def)
qed

text \<open>No blanks to strip, and no final \<open>Z\<close>.\<close>

lemma strip_plain:
  assumes "s \<noteq> []" "\<not> is_py_space (hd s)" "\<not> is_py_space (last s)"
  shows "str_strip s = s"
proof -
  have "dropWhile is_py_space s = s" using assms by (simp add: dropWhile_eq_self_iff)
  moreover have "dropWhile is_py_space (rev s) = rev s" using assms by (simp add: dropWhile_eq_self_iff hd_rev)
  ultimately show ?thesis by (simp add: str_strip_def)
qed

lemma parse_timestamp_plain:
  assumes "s \<noteq> []" "\<not> is_py_space (hd s)" "\<not> is_py_space (last s)" "last s \<noteq> CHR ''Z''" "10 \<le> length s"
  shows "parse_timestamp s basis = fromisoformat (if basis = ''calendar_day'' then take 10 s else s)"
  using assms by (simp add: parse_timestamp_def strip_plain Let_def)

text \<open>
  Dates survive the report: the text the loop writes for a bar with a timestamp is read back by the
  position closer as that timestamp, without the fraction of a second and the offset that the text does
  not hold; under the \<open>calendar_day\<close> basis it is read back as midnight of that day.
\<close>

theorem bar_date_roundtrip:
  assumes "valid_datetime t"
  shows "parse_timestamp (row_date (IDatetime t)) basis =
           Inr (if basis = ''calendar_day''
                then t\<lparr>dt_hour := 0, dt_minute := 0, dt_second := 0, dt_micro := 0, dt_utcoffset := None\<rparr>
                else t\<lparr>dt_micro := 0, dt_utcoffset := None\<rparr>)"
proof (cases "dt_hour t \<noteq> 0 \<or> dt_minute t \<noteq> 0 \<or> dt_second t \<noteq> 0 \<or> dt_micro t \<noteq> 0")
  case True
  let ?s = "date_chars t @ CHR ''T'' # time_chars t"
  have "?s \<noteq> []" "\<not> is_py_space (hd ?s)" "\<not> is_py_space (last ?s)" "last ?s \<noteq> CHR ''Z''" "10 \<le> length ?s" "take 10 ?s = date_chars t"
    by (simp_all add: date_chars_def time_chars_def)
  then have "parse_timestamp ?s basis = fromisoformat (if basis = ''calendar_day'' then date_chars t else ?s)"
    by (simp add: parse_timestamp_plain)
  then show ?thesis
    using True read_date [OF assms] read_datetime [OF assms]
    by (simp add: row_date_def format_date_chars [OF assms] format_datetime_chars [OF assms])
next
  case False
  let ?s = "date_chars t"
  have "?s \<noteq> []" "\<not> is_py_space (hd ?s)" "\<not> is_py_space (last ?s)" "last ?s \<noteq> CHR ''Z''" "10 \<le> length ?s" "take 10 ?s = ?s"
    by (simp_all add: date_chars_def)
  then have "parse_timestamp ?s basis = fromisoformat ?s" by (simp add: parse_timestamp_plain)
  then show ?thesis
    using False read_date [OF assms] by (simp add: row_date_def format_date_chars [OF assms])
qed

definition leap_noon :: py_datetime where
  "leap_noon = \<lparr>dt_year = 2024, dt_month = 2, dt_day = 29, dt_hour = 12, dt_minute = 30, dt_second = 0,
     dt_micro = 250, dt_utcoffset = Some 0\<rparr>"

theorem bar_date_roundtrip_witness:
  "row_date (IDatetime leap_noon) = ''2024-02-29T12:30:00'' \<and>
   parse_timestamp (row_date (IDatetime leap_noon)) ''elapsed_365'' = Inr (leap_noon\<lparr>dt_micro := 0, dt_utcoffset := None\<rparr>)"
proof -
  have "valid_datetime leap_noon" by code_simp
  moreover have "row_date (IDatetime leap_noon) = ''2024-02-29T12:30:00''" by code_simp
  ultimately show ?thesis using bar_date_roundtrip [of leap_noon "''elapsed_365''"] by simp
qed

end
