(* ===== verification/ParseHelpers.thy ===== *)
theory ParseHelpers
  imports StrategyEntities
begin

text \<open>
  Shared helpers of the document parser: \<open>parser/strategy_definition_parse_helpers.py\<close> and the entity
  \<open>strategy_validation_error\<close>.

    - The code hands one growing list of errors to every step.  A step is modelled by the value it returns
      and the errors it appends, of type \<open>'a checked\<close>; \<open>bind_checked\<close> runs one step after another.
    - A JSON value is a \<open>pyval\<close>; objects are \<open>PDict\<close> with distinct keys in document order.
    - Texts are ASCII: \<open>str.lower\<close>, \<open>str.isdigit\<close> and the letters of an identifier are modelled for it.
\<close>

section \<open>Errors\<close>

record StrategyValidationError =
  ve_path :: string
  ve_message :: string
  ve_code :: string

definition make_error :: "string \<Rightarrow> string \<Rightarrow> StrategyValidationError" where
  "make_error path message = \<lparr>ve_path = path, ve_message = message, ve_code = ''validation_error''\<rparr>"

definition coded_error :: "string \<Rightarrow> string \<Rightarrow> string \<Rightarrow> StrategyValidationError" where
  "coded_error path message code = \<lparr>ve_path = path, ve_message = message, ve_code = code\<rparr>"

type_synonym errors = "StrategyValidationError list"
type_synonym 'a checked = "'a \<times> errors"

definition bind_checked :: "'a checked \<Rightarrow> ('a \<Rightarrow> 'b checked) \<Rightarrow> 'b checked" where
  "bind_checked m f = (case m of (x, es) \<Rightarrow> (case f x of (y, es') \<Rightarrow> (y, es @ es')))"

declare bind_checked_def [code_unfold]

definition ok :: "'a \<Rightarrow> 'a checked" where
  "ok x = (x, [])"

definition fail :: "'a \<Rightarrow> StrategyValidationError \<Rightarrow> 'a checked" where
  "fail x e = (x, [e])"

text \<open>A step that appends nothing: both parts append nothing.\<close>

lemma bind_checked_ok [simp]: "bind_checked (ok x) f = f x"
  by (simp add: bind_checked_def ok_def)

lemma bind_checked_clean:
  "bind_checked m f = (y, []) \<longleftrightarrow> (\<exists>x. m = (x, []) \<and> f x = (y, []))"
  by (auto simp: bind_checked_def split: prod.splits)

lemma bind_checked_cleanE [elim!]:
  "bind_checked m f = (y, []) \<Longrightarrow> (\<And>x. m = (x, []) \<Longrightarrow> f x = (y, []) \<Longrightarrow> P) \<Longrightarrow> P"
  by (auto simp: bind_checked_clean)

lemma ok_clean [simp]: "ok x = (y, es) \<longleftrightarrow> x = y \<and> es = []"
  by (auto simp: ok_def)

lemma fail_clean [simp]: "fail x e \<noteq> (y, [])"
  by (simp add: fail_def)

lemma snd_ok [simp]: "snd (ok x) = []" "fst (ok x) = x"
  by (simp_all add: ok_def)

text \<open>A loop over the elements of a list with their positions, and its result when nothing was appended.\<close>

fun check_fold :: "('b \<Rightarrow> 'a \<Rightarrow> 'a checked) \<Rightarrow> 'b list \<Rightarrow> 'a \<Rightarrow> 'a checked" where
  "check_fold f [] s = ok s"
| "check_fold f (x # xs) s = bind_checked (f x s) (check_fold f xs)"

lemma check_fold_invariant:
  assumes "check_fold f xs s = (t, [])" "P s"
    and "\<And>x s t. x \<in> set xs \<Longrightarrow> f x s = (t, []) \<Longrightarrow> P s \<Longrightarrow> P t"
  shows "P t"
  using assms by (induction xs arbitrary: s) auto

text \<open>The same with a step that keeps its invariant also when it appends errors.\<close>

lemma check_fold_keeps:
  assumes "check_fold f xs s = (t, es)" "P s"
    and "\<And>x s t es. x \<in> set xs \<Longrightarrow> f x s = (t, es) \<Longrightarrow> P s \<Longrightarrow> P t"
  shows "P t"
  using assms
proof (induction xs arbitrary: s es)
  case (Cons x xs)
  obtain u es1 where u: "f x s = (u, es1)" by fastforce
  obtain es2 where r: "check_fold f xs u = (t, es2)"
    using Cons.prems(1) by (auto simp: bind_checked_def u split: prod.splits)
  have "P u" using Cons.prems(2,3) u by (meson list.set_intros(1))
  then show ?case using Cons.IH [OF r] Cons.prems(3) by (meson list.set_intros(2))
qed simp

text \<open>A text in single quotes, as the messages quote it.\<close>

definition quoted :: "string \<Rightarrow> string" where
  "quoted s = CHR 39 # s @ [CHR 39]"
section \<open>Operators, types and references\<close>

definition OHLCV_FIELDS :: "string list" where
  "OHLCV_FIELDS = [''timestamp'', ''open'', ''high'', ''low'', ''close'', ''volume'']"

definition BINARY_OPERATORS :: "string list" where
  "BINARY_OPERATORS = [''<'', ''>'', ''<='', ''>='', ''=='', ''!='', ''crosses_above'', ''crosses_below'',
     ''between'', ''not_between'']"

definition UNARY_OPERATORS :: "string list" where
  "UNARY_OPERATORS = [''is_true'', ''is_false'', ''exists'', ''missing'']"

definition PARAMETER_TYPES :: "string list" where
  "PARAMETER_TYPES = [''int'', ''float'', ''bool'', ''string'']"

definition value_matches_type :: "pyval \<Rightarrow> string \<Rightarrow> bool" where
  "value_matches_type v param_type =
     (if param_type = ''bool'' then (case v of PBool _ \<Rightarrow> True | _ \<Rightarrow> False)
      else if param_type = ''int'' then (case v of PInt _ \<Rightarrow> True | _ \<Rightarrow> False)
      else if param_type = ''float'' then (case v of PInt _ \<Rightarrow> True | PFloat _ \<Rightarrow> True | _ \<Rightarrow> False)
      else if param_type = ''string'' then (case v of PStr _ \<Rightarrow> True | _ \<Rightarrow> False)
      else False)"

text \<open>\<open>raw.get(key)\<close> of an object.\<close>

definition get_key :: "(string \<times> pyval) list \<Rightarrow> string \<Rightarrow> pyval \<Rightarrow> pyval" where
  "get_key kvs k dflt = (case map_of kvs k of Some v \<Rightarrow> v | None \<Rightarrow> dflt)"

definition extract_condition :: "pyval \<Rightarrow> pyval" where
  "extract_condition raw =
     (case raw of
        PDict kvs \<Rightarrow> (case map_of kvs ''condition'' of Some c \<Rightarrow> c | None \<Rightarrow> raw)
      | _ \<Rightarrow> raw)"

text \<open>
  \<open>PARAM_RE\<close>: double braces around an identifier, with blanks before, between and after.  The group is
  the identifier.
\<close>

definition ident_start :: "char \<Rightarrow> bool" where
  "ident_start c = (let n = (of_char c :: int) in (65 \<le> n \<and> n \<le> 90) \<or> (97 \<le> n \<and> n \<le> 122) \<or> n = 95)"

definition is_identifier :: "string \<Rightarrow> bool" where
  "is_identifier s \<longleftrightarrow> s \<noteq> [] \<and> ident_start (hd s) \<and> list_all (\<lambda>c. ident_start c \<or> is_digit c) s"

definition param_reference :: "string \<Rightarrow> string option" where
  "param_reference s =
     (let t = str_strip s
      in if 4 \<le> length t \<and> starts_with ''{{'' t \<and> ends_with ''}}'' t
         then (let name = str_strip (take (length t - 4) (drop 2 t))
               in if is_identifier name then Some name else None)
         else None)"

fun resolve_expression :: "pyval \<Rightarrow> (string \<times> pyval) list \<Rightarrow> string \<Rightarrow> pyval checked"
and resolve_expressions :: "pyval list \<Rightarrow> (string \<times> pyval) list \<Rightarrow> string \<Rightarrow> pyval list checked" where
  "resolve_expression (PList xs) params path =
     bind_checked (resolve_expressions xs params path) (\<lambda>ys. ok (PList ys))"
| "resolve_expression (PStr s) params path =
     (case param_reference s of
        None \<Rightarrow> ok (PStr s)
      | Some name \<Rightarrow>
          (case map_of params name of
             None \<Rightarrow> fail PNone (coded_error path (''unknown parameter '' @ quoted name)
                       ''unknown_parameter'')
           | Some v \<Rightarrow> ok v))"
| "resolve_expression v params path = ok v"
| "resolve_expressions [] params path = ok []"
| "resolve_expressions (x # xs) params path =
     bind_checked (resolve_expression x params path) (\<lambda>y.
     bind_checked (resolve_expressions xs params path) (\<lambda>ys. ok (y # ys)))"


end
