(* ===== verification/Catalog.thy ===== *)
theory Catalog
  imports ParseHelpers
begin

text \<open>
  The names a strategy document may use: \<open>parser/strategy_indicator_catalog.py\<close>,
  \<open>parser/usable_metric_set.py\<close>, the parser side of \<open>parser/unified_metric_catalog.py\<close> and the interface
  \<open>domain/interfaces/indicator_capability_provider.py\<close>.

    - \<open>strategy_resolve\<close> and \<open>strategy_supports\<close> are the two lookups of the indicator catalog: fixed names,
      names with a period, and the three families of rolling volume profiles.
    - A unified catalog also knows catalogued metrics; a metric counts when it has a registered handler.
      The registry of definitions and handlers is data and an argument here.
    - The locale \<open>indicator_capabilities\<close> states the law the parser relies on: what \<open>resolve\<close> answers,
      \<open>supports_concrete\<close> accepts.
\<close>

section \<open>The indicator catalog\<close>

definition PERIOD_RANGES :: "(string \<times> int \<times> int) list" where
  "PERIOD_RANGES = [(''sma'', 2, 500), (''ema'', 2, 500), (''rsi'', 2, 100)]"

definition OPTIONAL_PERIOD_RANGES :: "(string \<times> int \<times> int) list" where
  "OPTIONAL_PERIOD_RANGES = [(''atr'', 2, 200), (''adx'', 2, 100), (''bb_upper'', 2, 200),
     (''bb_middle'', 2, 200), (''bb_lower'', 2, 200)]"

text \<open>\<open>_FIXED\<close> maps every name to itself.\<close>

definition fixed_names :: "string list" where
  "fixed_names = [
    ''atr'', ''adx'', ''vwap'', ''vwap_upper_1'', ''vwap_lower_1'', ''vwap_upper_2'', ''vwap_lower_2'',
     ''vp_poc'', ''vp_vah'', ''vp_val'', ''vp_poc_5d'', ''vp_vah_5d'', ''vp_val_5d'', ''vp_poc_20d'',
     ''vp_vah_20d'', ''vp_val_20d'', ''rvp_poc_48'', ''rvp_vah_48'', ''rvp_val_48'', ''rvp_poc_96'',
     ''rvp_vah_96'', ''rvp_val_96'', ''rvp_poc_336'', ''rvp_vah_336'', ''rvp_val_336'', ''cvp_poc_5d'',
     ''cvp_vah_5d'', ''cvp_val_5d'', ''cvp_poc_10d'', ''cvp_vah_10d'', ''cvp_val_10d'',
     ''cvp_poc_20d'', ''cvp_vah_20d'', ''cvp_val_20d'', ''profile_shape'', ''is_normal_shape'',
     ''is_b_shape'', ''is_p_shape'', ''is_d_shape'', ''is_neutral_shape'', ''is_coiled'',
     ''coil_intensity'', ''wyckoff_phase'', ''poc_slope_5'', ''poc_slope_20'', ''is_accumulation'',
     ''is_markup'', ''is_distribution'', ''is_markdown'', ''is_wyckoff_neutral'', ''mp_poc'',
     ''mp_vah'', ''mp_val'', ''inside_value'', ''above_value'', ''below_value'', ''at_poc'',
     ''near_vah'', ''near_val'', ''distance_to_vah_pct'', ''distance_to_val_pct'',
     ''value_area_width_pct'', ''balance_status'', ''acceptance_into_value'', ''rejection_from_edge'',
     ''acceptance_outside_value'', ''poc_rejection'', ''edge_volume_building'',
     ''value_area_migration'', ''rvol'', ''ibs'', ''ker'', ''kama'', ''macd'', ''macd_signal'',
     ''macd_hist'', ''bb_upper'', ''bb_middle'', ''bb_lower'', ''vol_buffer_high'', ''vol_buffer_low'',
     ''swing_high_20'', ''swing_low_20'', ''breakout_level'', ''breakout_signal'', ''is_power_zone'',
     ''breakout_quality'', ''price_vs_sma20'', ''trend_direction'', ''trend_strength'', ''trend_status'']"

definition FIXED :: "string \<Rightarrow> string option" where
  "FIXED name = (if name \<in> set fixed_names then Some name else None)"

definition ROLLING_VP_BASE :: "string list" where
  "ROLLING_VP_BASE = [''vp_poc'', ''vp_vah'', ''vp_val'']"

definition RVP_BASE :: "string list" where
  "RVP_BASE = [''rvp_poc'', ''rvp_vah'', ''rvp_val'']"

definition CVP_BASE :: "string list" where
  "CVP_BASE = [''cvp_poc'', ''cvp_vah'', ''cvp_val'']"

definition window_text :: "string \<Rightarrow> bool" where
  "window_text s \<longleftrightarrow> is_number s \<and> 1 \<le> digits_value s"

text \<open>\<open>_match_rolling_vp\<close>: the two loops only decide whether some base matches.\<close>

definition match_rolling_vp :: "string \<Rightarrow> string option" where
  "match_rolling_vp name =
     (if list_ex (\<lambda>base. let p = base @ ''_'' in
           starts_with p name \<and> ends_with ''d'' name \<and>
           window_text (take (length name - 1 - length p) (drop (length p) name)))
         (ROLLING_VP_BASE @ CVP_BASE)
      then Some name
      else if list_ex (\<lambda>base. let p = base @ ''_'' in
           starts_with p name \<and> window_text (drop (length p) name)) RVP_BASE
      then Some name
      else None)"

text \<open>\<open>isinstance(period, int) and min_p <= period <= max_p\<close>; a boolean is an integer.\<close>

fun period_in :: "pyval \<Rightarrow> int \<times> int \<Rightarrow> bool" where
  "period_in (PInt n) (lo, hi) = (lo \<le> n \<and> n \<le> hi)"
| "period_in (PBool b) (lo, hi) = (lo \<le> (if b then 1 else 0) \<and> (if b then 1 else 0) \<le> hi)"
| "period_in _ _ = False"

definition strategy_resolve :: "string \<Rightarrow> pyval \<Rightarrow> string option" where
  "strategy_resolve indicator_type period =
     (let name = py_lower indicator_type
      in case map_of PERIOD_RANGES name of
           Some lohi \<Rightarrow> if period_in period lohi then Some (name @ ''_'' @ py_str period) else None
         | None \<Rightarrow>
             (case map_of OPTIONAL_PERIOD_RANGES name of
                Some lohi \<Rightarrow>
                  if period = PNone then FIXED name
                  else if period_in period lohi then Some (name @ ''_'' @ py_str period)
                  else None
              | None \<Rightarrow> (case match_rolling_vp name of Some m \<Rightarrow> Some m | None \<Rightarrow> FIXED name)))"

definition strategy_requires_period :: "string \<Rightarrow> bool" where
  "strategy_requires_period indicator_type \<longleftrightarrow> map_of PERIOD_RANGES (py_lower indicator_type) \<noteq> None"

definition strategy_accepts_period :: "string \<Rightarrow> bool" where
  "strategy_accepts_period indicator_type \<longleftrightarrow>
     map_of PERIOD_RANGES (py_lower indicator_type) \<noteq> None \<or>
     map_of OPTIONAL_PERIOD_RANGES (py_lower indicator_type) \<noteq> None"

definition timeframe_suffixes :: "string list" where
  "timeframe_suffixes = [''_1d'', ''_1h'', ''_30min'', ''_5min'', ''_1w'']"

definition has_period_suffix :: "(string \<times> int \<times> int) list \<Rightarrow> string \<Rightarrow> bool" where
  "has_period_suffix ranges name =
     list_ex (\<lambda>(prefix, _). starts_with (prefix @ ''_'') name \<and> is_number (drop (length prefix + 1) name)) ranges"

lemma ends_with_length: "ends_with p s \<Longrightarrow> length p \<le> length s"
  by (metis append_take_drop_id ends_with_def le_cases length_append length_rev length_take min.absorb1
      not_add_less1 not_le starts_with_def take_all)

function strategy_supports :: "string \<Rightarrow> bool" where
  "strategy_supports raw =
     (let name = py_lower raw
      in if FIXED name \<noteq> None \<or> match_rolling_vp name \<noteq> None then True
         else (case find (\<lambda>suffix. ends_with suffix name) timeframe_suffixes of
                 Some suffix \<Rightarrow> strategy_supports (take (length name - length suffix) name)
               | None \<Rightarrow> has_period_suffix PERIOD_RANGES name \<or> has_period_suffix OPTIONAL_PERIOD_RANGES name))"
  by pat_completeness auto
termination
proof (relation "measure length", goal_cases)
  case (2 raw name suffix)
  then have s: "suffix \<in> set timeframe_suffixes" "ends_with suffix name"
    by (auto simp: find_Some_iff)
  then have "length suffix \<noteq> 0" by (auto simp: timeframe_suffixes_def)
  moreover have "length suffix \<le> length name" using s(2) by (rule ends_with_length)
  moreover have "length name = length raw" using 2(1) by (simp add: py_lower_def)
  ultimately have "length name - length suffix < length raw" by linarith
  then show ?case by simp
qed simp

declare strategy_supports.simps [simp del]

section \<open>The unified catalog\<close>

record IndicatorCapabilityProvider =
  cap_resolve :: "string \<Rightarrow> pyval \<Rightarrow> string option"
  cap_requires_period :: "string \<Rightarrow> bool"
  cap_accepts_period :: "string \<Rightarrow> bool"
  cap_supports :: "string \<Rightarrow> bool"

definition strategy_catalog :: IndicatorCapabilityProvider where
  "strategy_catalog = \<lparr>cap_resolve = strategy_resolve, cap_requires_period = strategy_requires_period,
     cap_accepts_period = strategy_accepts_period, cap_supports = strategy_supports\<rparr>"

text \<open>The usable names: catalogued and handled, in lower case.\<close>

definition usable_names :: "string list \<Rightarrow> string list \<Rightarrow> string list" where
  "usable_names by_name handled =
     [n \<leftarrow> map py_lower by_name. n \<in> set (map py_lower handled)]"

definition usable_resolve :: "string list \<Rightarrow> string list \<Rightarrow> string \<Rightarrow> string option" where
  "usable_resolve by_name handled name =
     (if py_lower name \<in> set (usable_names by_name handled) then Some (py_lower name) else None)"

definition unified_resolve :: "string list \<Rightarrow> string list \<Rightarrow> string \<Rightarrow> pyval \<Rightarrow> string option" where
  "unified_resolve by_name handled indicator_type period =
     (case (if period = PNone then usable_resolve by_name handled (py_lower indicator_type) else None) of
        Some u \<Rightarrow> Some u
      | None \<Rightarrow> strategy_resolve indicator_type period)"

definition unified_supports :: "string list \<Rightarrow> string list \<Rightarrow> string \<Rightarrow> bool" where
  "unified_supports by_name handled name =
     (let key = py_lower name
      in if key \<in> set by_name then py_lower key \<in> set (usable_names by_name handled)
         else strategy_supports key)"

definition unified_catalog :: "string list \<Rightarrow> string list \<Rightarrow> IndicatorCapabilityProvider" where
  "unified_catalog by_name handled = \<lparr>cap_resolve = unified_resolve by_name handled,
     cap_requires_period = strategy_requires_period, cap_accepts_period = strategy_accepts_period,
     cap_supports = unified_supports by_name handled\<rparr>"

section \<open>The law of the interface\<close>

locale indicator_capabilities =
  fixes catalog :: IndicatorCapabilityProvider
  assumes resolved_supported: "cap_resolve catalog t p = Some c \<Longrightarrow> cap_supports catalog c"
begin

lemma unsupported_unresolved: "\<not> cap_supports catalog c \<Longrightarrow> cap_resolve catalog t p \<noteq> Some c"
  using resolved_supported by blast

end

lemma lower_char_idem [simp]: "lower_char (lower_char c) = lower_char c"
proof -
  have "(of_char (char_of (of_char c + 32 :: int)) :: int) = of_char c + 32" if "(of_char c :: int) \<le> 90"
  proof -
    have "0 \<le> (of_char c :: int)" by (metis of_nat_0_le_iff of_nat_of_char)
    then show ?thesis using that by (simp add: mod_pos_pos_trivial)
  qed
  then show ?thesis by (auto simp: lower_char_def Let_def)
qed

lemma py_lower_idem [simp]: "py_lower (py_lower s) = py_lower s"
  by (simp add: py_lower_def)

lemma FIXED_Some: "FIXED n = Some c \<Longrightarrow> c = n"
  by (auto simp: FIXED_def split: if_splits)

lemma match_rolling_vp_Some: "match_rolling_vp n = Some c \<Longrightarrow> c = n"
  by (auto simp: match_rolling_vp_def split: if_splits)

lemma strategy_supports_known:
  "py_lower n = n \<Longrightarrow> FIXED n \<noteq> None \<or> match_rolling_vp n \<noteq> None \<Longrightarrow> strategy_supports n"
  by (subst strategy_supports.simps) (simp add: Let_def)

text \<open>The digits of a number are digits, and none of the suffixes ends with a digit.\<close>

lemma show_pos_digits: "list_all is_digit acc \<Longrightarrow> 0 \<le> n \<Longrightarrow> show_pos n acc \<noteq> [] \<and> list_all is_digit (show_pos n acc)"
proof (induction n acc rule: show_pos.induct)
  case (1 n acc)
  have d: "is_digit (digits10 ! nat k)" if "0 \<le> k" "k < 10" for k
  proof -
    have "nat k < length digits10" using that by (simp add: digits10_def)
    then show ?thesis unfolding is_digit_def by (rule nth_mem)
  qed
  have "is_digit (digits10 ! nat (n mod 10))" by (rule d) simp_all
  then show ?case
    using 1 d [of n] by (subst (1 2) show_pos.simps) (auto simp: not_less)
qed

lemma show_int_number: "0 \<le> n \<Longrightarrow> is_number (show_int n)"
  using show_pos_digits [of "[]" n] by (simp add: is_number_def show_int_def)

lemma digit_lower: "is_digit c \<Longrightarrow> lower_char c = c"
  by (auto simp: is_digit_def digits10_def lower_char_def)

lemma no_suffix_after_digits:
  assumes "is_number ds" "suffix \<in> set timeframe_suffixes"
  shows "\<not> ends_with suffix (p @ ds)"
proof
  assume e: "ends_with suffix (p @ ds)"
  have ne: "suffix \<noteq> []" "\<not> is_digit (last suffix)"
    using assms(2) by (auto simp: timeframe_suffixes_def is_digit_def digits10_def)
  have "ds \<noteq> []" "is_digit (last ds)" using assms(1) by (auto simp: is_number_def list_all_iff)
  moreover have "hd (rev suffix) = hd (rev (p @ ds))"
    using e ne(1) calculation(1) unfolding ends_with_def starts_with_def
    by (metis hd_take length_greater_0_conv length_rev rev_is_Nil_conv)
  then have "last suffix = last ds" using ne(1) calculation(1) by (simp add: hd_rev)
  ultimately show False using ne(2) by simp
qed

lemma supports_with_period:
  assumes "(prefix, r) \<in> set (PERIOD_RANGES @ OPTIONAL_PERIOD_RANGES)" "0 \<le> n"
  shows "strategy_supports (prefix @ ''_'' @ show_int n)"
proof -
  let ?name = "prefix @ ''_'' @ show_int n"
  have d: "is_number (show_int n)" using assms(2) by (rule show_int_number)
  then have "map lower_char (show_int n) = show_int n"
    by (intro map_idI) (auto simp: is_number_def list_all_iff digit_lower)
  moreover have "map lower_char (prefix @ ''_'') = prefix @ ''_''"
    using assms(1) by (auto simp: PERIOD_RANGES_def OPTIONAL_PERIOD_RANGES_def lower_char_def)
  ultimately have l: "py_lower ?name = ?name" by (simp add: py_lower_def)
  have "find (\<lambda>suffix. ends_with suffix ?name) timeframe_suffixes = None"
    using no_suffix_after_digits [OF d, of _ "prefix @ ''_''"] by (auto simp: find_None_iff)
  moreover have "starts_with (prefix @ ''_'') ?name" "drop (length prefix + 1) ?name = show_int n"
    by (simp_all add: starts_with_def)
  then have "has_period_suffix PERIOD_RANGES ?name \<or> has_period_suffix OPTIONAL_PERIOD_RANGES ?name"
    using assms(1) d by (auto simp: has_period_suffix_def list_ex_iff)
  ultimately show ?thesis by (subst strategy_supports.simps) (simp add: Let_def l [simplified])
qed

lemma strategy_resolved_supported:
  assumes "strategy_resolve t p = Some c"
  shows "strategy_supports c"
proof -
  let ?n = "py_lower t"
  have num: "period_in p lohi \<Longrightarrow> 2 \<le> fst lohi \<Longrightarrow> \<exists>k\<ge>0. p = PInt k" for lohi
    by (cases p; cases lohi) (auto split: if_splits)
  have "\<forall>r \<in> set (PERIOD_RANGES @ OPTIONAL_PERIOD_RANGES). 2 \<le> fst (snd r)"
    by (simp add: PERIOD_RANGES_def OPTIONAL_PERIOD_RANGES_def)
  then have period: "strategy_supports (?n @ ''_'' @ py_str p)"
    if r: "(?n, lohi) \<in> set (PERIOD_RANGES @ OPTIONAL_PERIOD_RANGES)" and i: "period_in p lohi" for lohi
  proof -
    from r \<open>\<forall>r \<in> _. _\<close> have "2 \<le> fst lohi" by fastforce
    then obtain k where "0 \<le> k" "p = PInt k" using num [OF i] by blast
    then show ?thesis using supports_with_period [OF r] by simp
  qed
  show ?thesis
    using assms period strategy_supports_known [of ?n]
    by (auto simp: strategy_resolve_def Let_def dest!: map_of_SomeD FIXED_Some match_rolling_vp_Some
        split: option.splits if_splits)
qed

interpretation strategy_names: indicator_capabilities strategy_catalog
  by unfold_locales (simp add: strategy_catalog_def strategy_resolved_supported)

text \<open>
  What keeps the unified catalog lawful: its names are in lower case, and a name the indicator catalog
  supports as well has a handler.
\<close>

definition registry_consistent :: "string list \<Rightarrow> string list \<Rightarrow> bool" where
  "registry_consistent by_name handled \<longleftrightarrow>
     (\<forall>n \<in> set by_name. py_lower n = n \<and> (strategy_supports n \<longrightarrow> n \<in> set (map py_lower handled)))"

lemma strategy_supports_lower: "strategy_supports (py_lower n) \<longleftrightarrow> strategy_supports n"
  by (subst (1 2) strategy_supports.simps) (simp add: Let_def)

lemma usable_names_iff:
  "registry_consistent by_name handled \<Longrightarrow>
   n \<in> set (usable_names by_name handled) \<longleftrightarrow> n \<in> set by_name \<and> n \<in> set (map py_lower handled)"
  by (force simp: usable_names_def registry_consistent_def)

lemma unified_resolved_supported:
  assumes "registry_consistent by_name handled" "unified_resolve by_name handled t p = Some c"
  shows "unified_supports by_name handled c"
proof (cases "unified_resolve by_name handled t p = strategy_resolve t p")
  case True
  then have s: "strategy_supports (py_lower c)"
    using assms(2) strategy_resolved_supported strategy_supports_lower by simp
  then show ?thesis
    using assms(1) usable_names_iff [OF assms(1), of "py_lower c"]
    by (auto simp: unified_supports_def Let_def registry_consistent_def)
next
  case False
  then have "c \<in> set (usable_names by_name handled) \<and> py_lower c = c"
    using assms(2) by (auto simp: unified_resolve_def usable_resolve_def split: if_splits option.splits)
  then show ?thesis
    using usable_names_iff [OF assms(1), of c] by (simp add: unified_supports_def Let_def)
qed

end
