(* ===== verification/DocumentParts.thy ===== *)
theory DocumentParts
  imports Catalog "HOL-Library.AList"
begin

text \<open>
  The sections of a strategy document, one resolver each: \<open>parser/strategy_parameter_resolver.py\<close>,
  \<open>strategy_timeframe_resolver.py\<close>, \<open>strategy_indicator_resolver.py\<close>, \<open>strategy_feature_resolver.py\<close> and
  \<open>strategy_risk_resolver.py\<close>.

    - A resolver returns the entities it could build and the errors it appends; the caller uses the
      entities only when no section appended an error.
    - Bounds and risk numbers go through \<open>float()\<close>, whose \<open>OverflowError\<close> on a huge integer is not caught,
      so those two resolvers return a \<open>result\<close>.
    - Python dicts built in a loop are association lists updated with \<open>AList.update\<close>, which keeps the
      position of a key.
\<close>

section \<open>Parameters\<close>

definition item_path :: "string \<Rightarrow> nat \<Rightarrow> string" where
  "item_path base i = base @ ''['' @ show_int (int i) @ '']''"

text \<open>\<open>value < bound\<close> for an \<open>int\<close> or a \<open>float\<close>; an integer is compared exactly.\<close>

fun num_less :: "pyval \<Rightarrow> flt \<Rightarrow> bool" where
  "num_less (PInt i) b = (case b of Fin q \<Rightarrow> of_int i < q | PosInf \<Rightarrow> True | NegInf \<Rightarrow> False | NaN \<Rightarrow> False)"
| "num_less (PFloat x) b = (x < b)"
| "num_less _ b = False"

fun num_greater :: "pyval \<Rightarrow> flt \<Rightarrow> bool" where
  "num_greater (PInt i) b = (case b of Fin q \<Rightarrow> q < of_int i | PosInf \<Rightarrow> False | NegInf \<Rightarrow> True | NaN \<Rightarrow> False)"
| "num_greater (PFloat x) b = (b < x)"
| "num_greater _ b = False"

definition validate_range :: "pyval \<Rightarrow> flt option \<Rightarrow> flt option \<Rightarrow> string \<Rightarrow> errors" where
  "validate_range v minimum maximum path =
     (case minimum of None \<Rightarrow> [] | Some m \<Rightarrow> if num_less v m then [make_error path ''value is below minimum''] else [])
     @ (case maximum of None \<Rightarrow> [] | Some m \<Rightarrow> if num_greater v m then [make_error path ''value is above maximum''] else [])"

definition parse_bound :: "pyval \<Rightarrow> string \<Rightarrow> flt option checked result" where
  "parse_bound v path =
     (case v of
        PNone \<Rightarrow> Inr (ok None)
      | PInt i \<Rightarrow> ebind (py_float v) (\<lambda>x. Inr (ok (Some x)))
      | PFloat x \<Rightarrow> Inr (ok (Some x))
      | _ \<Rightarrow> Inr (fail None (coded_error path ''bound must be numeric'' ''invalid_parameter_bound'')))"

definition bounds_invalid :: "flt option \<Rightarrow> flt option \<Rightarrow> bool" where
  "bounds_invalid minimum maximum =
     (case (minimum, maximum) of (Some a, Some b) \<Rightarrow> \<not> a \<le> b | _ \<Rightarrow> False)"

type_synonym parameters = "(string \<times> StrategyParameter) list"
type_synonym bindings = "(string \<times> pyval) list"

definition parse_parameter :: "string \<times> pyval \<Rightarrow> parameters \<Rightarrow> parameters checked result" where
  "parse_parameter nspec params =
     (case nspec of (name, spec) \<Rightarrow>
        let path = ''$.parameters.'' @ name
        in case spec of
             PDict kvs \<Rightarrow>
               (let param_type = py_lower (py_str (get_key kvs ''type'' (PStr ''''))); dflt = get_key kvs ''default'' PNone
                in if param_type \<notin> set PARAMETER_TYPES
                   then Inr (fail params (make_error (path @ ''.type'') ''type must be int, float, bool, or string''))
                   else if \<not> value_matches_type dflt param_type
                   then Inr (fail params (make_error (path @ ''.default'') (''default must match type '' @ param_type)))
                   else ebind (parse_bound (get_key kvs ''minimum'' PNone) (path @ ''.minimum'')) (\<lambda>cmin.
                        ebind (parse_bound (get_key kvs ''maximum'' PNone) (path @ ''.maximum'')) (\<lambda>cmax.
                          Inr (bind_checked cmin (\<lambda>minimum. bind_checked cmax (\<lambda>maximum.
                            if bounds_invalid minimum maximum
                            then fail params (coded_error path ''minimum must be less than or equal to maximum''
                                   ''invalid_parameter_bound'')
                            else (AList.update name \<lparr>sp_name = name, sp_type = param_type, sp_default = dflt,
                                    sp_minimum = minimum, sp_maximum = maximum,
                                    sp_description = py_str (get_key kvs ''description'' (PStr ''''))\<rparr> params,
                                  validate_range dflt minimum maximum (path @ ''.default''))))))))
           | _ \<Rightarrow> Inr (fail params (make_error path ''parameter spec must be an object'')))"

text \<open>A loop of steps that may also raise.\<close>

fun echeck_fold :: "('b \<Rightarrow> 'a \<Rightarrow> 'a checked result) \<Rightarrow> 'b list \<Rightarrow> 'a \<Rightarrow> 'a checked result" where
  "echeck_fold f [] s = Inr (ok s)"
| "echeck_fold f (x # xs) s =
     ebind (f x s) (\<lambda>(t, es). ebind (echeck_fold f xs t) (\<lambda>(u, es'). Inr (u, es @ es')))"

definition parse_parameters :: "pyval \<Rightarrow> parameters checked result" where
  "parse_parameters raw =
     (case raw of
        PDict kvs \<Rightarrow> echeck_fold parse_parameter kvs []
      | _ \<Rightarrow> Inr (fail [] (make_error ''$.parameters'' ''parameters must be an object'')))"

definition override_errors :: "StrategyParameter \<Rightarrow> pyval \<Rightarrow> string \<Rightarrow> errors" where
  "override_errors param v path =
     (if \<not> value_matches_type v (sp_type param)
      then [make_error path (''override must match type '' @ sp_type param)]
      else validate_range v (sp_minimum param) (sp_maximum param) path)"

definition apply_override :: "parameters \<Rightarrow> string \<times> pyval \<Rightarrow> bindings \<Rightarrow> bindings checked" where
  "apply_override params nv resolved =
     (case nv of (name, v) \<Rightarrow>
        let path = ''$.params.'' @ name
        in case map_of params name of
             None \<Rightarrow> fail resolved (make_error path ''unknown parameter override'')
           | Some param \<Rightarrow>
               (case override_errors param v path of
                  [] \<Rightarrow> ok (AList.update name v resolved)
                | es \<Rightarrow> (resolved, es)))"

definition apply_overrides :: "parameters \<Rightarrow> bindings \<Rightarrow> bindings checked" where
  "apply_overrides params overrides =
     check_fold (apply_override params) overrides (map (\<lambda>(name, p). (name, sp_default p)) params)"

section \<open>Timeframes\<close>

definition Interval :: "string list" where
  "Interval = [''5min'', ''30min'', ''1h'', ''1d'', ''1w'']"

definition MAX_INFORMATIVE_TIMEFRAMES :: nat where
  "MAX_INFORMATIVE_TIMEFRAMES = 3"

definition validate_interval :: "string \<Rightarrow> string \<Rightarrow> bool checked" where
  "validate_interval interval path =
     (if interval = [] then fail False (make_error path ''interval is required'')
      else if interval \<in> set Interval then ok True
      else fail False (coded_error path
             (''unknown interval '' @ quoted interval @ ''. Allowed: '' @ intercalate '', '' Interval)
             ''unknown_interval''))"

definition timeframe_alias_invalid :: "string \<Rightarrow> string list \<Rightarrow> string \<Rightarrow> bool checked" where
  "timeframe_alias_invalid alias aliases path =
     (if alias = [] then fail True (make_error path ''timeframe alias is required'')
      else if alias = ''primary'' \<or> alias \<in> set aliases \<or> alias \<in> set OHLCV_FIELDS
      then fail True (coded_error path ''timeframe alias must be unique and not reserved'' ''invalid_timeframe_alias'')
      else ok False)"

definition interval_invalid :: "string \<Rightarrow> string \<Rightarrow> (string \<times> string) list \<Rightarrow> string \<Rightarrow> bool checked" where
  "interval_invalid interval symbol intervals path =
     (if (interval, symbol) \<in> set intervals
      then fail True (coded_error path
             ''informative intervals must be unique per symbol to avoid column collisions''
             ''duplicate_timeframe_interval'')
      else ok False)"

text \<open>The loop state: the items, the aliases and the interval keys seen so far.\<close>

type_synonym timeframe_state = "InformativeTimeframe list \<times> string list \<times> (string \<times> string) list"

definition text_field :: "(string \<times> pyval) list \<Rightarrow> string \<Rightarrow> string" where
  "text_field kvs k = str_strip (py_str (get_key kvs k (PStr '''')))"

definition parse_one_informative :: "nat \<times> pyval \<Rightarrow> timeframe_state \<Rightarrow> timeframe_state checked" where
  "parse_one_informative ix st =
     (case (ix, st) of ((index, raw), (items, aliases, intervals)) \<Rightarrow>
        let path = item_path ''$.timeframes.informative'' index
        in case raw of
             PDict kvs \<Rightarrow>
               (let alias = text_field kvs ''alias''; interval = text_field kvs ''interval'';
                    symbol = text_field kvs ''symbol''
                in bind_checked (timeframe_alias_invalid alias aliases (path @ ''.alias'')) (\<lambda>bad.
                   if bad then ok st
                   else bind_checked (interval_invalid interval symbol intervals (path @ ''.interval'')) (\<lambda>dup.
                   if dup then ok st
                   else bind_checked (validate_interval interval (path @ ''.interval'')) (\<lambda>good.
                   if good
                   then ok (items @ [\<lparr>it_alias = alias, it_interval = interval, it_symbol = symbol\<rparr>],
                            aliases @ [alias], intervals @ [(interval, symbol)])
                   else ok st))))
           | _ \<Rightarrow> fail st (make_error path ''informative timeframe must be an object''))"

definition parse_informative :: "pyval \<Rightarrow> InformativeTimeframe list checked" where
  "parse_informative raw =
     (case raw of
        PNone \<Rightarrow> ok []
      | PList xs \<Rightarrow>
          bind_checked (if MAX_INFORMATIVE_TIMEFRAMES < length xs
                        then fail () (coded_error ''$.timeframes.informative''
                               ''at most 3 informative timeframes are supported'' ''timeframe_limit_exceeded'')
                        else ok ()) (\<lambda>_.
          bind_checked (check_fold parse_one_informative (enumerate 0 xs) ([], [], [])) (\<lambda>(items, _). ok items))
      | _ \<Rightarrow> fail [] (make_error ''$.timeframes.informative'' ''informative must be an array''))"

definition parse_timeframes :: "pyval \<Rightarrow> TimeframeDeclaration option checked" where
  "parse_timeframes raw =
     (case raw of
        PNone \<Rightarrow> ok None
      | PDict [] \<Rightarrow> ok None
      | PDict kvs \<Rightarrow>
          (let primary = text_field kvs ''primary''
           in bind_checked (validate_interval primary ''$.timeframes.primary'') (\<lambda>_.
              bind_checked (parse_informative (get_key kvs ''informative'' (PList []))) (\<lambda>informative.
                ok (Some \<lparr>tf_primary = primary, tf_informative = informative\<rparr>))))
      | _ \<Rightarrow> fail None (make_error ''$.timeframes'' ''timeframes must be an object''))"

section \<open>Indicators\<close>

definition alias_invalid :: "string \<Rightarrow> string list \<Rightarrow> string \<Rightarrow> bool checked" where
  "alias_invalid alias used path =
     (if alias = [] then fail True (make_error path ''indicator name is required'')
      else if alias \<in> set used \<or> alias \<in> set OHLCV_FIELDS
      then fail True (make_error path ''indicator name must be unique and not an OHLCV field'')
      else ok False)"

definition period_invalid :: "IndicatorCapabilityProvider \<Rightarrow> string \<Rightarrow> pyval \<Rightarrow> bool \<Rightarrow> string \<Rightarrow> bool checked" where
  "period_invalid catalog indicator_type period supplied path =
     (if cap_requires_period catalog indicator_type
      then (case period of PInt _ \<Rightarrow> ok False
            | _ \<Rightarrow> fail True (make_error path ''period must resolve to an integer''))
      else if supplied \<and> period \<noteq> PNone \<and> \<not> cap_accepts_period catalog indicator_type
      then fail True (coded_error path
             (''indicator type '' @ quoted indicator_type @ '' does not support custom periods'')
             ''unsupported_indicator_parameter'')
      else ok False)"

definition parse_source :: "IndicatorCapabilityProvider \<Rightarrow> string \<Rightarrow> nat \<times> pyval \<Rightarrow> string list \<Rightarrow> string list checked" where
  "parse_source catalog path ix result =
     (case ix of (index, source) \<Rightarrow>
        case source of
          PStr s \<Rightarrow>
            (let name = str_strip s
             in if name = []
                then fail result (make_error (item_path path index) ''each source must be a non-empty string'')
                else if cap_supports catalog name then ok (result @ [name])
                else fail (result @ [name]) (coded_error (item_path path index)
                       (''unknown concrete indicator '' @ quoted name) ''unsupported_indicator''))
        | _ \<Rightarrow> fail result (make_error (item_path path index) ''each source must be a non-empty string''))"

definition parse_sources :: "IndicatorCapabilityProvider \<Rightarrow> string \<Rightarrow> pyval \<Rightarrow> string \<Rightarrow> string list checked" where
  "parse_sources catalog indicator_type raw path =
     (if indicator_type \<noteq> ''fallback''
      then (if raw \<noteq> PNone then fail [] (make_error path ''sources only valid for fallback type'') else ok [])
      else (case raw of
              PList xs \<Rightarrow>
                if length xs < 2 then fail [] (make_error path ''fallback indicators require at least 2 sources'')
                else check_fold (parse_source catalog path) (enumerate 0 xs) []
            | _ \<Rightarrow> fail [] (make_error path ''fallback indicators require at least 2 sources'')))"

definition resolve_timeframe :: "pyval \<Rightarrow> TimeframeDeclaration option \<Rightarrow> string \<Rightarrow> string option checked" where
  "resolve_timeframe raw timeframes path =
     (let timeframe = str_strip (py_str (py_or raw (PStr ''primary'')))
      in if timeframe = ''primary'' then ok (Some timeframe)
         else (case timeframes of
                 None \<Rightarrow> fail None (coded_error path (''unknown timeframe alias '' @ quoted timeframe) ''unknown_timeframe'')
               | Some t \<Rightarrow>
                   if interval_for t timeframe = None
                   then fail None (coded_error path (''unknown timeframe alias '' @ quoted timeframe) ''unknown_timeframe'')
                   else ok (Some timeframe)))"

definition expected_column :: "string \<Rightarrow> string \<Rightarrow> TimeframeDeclaration option \<Rightarrow> string" where
  "expected_column concrete timeframe timeframes =
     (if timeframe = ''primary'' then concrete
      else (case timeframes of
              None \<Rightarrow> concrete
            | Some t \<Rightarrow> (case interval_for t timeframe of
                           Some interval \<Rightarrow> if interval = [] then concrete else concrete @ ''_'' @ interval
                         | None \<Rightarrow> concrete)))"

text \<open>The concrete name of one declaration, \<open>None\<close> when it is dropped.\<close>

definition concrete_of ::
  "IndicatorCapabilityProvider \<Rightarrow> string \<Rightarrow> pyval \<Rightarrow> bool \<Rightarrow> string list \<Rightarrow> string \<Rightarrow> string option checked" where
  "concrete_of catalog indicator_type period supplied sources path =
     (if indicator_type = ''fallback''
      then ok (case sources of [] \<Rightarrow> None | s # _ \<Rightarrow> Some s)
      else bind_checked (period_invalid catalog indicator_type period supplied (path @ ''.period'')) (\<lambda>bad.
           if bad then ok None
           else (case cap_resolve catalog indicator_type period of
                   None \<Rightarrow> fail None (coded_error path
                             (''unsupported indicator type/period: '' @ indicator_type @ ''_'' @ py_str period)
                             ''unsupported_indicator'')
                 | Some c \<Rightarrow> ok (Some c))))"

type_synonym indicator_state = "string list \<times> IndicatorSpec list"

definition parse_indicator ::
  "IndicatorCapabilityProvider \<Rightarrow> bindings \<Rightarrow> TimeframeDeclaration option \<Rightarrow> nat \<times> pyval \<Rightarrow>
   indicator_state \<Rightarrow> indicator_state checked" where
  "parse_indicator catalog params timeframes ix st =
     (case (ix, st) of ((index, item), (used, indicators)) \<Rightarrow>
        let path = item_path ''$.indicators'' index
        in case item of
             PDict kvs \<Rightarrow>
               (let alias = text_field kvs ''name'';
                    indicator_type = str_strip (py_lower (py_str (get_key kvs ''type'' (PStr ''''))))
                in bind_checked (alias_invalid alias used (path @ ''.name'')) (\<lambda>bad.
                   if bad then ok st
                   else bind_checked (resolve_expression (get_key kvs ''period'' PNone) params (path @ ''.period'')) (\<lambda>period.
                        bind_checked (parse_sources catalog indicator_type (get_key kvs ''sources'' PNone) (path @ ''.sources'')) (\<lambda>sources.
                        bind_checked (concrete_of catalog indicator_type period (map_of kvs ''period'' \<noteq> None) sources path) (\<lambda>conc.
                          case conc of
                            None \<Rightarrow> ok st
                          | Some concrete \<Rightarrow>
                              bind_checked (resolve_timeframe (get_key kvs ''timeframe'' (PStr ''primary'')) timeframes
                                              (path @ ''.timeframe'')) (\<lambda>tf.
                              case tf of
                                None \<Rightarrow> ok st
                              | Some timeframe \<Rightarrow>
                                  (let primary_source = (case sources of [] \<Rightarrow> concrete | s # _ \<Rightarrow> s)
                                   in ok (used @ [alias], indicators @ [\<lparr>
                                        is_name = alias, is_type = indicator_type, is_concrete_name = primary_source,
                                        is_expected_column = expected_column primary_source timeframe timeframes,
                                        is_timeframe = timeframe,
                                        is_sources = (if 1 < length sources then tl sources else sources),
                                        is_period = period, is_source = py_str (get_key kvs ''source'' (PStr ''close'')),
                                        is_raw_period = get_key kvs ''period'' PNone\<rparr>]))))))))
           | _ \<Rightarrow> fail st (make_error path ''indicator spec must be an object''))"

definition parse_indicators ::
  "IndicatorCapabilityProvider \<Rightarrow> pyval \<Rightarrow> bindings \<Rightarrow> TimeframeDeclaration option \<Rightarrow> IndicatorSpec list checked" where
  "parse_indicators catalog raw params timeframes =
     (case raw of
        PNone \<Rightarrow> ok []
      | PList xs \<Rightarrow>
          bind_checked (check_fold (parse_indicator catalog params timeframes) (enumerate 0 xs) ([], []))
            (\<lambda>(_, indicators). ok indicators)
      | _ \<Rightarrow> fail [] (make_error ''$.indicators'' ''indicators must be an array''))"

text \<open>The dict comprehension \<open>{item.name: item.column_name() for item in indicators}\<close>.\<close>

definition dict_of :: "('k \<times> 'v) list \<Rightarrow> ('k \<times> 'v) list" where
  "dict_of kvs = fold (\<lambda>(k, v). AList.update k v) kvs []"

definition alias_columns :: "IndicatorSpec list \<Rightarrow> (string \<times> string) list" where
  "alias_columns indicators = dict_of (map (\<lambda>i. (is_name i, column_name i)) indicators)"

section \<open>Features\<close>

definition ROLLING_TYPES :: "string list" where
  "ROLLING_TYPES = [''rolling_max'', ''rolling_min'', ''rolling_mean'', ''rolling_std'']"

definition SUPPORTED_TYPES :: "string list" where
  "SUPPORTED_TYPES = ROLLING_TYPES @ [''body_pct'', ''range_pct'', ''typical_price'', ''ohlc4''] @ [''shift'', ''formula'']"

text \<open>
  \<open>_resolve_expr_params\<close> and \<open>_resolve_leaf\<close>: references inside the left and right sides and the children of
  a formula.
\<close>

function (sequential) resolve_expr_params :: "pyval \<Rightarrow> bindings \<Rightarrow> string \<Rightarrow> pyval checked"
and resolve_entries :: "(string \<times> pyval) list \<Rightarrow> bindings \<Rightarrow> string \<Rightarrow> (string \<times> pyval) list checked"
and resolve_children :: "pyval list \<Rightarrow> bindings \<Rightarrow> string \<Rightarrow> pyval list checked"
and resolve_leaf :: "pyval \<Rightarrow> bindings \<Rightarrow> string \<Rightarrow> pyval checked" where
  "resolve_expr_params (PDict kvs) params path =
     bind_checked (resolve_entries kvs params path) (\<lambda>r. ok (PDict r))"
| "resolve_expr_params v params path = ok v"
| "resolve_entries [] params path = ok []"
| "resolve_entries ((k, v) # kvs) params path =
     bind_checked
       (if k = ''children''
        then (case v of PList xs \<Rightarrow> bind_checked (resolve_children xs params path) (\<lambda>ys. ok (PList ys))
              | _ \<Rightarrow> ok (PList []))
        else if k = ''left'' \<or> k = ''right'' then resolve_leaf v params path
        else ok v) (\<lambda>w.
     bind_checked (resolve_entries kvs params path) (\<lambda>r. ok ((k, w) # r)))"
| "resolve_children [] params path = ok []"
| "resolve_children (x # xs) params path =
     bind_checked (resolve_expr_params x params path) (\<lambda>y.
     bind_checked (resolve_children xs params path) (\<lambda>ys. ok (y # ys)))"
| "resolve_leaf (PStr s) params path = resolve_expression (PStr s) params path"
| "resolve_leaf (PDict kvs) params path =
     (case map_of kvs ''param'' of
        Some (PStr name) \<Rightarrow> (case map_of params name of None \<Rightarrow> ok (PDict kvs) | Some w \<Rightarrow> ok w)
      | _ \<Rightarrow> resolve_expr_params (PDict kvs) params path)"
| "resolve_leaf v params path = ok v"
  by pat_completeness auto
termination
  by (relation "measure (case_sum (case_sum (\<lambda>(v, _). 2 * size v) (\<lambda>(kvs, _). 2 * size_list (size_prod (\<lambda>_. 0) size) kvs))
        (case_sum (\<lambda>(xs, _). 2 * size_list size xs) (\<lambda>(v, _). 2 * size v + 1)))") auto

definition name_invalid :: "string \<Rightarrow> string list \<Rightarrow> string \<Rightarrow> bool checked" where
  "name_invalid name used path =
     (if name = [] then fail True (make_error path ''feature name is required'')
      else if name \<in> set used \<or> name \<in> set OHLCV_FIELDS
      then fail True (make_error path ''feature name must be unique and not reserved'')
      else ok False)"

definition resolve_source :: "IndicatorCapabilityProvider \<Rightarrow> pyval \<Rightarrow> (string \<times> string) list \<Rightarrow> string \<Rightarrow> string checked" where
  "resolve_source catalog source aliases path =
     (let source_name = py_str source
      in case map_of aliases source_name of
           Some c \<Rightarrow> ok c
         | None \<Rightarrow>
             if source_name \<in> set OHLCV_FIELDS \<or> cap_supports catalog source_name then ok source_name
             else fail source_name (make_error path (''unknown feature source '' @ quoted source_name)))"

definition window_invalid :: "string \<Rightarrow> pyval \<Rightarrow> string \<Rightarrow> bool checked" where
  "window_invalid feature_type window path =
     (if feature_type \<notin> set ROLLING_TYPES then ok False
      else (case window of
              PInt n \<Rightarrow> if n < 1 then fail True (make_error path ''window must resolve to a positive integer'') else ok False
            | _ \<Rightarrow> fail True (make_error path ''window must resolve to a positive integer'')))"

definition msg_no_expression :: string where
  "msg_no_expression =
     ''formula feature must declare '' @ quoted ''expression'' @ '' or '' @ quoted ''expr''
     @ '' with an expression tree (note: '' @ quoted ''formula'' @ '' is the feature TYPE, not the key for the expression). ''
     @ ''Example: expr: {op: '' @ quoted ''/'' @ '', left: atr, right: close}''"

definition the_int :: "pyval \<Rightarrow> int" where
  "the_int v = (case v of PInt n \<Rightarrow> n | _ \<Rightarrow> 0)"

type_synonym feature_state = "string list \<times> FeatureSpec list"

definition parse_formula :: "bindings \<Rightarrow> string \<Rightarrow> string \<Rightarrow> (string \<times> pyval) list \<Rightarrow> feature_state \<Rightarrow> feature_state checked" where
  "parse_formula params path name kvs st =
     (let raw_expr = py_or (get_key kvs ''expression'' PNone) (get_key kvs ''expr'' PNone)
      in if raw_expr = PNone then fail st (make_error path msg_no_expression)
         else bind_checked (resolve_expr_params raw_expr params (path @ ''.expr'')) (\<lambda>expr.
              ok (fst st @ [name], snd st @ [\<lparr>ft_name = name, ft_type = ''formula'', ft_source = ''close'',
                    ft_window = PNone, ft_shift = 0, ft_raw_window = PNone, ft_raw_expr = expr\<rparr>])))"

definition parse_plain_feature ::
  "IndicatorCapabilityProvider \<Rightarrow> (string \<times> string) list \<Rightarrow> bindings \<Rightarrow> string \<Rightarrow> string \<Rightarrow> string \<Rightarrow>
   (string \<times> pyval) list \<Rightarrow> feature_state \<Rightarrow> feature_state checked" where
  "parse_plain_feature catalog aliases params path name feature_type kvs st =
     bind_checked (resolve_source catalog (get_key kvs ''source'' (PStr ''close'')) aliases (path @ ''.source'')) (\<lambda>source.
     bind_checked (resolve_expression (get_key kvs ''window'' PNone) params (path @ ''.window'')) (\<lambda>window.
     bind_checked (resolve_expression (get_key kvs ''shift'' (PInt 0)) params (path @ ''.shift'')) (\<lambda>shift.
     bind_checked (window_invalid feature_type window (path @ ''.window'')) (\<lambda>bad.
       if bad then ok st
       else if (case shift of PInt n \<Rightarrow> n < 0 | _ \<Rightarrow> True)
       then fail st (make_error (path @ ''.shift'') ''shift must be a non-negative integer'')
       else ok (fst st @ [name], snd st @ [\<lparr>ft_name = name, ft_type = feature_type, ft_source = source,
                  ft_window = (case window of PInt _ \<Rightarrow> window | PBool _ \<Rightarrow> window | _ \<Rightarrow> PNone),
                  ft_shift = the_int shift, ft_raw_window = get_key kvs ''window'' PNone, ft_raw_expr = PNone\<rparr>])))))"

definition parse_feature ::
  "IndicatorCapabilityProvider \<Rightarrow> (string \<times> string) list \<Rightarrow> bindings \<Rightarrow> nat \<times> pyval \<Rightarrow> feature_state \<Rightarrow> feature_state checked" where
  "parse_feature catalog aliases params ix st =
     (case ix of (index, item) \<Rightarrow>
        let path = item_path ''$.features'' index
        in case item of
             PDict kvs \<Rightarrow>
               (let name = text_field kvs ''name'';
                    feature_type = str_strip (py_lower (py_str (get_key kvs ''type'' (PStr ''''))))
                in bind_checked (name_invalid name (fst st) (path @ ''.name'')) (\<lambda>bad.
                   if bad then ok st
                   else if feature_type \<notin> set SUPPORTED_TYPES
                   then fail st (make_error (path @ ''.type'') (''unsupported feature type '' @ quoted feature_type))
                   else if feature_type = ''formula'' then parse_formula params path name kvs st
                   else parse_plain_feature catalog aliases params path name feature_type kvs st))
           | _ \<Rightarrow> fail st (make_error path ''feature spec must be an object''))"

definition parse_features ::
  "IndicatorCapabilityProvider \<Rightarrow> pyval \<Rightarrow> IndicatorSpec list \<Rightarrow> bindings \<Rightarrow> FeatureSpec list checked" where
  "parse_features catalog raw indicators params =
     (case raw of
        PNone \<Rightarrow> ok []
      | PList xs \<Rightarrow>
          (let aliases = alias_columns indicators
           in bind_checked (check_fold (parse_feature catalog aliases params) (enumerate 0 xs) (map fst aliases, []))
                (\<lambda>(_, features). ok features))
      | _ \<Rightarrow> fail [] (make_error ''$.features'' ''features must be an array''))"

section \<open>Risk\<close>

definition STOP_TYPES :: "string list" where
  "STOP_TYPES = [''none'', ''atr'', ''fixed_pct'']"

definition TAKE_PROFIT_TYPES :: "string list" where
  "TAKE_PROFIT_TYPES = [''none'', ''atr'', ''fixed_pct'', ''risk_reward'']"

definition risk_section :: "(string \<times> pyval) list \<Rightarrow> string \<Rightarrow> (string \<times> pyval) list option checked" where
  "risk_section raw name =
     (case get_key raw name (PDict [(''type'', PStr ''none'')]) of
        PDict kvs \<Rightarrow> ok (Some kvs)
      | _ \<Rightarrow> fail None (make_error (''$.risk.'' @ name) (name @ '' must be an object'')))"

definition validate_types :: "string \<Rightarrow> string \<Rightarrow> unit checked" where
  "validate_types stop_type target_type =
     bind_checked (if stop_type \<in> set STOP_TYPES then ok ()
                   else fail () (make_error ''$.risk.stop_loss.type'' ''unsupported stop type'')) (\<lambda>_.
       if target_type \<in> set TAKE_PROFIT_TYPES then ok ()
       else fail () (make_error ''$.risk.take_profit.type'' ''unsupported take-profit type''))"

definition positive_float :: "pyval \<Rightarrow> string \<Rightarrow> flt checked result" where
  "positive_float raw path =
     (if raw = PNone \<or> raw = PStr '''' then Inr (ok 0)
      else (case py_float raw of
              Inr v \<Rightarrow>
                if v < 0 then Inr (fail 0 (coded_error path ''value must be non-negative'' ''invalid_risk_parameter''))
                else Inr (ok v)
            | Inl (ValueError m) \<Rightarrow> Inr (fail 0 (coded_error path ''value must be numeric'' ''invalid_risk_parameter''))
            | Inl TypeError \<Rightarrow> Inr (fail 0 (coded_error path ''value must be numeric'' ''invalid_risk_parameter''))
            | Inl e \<Rightarrow> Inl e))"

text \<open>A number of a risk section: the reference is resolved, then converted.\<close>

definition risk_number :: "bindings \<Rightarrow> (string \<times> pyval) list \<Rightarrow> string \<Rightarrow> string \<Rightarrow> flt checked result" where
  "risk_number params kvs key path =
     (case resolve_expression (get_key kvs key (PInt 0)) params path of
        (v, es) \<Rightarrow> ebind (positive_float v path) (\<lambda>(x, es'). Inr (x, es @ es')))"

definition resolve_atr_indicator ::
  "IndicatorCapabilityProvider \<Rightarrow> string \<Rightarrow> pyval \<Rightarrow> (string \<times> string) list \<Rightarrow> string \<Rightarrow> string checked" where
  "resolve_atr_indicator catalog risk_type raw aliases path =
     (let name = py_str raw
      in if risk_type \<noteq> ''atr'' then ok name
         else (case map_of aliases name of
                 Some c \<Rightarrow> ok c
               | None \<Rightarrow>
                   (case (if name = ''atr''
                          then find (\<lambda>(alias, _).
                                 (alias = ''atr'' \<or> starts_with ''atr_'' alias) \<and> cap_supports catalog alias \<and>
                                 (case cap_resolve catalog ''atr'' PNone of
                                    Some r \<Rightarrow> r \<noteq> [] \<and> starts_with r alias | None \<Rightarrow> False)) aliases
                          else None) of
                      Some (_, c) \<Rightarrow> ok c
                    | None \<Rightarrow>
                        if cap_supports catalog name then ok name
                        else fail name (coded_error path (''Unknown risk indicator '' @ quoted name) ''unknown_risk_indicator''))))"

definition build_risk_spec ::
  "IndicatorCapabilityProvider \<Rightarrow> bindings \<Rightarrow> (string \<times> string) list \<Rightarrow> (string \<times> pyval) list \<Rightarrow>
   (string \<times> pyval) list \<Rightarrow> RiskSpec checked result" where
  "build_risk_spec catalog params aliases stop target =
     (let stop_type = py_lower (py_str (get_key stop ''type'' (PStr ''none'')));
          target_type = py_lower (py_str (get_key target ''type'' (PStr ''none'')));
          si = resolve_atr_indicator catalog stop_type (get_key stop ''indicator'' (PStr ''atr'')) aliases
                 ''$.risk.stop_loss.indicator'';
          ti = resolve_atr_indicator catalog target_type (get_key target ''indicator'' (PStr ''atr'')) aliases
                 ''$.risk.take_profit.indicator''
      in ebind (risk_number params stop ''multiplier'' ''$.risk.stop_loss.multiplier'') (\<lambda>sm.
         ebind (risk_number params stop ''pct'' ''$.risk.stop_loss.pct'') (\<lambda>sp.
         ebind (risk_number params target ''multiplier'' ''$.risk.take_profit.multiplier'') (\<lambda>tm.
         ebind (risk_number params target ''pct'' ''$.risk.take_profit.pct'') (\<lambda>tp.
         ebind (risk_number params target ''ratio'' ''$.risk.take_profit.ratio'') (\<lambda>rr.
           Inr (\<lparr>rk_stop_loss_type = stop_type, rk_stop_indicator = fst si, rk_stop_multiplier = fst sm,
                  rk_stop_pct = fst sp, rk_take_profit_type = target_type, rk_take_profit_indicator = fst ti,
                  rk_take_profit_multiplier = fst tm, rk_take_profit_pct = fst tp, rk_risk_reward_ratio = fst rr\<rparr>,
                snd (validate_types stop_type target_type) @ snd si @ snd sm @ snd sp @ snd ti @ snd tm @ snd tp @ snd rr)))))))"

definition require_positive :: "bool \<Rightarrow> flt \<Rightarrow> string \<Rightarrow> errors" where
  "require_positive applies v path =
     (if applies \<and> v \<le> 0 then [coded_error path ''value must be greater than zero'' ''invalid_risk_parameter''] else [])"

definition validate_required_values :: "RiskSpec \<Rightarrow> errors" where
  "validate_required_values spec =
     require_positive (rk_stop_loss_type spec = ''atr'') (rk_stop_multiplier spec) ''$.risk.stop_loss.multiplier''
     @ require_positive (rk_stop_loss_type spec = ''fixed_pct'') (rk_stop_pct spec) ''$.risk.stop_loss.pct''
     @ require_positive (rk_take_profit_type spec = ''atr'') (rk_take_profit_multiplier spec) ''$.risk.take_profit.multiplier''
     @ require_positive (rk_take_profit_type spec = ''fixed_pct'') (rk_take_profit_pct spec) ''$.risk.take_profit.pct''
     @ require_positive (rk_take_profit_type spec = ''risk_reward'') (rk_risk_reward_ratio spec) ''$.risk.take_profit.ratio''"

definition parse_risk ::
  "IndicatorCapabilityProvider \<Rightarrow> pyval \<Rightarrow> IndicatorSpec list \<Rightarrow> bindings \<Rightarrow> RiskSpec option checked result" where
  "parse_risk catalog raw indicators params =
     (case raw of
        PNone \<Rightarrow> Inr (ok None)
      | PDict [] \<Rightarrow> Inr (ok None)
      | PDict kvs \<Rightarrow>
          (case (risk_section kvs ''stop_loss'', risk_section kvs ''take_profit'') of
             ((Some stop, es), (Some target, es')) \<Rightarrow>
               ebind (build_risk_spec catalog params (alias_columns indicators) stop target) (\<lambda>(spec, es'').
                 Inr (Some spec, es @ es' @ es'' @ validate_required_values spec))
           | ((_, es), (_, es')) \<Rightarrow> Inr (None, es @ es'))
      | _ \<Rightarrow> Inr (fail None (make_error ''$.risk'' ''risk must be an object'')))"

end
