(* ===== verification/DocumentParser.thy ===== *)
theory DocumentParser
  imports DocumentParts
begin

text \<open>
  The parser of a strategy document: \<open>parser/strategy_operand_parser.py\<close>,
  \<open>strategy_condition_group_parser.py\<close>, \<open>strategy_condition_parser.py\<close>, the rules of
  \<open>strategy_limit_rules.py\<close> and \<open>strategy_warning_rules.py\<close>, \<open>required_column_collector.py\<close>,
  \<open>serialize_group_visitor.py\<close>, \<open>strategy_definition_serializer.py\<close> and \<open>strategy_definition_parser.py\<close>.

    - \<open>name_env\<close> holds the dicts a condition tree is read with: aliases of indicators, their fallback
      sources, features and parameters.
    - The decoders of JSON and YAML text are arguments of \<open>parse_document\<close>; a document that is a dict already
      needs neither.
    - The serializer raises \<open>AttributeError\<close> when it appends to the dict it creates for a \<open>not\<close> node.
\<close>

section \<open>Operands and condition trees\<close>

record name_env =
  ne_catalog :: IndicatorCapabilityProvider
  ne_aliases :: "(string \<times> string) list"
  ne_sources :: "(string \<times> string list) list"
  ne_features :: "(string \<times> string) list"
  ne_params :: bindings

definition mk_operand :: "string \<Rightarrow> pyval \<Rightarrow> string \<Rightarrow> string list \<Rightarrow> Operand" where
  "mk_operand kind v label sources = \<lparr>od_kind = kind, od_value = v, od_label = label, od_sources = sources\<rparr>"

definition parse_named :: "name_env \<Rightarrow> string \<Rightarrow> string \<Rightarrow> Operand checked" where
  "parse_named env name path =
     (case map_of (ne_aliases env) name of
        Some resolved \<Rightarrow>
          ok (mk_operand ''indicator'' (PStr resolved) name
               (case map_of (ne_sources env) resolved of Some s \<Rightarrow> s | None \<Rightarrow> []))
      | None \<Rightarrow>
          (case map_of (ne_features env) name of
             Some f \<Rightarrow> ok (mk_operand ''feature'' (PStr f) name [])
           | None \<Rightarrow>
               if name \<in> set OHLCV_FIELDS then ok (mk_operand ''field'' (PStr name) name [])
               else if cap_supports (ne_catalog env) name then ok (mk_operand ''column'' (PStr name) name [])
               else fail (mk_operand ''literal'' (PInt 0) name [])
                      (coded_error path (''unknown operand '' @ quoted name) ''unknown_operand'')))"

definition parse_operand :: "name_env \<Rightarrow> pyval \<Rightarrow> string \<Rightarrow> Operand checked" where
  "parse_operand env raw path =
     bind_checked (resolve_expression raw (ne_params env) path) (\<lambda>v.
       case v of
         PStr s \<Rightarrow> parse_named env s path
       | PNone \<Rightarrow> fail (mk_operand ''literal'' (PInt 0) (py_str raw) []) (make_error path ''operand is required'')
       | PDict _ \<Rightarrow> fail (mk_operand ''literal'' (PInt 0) (py_str raw) []) (make_error path ''operand is required'')
       | _ \<Rightarrow> ok (mk_operand ''literal'' v (py_str raw) []))"

definition parse_condition :: "name_env \<Rightarrow> (string \<times> pyval) list \<Rightarrow> string \<Rightarrow> Condition checked" where
  "parse_condition env kvs path =
     (let operator = str_strip (py_str (get_key kvs ''operator'' (PStr '''')))
      in bind_checked (if operator \<in> set (BINARY_OPERATORS @ UNARY_OPERATORS) then ok ()
                       else fail () (make_error (path @ ''.operator'') (''unsupported operator '' @ quoted operator))) (\<lambda>_.
         bind_checked (parse_operand env (get_key kvs ''left'' PNone) (path @ ''.left'')) (\<lambda>left.
         bind_checked (if operator \<in> set BINARY_OPERATORS
                       then bind_checked (parse_operand env (get_key kvs ''right'' PNone) (path @ ''.right''))
                              (\<lambda>r. ok (Some r))
                       else ok None) (\<lambda>right.
           ok \<lparr>cn_left = left, cn_operator = operator, cn_right = right\<rparr>))))"

lemma map_of_size:
  "map_of kvs k = Some v \<Longrightarrow> size v < Suc (size_list (size_prod (\<lambda>_. 0) size) kvs)"
  by (induction kvs) (auto split: if_splits)

function parse_group :: "name_env \<Rightarrow> pyval \<Rightarrow> string \<Rightarrow> ConditionGroup checked"
and parse_groups :: "name_env \<Rightarrow> pyval list \<Rightarrow> string \<Rightarrow> nat \<Rightarrow> ConditionGroup list checked" where
  "parse_group env raw path =
     (case raw of
        PDict kvs \<Rightarrow>
          (case map_of kvs ''all'' of
             Some v \<Rightarrow> (case v of
                 PList (x # xs) \<Rightarrow> bind_checked (parse_groups env (x # xs) (path @ ''.all'') 0)
                                   (\<lambda>cs. ok (ConditionGroup ''all'' cs None))
               | _ \<Rightarrow> fail (ConditionGroup ''all'' [] None) (make_error (path @ ''.all'') ''all must be a non-empty array''))
           | None \<Rightarrow>
          (case map_of kvs ''any'' of
             Some v \<Rightarrow> (case v of
                 PList (x # xs) \<Rightarrow> bind_checked (parse_groups env (x # xs) (path @ ''.any'') 0)
                                   (\<lambda>cs. ok (ConditionGroup ''any'' cs None))
               | _ \<Rightarrow> fail (ConditionGroup ''any'' [] None) (make_error (path @ ''.any'') ''any must be a non-empty array''))
           | None \<Rightarrow>
          (case map_of kvs ''not'' of
             Some v \<Rightarrow> bind_checked (parse_group env v (path @ ''.not'')) (\<lambda>c. ok (ConditionGroup ''not'' [c] None))
           | None \<Rightarrow> bind_checked (parse_condition env kvs path) (\<lambda>c. ok (ConditionGroup ''condition'' [] (Some c))))))
      | _ \<Rightarrow> fail (ConditionGroup ''all'' [] None) (make_error path ''condition must be an object''))"
| "parse_groups env [] path i = ok []"
| "parse_groups env (x # xs) path i =
     bind_checked (parse_group env x (item_path path i)) (\<lambda>c.
     bind_checked (parse_groups env xs path (Suc i)) (\<lambda>cs. ok (c # cs)))"
  by pat_completeness auto
termination
  by (relation "measure (case_sum (\<lambda>(_, v, _). size v) (\<lambda>(_, xs, _, _). size_list size xs))")
    (auto dest: map_of_size)

declare parse_group.simps [simp del]

section \<open>Sides\<close>

definition default_confidence :: flt where
  "default_confidence = flr (7 / 10)"

definition parse_entry :: "name_env \<Rightarrow> (string \<times> pyval) list \<Rightarrow> string \<Rightarrow> ConditionGroup option checked" where
  "parse_entry env spec path =
     (let raw = extract_condition (get_key spec ''entry'' PNone)
      in if raw = PNone then fail None (make_error (path @ ''.entry.condition'') ''entry condition is required'')
         else bind_checked (parse_group env raw (path @ ''.entry.condition'')) (\<lambda>g. ok (Some g)))"

definition parse_exit_group :: "name_env \<Rightarrow> (string \<times> pyval) list \<Rightarrow> string \<Rightarrow> ConditionGroup option checked" where
  "parse_exit_group env spec path =
     (let raw = extract_condition (get_key spec ''exit'' PNone)
      in if raw = PNone then ok None
         else bind_checked (parse_group env raw (path @ ''.exit.condition'')) (\<lambda>g. ok (Some g)))"

definition parse_side :: "name_env \<Rightarrow> string \<Rightarrow> pyval \<Rightarrow> SideRules option checked" where
  "parse_side env side spec =
     (let path = ''$.sides.'' @ side
      in case spec of
           PDict kvs \<Rightarrow>
             if side = ''long'' \<or> side = ''short''
             then bind_checked (parse_entry env kvs path) (\<lambda>entry.
                  case entry of
                    None \<Rightarrow> ok None
                  | Some e \<Rightarrow> bind_checked (parse_exit_group env kvs path) (\<lambda>x.
                      ok (Some \<lparr>sd_side = side, sd_entry = e, sd_exit = x,
                                sd_entry_confidence = default_confidence, sd_exit_confidence = default_confidence\<rparr>)))
             else fail None (make_error path ''side must be long/short object'')
         | _ \<Rightarrow> fail None (make_error path ''side must be long/short object''))"

type_synonym sides = "(string \<times> SideRules) list"

definition add_side :: "name_env \<Rightarrow> string \<times> pyval \<Rightarrow> sides \<Rightarrow> sides checked" where
  "add_side env ss sides =
     (case ss of (side, spec) \<Rightarrow>
        bind_checked (parse_side env side spec) (\<lambda>rules.
          ok (case rules of None \<Rightarrow> sides | Some r \<Rightarrow> AList.update side r sides)))"

definition side_env ::
  "IndicatorCapabilityProvider \<Rightarrow> IndicatorSpec list \<Rightarrow> FeatureSpec list \<Rightarrow> bindings \<Rightarrow> name_env" where
  "side_env catalog indicators features params = \<lparr>
     ne_catalog = catalog,
     ne_aliases = alias_columns indicators,
     ne_sources = dict_of (map (\<lambda>i. (column_name i, is_sources i)) (filter (\<lambda>i. is_sources i \<noteq> []) indicators)),
     ne_features = dict_of (map (\<lambda>f. (ft_name f, ft_name f)) features),
     ne_params = params\<rparr>"

definition parse_sides ::
  "IndicatorCapabilityProvider \<Rightarrow> pyval \<Rightarrow> IndicatorSpec list \<Rightarrow> FeatureSpec list \<Rightarrow> bindings \<Rightarrow> sides checked" where
  "parse_sides catalog raw indicators features params =
     (case raw of
        PDict (kv # kvs) \<Rightarrow> check_fold (add_side (side_env catalog indicators features params)) (kv # kvs) []
      | _ \<Rightarrow> fail [] (make_error ''$.sides'' ''sides must define at least one of long or short''))"

section \<open>Limits and warnings\<close>

fun condition_depth :: "ConditionGroup \<Rightarrow> nat" where
  "condition_depth (ConditionGroup kind children cond) =
     (if kind = ''condition'' then 0 else 1 + fold max (map condition_depth children) 0)"

definition limit_error :: "string \<Rightarrow> string \<Rightarrow> nat \<Rightarrow> nat \<Rightarrow> errors" where
  "limit_error path what maximum n =
     (if maximum < n
      then [make_error path (''max '' @ show_int (int maximum) @ '' '' @ what @ '' (got '' @ show_int (int n) @ '')'')]
      else [])"

definition depth_error :: "string \<Rightarrow> nat \<Rightarrow> nat \<Rightarrow> errors" where
  "depth_error path maximum n =
     (if maximum < n
      then [make_error path (''max depth '' @ show_int (int maximum) @ '' (got '' @ show_int (int n) @ '')'')]
      else [])"

definition side_depth_error :: "nat \<Rightarrow> string \<times> SideRules \<Rightarrow> errors" where
  "side_depth_error maximum sr =
     (case sr of (side, rules) \<Rightarrow>
        (case depth_error (''$.sides.'' @ side @ ''.entry.condition'') maximum (condition_depth (sd_entry rules)) of
           [] \<Rightarrow> (case sd_exit rules of
                    None \<Rightarrow> []
                  | Some g \<Rightarrow> depth_error (''$.sides.'' @ side @ ''.exit.condition'') maximum (condition_depth g))
         | es \<Rightarrow> es))"

text \<open>The first side that is too deep is reported.\<close>

fun first_nonempty :: "'a list list \<Rightarrow> 'a list" where
  "first_nonempty [] = []"
| "first_nonempty (x # xs) = (if x = [] then first_nonempty xs else x)"

definition collect_limit_errors :: "StrategyDefinition \<Rightarrow> errors" where
  "collect_limit_errors df =
     limit_error ''$.parameters'' ''parameters'' 20 (length (df_parameters df))
     @ limit_error ''$.indicators'' ''indicators'' 20 (length (df_indicators df))
     @ limit_error ''$.features'' ''features'' 20 (length (df_features df))
     @ first_nonempty (map (side_depth_error 5) (df_sides df))"

text \<open>The dash in the second message, in UTF-8.\<close>

definition em_dash :: string where
  "em_dash = [CHR 0xE2, CHR 0x80, CHR 0x94]"

definition no_exit_warning :: "StrategyDefinition \<Rightarrow> errors" where
  "no_exit_warning df =
     (case find (\<lambda>(_, rules). sd_exit rules = None) (df_sides df) of
        Some (side, _) \<Rightarrow> [coded_error (''$.sides.'' @ side) (''no exit condition defined for '' @ side @ '' side'') ''no_exit'']
      | None \<Rightarrow> [])"

definition no_stop_warning :: "StrategyDefinition \<Rightarrow> errors" where
  "no_stop_warning df =
     (if (case df_risk df of None \<Rightarrow> True | Some r \<Rightarrow> rk_stop_loss_type r = ''none'')
      then [coded_error ''$.risk'' (''no stop-loss defined '' @ em_dash @ '' strategy may hold losing positions'') ''no_stop'']
      else [])"

definition collect_warnings :: "StrategyDefinition \<Rightarrow> errors" where
  "collect_warnings df = no_exit_warning df @ no_stop_warning df"

section \<open>Required columns\<close>

definition add_column :: "string \<Rightarrow> string list \<Rightarrow> string list" where
  "add_column c cols = (if c \<in> set cols then cols else cols @ [c])"

definition operand_columns :: "Operand \<Rightarrow> string list" where
  "operand_columns o' =
     (if od_kind o' \<in> {''field'', ''indicator'', ''feature'', ''column''} then [py_str (od_value o')] else [])"

definition condition_columns :: "Condition \<Rightarrow> string list" where
  "condition_columns c =
     operand_columns (cn_left c) @ (case cn_right c of None \<Rightarrow> [] | Some r \<Rightarrow> operand_columns r)"

text \<open>The order in which the visitor reaches the conditions.\<close>

fun visit_conditions :: "ConditionGroup \<Rightarrow> Condition list" where
  "visit_conditions (ConditionGroup kind children cond) =
     (case cond of None \<Rightarrow> [] | Some c \<Rightarrow> [c]) @ concat (map visit_conditions children)"

definition group_columns :: "ConditionGroup option \<Rightarrow> string list" where
  "group_columns g = (case g of None \<Rightarrow> [] | Some g \<Rightarrow> concat (map condition_columns (visit_conditions g)))"

definition risk_columns :: "RiskSpec option \<Rightarrow> string list" where
  "risk_columns risk =
     (case risk of
        None \<Rightarrow> []
      | Some r \<Rightarrow>
          (if rk_stop_loss_type r = ''atr'' \<and> rk_stop_indicator r \<noteq> [] then [rk_stop_indicator r] else [])
          @ (if rk_take_profit_type r = ''atr'' \<and> rk_take_profit_indicator r \<noteq> [] then [rk_take_profit_indicator r] else []))"

text \<open>\<open>val.lstrip("-").replace(".", "").isdigit()\<close>.\<close>

definition numeric_text :: "string \<Rightarrow> bool" where
  "numeric_text s = is_number (filter (\<lambda>c. c \<noteq> CHR ''.'') (dropWhile (\<lambda>c. c = CHR ''-'') s))"

text \<open>Iterating over a value: a list, the keys of a dict, the characters of a text.\<close>

definition iterate :: "pyval \<Rightarrow> pyval list result" where
  "iterate v =
     (case v of
        PList xs \<Rightarrow> Inr xs
      | PDict kvs \<Rightarrow> Inr (map (\<lambda>(k, _). PStr k) kvs)
      | PStr s \<Rightarrow> Inr (map (\<lambda>c. PStr [c]) s)
      | _ \<Rightarrow> raise TypeError)"

lemma iterate_size: "iterate v = Inr xs \<Longrightarrow> PDict kvs \<in> set xs \<Longrightarrow> size (PDict kvs) < size v"
  using size_list_estimation' [of "PDict kvs" xs "size (PDict kvs)" size]
  by (auto simp: iterate_def split: pyval.splits)

lemma ebind_fundef_cong [fundef_cong]:
  "m = m' \<Longrightarrow> (\<And>x. m' = Inr x \<Longrightarrow> f x = g x) \<Longrightarrow> ebind m f = ebind m' g"
  by (cases m') auto

lemma emap_fundef_cong [fundef_cong]:
  "xs = ys \<Longrightarrow> (\<And>x. x \<in> set ys \<Longrightarrow> f x = g x) \<Longrightarrow> emap f xs = emap g ys"
  by (auto intro: emap_cong)

function (sequential) formula_columns :: "pyval \<Rightarrow> string list result" where
  "formula_columns (PDict kvs) =
     ebind (emap (\<lambda>key. case map_of kvs key of
                          Some (PStr s) \<Rightarrow> Inr (if numeric_text s then [] else [s])
                        | Some (PDict d) \<Rightarrow> formula_columns (PDict d)
                        | _ \<Rightarrow> Inr []) [''left'', ''right'', ''operand'']) (\<lambda>sides.
     ebind (iterate (get_key kvs ''children'' (PList []))) (\<lambda>children.
     ebind (emap (\<lambda>child. case child of
                            PDict d \<Rightarrow> formula_columns (PDict d)
                          | PStr s \<Rightarrow> Inr [s]
                          | _ \<Rightarrow> Inr []) children) (\<lambda>rest.
       Inr (concat sides @ concat rest))))"
| "formula_columns _ = Inr []"
  by pat_completeness auto
termination
proof (relation "measure size", goal_cases)
  case (2 kvs key v d)
  then show ?case using map_of_size [of kvs key "PDict d"] by simp
next
  case (3 kvs sides children child d)
  then have i: "iterate (get_key kvs ''children'' (PList [])) = Inr children" "PDict d \<in> set children" by auto
  then obtain v where v: "map_of kvs ''children'' = Some v"
    by (cases "map_of kvs ''children''") (auto simp: get_key_def iterate_def)
  then have "size (PDict d) < size v" using i by (intro iterate_size) (auto simp: get_key_def)
  then show ?case using map_of_size [OF v] by simp
qed simp

definition ENGINE_REQUIRED_COLUMNS :: "string list" where
  "ENGINE_REQUIRED_COLUMNS = [''open'', ''high'', ''low'', ''close'']"

definition collect_required_columns :: "StrategyDefinition \<Rightarrow> string list result" where
  "collect_required_columns df =
     ebind (emap (\<lambda>f. if ft_type f = ''formula'' \<and> ft_raw_expr f \<noteq> PNone then formula_columns (ft_raw_expr f) else Inr [])
              (df_features df)) (\<lambda>formulas.
       Inr (fold add_column
              (ENGINE_REQUIRED_COLUMNS
               @ concat (map (\<lambda>(_, r). group_columns (Some (sd_entry r)) @ group_columns (sd_exit r)) (df_sides df))
               @ risk_columns (df_risk df) @ concat formulas) []))"

section \<open>The serializer\<close>

definition serialize_condition :: "Condition \<Rightarrow> pyval" where
  "serialize_condition c =
     PDict ([(''left'', od_value (cn_left c)), (''operator'', PStr (cn_operator c))]
            @ (case cn_right c of None \<Rightarrow> [] | Some r \<Rightarrow> [(''right'', od_value r)]))"

text \<open>
  \<open>SerializeGroupVisitor\<close>: what the visit of a group appends to the node of its parent.  The node of a
  \<open>not\<close> group is a dict, which has no \<open>append\<close>.
\<close>

fun visit_serialize :: "ConditionGroup \<Rightarrow> pyval list result" where
  "visit_serialize (ConditionGroup kind children cond) =
     ebind (emap visit_serialize children) (\<lambda>css.
       let items = (case cond of None \<Rightarrow> [] | Some c \<Rightarrow> [serialize_condition c]) @ concat css
       in if kind = ''condition'' then Inr items
          else if kind = ''not''
          then (if items = [] then Inr [PDict [(''not'', PDict [])]] else raise AttributeError)
          else Inr [PDict [(kind, PList items)]])"

text \<open>\<open>visitor.result\<close> after the visit: the last entry written while the stack was empty.\<close>

definition serialize_group :: "ConditionGroup \<Rightarrow> pyval result" where
  "serialize_group g = ebind (visit_serialize g) (\<lambda>items. Inr (if items = [] then PDict [] else last items))"

definition opt_float :: "flt option \<Rightarrow> string \<Rightarrow> (string \<times> pyval) list" where
  "opt_float x k = (case x of None \<Rightarrow> [] | Some v \<Rightarrow> [(k, PFloat v)])"

definition serialize_parameter :: "StrategyParameter \<Rightarrow> pyval" where
  "serialize_parameter p =
     PDict ([(''type'', PStr (sp_type p)), (''default'', sp_default p)]
            @ opt_float (sp_minimum p) ''minimum'' @ opt_float (sp_maximum p) ''maximum'')"

definition serialize_timeframes :: "TimeframeDeclaration \<Rightarrow> pyval" where
  "serialize_timeframes t =
     PDict [(''primary'', PStr (tf_primary t)),
            (''informative'', PList (map (\<lambda>i. PDict [(''alias'', PStr (it_alias i)), (''interval'', PStr (it_interval i))])
                                     (tf_informative t)))]"

definition serialize_indicator :: "IndicatorSpec \<Rightarrow> pyval" where
  "serialize_indicator i =
     PDict [(''name'', PStr (is_name i)), (''type'', PStr (is_type i)), (''concrete_name'', PStr (is_concrete_name i)),
            (''expected_column'', PStr (column_name i)), (''timeframe'', PStr (is_timeframe i)), (''period'', is_period i),
            (''source'', PStr (is_source i))]"

definition serialize_feature :: "FeatureSpec \<Rightarrow> pyval" where
  "serialize_feature f =
     PDict [(''name'', PStr (ft_name f)), (''type'', PStr (ft_type f)), (''source'', PStr (ft_source f)),
            (''window'', ft_window f), (''shift'', PInt (ft_shift f))]"

definition serialize_risk :: "RiskSpec \<Rightarrow> pyval" where
  "serialize_risk r =
     PDict [(''stop_loss'', PDict [(''type'', PStr (rk_stop_loss_type r)), (''indicator'', PStr (rk_stop_indicator r)),
              (''multiplier'', PFloat (rk_stop_multiplier r))]),
            (''take_profit'', PDict [(''type'', PStr (rk_take_profit_type r)), (''indicator'', PStr (rk_take_profit_indicator r)),
              (''multiplier'', PFloat (rk_take_profit_multiplier r))])]"

definition serialize_side :: "SideRules \<Rightarrow> pyval result" where
  "serialize_side s =
     ebind (serialize_group (sd_entry s)) (\<lambda>entry.
     ebind (case sd_exit s of None \<Rightarrow> Inr [] | Some g \<Rightarrow>
              ebind (serialize_group g) (\<lambda>x. Inr [(''exit'', PDict [(''condition'', x)])])) (\<lambda>rest.
       Inr (PDict ((''entry'', PDict [(''condition'', entry)]) # rest))))"

definition serialize :: "StrategyDefinition \<Rightarrow> (string \<times> pyval) list result" where
  "serialize df =
     ebind (emap (\<lambda>(side, s). ebind (serialize_side s) (\<lambda>v. Inr (side, v))) (df_sides df)) (\<lambda>sides.
       Inr ([(''schema_version'', PStr (df_schema_version df)), (''name'', PStr (df_name df))]
            @ (if df_description df \<noteq> [] then [(''description'', PStr (df_description df))] else [])
            @ (if df_parameters df \<noteq> []
               then [(''parameters'', PDict (map (\<lambda>(n, p). (n, serialize_parameter p)) (df_parameters df)))] else [])
            @ (case df_timeframes df of None \<Rightarrow> [] | Some t \<Rightarrow> [(''timeframes'', serialize_timeframes t)])
            @ (if df_indicators df \<noteq> [] then [(''indicators'', PList (map serialize_indicator (df_indicators df)))] else [])
            @ (if df_features df \<noteq> [] then [(''features'', PList (map serialize_feature (df_features df)))] else [])
            @ (case df_risk df of None \<Rightarrow> [] | Some r \<Rightarrow> [(''risk'', serialize_risk r)])
            @ (if df_sides df \<noteq> [] then [(''sides'', PDict sides)] else [])
            @ (if df_metadata df \<noteq> [] then [(''metadata'', PDict (df_metadata df))] else [])))"

section \<open>The parser\<close>

record StrategyValidationResult =
  vr_valid :: bool
  vr_errors :: errors
  vr_warnings :: errors
  vr_definition :: "StrategyDefinition option"
  vr_required_indicators :: "string list"
  vr_required_columns :: "string list"
  vr_primary_required_indicators :: "string list"
  vr_informative_required_indicators :: "(string \<times> string list) list"
  vr_timeframe_intervals :: "(string \<times> string) list"
  vr_normalized :: "(string \<times> pyval) list"

definition invalid :: "errors \<Rightarrow> StrategyValidationResult" where
  "invalid es = \<lparr>vr_valid = False, vr_errors = es, vr_warnings = [], vr_definition = None,
     vr_required_indicators = [], vr_required_columns = [], vr_primary_required_indicators = [],
     vr_informative_required_indicators = [], vr_timeframe_intervals = [], vr_normalized = []\<rparr>"

text \<open>
  \<open>_parse_any\<close>.  The decoders are arguments: \<open>json\<close> answers \<open>None\<close> where \<open>json.loads\<close> raises
  \<open>JSONDecodeError\<close>, and \<open>yaml\<close> answers \<open>Inl\<close> with the text of a \<open>YAMLError\<close>.  Both return a value otherwise.
\<close>

definition parse_any :: "(string \<Rightarrow> pyval option) \<Rightarrow> (string \<Rightarrow> string + pyval) \<Rightarrow> string \<Rightarrow> pyval \<times> string" where
  "parse_any json yaml raw =
     (case json raw of
        Some v \<Rightarrow> (v, '''')
      | None \<Rightarrow>
          (case yaml raw of
             Inr (PDict kvs) \<Rightarrow> (PDict kvs, '''')
           | Inr _ \<Rightarrow> (PNone, ''strategy definition must be a JSON or YAML object'')
           | Inl e \<Rightarrow> (PNone, ''Invalid JSON or YAML: '' @ e)))"

definition load :: "(string \<Rightarrow> pyval option) \<Rightarrow> (string \<Rightarrow> string + pyval) \<Rightarrow> string + (string \<times> pyval) list \<Rightarrow>
   (string \<times> pyval) list option checked" where
  "load json yaml raw =
     (case raw of
        Inr kvs \<Rightarrow> ok (Some kvs)
      | Inl text \<Rightarrow>
          (case parse_any json yaml text of
             (PNone, msg) \<Rightarrow> fail None (coded_error ''$'' msg ''invalid_json'')
           | (PDict kvs, _) \<Rightarrow> ok (Some kvs)
           | _ \<Rightarrow> fail None (make_error ''$'' ''strategy definition must be a JSON object'')))"

definition validate_header :: "(string \<times> pyval) list \<Rightarrow> string checked" where
  "validate_header data =
     (let name = text_field data ''name''
      in (name, (if get_key data ''schema_version'' PNone \<noteq> PStr ''2.0''
                 then [make_error ''$.schema_version'' (''schema_version must be '' @ quoted ''2.0'')] else [])
                @ (if name = [] then [make_error ''$.name'' ''name is required''] else [])))"

definition metadata_of :: "(string \<times> pyval) list \<Rightarrow> (string \<times> pyval) list" where
  "metadata_of data = (case get_key data ''metadata'' (PDict []) of PDict kvs \<Rightarrow> kvs | _ \<Rightarrow> [])"

definition BASE_COLUMN_NAMES :: "string list" where
  "BASE_COLUMN_NAMES = [''open'', ''high'', ''low'', ''close'', ''volume'', ''timestamp'']"

definition informative_intervals :: "StrategyDefinition \<Rightarrow> string list" where
  "informative_intervals df =
     (case df_timeframes df of None \<Rightarrow> [] | Some t \<Rightarrow> map it_interval (tf_informative t))"

definition routed :: "string list \<Rightarrow> string \<Rightarrow> bool" where
  "routed intervals col = list_ex (\<lambda>iv. ends_with (''_'' @ iv) col) intervals"

definition primary_required_indicators ::
  "IndicatorCapabilityProvider \<Rightarrow> StrategyDefinition \<Rightarrow> string list \<Rightarrow> string list" where
  "primary_required_indicators catalog df cols =
     fold (\<lambda>col required.
        if col \<in> set BASE_COLUMN_NAMES \<or> col \<in> set required \<or> col \<in> ft_name ` set (df_features df) then required
        else if routed (informative_intervals df) col then required
        else if cap_supports catalog col then required @ [col] else required) cols
       (fold add_column (map is_concrete_name (filter (\<lambda>i. is_timeframe i = ''primary'') (df_indicators df))) [])"

definition unknown_required_columns :: "StrategyDefinition \<Rightarrow> string list \<Rightarrow> string list \<Rightarrow> string list" where
  "unknown_required_columns df primary cols =
     filter (\<lambda>col. \<not> (col \<in> set BASE_COLUMN_NAMES \<or> col \<in> set primary \<or> col \<in> ft_name ` set (df_features df)) \<and>
                   \<not> routed (informative_intervals df) col) cols"

definition informative_required_indicators :: "IndicatorSpec list \<Rightarrow> (string \<times> string list) list" where
  "informative_required_indicators indicators =
     fold (\<lambda>i required.
        if is_timeframe i = ''primary'' then required
        else AList.update (is_timeframe i)
               (add_column (is_concrete_name i)
                  (case map_of required (is_timeframe i) of None \<Rightarrow> [] | Some vs \<Rightarrow> vs)) required) indicators []"

definition timeframe_intervals :: "StrategyDefinition \<Rightarrow> (string \<times> string) list" where
  "timeframe_intervals df =
     (case df_timeframes df of
        None \<Rightarrow> []
      | Some t \<Rightarrow> fold (\<lambda>i. AList.update (it_alias i) (it_interval i)) (tf_informative t) [(''primary'', tf_primary t)])"

definition msg_unknown_columns :: "string list \<Rightarrow> string" where
  "msg_unknown_columns unknown =
     ''conditions reference unknown column(s) '' @ py_repr (PList (map PStr unknown))
     @ '': not OHLCV, not a declared indicator, not a feature, and not in the indicator catalog''"

text \<open>After the sections: limits, columns and the result.\<close>

definition finish :: "IndicatorCapabilityProvider \<Rightarrow> StrategyDefinition \<Rightarrow> StrategyValidationResult result" where
  "finish catalog df =
     (case collect_limit_errors df of
        [] \<Rightarrow>
          ebind (collect_required_columns df) (\<lambda>cols.
            let primary = primary_required_indicators catalog df cols;
                unknown = unknown_required_columns df primary cols
            in if unknown \<noteq> [] then Inr (invalid [make_error ''$.sides'' (msg_unknown_columns unknown)])
               else ebind (serialize df) (\<lambda>normalized.
                 Inr \<lparr>vr_valid = True, vr_errors = [], vr_warnings = collect_warnings df, vr_definition = Some df,
                      vr_required_indicators = map column_name (df_indicators df), vr_required_columns = cols,
                      vr_primary_required_indicators = primary,
                      vr_informative_required_indicators = informative_required_indicators (df_indicators df),
                      vr_timeframe_intervals = timeframe_intervals df, vr_normalized = normalized\<rparr>))
      | es \<Rightarrow> Inr (invalid es))"

text \<open>The sections in the order of the code, with the errors they append.\<close>

definition parse_data ::
  "IndicatorCapabilityProvider \<Rightarrow> (string \<times> pyval) list \<Rightarrow> bindings \<Rightarrow> StrategyDefinition checked result" where
  "parse_data catalog data overrides =
     ebind (parse_parameters (get_key data ''parameters'' (PDict []))) (\<lambda>(params, e2).
       case validate_header data of (name, e1) \<Rightarrow>
       case apply_overrides params overrides of (resolved, e3) \<Rightarrow>
       case parse_timeframes (get_key data ''timeframes'' PNone) of (timeframes, e4) \<Rightarrow>
       case parse_indicators catalog (get_key data ''indicators'' (PList [])) resolved timeframes of (indicators, e5) \<Rightarrow>
       case parse_features catalog (get_key data ''features'' (PList [])) indicators resolved of (features, e6) \<Rightarrow>
       ebind (parse_risk catalog (get_key data ''risk'' PNone) indicators resolved) (\<lambda>(risk, e7).
       case parse_sides catalog (get_key data ''sides'' PNone) indicators features resolved of (sides, e8) \<Rightarrow>
         Inr (\<lparr>df_name = name, df_sides = sides, df_schema_version = ''2.0'',
               df_description = py_str (get_key data ''description'' (PStr '''')), df_parameters = params,
               df_resolved_params = resolved, df_indicators = indicators, df_features = features,
               df_timeframes = timeframes, df_risk = risk, df_metadata = metadata_of data\<rparr>,
              e1 @ e2 @ e3 @ e4 @ e5 @ e6 @ e7 @ e8)))"

definition parse_document ::
  "IndicatorCapabilityProvider \<Rightarrow> (string \<Rightarrow> pyval option) \<Rightarrow> (string \<Rightarrow> string + pyval) \<Rightarrow>
   string + (string \<times> pyval) list \<Rightarrow> bindings \<Rightarrow> StrategyValidationResult result" where
  "parse_document catalog json yaml raw overrides =
     (case load json yaml raw of
        (None, es) \<Rightarrow> Inr (invalid es)
      | (Some data, _) \<Rightarrow>
          ebind (parse_data catalog data overrides) (\<lambda>(df, es).
            if es \<noteq> [] then Inr (invalid es) else finish catalog df))"

end
