(* ===== verification/ParserProperties.thy ===== *)
theory ParserProperties
  imports DocumentParser RuleStrategy
begin

text \<open>
  Properties of the document parser: what a valid definition satisfies, how overrides and risk numbers are
  checked, which columns are required, what the normalized form keeps, and that trees survive it.
\<close>

section \<open>Sections without errors\<close>

lemma clean_if_fail [simp]: "(if b then fail x e else m) = (y, []) \<longleftrightarrow> \<not> b \<and> m = (y, [])"
  by simp

lemma clean_if_ok: "(if b then ok x else fail z e) = (y, []) \<longleftrightarrow> b \<and> x = y"
  by auto

lemma echeck_fold_invariant:
  assumes "echeck_fold f xs s = Inr (t, [])" "P s"
    and "\<And>x s t. x \<in> set xs \<Longrightarrow> f x s = Inr (t, []) \<Longrightarrow> P s \<Longrightarrow> P t"
  shows "P t"
  using assms by (induction xs arbitrary: s) (auto split: prod.splits)

subsection \<open>Parameters\<close>

text \<open>A value of the declared type inside the declared range.\<close>

definition param_accepts :: "StrategyParameter \<Rightarrow> pyval \<Rightarrow> bool" where
  "param_accepts p v \<longleftrightarrow>
     value_matches_type v (sp_type p) \<and>
     (\<forall>m. sp_minimum p = Some m \<longrightarrow> \<not> num_less v m) \<and> (\<forall>m. sp_maximum p = Some m \<longrightarrow> \<not> num_greater v m)"

lemma validate_range_clean:
  "validate_range v mn mx path = [] \<longleftrightarrow>
     (\<forall>m. mn = Some m \<longrightarrow> \<not> num_less v m) \<and> (\<forall>m. mx = Some m \<longrightarrow> \<not> num_greater v m)"
  by (auto simp: validate_range_def split: option.splits)

definition declaration_ok :: "StrategyParameter \<Rightarrow> bool" where
  "declaration_ok p \<longleftrightarrow> sp_type p \<in> set PARAMETER_TYPES \<and> param_accepts p (sp_default p)"

definition params_ok :: "parameters \<Rightarrow> bool" where
  "params_ok ps \<longleftrightarrow> distinct (map fst ps) \<and> (\<forall>x \<in> set ps. sp_name (snd x) = fst x \<and> declaration_ok (snd x))"

lemma parse_parameter_clean:
  assumes "parse_parameter ns ps = Inr (ps', [])"
  obtains n p where "ps' = AList.update n p ps" "sp_name p = n" "declaration_ok p"
proof -
  obtain n spec where ns: "ns = (n, spec)" by fastforce
  obtain kvs where spec: "spec = PDict kvs" using assms by (cases spec) (auto simp: parse_parameter_def ns)
  show ?thesis
    using assms that [of n]
    by (auto simp: parse_parameter_def ns spec Let_def declaration_ok_def param_accepts_def validate_range_clean split: if_splits)
qed

lemma set_update: "distinct (map fst ps) \<Longrightarrow> x \<in> set (AList.update k v ps) \<Longrightarrow> x = (k, v) \<or> x \<in> set ps"
  by (induction ps) (auto split: if_splits)

lemma parse_parameters_clean: "parse_parameters raw = Inr (ps, []) \<Longrightarrow> params_ok ps"
proof -
  assume a: "parse_parameters raw = Inr (ps, [])"
  then obtain kvs where "echeck_fold parse_parameter kvs [] = Inr (ps, [])"
    by (cases raw) (auto simp: parse_parameters_def)
  then show ?thesis
  proof (rule echeck_fold_invariant)
    fix ns s t
    assume f: "parse_parameter ns s = Inr (t, [])" and s: "params_ok s"
    from f obtain n p where t: "t = AList.update n p s" "sp_name p = n" "declaration_ok p" by (rule parse_parameter_clean)
    have "sp_name (snd x) = fst x \<and> declaration_ok (snd x)" if x: "x \<in> set t" for x
    proof -
      have "x = (n, p) \<or> x \<in> set s" using s x unfolding t(1) params_ok_def by (intro set_update) auto
      then show ?thesis using s t(2,3) by (auto simp: params_ok_def)
    qed
    then show "params_ok t" using s by (simp add: params_ok_def t(1) distinct_update)
  qed (simp add: params_ok_def)
qed

text \<open>Every parameter has a value that its declaration accepts.\<close>

definition resolved_ok :: "parameters \<Rightarrow> bindings \<Rightarrow> bool" where
  "resolved_ok ps resolved \<longleftrightarrow> map fst resolved = map fst ps \<and>
     (\<forall>x \<in> set ps. \<exists>v. map_of resolved (fst x) = Some v \<and> param_accepts (snd x) v)"

lemma fst_update: "k \<in> fst ` set kvs \<Longrightarrow> map fst (AList.update k v kvs) = map fst kvs"
  by (induction kvs) auto

lemma override_errors_clean: "override_errors p v path = [] \<longleftrightarrow> param_accepts p v"
  by (simp add: override_errors_def param_accepts_def validate_range_clean)

lemma apply_overrides_clean:
  assumes "apply_overrides ps overrides = (resolved, [])" "params_ok ps"
  shows "resolved_ok ps resolved"
  using assms(1) unfolding apply_overrides_def
proof (rule check_fold_invariant)
  have "map_of (map (\<lambda>(name, p). (name, sp_default p)) ps) (fst x) = Some (sp_default (snd x))" if "x \<in> set ps" for x
    using assms(2) that by (intro map_of_is_SomeI) (force simp: params_ok_def case_prod_unfold o_def)+
  then show "resolved_ok ps (map (\<lambda>(name, p). (name, sp_default p)) ps)"
    using assms(2) by (auto simp: resolved_ok_def params_ok_def declaration_ok_def case_prod_unfold)
next
  fix nv s t
  assume f: "apply_override ps nv s = (t, [])" and s: "resolved_ok ps s"
  obtain n v where nv: "nv = (n, v)" by fastforce
  from f obtain p where p: "map_of ps n = Some p" "param_accepts p v" "t = AList.update n v s"
    by (auto simp: apply_override_def nv Let_def override_errors_clean split: option.splits list.splits)
  have fs: "map fst s = map fst ps" using s by (simp add: resolved_ok_def)
  have "n \<in> set (map fst s)" unfolding fs using map_of_SomeD [OF p(1)] by force
  then have "n \<in> fst ` set s" by simp
  then have keys: "map fst t = map fst ps" using fs by (simp only: p(3) fst_update)
  have "\<exists>w. map_of t (fst x) = Some w \<and> param_accepts (snd x) w" if x: "x \<in> set ps" for x
  proof (cases "fst x = n")
    case True
    have "map_of ps (fst x) = Some (snd x)"
      using x assms(2) by (intro map_of_is_SomeI) (simp_all add: params_ok_def)
    then show ?thesis using True p by (simp add: update_conv')
  next
    case False
    then show ?thesis using s x by (simp add: resolved_ok_def p(3) update_conv')
  qed
  then show "resolved_ok ps t" using keys by (simp add: resolved_ok_def)
qed

subsection \<open>Timeframes and indicators\<close>

text \<open>At most three informative timeframes, each with an alias of its own and a known interval.\<close>

definition timeframes_ok :: "TimeframeDeclaration \<Rightarrow> bool" where
  "timeframes_ok t \<longleftrightarrow>
     tf_primary t \<in> set Interval \<and> length (tf_informative t) \<le> MAX_INFORMATIVE_TIMEFRAMES \<and>
     distinct (map it_alias (tf_informative t)) \<and> ''primary'' \<notin> it_alias ` set (tf_informative t) \<and>
     distinct (map (\<lambda>i. (it_interval i, it_symbol i)) (tf_informative t)) \<and>
     (\<forall>i \<in> set (tf_informative t). it_interval i \<in> set Interval)"

definition informative_ok :: "timeframe_state \<Rightarrow> bool" where
  "informative_ok st \<longleftrightarrow> (case st of (items, aliases, intervals) \<Rightarrow>
     aliases = map it_alias items \<and> intervals = map (\<lambda>i. (it_interval i, it_symbol i)) items \<and>
     distinct aliases \<and> ''primary'' \<notin> set aliases \<and> distinct intervals \<and> (\<forall>i \<in> set items. it_interval i \<in> set Interval))"

lemma validate_interval_clean: "validate_interval i path = (b, []) \<Longrightarrow> b \<and> i \<in> set Interval"
  by (auto simp: validate_interval_def clean_if_ok split: if_splits)

lemma parse_one_informative_clean:
  assumes "parse_one_informative ix (items, aliases, intervals) = (st, [])" "informative_ok (items, aliases, intervals)"
  shows "informative_ok st"
proof -
  obtain index raw where ix: "ix = (index, raw)" by fastforce
  obtain kvs where raw: "raw = PDict kvs" using assms(1) by (cases raw) (auto simp: parse_one_informative_def ix)
  show ?thesis
    using assms
    by (auto simp: parse_one_informative_def ix raw Let_def timeframe_alias_invalid_def interval_invalid_def
        informative_ok_def dest!: validate_interval_clean split: if_splits)
qed

lemma parse_one_informative_length:
  "parse_one_informative ix st = (st', es) \<Longrightarrow> length (fst st') \<le> Suc (length (fst st))"
  by (auto simp: parse_one_informative_def Let_def bind_checked_def fail_def split: prod.splits pyval.splits if_splits)

lemma parse_informative_clean:
  assumes "parse_informative raw = (items, [])"
  shows "length items \<le> MAX_INFORMATIVE_TIMEFRAMES \<and> (\<exists>a k. informative_ok (items, a, k))"
proof (cases raw)
  case PNone
  then show ?thesis using assms by (simp add: parse_informative_def informative_ok_def)
next
  case (PList xs)
  then obtain a k where f: "check_fold parse_one_informative (enumerate 0 xs) ([], [], []) = ((items, a, k), [])"
    and n: "length xs \<le> MAX_INFORMATIVE_TIMEFRAMES"
    using assms by (auto simp: parse_informative_def split: if_splits)
  have "informative_ok (items, a, k)"
    using f by (rule check_fold_invariant) (auto simp: informative_ok_def [of "([], [], [])"] intro: parse_one_informative_clean)
  moreover have "length (fst st') \<le> length (fst st) + length ys"
    if "check_fold parse_one_informative ys st = (st', [])" for ys st st'
    using that
  proof (induction ys arbitrary: st)
    case (Cons y ys)
    then obtain u where "parse_one_informative y st = (u, [])" "length (fst st') \<le> length (fst u) + length ys" by auto
    then show ?case using parse_one_informative_length [of y st u] by simp
  qed simp
  from this [OF f] have "length items \<le> length xs" by simp
  ultimately show ?thesis using n by auto
qed (use assms in \<open>auto simp: parse_informative_def\<close>)

lemma parse_timeframes_clean: "parse_timeframes raw = (Some t, []) \<Longrightarrow> timeframes_ok t"
  by (auto simp: parse_timeframes_def Let_def timeframes_ok_def informative_ok_def dest!: validate_interval_clean
      parse_informative_clean split: pyval.splits list.splits)

text \<open>Names of indicators are their own, none is a price field, and the catalog supports the column.\<close>

definition indicators_ok :: "IndicatorCapabilityProvider \<Rightarrow> IndicatorSpec list \<Rightarrow> bool" where
  "indicators_ok catalog is \<longleftrightarrow>
     distinct (map is_name is) \<and> is_name ` set is \<inter> set OHLCV_FIELDS = {} \<and>
     (\<forall>i \<in> set is. is_name i \<noteq> [] \<and> cap_supports catalog (is_concrete_name i))"

lemma parse_source_clean:
  assumes "check_fold (parse_source catalog path) ixs ss = (ts, [])" "\<forall>s \<in> set ss. cap_supports catalog s"
  shows "\<forall>s \<in> set ts. cap_supports catalog s"
  using assms
  by (rule check_fold_invariant) (auto simp: parse_source_def Let_def split: pyval.splits if_splits)

lemma parse_sources_clean: "parse_sources catalog ty raw path = (ss, []) \<Longrightarrow> s \<in> set ss \<Longrightarrow> cap_supports catalog s"
  using parse_source_clean [of catalog path _ "[]" ss]
  by (auto simp: parse_sources_def split: pyval.splits if_splits)

context indicator_capabilities
begin

lemma concrete_of_supported:
  assumes "concrete_of catalog ty period supplied sources path = (Some c, [])"
    and "\<And>s. s \<in> set sources \<Longrightarrow> cap_supports catalog s"
  shows "cap_supports catalog c"
  using assms resolved_supported
  by (auto simp: concrete_of_def split: if_splits option.splits list.splits)

lemma parse_indicator_clean:
  assumes p: "parse_indicator catalog params timeframes ix (used, is) = ((used', is'), [])"
    and ok: "used = map is_name is" "indicators_ok catalog is"
  shows "used' = map is_name is' \<and> indicators_ok catalog is'"
proof -
  obtain index item where ix: "ix = (index, item)" by fastforce
  obtain kvs where item: "item = PDict kvs" using p by (cases item) (auto simp: parse_indicator_def ix)
  let ?aname = "text_field kvs ''name''"
  from p obtain period sources conc where
    a: "?aname \<noteq> []" "?aname \<notin> set used" "?aname \<notin> set OHLCV_FIELDS" and
    s: "parse_sources catalog (str_strip (py_lower (py_str (get_key kvs ''type'' (PStr ''''))))) (get_key kvs ''sources'' PNone)
          (item_path ''$.indicators'' index @ ''.sources'') = (sources, [])" and
    c: "concrete_of catalog (str_strip (py_lower (py_str (get_key kvs ''type'' (PStr ''''))))) period
          (map_of kvs ''period'' \<noteq> None) sources (item_path ''$.indicators'' index) = (conc, [])" and
    r: "(used', is') = (used, is) \<or>
        (\<exists>concrete i. conc = Some concrete \<and> (used', is') = (used @ [?aname], is @ [i]) \<and> is_name i = ?aname \<and>
           is_concrete_name i = (case sources of [] \<Rightarrow> concrete | s # _ \<Rightarrow> s))"
    unfolding parse_indicator_def ix item
    by (auto simp: Let_def alias_invalid_def split: if_splits option.splits)
  from r show ?thesis
  proof (elim disjE exE conjE)
    fix concrete i
    assume i: "conc = Some concrete" "(used', is') = (used @ [?aname], is @ [i])" "is_name i = ?aname"
      "is_concrete_name i = (case sources of [] \<Rightarrow> concrete | s # _ \<Rightarrow> s)"
    note sup = parse_sources_clean [OF s]
    have "cap_supports catalog concrete" using concrete_of_supported [OF c [unfolded i(1)] sup] .
    then have "cap_supports catalog (is_concrete_name i)" using sup by (simp add: i(4) split: list.splits)
    then show ?thesis using i a ok by (auto simp: indicators_ok_def)
  qed (use ok in simp)
qed

lemma parse_indicators_clean:
  assumes "parse_indicators catalog raw params timeframes = (is, [])"
  shows "indicators_ok catalog is"
proof (cases raw)
  case PNone
  then show ?thesis using assms by (simp add: parse_indicators_def indicators_ok_def)
next
  case (PList xs)
  then obtain used where
    f: "check_fold (parse_indicator catalog params timeframes) (enumerate 0 xs) ([], []) = ((used, is), [])"
    using assms by (auto simp: parse_indicators_def)
  have "fst (used, is) = map is_name (snd (used, is)) \<and> indicators_ok catalog (snd (used, is))"
    using f by (rule check_fold_invariant) (auto simp: indicators_ok_def [of catalog "[]"] dest: parse_indicator_clean)
  then show ?thesis by simp
qed (use assms in \<open>auto simp: parse_indicators_def\<close>)

end

subsection \<open>Risk\<close>

text \<open>The number each risk model needs is there: it is not zero or negative (it may be NaN).\<close>

definition risk_ok :: "RiskSpec \<Rightarrow> bool" where
  "risk_ok r \<longleftrightarrow>
     rk_stop_loss_type r \<in> set STOP_TYPES \<and> rk_take_profit_type r \<in> set TAKE_PROFIT_TYPES \<and>
     (rk_stop_loss_type r = ''atr'' \<longrightarrow> \<not> rk_stop_multiplier r \<le> 0) \<and>
     (rk_stop_loss_type r = ''fixed_pct'' \<longrightarrow> \<not> rk_stop_pct r \<le> 0) \<and>
     (rk_take_profit_type r = ''atr'' \<longrightarrow> \<not> rk_take_profit_multiplier r \<le> 0) \<and>
     (rk_take_profit_type r = ''fixed_pct'' \<longrightarrow> \<not> rk_take_profit_pct r \<le> 0) \<and>
     (rk_take_profit_type r = ''risk_reward'' \<longrightarrow> \<not> rk_risk_reward_ratio r \<le> 0)"

lemma validate_types_clean: "snd (validate_types s t) = [] \<longleftrightarrow> s \<in> set STOP_TYPES \<and> t \<in> set TAKE_PROFIT_TYPES"
  by (auto simp: validate_types_def bind_checked_def fail_def ok_def)

lemma build_risk_spec_clean:
  "build_risk_spec catalog params aliases stop target = Inr (r, []) \<Longrightarrow>
   rk_stop_loss_type r \<in> set STOP_TYPES \<and> rk_take_profit_type r \<in> set TAKE_PROFIT_TYPES"
  by (auto simp: build_risk_spec_def Let_def validate_types_clean)

lemma parse_risk_clean: "parse_risk catalog raw indicators params = Inr (Some r, []) \<Longrightarrow> risk_ok r"
proof -
  assume "parse_risk catalog raw indicators params = Inr (Some r, [])"
  then obtain stop target where
    "build_risk_spec catalog params (alias_columns indicators) stop target = Inr (r, [])"
    and v: "validate_required_values r = []"
    by (auto simp: parse_risk_def split: pyval.splits list.splits option.splits prod.splits)
  then show ?thesis
    using build_risk_spec_clean
    by (auto simp: risk_ok_def validate_required_values_def require_positive_def split: if_splits)
qed

subsection \<open>Condition trees\<close>

definition condition_ok :: "Condition \<Rightarrow> bool" where
  "condition_ok c \<longleftrightarrow>
     cn_operator c \<in> set (BINARY_OPERATORS @ UNARY_OPERATORS) \<and>
     (cn_right c \<noteq> None \<longleftrightarrow> cn_operator c \<in> set BINARY_OPERATORS)"

fun tree_ok :: "ConditionGroup \<Rightarrow> bool" where
  "tree_ok (ConditionGroup kind children cond) \<longleftrightarrow>
     list_all tree_ok children \<and>
     (if kind = ''condition'' then children = [] \<and> (case cond of Some c \<Rightarrow> condition_ok c | None \<Rightarrow> False)
      else cond = None \<and>
           (if kind = ''not'' then length children = 1 else kind \<in> {''all'', ''any''} \<and> children \<noteq> []))"

lemma parse_condition_clean: "parse_condition env kvs path = (c, []) \<Longrightarrow> condition_ok c"
  by (auto simp: parse_condition_def Let_def condition_ok_def split: if_splits)

lemma parse_groups_length: "parse_groups env xs path i = (gs, es) \<Longrightarrow> length gs = length xs"
  by (induction xs arbitrary: i gs es) (fastforce simp: bind_checked_def ok_def split: prod.splits)+

lemma parse_group_cleanE:
  assumes "parse_group env raw path = (g, [])"
  obtains
    (all_of) kvs x xs cs where "raw = PDict kvs" "map_of kvs ''all'' = Some (PList (x # xs))"
      "parse_groups env (x # xs) (path @ ''.all'') 0 = (cs, [])" "g = ConditionGroup ''all'' cs None"
  | (any_of) kvs x xs cs where "raw = PDict kvs" "map_of kvs ''all'' = None" "map_of kvs ''any'' = Some (PList (x # xs))"
      "parse_groups env (x # xs) (path @ ''.any'') 0 = (cs, [])" "g = ConditionGroup ''any'' cs None"
  | (none_of) kvs v c where "raw = PDict kvs" "map_of kvs ''all'' = None" "map_of kvs ''any'' = None"
      "map_of kvs ''not'' = Some v" "parse_group env v (path @ ''.not'') = (c, [])" "g = ConditionGroup ''not'' [c] None"
  | (leaf) kvs c where "raw = PDict kvs" "map_of kvs ''all'' = None" "map_of kvs ''any'' = None" "map_of kvs ''not'' = None"
      "parse_condition env kvs path = (c, [])" "g = ConditionGroup ''condition'' [] (Some c)"
proof -
  obtain kvs where raw: "raw = PDict kvs"
    using assms by (cases raw) (auto simp: parse_group.simps)
  note p = assms [unfolded raw, simplified parse_group.simps [of env "PDict kvs"] pyval.case]
  show ?thesis
  proof (cases "map_of kvs ''all''")
    case (Some v)
    then show ?thesis using p all_of [OF raw] by (auto simp del: parse_groups.simps split: pyval.splits list.splits)
  next
    case a: None
    show ?thesis
    proof (cases "map_of kvs ''any''")
      case (Some v)
      then show ?thesis using p a any_of [OF raw a] by (auto simp del: parse_groups.simps split: pyval.splits list.splits)
    next
      case b: None
      then show ?thesis using p a none_of [OF raw a b] leaf [OF raw a b] by (auto split: option.splits)
    qed
  qed
qed

lemma parse_group_clean:
  "parse_group env raw path = (g, []) \<Longrightarrow> tree_ok g"
  "parse_groups env raws path i = (gs, []) \<Longrightarrow> list_all tree_ok gs"
proof (induction env raw path and env raws path i arbitrary: g and gs rule: parse_group_parse_groups.induct)
  case (1 env raw path)
  from 1(4) show ?case
  proof (cases rule: parse_group_cleanE)
    case (all_of kvs x xs cs)
    then have "list_all tree_ok cs" using 1(3) by blast
    then show ?thesis using all_of parse_groups_length [OF all_of(3)] by auto
  next
    case (any_of kvs x xs cs)
    then have "list_all tree_ok cs" using 1(2) by blast
    then show ?thesis using any_of parse_groups_length [OF any_of(4)] by auto
  next
    case (none_of kvs v c)
    then have "tree_ok c" using 1(1) by blast
    then show ?thesis using none_of by simp
  next
    case (leaf kvs c)
    then show ?thesis using parse_condition_clean by simp
  qed
next
  case 3
  then show ?case by auto
qed simp

subsection \<open>Sides\<close>

definition rules_ok :: "string \<times> SideRules \<Rightarrow> bool" where
  "rules_ok sr \<longleftrightarrow> (case sr of (side, r) \<Rightarrow>
     side \<in> {''long'', ''short''} \<and> sd_side r = side \<and> tree_ok (sd_entry r) \<and>
     (case sd_exit r of None \<Rightarrow> True | Some g \<Rightarrow> tree_ok g))"

definition sides_ok :: "sides \<Rightarrow> bool" where
  "sides_ok sides \<longleftrightarrow> distinct (map fst sides) \<and> list_all rules_ok sides"

lemma parse_entry_clean: "parse_entry env spec path = (Some g, []) \<Longrightarrow> tree_ok g"
  by (auto simp: parse_entry_def Let_def dest: parse_group_clean split: if_splits)

lemma parse_exit_clean: "parse_exit_group env spec path = (Some g, []) \<Longrightarrow> tree_ok g"
  by (auto simp: parse_exit_group_def Let_def dest: parse_group_clean split: if_splits)

lemma parse_side_clean:
  assumes "parse_side env side spec = (Some r, [])"
  shows "rules_ok (side, r)"
proof -
  obtain kvs where spec: "spec = PDict kvs" using assms by (cases spec) (auto simp: parse_side_def Let_def)
  with assms obtain e x where side: "side \<in> {''long'', ''short''}"
    and "parse_entry env kvs (''$.sides.'' @ side) = (Some e, [])"
    and "parse_exit_group env kvs (''$.sides.'' @ side) = (x, [])"
    and "sd_side r = side" "sd_entry r = e" "sd_exit r = x"
    by (auto simp: parse_side_def Let_def split: if_splits option.splits)
  then show ?thesis using parse_entry_clean parse_exit_clean by (auto simp: rules_ok_def split: option.split)
qed

lemma add_side_clean: "add_side env ss sides = (t, []) \<Longrightarrow> sides_ok sides \<Longrightarrow> sides_ok t"
proof -
  assume a: "add_side env ss sides = (t, [])" and ok: "sides_ok sides"
  obtain side spec where ss: "ss = (side, spec)" by fastforce
  obtain r where r: "parse_side env side spec = (r, [])" "t = (case r of None \<Rightarrow> sides | Some r \<Rightarrow> AList.update side r sides)"
    using a by (auto simp: add_side_def ss)
  show "sides_ok t"
  proof (cases r)
    case (Some x)
    have "rules_ok y" if y: "y \<in> set (AList.update side x sides)" for y
    proof -
      have "y = (side, x) \<or> y \<in> set sides" using ok y by (intro set_update) (simp_all add: sides_ok_def)
      then show ?thesis using parse_side_clean r(1) ok by (auto simp: Some sides_ok_def list_all_iff)
    qed
    then show ?thesis using ok by (simp add: r(2) Some sides_ok_def list_all_iff distinct_update)
  qed (use ok r in simp)
qed

lemma parse_sides_clean: "parse_sides catalog raw indicators features params = (sides, []) \<Longrightarrow> sides_ok sides"
proof -
  assume "parse_sides catalog raw indicators features params = (sides, [])"
  then obtain kvs where "check_fold (add_side (side_env catalog indicators features params)) kvs [] = (sides, [])"
    by (auto simp: parse_sides_def simp del: check_fold.simps split: pyval.splits list.splits)
  then show ?thesis
    by (rule check_fold_invariant) (simp_all add: add_side_clean, simp add: sides_ok_def)
qed

section \<open>Whole documents\<close>

lemma parse_dataE:
  assumes "parse_data catalog data overrides = Inr (df, [])"
  obtains raw where
    "parse_parameters (get_key data ''parameters'' (PDict [])) = Inr (df_parameters df, [])"
    "apply_overrides (df_parameters df) overrides = (df_resolved_params df, [])"
    "parse_timeframes (get_key data ''timeframes'' PNone) = (df_timeframes df, [])"
    "parse_indicators catalog (get_key data ''indicators'' (PList [])) (df_resolved_params df) (df_timeframes df)
       = (df_indicators df, [])"
    "parse_risk catalog (get_key data ''risk'' PNone) (df_indicators df) (df_resolved_params df) = Inr (df_risk df, [])"
    "parse_sides catalog (get_key data ''sides'' PNone) (df_indicators df) (df_features df) (df_resolved_params df)
       = (df_sides df, [])"
    "df_name df \<noteq> []" "df_schema_version df = ''2.0''" "get_key data ''schema_version'' PNone = PStr ''2.0''"
  using assms that
  by (auto simp: parse_data_def validate_header_def Let_def split: prod.splits if_splits)

text \<open>A definition the rest of the program can rely on.\<close>

definition definition_ok :: "StrategyDefinition \<Rightarrow> bool" where
  "definition_ok df \<longleftrightarrow>
     df_name df \<noteq> [] \<and> params_ok (df_parameters df) \<and> resolved_ok (df_parameters df) (df_resolved_params df) \<and>
     (case df_timeframes df of None \<Rightarrow> True | Some t \<Rightarrow> timeframes_ok t) \<and>
     (case df_risk df of None \<Rightarrow> True | Some r \<Rightarrow> risk_ok r) \<and> sides_ok (df_sides df)"

lemma parse_data_ok: "parse_data catalog data overrides = Inr (df, []) \<Longrightarrow> definition_ok df"
  by (erule parse_dataE)
    (auto simp: definition_ok_def dest: parse_parameters_clean apply_overrides_clean parse_timeframes_clean
      parse_risk_clean parse_sides_clean split: option.split)

lemma parse_documentE:
  assumes "parse_document catalog json yaml raw overrides = Inr r" "vr_valid r"
  obtains data df where "load json yaml raw = (Some data, [])" "parse_data catalog data overrides = Inr (df, [])"
    "finish catalog df = Inr r"
proof -
  obtain data es0 where l: "load json yaml raw = (Some data, es0)"
    using assms by (cases "load json yaml raw") (auto simp: parse_document_def invalid_def split: option.splits)
  moreover have "es0 = []"
    using l by (auto simp: load_def fail_def ok_def parse_any_def split: sum.splits option.splits prod.splits pyval.splits)
  moreover obtain df es where d: "parse_data catalog data overrides = Inr (df, es)"
    and f: "(if es \<noteq> [] then Inr (invalid es) else finish catalog df) = Inr r"
    using assms(1) by (auto simp: parse_document_def l)
  moreover have "es = []" using f assms(2) by (auto simp: invalid_def split: if_splits)
  ultimately show ?thesis using that by simp
qed

lemma finishE:
  assumes "finish catalog df = Inr r" "vr_valid r"
  obtains cols where "collect_limit_errors df = []" "collect_required_columns df = Inr cols"
    "unknown_required_columns df (primary_required_indicators catalog df cols) cols = []"
    "serialize df = Inr (vr_normalized r)" "vr_definition r = Some df" "vr_required_columns r = cols"
    "vr_primary_required_indicators r = primary_required_indicators catalog df cols" "vr_errors r = []"
  using assms by (auto simp: finish_def Let_def invalid_def split: list.splits if_splits)

section \<open>The serialized tree\<close>

fun no_not :: "ConditionGroup \<Rightarrow> bool" where
  "no_not (ConditionGroup kind children cond) \<longleftrightarrow> kind \<noteq> ''not'' \<and> list_all no_not children"

fun tree_doc :: "ConditionGroup \<Rightarrow> pyval" where
  "tree_doc (ConditionGroup kind children cond) =
     (if kind = ''condition'' then (case cond of Some c \<Rightarrow> serialize_condition c | None \<Rightarrow> PNone)
      else PDict [(kind, PList (map tree_doc children))])"

lemma emap_Inr_map: "(\<And>x. x \<in> set xs \<Longrightarrow> f x = Inr (g x)) \<Longrightarrow> emap f xs = Inr (map g xs)"
  by (induction xs) auto

lemma emap_member: "emap f xs = Inr ys \<Longrightarrow> x \<in> set xs \<Longrightarrow> \<exists>y. f x = Inr y"
  by (induction xs arbitrary: ys) auto

lemma emap_Inl:
  assumes "x \<in> set xs" "f x = Inl e" and same: "\<forall>y \<in> set xs. \<forall>e'. f y = Inl e' \<longrightarrow> e' = e"
  shows "emap f xs = Inl e"
proof (cases "emap f xs")
  case (Inr ys)
  then show ?thesis using emap_member [OF Inr assms(1)] assms(2) by simp
next
  case (Inl e')
  have "\<exists>y \<in> set zs. f y = Inl e'" if "emap f zs = Inl e'" for zs
    using that by (induction zs) (auto simp: ebind_eq_Inl)
  then show ?thesis using Inl same by blast
qed

lemma visit_serialize_tree:
  "tree_ok g \<Longrightarrow> visit_serialize g = (if no_not g then Inr [tree_doc g] else Inl AttributeError)"
proof (induction g)
  case (ConditionGroup kind children cond)
  have IH: "visit_serialize c = (if no_not c then Inr [tree_doc c] else Inl AttributeError)" if "c \<in> set children" for c
    using ConditionGroup that by (auto simp: list_all_iff)
  show ?case
  proof (cases "list_all no_not children")
    case True
    then have "emap visit_serialize children = Inr (map (\<lambda>c. [tree_doc c]) children)"
      using IH by (intro emap_Inr_map) (auto simp: list_all_iff)
    moreover have "concat (map (\<lambda>c. [tree_doc c]) children) = map tree_doc children" by simp
    ultimately show ?thesis
      using ConditionGroup.prems True by (auto simp: Let_def raise_def split: option.splits if_splits)
  next
    case False
    then obtain c where "c \<in> set children" "\<not> no_not c" by (auto simp: list_all_iff)
    then have "emap visit_serialize children = Inl AttributeError"
      using IH by (intro emap_Inl [of c]) (auto split: if_splits)
    then show ?thesis using False by simp
  qed
qed

lemma serialize_group_tree:
  "tree_ok g \<Longrightarrow> serialize_group g = (if no_not g then Inr (tree_doc g) else Inl AttributeError)"
  by (simp add: serialize_group_def visit_serialize_tree)

lemma serialize_sides_no_not:
  assumes "serialize df = Inr doc" "sides_ok (df_sides df)" "(side, r) \<in> set (df_sides df)"
  shows "no_not (sd_entry r) \<and> (case sd_exit r of None \<Rightarrow> True | Some g \<Rightarrow> no_not g)"
proof -
  obtain vs where "emap (\<lambda>(side, s). ebind (serialize_side s) (\<lambda>v. Inr (side, v))) (df_sides df) = Inr vs"
    using assms(1) by (auto simp: serialize_def)
  then obtain v where "serialize_side r = Inr v"
    using emap_member [OF _ assms(3)] by fastforce
  moreover have "rules_ok (side, r)" using assms(2,3) by (auto simp: sides_ok_def list_all_iff)
  ultimately show ?thesis
    by (auto simp: serialize_side_def rules_ok_def serialize_group_tree split: option.splits if_splits)
qed

lemma limits_depth:
  assumes "collect_limit_errors df = []" "(side, r) \<in> set (df_sides df)"
  shows "condition_depth (sd_entry r) \<le> 5 \<and> (case sd_exit r of None \<Rightarrow> True | Some g \<Rightarrow> condition_depth g \<le> 5)"
proof -
  have fn: "first_nonempty xss = [] \<longleftrightarrow> (\<forall>xs \<in> set xss. xs = [])" for xss :: "errors list"
    by (induction xss) auto
  have "side_depth_error 5 (side, r) = []"
    using assms fn by (auto simp: collect_limit_errors_def)
  then show ?thesis
    by (auto simp: side_depth_error_def depth_error_def split: list.splits option.splits if_splits)
qed

text \<open>
  C4. What a valid strategy is: it has a name, declared parameters with values they accept, known
  timeframes, risk numbers that are not zero or negative where the model needs them, only the sides long
  and short, and condition trees in which every operator is known and has its operands, no group is empty
  and no tree is deeper than five; the counts stay within the limits.
\<close>

theorem valid_strategy_well_formed:
  assumes "parse_document catalog json yaml raw overrides = Inr r" "vr_valid r"
  shows "\<exists>df. vr_definition r = Some df \<and> definition_ok df \<and> vr_errors r = [] \<and>
           length (df_parameters df) \<le> 20 \<and> length (df_indicators df) \<le> 20 \<and> length (df_features df) \<le> 20 \<and>
           (\<forall>(side, rules) \<in> set (df_sides df). condition_depth (sd_entry rules) \<le> 5 \<and>
              (case sd_exit rules of None \<Rightarrow> True | Some g \<Rightarrow> condition_depth g \<le> 5))"
  using assms
proof (rule parse_documentE)
  fix data df
  assume d: "parse_data catalog data overrides = Inr (df, [])" and f: "finish catalog df = Inr r"
  from f assms(2) show ?thesis
  proof (rule finishE)
    assume l: "collect_limit_errors df = []" and "vr_definition r = Some df" "vr_errors r = []"
    then show ?thesis
      using parse_data_ok [OF d] limits_depth [OF l]
      by (fastforce simp: collect_limit_errors_def limit_error_def split: if_splits)
  qed
qed

text \<open>
  A \<open>not\<close> group is never accepted: whatever else a document holds, when the entry or the exit tree of one of
  its sides contains a \<open>not\<close> group, the parser does not return a valid result; it raises, or it reports errors.
  (The serializer appends the child of the group to a dict.)
\<close>

theorem not_groups_never_validate:
  assumes "load json yaml raw = (Some data, [])" "parse_data catalog data overrides = Inr (df, [])"
    and "(side, rules) \<in> set (df_sides df)"
    and "\<not> no_not (sd_entry rules) \<or> (\<exists>g. sd_exit rules = Some g \<and> \<not> no_not g)"
  shows "case parse_document catalog json yaml raw overrides of Inl e \<Rightarrow> True | Inr r \<Rightarrow> \<not> vr_valid r"
proof (cases "parse_document catalog json yaml raw overrides")
  case (Inr r)
  have "\<not> vr_valid r"
  proof
    assume v: "vr_valid r"
    have "finish catalog df = Inr r" using Inr by (simp add: parse_document_def assms(1,2))
    then obtain doc where "serialize df = Inr doc" using v by (rule finishE)
    then show False
      using serialize_sides_no_not [OF _ _ assms(3)] parse_data_ok [OF assms(2)] assms(4)
      by (auto simp: definition_ok_def)
  qed
  then show ?thesis using Inr by simp
qed simp

text \<open>The loop that collects columns keeps what it has and adds what it meets.\<close>

lemma set_fold_add_column: "set (fold add_column cs cols) = set cols \<union> set cs"
  by (induction cs arbitrary: cols) (auto simp: add_column_def)

definition column_operand :: "Operand \<Rightarrow> bool" where
  "column_operand o' \<longleftrightarrow> od_kind o' \<in> {''field'', ''indicator'', ''feature'', ''column''}"

definition rule_conditions :: "SideRules \<Rightarrow> Condition list" where
  "rule_conditions r = visit_conditions (sd_entry r) @ (case sd_exit r of None \<Rightarrow> [] | Some g \<Rightarrow> visit_conditions g)"


text \<open>
  C23. Declared indicators can be computed: in a valid strategy the names of the indicators are distinct, none
  hides a price field, and the catalog supports the column each of them stands for.
\<close>

theorem declared_indicators_supported:
  assumes "registry_consistent by_name handled"
    and "parse_document (unified_catalog by_name handled) json yaml raw overrides = Inr r" "vr_valid r"
  shows "\<exists>df. vr_definition r = Some df \<and> indicators_ok (unified_catalog by_name handled) (df_indicators df)"
proof -
  have lawful: "indicator_capabilities (unified_catalog by_name handled)"
    by (rule indicator_capabilities.intro) (use unified_resolved_supported [OF assms(1)] in \<open>simp add: unified_catalog_def\<close>)
  obtain data df where d: "parse_data (unified_catalog by_name handled) data overrides = Inr (df, [])"
    and f: "finish (unified_catalog by_name handled) df = Inr r" using assms(2,3) by (rule parse_documentE)
  from d show ?thesis
  proof (rule parse_dataE)
    assume "parse_indicators (unified_catalog by_name handled) (get_key data ''indicators'' (PList [])) (df_resolved_params df)
        (df_timeframes df) = (df_indicators df, [])"
    then show ?thesis
      using indicator_capabilities.parse_indicators_clean [OF lawful] f assms(3) by (auto elim: finishE)
  qed
qed

section \<open>The normalized form\<close>

text \<open>The operand is read back with the same value: its text names the same column, or it is a literal.\<close>

definition reads_back :: "name_env \<Rightarrow> Operand \<Rightarrow> bool" where
  "reads_back env o' \<longleftrightarrow> (\<forall>path. \<exists>p. parse_operand env (od_value o') path = (p, []) \<and> od_value p = od_value o')"

definition condition_reads_back :: "name_env \<Rightarrow> Condition \<Rightarrow> bool" where
  "condition_reads_back env c \<longleftrightarrow>
     reads_back env (cn_left c) \<and> (case cn_right c of None \<Rightarrow> True | Some o' \<Rightarrow> reads_back env o')"

lemma operators_stripped: "op \<in> set (BINARY_OPERATORS @ UNARY_OPERATORS) \<Longrightarrow> str_strip op = op"
proof -
  have "list_all (\<lambda>op. str_strip op = op) (BINARY_OPERATORS @ UNARY_OPERATORS)" by code_simp
  then show "op \<in> set (BINARY_OPERATORS @ UNARY_OPERATORS) \<Longrightarrow> str_strip op = op" by (simp only: list_all_iff)
qed

definition condition_entries :: "Condition \<Rightarrow> (string \<times> pyval) list" where
  "condition_entries c =
     [(''left'', od_value (cn_left c)), (''operator'', PStr (cn_operator c))]
     @ (case cn_right c of None \<Rightarrow> [] | Some r \<Rightarrow> [(''right'', od_value r)])"

lemma serialize_condition_entries: "serialize_condition c = PDict (condition_entries c)"
  by (simp add: serialize_condition_def condition_entries_def)

lemma condition_entries_lookup [simp]:
  "map_of (condition_entries c) ''all'' = None" "map_of (condition_entries c) ''any'' = None"
  "map_of (condition_entries c) ''not'' = None" "get_key (condition_entries c) ''left'' d = od_value (cn_left c)"
  "get_key (condition_entries c) ''operator'' d = PStr (cn_operator c)"
  "cn_right c = Some r \<Longrightarrow> get_key (condition_entries c) ''right'' d = od_value r"
  by (simp_all add: condition_entries_def get_key_def split: option.splits)

lemma condition_reads:
  assumes "condition_ok c" "condition_reads_back env c"
  shows "\<exists>c'. parse_condition env (condition_entries c) path = (c', []) \<and>
              serialize_condition c' = serialize_condition c \<and> condition_ok c'"
proof -
  have op: "str_strip (cn_operator c) = cn_operator c"
    using assms(1) by (auto simp: condition_ok_def intro!: operators_stripped)
  obtain l where l: "parse_operand env (od_value (cn_left c)) (path @ ''.left'') = (l, [])" "od_value l = od_value (cn_left c)"
    using assms(2) by (auto simp: condition_reads_back_def reads_back_def)
  show ?thesis
  proof (cases "cn_right c")
    case None
    then have "cn_operator c \<in> set UNARY_OPERATORS" "cn_operator c \<notin> set BINARY_OPERATORS"
      using assms(1) by (auto simp: condition_ok_def)
    then show ?thesis
      using l None op by (simp add: parse_condition_def Let_def bind_checked_clean condition_ok_def serialize_condition_def)
  next
    case (Some r)
    then obtain r' where r': "parse_operand env (od_value r) (path @ ''.right'') = (r', [])" "od_value r' = od_value r"
      using assms(2) by (auto simp: condition_reads_back_def reads_back_def)
    have "cn_operator c \<in> set BINARY_OPERATORS" using assms(1) Some by (auto simp: condition_ok_def)
    then show ?thesis
      using l r' Some op by (simp add: parse_condition_def Let_def bind_checked_clean condition_ok_def serialize_condition_def)
  qed
qed

lemma trees_read:
  assumes "\<And>g path. g \<in> set gs \<Longrightarrow> \<exists>g'. parse_group env (tree_doc g) path = (g', []) \<and> tree_ok g' \<and> no_not g' \<and> tree_doc g' = tree_doc g"
  shows "\<exists>gs'. parse_groups env (map tree_doc gs) path i = (gs', []) \<and> list_all tree_ok gs' \<and> list_all no_not gs' \<and>
               map tree_doc gs' = map tree_doc gs"
  using assms
proof (induction gs arbitrary: i)
  case (Cons g gs)
  obtain g' where g': "parse_group env (tree_doc g) (item_path path i) = (g', [])" "tree_ok g'" "no_not g'" "tree_doc g' = tree_doc g"
    using Cons.prems by (meson list.set_intros(1))
  obtain gs' where "parse_groups env (map tree_doc gs) path (Suc i) = (gs', [])" "list_all tree_ok gs'" "list_all no_not gs'"
      "map tree_doc gs' = map tree_doc gs"
    using Cons.IH [of "Suc i"] Cons.prems by (metis list.set_intros(2))
  then show ?case using g' by (intro exI [of _ "g' # gs'"]) (simp add: bind_checked_clean)
qed simp

lemma tree_reads:
  assumes "tree_ok g" "no_not g" "list_all (condition_reads_back env) (visit_conditions g)"
  shows "\<exists>g'. parse_group env (tree_doc g) path = (g', []) \<and> tree_ok g' \<and> no_not g' \<and> tree_doc g' = tree_doc g"
  using assms
proof (induction g arbitrary: path)
  case (ConditionGroup kind children cond)
  show ?case
  proof (cases "kind = ''condition''")
    case True
    then obtain c where c: "cond = Some c" "children = []" "condition_ok c"
      using ConditionGroup.prems(1) by (auto split: option.splits)
    then obtain c' where "parse_condition env (condition_entries c) path = (c', [])"
        "serialize_condition c' = serialize_condition c" "condition_ok c'"
      using condition_reads ConditionGroup.prems(3) by fastforce
    then show ?thesis using True c
      by (intro exI [of _ "ConditionGroup ''condition'' [] (Some c')"])
        (simp add: parse_group.simps serialize_condition_entries bind_checked_clean)
  next
    case False
    then have kind: "kind = ''all'' \<or> kind = ''any''" and cond: "cond = None" "children \<noteq> []"
      using ConditionGroup.prems(1,2) by (auto split: if_splits)
    have "\<exists>g'. parse_group env (tree_doc c) path = (g', []) \<and> tree_ok g' \<and> no_not g' \<and> tree_doc g' = tree_doc c"
      if "c \<in> set children" for c path
    proof (rule ConditionGroup.IH [OF that])
      show "tree_ok c" "no_not c" using ConditionGroup.prems(1,2) that by (auto simp: list_all_iff)
      show "list_all (condition_reads_back env) (visit_conditions c)"
        using ConditionGroup.prems(3) that by (auto simp: list_all_iff)
    qed
    from trees_read [OF this, where path = "path @ ''.'' @ kind" and i = 0] obtain cs where
      cs: "parse_groups env (map tree_doc children) (path @ ''.'' @ kind) 0 = (cs, [])" "list_all tree_ok cs" "list_all no_not cs"
        "map tree_doc cs = map tree_doc children" by blast
    obtain x xs where xs: "map tree_doc children = x # xs" using cond(2) by (cases children) auto
    have "cs \<noteq> []" using cs(4) xs by auto
    then show ?thesis using kind cond cs xs
      by (intro exI [of _ "ConditionGroup kind cs None"]) (auto simp: parse_group.simps bind_checked_clean)
  qed
qed


text \<open>A number the document does not give is zero; one given as a float is taken, or refused below zero.\<close>

lemma float_of_int_0: "float_of_int 0 = Inr 0"
  by code_simp

lemma risk_number_absent: "map_of kvs key = None \<Longrightarrow> risk_number params kvs key path = Inr (0, [])"
  by (simp add: risk_number_def get_key_def positive_float_def ok_def float_of_int_0)

lemma risk_number_float:
  "map_of kvs key = Some (PFloat x) \<Longrightarrow> \<exists>y es. risk_number params kvs key path = Inr (y, es)"
  by (simp add: risk_number_def get_key_def positive_float_def ok_def fail_def)

definition stop_entries :: "RiskSpec \<Rightarrow> (string \<times> pyval) list" where
  "stop_entries r = [(''type'', PStr (rk_stop_loss_type r)), (''indicator'', PStr (rk_stop_indicator r)),
     (''multiplier'', PFloat (rk_stop_multiplier r))]"

definition target_entries :: "RiskSpec \<Rightarrow> (string \<times> pyval) list" where
  "target_entries r = [(''type'', PStr (rk_take_profit_type r)), (''indicator'', PStr (rk_take_profit_indicator r)),
     (''multiplier'', PFloat (rk_take_profit_multiplier r))]"

lemma build_serialized_risk:
  "\<exists>spec es. build_risk_spec catalog params aliases (stop_entries r) (target_entries r) = Inr (spec, es) \<and>
     rk_stop_pct spec = 0 \<and> rk_take_profit_pct spec = 0 \<and> rk_risk_reward_ratio spec = 0 \<and>
     rk_stop_loss_type spec = py_lower (rk_stop_loss_type r) \<and> rk_take_profit_type spec = py_lower (rk_take_profit_type r)"
proof -
  have multipliers: "map_of (stop_entries r) ''multiplier'' = Some (PFloat (rk_stop_multiplier r))"
      "map_of (target_entries r) ''multiplier'' = Some (PFloat (rk_take_profit_multiplier r))"
    by (simp_all add: stop_entries_def target_entries_def)
  obtain sm es1 where 1: "risk_number params (stop_entries r) ''multiplier'' ''$.risk.stop_loss.multiplier'' = Inr (sm, es1)"
    using risk_number_float [where kvs = "stop_entries r"] by (metis multipliers(1))
  obtain tm es2 where 2: "risk_number params (target_entries r) ''multiplier'' ''$.risk.take_profit.multiplier'' = Inr (tm, es2)"
    using risk_number_float [where kvs = "target_entries r"] by (metis multipliers(2))
  have none: "map_of (stop_entries r) ''pct'' = None" "map_of (target_entries r) ''pct'' = None"
      "map_of (target_entries r) ''ratio'' = None" by (simp_all add: stop_entries_def target_entries_def)
  have types: "get_key (stop_entries r) ''type'' d = PStr (rk_stop_loss_type r)"
      "get_key (target_entries r) ''type'' d = PStr (rk_take_profit_type r)" for d
    by (simp_all add: stop_entries_def target_entries_def get_key_def)
  show ?thesis by (simp add: build_risk_spec_def Let_def 1 2 types none risk_number_absent)
qed

text \<open>
  The normalized form of a strategy with a percentage stop, a percentage target or a risk-reward target is
  not a strategy: the serializer drops the percentage and the ratio, and the parser refuses the section it wrote.
\<close>

theorem normalized_loses_percentage:
  assumes "rk_stop_loss_type r = ''fixed_pct'' \<or> rk_take_profit_type r \<in> {''fixed_pct'', ''risk_reward''}"
  shows "\<exists>x es. parse_risk catalog (serialize_risk r) indicators params = Inr (x, es) \<and> es \<noteq> []"
proof -
  obtain spec es where b: "build_risk_spec catalog params (alias_columns indicators) (stop_entries r) (target_entries r) = Inr (spec, es)"
    and z: "rk_stop_pct spec = 0" "rk_take_profit_pct spec = 0" "rk_risk_reward_ratio spec = 0"
    and t: "rk_stop_loss_type spec = py_lower (rk_stop_loss_type r)" "rk_take_profit_type spec = py_lower (rk_take_profit_type r)"
    using build_serialized_risk by blast
  have lower: "py_lower ''fixed_pct'' = ''fixed_pct''" "py_lower ''risk_reward'' = ''risk_reward''" by code_simp+
  have "validate_required_values spec \<noteq> []"
    using assms lower by (auto simp: validate_required_values_def require_positive_def z t)
  then show ?thesis
    by (simp add: parse_risk_def serialize_risk_def risk_section_def get_key_def ok_def b
        flip: stop_entries_def target_entries_def)
qed


section \<open>Examples\<close>

text \<open>A document with a parameter, an indicator whose period refers to it, a feature, a stop and both trees.\<close>

definition leaf_doc :: "string \<Rightarrow> string \<Rightarrow> pyval \<Rightarrow> pyval" where
  "leaf_doc left op right = PDict [(''left'', PStr left), (''operator'', PStr op), (''right'', right)]"

definition sample_document :: "(string \<times> pyval) list" where
  "sample_document = [
     (''schema_version'', PStr ''2.0''), (''name'', PStr ''trend''),
     (''parameters'', PDict [(''n'', PDict [(''type'', PStr ''int''), (''default'', PInt 20), (''minimum'', PInt 5)])]),
     (''indicators'', PList [PDict [(''name'', PStr ''fast''), (''type'', PStr ''sma''), (''period'', PStr ''{{ n }}'')]]),
     (''features'', PList [PDict [(''name'', PStr ''top''), (''type'', PStr ''rolling_max''), (''source'', PStr ''high''),
                                  (''window'', PInt 10), (''shift'', PInt 1)]]),
     (''risk'', PDict [(''stop_loss'', PDict [(''type'', PStr ''fixed_pct''), (''pct'', PInt 2)])]),
     (''sides'', PDict [(''long'', PDict [
        (''entry'', PDict [(''condition'', PDict [(''all'', PList [
            leaf_doc ''close'' ''crosses_above'' (PStr ''fast''), leaf_doc ''close'' ''>'' (PStr ''top'')])])]),
        (''exit'', PDict [(''condition'', leaf_doc ''close'' ''<'' (PStr ''fast''))])])])]"

definition no_json :: "string \<Rightarrow> pyval option" where
  "no_json text = None"

definition no_yaml :: "string \<Rightarrow> string + pyval" where
  "no_yaml text = Inl ''no document''"

lemma sample_accepted:
  "\<exists>r df. parse_document (unified_catalog [] []) no_json no_yaml (Inr sample_document) [(''n'', PInt 50)] = Inr r \<and> vr_valid r \<and>
          vr_definition r = Some df \<and> map fst (df_sides df) = [''long''] \<and>
          map is_concrete_name (df_indicators df) = [''sma_50'']"
proof -
  have "case parse_document (unified_catalog [] []) no_json no_yaml (Inr sample_document) [(''n'', PInt 50)] of
          Inl _ \<Rightarrow> False
        | Inr r \<Rightarrow> vr_valid r \<and> (case vr_definition r of None \<Rightarrow> False | Some df \<Rightarrow>
            map fst (df_sides df) = [''long''] \<and> map is_concrete_name (df_indicators df) = [''sma_50''])"
    by code_simp
  then show ?thesis by (simp split: sum.splits option.splits)
qed


lemma valid_strategy_well_formed_witness:
  "\<exists>r df. parse_document (unified_catalog [] []) no_json no_yaml (Inr sample_document) [(''n'', PInt 50)] = Inr r \<and> vr_valid r \<and>
     vr_definition r = Some df \<and> definition_ok df \<and> df_sides df \<noteq> []"
proof -
  obtain r df where "parse_document (unified_catalog [] []) no_json no_yaml (Inr sample_document) [(''n'', PInt 50)] = Inr r"
    "vr_valid r" "vr_definition r = Some df" "map fst (df_sides df) = [''long'']" using sample_accepted by metis
  moreover from this(1,2) have "\<exists>df. vr_definition r = Some df \<and> definition_ok df" using valid_strategy_well_formed by blast
  ultimately show ?thesis by auto
qed

lemma declared_indicators_supported_witness:
  "\<exists>r df. parse_document (unified_catalog [] []) no_json no_yaml (Inr sample_document) [(''n'', PInt 50)] = Inr r \<and> vr_valid r \<and>
     vr_definition r = Some df \<and> indicators_ok (unified_catalog [] []) (df_indicators df) \<and> df_indicators df \<noteq> []"
proof -
  obtain r df where "parse_document (unified_catalog [] []) no_json no_yaml (Inr sample_document) [(''n'', PInt 50)] = Inr r"
    "vr_valid r" "vr_definition r = Some df" "map is_concrete_name (df_indicators df) = [''sma_50'']" using sample_accepted by metis
  moreover have "registry_consistent [] []" by (simp add: registry_consistent_def)
  note declared_indicators_supported [OF this calculation(1,2)]
  ultimately show ?thesis by auto
qed


text \<open>A document whose entry negates a condition.\<close>

definition negated_document :: "(string \<times> pyval) list" where
  "negated_document = [
     (''schema_version'', PStr ''2.0''), (''name'', PStr ''dip''),
     (''sides'', PDict [(''long'', PDict [
        (''entry'', PDict [(''condition'', PDict [(''not'', leaf_doc ''close'' ''>'' (PStr ''open''))])])])])]"

lemma not_groups_never_validate_witness:
  "\<exists>df rules. parse_data strategy_catalog negated_document [] = Inr (df, []) \<and> (''long'', rules) \<in> set (df_sides df) \<and>
     \<not> no_not (sd_entry rules) \<and>
     (case parse_document strategy_catalog no_json no_yaml (Inr negated_document) [] of Inl e \<Rightarrow> True | Inr r \<Rightarrow> \<not> vr_valid r) \<and>
     parse_document strategy_catalog no_json no_yaml (Inr negated_document) [] = Inl AttributeError"
proof -
  have "case parse_data strategy_catalog negated_document [] of Inl _ \<Rightarrow> False | Inr (df, es) \<Rightarrow>
          es = [] \<and> (case df_sides df of [] \<Rightarrow> False | (side, rules) # _ \<Rightarrow> side = ''long'' \<and> \<not> no_not (sd_entry rules))"
    by code_simp
  then obtain df side rules rest where d: "parse_data strategy_catalog negated_document [] = Inr (df, [])"
    and s: "df_sides df = (side, rules) # rest" "side = ''long''" "\<not> no_not (sd_entry rules)"
    by (auto split: sum.splits prod.splits list.splits)
  have m: "(''long'', rules) \<in> set (df_sides df)" using s by simp
  have "load no_json no_yaml (Inr negated_document) = (Some negated_document, [])" by (simp add: load_def)
  then have v: "case parse_document strategy_catalog no_json no_yaml (Inr negated_document) [] of
      Inl e \<Rightarrow> True | Inr r \<Rightarrow> \<not> vr_valid r"
    using not_groups_never_validate [OF _ d m] s(3) by blast
  have "parse_document strategy_catalog no_json no_yaml (Inr negated_document) [] = Inl AttributeError" by code_simp
  then show ?thesis using d m s(3) v by blast
qed

definition plain_env :: name_env where
  "plain_env = \<lparr>ne_catalog = strategy_catalog, ne_aliases = [(''fast'', ''sma_20'')], ne_sources = [], ne_features = [], ne_params = []\<rparr>"

definition read_tree :: ConditionGroup where
  "read_tree = fst (parse_group plain_env (PDict [(''any'', PList [
     leaf_doc ''close'' ''>'' (PStr ''fast''), leaf_doc ''volume'' ''>='' (PInt 100)])]) ''$'')"

lemma plain_operands:
  "parse_operand plain_env (PStr ''close'') path = (mk_operand ''field'' (PStr ''close'') ''close'' [], [])"
  "parse_operand plain_env (PStr ''volume'') path = (mk_operand ''field'' (PStr ''volume'') ''volume'' [], [])"
  "parse_operand plain_env (PStr ''sma_20'') path = (mk_operand ''column'' (PStr ''sma_20'') ''sma_20'' [], [])"
  "parse_operand plain_env (PInt 100) path = (mk_operand ''literal'' (PInt 100) ''100'' [], [])"
  by code_simp+


lemma normalized_loses_percentage_witness:
  "rk_stop_loss_type (default_risk\<lparr>rk_stop_loss_type := ''fixed_pct'', rk_stop_pct := flr 2\<rparr>) = ''fixed_pct'' \<and>
   (\<exists>x es. parse_risk strategy_catalog (serialize_risk (default_risk\<lparr>rk_stop_loss_type := ''fixed_pct'', rk_stop_pct := flr 2\<rparr>)) [] [] =
      Inr (x, es) \<and> es \<noteq> [])"
  using normalized_loses_percentage [of "default_risk\<lparr>rk_stop_loss_type := ''fixed_pct'', rk_stop_pct := flr 2\<rparr>" strategy_catalog "[]" "[]"]
  by simp

end
