(* ===== verification/ParamGrid.thy ===== *)
theory ParamGrid
  imports BacktestRunner
begin

text \<open>
  The parameter grid of an optimisation: the entity \<open>param_range.py\<close> and the functions of
  \<open>grid_search_optimizer.py\<close> that read the declared ranges and list the combinations to test.

    - A computation that may not return has type \<open>'a option\<close>, and \<open>None\<close> is the loop that does not end:
      \<open>ParamRange.values\<close> adds the step until it passes the maximum, which never happens when the sum
      is rounded back to the value it started from.
    - A combination is a dict from names to numbers in the order of the ranges.
    - \<open>random.randint\<close> is an argument: \<open>draw k hi\<close> is the answer to the call number \<open>k\<close> with the bounds 0 and \<open>hi\<close>.
\<close>

section \<open>Ranges\<close>

record ParamRange =
  pr_min :: flt
  pr_max :: flt
  pr_step :: flt

partial_function (option) values_from :: "flt \<Rightarrow> flt \<Rightarrow> flt \<Rightarrow> flt list option" where
  "values_from stop step current =
     (if current \<le> stop
      then Option.bind (values_from stop step (current + step)) (\<lambda>vs. Some (current # vs))
      else Some [])"

declare values_from.simps [code]

definition range_stop :: "ParamRange \<Rightarrow> flt" where
  "range_stop r = pr_max r + pr_step r * flr (1 / 1000)"

definition range_values :: "ParamRange \<Rightarrow> flt list option" where
  "range_values r =
     (if pr_step r \<le> 0 then Some (if pr_min r \<le> pr_max r then [pr_min r] else [])
      else values_from (range_stop r) (pr_step r) (pr_min r))"

text \<open>\<open>math.floor(x)\<close>.\<close>

fun py_floor :: "flt \<Rightarrow> int result" where
  "py_floor (Fin q) = Inr \<lfloor>q\<rfloor>"
| "py_floor NaN = raise (ValueError ''cannot convert float NaN to integer'')"
| "py_floor _ = raise OverflowError"

definition range_steps :: "ParamRange \<Rightarrow> int result" where
  "range_steps r = ebind (fdiv (pr_max r - pr_min r) (pr_step r)) py_floor"

definition range_count :: "ParamRange \<Rightarrow> int result" where
  "range_count r =
     (if pr_step r \<le> 0 then Inr (if pr_min r \<le> pr_max r then 1 else 0)
      else if pr_max r < pr_min r then Inr 0
      else ebind (range_steps r) (\<lambda>n. Inr (n + 1)))"

text \<open>\<open>random_values(1)\<close>, with the number that \<open>randint\<close> drew; \<open>None\<close> is the empty list.\<close>

definition random_value :: "(int \<Rightarrow> int) \<Rightarrow> ParamRange \<Rightarrow> flt option result" where
  "random_value draw r =
     (if pr_step r \<le> 0 then Inr (if pr_min r \<le> pr_max r then Some (pr_min r) else None)
      else ebind (range_steps r) (\<lambda>max_steps.
             if max_steps < 0 then Inr None
             else ebind (float_of_int (draw max_steps)) (\<lambda>k. Inr (Some (pr_min r + k * pr_step r)))))"

section \<open>Reading the ranges\<close>

type_synonym ranges = "(string \<times> ParamRange) list"

definition parse_range :: "string \<times> pyval \<Rightarrow> ranges \<Rightarrow> ranges result" where
  "parse_range ns ranges =
     (case ns of (name, spec) \<Rightarrow>
        (case spec of
           PDict kvs \<Rightarrow>
             ebind (py_float (case map_of kvs ''step'' of Some v \<Rightarrow> v | None \<Rightarrow> PInt 1)) (\<lambda>step.
             if step \<le> 0
             then raise (ValueError (''ParamRange step for '' @ [CHR 39] @ name @ [CHR 39] @ '' must be positive, got '' @ float_repr step))
             else
             ebind (py_float (case map_of kvs ''min'' of Some v \<Rightarrow> v | None \<Rightarrow> PInt 0)) (\<lambda>minimum.
             ebind (py_float (case map_of kvs ''max'' of Some v \<Rightarrow> v | None \<Rightarrow> PInt 0)) (\<lambda>maximum.
             if maximum < minimum
             then raise (ValueError (''ParamRange min for '' @ [CHR 39] @ name @ [CHR 39] @ '' must be <= max (got min='' @
                           float_repr minimum @ '', max='' @ float_repr maximum @ '')''))
             else Inr (ranges @ [(name, \<lparr>pr_min = minimum, pr_max = maximum, pr_step = step\<rparr>)]))))
         | _ \<Rightarrow> Inr ranges))"

definition parse_ranges :: "pyval \<Rightarrow> ranges result" where
  "parse_ranges raw = (case raw of PDict kvs \<Rightarrow> efold parse_range kvs [] | _ \<Rightarrow> raise AttributeError)"

section \<open>Combinations\<close>

type_synonym combination = "(string \<times> pyval) list"

text \<open>\<open>x == int(x)\<close>.\<close>

definition is_whole :: "flt \<Rightarrow> bool result" where
  "is_whole x = ebind (py_trunc x) (\<lambda>n. Inr (x = Fin (of_int n)))"

definition grid_value :: "ParamRange \<Rightarrow> flt \<Rightarrow> pyval result" where
  "grid_value r v =
     ebind (is_whole (pr_step r)) (\<lambda>s.
     if s then ebind (is_whole v) (\<lambda>w.
            if w then ebind (py_trunc v) (\<lambda>n. Inr (PInt n)) else Inr (PFloat v))
     else Inr (PFloat v))"

definition name_combination :: "ranges \<Rightarrow> flt list \<Rightarrow> combination result" where
  "name_combination ranges combo =
     emap (\<lambda>((name, r), v). ebind (grid_value r v) (\<lambda>x. Inr (name, x))) (zip ranges combo)"

definition generate_combinations :: "ranges \<Rightarrow> combination list result option" where
  "generate_combinations ranges =
     (if ranges = [] then Some (Inr [[]])
      else map_option (\<lambda>values. emap (name_combination ranges) (product_lists values))
             (those (map (\<lambda>(_, r). range_values r) ranges)))"

section \<open>Random combinations\<close>

definition MAX_COMBINATIONS :: int where
  "MAX_COMBINATIONS = 100"

text \<open>One random combination from the calls \<open>k\<close>, \<open>k + 1\<close>, ... of \<open>randint\<close>; \<open>None\<close> when a range has no value.\<close>

fun draw_combination :: "(nat \<Rightarrow> int \<Rightarrow> int) \<Rightarrow> nat \<Rightarrow> ranges \<Rightarrow> combination option result" where
  "draw_combination draw k [] = Inr (Some [])"
| "draw_combination draw k ((name, r) # ranges) =
     ebind (random_value (draw k) r) (\<lambda>v.
       case v of
         None \<Rightarrow> Inr None
       | Some v \<Rightarrow>
           ebind (grid_value r v) (\<lambda>x.
           ebind (draw_combination draw (Suc k) ranges) (\<lambda>rest.
             Inr (map_option (\<lambda>c. (name, x) # c) rest))))"

text \<open>
  The attempts: the flag tells that the function returned from inside the loop.  Two keys are equal when the
  combinations are, since the names are the same.
\<close>

fun attempt :: "(nat \<Rightarrow> int \<Rightarrow> int) \<Rightarrow> ranges \<Rightarrow> int \<Rightarrow> nat \<Rightarrow> nat \<Rightarrow> combination list \<Rightarrow> (bool \<times> combination list) result" where
  "attempt draw ranges target 0 k combos = Inr (False, combos)"
| "attempt draw ranges target (Suc n) k combos =
     (if target \<le> int (length combos) then Inr (False, combos)
      else ebind (draw_combination draw k ranges) (\<lambda>c.
             case c of
               None \<Rightarrow> Inr (True, combos)
             | Some c \<Rightarrow> attempt draw ranges target n (k + length ranges)
                           (if c \<in> set combos then combos else combos @ [c])))"

fun fill :: "int \<Rightarrow> combination list \<Rightarrow> combination list \<Rightarrow> combination list" where
  "fill target [] combos = combos"
| "fill target (c # cs) combos =
     (if c \<in> set combos then fill target cs combos
      else if target \<le> int (length combos) + 1 then combos @ [c]
      else fill target cs (combos @ [c]))"

definition grid_size :: "ranges \<Rightarrow> int result" where
  "grid_size ranges = efold (\<lambda>(_, r) n. ebind (range_count r) (\<lambda>m. Inr (n * max 0 m))) ranges 1"

definition generate_random_combinations :: "(nat \<Rightarrow> int \<Rightarrow> int) \<Rightarrow> ranges \<Rightarrow> int \<Rightarrow> combination list result option" where
  "generate_random_combinations draw ranges count =
     (if ranges = [] then Some (Inr [[]])
      else case grid_size ranges of
        Inl e \<Rightarrow> Some (Inl e)
      | Inr max_unique \<Rightarrow>
          if max_unique \<le> 0 then Some (Inr [])
          else let target = min (min count MAX_COMBINATIONS) max_unique
               in (case attempt draw ranges target (nat (max 100 (target * 20))) 0 [] of
                     Inl e \<Rightarrow> Some (Inl e)
                   | Inr (True, combos) \<Rightarrow> Some (Inr combos)
                   | Inr (False, combos) \<Rightarrow>
                       if int (length combos) < target \<and> max_unique \<le> MAX_COMBINATIONS
                       then map_option (\<lambda>cs. ebind cs (\<lambda>cs. Inr (fill target cs combos))) (generate_combinations ranges)
                       else Some (Inr combos)))"

end
