(* ===== verification/OptimizationJobs.thy ===== *)
theory OptimizationJobs
  imports PyVal "HOL-Library.AList"
begin

text \<open>
  Optimisation jobs: the entities \<open>optimization_result.py\<close>, \<open>walk_forward_fold.py\<close>, \<open>walk_forward_result.py\<close>
  and \<open>optimization_job.py\<close>, and the store \<open>in_memory_optimization_job_manager.py\<close>.

    - A job is named by its identifier, in the dicts of the manager and wherever the code holds the object.
    - \<open>update(job, **updates)\<close> sets the fields it is given: an update is the list of them.
    - Times are microseconds.  The clock, the fresh identifier and whether a loop of asyncio is running are arguments.
    - \<open>job_step\<close> interleaves the worker thread of a job with requests to cancel it: cancelling the task does
      not stop the thread that \<open>asyncio.to_thread\<close> started.
\<close>

section \<open>Entities\<close>

type_synonym metadata = "(string \<times> pyval) list"

record OptimizationResult =
  or_rank :: nat
  or_params :: metadata
  or_sharpe_ratio :: flt
  or_sortino_ratio :: flt
  or_total_return :: flt
  or_max_drawdown :: flt
  or_profit_factor :: flt
  or_win_rate :: flt
  or_calmar_ratio :: flt
  or_total_trades :: int
  or_error :: "string option"

definition mk_result :: "metadata \<Rightarrow> string option \<Rightarrow> OptimizationResult" where
  "mk_result params err = \<lparr>or_rank = 0, or_params = params, or_sharpe_ratio = 0, or_sortino_ratio = 0, or_total_return = 0,
     or_max_drawdown = 0, or_profit_factor = 0, or_win_rate = 0, or_calmar_ratio = 0, or_total_trades = 0, or_error = err\<rparr>"

record WalkForwardFold =
  wf_fold_index :: nat
  wf_train_start :: string
  wf_train_end :: string
  wf_test_start :: string
  wf_test_end :: string
  wf_train_bars :: int
  wf_test_bars :: int
  wf_best_params :: metadata
  wf_is_sharpe :: flt
  wf_is_total_return :: flt
  wf_oos_sharpe :: flt
  wf_oos_total_return :: flt
  wf_oos_max_drawdown :: flt
  wf_oos_win_rate :: flt
  wf_oos_trades :: int
  wf_param_sensitivity :: "(string \<times> flt) list"
  wf_error :: string
  wf_skipped :: bool

definition mk_fold :: "nat \<Rightarrow> WalkForwardFold" where
  "mk_fold i = \<lparr>wf_fold_index = i, wf_train_start = '''', wf_train_end = '''', wf_test_start = '''', wf_test_end = '''',
     wf_train_bars = 0, wf_test_bars = 0, wf_best_params = [], wf_is_sharpe = 0, wf_is_total_return = 0, wf_oos_sharpe = 0,
     wf_oos_total_return = 0, wf_oos_max_drawdown = 0, wf_oos_win_rate = 0, wf_oos_trades = 0, wf_param_sensitivity = [],
     wf_error = '''', wf_skipped = False\<rparr>"

record WalkForwardResult =
  wr_folds_requested :: nat
  wr_folds_completed :: nat
  wr_folds :: "WalkForwardFold list"
  wr_oos_total_return :: flt
  wr_oos_sharpe :: flt
  wr_oos_max_drawdown :: flt
  wr_oos_win_rate :: flt
  wr_oos_total_trades :: int
  wr_is_oos_correlation :: flt
  wr_stability :: flt
  wr_avg_rank_correlation :: flt
  wr_error :: string

text \<open>The key \<open>walk_forward_result\<close> of the metadata holds an object and has a field of its own.\<close>

record OptimizationJob =
  oj_job_id :: string
  oj_status :: string
  oj_metric :: string
  oj_total_combinations :: int
  oj_combinations_done :: int
  oj_progress_pct :: int
  oj_message :: string
  oj_results :: "OptimizationResult list"
  oj_error :: "string option"
  oj_metadata :: metadata
  oj_walk_forward_result :: "WalkForwardResult option"
  oj_created_at :: int

definition new_job :: "string \<Rightarrow> string \<Rightarrow> metadata \<Rightarrow> int \<Rightarrow> OptimizationJob" where
  "new_job job_id metric md now = \<lparr>oj_job_id = job_id, oj_status = ''queued'', oj_metric = metric, oj_total_combinations = 0,
     oj_combinations_done = 0, oj_progress_pct = 0, oj_message = '''', oj_results = [], oj_error = None, oj_metadata = md,
     oj_walk_forward_result = None, oj_created_at = now\<rparr>"

datatype job_field =
    JStatus string
  | JTotal int
  | JDone int
  | JProgress int
  | JMessage string
  | JResults "OptimizationResult list"
  | JError string
  | JWalkForward WalkForwardResult

type_synonym job_update = "job_field list"

fun set_field :: "job_field \<Rightarrow> OptimizationJob \<Rightarrow> OptimizationJob" where
  "set_field (JStatus s) j = j\<lparr>oj_status := s\<rparr>"
| "set_field (JTotal n) j = j\<lparr>oj_total_combinations := n\<rparr>"
| "set_field (JDone n) j = j\<lparr>oj_combinations_done := n\<rparr>"
| "set_field (JProgress n) j = j\<lparr>oj_progress_pct := n\<rparr>"
| "set_field (JMessage s) j = j\<lparr>oj_message := s\<rparr>"
| "set_field (JResults rs) j = j\<lparr>oj_results := rs\<rparr>"
| "set_field (JError s) j = j\<lparr>oj_error := Some s\<rparr>"
| "set_field (JWalkForward r) j = j\<lparr>oj_walk_forward_result := Some r\<rparr>"

definition update_job :: "job_update \<Rightarrow> OptimizationJob \<Rightarrow> OptimizationJob" where
  "update_job u j = fold set_field u j"

definition TERMINAL :: "string list" where
  "TERMINAL = [''completed'', ''failed'', ''cancelled'']"

definition terminal :: "OptimizationJob \<Rightarrow> bool" where
  "terminal j \<longleftrightarrow> oj_status j \<in> set TERMINAL"

section \<open>The store\<close>

record OptimizationJobManager =
  jm_jobs :: "(string \<times> OptimizationJob) list"
  jm_tasks :: "string list"
  jm_max_jobs :: nat
  jm_ttl :: int

definition new_job_manager :: "int \<Rightarrow> int \<Rightarrow> OptimizationJobManager" where
  "new_job_manager max_jobs ttl_seconds =
     \<lparr>jm_jobs = [], jm_tasks = [], jm_max_jobs = nat (max 1 max_jobs), jm_ttl = 1000000 * max 1 ttl_seconds\<rparr>"

definition drop_job :: "string \<Rightarrow> OptimizationJobManager \<Rightarrow> OptimizationJobManager" where
  "drop_job job_id m = m\<lparr>jm_jobs := AList.delete job_id (jm_jobs m), jm_tasks := removeAll job_id (jm_tasks m)\<rparr>"

definition expired :: "OptimizationJobManager \<Rightarrow> int \<Rightarrow> string list" where
  "expired m now = map fst (filter (\<lambda>(_, j). terminal j \<and> oj_created_at j < now - jm_ttl m) (jm_jobs m))"

definition cleanup_expired :: "int \<Rightarrow> OptimizationJobManager \<Rightarrow> OptimizationJobManager" where
  "cleanup_expired now m = fold drop_job (expired m now) m"

text \<open>\<open>_enforce_max_jobs_locked\<close>: the oldest finished jobs go first, until the store is small enough.\<close>

definition drop_if_full :: "OptimizationJob \<Rightarrow> OptimizationJobManager \<Rightarrow> OptimizationJobManager" where
  "drop_if_full j m =
     (if length (jm_jobs m) \<le> jm_max_jobs m then m else if terminal j then drop_job (oj_job_id j) m else m)"

definition enforce_max_jobs :: "OptimizationJobManager \<Rightarrow> OptimizationJobManager" where
  "enforce_max_jobs m = fold drop_if_full (sort_key oj_created_at (map snd (jm_jobs m))) m"

definition start_job :: "int \<Rightarrow> string \<Rightarrow> bool \<Rightarrow> metadata \<Rightarrow> OptimizationJobManager \<Rightarrow> OptimizationJobManager" where
  "start_job now job_id in_loop params m =
     (let m1 = cleanup_expired now m;
          metric = (case map_of params ''metric'' of Some (PStr s) \<Rightarrow> s | _ \<Rightarrow> ''sharpe_ratio'');
          m2 = (if in_loop then m1\<lparr>jm_tasks := job_id # jm_tasks m1\<rparr> else m1)
      in enforce_max_jobs (m2\<lparr>jm_jobs := AList.update job_id (new_job job_id metric params now) (jm_jobs m2)\<rparr>))"

definition get_job :: "string \<Rightarrow> OptimizationJobManager \<Rightarrow> OptimizationJob option" where
  "get_job job_id m = map_of (jm_jobs m) job_id"

definition store_update :: "string \<Rightarrow> job_update \<Rightarrow> OptimizationJobManager \<Rightarrow> OptimizationJobManager" where
  "store_update job_id u m =
     (case get_job job_id m of
        None \<Rightarrow> m
      | Some j \<Rightarrow> m\<lparr>jm_jobs := AList.update job_id (update_job u j) (jm_jobs m)\<rparr>)"

definition cancelled_by_user :: job_update where
  "cancelled_by_user = [JStatus ''cancelled'', JError ''Cancelled by user'']"

text \<open>\<open>cancel\<close>; the flag tells whether a task was cancelled.\<close>

definition cancel_job :: "string \<Rightarrow> OptimizationJobManager \<Rightarrow> bool \<times> OptimizationJobManager" where
  "cancel_job job_id m =
     (case get_job job_id m of
        None \<Rightarrow> (False, m)
      | Some j \<Rightarrow> if terminal j then (False, m)
                  else (job_id \<in> set (jm_tasks m), store_update job_id cancelled_by_user m))"

section \<open>A job while its worker runs\<close>

record running_job =
  rj_job :: OptimizationJob
  rj_updates :: "job_update list"
  rj_cancelling :: bool

inductive job_step :: "running_job \<Rightarrow> running_job \<Rightarrow> bool" where
  worker: "rj_updates s = u # us \<Longrightarrow> job_step s (s\<lparr>rj_job := update_job u (rj_job s), rj_updates := us\<rparr>)"
| cancel: "\<not> terminal (rj_job s) \<Longrightarrow>
     job_step s (s\<lparr>rj_job := update_job cancelled_by_user (rj_job s), rj_cancelling := True\<rparr>)"
| cancelled: "rj_cancelling s \<Longrightarrow>
     job_step s (s\<lparr>rj_job := update_job cancelled_by_user (rj_job s), rj_cancelling := False\<rparr>)"

inductive_cases job_stepE: "job_step s t"

section \<open>What the store keeps\<close>

definition jobs_ok :: "OptimizationJobManager \<Rightarrow> bool" where
  "jobs_ok m \<longleftrightarrow> distinct (map fst (jm_jobs m)) \<and> (\<forall>(i, j) \<in> set (jm_jobs m). oj_job_id j = i) \<and> 1 \<le> jm_max_jobs m"

definition running_jobs :: "OptimizationJobManager \<Rightarrow> (string \<times> OptimizationJob) list" where
  "running_jobs m = filter (\<lambda>(_, j). \<not> terminal j) (jm_jobs m)"

end
