(* ===== verification/GridSearch.thy ===== *)
theory GridSearch
  imports ParamGrid DocumentParser OptimizationJobs
begin

text \<open>
  The grid search over the parameters of a strategy: \<open>grid_search_optimizer.py\<close>, with the metric names of
  \<open>correlation.py\<close>.

    - The collaborators the optimiser is constructed with (parser, converter, merger, feature calculator, warmup
      check, engine, artifact store) are the fields of \<open>optimizer_env\<close>; \<open>'f\<close> is the type of frames.  A copy of a
      frame is the frame itself, as no collaborator changes its argument.
    - A run is the list of the updates it sends to the job manager.
    - \<open>oe_engine\<close> creates the strategy of a definition and runs it; the starting cash is handed over as it is found.
    - \<open>oe_text\<close> is the text of an exception, \<open>str(exc)\<close>.
\<close>

section \<open>Metrics\<close>

definition RANKING_METRICS :: "string list" where
  "RANKING_METRICS = [''sharpe_ratio'', ''sortino_ratio'', ''total_return'', ''profit_factor'', ''win_rate'', ''calmar_ratio'']"

definition ASCENDING_METRICS :: "string list" where
  "ASCENDING_METRICS = [''max_drawdown'']"

definition is_ranking_metric :: "string \<Rightarrow> bool" where
  "is_ranking_metric name \<longleftrightarrow> name \<in> set RANKING_METRICS"

definition resolve_metric :: "string \<Rightarrow> string" where
  "resolve_metric name = (if name \<in> set RANKING_METRICS then name else ''sharpe_ratio'')"

definition sort_ascending :: "string \<Rightarrow> bool" where
  "sort_ascending metric \<longleftrightarrow> metric \<in> set ASCENDING_METRICS"

text \<open>\<open>getattr(r, metric, 0) or 0\<close>; a NaN is truthy and stays.\<close>

definition metric_of :: "string \<Rightarrow> OptimizationResult \<Rightarrow> flt" where
  "metric_of m r =
     (if m = ''sharpe_ratio'' then or_sharpe_ratio r
      else if m = ''sortino_ratio'' then or_sortino_ratio r
      else if m = ''total_return'' then or_total_return r
      else if m = ''profit_factor'' then or_profit_factor r
      else if m = ''win_rate'' then or_win_rate r
      else if m = ''calmar_ratio'' then or_calmar_ratio r else 0)"

text \<open>
  \<open>list.sort\<close> is stable, with \<open>reverse=True\<close> too: elements with equal keys keep their order.  The order of a
  list with a NaN among its keys depends on the sorting algorithm; this is insertion.
\<close>

fun insert_desc :: "('a \<Rightarrow> flt) \<Rightarrow> 'a \<Rightarrow> 'a list \<Rightarrow> 'a list" where
  "insert_desc key x [] = [x]"
| "insert_desc key x (y # ys) = (if key x < key y then y # insert_desc key x ys else x # y # ys)"

fun insert_asc :: "('a \<Rightarrow> flt) \<Rightarrow> 'a \<Rightarrow> 'a list \<Rightarrow> 'a list" where
  "insert_asc key x [] = [x]"
| "insert_asc key x (y # ys) = (if key y < key x then y # insert_asc key x ys else x # y # ys)"

definition sort_results :: "string \<Rightarrow> OptimizationResult list \<Rightarrow> OptimizationResult list" where
  "sort_results m rs =
     (if sort_ascending m then foldr (insert_asc (metric_of m)) rs [] else foldr (insert_desc (metric_of m)) rs [])"

definition rank_results :: "OptimizationResult list \<Rightarrow> OptimizationResult list" where
  "rank_results rs = map (\<lambda>(i, r). r\<lparr>or_rank := i\<rparr>) (enumerate 1 rs)"

section \<open>The result of one backtest\<close>

definition parse_profit_factor :: "pyval \<Rightarrow> flt result" where
  "parse_profit_factor v =
     (if v = PNone then Inr PosInf
      else (case py_float v of
              Inr x \<Rightarrow> Inr (if is_finite x then x else PosInf)
            | Inl (ValueError m) \<Rightarrow> Inr 0
            | Inl TypeError \<Rightarrow> Inr 0
            | Inl e \<Rightarrow> Inl e))"

text \<open>\<open>float(raw.get(k, d) or f)\<close> and the like.\<close>

definition float_or :: "combination \<Rightarrow> string \<Rightarrow> flt \<Rightarrow> flt result" where
  "float_or kvs k d = py_float (py_or (get_key kvs k (PFloat d)) (PFloat d))"

definition metrics_from_raw :: "combination \<Rightarrow> combination \<Rightarrow> OptimizationResult result" where
  "metrics_from_raw params raw =
     ebind (float_or raw ''sharpe_ratio'' 0) (\<lambda>sharpe.
     ebind (float_or raw ''sortino_ratio'' 0) (\<lambda>sortino.
     ebind (float_or raw ''total_return'' 0) (\<lambda>tot.
     ebind (float_or raw ''max_drawdown'' 0) (\<lambda>dd.
     ebind (parse_profit_factor (get_key raw ''profit_factor'' PNone)) (\<lambda>pf.
     ebind (float_or raw ''win_rate'' 0) (\<lambda>wr.
     ebind (float_or raw ''calmar_ratio'' 0) (\<lambda>calmar.
     ebind (py_int (py_or (get_key raw ''total_trades'' (PInt 0)) (PInt 0))) (\<lambda>n.
       Inr \<lparr>or_rank = 0, or_params = params, or_sharpe_ratio = sharpe, or_sortino_ratio = sortino,
            or_total_return = tot, or_max_drawdown = dd, or_profit_factor = pf, or_win_rate = wr,
            or_calmar_ratio = calmar, or_total_trades = n, or_error = None\<rparr>))))))))"

text \<open>The execution parameters of the metadata, in the names the engine reads.\<close>

definition str_or :: "combination \<Rightarrow> string \<Rightarrow> string \<Rightarrow> string" where
  "str_or kvs k d = py_str (py_or (get_key kvs k (PStr d)) (PStr d))"

definition bool_key :: "combination \<Rightarrow> string \<Rightarrow> bool \<Rightarrow> pyval" where
  "bool_key kvs k d = PBool (truthy (get_key kvs k (PBool d)))"

definition execution_params :: "combination \<Rightarrow> combination result" where
  "execution_params md =
     ebind (float_or md ''risk_per_trade'' (flr (2 / 100))) (\<lambda>risk.
     ebind (float_or md ''leverage'' 1) (\<lambda>lev.
     ebind (float_or md ''commission_pct'' 0) (\<lambda>comm.
     ebind (float_or md ''slippage_pct'' 0) (\<lambda>slip.
     ebind (float_or md ''borrow_fee_annual_pct'' 0) (\<lambda>fee.
     ebind (float_or md ''maintenance_margin_pct'' (flr (5 / 1000))) (\<lambda>mm.
     ebind (float_or md ''funding_rate'' (flr (1 / 10000))) (\<lambda>rate.
       Inr [(''interval'', PStr (str_or md ''interval'' '''')), (''risk_per_trade'', PFloat risk), (''leverage'', PFloat lev),
            (''risk_mode'', PStr (str_or md ''risk_mode'' ''fixed_equity_risk'')), (''commission_pct'', PFloat comm),
            (''slippage_pct'', PFloat slip), (''cap_explicit_size'', bool_key md ''cap_explicit_size'' True),
            (''reject_oversized_explicit_orders'', bool_key md ''reject_oversized_explicit_orders'' False),
            (''allow_negative_cash'', bool_key md ''allow_negative_cash'' False),
            (''market_calendar'', PStr (py_str (py_or (get_key md ''market_calendar'' (PStr ''equity_regular_hours'')) (PStr '''')))),
            (''borrow_fee_annual_pct'', PFloat fee), (''margin_mode'', PStr (str_or md ''margin_mode'' ''simplified'')),
            (''maintenance_margin_pct'', PFloat mm), (''enable_funding'', bool_key md ''enable_funding'' False),
            (''funding_rate'', PFloat rate)])))))))"

section \<open>The collaborators\<close>

record WarmupValidationResult =
  wu_warmup_bars :: nat
  wu_first_tradable :: string
  wu_skipped_bars_due_to_warmup :: nat
  wu_skipped_bars_due_to_missing :: nat
  wu_missing_after_warmup :: "string list"
  wu_no_tradable_bars :: bool

type_synonym bars = "pyval list"

record 'f optimizer_env =
  oe_parse :: "pyval \<Rightarrow> combination \<Rightarrow> StrategyValidationResult result"
  oe_bars_to_frame :: "bars \<Rightarrow> 'f result"
  oe_merger :: "('f \<Rightarrow> 'f \<Rightarrow> string \<Rightarrow> 'f result) option"
  oe_artifact_bars :: "pyval \<Rightarrow> bars option result"
  oe_features :: "('f \<Rightarrow> FeatureSpec list \<Rightarrow> 'f result) option"
  oe_columns :: "'f \<Rightarrow> string list"
  oe_warmup :: "'f \<Rightarrow> string list \<Rightarrow> WarmupValidationResult result"
  oe_skip :: "nat \<Rightarrow> 'f \<Rightarrow> 'f"
  oe_engine :: "'f \<Rightarrow> StrategyDefinition \<Rightarrow> pyval \<Rightarrow> combination \<Rightarrow> combination result"
  oe_text :: "py_error \<Rightarrow> string"

text \<open>\<open>TimeframeDeclaration.has_informative\<close> of a definition that may declare no timeframes.\<close>

definition has_informative :: "StrategyDefinition \<Rightarrow> bool" where
  "has_informative df = (case df_timeframes df of None \<Rightarrow> False | Some t \<Rightarrow> tf_informative t \<noteq> [])"

definition resolve_artifact :: "'f optimizer_env \<Rightarrow> pyval \<Rightarrow> bars result" where
  "resolve_artifact env artifact_id =
     (if \<not> truthy artifact_id then raise (ValueError ''bars_artifact_id is required'')
      else ebind (oe_artifact_bars env artifact_id) (\<lambda>bars.
        case bars of
          None \<Rightarrow> raise (ValueError (''Artifact bars not found: '' @ py_str artifact_id))
        | Some bs \<Rightarrow> Inr bs))"

definition informative_id :: "combination \<Rightarrow> string \<Rightarrow> pyval result" where
  "informative_id md alias =
     (case get_key md ''informative_bars_artifact_ids'' (PDict []) of
        PDict kvs \<Rightarrow> Inr (get_key kvs alias (PStr ''''))
      | _ \<Rightarrow> raise AttributeError)"

definition merge_informative :: "'f optimizer_env \<Rightarrow> bars \<Rightarrow> combination \<Rightarrow> TimeframeDeclaration \<Rightarrow> 'f result" where
  "merge_informative env primary_bars md timeframes =
     (case oe_merger env of
        None \<Rightarrow> raise (ValueError ''Multi-timeframe optimization is not wired'')
      | Some merge \<Rightarrow>
          ebind (oe_bars_to_frame env primary_bars) (\<lambda>frame.
            efold (\<lambda>item frame.
              ebind (informative_id md (it_alias item)) (\<lambda>job_id.
              if \<not> truthy job_id then raise (ValueError (''Missing informative artifact for '' @ quoted (it_alias item)))
              else
              ebind (oe_artifact_bars env job_id) (\<lambda>bars.
              case bars of
                None \<Rightarrow> raise (ValueError (''Informative artifact not found: '' @ py_str job_id))
              | Some bs \<Rightarrow>
                  ebind (oe_bars_to_frame env bs) (\<lambda>info. merge frame info (it_interval item))))) (tf_informative timeframes) frame))"

definition primary_frame :: "'f optimizer_env \<Rightarrow> bars \<Rightarrow> combination \<Rightarrow> StrategyDefinition option \<Rightarrow> 'f result" where
  "primary_frame env primary_bars md df =
     (case df of
        None \<Rightarrow> oe_bars_to_frame env primary_bars
      | Some d \<Rightarrow>
          (case df_timeframes d of
             Some t \<Rightarrow> if tf_informative t \<noteq> [] then merge_informative env primary_bars md t else oe_bars_to_frame env primary_bars
           | None \<Rightarrow> oe_bars_to_frame env primary_bars))"

definition prepare_base_frame :: "'f optimizer_env \<Rightarrow> pyval \<Rightarrow> bars \<Rightarrow> combination \<Rightarrow> 'f result" where
  "prepare_base_frame env definition' primary_bars md =
     ebind (oe_parse env definition' []) (\<lambda>structural.
       primary_frame env primary_bars md (if vr_valid structural then vr_definition structural else None))"

section \<open>One combination\<close>

definition missing_frame_columns :: "string list \<Rightarrow> string list \<Rightarrow> string list" where
  "missing_frame_columns available required = filter (\<lambda>c. c \<notin> set available) required"

definition warmup_error :: "WarmupValidationResult \<Rightarrow> string" where
  "warmup_error w =
     (if wu_no_tradable_bars w then ''No tradable bars after warmup''
      else if wu_missing_after_warmup w \<noteq> []
      then ''Missing required data after warmup: '' @ intercalate '', '' (wu_missing_after_warmup w)
      else '''')"

definition with_features :: "'f optimizer_env \<Rightarrow> StrategyDefinition \<Rightarrow> 'f \<Rightarrow> 'f result" where
  "with_features env df frame =
     (case oe_features env of
        None \<Rightarrow> Inr frame
      | Some calc \<Rightarrow> if df_features df = [] then Inr frame else calc frame (df_features df))"

text \<open>From the frame with its features to the result: columns, warmup and the run of the engine.\<close>

definition run_on_frame ::
  "'f optimizer_env \<Rightarrow> string \<Rightarrow> pyval result \<Rightarrow> combination \<Rightarrow> metadata \<Rightarrow> StrategyValidationResult \<Rightarrow> StrategyDefinition \<Rightarrow>
   'f \<Rightarrow> OptimizationResult result" where
  "run_on_frame env missing_text starting params md validation df frame =
     (let missing = missing_frame_columns (oe_columns env frame) (vr_required_columns validation)
      in if missing \<noteq> [] then Inr (mk_result params (Some (missing_text @ intercalate '', '' missing)))
         else ebind (oe_warmup env frame (vr_required_columns validation)) (\<lambda>warmup.
           if warmup_error warmup \<noteq> [] then Inr (mk_result params (Some (warmup_error warmup)))
           else
             let executable = (if 0 < wu_warmup_bars warmup then oe_skip env (wu_warmup_bars warmup) frame else frame)
             in ebind starting (\<lambda>initial.
                ebind (execution_params md) (\<lambda>exec.
                ebind (oe_engine env executable df initial
                        ([(''warmup_bars'', PInt (int (wu_warmup_bars warmup))),
                          (''first_tradable'', PStr (wu_first_tradable warmup))] @ exec)) (\<lambda>raw.
                  metrics_from_raw params raw)))))"

text \<open>An exception becomes the error of the result.\<close>

definition guarded :: "'f optimizer_env \<Rightarrow> combination \<Rightarrow> OptimizationResult result \<Rightarrow> OptimizationResult" where
  "guarded env params m = (case m of Inl e \<Rightarrow> mk_result params (Some (oe_text env e)) | Inr r \<Rightarrow> r)"

definition backtest_one ::
  "'f optimizer_env \<Rightarrow> pyval \<Rightarrow> combination \<Rightarrow> combination \<Rightarrow> 'f \<Rightarrow> OptimizationResult" where
  "backtest_one env definition' params md base_frame =
     guarded env params
       (ebind (oe_parse env definition' params) (\<lambda>validation.
          case (if vr_valid validation then vr_definition validation else None) of
            None \<Rightarrow> Inr (mk_result params (Some ''Strategy validation failed with these params''))
          | Some df \<Rightarrow>
              ebind (with_features env df base_frame) (\<lambda>frame.
                run_on_frame env ''Missing columns: '' (Inr (get_key md ''initial_cash'' (PInt 10000))) params md validation df frame)))"

section \<open>The run\<close>

text \<open>\<open>int(done / total * 100)\<close>; neither step can raise for a positive total.\<close>

definition progress_pct :: "int \<Rightarrow> int \<Rightarrow> int result" where
  "progress_pct finished n = ebind (int_div finished n) (\<lambda>x. py_trunc (x * Fin 100))"

text \<open>\<open>random_count\<close> is an \<open>int\<close> in the request.\<close>

definition random_count :: "metadata \<Rightarrow> int result" where
  "random_count md = (case get_key md ''random_count'' (PInt 20) of PInt n \<Rightarrow> Inr n | _ \<Rightarrow> raise TypeError)"

definition search_combinations :: "(nat \<Rightarrow> int \<Rightarrow> int) \<Rightarrow> metadata \<Rightarrow> ranges \<Rightarrow> combination list result option" where
  "search_combinations draw md ranges =
     (if get_key md ''search_method'' (PStr ''grid'') = PStr ''random''
      then (case random_count md of Inl e \<Rightarrow> Some (Inl e) | Inr n \<Rightarrow> generate_random_combinations draw ranges n)
      else generate_combinations ranges)"

definition msg_no_combinations :: string where
  "msg_no_combinations =
     ''No parameter combinations generated '' @ em_dash @ '' check that min <= max for all declared ranges''"

definition msg_too_many :: "int \<Rightarrow> string" where
  "msg_too_many n = ''Too many combinations ('' @ show_int n @ ''), max '' @ show_int MAX_COMBINATIONS"

definition failed_update :: "string \<Rightarrow> job_update" where
  "failed_update msg = [JStatus ''failed'', JError msg]"

definition testing_update :: "int \<Rightarrow> int \<Rightarrow> job_update result" where
  "testing_update idx n =
     ebind (progress_pct idx n) (\<lambda>p.
       Inr [JDone idx, JProgress p,
            JMessage (''Testing combination '' @ show_int (idx + 1) @ ''/'' @ show_int n)])"

definition ranking_of :: "string \<Rightarrow> string" where
  "ranking_of metric = (if is_ranking_metric metric then metric else ''sharpe_ratio'')"

text \<open>The base frame is ready: one update before each backtest, and the ranking.\<close>

definition grid_over ::
  "'f optimizer_env \<Rightarrow> metadata \<Rightarrow> string \<Rightarrow> combination list \<Rightarrow> 'f \<Rightarrow> job_update list result" where
  "grid_over env md metric combos base_frame =
     (let n = int (length combos);
          results = map (\<lambda>params. backtest_one env (get_key md ''definition'' (PDict [])) params md base_frame) combos
      in ebind (emap (\<lambda>(i, _). testing_update (int i) n) (enumerate 0 combos)) (\<lambda>us.
           Inr (us @ [[JStatus ''completed'', JProgress 100, JDone n, JMessage ''Optimization complete'',
                       JResults (rank_results (sort_results (ranking_of metric) results))]])))"

definition grid_combinations ::
  "'f optimizer_env \<Rightarrow> metadata \<Rightarrow> string \<Rightarrow> combination list \<Rightarrow> job_update list \<times> unit result" where
  "grid_combinations env md metric combos =
     (let n = int (length combos)
      in if combos = [] then ([failed_update msg_no_combinations], Inr ())
         else if MAX_COMBINATIONS < n then ([failed_update (msg_too_many n)], Inr ())
         else
           let started = [JStatus ''running'', JTotal n, JMessage ''Loading artifact bars'']
           in case ebind (resolve_artifact env (get_key md ''bars_artifact_id'' (PStr ''''))) (\<lambda>bars.
                   ebind (prepare_base_frame env (get_key md ''definition'' (PDict [])) bars md) (\<lambda>frame.
                     grid_over env md metric combos frame)) of
                Inl e \<Rightarrow> ([started], Inl e)
              | Inr us \<Rightarrow> (started # us, Inr ()))"

definition grid_sync_run ::
  "'f optimizer_env \<Rightarrow> (nat \<Rightarrow> int \<Rightarrow> int) \<Rightarrow> metadata \<Rightarrow> string \<Rightarrow> (job_update list \<times> unit result) option" where
  "grid_sync_run env draw md metric =
     (case parse_ranges (get_key md ''param_ranges'' (PDict [])) of
        Inl e \<Rightarrow> Some ([], Inl e)
      | Inr ranges \<Rightarrow>
          (case search_combinations draw md ranges of
             None \<Rightarrow> None
           | Some (Inl e) \<Rightarrow> Some ([], Inl e)
           | Some (Inr combos) \<Rightarrow> Some (grid_combinations env md metric combos)))"

text \<open>\<open>run\<close>: an exception of the thread becomes the failure of the job.\<close>

definition guarded_run :: "'f optimizer_env \<Rightarrow> string \<Rightarrow> job_update list \<times> unit result \<Rightarrow> job_update list" where
  "guarded_run env what r =
     (case r of (us, Inr _) \<Rightarrow> us | (us, Inl e) \<Rightarrow> us @ [failed_update (what @ oe_text env e)])"

definition grid_run :: "'f optimizer_env \<Rightarrow> (nat \<Rightarrow> int \<Rightarrow> int) \<Rightarrow> metadata \<Rightarrow> string \<Rightarrow> job_update list option" where
  "grid_run env draw md metric = map_option (guarded_run env ''Optimization failed: '') (grid_sync_run env draw md metric)"

section \<open>The engine of the service\<close>

text \<open>
  The part of the dict a backtest answers with that the optimisers read, and the engine of the service on a
  frame of bars.  The strategy of a definition is its step, its reset and its name.
\<close>

definition raw_of :: "BacktestResult \<Rightarrow> metadata" where
  "raw_of r =
     (case r of
        ErrorResult msg \<Rightarrow> [(''strategy_name'', PStr ''''), (''error'', PStr msg)]
      | Report p \<Rightarrow>
          [(''strategy_name'', PStr (rp_strategy_name p)), (''total_return'', PFloat (m_total_return (rp_metrics p))),
           (''total_trades'', PInt (int (m_total_trades (rp_metrics p)))), (''win_rate'', PFloat (m_win_rate (rp_metrics p))),
           (''max_drawdown'', PFloat (m_max_drawdown (rp_metrics p))), (''sharpe_ratio'', PFloat (m_sharpe_ratio (rp_metrics p))),
           (''sortino_ratio'', PFloat (m_sortino_ratio (rp_metrics p))),
           (''profit_factor'', PFloat (m_profit_factor (rp_metrics p))), (''calmar_ratio'', PFloat (m_calmar_ratio (rp_metrics p)))])"

definition runner_engine ::
  "pandas_ops \<Rightarrow> pow_fun \<Rightarrow> (StrategyDefinition \<Rightarrow> 's TradingStrategy \<times> 's) \<Rightarrow> BarFrame \<Rightarrow> StrategyDefinition \<Rightarrow> pyval \<Rightarrow>
   metadata \<Rightarrow> metadata result" where
  "runner_engine pd fpow create frame df starting params =
     ebind (py_float starting) (\<lambda>initial.
     ebind (BacktestRunner.run pd fpow frame (fst (create df)) (snd (create df)) initial (map_of params)) (\<lambda>(r, _).
       Inr (raw_of r)))"

end
