(* ===== verification/WalkForward.thy ===== *)
theory WalkForward
  imports GridSearch
begin

text \<open>
  Walk-forward optimisation: \<open>walk_forward_fold_helpers.py\<close>, \<open>walk_forward_optimizer.py\<close>, the entity
  \<open>walk_forward_config.py\<close> and the correlation of \<open>correlation.py\<close>.

    - \<open>compute_fold_indices\<close> cuts the bars into training and test windows, \<open>run_fold\<close> searches the grid on one
      window and tests the best parameters on the other, \<open>aggregate_folds\<close> joins the folds.
    - The outer \<open>option\<close> is \<open>None\<close> where the code does not return: the grid of a range may not end, and
      \<open>_rank_values\<close> does not advance past a score that is not close to itself.
    - The power function of the C library is an argument.
\<close>

section \<open>Windows\<close>

record WalkForwardConfig =
  wc_folds :: int
  wc_train_ratio :: flt
  wc_anchor :: string
  wc_min_train_bars :: int
  wc_min_test_bars :: int

definition default_wf_config :: WalkForwardConfig where
  "default_wf_config = \<lparr>wc_folds = 5, wc_train_ratio = flr (7 / 10), wc_anchor = ''rolling'', wc_min_train_bars = 20,
     wc_min_test_bars = 5\<rparr>"

record FoldIndices =
  fi_train_start :: int
  fi_train_end :: int
  fi_test_start :: int
  fi_test_end :: int
  fi_train_count :: int
  fi_test_count :: int
  fi_min_test :: int

definition anchored_fold :: "int \<Rightarrow> int \<Rightarrow> int \<Rightarrow> FoldIndices" where
  "anchored_fold total_bars fold_size i =
     (let train_end = (i + 1) * fold_size; test_end = min (train_end + fold_size) total_bars
      in \<lparr>fi_train_start = 0, fi_train_end = train_end, fi_test_start = train_end, fi_test_end = test_end,
          fi_train_count = train_end, fi_test_count = max 0 (test_end - train_end), fi_min_test = 1\<rparr>)"

definition rolling_fold :: "int \<Rightarrow> int \<Rightarrow> int \<Rightarrow> int \<Rightarrow> FoldIndices" where
  "rolling_fold total_bars fold_size train_len i =
     (let train_start = i * (fold_size div 2); train_end = train_start + train_len;
          test_end = min (train_end + fold_size) total_bars
      in \<lparr>fi_train_start = train_start, fi_train_end = train_end, fi_test_start = train_end, fi_test_end = test_end,
          fi_train_count = train_end - train_start, fi_test_count = max 0 (test_end - train_end), fi_min_test = 1\<rparr>)"

text \<open>The fold after the last one, when bars are left.\<close>

definition closing_fold :: "int \<Rightarrow> int \<Rightarrow> FoldIndices \<Rightarrow> FoldIndices" where
  "closing_fold total_bars fold_size prev =
     (let last_test_end = min total_bars (fi_test_end prev + fold_size);
          last_train_start = max 0 (fi_test_start prev - fold_size)
      in \<lparr>fi_train_start = last_train_start, fi_train_end = fi_test_start prev, fi_test_start = fi_test_start prev,
          fi_test_end = last_test_end, fi_train_count = fi_test_start prev - last_train_start,
          fi_test_count = last_test_end - fi_test_start prev, fi_min_test = 1\<rparr>)"

definition compute_fold_indices :: "int \<Rightarrow> int \<Rightarrow> flt \<Rightarrow> string \<Rightarrow> FoldIndices list result" where
  "compute_fold_indices total_bars folds train_ratio anchor =
     (if total_bars < 3 \<or> folds < 2 then Inr []
      else
        let fold_size = total_bars div folds
        in if anchor = ''anchored''
           then Inr (map (\<lambda>i. anchored_fold total_bars fold_size (int i)) [0..<nat folds])
           else
             ebind (float_of_int fold_size) (\<lambda>size.
             ebind (py_trunc (size * train_ratio)) (\<lambda>train_len.
               let indices = map (\<lambda>i. rolling_fold total_bars fold_size train_len (int i)) [0..<nat (folds - 1)];
                   prev = last indices
               in Inr (indices @ (if fi_test_end prev < total_bars then [closing_fold total_bars fold_size prev] else [])))))"

text \<open>\<open>xs[a:b]\<close> with negative positions counted from the end.\<close>

definition slice_pos :: "nat \<Rightarrow> int \<Rightarrow> nat" where
  "slice_pos n i = (if i < 0 then nat (i + int n) else min n (nat i))"

definition py_slice :: "int \<Rightarrow> int \<Rightarrow> 'a list \<Rightarrow> 'a list" where
  "py_slice a b xs = (let i = slice_pos (length xs) a; j = slice_pos (length xs) b in take (j - i) (drop i xs))"

section \<open>Correlation\<close>

text \<open>\<open>sum((x - mx) * (y - my) for ...)\<close> and \<open>sum((x - mx) ** 2 for ...)\<close>.\<close>

definition covariance_sum :: "flt \<Rightarrow> flt \<Rightarrow> flt list \<Rightarrow> flt list \<Rightarrow> flt" where
  "covariance_sum mx my xs ys = py_sum (map (\<lambda>(x, y). (x - mx) * (y - my)) (zip xs ys))"

definition square_sum :: "pow_fun \<Rightarrow> flt \<Rightarrow> flt list \<Rightarrow> flt result" where
  "square_sum fpow m xs = ebind (emap (\<lambda>x. fpow (x - m) (Fin 2)) xs) (\<lambda>sq. Inr (py_sum sq))"

definition correlate :: "pow_fun \<Rightarrow> flt list \<Rightarrow> flt list \<Rightarrow> flt result" where
  "correlate fpow xs ys =
     ebind (div_len (py_sum xs) (int (length xs))) (\<lambda>mx.
     ebind (div_len (py_sum ys) (int (length xs))) (\<lambda>my.
     ebind (square_sum fpow mx xs) (\<lambda>vx.
     ebind (square_sum fpow my ys) (\<lambda>vy.
       if feq vx 0 \<or> feq vy 0 then Inr 0
       else ebind (fpow (vx * vy) (flr (1 / 2))) (fdiv (covariance_sum mx my xs ys))))))"

definition pearson :: "pow_fun \<Rightarrow> flt list \<Rightarrow> flt list \<Rightarrow> flt result" where
  "pearson fpow xs ys =
     (let n = min (length xs) (length ys)
      in if n < 2 then Inr 0 else correlate fpow (take n xs) (take n ys))"

definition spearman :: "pow_fun \<Rightarrow> flt list \<Rightarrow> flt list \<Rightarrow> flt result" where
  "spearman fpow xs ys = (if length xs < 2 then Inr 0 else correlate fpow xs ys)"

section \<open>Ranks\<close>

definition rank_tolerance :: flt where
  "rank_tolerance = flr (1 / 10 ^ 12)"

text \<open>The outer loop, from position \<open>i\<close> of the sorted list: pairs of an original position and its rank.\<close>

definition tied :: "(flt \<times> nat) list \<Rightarrow> nat" where
  "tied xs = length (takeWhile (\<lambda>(v, _). isclose rank_tolerance v (fst (hd xs))) xs)"

definition average_rank :: "nat \<Rightarrow> nat \<Rightarrow> flt" where
  "average_rank i j = flr (of_nat (i + 1 + j) / 2)"

partial_function (option) rank_from :: "nat \<Rightarrow> (flt \<times> nat) list \<Rightarrow> (nat \<times> flt) list option" where
  "rank_from i xs =
     (if xs = [] then Some []
      else Option.bind (rank_from (i + tied xs) (drop (tied xs) xs)) (\<lambda>rest.
             Some (map (\<lambda>(_, k). (k, average_rank i (i + tied xs))) (take (tied xs) xs) @ rest)))"

declare rank_from.simps [code]

definition sorted_scores :: "flt list \<Rightarrow> (flt \<times> nat) list" where
  "sorted_scores values = foldr (insert_desc fst) (map (\<lambda>(i, v). (v, i)) (enumerate 0 values)) []"

definition rank_values :: "flt list \<Rightarrow> flt list option" where
  "rank_values values =
     map_option (\<lambda>ranks. fold (\<lambda>(k, r) rs. rs[k := r]) ranks (replicate (length values) 0))
       (rank_from 0 (sorted_scores values))"

section \<open>Aggregation\<close>

definition completed_folds :: "WalkForwardFold list \<Rightarrow> WalkForwardFold list" where
  "completed_folds folds = filter (\<lambda>f. \<not> wf_skipped f \<and> wf_error f = []) folds"

text \<open>The value of a parameter in each fold.\<close>

definition param_values :: "string \<Rightarrow> WalkForwardFold list \<Rightarrow> flt list result" where
  "param_values name folds = emap (\<lambda>f. py_float (get_key (wf_best_params f) name (PFloat 0))) folds"

definition value_stable :: "flt \<Rightarrow> flt \<Rightarrow> flt \<Rightarrow> bool result" where
  "value_stable midpoint spread v = ebind (fdiv \<bar>v - midpoint\<bar> spread) (\<lambda>d. Inr (d \<le> flr (2 / 10)))"

definition count_stable :: "flt list \<Rightarrow> nat result" where
  "count_stable values =
     (let v_min = list_min (hd values) (tl values); v_max = list_max (hd values) (tl values); spread = v_max - v_min
      in if feq spread 0 then Inr (length values)
         else ebind (fdiv (v_min + v_max) (Fin 2)) (\<lambda>midpoint.
              ebind (emap (value_stable midpoint spread) values) (\<lambda>bs. Inr (length (filter id bs)))))"

definition param_names :: "WalkForwardFold list \<Rightarrow> string list" where
  "param_names folds = remdups (concat (map (\<lambda>f. map fst (wf_best_params f)) folds))"

definition stability_step :: "WalkForwardFold list \<Rightarrow> string \<Rightarrow> nat \<times> nat \<Rightarrow> (nat \<times> nat) result" where
  "stability_step folds name st =
     (case st of (steady, counted) \<Rightarrow>
        ebind (param_values name folds) (\<lambda>values.
        ebind (count_stable values) (\<lambda>n. Inr (steady + n, counted + length values))))"

definition compute_stability :: "WalkForwardFold list \<Rightarrow> flt result" where
  "compute_stability folds =
     (if length folds < 2 then Inr 1
      else if param_names folds = [] then Inr 1
      else ebind (efold (stability_step folds) (param_names folds) (0, 0)) (\<lambda>(steady, counted).
             if 0 < counted then int_div (int steady) (int counted) else Inr 1))"

definition sensitivity_folds :: "WalkForwardFold list \<Rightarrow> WalkForwardFold list" where
  "sensitivity_folds folds = filter (\<lambda>f. wf_param_sensitivity f \<noteq> []) (completed_folds folds)"

definition sensitivity_names :: "WalkForwardFold list \<Rightarrow> string list" where
  "sensitivity_names folds = sort_strings (remdups (concat (map (\<lambda>f. map fst (wf_param_sensitivity f)) (sensitivity_folds folds))))"

definition fold_scores :: "string list \<Rightarrow> WalkForwardFold \<Rightarrow> flt list" where
  "fold_scores names f = map (\<lambda>n. case map_of (wf_param_sensitivity f) n of Some v \<Rightarrow> v | None \<Rightarrow> 0) names"

fun pairs :: "'a list \<Rightarrow> ('a \<times> 'a) list" where
  "pairs [] = []"
| "pairs (x # xs) = map (Pair x) xs @ pairs xs"

definition average_correlation :: "pow_fun \<Rightarrow> flt list list \<Rightarrow> flt result" where
  "average_correlation fpow rankings =
     (if length rankings < 2 then Inr 1
      else ebind (emap (\<lambda>(a, b). spearman fpow a b) (pairs rankings)) (\<lambda>cs.
           ebind (div_len (py_sum cs) (int (length cs))) (\<lambda>m. Inr (py_round 4 m))))"

definition compute_rank_correlation :: "pow_fun \<Rightarrow> WalkForwardFold list \<Rightarrow> flt result option" where
  "compute_rank_correlation fpow folds =
     (let names = sensitivity_names folds
      in if length names < 2 \<or> length folds < 2 then Some (Inr 1)
         else map_option (average_correlation fpow) (those (map (\<lambda>f. rank_values (fold_scores names f)) (sensitivity_folds folds))))"

definition compound :: "flt list \<Rightarrow> flt" where
  "compound returns = fold (\<lambda>r t. t * (1 + r)) returns 1 - 1"

definition mean_of :: "(WalkForwardFold \<Rightarrow> flt) \<Rightarrow> WalkForwardFold list \<Rightarrow> flt result" where
  "mean_of f folds = div_len (py_sum (map f folds)) (int (length folds))"

definition aggregate_folds :: "pow_fun \<Rightarrow> WalkForwardFold list \<Rightarrow> WalkForwardResult result option" where
  "aggregate_folds fpow folds =
     (let completed = completed_folds folds
      in if completed = []
         then Some (Inr \<lparr>wr_folds_requested = length folds, wr_folds_completed = 0, wr_folds = folds, wr_oos_total_return = 0,
                wr_oos_sharpe = 0, wr_oos_max_drawdown = 0, wr_oos_win_rate = 0, wr_oos_total_trades = 0,
                wr_is_oos_correlation = 0, wr_stability = 0, wr_avg_rank_correlation = 0,
                wr_error = ''No folds completed successfully''\<rparr>)
         else
           (case ebind (mean_of wf_oos_sharpe completed) (\<lambda>sharpe.
                 ebind (mean_of wf_oos_max_drawdown completed) (\<lambda>dd.
                 ebind (mean_of wf_oos_win_rate completed) (\<lambda>wr.
                 ebind (if 2 \<le> length completed then pearson fpow (map wf_is_sharpe completed) (map wf_oos_sharpe completed)
                        else Inr 0) (\<lambda>corr.
                 ebind (compute_stability completed) (\<lambda>stab. Inr (sharpe, dd, wr, corr, stab)))))) of
              Inl e \<Rightarrow> Some (Inl e)
            | Inr (sharpe, dd, wr, corr, stab) \<Rightarrow>
                map_option (\<lambda>rank. ebind rank (\<lambda>rank_corr.
                  Inr \<lparr>wr_folds_requested = length folds, wr_folds_completed = length completed, wr_folds = folds,
                       wr_oos_total_return = compound (map wf_oos_total_return completed), wr_oos_sharpe = sharpe,
                       wr_oos_max_drawdown = dd, wr_oos_win_rate = wr,
                       wr_oos_total_trades = sum_list (map wf_oos_trades completed), wr_is_oos_correlation = corr,
                       wr_stability = stab, wr_avg_rank_correlation = rank_corr, wr_error = ''''\<rparr>))
                  (compute_rank_correlation fpow completed)))"

section \<open>Sensitivity\<close>

text \<open>The scores of each value of a parameter, in the order the values are met.\<close>

definition add_score :: "string \<Rightarrow> string \<Rightarrow> OptimizationResult \<Rightarrow> (pyval \<times> flt list) list \<Rightarrow> (pyval \<times> flt list) list" where
  "add_score m name r scores =
     (if or_error r \<noteq> None \<and> or_error r \<noteq> Some '''' then scores
      else case map_of (or_params r) name of
             None \<Rightarrow> scores
           | Some PNone \<Rightarrow> scores
           | Some v \<Rightarrow> AList.update v ((case map_of scores v of None \<Rightarrow> [] | Some vs \<Rightarrow> vs) @ [metric_of m r]) scores)"

definition param_sensitivity :: "string \<Rightarrow> OptimizationResult list \<Rightarrow> string \<Rightarrow> flt result" where
  "param_sensitivity m results name =
     (let scores = fold (add_score m name) results []
      in if length scores < 2 then Inr 0
         else ebind (emap (\<lambda>(_, vs). div_len (py_sum vs) (int (length vs))) scores) (\<lambda>means.
                Inr (list_max (hd means) (tl means) - list_min (hd means) (tl means))))"

definition compute_sensitivity :: "OptimizationResult list \<Rightarrow> string \<Rightarrow> ranges \<Rightarrow> (string \<times> flt) list result" where
  "compute_sensitivity results metric ranges =
     (if length ranges < 2 \<or> length results < 2 then Inr []
      else ebind (emap (\<lambda>(name, _). ebind (param_sensitivity (resolve_metric metric) results name) (\<lambda>s. Inr (name, s))) ranges) (\<lambda>ss.
             let tot = py_sum (map snd ss)
             in if tot \<le> 0 then Inr []
                else emap (\<lambda>(name, v). ebind (fdiv v tot) (\<lambda>x. Inr (name, py_round 4 x))) ss))"

section \<open>One fold\<close>

text \<open>\<open>_bar_timestamp\<close>: the first of the three keys that holds something.\<close>

definition bar_timestamp :: "pyval \<Rightarrow> string result" where
  "bar_timestamp bar =
     (case bar of
        PDict kvs \<Rightarrow>
          Inr (case find (\<lambda>k. truthy (get_key kvs k (PStr ''''))) [''timestamp'', ''date'', ''time''] of
                 Some k \<Rightarrow> py_str (get_key kvs k (PStr '''')) | None \<Rightarrow> '''')
      | _ \<Rightarrow> raise AttributeError)"

text \<open>The frame of a window: its own bars, or the merge when the strategy declares informative timeframes.\<close>

definition window_frame :: "'f optimizer_env \<Rightarrow> metadata \<Rightarrow> bars \<Rightarrow> 'f \<Rightarrow> StrategyDefinition \<Rightarrow> 'f result" where
  "window_frame env md bars base df =
     (case df_timeframes df of
        Some t \<Rightarrow> if tf_informative t \<noteq> [] then merge_informative env bars md t else Inr base
      | None \<Rightarrow> Inr base)"

definition window_backtest ::
  "'f optimizer_env \<Rightarrow> string \<Rightarrow> string \<Rightarrow> pyval \<Rightarrow> combination \<Rightarrow> bars \<Rightarrow> metadata \<Rightarrow> 'f \<Rightarrow> OptimizationResult result" where
  "window_backtest env invalid_text missing_text definition' params bars md base =
     ebind (oe_parse env definition' params) (\<lambda>validation.
       case (if vr_valid validation then vr_definition validation else None) of
         None \<Rightarrow> Inr (mk_result params (Some invalid_text))
       | Some df \<Rightarrow>
           ebind (window_frame env md bars base df) (\<lambda>frame0.
           ebind (with_features env df frame0) (\<lambda>frame.
             run_on_frame env missing_text
               (ebind (py_float (py_or (get_key md ''initial_cash'' (PInt 10000)) (PInt 10000))) (\<lambda>c. Inr (PFloat c)))
               params md validation df frame)))"

definition backtest_with_bars ::
  "'f optimizer_env \<Rightarrow> pyval \<Rightarrow> combination \<Rightarrow> bars \<Rightarrow> metadata \<Rightarrow> 'f \<Rightarrow> OptimizationResult" where
  "backtest_with_bars env definition' params bars md base =
     guarded env params
       (window_backtest env ''Strategy validation failed with these params'' ''Missing columns: '' definition' params bars md base)"

definition run_oos ::
  "'f optimizer_env \<Rightarrow> pyval \<Rightarrow> combination \<Rightarrow> bars \<Rightarrow> metadata \<Rightarrow> 'f \<Rightarrow> OptimizationResult result" where
  "run_oos env definition' params bars md base =
     window_backtest env ''Strategy validation failed with best params'' ''OOS missing columns: '' definition' params bars md base"

type_synonym search_result = "OptimizationResult option \<times> (string \<times> flt) list"

definition search_window ::
  "'f optimizer_env \<Rightarrow> pyval \<Rightarrow> bars \<Rightarrow> string \<Rightarrow> metadata \<Rightarrow> 'f \<Rightarrow> ranges \<Rightarrow> combination list \<Rightarrow> search_result result" where
  "search_window env definition' bars metric md frame ranges combos =
     (if 100 < length combos then Inr (Some (mk_result [] (Some ''Too many combinations'')), [])
      else if bars = [] then Inr (Some (mk_result [] (Some ''No training bars'')), [])
      else
        let results = sort_results (resolve_metric metric)
                        (map (\<lambda>params. backtest_with_bars env definition' params bars md frame) combos)
        in case results of
             [] \<Rightarrow> Inr (None, [])
           | r # _ \<Rightarrow> ebind (compute_sensitivity results metric ranges) (\<lambda>s. Inr (Some r, s)))"

definition run_grid_search ::
  "'f optimizer_env \<Rightarrow> (nat \<Rightarrow> int \<Rightarrow> int) \<Rightarrow> pyval \<Rightarrow> bars \<Rightarrow> string \<Rightarrow> metadata \<Rightarrow> 'f \<Rightarrow> search_result result option" where
  "run_grid_search env draw definition' bars metric md frame =
     (case parse_ranges (get_key md ''param_ranges'' (PDict [])) of
        Inl e \<Rightarrow> Some (Inl e)
      | Inr ranges \<Rightarrow>
          map_option (\<lambda>combos. ebind combos (search_window env definition' bars metric md frame ranges))
            (search_combinations draw md ranges))"

definition fold_of_windows :: "nat \<Rightarrow> bars \<Rightarrow> bars \<Rightarrow> WalkForwardFold result" where
  "fold_of_windows i train test =
     ebind (bar_timestamp (hd train)) (\<lambda>a. ebind (bar_timestamp (last train)) (\<lambda>b.
     ebind (bar_timestamp (hd test)) (\<lambda>c. ebind (bar_timestamp (last test)) (\<lambda>d.
       Inr ((mk_fold i)\<lparr>wf_train_start := a, wf_train_end := b, wf_test_start := c, wf_test_end := d,
              wf_train_bars := int (length train), wf_test_bars := int (length test)\<rparr>)))))"

text \<open>The test of the best parameters, after the search on the training window.\<close>

definition validate_best ::
  "'f optimizer_env \<Rightarrow> pyval \<Rightarrow> bars \<Rightarrow> metadata \<Rightarrow> 'f \<Rightarrow> WalkForwardFold \<Rightarrow> search_result \<Rightarrow> WalkForwardFold result" where
  "validate_best env definition' test md test_frame base found =
     (case found of
        (None, _) \<Rightarrow> Inr (base\<lparr>wf_error := ''Grid search returned no results''\<rparr>)
      | (Some best, sensitivity) \<Rightarrow>
          (case or_error best of
             Some (c # msg) \<Rightarrow> Inr (base\<lparr>wf_error := c # msg\<rparr>)
           | _ \<Rightarrow>
               ebind (run_oos env definition' (or_params best) test md test_frame) (\<lambda>oos.
                 let searched = base\<lparr>wf_best_params := or_params best, wf_is_sharpe := or_sharpe_ratio best,
                                     wf_is_total_return := or_total_return best\<rparr>
                 in case or_error oos of
                      Some (c # msg) \<Rightarrow> Inr (searched\<lparr>wf_error := ''OOS backtest failed: '' @ c # msg\<rparr>)
                    | _ \<Rightarrow>
                        Inr (searched\<lparr>wf_oos_sharpe := or_sharpe_ratio oos, wf_oos_total_return := or_total_return oos,
                               wf_oos_max_drawdown := or_max_drawdown oos, wf_oos_win_rate := or_win_rate oos,
                               wf_oos_trades := or_total_trades oos, wf_param_sensitivity := sensitivity\<rparr>))))"

definition run_fold ::
  "'f optimizer_env \<Rightarrow> (nat \<Rightarrow> int \<Rightarrow> int) \<Rightarrow> nat \<Rightarrow> pyval \<Rightarrow> bars \<Rightarrow> bars \<Rightarrow> string \<Rightarrow> metadata \<Rightarrow> WalkForwardFold result option" where
  "run_fold env draw i definition' train test metric md =
     (if train = [] \<or> test = [] then Some (Inr ((mk_fold i)\<lparr>wf_skipped := True\<rparr>))
      else case fold_of_windows i train test of
        Inl e \<Rightarrow> Some (Inl e)
      | Inr base \<Rightarrow>
          (case ebind (oe_bars_to_frame env train) (\<lambda>a. ebind (oe_bars_to_frame env test) (\<lambda>b. Inr (a, b))) of
             Inl e \<Rightarrow> Some (Inr (base\<lparr>wf_error := oe_text env e\<rparr>))
           | Inr (train_frame, test_frame) \<Rightarrow>
               map_option (\<lambda>found.
                 Inr (case ebind found (validate_best env definition' test md test_frame base) of
                        Inl e \<Rightarrow> base\<lparr>wf_error := oe_text env e\<rparr>
                      | Inr f \<Rightarrow> f))
                 (run_grid_search env draw definition' train metric md train_frame)))"

section \<open>The run\<close>

definition wf_config_of :: "WalkForwardConfig \<Rightarrow> metadata \<Rightarrow> WalkForwardConfig result" where
  "wf_config_of dflt md =
     ebind (py_int (get_key md ''wf_folds'' (PInt (wc_folds dflt)))) (\<lambda>folds.
     ebind (py_float (get_key md ''wf_train_ratio'' (PFloat (wc_train_ratio dflt)))) (\<lambda>ratio.
     ebind (py_int (get_key md ''wf_min_train_bars'' (PInt (wc_min_train_bars dflt)))) (\<lambda>min_train.
     ebind (py_int (get_key md ''wf_min_test_bars'' (PInt (wc_min_test_bars dflt)))) (\<lambda>min_test.
       Inr \<lparr>wc_folds = folds, wc_train_ratio = ratio,
            wc_anchor = py_str (get_key md ''wf_anchor'' (PStr (wc_anchor dflt))),
            wc_min_train_bars = min_train, wc_min_test_bars = min_test\<rparr>))))"

text \<open>A fold is skipped by its own \<open>min_test\<close>; the executable folds are counted with the configured minimum.\<close>

definition fold_skipped :: "WalkForwardConfig \<Rightarrow> FoldIndices \<Rightarrow> bool" where
  "fold_skipped cfg f \<longleftrightarrow> fi_train_count f < wc_min_train_bars cfg \<or> fi_test_count f < fi_min_test f"

definition executable_folds :: "WalkForwardConfig \<Rightarrow> FoldIndices list \<Rightarrow> int" where
  "executable_folds cfg fs =
     int (length (filter (\<lambda>f. wc_min_train_bars cfg \<le> fi_train_count f \<and> max 1 (wc_min_test_bars cfg) \<le> fi_test_count f) fs))"

definition wf_progress :: "int \<Rightarrow> int \<Rightarrow> int result" where
  "wf_progress runs_done executable = (if 0 < executable then progress_pct runs_done (max executable 1) else Inr 0)"

definition fold_update :: "int \<Rightarrow> int \<Rightarrow> nat \<Rightarrow> nat \<Rightarrow> job_update result" where
  "fold_update runs_done executable idx n =
     ebind (wf_progress runs_done executable) (\<lambda>p.
       Inr [JDone runs_done, JProgress p,
            JMessage (''Fold '' @ show_int (int idx + 1) @ ''/'' @ show_int (int n) @ '': grid search'')])"

definition skipped_fold :: "nat \<Rightarrow> FoldIndices \<Rightarrow> WalkForwardFold" where
  "skipped_fold idx f =
     (mk_fold idx)\<lparr>wf_train_bars := fi_train_count f, wf_test_bars := fi_test_count f, wf_skipped := True\<rparr>"

type_synonym folds_run = "job_update list \<times> (WalkForwardFold list \<times> int) result"

definition after_fold :: "job_update list \<Rightarrow> WalkForwardFold \<Rightarrow> folds_run \<Rightarrow> folds_run" where
  "after_fold us f r = (us @ fst r, ebind (snd r) (\<lambda>(fs, n). Inr (f # fs, n)))"

text \<open>The loop over the folds; \<open>draw idx\<close> answers the calls of \<open>randint\<close> in the search of that fold.\<close>

fun wf_folds ::
  "'f optimizer_env \<Rightarrow> (nat \<Rightarrow> nat \<Rightarrow> int \<Rightarrow> int) \<Rightarrow> WalkForwardConfig \<Rightarrow> pyval \<Rightarrow> bars \<Rightarrow> string \<Rightarrow> metadata \<Rightarrow> int \<Rightarrow> nat \<Rightarrow>
   nat \<Rightarrow> int \<Rightarrow> FoldIndices list \<Rightarrow> folds_run option" where
  "wf_folds env draw cfg definition' bars metric md executable n idx runs_done [] = Some ([], Inr ([], runs_done))"
| "wf_folds env draw cfg definition' bars metric md executable n idx runs_done (f # fs) =
     (if fold_skipped cfg f
      then map_option (after_fold [] (skipped_fold idx f))
             (wf_folds env draw cfg definition' bars metric md executable n (Suc idx) runs_done fs)
      else case fold_update runs_done executable idx n of
        Inl e \<Rightarrow> Some ([], Inl e)
      | Inr u \<Rightarrow>
          (case run_fold env (draw idx) idx definition' (py_slice (fi_train_start f) (fi_train_end f) bars)
                  (py_slice (fi_test_start f) (fi_test_end f) bars) metric md of
             None \<Rightarrow> None
           | Some (Inl e) \<Rightarrow> Some ([u], Inl e)
           | Some (Inr tested) \<Rightarrow>
               map_option (after_fold [u] tested)
                 (wf_folds env draw cfg definition' bars metric md executable n (Suc idx) (runs_done + 1) fs)))"

definition msg_few_bars :: string where
  "msg_few_bars = ''Not enough bars for walk-forward: need at least 2 folds''"

definition wf_finish :: "pow_fun \<Rightarrow> job_update \<Rightarrow> folds_run \<Rightarrow> (job_update list \<times> unit result) option" where
  "wf_finish fpow started r =
     (case r of
        (us, Inl e) \<Rightarrow> Some (started # us, Inl e)
      | (us, Inr (folds, runs_done)) \<Rightarrow>
          map_option (\<lambda>agg. case agg of
              Inl e \<Rightarrow> (started # us, Inl e)
            | Inr result \<Rightarrow>
                (started # us @ [[JStatus ''completed'', JProgress 100, JDone runs_done,
                                  JMessage ''Walk-forward complete'', JWalkForward result]], Inr ()))
            (aggregate_folds fpow folds))"

definition wf_over ::
  "'f optimizer_env \<Rightarrow> pow_fun \<Rightarrow> (nat \<Rightarrow> nat \<Rightarrow> int \<Rightarrow> int) \<Rightarrow> WalkForwardConfig \<Rightarrow> metadata \<Rightarrow> bars \<Rightarrow> FoldIndices list \<Rightarrow>
   (job_update list \<times> unit result) option" where
  "wf_over env fpow draw cfg md bars indices =
     (if filter (\<lambda>f. 0 < fi_test_count f) indices = [] then Some ([failed_update msg_few_bars], Inr ())
      else let executable = executable_folds cfg indices
           in Option.bind
                (wf_folds env draw cfg (get_key md ''definition'' (PDict [])) bars (str_or md ''metric'' ''sharpe_ratio'') md
                   executable (length indices) 0 0 indices)
                (wf_finish fpow [JStatus ''running'', JTotal (max executable 1)]))"

definition wf_sync_run ::
  "'f optimizer_env \<Rightarrow> pow_fun \<Rightarrow> (nat \<Rightarrow> nat \<Rightarrow> int \<Rightarrow> int) \<Rightarrow> WalkForwardConfig \<Rightarrow> metadata \<Rightarrow>
   (job_update list \<times> unit result) option" where
  "wf_sync_run env fpow draw dflt md =
     (case ebind (resolve_artifact env (get_key md ''bars_artifact_id'' (PStr ''''))) (\<lambda>bars.
           ebind (wf_config_of dflt md) (\<lambda>cfg.
           ebind (compute_fold_indices (int (length bars)) (wc_folds cfg) (wc_train_ratio cfg) (wc_anchor cfg)) (\<lambda>indices.
             Inr (bars, cfg, indices)))) of
        Inl e \<Rightarrow> Some ([], Inl e)
      | Inr (bars, cfg, indices) \<Rightarrow> wf_over env fpow draw cfg md bars indices)"

definition wf_run ::
  "'f optimizer_env \<Rightarrow> pow_fun \<Rightarrow> (nat \<Rightarrow> nat \<Rightarrow> int \<Rightarrow> int) \<Rightarrow> WalkForwardConfig \<Rightarrow> metadata \<Rightarrow> job_update list option" where
  "wf_run env fpow draw dflt md = map_option (guarded_run env ''Walk-forward failed: '') (wf_sync_run env fpow draw dflt md)"

end
