(* ===== verification/GridProperties.thy ===== *)
theory GridProperties
  imports WalkForward "HOL-Library.Multiset" "HOL-Library.Sublist"
begin

text \<open>
  Properties of the grid search: which values a range has and when listing them ends, what random search returns,
  the ranking, and the course of a job.
\<close>

section \<open>Values of a range\<close>

lemma flr_dyadic:
  assumes "\<bar>m\<bar> \<le> 2 ^ 53" "q = of_int m / 128" shows "flr q = Fin q"
proof -
  have r: "rnd q = q" using assms by (intro rnd_dyadic [where m = m and e = "- 7"]) (auto simp: power_int_minus)
  have "\<bar>q\<bar> \<le> 2 ^ 53"
  proof -
    have "\<bar>q\<bar> \<le> \<bar>of_int m\<bar>" using assms(2) by (simp add: field_simps)
    also have "\<dots> \<le> of_int (2 ^ 53)" using assms(1) by (metis of_int_abs of_int_le_iff)
    finally show ?thesis by simp
  qed
  moreover have "(2::rat) ^ 53 < max_bound" unfolding max_bound_def by (rule power_strict_increasing) auto
  ultimately show ?thesis using r by (auto simp: flr_alt abs_le_iff)
qed

lemma flr_between:
  assumes "flr a = Fin a" "flr b = Fin b" "a \<le> q" "q \<le> b"
  shows "\<exists>r. flr q = Fin r \<and> a \<le> r \<and> r \<le> b"
proof -
  have "flr a \<le> flr q" "flr q \<le> flr b" using assms(3,4) by (auto intro: flr_mono)
  then show ?thesis using assms(1,2) by (cases "flr q") auto
qed

text \<open>The stop of a range of integers lies between its maximum and the next integer.\<close>

lemma range_stop_int:
  assumes "0 < s" "s \<le> 500" "\<bar>b\<bar> \<le> 2 ^ 45"
  shows "\<exists>t. Fin (of_int b) + Fin (of_int s) * flr (1 / 1000) = Fin t \<and> of_int b \<le> t \<and> t < of_int b + 1"
proof -
  have big: "(2::int) ^ 45 * 128 + 125 \<le> 2 ^ 53" by simp
  have k: "\<exists>q. flr (1 / 1000) = Fin q \<and> 0 \<le> q \<and> q \<le> 1 / 128"
    by (rule flr_between) (auto intro: flr_dyadic [where m = 1])
  have "\<exists>q. flr (1 / 1000) = Fin q \<and> 0 \<le> q \<and> q \<le> 1 / 512"
  proof -
    have "rnd (1 / 512) = 1 / 512" by (rule rnd_dyadic [where m = 1 and e = "- 9"]) (auto simp: power_int_minus)
    moreover have "rnd (1 / 1000) \<le> rnd (1 / 512)" by (rule rnd_mono) simp
    moreover obtain q where "flr (1 / 1000) = Fin q" "0 \<le> q" using k by blast
    ultimately show ?thesis using flr_Fin by fastforce
  qed
  then obtain q where q: "flr (1 / 1000) = Fin q" "0 \<le> q" "q \<le> 1 / 512" by blast
  have "of_int s * q \<le> 500 * (1 / 512)" using assms(1,2) q by (intro mult_mono) auto
  then have "of_int s * q \<le> 125 / 128" by linarith
  moreover have "0 \<le> of_int s * q" using assms(1) q by simp
  ultimately have sq: "0 \<le> of_int s * q" "of_int s * q \<le> 125 / 128" by auto
  have "\<exists>p. flr (of_int s * q) = Fin p \<and> 0 \<le> p \<and> p \<le> 125 / 128"
    by (rule flr_between [OF _ _ sq]) (auto intro: flr_dyadic [where m = 125])
  then obtain p where p: "flr (of_int s * q) = Fin p" "0 \<le> p" "p \<le> 125 / 128" by blast
  have "\<exists>t. flr (of_int b + p) = Fin t \<and> of_int b \<le> t \<and> t \<le> of_int b + 125 / 128"
  proof (rule flr_between)
    show "flr (of_int b) = Fin (of_int b)" using assms(3) by (intro flr_int) auto
    have "\<bar>b * 128 + 125\<bar> \<le> 2 ^ 53" using assms(3) big by linarith
    then show "flr (of_int b + 125 / 128) = Fin (of_int b + 125 / 128)" by (rule flr_dyadic) (simp add: field_simps)
  qed (use p in auto)
  then show ?thesis using q p by (auto simp: algebra_simps)
qed

lemma values_from_int:
  assumes "0 < s" "of_int b \<le> t" "t < of_int b + 1" "- (2 ^ 45) \<le> a" "b \<le> 2 ^ 45" "s \<le> 500"
  shows "a \<le> b + s \<Longrightarrow> values_from (Fin t) (Fin (of_int s)) (Fin (of_int a)) =
           Some (map (\<lambda>k. Fin (of_int (a + int k * s))) [0..<nat ((b - a) div s + 1)])"
  using assms(4)
proof (induction "nat (b - a + s)" arbitrary: a rule: less_induct)
  case less
  show ?case
  proof (cases "a \<le> b")
    case True
    have le: "Fin (of_int a) \<le> Fin t" using True assms(2) by (simp add: order_trans [of _ "of_int b"])
    have next': "Fin (of_int a) + Fin (of_int s) = Fin (of_int (a + s))"
    proof -
      have "\<bar>a + s\<bar> \<le> 2 ^ 53" using True less.prems assms by (simp add: abs_le_iff)
      then have "flr (of_int (a + s)) = Fin (of_int (a + s))" by (rule flr_int)
      then show ?thesis by simp
    qed
    have n: "nat ((b - a) div s + 1) = Suc (nat ((b - (a + s)) div s + 1))"
    proof -
      have "(b - (a + s)) div s = (b - a) div s - 1"
        using div_mult_self1 [of s "b - a" "- 1"] assms(1) by (simp add: algebra_simps)
      moreover have "0 \<le> (b - a) div s" using True assms(1) by (simp add: pos_imp_zdiv_nonneg_iff)
      ultimately show ?thesis by simp
    qed
    have "values_from (Fin t) (Fin (of_int s)) (Fin (of_int (a + s))) =
        Some (map (\<lambda>k. Fin (of_int (a + s + int k * s))) [0..<nat ((b - (a + s)) div s + 1)])"
      using True assms(1) less.prems by (intro less.hyps) auto
    moreover have "map (\<lambda>k. Fin (rat_of_int (a + int k * s))) [0..<Suc n] =
        Fin (of_int a) # map (\<lambda>k. Fin (of_int (a + s + int k * s))) [0..<n]" for n
      by (simp add: upt_conv_Cons map_Suc_upt [symmetric] algebra_simps o_def del: upt_Suc)
    ultimately show ?thesis
      unfolding n values_from.simps [of "Fin t" "Fin (of_int s)" "Fin (of_int a)"]
      by (simp only: le next' if_True Option.bind.bind_lunit)
  next
    case False
    then have "\<not> Fin (of_int a) \<le> Fin t"
      using assms(3) by (simp add: not_le)
    moreover have "(b - a) div s + 1 \<le> 0" using False assms(1) div_neg_pos_less0 [of "b - a" s] by simp
    ultimately show ?thesis by (subst values_from.simps) simp
  qed
qed


definition int_range :: "int \<Rightarrow> int \<Rightarrow> int \<Rightarrow> ParamRange" where
  "int_range a b s = \<lparr>pr_min = Fin (of_int a), pr_max = Fin (of_int b), pr_step = Fin (of_int s)\<rparr>"

text \<open>
  The values of a range of integers are listed and are the whole arithmetic progression: every value from the
  minimum in steps up to the maximum, each once, none past the maximum, for steps up to 500.
\<close>

theorem grid_values_exact:
  assumes "0 < s" "s \<le> 500" "- (2 ^ 45) \<le> a" "a \<le> b" "b \<le> 2 ^ 45"
  shows "range_values (int_range a b s) = Some (map (\<lambda>k. Fin (of_int (a + int k * s))) [0..<nat ((b - a) div s + 1)])"
proof -
  have "\<bar>b\<bar> \<le> 2 ^ 45" using assms by linarith
  then obtain t where t: "Fin (of_int b) + Fin (of_int s) * flr (1 / 1000) = Fin t" "of_int b \<le> t" "t < of_int b + 1"
    using range_stop_int [OF assms(1,2)] by blast
  have "\<not> Fin (of_int s) \<le> 0" using assms(1) by (simp add: zero_flt_def)
  then show ?thesis
    using values_from_int [OF assms(1) t(2,3) assms(3,5,2)] assms(1,4)
    by (simp add: range_values_def range_stop_def int_range_def t(1))
qed

text \<open>A step of a thousand reaches past the maximum: the slack of the loop is relative to the step.\<close>

lemma grid_overshoots: "range_values (int_range 0 999 1000) = Some [Fin 0, Fin 1000]"
proof -
  have "Fin (of_int 999) + Fin (of_int 1000) * flr (1 / 1000) = Fin 1000" by code_simp
  then show ?thesis
    by (subst range_values_def, subst (2) int_range_def, simp add: range_stop_def int_range_def zero_flt_def)
      (simp add: values_from.simps [of "Fin 1000"] flr_int [where n = 1000, simplified] flr_int [where n = 2000, simplified])
qed

lemma values_from_absorbed:
  assumes "c \<le> stop" "c + step = c" shows "values_from stop step c = None"
proof (cases "values_from stop step c")
  case (Some vs)
  have "x \<noteq> c \<or> stop' \<noteq> stop \<or> step' \<noteq> step" if "values_from stop' step' x = Some ys" for stop' step' x ys
  proof (rule values_from.raw_induct [OF _ that])
    fix f stop' step' x ys
    assume "\<And>stop' step' x ys. f stop' step' x = Some ys \<Longrightarrow> x \<noteq> c \<or> stop' \<noteq> stop \<or> step' \<noteq> step"
      and "(if x \<le> stop' then Option.bind (f stop' step' (x + step')) (\<lambda>vs. Some (x # vs)) else Some []) = Some ys"
    then show "x \<noteq> c \<or> stop' \<noteq> stop \<or> step' \<noteq> step"
      using assms by (auto split: if_splits simp: bind_eq_Some_conv)
  qed
  with Some show ?thesis by blast
qed simp

lemma those_None: "None \<in> set xs \<Longrightarrow> those xs = None"
  by (induction xs) (auto split: option.splits)

text \<open>
  The grid of a range need not end: when the step is so small beside the minimum that adding it changes nothing,
  the loop never leaves the minimum, and neither the list of combinations nor the search returns.
\<close>

theorem absorbed_step_never_ends:
  assumes "parse_ranges (get_key md ''param_ranges'' (PDict [])) = Inr ranges" "(name, r) \<in> set ranges"
    and "0 < pr_step r" "pr_min r + pr_step r = pr_min r" "pr_min r \<le> range_stop r"
    and "get_key md ''search_method'' (PStr ''grid'') \<noteq> PStr ''random''"
  shows "grid_run env draw md metric = None"
proof -
  have "\<not> pr_step r \<le> 0" using assms(3) by (cases "pr_step r") (auto simp: zero_flt_def)
  then have "range_values r = None"
    using values_from_absorbed [OF assms(5,4)] by (simp add: range_values_def)
  then have "None \<in> set (map (\<lambda>(_, r). range_values r) ranges)" using assms(2) by force
  then have "generate_combinations ranges = None"
    using assms(2) by (auto simp: generate_combinations_def those_None)
  then show ?thesis using assms(1,6) by (simp add: grid_run_def grid_sync_run_def search_combinations_def)
qed

section \<open>Random search\<close>

lemma attempt_keeps:
  assumes "attempt draw ranges target n k combos = Inr (b, cs)" "distinct combos" "int (length combos) \<le> max 0 target"
  shows "distinct cs \<and> int (length cs) \<le> max 0 target"
  using assms
proof (induction n arbitrary: k combos)
  case (Suc n)
  then show ?case by (auto split: if_splits option.splits)
qed simp

lemma fill_keeps:
  "distinct combos \<Longrightarrow> int (length combos) < target \<Longrightarrow>
   distinct (fill target cs combos) \<and> int (length (fill target cs combos)) \<le> target"
  by (induction cs arbitrary: combos) auto

text \<open>
  Random search stays within its budget: the combinations it returns are distinct, no more than were asked for,
  than a hundred and than the ranges have, whatever numbers are drawn.
\<close>

theorem random_search_bounded:
  assumes "ranges \<noteq> []" "generate_random_combinations draw ranges wanted = Some (Inr cs)"
  shows "distinct cs \<and> (\<exists>n. grid_size ranges = Inr n \<and> int (length cs) \<le> max 0 (min (min wanted MAX_COMBINATIONS) n))"
proof -
  from assms obtain n where n: "grid_size ranges = Inr n"
    by (auto simp: generate_random_combinations_def split: sum.splits)
  show ?thesis
  proof (cases "n \<le> 0")
    case True
    then show ?thesis using assms n by (simp add: generate_random_combinations_def)
  next
    case False
    let ?t = "min (min wanted MAX_COMBINATIONS) n"
    obtain b combos where a: "attempt draw ranges ?t (nat (max 100 (?t * 20))) 0 [] = Inr (b, combos)"
      using assms n False by (auto simp: generate_random_combinations_def Let_def split: sum.splits)
    have keep: "distinct combos \<and> int (length combos) \<le> max 0 ?t" using attempt_keeps [OF a] by simp
    from assms n False a have "cs = combos \<or> (\<exists>grid. cs = fill ?t grid combos \<and> int (length combos) < ?t)"
      by (auto simp: generate_random_combinations_def Let_def split: sum.splits bool.splits if_splits)
    then have "distinct cs \<and> int (length cs) \<le> max 0 ?t"
      using keep fill_keeps [of combos ?t] by (auto simp: max_def)
    then show ?thesis using n by blast
  qed
qed


section \<open>Ranking\<close>

lemma flt_linear: "\<not> is_nan x \<Longrightarrow> \<not> is_nan y \<Longrightarrow> x < y \<or> y \<le> x"
  by (cases x; cases y) auto

lemma set_insert_desc [simp]: "set (insert_desc key x ys) = insert x (set ys)"
  by (induction ys) auto

lemma mset_insert_desc [simp]: "mset (insert_desc key x ys) = add_mset x (mset ys)"
  by (induction ys) auto

lemma sorted_insert_desc:
  assumes "sorted_wrt (\<lambda>a b. key b \<le> key a) ys" "\<not> is_nan (key x)" "\<forall>y \<in> set ys. \<not> is_nan (key y)"
  shows "sorted_wrt (\<lambda>a b. key b \<le> key a) (insert_desc key x ys)"
  using assms
proof (induction ys)
  case (Cons y ys)
  show ?case
  proof (cases "key x < key y")
    case True
    then show ?thesis using Cons flt_less_imp_le by auto
  next
    case False
    then have "key y \<le> key x" using flt_linear Cons.prems(2,3) by (metis list.set_intros(1))
    then show ?thesis using False Cons.prems flt_trans by fastforce
  qed
qed simp

lemma sort_desc:
  "mset (foldr (insert_desc key) xs []) = mset xs"
  "\<forall>x \<in> set xs. \<not> is_nan (key x) \<Longrightarrow> sorted_wrt (\<lambda>a b. key b \<le> key a) (foldr (insert_desc key) xs [])"
proof -
  have m: "mset (foldr (insert_desc key) ys []) = mset ys" for ys by (induction ys) auto
  show "mset (foldr (insert_desc key) xs []) = mset xs" by (rule m)
  assume "\<forall>x \<in> set xs. \<not> is_nan (key x)"
  then show "sorted_wrt (\<lambda>a b. key b \<le> key a) (foldr (insert_desc key) xs [])"
  proof (induction xs)
    case (Cons x xs)
    have "set (foldr (insert_desc key) xs []) = set xs" using m [of xs] by (metis set_mset_mset)
    then show ?case using Cons by (auto intro!: sorted_insert_desc)
  qed simp
qed

lemma ranking_descends: "\<not> sort_ascending (ranking_of metric)"
proof -
  have "list_all (\<lambda>m. \<not> sort_ascending m) (''sharpe_ratio'' # RANKING_METRICS)" by code_simp
  then show ?thesis by (auto simp: ranking_of_def is_ranking_metric_def list_all_iff)
qed

lemma metric_of_rank [simp]: "metric_of m (r\<lparr>or_rank := i\<rparr>) = metric_of m r"
  by (simp add: metric_of_def)

definition unranked :: "OptimizationResult \<Rightarrow> OptimizationResult" where
  "unranked r = r\<lparr>or_rank := 0\<rparr>"

lemma sort_results_ranking: "sort_results (ranking_of metric) rs = foldr (insert_desc (metric_of (ranking_of metric))) rs []"
  using ranking_descends by (simp add: sort_results_def)

lemma sorted_rank_results:
  assumes "\<forall>r \<in> set rs. \<not> is_nan (metric_of (ranking_of metric) r)"
  shows "sorted_wrt (\<lambda>a b. metric_of (ranking_of metric) b \<le> metric_of (ranking_of metric) a)
           (rank_results (sort_results (ranking_of metric) rs))"
proof -
  let ?P = "\<lambda>a b. metric_of (ranking_of metric) b \<le> metric_of (ranking_of metric) a"
  have "sorted_wrt ?P (map snd (enumerate 1 (sort_results (ranking_of metric) rs)))"
    using sort_desc(2) [OF assms] by (simp add: sort_results_ranking)
  then show ?thesis by (simp only: rank_results_def sorted_wrt_map case_prod_beta metric_of_rank)
qed

lemma mset_rank_results:
  "mset (map unranked (rank_results (sort_results (ranking_of metric) rs))) = mset (map unranked rs)"
proof -
  have "map unranked (rank_results ss) = map unranked (map snd (enumerate 1 ss))" for ss
    unfolding rank_results_def map_map by (rule map_cong) (auto simp: unranked_def)
  then show ?thesis by (simp add: sort_results_ranking sort_desc(1) del: mset_map) (simp add: sort_desc(1))
qed


section \<open>The course of a job\<close>

lemma progress_pct_bounds:
  assumes "0 \<le> d" "d \<le> n" "0 < n" shows "\<exists>p. progress_pct d n = Inr p \<and> 0 \<le> p \<and> p \<le> 100"
proof -
  have "\<exists>q. flr (of_int d / of_int n) = Fin q \<and> 0 \<le> q \<and> q \<le> 1"
    by (rule flr_between) (use assms in \<open>auto intro: flr_dyadic [where m = 128]\<close>)
  then obtain q where q: "flr (of_int d / of_int n) = Fin q" "0 \<le> q" "q \<le> 1" by blast
  have "\<exists>p. flr (q * 100) = Fin p \<and> 0 \<le> p \<and> p \<le> 100"
    by (rule flr_between) (use q in \<open>auto intro: flr_dyadic [where m = 12800]\<close>)
  then obtain p where p: "flr (q * 100) = Fin p" "0 \<le> p" "p \<le> 100" by blast
  have "0 \<le> \<lfloor>p\<rfloor> \<and> \<lfloor>p\<rfloor> \<le> 100" using p by (simp add: floor_le_iff)
  then show ?thesis using assms(3) q p by (simp add: progress_pct_def int_div_def)
qed

text \<open>An update inside a run, and the one that ends it.\<close>

fun quiet_field :: "job_field \<Rightarrow> bool" where
  "quiet_field (JStatus s) = (s \<notin> set TERMINAL)"
| "quiet_field (JProgress p) = (0 \<le> p \<and> p \<le> 100)"
| "quiet_field _ = True"

fun plain_field :: "job_field \<Rightarrow> bool" where
  "plain_field (JStatus s) = False"
| "plain_field (JProgress p) = (0 \<le> p \<and> p \<le> 100)"
| "plain_field _ = True"

fun ending :: "job_update \<Rightarrow> bool" where
  "ending (JStatus s # rest) = (s \<in> set TERMINAL \<and> list_all plain_field rest)"
| "ending _ = False"

definition job_open :: "OptimizationJob \<Rightarrow> bool" where
  "job_open j \<longleftrightarrow> \<not> terminal j \<and> 0 \<le> oj_progress_pct j \<and> oj_progress_pct j \<le> 100"

lemma quiet_keeps_open: "list_all quiet_field u \<Longrightarrow> job_open j \<Longrightarrow> job_open (update_job u j)"
  unfolding update_job_def
proof (induction u arbitrary: j)
  case (Cons f u)
  then have "job_open (set_field f j)" by (cases f) (auto simp: job_open_def terminal_def)
  then show ?case using Cons by simp
qed simp

lemma quiets_keep_open: "list_all (list_all quiet_field) us \<Longrightarrow> job_open j \<Longrightarrow> job_open (fold update_job us j)"
  by (induction us arbitrary: j) (auto simp: quiet_keeps_open)

lemma ending_ends:
  assumes "ending u" "job_open j"
  shows "terminal (update_job u j) \<and> 0 \<le> oj_progress_pct (update_job u j) \<and> oj_progress_pct (update_job u j) \<le> 100"
proof -
  have plain: "oj_status (fold set_field fs k) = oj_status k \<and>
      (0 \<le> oj_progress_pct k \<and> oj_progress_pct k \<le> 100 \<longrightarrow>
         0 \<le> oj_progress_pct (fold set_field fs k) \<and> oj_progress_pct (fold set_field fs k) \<le> 100)"
    if "list_all plain_field fs" for fs k
    using that
  proof (induction fs arbitrary: k)
    case (Cons f fs)
    then show ?case by (cases f) force+
  qed simp
  show ?thesis using assms
    by (cases u rule: ending.cases) (auto simp: update_job_def terminal_def job_open_def plain)
qed

definition well_run :: "job_update list \<Rightarrow> bool" where
  "well_run us \<longleftrightarrow> (\<exists>pre u. us = pre @ [u] \<and> list_all (list_all quiet_field) pre \<and> ending u)"

lemma running_open: "''running'' \<notin> set TERMINAL" "''failed'' \<in> set TERMINAL" "''completed'' \<in> set TERMINAL"
  by (simp_all add: TERMINAL_def)

lemma failed_ending [simp]: "ending (failed_update msg)"
  by (simp add: failed_update_def running_open)

lemma well_run_failed [simp]: "well_run [failed_update msg]"
  by (auto simp: well_run_def)

lemma guarded_well_run:
  assumes "case r of (us, Inr _) \<Rightarrow> well_run us | (us, Inl _) \<Rightarrow> list_all (list_all quiet_field) us"
  shows "well_run (guarded_run env what r)"
  using assms by (auto simp: guarded_run_def well_run_def split: prod.splits sum.splits)

lemma testing_quiet: "testing_update i n = Inr u \<Longrightarrow> 0 \<le> i \<Longrightarrow> i \<le> n \<Longrightarrow> 0 < n \<Longrightarrow> list_all quiet_field u"
  using progress_pct_bounds [of i n] by (auto simp: testing_update_def)

lemma grid_over_well_run:
  assumes "grid_over env md metric combos frame = Inr us" "combos \<noteq> []" "list_all quiet_field started"
  shows "well_run (started # us)"
proof -
  obtain ts u where us: "us = ts @ [u]" "ending u"
    and ts: "emap (\<lambda>(i, _). testing_update (int i) (int (length combos))) (enumerate 0 combos) = Inr ts"
    using assms(1) by (auto simp: grid_over_def Let_def running_open)
  have "\<exists>i < length combos. testing_update (int i) (int (length combos)) = Inr t" if "t \<in> set ts" for t
  proof -
    have "\<exists>x \<in> set xs. f x = Inr y" if "emap f xs = Inr ys" "y \<in> set ys" for f :: "nat \<times> combination \<Rightarrow> job_update result" and xs ys y
      using that by (induction xs arbitrary: ys) auto
    from this [OF ts that] show ?thesis by (auto simp: in_set_enumerate_eq)
  qed
  then have "list_all (list_all quiet_field) ts"
    using testing_quiet assms(2) by (fastforce simp: list_all_iff)
  then show ?thesis using us assms(3) unfolding well_run_def by (intro exI [of _ "started # ts"] exI [of _ u]) simp
qed

lemma grid_run_well_run:
  assumes "grid_run env draw md metric = Some us" shows "well_run us"
proof -
  obtain r where r: "grid_sync_run env draw md metric = Some r" and us: "us = guarded_run env ''Optimization failed: '' r"
    using assms by (auto simp: grid_run_def)
  have g: "case r of (us, Inr _) \<Rightarrow> well_run us | (us, Inl _) \<Rightarrow> list_all (list_all quiet_field) us"
    if "r = grid_combinations env md metric combos" for combos
    using grid_over_well_run [of env md metric combos] running_open unfolding that
    by (auto simp: grid_combinations_def Let_def split: sum.splits)
  consider e where "r = ([], Inl e)" | combos where "r = grid_combinations env md metric combos"
    using r by (auto simp: grid_sync_run_def split: sum.splits option.splits)
  then show "well_run us"
  proof cases
    case (2 combos)
    show ?thesis unfolding us by (rule guarded_well_run [OF g [OF 2]])
  qed (simp add: us guarded_run_def)
qed

text \<open>
  C19. A search that returns ends its job exactly once: all updates but the last leave the job unfinished, the last one
  makes it completed or failed, and the progress stays between 0 and 100 throughout.
\<close>

theorem grid_run_ends_once:
  assumes "grid_run env draw md metric = Some us"
  shows "us \<noteq> [] \<and>
         (\<forall>n < length us. job_open (fold update_job (take n us) (new_job job_id metric md now))) \<and>
         terminal (fold update_job us (new_job job_id metric md now)) \<and>
         oj_progress_pct (fold update_job us (new_job job_id metric md now)) \<in> {0..100}"
proof -
  obtain pre u where us: "us = pre @ [u]" "list_all (list_all quiet_field) pre" "ending u"
    using grid_run_well_run [OF assms] by (auto simp: well_run_def)
  define j where "j = new_job job_id metric md now"
  have j: "job_open j" by (simp add: j_def new_job_def job_open_def terminal_def TERMINAL_def)
  have "job_open (fold update_job (take n us) j)" if "n < length us" for n
  proof -
    have "take n us = take n pre" using that us(1) by simp
    moreover have "list_all (list_all quiet_field) (take n pre)"
      using us(2) by (metis append_take_drop_id list_all_append)
    ultimately show ?thesis using quiets_keep_open j by metis
  qed
  moreover have "job_open (fold update_job pre j)" using quiets_keep_open [OF us(2) j] .
  ultimately show ?thesis using ending_ends [OF us(3)] us(1) unfolding j_def by simp
qed

end
