(* ===== verification/OptimizerProperties.thy ===== *)
theory OptimizerProperties
  imports GridProperties
begin

text \<open>
  Properties of the optimisers on the engine of the service, of the walk-forward windows, of the ranks of a
  fold and of the aggregated figures.
\<close>

section \<open>The engine of the service under the optimiser\<close>

lemma run_loop_all_warmup:
  assumes "run_loop c step rows st initial rpt first = Inr (b, st')" "length rows \<le> first"
  shows "trades (bk_state b) = []"
  using assms(1)
proof (rule run_loopE)
  fix b0 x d
  assume r: "run_bars c step rpt first rows (initial_book c initial, st) = Inr (b0, st')" and l: "liquidate_open c x d b0 = Inr b"
  have b0: "b0 = initial_book c initial" using run_bars_warmup [OF r assms(2)] by simp
  have "feq (p_size (position (bk_state b0))) 0"
    by (simp add: b0 initial_book_def new_state_def new_position_def feq_def zero_flt_def)
  then have "b = b0" using l by (simp add: liquidate_open_def)
  then show ?thesis by (simp add: b0 initial_book_def new_state_def)
qed

lemma runner_all_warmup:
  assumes "BacktestRunner.run pd fpow frame strategy st initial params = Inr (r, st')"
    and "params ''warmup_bars'' = Some (PInt (int w))" "length (fr_rows frame) \<le> w"
  shows "case r of ErrorResult _ \<Rightarrow> True | Report p \<Rightarrow> m_total_trades (rp_metrics p) = 0"
proof (cases r)
  case (Report p)
  have "pop_or params ''warmup_bars'' (PInt 0) (PInt 0) = PInt (int w)"
    using assms(2) by (simp add: pop_or_def get_or_def py_or_def)
  with assms(1) Report obtain risk c b st1 interval ft where
    l: "run_loop c (ts_on_bar strategy) (fr_rows frame) (ts_reset strategy st) initial risk w = Inr (b, st1)" and
    b: "build fpow (ts_meta_name strategy st1) (bk_state b) initial interval (int w) ft c = Inr p"
    by (auto simp: run_def Let_def split: if_splits option.splits prod.splits)
  have "trades (bk_state b) = []" using run_loop_all_warmup [OF l assms(3)] .
  moreover obtain ms where "compute_metrics fpow (bk_state b) initial c interval = Inr ms" "rp_metrics p = ms"
    by (rule buildE [OF b])
  ultimately show ?thesis using compute_metrics_counts(2) Report by fastforce
qed simp

definition drop_rows :: "nat \<Rightarrow> BarFrame \<Rightarrow> BarFrame" where
  "drop_rows n frame = frame\<lparr>fr_rows := drop n (fr_rows frame)\<rparr>"

lemma metrics_of_no_trades:
  assumes "metrics_from_raw params (raw_of r) = Inr x"
    and "case r of ErrorResult _ \<Rightarrow> True | Report p \<Rightarrow> m_total_trades (rp_metrics p) = 0"
  shows "or_total_trades x = 0"
proof -
  have "py_or (get_key (raw_of r) ''total_trades'' (PInt 0)) (PInt 0) = PInt 0"
    using assms(2) by (cases r) (simp_all add: raw_of_def get_key_def py_or_def)
  then show ?thesis using assms(1) by (auto simp: metrics_from_raw_def)
qed

lemma runner_engine_warmup:
  assumes "runner_engine pd fpow create (drop_rows w frame) df starting ((''warmup_bars'', PInt (int w)) # params) = Inr raw"
    and "length (fr_rows frame) \<le> 2 * w" "metrics_from_raw combo raw = Inr x"
  shows "or_total_trades x = 0"
proof -
  obtain initial r st' where r: "BacktestRunner.run pd fpow (drop_rows w frame) (fst (create df)) (snd (create df)) initial
      (map_of ((''warmup_bars'', PInt (int w)) # params)) = Inr (r, st')" "raw = raw_of r"
    using assms(1) by (auto simp: runner_engine_def)
  have "length (fr_rows (drop_rows w frame)) \<le> w" using assms(2) by (simp add: drop_rows_def)
  then show ?thesis using metrics_of_no_trades runner_all_warmup [OF r(1)] assms(3) r(2) by simp
qed

text \<open>
  C21. The optimiser skips the warmup twice: it cuts the warmup bars off the frame and then tells the engine to skip
  as many again, so a combination tested on a frame of at most twice the warmup never trades, although every bar
  after the warmup is tradable.
\<close>

theorem optimizer_skips_warmup_twice:
  assumes "oe_engine env = runner_engine pd fpow create" "oe_skip env = drop_rows"
    and "oe_parse env definition' params = Inr v" "vr_valid v" "vr_definition v = Some df"
    and "with_features env df base = Inr frame" "oe_warmup env frame (vr_required_columns v) = Inr w"
    and "length (fr_rows frame) \<le> 2 * wu_warmup_bars w"
  shows "or_total_trades (backtest_one env definition' params md base) = 0"
proof -
  have skip: "(if 0 < wu_warmup_bars w then drop_rows (wu_warmup_bars w) frame else frame) = drop_rows (wu_warmup_bars w) frame"
    by (simp add: drop_rows_def)
  have fail: "or_total_trades (mk_result p e) = 0" for p e by (simp add: mk_result_def)
  have "or_total_trades (guarded env params
      (run_on_frame env ''Missing columns: '' (Inr (get_key md ''initial_cash'' (PInt 10000))) params md v df frame)) = 0"
    unfolding run_on_frame_def Let_def assms(1,2,7) ebind_Inr skip
    using runner_engine_warmup [OF _ assms(8)]
    by (auto simp: guarded_def fail ebind_def split: sum.splits)
  then show ?thesis using assms(3-6) by (simp add: backtest_one_def)
qed

text \<open>
  A backtest the engine refuses is ranked first: the error text in the answer of the engine is not read, the missing
  profit factor counts as infinite, and in a ranking by profit factor the refused combination comes before every
  combination with a finite one.
\<close>

theorem engine_error_ranks_first:
  assumes "metrics_from_raw params (raw_of (ErrorResult msg)) = Inr r" "is_finite (or_profit_factor s)"
    and "\<forall>x \<in> set rs. \<not> is_nan (or_profit_factor x)"
    and "i < length rs" "j < length rs"
    and "unranked (rank_results (sort_results (ranking_of ''profit_factor'') rs) ! i) = r"
    and "unranked (rank_results (sort_results (ranking_of ''profit_factor'') rs) ! j) = unranked s"
  shows "or_error r = None \<and> i < j"
proof -
  let ?R = "rank_results (sort_results (ranking_of ''profit_factor'') rs)"
  have pf: "ranking_of ''profit_factor'' = ''profit_factor''" by code_simp
  have m: "metric_of ''profit_factor'' x = or_profit_factor (unranked x)" for x by (simp add: metric_of_def unranked_def)
  have r: "or_profit_factor r = PosInf" "or_error r = None"
    using assms(1) by (auto simp: metrics_from_raw_def raw_of_def get_key_def parse_profit_factor_def)
  have len: "length ?R = length rs"
    using arg_cong [OF mset_rank_results [of "''profit_factor''" rs], of size] by simp
  have sorted: "sorted_wrt (\<lambda>a b. metric_of ''profit_factor'' b \<le> metric_of ''profit_factor'' a) ?R"
    using sorted_rank_results [of rs "''profit_factor''"] assms(3) by (simp add: pf m unranked_def)
  have "\<not> j < i"
  proof
    assume "j < i"
    then have "metric_of ''profit_factor'' (?R ! i) \<le> metric_of ''profit_factor'' (?R ! j)"
      using sorted_wrt_nth_less [OF sorted] assms(4) len by simp
    then have "PosInf \<le> or_profit_factor (unranked s)" using assms(6,7) r(1) by (simp add: m)
    then show False using assms(2) by (cases "or_profit_factor s") (auto simp: unranked_def)
  qed
  moreover have "i \<noteq> j"
  proof
    assume "i = j"
    then have "or_profit_factor (unranked s) = PosInf" using assms(6,7) r(1) by simp
    then show False using assms(2) by (simp add: unranked_def)
  qed
  ultimately show ?thesis using r(2) by simp
qed

end
