(* ===== verification/WalkForwardProperties.thy ===== *)
theory WalkForwardProperties
  imports OptimizerProperties
begin

text \<open>
  Properties of walk-forward optimisation: where the windows lie, which folds are tested, when the ranks of a fold
  can be computed, and the range of the stability.
\<close>

section \<open>Windows\<close>

lemma int_list_cases:
  assumes "compute_fold_indices total_bars folds ratio anchor = Inr fs" "f \<in> set fs"
  obtains (anchored) i where "f = anchored_fold total_bars (total_bars div folds) i" "0 \<le> i"
  | (rolling) len i where "f = rolling_fold total_bars (total_bars div folds) len i" "0 \<le> i"
  | (closing) prev where "f = closing_fold total_bars (total_bars div folds) prev" "fi_test_end prev < total_bars"
      "fi_test_end prev \<le> fi_test_start prev + total_bars div folds"
proof -
  have rolled: "fi_test_end (rolling_fold t n len i) \<le> fi_test_start (rolling_fold t n len i) + n" for t n len i
    by (simp add: rolling_fold_def Let_def)
  show ?thesis
  proof (cases "anchor = ''anchored''")
    case True
    then show ?thesis using assms anchored by (auto simp: compute_fold_indices_def Let_def split: if_splits)
  next
    case False
    have folds: "2 \<le> folds" using assms by (auto simp: compute_fold_indices_def split: if_splits)
    from assms False obtain len where fs: "fs = (let indices = map (\<lambda>i. rolling_fold total_bars (total_bars div folds) len (int i)) [0..<nat (folds - 1)];
        prev = last indices
      in indices @ (if fi_test_end prev < total_bars then [closing_fold total_bars (total_bars div folds) prev] else []))"
      by (auto simp: compute_fold_indices_def Let_def split: if_splits)
    have "last (map (\<lambda>i. rolling_fold total_bars (total_bars div folds) len (int i)) [0..<nat (folds - 1)]) =
        rolling_fold total_bars (total_bars div folds) len (folds - 2)"
      using folds by (simp add: last_map)
    then show ?thesis using assms(2) rolling closing rolled unfolding fs Let_def by (auto split: if_splits)
  qed
qed

text \<open>Windows that are not skipped start inside the bars and follow each other.\<close>

lemma window_positions:
  assumes "compute_fold_indices total_bars folds ratio anchor = Inr fs" "f \<in> set fs"
    and "0 \<le> wc_min_train_bars cfg" "\<not> fold_skipped cfg f"
  shows "0 \<le> fi_train_start f" "fi_train_start f \<le> fi_train_end f" "fi_test_start f = fi_train_end f"
    "fi_test_start f < fi_test_end f" "fi_test_end f \<le> total_bars"
    "fi_train_count f = fi_train_end f - fi_train_start f" "fi_test_count f = fi_test_end f - fi_test_start f"
proof -
  have t: "3 \<le> total_bars" "2 \<le> folds" using assms(1,2) by (auto simp: compute_fold_indices_def split: if_splits)
  then have size: "0 \<le> total_bars div folds" by (simp add: pos_imp_zdiv_nonneg_iff)
  then have half: "0 \<le> total_bars div folds div 2" by simp
  have "0 \<le> fi_train_start f \<and> fi_train_start f \<le> fi_train_end f \<and> fi_test_start f = fi_train_end f \<and>
      fi_test_start f < fi_test_end f \<and> fi_test_end f \<le> total_bars \<and>
      fi_train_count f = fi_train_end f - fi_train_start f \<and> fi_test_count f = fi_test_end f - fi_test_start f"
    using assms(1,2)
  proof (cases rule: int_list_cases)
    case (anchored i)
    then show ?thesis using assms(3,4) size by (auto simp: anchored_fold_def Let_def fold_skipped_def)
  next
    case (rolling len i)
    then show ?thesis using assms(3,4) size half by (auto simp: rolling_fold_def Let_def fold_skipped_def)
  next
    case (closing prev)
    then show ?thesis using assms(3,4) size by (auto simp: closing_fold_def Let_def fold_skipped_def)
  qed
  then show "0 \<le> fi_train_start f" "fi_train_start f \<le> fi_train_end f" "fi_test_start f = fi_train_end f"
    "fi_test_start f < fi_test_end f" "fi_test_end f \<le> total_bars"
    "fi_train_count f = fi_train_end f - fi_train_start f" "fi_test_count f = fi_test_end f - fi_test_start f" by auto
qed

lemma py_slice_inside:
  "0 \<le> a \<Longrightarrow> a \<le> b \<Longrightarrow> b \<le> int (length xs) \<Longrightarrow> py_slice a b xs = take (nat (b - a)) (drop (nat a) xs)"
  by (simp add: py_slice_def slice_pos_def Let_def min_def nat_diff_distrib)

text \<open>
  C18. No test bar is seen in training: in every fold that is run, the training window ends where the test window
  begins, so the bars are those before the training window, the training window, the test window and the rest, in
  this order; both windows have the announced sizes and the test window is not empty.
\<close>

theorem windows_never_leak:
  assumes "compute_fold_indices (int (length bars)) folds ratio anchor = Inr fs" "f \<in> set fs"
    and "0 \<le> wc_min_train_bars cfg" "\<not> fold_skipped cfg f"
  shows "\<exists>before after.
           bars = before @ py_slice (fi_train_start f) (fi_train_end f) bars
                  @ py_slice (fi_test_start f) (fi_test_end f) bars @ after \<and>
           int (length (py_slice (fi_train_start f) (fi_train_end f) bars)) = fi_train_count f \<and>
           int (length (py_slice (fi_test_start f) (fi_test_end f) bars)) = fi_test_count f \<and>
           py_slice (fi_test_start f) (fi_test_end f) bars \<noteq> []"
proof -
  note p = window_positions [OF assms]
  define a b c where "a = nat (fi_train_start f)" and "b = nat (fi_train_end f)" and "c = nat (fi_test_end f)"
  have le: "a \<le> b" "b < c" "c \<le> length bars" using p unfolding a_def b_def c_def by linarith+
  have train: "py_slice (fi_train_start f) (fi_train_end f) bars = take (b - a) (drop a bars)"
    and test: "py_slice (fi_test_start f) (fi_test_end f) bars = take (c - b) (drop b bars)"
    using p by (simp_all add: py_slice_inside a_def b_def c_def nat_diff_distrib)
  have "bars = take a bars @ take (b - a) (drop a bars) @ take (c - b) (drop b bars) @ drop c bars"
  proof -
    have "drop b bars = take (c - b) (drop b bars) @ drop c bars"
      using le by (metis append_take_drop_id drop_drop le_add_diff_inverse2 less_imp_le)
    moreover have "drop a bars = take (b - a) (drop a bars) @ drop b bars"
      using le by (metis append_take_drop_id drop_drop le_add_diff_inverse2)
    ultimately show ?thesis by (metis append_take_drop_id)
  qed
  moreover have "int (b - a) = fi_train_count f" "int (c - b) = fi_test_count f"
    using p unfolding a_def b_def c_def by linarith+
  moreover have "take (c - b) (drop b bars) \<noteq> []" using le by simp
  ultimately show ?thesis unfolding train test using le by (intro exI [of _ "take a bars"] exI [of _ "drop c bars"]) simp
qed


text \<open>
  Rolling folds test the same bars twice: the test window of a fold starts half a window after the one before,
  which is a whole window long, so the second half of each window is tested again by the next fold, and the compounded
  out-of-sample return counts the return over those bars twice.
\<close>

theorem rolling_tests_overlap:
  assumes "compute_fold_indices total_bars folds ratio anchor = Inr fs" "anchor \<noteq> ''anchored''"
    and "Suc i < nat (folds - 1)" "folds \<le> total_bars" "fi_test_end (fs ! i) < total_bars"
  shows "fi_test_start (fs ! i) \<le> fi_test_start (fs ! Suc i) \<and>
         fi_test_end (fs ! i) - fi_test_start (fs ! Suc i) = total_bars div folds - total_bars div folds div 2 \<and>
         0 < fi_test_end (fs ! i) - fi_test_start (fs ! Suc i)"
proof (cases "total_bars < 3")
  case True
  then show ?thesis using assms by (simp add: compute_fold_indices_def)
next
  case False
  let ?n = "total_bars div folds"
  have folds: "2 \<le> folds" using assms(3) by simp
  have size: "1 \<le> ?n" using assms(4) folds by (simp add: pos_imp_zdiv_pos_iff int_one_le_iff_zero_less)
  from assms False folds obtain len where "fs ! i = rolling_fold total_bars ?n len (int i)"
      "fs ! Suc i = rolling_fold total_bars ?n len (int (Suc i))"
    by (auto simp: compute_fold_indices_def Let_def nth_append simp del: of_nat_Suc)
  then show ?thesis using assms(5) size by (auto simp: rolling_fold_def Let_def algebra_simps)
qed

text \<open>
  The configured minimum of test bars counts the executable folds and nothing else: here one fold is executable,
  five are run, and the progress passes a hundred.
\<close>

lemma min_test_bars_ignored:
  "\<exists>fs. compute_fold_indices 60 5 (flr (7 / 10)) ''rolling'' = Inr fs \<and>
     executable_folds (default_wf_config\<lparr>wc_min_train_bars := 5, wc_min_test_bars := 20\<rparr>) fs = 1 \<and>
     filter (fold_skipped (default_wf_config\<lparr>wc_min_train_bars := 5, wc_min_test_bars := 20\<rparr>)) fs = [] \<and>
     length fs = 5 \<and> wf_progress 4 1 = Inr 400"
proof -
  have "case compute_fold_indices 60 5 (flr (7 / 10)) ''rolling'' of Inl _ \<Rightarrow> False
        | Inr fs \<Rightarrow> executable_folds (default_wf_config\<lparr>wc_min_train_bars := 5, wc_min_test_bars := 20\<rparr>) fs = 1 \<and>
            filter (fold_skipped (default_wf_config\<lparr>wc_min_train_bars := 5, wc_min_test_bars := 20\<rparr>)) fs = [] \<and>
            length fs = 5"
    by code_simp
  moreover have "wf_progress 4 1 = Inr 400" by code_simp
  ultimately show ?thesis by (auto split: sum.splits)
qed

section \<open>Ranks\<close>

lemma isclose_NaN [simp]: "\<not> isclose r NaN x" "\<not> isclose r x NaN"
  by (cases x; simp add: isclose_def feq_def minus_flt_def; cases r; simp)+

lemma is_nan_iff: "is_nan x \<longleftrightarrow> x = NaN"
  by (cases x) auto

lemma no_nan_iff: "(\<forall>(v, k) \<in> A. \<not> is_nan v) \<longleftrightarrow> \<not> (\<exists>k. (NaN, k) \<in> A)"
  by (auto simp: is_nan_iff)

lemma tied_NaN: "tied ((NaN, k) # xs) = 0"
  by (simp add: tied_def)

lemma tied_pos: "\<not> is_nan v \<Longrightarrow> 0 < tied ((v, k) # xs)"
  by (simp add: tied_def isclose_refl is_nan_iff)

lemma rank_from_stuck:
  assumes "xs \<noteq> []" "tied xs = 0" shows "rank_from i xs = None"
proof (cases "rank_from i xs")
  case (Some rs)
  have "j \<noteq> i \<or> ys \<noteq> xs" if "rank_from j ys = Some rs" for j ys rs
  proof (rule rank_from.raw_induct [OF _ that])
    fix f j ys rs
    assume "\<And>j ys rs. f j ys = Some rs \<Longrightarrow> j \<noteq> i \<or> ys \<noteq> xs"
      and "(if ys = [] then Some []
            else Option.bind (f (j + tied ys) (drop (tied ys) ys)) (\<lambda>rest.
                   Some (map (\<lambda>(_, k). (k, average_rank j (j + tied ys))) (take (tied ys) ys) @ rest))) = Some rs"
    moreover from this(2) assms have "\<exists>r. f i xs = Some r" if "j = i" "ys = xs"
      using that by (auto simp: bind_eq_Some_conv)
    ultimately show "j \<noteq> i \<or> ys \<noteq> xs" by blast
  qed
  with Some show ?thesis by blast
qed simp

lemma NaN_survives: "(NaN, k) \<in> set xs \<Longrightarrow> (NaN, k) \<in> set (drop (tied xs) xs)"
proof -
  assume "(NaN, k) \<in> set xs"
  moreover have "set xs = set (take (tied xs) xs) \<union> set (drop (tied xs) xs)" by (metis append_take_drop_id set_append)
  moreover have "take (tied xs) xs = takeWhile (\<lambda>(v, _). isclose rank_tolerance v (fst (hd xs))) xs"
    unfolding tied_def by (rule takeWhile_eq_take [symmetric])
  then have "(NaN, k) \<notin> set (take (tied xs) xs)" by (auto dest: set_takeWhileD)
  ultimately show ?thesis by blast
qed

lemma rank_from_ends: "(\<exists>rs. rank_from i xs = Some rs) \<longleftrightarrow> (\<forall>(v, k) \<in> set xs. \<not> is_nan v)"
proof (induction "length xs" arbitrary: i xs rule: less_induct)
  case less
  show ?case
  proof (cases xs)
    case Nil
    then show ?thesis by (subst rank_from.simps) simp
  next
    case (Cons p ps)
    obtain v k where p: "p = (v, k)" by fastforce
    show ?thesis
    proof (cases "is_nan v")
      case True
      then have "v = NaN" by (cases v) auto
      then show ?thesis using rank_from_stuck [of xs i] Cons p True by (auto simp: tied_NaN)
    next
      case False
      have pos: "0 < tied xs" using tied_pos [OF False] Cons p by simp
      then have "(\<exists>rs. rank_from (i + tied xs) (drop (tied xs) xs) = Some rs) \<longleftrightarrow>
          (\<forall>(v, k) \<in> set (drop (tied xs) xs). \<not> is_nan v)"
        using Cons by (intro less) simp
      moreover have "(\<forall>(v, k) \<in> set (drop (tied xs) xs). \<not> is_nan v) \<longleftrightarrow> (\<forall>(v, k) \<in> set xs. \<not> is_nan v)"
        unfolding no_nan_iff using NaN_survives [of _ xs] by (auto dest: in_set_dropD)
      ultimately show ?thesis using Cons by (subst rank_from.simps) (auto simp: bind_eq_Some_conv)
    qed
  qed
qed

lemma set_sorted_scores: "fst ` set (sorted_scores values) = set values"
proof -
  have "set (foldr (insert_desc fst) xs []) = set xs" for xs :: "(flt \<times> nat) list" by (induction xs) auto
  then have "fst ` set (sorted_scores values) = snd ` set (enumerate 0 values)"
    by (simp add: sorted_scores_def image_image case_prod_beta)
  also have "\<dots> = set values" by (metis list.set_map map_snd_enumerate)
  finally show ?thesis .
qed

text \<open>
  The ranks of a fold are computed exactly when no score is NaN; then there is one rank per score.  On a NaN the
  loop does not advance and never ends.
\<close>

theorem rank_values_ends:
  "(case rank_values scores of Some ranks \<Rightarrow> length ranks = length scores | None \<Rightarrow> NaN \<in> set scores) \<and>
   ((\<exists>ranks. rank_values scores = Some ranks) \<longleftrightarrow> NaN \<notin> set scores)"
proof -
  have "(\<exists>k. (NaN, k) \<in> set (sorted_scores scores)) \<longleftrightarrow> NaN \<in> set scores"
    using set_sorted_scores [of scores] by force
  then have ends: "(\<exists>rs. rank_from 0 (sorted_scores scores) = Some rs) \<longleftrightarrow> NaN \<notin> set scores"
    unfolding rank_from_ends no_nan_iff by simp
  have len: "length (fold (\<lambda>(k, r) rs. rs[k := r]) ps rs) = length rs" for ps :: "(nat \<times> flt) list" and rs
    by (induction ps arbitrary: rs) auto
  show ?thesis using ends by (auto simp: rank_values_def len split: option.splits)
qed

section \<open>Stability\<close>

lemma count_stable_le: "count_stable values = Inr n \<Longrightarrow> n \<le> length values"
proof -
  have len: "emap f xs = Inr ys \<Longrightarrow> length ys = length xs" for f :: "flt \<Rightarrow> bool result" and xs ys
    by (induction xs arbitrary: ys) auto
  assume "count_stable values = Inr n"
  then show ?thesis
    by (auto simp: count_stable_def Let_def dest!: len split: if_splits) (metis length_filter_le)
qed

lemma stability_steps:
  assumes "efold (stability_step folds) names (a, b) = Inr (c, d)" "a \<le> b"
  shows "c \<le> d"
proof -
  have "case st of (a, b) \<Rightarrow> a \<le> b" if "efold (stability_step folds) names s = Inr st" "case s of (a, b) \<Rightarrow> a \<le> b" for s st
    using that by (rule efold_invariant [rotated]) (auto simp: stability_step_def dest!: count_stable_le)
  then show ?thesis using assms by fastforce
qed

text \<open>The stability of the parameters is a fraction: it lies between 0 and 1 for every list of folds.\<close>

theorem stability_is_fraction:
  assumes "compute_stability folds = Inr s" shows "0 \<le> s \<and> s \<le> 1"
proof (cases "length folds < 2 \<or> param_names folds = []")
  case True
  then show ?thesis using assms by (auto simp: compute_stability_def one_flt_def zero_flt_def split: if_splits)
next
  case False
  then obtain c d where e: "efold (stability_step folds) (param_names folds) (0, 0) = Inr (c, d)"
    and s: "(if 0 < d then int_div (int c) (int d) else Inr 1) = Inr s"
    using assms by (auto simp: compute_stability_def)
  have le: "c \<le> d" using stability_steps [OF e] by simp
  show ?thesis
  proof (cases "0 < d")
    case True
    have "\<exists>q. flr (of_int (int c) / of_int (int d)) = Fin q \<and> 0 \<le> q \<and> q \<le> 1"
      by (rule flr_between) (use True le in \<open>auto intro: flr_dyadic [where m = 128]\<close>)
    then show ?thesis using s True by (auto simp: int_div_def one_flt_def zero_flt_def)
  qed (use s in \<open>auto simp: one_flt_def zero_flt_def\<close>)
qed


section \<open>Failed combinations\<close>

lemma metrics_from_raw_no_error: "metrics_from_raw params raw = Inr r \<Longrightarrow> or_error r = None"
  by (auto simp: metrics_from_raw_def)

lemma failed_has_no_metric:
  assumes "or_error (backtest_with_bars env definition' params bars md base) \<noteq> None"
  shows "metric_of m (backtest_with_bars env definition' params bars md base) = 0"
proof -
  have zero: "metric_of m (mk_result p e) = 0" for p e by (simp add: metric_of_def mk_result_def)
  have f: "or_error r = None \<or> metric_of m r = 0" if "run_on_frame env t c p md v df frame = Inr r" for r t c p v df and frame
    using that by (auto simp: run_on_frame_def Let_def zero dest: metrics_from_raw_no_error split: if_splits)
  have g: "or_error r = None \<or> metric_of m r = 0"
    if "window_backtest env t u definition' params bars md base = Inr r" for r t u
    using that by (auto simp: window_backtest_def zero dest: f split: option.splits if_splits)
  then show ?thesis using assms by (auto simp: backtest_with_bars_def guarded_def zero dest: g split: sum.splits)
qed

text \<open>
  A failed combination beats every losing one: its metric counts as zero, so when all the combinations that could be
  tested have a negative metric, the search on a training window answers with a failure, and the fold is lost.
\<close>

theorem failed_combination_wins:
  assumes "search_window env definition' bars metric md frame ranges combos = Inr (Some best, sens)"
    and "bars \<noteq> []" "length combos \<le> 100"
    and "c \<in> set combos" "or_error (backtest_with_bars env definition' c bars md frame) \<noteq> None"
    and "\<forall>p \<in> set combos. or_error (backtest_with_bars env definition' p bars md frame) = None \<longrightarrow>
           metric_of (resolve_metric metric) (backtest_with_bars env definition' p bars md frame) < 0"
  shows "or_error best \<noteq> None"
proof
  assume none: "or_error best = None"
  define rs where "rs = map (\<lambda>p. backtest_with_bars env definition' p bars md frame) combos"
  have ranking: "resolve_metric metric = ranking_of metric"
    by (simp add: resolve_metric_def ranking_of_def is_ranking_metric_def)
  have nonpos: "metric_of (ranking_of metric) r = 0 \<or> metric_of (ranking_of metric) r < 0" if "r \<in> set rs" for r
    using that assms(6) failed_has_no_metric unfolding rs_def ranking by fastforce
  have nn: "\<forall>r \<in> set rs. \<not> is_nan (metric_of (ranking_of metric) r)"
    using nonpos by (fastforce simp: is_nan_iff zero_flt_def)
  obtain ss where ss: "sort_results (ranking_of metric) rs = best # ss"
    using assms(1-3) unfolding search_window_def Let_def ranking rs_def [symmetric] by (auto split: list.splits)
  have "set (sort_results (ranking_of metric) rs) = set rs"
    using sort_desc(1) by (metis sort_results_ranking set_mset_mset)
  then have mem: "best \<in> set rs" "backtest_with_bars env definition' c bars md frame \<in> set (best # ss)"
    using ss assms(4) by (auto simp: rs_def)
  then have neg: "metric_of (ranking_of metric) best < 0"
    using none assms(6) unfolding rs_def ranking by auto
  have "sorted_wrt (\<lambda>a b. metric_of (ranking_of metric) b \<le> metric_of (ranking_of metric) a) (best # ss)"
    using sort_desc(2) [OF nn] ss by (simp add: sort_results_ranking)
  then have "metric_of (ranking_of metric) (backtest_with_bars env definition' c bars md frame) \<le> metric_of (ranking_of metric) best"
    using mem(2) neg by (cases "metric_of (ranking_of metric) best") (auto simp: zero_flt_def)
  then show False using failed_has_no_metric [OF assms(5)] neg
    by (cases "metric_of (ranking_of metric) best") (auto simp: zero_flt_def)
qed

end
