(* ===== verification/JobProperties.thy ===== *)
theory JobProperties
  imports OptimizationJobs "HOL-Library.Transitive_Closure_Table"
begin

text \<open>
  Properties of optimisation jobs: what the store keeps when a job is started, and what a request to cancel
  means for a job whose worker is still running.
\<close>

section \<open>The store\<close>

lemma update_fresh: "k \<notin> fst ` set kvs \<Longrightarrow> AList.update k v kvs = kvs @ [(k, v)]"
  by (induction kvs) auto

lemma drop_job_simps [simp]:
  "jm_jobs (drop_job i m) = AList.delete i (jm_jobs m)" "jm_max_jobs (drop_job i m) = jm_max_jobs m"
  by (simp_all add: drop_job_def)

lemma jobs_ok_drop: "jobs_ok m \<Longrightarrow> jobs_ok (drop_job i m)"
  by (auto simp: jobs_ok_def AList.delete_eq distinct_map_filter)

lemma running_drop:
  assumes "jobs_ok m" "\<And>j. (i, j) \<in> set (jm_jobs m) \<Longrightarrow> terminal j"
  shows "running_jobs (drop_job i m) = running_jobs m"
  using assms(2) by (auto simp: running_jobs_def AList.delete_eq intro!: filter_cong)

text \<open>A pass that only drops finished jobs of the store keeps the others.\<close>

definition drops_finished :: "OptimizationJobManager \<Rightarrow> OptimizationJobManager \<Rightarrow> bool" where
  "drops_finished m m' \<longleftrightarrow>
     jobs_ok m' \<and> jm_max_jobs m' = jm_max_jobs m \<and> running_jobs m' = running_jobs m \<and> set (jm_jobs m') \<subseteq> set (jm_jobs m)"

lemma drops_finished_refl: "jobs_ok m \<Longrightarrow> drops_finished m m"
  by (simp add: drops_finished_def)

lemma drops_finished_trans: "drops_finished m m' \<Longrightarrow> drops_finished m' m'' \<Longrightarrow> drops_finished m m''"
  by (auto simp: drops_finished_def)

lemma drops_finished_drop:
  assumes "jobs_ok m" "\<And>j. (i, j) \<in> set (jm_jobs m) \<Longrightarrow> terminal j"
  shows "drops_finished m (drop_job i m)"
  using jobs_ok_drop [OF assms(1)] running_drop [OF assms]
  by (auto simp: drops_finished_def AList.delete_eq)

lemma job_unique: "jobs_ok m \<Longrightarrow> (i, j) \<in> set (jm_jobs m) \<Longrightarrow> (i, j') \<in> set (jm_jobs m) \<Longrightarrow> j = j'"
  by (meson eq_key_imp_eq_value jobs_ok_def)

lemma drops_finished_fold:
  assumes "jobs_ok m" "\<And>x n. x \<in> set xs \<Longrightarrow> drops_finished m n \<Longrightarrow> drops_finished n (f x n)"
  shows "drops_finished m (fold f xs m)"
proof -
  have "drops_finished m n \<Longrightarrow> set ys \<subseteq> set xs \<Longrightarrow> drops_finished m (fold f ys n)" for ys n
  proof (induction ys arbitrary: n)
    case (Cons y ys)
    have "drops_finished n (f y n)" using assms(2) Cons.prems by simp
    with Cons.prems(1) have "drops_finished m (f y n)" by (rule drops_finished_trans)
    then show ?case using Cons.IH Cons.prems(2) by simp
  qed simp
  then show ?thesis using drops_finished_refl [OF assms(1)] by blast
qed

lemma cleanup_drops_finished:
  assumes "jobs_ok m" shows "drops_finished m (cleanup_expired now m)"
  unfolding cleanup_expired_def
proof (rule drops_finished_fold [OF assms])
  fix i n assume "i \<in> set (expired m now)" "drops_finished m n"
  then obtain j where "(i, j) \<in> set (jm_jobs m)" "terminal j" by (auto simp: expired_def)
  then have "terminal j'" if "(i, j') \<in> set (jm_jobs n)" for j'
    using job_unique [OF assms] that \<open>drops_finished m n\<close> by (auto simp: drops_finished_def)
  then show "drops_finished n (drop_job i n)"
    using \<open>drops_finished m n\<close> by (intro drops_finished_drop) (auto simp: drops_finished_def)
qed

lemma snd_jobs: "jobs_ok m \<Longrightarrow> j \<in> set (map snd (jm_jobs m)) \<longleftrightarrow> (oj_job_id j, j) \<in> set (jm_jobs m)"
  by (force simp: jobs_ok_def)

lemma drop_if_full_drops_finished:
  assumes "jobs_ok m" "j \<in> set (map snd (jm_jobs m))" "drops_finished m n"
  shows "drops_finished n (drop_if_full j n)"
proof -
  have n: "jobs_ok n" using assms(3) by (simp add: drops_finished_def)
  have "terminal j'" if "terminal j" "(oj_job_id j, j') \<in> set (jm_jobs n)" for j'
  proof -
    have "(oj_job_id j, j) \<in> set (jm_jobs m)" "(oj_job_id j, j') \<in> set (jm_jobs m)"
      using that assms snd_jobs [OF assms(1)] by (auto simp: drops_finished_def)
    then show ?thesis using job_unique [OF assms(1)] that(1) by blast
  qed
  then show ?thesis
    using drops_finished_drop [OF n] drops_finished_refl [OF n] by (auto simp: drop_if_full_def)
qed

lemma enforce_drops_finished: "jobs_ok m \<Longrightarrow> drops_finished m (enforce_max_jobs m)"
  unfolding enforce_max_jobs_def by (intro drops_finished_fold drop_if_full_drops_finished) auto

text \<open>When the pass is over the store is small enough, or holds no finished job.\<close>

lemma fold_drop_if_full:
  assumes "jobs_ok m" "set ys \<subseteq> set (map snd (jm_jobs m))" "drops_finished m n"
  shows "length (jm_jobs (fold drop_if_full ys n)) \<le> jm_max_jobs m \<or>
         (\<forall>j \<in> set ys. terminal j \<longrightarrow> j \<notin> set (map snd (jm_jobs (fold drop_if_full ys n))))"
  using assms(2,3)
proof (induction ys arbitrary: n)
  case (Cons y ys)
  let ?n = "drop_if_full y n" and ?r = "fold drop_if_full ys (drop_if_full y n)"
  have y: "drops_finished n ?n" using drop_if_full_drops_finished [OF assms(1) _ Cons.prems(2)] Cons.prems(1) by simp
  have m: "drops_finished m ?n" using drops_finished_trans [OF Cons.prems(2) y] .
  have sub: "set (jm_jobs ?r) \<subseteq> set (jm_jobs ?n)" if "jobs_ok ?n"
  proof -
    have "drops_finished ?n ?r"
    proof (rule drops_finished_fold [OF that])
      fix j n' assume "j \<in> set ys" "drops_finished ?n n'"
      then show "drops_finished n' (drop_if_full j n')"
        by (intro drop_if_full_drops_finished [OF assms(1) _ drops_finished_trans [OF m]]) (use Cons.prems(1) in auto)
    qed
    then show ?thesis by (simp add: drops_finished_def)
  qed
  have ok: "jobs_ok ?n" "jm_max_jobs n = jm_max_jobs m" using m Cons.prems(2) by (auto simp: drops_finished_def)
  have small: "length (jm_jobs ?r) \<le> jm_max_jobs m" if "length (jm_jobs n) \<le> jm_max_jobs n"
  proof -
    have "fold drop_if_full zs n' = n'" if "length (jm_jobs n') \<le> jm_max_jobs n'" for zs n'
      using that by (induction zs) (auto simp: drop_if_full_def)
    then show ?thesis using that ok(2) by (simp add: drop_if_full_def)
  qed
  have "y \<notin> set (map snd (jm_jobs ?n))" if "terminal y" "\<not> length (jm_jobs n) \<le> jm_max_jobs n"
    using that snd_jobs [OF ok(1), of y] by (auto simp: drop_if_full_def AList.delete_eq)
  then show ?case using Cons.IH [OF _ m] Cons.prems(1) sub [OF ok(1)] small by auto
qed simp

text \<open>
  Starting a job never drops an unfinished one: the new job is queued in the store beside every job that was
  queued or running before, and the store holds at most the configured number of jobs unless all of them are unfinished.
\<close>

theorem start_keeps_running_jobs:
  assumes "jobs_ok m" "job_id \<notin> fst ` set (jm_jobs m)"
  shows "jobs_ok (start_job now job_id in_loop params m) \<and>
         set (running_jobs (start_job now job_id in_loop params m)) =
           set (running_jobs m) \<union> {(job_id, new_job job_id (case map_of params ''metric'' of Some (PStr s) \<Rightarrow> s | _ \<Rightarrow> ''sharpe_ratio'') params now)} \<and>
         (jm_max_jobs m < length (jm_jobs (start_job now job_id in_loop params m)) \<longrightarrow>
            running_jobs (start_job now job_id in_loop params m) = jm_jobs (start_job now job_id in_loop params m))"
proof -
  define j where "j = new_job job_id (case map_of params ''metric'' of Some (PStr s) \<Rightarrow> s | _ \<Rightarrow> ''sharpe_ratio'') params now"
  define m1 where "m1 = cleanup_expired now m"
  define m2 where "m2 = (if in_loop then m1\<lparr>jm_tasks := job_id # jm_tasks m1\<rparr> else m1)"
  define m3 where "m3 = m2\<lparr>jm_jobs := AList.update job_id j (jm_jobs m2)\<rparr>"
  have start: "start_job now job_id in_loop params m = enforce_max_jobs m3"
    by (simp add: start_job_def Let_def m1_def m2_def m3_def j_def)
  have c: "drops_finished m m1" unfolding m1_def by (rule cleanup_drops_finished [OF assms(1)])
  then have fresh: "job_id \<notin> fst ` set (jm_jobs m1)" using assms(2) by (auto simp: drops_finished_def)
  then have jobs3: "jm_jobs m3 = jm_jobs m1 @ [(job_id, j)]"
    by (simp add: m3_def m2_def update_fresh)
  have open': "\<not> terminal j" by (simp add: j_def new_job_def terminal_def TERMINAL_def)
  have ok3: "jobs_ok m3"
    using c fresh jobs3 by (auto simp: drops_finished_def jobs_ok_def m3_def m2_def j_def new_job_def)
  have max3: "jm_max_jobs m3 = jm_max_jobs m" using c by (auto simp: drops_finished_def m3_def m2_def)
  have e: "drops_finished m3 (enforce_max_jobs m3)" by (rule enforce_drops_finished [OF ok3])
  have run: "set (running_jobs (enforce_max_jobs m3)) = set (running_jobs m) \<union> {(job_id, j)}"
    using e c jobs3 open' by (auto simp: drops_finished_def running_jobs_def)
  have "running_jobs (enforce_max_jobs m3) = jm_jobs (enforce_max_jobs m3)"
    if "jm_max_jobs m < length (jm_jobs (enforce_max_jobs m3))"
  proof -
    have "\<forall>j \<in> set (map snd (jm_jobs m3)). terminal j \<longrightarrow> j \<notin> set (map snd (jm_jobs (enforce_max_jobs m3)))"
      using fold_drop_if_full [OF ok3 _ drops_finished_refl [OF ok3], of "sort_key oj_created_at (map snd (jm_jobs m3))"] that max3
      by (auto simp: enforce_max_jobs_def)
    then have "\<not> terminal j" if "(i, j) \<in> set (jm_jobs (enforce_max_jobs m3))" for i j
      using that e by (force simp: drops_finished_def)
    then show ?thesis by (auto simp: running_jobs_def filter_id_conv)
  qed
  then show ?thesis using e run unfolding start j_def by (auto simp: drops_finished_def)
qed

section \<open>Cancelling\<close>

lemma update_job_status: "oj_status (update_job (us @ [JStatus s]) j) = s"
  by (simp add: update_job_def)

lemma worker_runs: "job_step\<^sup>*\<^sup>* s (s\<lparr>rj_job := fold update_job (rj_updates s) (rj_job s), rj_updates := []\<rparr>)"
proof (induction "rj_updates s" arbitrary: s)
  case Nil
  then show ?case by (metis (full_types) fold_simps(1) rtranclp.rtrancl_refl running_job.surjective running_job.update_convs(1,2))
next
  case (Cons u us)
  let ?t = "s\<lparr>rj_job := update_job u (rj_job s), rj_updates := us\<rparr>"
  have "job_step s ?t" using Cons.hyps(2) by (intro job_step.worker) simp
  moreover have "job_step\<^sup>*\<^sup>* ?t (?t\<lparr>rj_job := fold update_job (rj_updates ?t) (rj_job ?t), rj_updates := []\<rparr>)"
    using Cons.hyps(1) [of ?t] by simp
  ultimately show ?case using Cons.hyps(2) by (simp add: converse_rtranclp_into_rtranclp flip: Cons.hyps(2))
qed


end
