(* ===== verification/OptimizerExamples.thy ===== *)
theory OptimizerExamples
  imports WalkForwardProperties JobProperties RunProperties
begin

text \<open>
  Concrete runs of the optimisers and of the job store: the hypotheses of their properties can hold.
\<close>

lemma grid_values_exact_witness:
  "range_values (int_range 5 22 5) = Some [Fin 5, Fin 10, Fin 15, Fin 20]"
proof -
  have "map (\<lambda>k. Fin (rat_of_int (5 + int k * 5))) [0..<nat ((22 - 5) div 5 + 1)] = [Fin 5, Fin 10, Fin 15, Fin 20]" by code_simp
  then show ?thesis using grid_values_exact [of 5 5 22] by simp
qed

definition huge_metadata :: metadata where
  "huge_metadata = [(''param_ranges'', PDict [(''n'', PDict [(''min'', PInt (10 ^ 16)), (''max'', PInt (10 ^ 16))])])]"

definition huge_range :: ParamRange where
  "huge_range = int_range (10 ^ 16) (10 ^ 16) 1"

lemma absorbed_step_never_ends_witness:
  "\<forall>draw metric. grid_run (env :: unit optimizer_env) draw huge_metadata metric = None"
proof -
  have "parse_ranges (get_key huge_metadata ''param_ranges'' (PDict [])) = Inr [(''n'', huge_range)]" by code_simp
  moreover have "(''n'', huge_range) \<in> set [(''n'', huge_range)]" by simp
  moreover have "0 < pr_step huge_range" "pr_min huge_range + pr_step huge_range = pr_min huge_range"
    "pr_min huge_range \<le> range_stop huge_range" by code_simp+
  moreover have "get_key huge_metadata ''search_method'' (PStr ''grid'') \<noteq> PStr ''random''" by code_simp
  ultimately show ?thesis using absorbed_step_never_ends by blast
qed

definition cyclic_draw :: "nat \<Rightarrow> int \<Rightarrow> int" where
  "cyclic_draw k hi = int k mod (hi + 1)"

lemma random_search_bounded_witness:
  "\<exists>cs n. generate_random_combinations cyclic_draw [(''n'', int_range 1 10 1)] 4 = Some (Inr cs) \<and> length cs = 4 \<and>
     distinct cs \<and> grid_size [(''n'', int_range 1 10 1)] = Inr n \<and> int (length cs) \<le> max 0 (min (min 4 MAX_COMBINATIONS) n)"
proof -
  have "case generate_random_combinations cyclic_draw [(''n'', int_range 1 10 1)] 4 of
          Some (Inr cs) \<Rightarrow> length cs = 4 | _ \<Rightarrow> False" by code_simp
  then obtain cs where cs: "generate_random_combinations cyclic_draw [(''n'', int_range 1 10 1)] 4 = Some (Inr cs)" "length cs = 4"
    by (auto split: option.splits sum.splits)
  then show ?thesis using random_search_bounded [OF _ cs(1)] by auto
qed

definition scored :: "flt \<Rightarrow> OptimizationResult" where
  "scored x = (mk_result [] None)\<lparr>or_sharpe_ratio := x\<rparr>"


text \<open>Collaborators that read the bars as they are and validate the sample document.\<close>

definition trend_document :: "(string \<times> pyval) list" where
  "trend_document = [
     (''schema_version'', PStr ''2.0''), (''name'', PStr ''dip''),
     (''sides'', PDict [(''long'', PDict [
        (''entry'', PDict [(''condition'', PDict [(''left'', PStr ''close''), (''operator'', PStr ''<''), (''right'', PStr ''open'')])])])])]"

definition service_parse :: "pyval \<Rightarrow> combination \<Rightarrow> StrategyValidationResult result" where
  "service_parse d params =
     (case d of PDict kvs \<Rightarrow> parse_document strategy_catalog (\<lambda>_. None) (\<lambda>_. Inl ''no document'') (Inr kvs) params
      | _ \<Rightarrow> raise AttributeError)"

definition warmup_of :: "nat \<Rightarrow> WarmupValidationResult" where
  "warmup_of w = \<lparr>wu_warmup_bars = w, wu_first_tradable = [], wu_skipped_bars_due_to_warmup = w,
     wu_skipped_bars_due_to_missing = 0, wu_missing_after_warmup = [], wu_no_tradable_bars = False\<rparr>"

definition service_env :: "nat \<Rightarrow> BarFrame optimizer_env" where
  "service_env w = \<lparr>
     oe_parse = service_parse,
     oe_bars_to_frame = (\<lambda>_. Inr sample_frame),
     oe_merger = None,
     oe_artifact_bars = (\<lambda>_. Inr (Some [PDict [(''date'', PStr ''2024-01-01'')]])),
     oe_features = None,
     oe_columns = (\<lambda>f. fr_columns f),
     oe_warmup = (\<lambda>_ _. Inr (warmup_of w)),
     oe_skip = drop_rows,
     oe_engine = runner_engine sample_pandas square_pow (\<lambda>_. (flip_strategy, ())),
     oe_text = (\<lambda>_. ''error'')\<rparr>"

lemma optimizer_skips_warmup_twice_witness:
  "\<exists>v df. oe_parse (service_env 1) (PDict trend_document) [] = Inr v \<and> vr_definition v = Some df \<and>
     length (fr_rows sample_frame) = 2 \<and>
     or_total_trades (backtest_one (service_env 1) (PDict trend_document) [] [] sample_frame) = 0 \<and>
     or_error (backtest_one (service_env 1) (PDict trend_document) [] [] sample_frame) = None"
proof -
  have "case service_parse (PDict trend_document) [] of Inl _ \<Rightarrow> False | Inr v \<Rightarrow> vr_valid v \<and> vr_definition v \<noteq> None" by code_simp
  then obtain v df where v: "oe_parse (service_env 1) (PDict trend_document) [] = Inr v" "vr_valid v" "vr_definition v = Some df"
    by (auto simp: service_env_def split: sum.splits)
  have f: "with_features (service_env 1) df sample_frame = Inr sample_frame" by (simp add: with_features_def service_env_def)
  have rows: "length (fr_rows sample_frame) = 2" by (simp add: sample_frame_def)
  have "or_total_trades (backtest_one (service_env 1) (PDict trend_document) [] [] sample_frame) = 0"
    by (rule optimizer_skips_warmup_twice [OF _ _ v f, where w = "warmup_of 1"]) (simp_all add: service_env_def rows warmup_of_def)
  moreover have "or_error (backtest_one (service_env 1) (PDict trend_document) [] [] sample_frame) = None" by code_simp
  ultimately show ?thesis using v rows by blast
qed

lemma engine_error_ranks_first_witness:
  "\<exists>r. metrics_from_raw [] (raw_of (ErrorResult ''No bars provided'')) = Inr r \<and> or_error r = None \<and>
     unranked (rank_results (sort_results (ranking_of ''profit_factor'') [scored 1, r]) ! 0) = r"
proof -
  let ?s = "scored 1"
  have "case metrics_from_raw [] (raw_of (ErrorResult ''No bars provided'')) of Inl _ \<Rightarrow> False
        | Inr r \<Rightarrow> unranked (rank_results (sort_results (ranking_of ''profit_factor'') [?s, r]) ! 0) = r \<and>
            unranked (rank_results (sort_results (ranking_of ''profit_factor'') [?s, r]) ! 1) = unranked ?s \<and>
            \<not> is_nan (or_profit_factor ?s) \<and> \<not> is_nan (or_profit_factor r) \<and> is_finite (or_profit_factor ?s)" by code_simp
  then obtain r where r: "metrics_from_raw [] (raw_of (ErrorResult ''No bars provided'')) = Inr r"
      "unranked (rank_results (sort_results (ranking_of ''profit_factor'') [?s, r]) ! 0) = r"
      "unranked (rank_results (sort_results (ranking_of ''profit_factor'') [?s, r]) ! 1) = unranked ?s"
      "\<not> is_nan (or_profit_factor ?s)" "\<not> is_nan (or_profit_factor r)" "is_finite (or_profit_factor ?s)"
    by (auto split: sum.splits)
  have "or_error r = None \<and> (0::nat) < 1"
    by (rule engine_error_ranks_first [OF r(1,6) _ _ _ r(2,3)]) (use r(4,5) in auto)
  then show ?thesis using r(1,2) by blast
qed

definition search_metadata :: metadata where
  "search_metadata = [(''definition'', PDict trend_document), (''bars_artifact_id'', PStr ''a'')]"

lemma grid_run_ends_once_witness:
  "\<exists>us. grid_run (service_env 0) cyclic_draw search_metadata ''sharpe_ratio'' = Some us \<and> length us = 3 \<and>
     terminal (fold update_job us (new_job ''j'' ''sharpe_ratio'' search_metadata 0))"
proof -
  have "case grid_run (service_env 0) cyclic_draw search_metadata ''sharpe_ratio'' of None \<Rightarrow> False | Some us \<Rightarrow> length us = 3"
    by code_simp
  then obtain us where us: "grid_run (service_env 0) cyclic_draw search_metadata ''sharpe_ratio'' = Some us" "length us = 3"
    by (auto split: option.splits)
  then show ?thesis using grid_run_ends_once [OF us(1), of "''j''" 0] by blast
qed

definition sample_store :: OptimizationJobManager where
  "sample_store = start_job 0 ''a'' True [(''metric'', PStr ''win_rate'')] (new_job_manager 1 60)"

lemma start_keeps_running_jobs_witness:
  "jobs_ok (start_job 5 ''b'' False [] sample_store) \<and>
   map fst (jm_jobs (start_job 5 ''b'' False [] sample_store)) = [''a'', ''b''] \<and>
   set (running_jobs sample_store) \<subseteq> set (running_jobs (start_job 5 ''b'' False [] sample_store))"
proof -
  have "jobs_ok sample_store" by code_simp
  moreover have "''b'' \<notin> fst ` set (jm_jobs sample_store)" by code_simp
  moreover have "map fst (jm_jobs (start_job 5 ''b'' False [] sample_store)) = [''a'', ''b'']" by code_simp
  ultimately show ?thesis using start_keeps_running_jobs [of sample_store "''b''" 5 False "[]"] by blast
qed

definition sample_running :: running_job where
  "sample_running = \<lparr>rj_job = new_job ''a'' ''sharpe_ratio'' [] 0,
     rj_updates = [[JStatus ''running''], [JStatus ''completed'', JProgress 100]], rj_cancelling = False\<rparr>"


definition hundred_bars :: "nat list" where
  "hundred_bars = [0..<100]"

lemma windows_never_leak_witness:
  "\<exists>fs f before after. compute_fold_indices 100 5 (flr (7 / 10)) ''rolling'' = Inr (f # fs) \<and>
     hundred_bars = before @ py_slice 0 14 hundred_bars @ py_slice 14 34 hundred_bars @ after \<and>
     int (length (py_slice 0 14 hundred_bars)) = fi_train_count f"
proof -
  have "case compute_fold_indices 100 5 (flr (7 / 10)) ''rolling'' of Inl _ \<Rightarrow> False
        | Inr fs \<Rightarrow> (case fs of [] \<Rightarrow> False | f # _ \<Rightarrow> \<not> fold_skipped (default_wf_config\<lparr>wc_min_train_bars := 10\<rparr>) f \<and>
            fi_train_start f = 0 \<and> fi_train_end f = 14 \<and> fi_test_start f = 14 \<and> fi_test_end f = 34)" by code_simp
  then obtain f fs where f: "compute_fold_indices 100 5 (flr (7 / 10)) ''rolling'' = Inr (f # fs)"
      "\<not> fold_skipped (default_wf_config\<lparr>wc_min_train_bars := 10\<rparr>) f"
      "fi_train_start f = 0" "fi_train_end f = 14" "fi_test_start f = 14" "fi_test_end f = 34"
    by (auto split: sum.splits list.splits)
  have n: "int (length hundred_bars) = 100" by (simp add: hundred_bars_def)
  show ?thesis
    using windows_never_leak [of hundred_bars 5 "flr (7 / 10)" "''rolling''" "f # fs" f "default_wf_config\<lparr>wc_min_train_bars := 10\<rparr>"]
      f n by auto
qed

lemma rolling_tests_overlap_witness:
  "\<exists>fs. compute_fold_indices 100 5 (flr (7 / 10)) ''rolling'' = Inr fs \<and>
     fi_test_end (fs ! 0) - fi_test_start (fs ! 1) = 10"
proof -
  have "case compute_fold_indices 100 5 (flr (7 / 10)) ''rolling'' of Inl _ \<Rightarrow> False | Inr fs \<Rightarrow> fi_test_end (fs ! 0) < 100" by code_simp
  then obtain fs where fs: "compute_fold_indices 100 5 (flr (7 / 10)) ''rolling'' = Inr fs" "fi_test_end (fs ! 0) < 100"
    by (auto split: sum.splits)
  then show ?thesis using rolling_tests_overlap [OF fs(1), of 0] by simp
qed

definition split_folds :: "WalkForwardFold list" where
  "split_folds = map (\<lambda>n. (mk_fold 0)\<lparr>wf_best_params := [(''n'', PInt n)]\<rparr>) [10, 15, 16, 20]"

lemma stability_is_fraction_witness:
  "\<exists>s. compute_stability split_folds = Inr s \<and> s = Fin (1 / 2) \<and> 0 \<le> s \<and> s \<le> 1"
proof -
  have s: "compute_stability split_folds = Inr (Fin (1 / 2))" by code_simp
  from stability_is_fraction [OF s] show ?thesis using s by blast
qed


text \<open>One combination loses, the other is refused by the parser.\<close>

definition losing_env :: "BarFrame optimizer_env" where
  "losing_env = (service_env 0)\<lparr>oe_engine := (\<lambda>_ _ _ _. Inr [(''sharpe_ratio'', PFloat (Fin (- 1)))])\<rparr>"

lemma failed_combination_wins_witness:
  "\<exists>best sens. search_window losing_env (PDict trend_document) [PNone] ''sharpe_ratio'' [] sample_frame [] [[], [(''zz'', PInt 1)]]
       = Inr (Some best, sens) \<and> or_error best \<noteq> None \<and>
     or_error (backtest_with_bars losing_env (PDict trend_document) [] [PNone] [] sample_frame) = None"
proof -
  let ?b = "\<lambda>p. backtest_with_bars losing_env (PDict trend_document) p [PNone] [] sample_frame"
  have s: "case search_window losing_env (PDict trend_document) [PNone] ''sharpe_ratio'' [] sample_frame [] [[], [(''zz'', PInt 1)]] of
          Inr (Some _, _) \<Rightarrow> True | _ \<Rightarrow> False" by code_simp
  have e: "or_error (?b []) = None" "or_error (?b [(''zz'', PInt 1)]) \<noteq> None"
      "metric_of (resolve_metric ''sharpe_ratio'') (?b []) < 0" by code_simp+
  from s obtain best sens where r: "search_window losing_env (PDict trend_document) [PNone] ''sharpe_ratio'' [] sample_frame []
      [[], [(''zz'', PInt 1)]] = Inr (Some best, sens)" by (auto split: sum.splits option.splits prod.splits)
  have "or_error best \<noteq> None"
    by (rule failed_combination_wins [OF r, where c = "[(''zz'', PInt 1)]"]) (use e in auto)
  then show ?thesis using r e(1) by blast
qed

end
