(* ===== verification/VolumeProfile.thy ===== *)
theory VolumeProfile
  imports StreamingStates RollingMetrics "HOL-Library.AList" "HOL-Library.Char_ord" "HOL-Library.List_Lexorder"
begin

text \<open>
  Volume profiles and market profiles: \<open>domain/services/_profile_utils.py\<close>, \<open>volume_profile.py\<close> and
  \<open>market_profile.py\<close>.

    - A numpy array of floats is a list of floats; its arithmetic is that of the elements, where a division by
      zero gives an infinity or NaN instead of an exception.
    - The functions of numpy, pandas and \<open>math\<close> that are not arithmetic of the elements are the fields of
      \<open>array_ops\<close>; \<open>array_laws\<close> states the documented behaviour the properties rely on.
    - A frame is the list of its rows: the calendar date of the index and the four prices and volumes used.
    - \<open>expand_loop\<close> is the \<open>while\<close> loop of \<open>expand_value_area\<close>, with Python's negative indices, and is proved
      to end.
\<close>

section \<open>Arrays\<close>

record array_ops =
  ao_log :: "flt \<Rightarrow> flt"
  ao_sqrt :: "flt \<Rightarrow> flt"
  ao_exp :: "flt \<Rightarrow> flt"
  ao_sum :: "flt list \<Rightarrow> flt"
  ao_argmax :: "flt list \<Rightarrow> int"
  ao_argmin :: "flt list \<Rightarrow> int"
  ao_linspace :: "flt \<Rightarrow> flt \<Rightarrow> nat \<Rightarrow> flt list"
  ao_median :: "flt list \<Rightarrow> flt"
  ao_max :: "flt list \<Rightarrow> flt"
  ao_min :: "flt list \<Rightarrow> flt"

text \<open>
  \<open>argmax\<close> is the position of a largest element, \<open>linspace\<close> has as many points as asked for, \<open>max\<close> and \<open>min\<close>
  of a series are those of its values.
\<close>

definition array_laws :: "array_ops \<Rightarrow> bool" where
  "array_laws ao \<longleftrightarrow>
     (\<forall>xs. xs \<noteq> [] \<longrightarrow> 0 \<le> ao_argmax ao xs \<and> ao_argmax ao xs < int (length xs)) \<and>
     (\<forall>xs y. NaN \<notin> set xs \<and> y \<in> set xs \<longrightarrow> y \<le> xs ! nat (ao_argmax ao xs)) \<and>
     (\<forall>a b n. length (ao_linspace ao a b n) = n) \<and>
     (\<forall>x xs. NaN \<notin> set (x # xs) \<longrightarrow> ao_max ao (x # xs) = fold (\<lambda>y m. py_max m y) xs x) \<and>
     (\<forall>x xs. NaN \<notin> set (x # xs) \<longrightarrow> ao_min ao (x # xs) = fold (\<lambda>y m. py_min m y) xs x)"

text \<open>Division of arrays by a number that is not negative, and \<open>xs[i]\<close>.\<close>

definition np_div :: "flt \<Rightarrow> flt \<Rightarrow> flt" where
  "np_div x y =
     (case fdiv x y of
        Inr z \<Rightarrow> z
      | Inl _ \<Rightarrow> if 0 < x then PosInf else if x < 0 then NegInf else NaN)"

definition item_at :: "'a list \<Rightarrow> int \<Rightarrow> 'a result" where
  "item_at xs i =
     (let n = int (length xs); j = (if i < 0 then i + n else i)
      in if 0 \<le> j \<and> j < n then Inr (xs ! nat j) else raise IndexError)"

definition add_arrays :: "flt list \<Rightarrow> flt list \<Rightarrow> flt list" where
  "add_arrays = map2 (+)"

definition zeros :: "nat \<Rightarrow> flt list" where
  "zeros n = replicate n 0"

text \<open>\<open>x / 2\<close>.\<close>

definition half :: "flt \<Rightarrow> flt" where
  "half x = x * Fin (1 / 2)"

definition two_percent :: flt where
  "two_percent = flr (2 / 100)"

section \<open>Value area\<close>

function expand_loop :: "flt list \<Rightarrow> flt \<Rightarrow> flt \<Rightarrow> int \<Rightarrow> int \<Rightarrow> flt \<Rightarrow> (int \<times> int \<times> flt) result" where
  "expand_loop profile target tol lower upper acc =
     (let n = int (length profile)
      in if acc < target \<and> (0 < lower \<or> upper < n - 1)
         then ebind (if 0 < lower then item_at profile (lower - 1) else Inr (- 1)) (\<lambda>val_below.
              ebind (if upper < n - 1 then item_at profile (upper + 1) else Inr (- 1)) (\<lambda>val_above.
              if val_above + tol < val_below
              then (case item_at profile (lower - 1) of
                      Inl e \<Rightarrow> Inl e | Inr v \<Rightarrow> expand_loop profile target tol (lower - 1) upper (acc + v))
              else if upper < n - 1
              then (case item_at profile (upper + 1) of
                      Inl e \<Rightarrow> Inl e | Inr v \<Rightarrow> expand_loop profile target tol lower (upper + 1) (acc + v))
              else if 0 < lower
              then (case item_at profile (lower - 1) of
                      Inl e \<Rightarrow> Inl e | Inr v \<Rightarrow> expand_loop profile target tol (lower - 1) upper (acc + v))
              else Inr (lower, upper, acc)))
         else Inr (lower, upper, acc))"
  by pat_completeness auto
termination
  by (relation "measure (\<lambda>(p, _, _, l, u, _). nat (l + int (length p) + 1) + nat (int (length p) - u))")
    (auto simp: item_at_def raise_def Let_def split: if_splits)

declare expand_loop.simps [simp del]

definition TARGET_FRACTION :: flt where
  "TARGET_FRACTION = flr (68 / 100)"

definition expand_value_area :: "flt list \<Rightarrow> int \<Rightarrow> flt \<Rightarrow> (int \<times> int \<times> flt) result" where
  "expand_value_area profile poc_idx tot =
     ebind (item_at profile poc_idx) (\<lambda>acc.
       expand_loop profile (tot * TARGET_FRACTION) (py_max tot 0 * flr (1 / 10 ^ 9)) poc_idx poc_idx acc)"

section \<open>Volume of one bar\<close>

record VpBar =
  vb_high :: flt
  vb_low :: flt
  vb_close :: flt
  vb_volume :: flt

definition parkinson_sigma :: "array_ops \<Rightarrow> flt \<Rightarrow> flt \<Rightarrow> flt result" where
  "parkinson_sigma ao high low =
     (if low \<le> 0 \<or> high \<le> low then Inr 0
      else ebind (fdiv high low) (\<lambda>r. fdiv (ao_log ao r) (Fin 2 * ao_sqrt ao (ao_log ao (Fin 2)))))"

text \<open>\<open>math.pi\<close>.\<close>

definition pi_flt :: flt where
  "pi_flt = Fin (884279719003555 / 281474976710656)"

definition distribute_bar_volume :: "array_ops \<Rightarrow> VpBar \<Rightarrow> flt list \<Rightarrow> flt \<Rightarrow> flt list result" where
  "distribute_bar_volume ao b buckets bucket_size =
     ebind (fdiv (vb_high b + vb_low b + vb_close b) (Fin 3)) (\<lambda>tp.
     ebind (parkinson_sigma ao (vb_high b) (vb_low b)) (\<lambda>sigma.
       if sigma \<le> 0 \<or> vb_volume b \<le> 0
       then Inr (if buckets = [] then []
                 else (zeros (length buckets))[nat (ao_argmin ao (map (\<lambda>p. \<bar>p - tp\<bar>) buckets)) := vb_volume b])
       else
         (let half_bucket = half bucket_size;
              density = (\<lambda>p. let z = np_div (p - tp) sigma
                             in np_div (ao_exp ao (Fin (- 1 / 2) * (z * z))) (sigma * ao_sqrt ao (Fin 2 * pi_flt)));
              pdf = map (\<lambda>p. if p + half_bucket < vb_low b \<or> vb_high b < p - half_bucket
                             then density p * flr (1 / 10) else density p) buckets;
              total_pdf = ao_sum ao pdf
          in if total_pdf \<le> 0 then Inr (zeros (length buckets))
             else Inr (map (\<lambda>x. np_div x total_pdf * vb_volume b) pdf))))"

section \<open>The profile of a session\<close>

definition session_bucket_grid :: "array_ops \<Rightarrow> flt \<Rightarrow> flt \<Rightarrow> int \<Rightarrow> (flt list \<times> flt) result" where
  "session_bucket_grid ao session_high session_low num_buckets =
     (let buffer = (session_high - session_low) * two_percent;
          price_min = session_low - buffer; price_max = session_high + buffer
      in ebind (float_of_int num_buckets) (\<lambda>n.
         ebind (fdiv (price_max - price_min) n) (\<lambda>bucket_size.
           if num_buckets < 0 then raise (ValueError ''Number of samples must be non-negative'')
           else Inr (ao_linspace ao (price_min + half bucket_size) (price_max - half bucket_size)
                       (nat num_buckets), bucket_size))))"

definition add_volume ::
  "array_ops \<Rightarrow> flt list \<Rightarrow> flt \<Rightarrow> VpBar \<Rightarrow> flt list \<times> flt \<Rightarrow> (flt list \<times> flt) result" where
  "add_volume ao buckets bucket_size b acc =
     (case acc of (profile, tot) \<Rightarrow>
        let volume = (if 0 < vb_volume b then vb_volume b else 0)
        in if volume \<le> 0 then Inr (profile, tot)
           else ebind (distribute_bar_volume ao (b\<lparr>vb_volume := volume\<rparr>) buckets bucket_size) (\<lambda>d.
                  Inr (add_arrays profile d, tot + volume)))"

definition aggregate_session_volume ::
  "array_ops \<Rightarrow> VpBar list \<Rightarrow> flt list \<Rightarrow> flt \<Rightarrow> (flt list \<times> flt) result" where
  "aggregate_session_volume ao bars buckets bucket_size =
     efold (add_volume ao buckets bucket_size) bars (zeros (length buckets), 0)"

record VolumeProfileResult =
  vr_poc :: flt
  vr_vah :: flt
  vr_val :: flt
  vr_total_volume :: flt
  vr_value_area_volume :: flt
  vr_bucket_size :: flt
  vr_num_buckets :: int
  vr_profile :: "(flt \<times> flt) list"

text \<open>The dict of the buckets that have something, by price; a price that repeats keeps its place.\<close>

definition profile_dict :: "flt list \<Rightarrow> 'a list \<Rightarrow> ('a \<Rightarrow> bool) \<Rightarrow> (flt \<times> 'a) list" where
  "profile_dict buckets profile keep =
     fold (\<lambda>(p, v) d. if keep v then AList.update p v d else d) (zip buckets profile) []"

definition area_edges ::
  "array_ops \<Rightarrow> flt list \<Rightarrow> flt list \<Rightarrow> flt \<Rightarrow> flt \<Rightarrow> (flt \<times> flt \<times> flt \<times> flt) result" where
  "area_edges ao profile buckets bucket_size tot =
     (let poc_idx = ao_argmax ao profile
      in ebind (item_at buckets poc_idx) (\<lambda>poc.
         ebind (expand_value_area profile poc_idx tot) (\<lambda>(lower_idx, upper_idx, accumulated).
         ebind (item_at buckets upper_idx) (\<lambda>up.
         ebind (item_at buckets lower_idx) (\<lambda>lo.
           Inr (poc, up + half bucket_size, lo - half bucket_size, accumulated))))))"

definition build_volume_profile_result ::
  "array_ops \<Rightarrow> flt list \<Rightarrow> flt list \<Rightarrow> flt \<Rightarrow> flt \<Rightarrow> int \<Rightarrow> VolumeProfileResult result" where
  "build_volume_profile_result ao profile buckets bucket_size tot num_buckets =
     ebind (area_edges ao profile buckets bucket_size tot) (\<lambda>(poc, vah, val, accumulated).
       Inr \<lparr>vr_poc = poc, vr_vah = vah, vr_val = val, vr_total_volume = tot, vr_value_area_volume = accumulated,
            vr_bucket_size = bucket_size, vr_num_buckets = num_buckets,
            vr_profile = profile_dict buckets profile (\<lambda>v. 0 < v)\<rparr>)"

definition flat_profile :: "flt \<Rightarrow> flt \<Rightarrow> flt \<Rightarrow> flt \<Rightarrow> int \<Rightarrow> VolumeProfileResult" where
  "flat_profile poc vah val bucket_size num_buckets =
     \<lparr>vr_poc = poc, vr_vah = vah, vr_val = val, vr_total_volume = 0, vr_value_area_volume = 0,
      vr_bucket_size = bucket_size, vr_num_buckets = num_buckets, vr_profile = []\<rparr>"

definition compute_session_volume_profile ::
  "array_ops \<Rightarrow> VpBar list \<Rightarrow> int \<Rightarrow> VolumeProfileResult result" where
  "compute_session_volume_profile ao bars num_buckets =
     (if bars = [] then Inr (flat_profile 0 0 0 0 num_buckets)
      else (let session_high = ao_max ao (map vb_high bars); session_low = ao_min ao (map vb_low bars)
            in if session_high \<le> session_low then Inr (flat_profile session_high session_high session_low 0 num_buckets)
               else ebind (session_bucket_grid ao session_high session_low num_buckets) (\<lambda>(buckets, bucket_size).
                    ebind (aggregate_session_volume ao bars buckets bucket_size) (\<lambda>(profile, tot).
                      if tot \<le> 0
                      then Inr (flat_profile (vb_close (last bars)) session_high session_low bucket_size num_buckets)
                      else build_volume_profile_result ao profile buckets bucket_size tot num_buckets))))"

section \<open>Frames\<close>

type_synonym vp_frame = "(string \<times> VpBar) list"

type_synonym vp_levels = "flt \<times> flt \<times> flt"

definition levels_of :: "VolumeProfileResult \<Rightarrow> vp_levels" where
  "levels_of r = (vr_poc r, vr_vah r, vr_val r)"

text \<open>One completed profile per calendar date, written to every row of the date.\<close>

definition compute_all_session_volume_profiles :: "array_ops \<Rightarrow> vp_frame \<Rightarrow> int \<Rightarrow> vp_levels list result" where
  "compute_all_session_volume_profiles ao frame num_buckets =
     ebind (emap (\<lambda>d. ebind (compute_session_volume_profile ao (map snd (filter (\<lambda>r. fst r = d) frame)) num_buckets)
                        (\<lambda>p. Inr (d, levels_of p))) (remdups (map fst frame))) (\<lambda>table.
       Inr (map (\<lambda>(d, _). the (map_of table d)) frame))"

text \<open>The profile of the session up to each bar: runs of equal dates, and the prefixes of each.\<close>

function compute_expanding_session_volume_profiles :: "array_ops \<Rightarrow> vp_frame \<Rightarrow> int \<Rightarrow> vp_levels list result" where
  "compute_expanding_session_volume_profiles ao frame num_buckets =
     (case frame of
        [] \<Rightarrow> Inr []
      | (d, b) # _ \<Rightarrow>
          (let session = takeWhile (\<lambda>r. fst r = d) frame; rest = dropWhile (\<lambda>r. fst r = d) frame
           in ebind (emap (\<lambda>k. ebind (compute_session_volume_profile ao (map snd (take (Suc k) session)) num_buckets)
                               (\<lambda>p. Inr (levels_of p))) [0..<length session]) (\<lambda>vs.
              ebind (compute_expanding_session_volume_profiles ao rest num_buckets) (\<lambda>ws. Inr (vs @ ws)))))"
  by pat_completeness auto
termination
  by (relation "measure (\<lambda>(_, f, _). length f)") (auto simp: le_imp_less_Suc length_dropWhile_le)

declare compute_expanding_session_volume_profiles.simps [simp del]

text \<open>The median of the last completed profiles, over a window of sessions.\<close>

definition rolling_medians :: "array_ops \<Rightarrow> nat \<Rightarrow> (string \<times> flt) list \<Rightarrow> (string \<times> flt) list" where
  "rolling_medians ao window sessions =
     map (\<lambda>i. (fst (sessions ! i), ao_median ao (map snd (take window (drop (Suc i - window) sessions)))))
       [window - 1..<length sessions]"

definition session_ends :: "(string \<times> vp_levels) list \<Rightarrow> (vp_levels \<Rightarrow> flt) \<Rightarrow> (string \<times> flt) list" where
  "session_ends rows level =
     map (\<lambda>d. (d, level (snd (last (filter (\<lambda>r. fst r = d) rows)))))
       (sort (remdups (map fst rows)))"

definition rolling_column :: "array_ops \<Rightarrow> nat \<Rightarrow> (string \<times> vp_levels) list \<Rightarrow> (vp_levels \<Rightarrow> flt) \<Rightarrow> flt list" where
  "rolling_column ao window rows level =
     (let sessions = session_ends rows level;
          table = (if length sessions < window then [] else rolling_medians ao window sessions)
      in map (\<lambda>(d, _). case map_of table d of Some x \<Rightarrow> x | None \<Rightarrow> NaN) rows)"

definition compute_rolling_vp :: "array_ops \<Rightarrow> nat \<Rightarrow> (string \<times> vp_levels) list \<Rightarrow> flt list \<times> flt list \<times> flt list" where
  "compute_rolling_vp ao window rows =
     (rolling_column ao window rows fst, rolling_column ao window rows (fst \<circ> snd),
      rolling_column ao window rows (snd \<circ> snd))"

section \<open>The profile of a window of bars\<close>

definition global_bucket_grid :: "array_ops \<Rightarrow> VpBar list \<Rightarrow> int \<Rightarrow> (flt list \<times> flt) option result" where
  "global_bucket_grid ao bars num_buckets =
     (let global_high = ao_max ao (map vb_high bars); global_low = ao_min ao (map vb_low bars)
      in if global_high \<le> global_low then Inr None
         else ebind (session_bucket_grid ao global_high global_low num_buckets) (\<lambda>g. Inr (Some g)))"

definition extract_poc_vah_val ::
  "array_ops \<Rightarrow> flt list \<Rightarrow> flt list \<Rightarrow> flt \<Rightarrow> flt \<Rightarrow> vp_levels option result" where
  "extract_poc_vah_val ao profile buckets bucket_size tot =
     (if tot \<le> 0 then Inr None
      else ebind (area_edges ao profile buckets bucket_size tot) (\<lambda>(poc, vah, val, _). Inr (Some (poc, vah, val))))"

text \<open>The running sums and the two ring buffers of \<open>compute_rolling_window_vp\<close>.\<close>

record window_profile =
  wp_profile :: "flt list"
  wp_volume :: flt
  wp_contribs :: "flt list list"
  wp_volumes :: "flt list"

definition new_window_profile :: "nat \<Rightarrow> nat \<Rightarrow> window_profile" where
  "new_window_profile window n =
     \<lparr>wp_profile = zeros n, wp_volume = 0, wp_contribs = replicate window (zeros n), wp_volumes = zeros window\<rparr>"

definition slide ::
  "array_ops \<Rightarrow> nat \<Rightarrow> flt list \<Rightarrow> flt \<Rightarrow> nat \<Rightarrow> VpBar \<Rightarrow> window_profile \<Rightarrow> window_profile result" where
  "slide ao window buckets bucket_size i b w =
     (let volume = (if 0 < vb_volume b then vb_volume b else 0); slot = i mod window;
          w1 = (if window \<le> i
                then w\<lparr>wp_profile := map2 (-) (wp_profile w) (wp_contribs w ! slot),
                       wp_volume := wp_volume w - wp_volumes w ! slot\<rparr>
                else w)
      in ebind (distribute_bar_volume ao (b\<lparr>vb_volume := volume\<rparr>) buckets bucket_size) (\<lambda>contrib.
           Inr (w1\<lparr>wp_profile := add_arrays (wp_profile w1) contrib, wp_volume := wp_volume w1 + volume,
                   wp_contribs := (wp_contribs w1)[slot := contrib], wp_volumes := (wp_volumes w1)[slot := volume]\<rparr>)))"

definition no_levels :: vp_levels where
  "no_levels = (NaN, NaN, NaN)"

definition window_step ::
  "array_ops \<Rightarrow> nat \<Rightarrow> flt list \<Rightarrow> flt \<Rightarrow> nat \<times> VpBar \<Rightarrow> vp_levels list \<times> window_profile \<Rightarrow>
   (vp_levels list \<times> window_profile) result" where
  "window_step ao window buckets bucket_size ib acc =
     (case (ib, acc) of ((i, b), (out, w)) \<Rightarrow>
        ebind (slide ao window buckets bucket_size i b w) (\<lambda>w'.
        ebind (if window - 1 \<le> i \<and> 0 < wp_volume w'
               then extract_poc_vah_val ao (wp_profile w') buckets bucket_size (wp_volume w') else Inr None) (\<lambda>lv.
          Inr (out @ [case lv of Some l \<Rightarrow> l | None \<Rightarrow> no_levels], w'))))"

definition compute_rolling_window_vp :: "array_ops \<Rightarrow> int \<Rightarrow> int \<Rightarrow> VpBar list \<Rightarrow> vp_levels list result" where
  "compute_rolling_window_vp ao window_bars num_buckets bars =
     (let n = length bars; blank = replicate n no_levels; window = nat window_bars
      in if int n < window_bars \<or> window_bars < 1 then Inr blank
         else ebind (global_bucket_grid ao bars num_buckets) (\<lambda>grid.
              case grid of
                None \<Rightarrow>
                  Inr (if 0 < num_buckets
                       then (let p = vb_close (hd bars)
                             in replicate (window - 1) no_levels @ replicate (n - (window - 1)) (p, p, p))
                       else blank)
              | Some (buckets, bucket_size) \<Rightarrow>
                  ebind (efold (window_step ao window buckets bucket_size) (zip [0..<n] bars)
                          ([], new_window_profile window (nat num_buckets))) (\<lambda>(out, _). Inr out)))"

section \<open>Market profile\<close>

record MarketProfileResult =
  mp_poc :: flt
  mp_vah :: flt
  mp_val :: flt
  mp_total_tpos :: int
  mp_value_area_tpos :: int
  mp_bucket_size :: flt
  mp_num_buckets :: int
  mp_profile :: "(flt \<times> int) list"

text \<open>The distance of the first two labels in seconds, \<open>None\<close> when the index is not one of times.\<close>

definition detect_bar_minutes :: "nat \<Rightarrow> flt option \<Rightarrow> int result" where
  "detect_bar_minutes n gap =
     (if n < 2 then Inr 0
      else (case gap of None \<Rightarrow> Inr 0 | Some s \<Rightarrow> ebind (fdiv s (Fin 60)) py_trunc))"

definition TPO_BARS_PER_PERIOD :: "(int \<times> nat) list" where
  "TPO_BARS_PER_PERIOD = [(5, 6), (15, 2), (30, 1)]"

definition get_tpo_bars_per_period :: "nat \<Rightarrow> flt option \<Rightarrow> nat result" where
  "get_tpo_bars_per_period n gap =
     ebind (detect_bar_minutes n gap) (\<lambda>minutes.
       Inr (case find (\<lambda>(key, _). \<bar>minutes - key\<bar> < 2) TPO_BARS_PER_PERIOD of
              Some (_, bars) \<Rightarrow> bars
            | None \<Rightarrow> if 55 \<le> minutes then 0 else 2))"

definition touched :: "flt \<Rightarrow> flt \<Rightarrow> flt \<Rightarrow> flt \<Rightarrow> bool" where
  "touched bar_high bar_low bucket_size p \<longleftrightarrow> bar_low \<le> p + half bucket_size \<and> p - half bucket_size \<le> bar_high"

definition count_tpos_for_bar :: "flt \<Rightarrow> flt \<Rightarrow> flt list \<Rightarrow> flt \<Rightarrow> flt list" where
  "count_tpos_for_bar bar_high bar_low buckets bucket_size =
     map (\<lambda>p. if touched bar_high bar_low bucket_size p then 1 else 0) buckets"

definition add_tpos :: "bool \<Rightarrow> flt list \<Rightarrow> flt \<Rightarrow> VpBar \<Rightarrow> flt list \<times> int \<Rightarrow> flt list \<times> int" where
  "add_tpos use_1h_split buckets bucket_size b acc =
     (case acc of (profile, tot) \<Rightarrow>
        let counts = count_tpos_for_bar (vb_high b) (vb_low b) buckets bucket_size
        in if use_1h_split then (add_arrays (add_arrays profile counts) counts, tot + 2)
           else (add_arrays profile counts, tot + 1))"

definition flat_market_profile :: "flt \<Rightarrow> flt \<Rightarrow> flt \<Rightarrow> flt \<Rightarrow> int \<Rightarrow> MarketProfileResult" where
  "flat_market_profile poc vah val bucket_size num_buckets =
     \<lparr>mp_poc = poc, mp_vah = vah, mp_val = val, mp_total_tpos = 0, mp_value_area_tpos = 0,
      mp_bucket_size = bucket_size, mp_num_buckets = num_buckets, mp_profile = []\<rparr>"

definition compute_session_market_profile ::
  "array_ops \<Rightarrow> flt option \<Rightarrow> VpBar list \<Rightarrow> int \<Rightarrow> MarketProfileResult result" where
  "compute_session_market_profile ao gap bars num_buckets =
     (if bars = [] then Inr (flat_market_profile 0 0 0 0 num_buckets)
      else (let session_high = ao_max ao (map vb_high bars); session_low = ao_min ao (map vb_low bars)
            in if session_high \<le> session_low
               then Inr (flat_market_profile session_high session_high session_low 0 num_buckets)
               else ebind (session_bucket_grid ao session_high session_low num_buckets) (\<lambda>(buckets, bucket_size).
                    ebind (get_tpo_bars_per_period (length bars) gap) (\<lambda>tpo_bars.
                    let (profile, tot) =
                          fold (add_tpos (tpo_bars = 0) buckets bucket_size) bars (zeros (nat num_buckets), 0)
                    in if tot \<le> 0
                       then Inr (flat_market_profile (vb_close (last bars)) session_high session_low bucket_size num_buckets)
                       else ebind (float_of_int tot) (\<lambda>tf.
                            ebind (area_edges ao profile buckets bucket_size tf) (\<lambda>(poc, vah, val, accumulated).
                            ebind (py_trunc accumulated) (\<lambda>area.
                            ebind (emap py_trunc profile) (\<lambda>counts.
                              Inr \<lparr>mp_poc = poc, mp_vah = vah, mp_val = val, mp_total_tpos = tot,
                                   mp_value_area_tpos = area, mp_bucket_size = bucket_size,
                                   mp_num_buckets = num_buckets,
                                   mp_profile = profile_dict buckets counts (\<lambda>c. 0 < c)\<rparr>))))))))"

definition compute_all_session_market_profiles ::
  "array_ops \<Rightarrow> (vp_frame \<Rightarrow> flt option) \<Rightarrow> vp_frame \<Rightarrow> int \<Rightarrow> vp_levels list result" where
  "compute_all_session_market_profiles ao gap frame num_buckets =
     ebind (emap (\<lambda>d. let session = filter (\<lambda>r. fst r = d) frame
                       in ebind (compute_session_market_profile ao (gap session) (map snd session) num_buckets)
                            (\<lambda>p. Inr (d, (mp_poc p, mp_vah p, mp_val p)))) (remdups (map fst frame))) (\<lambda>table.
       Inr (map (\<lambda>(d, _). the (map_of table d)) frame))"

end
