(* ===== verification/SessionProfile.thy ===== *)
theory SessionProfile
  imports VolumeProfile StreamingFactory
begin

text \<open>
  The streaming volume profiles: \<open>incremental_session_vp_state.py\<close> and \<open>rolling_volume_profile_state.py\<close>.

    - \<open>SessionVpState\<close> has the fields of the class; arrays that the code sets to \<open>None\<close> are options.
    - Reading a level computes and caches it, so that a reader returns the value and the state.
    - The calendar date of a time stamp is read with pandas; it is the argument \<open>bar_date\<close>, and the frame that
      the rolling state builds from its bars is the argument \<open>to_rows\<close>.
\<close>

section \<open>The expanding profile of the current session\<close>

definition NUM_BUCKETS :: nat where
  "NUM_BUCKETS = 100"

definition MAX_SESSION_POCS :: nat where
  "MAX_SESSION_POCS = 21"

record SessionVpState =
  sv_bars :: "bar list"
  sv_session_date :: "string option"
  sv_last_levels :: "vp_levels option"
  sv_volume_profile :: "flt list option"
  sv_total_volume :: flt
  sv_price_buckets :: "flt list option"
  sv_bucket_size :: flt
  sv_session_high :: flt
  sv_session_low :: flt
  sv_session_pocs :: "(string \<times> flt) list"

definition new_session_vp :: SessionVpState where
  "new_session_vp = \<lparr>sv_bars = [], sv_session_date = None, sv_last_levels = None, sv_volume_profile = None,
     sv_total_volume = 0, sv_price_buckets = None, sv_bucket_size = 0, sv_session_high = 0, sv_session_low = 0,
     sv_session_pocs = []\<rparr>"

definition session_vp_reset :: "SessionVpState \<Rightarrow> SessionVpState" where
  "session_vp_reset s = s\<lparr>sv_bars := [], sv_last_levels := None, sv_volume_profile := None, sv_total_volume := 0,
     sv_price_buckets := None, sv_bucket_size := 0, sv_session_high := 0, sv_session_low := 0\<rparr>"

text \<open>The four numbers of a bar.\<close>

definition vp_bar :: "bar \<Rightarrow> VpBar result" where
  "vp_bar b =
     ebind (bar_float b ''high'') (\<lambda>high.
     ebind (bar_float b ''low'') (\<lambda>low.
     ebind (bar_float b ''close'') (\<lambda>close.
     ebind (bar_float b ''volume'') (\<lambda>volume.
       Inr \<lparr>vb_high = high, vb_low = low, vb_close = close, vb_volume = volume\<rparr>))))"

definition extract_levels :: "array_ops \<Rightarrow> SessionVpState \<Rightarrow> SessionVpState result" where
  "extract_levels ao s =
     (case (sv_volume_profile s, sv_price_buckets s) of
        (Some profile, Some buckets) \<Rightarrow>
          if sv_total_volume s \<le> 0 then Inr (s\<lparr>sv_last_levels := None\<rparr>)
          else ebind (build_volume_profile_result ao profile buckets (sv_bucket_size s) (sv_total_volume s)
                        (int NUM_BUCKETS)) (\<lambda>r. Inr (s\<lparr>sv_last_levels := Some (levels_of r)\<rparr>))
      | _ \<Rightarrow> Inr (s\<lparr>sv_last_levels := None\<rparr>))"

definition ensure_levels :: "array_ops \<Rightarrow> SessionVpState \<Rightarrow> SessionVpState result" where
  "ensure_levels ao s = (if sv_last_levels s = None \<and> sv_bars s \<noteq> [] then extract_levels ao s else Inr s)"

definition read_levels :: "array_ops \<Rightarrow> SessionVpState \<Rightarrow> (vp_levels \<times> SessionVpState) result" where
  "read_levels ao s =
     ebind (ensure_levels ao s) (\<lambda>s'. Inr (case sv_last_levels s' of Some l \<Rightarrow> l | None \<Rightarrow> no_levels, s'))"

definition poc_slope :: "SessionVpState \<Rightarrow> int \<Rightarrow> flt result" where
  "poc_slope s n_sessions =
     (let pocs = sv_session_pocs s
      in if int (length pocs) < max n_sessions 1 then Inr NaN
         else ebind (item_at pocs (- n_sessions)) (\<lambda>(_, older).
              ebind (item_at pocs (- 1)) (\<lambda>(_, newer).
              if older \<le> 0 then Inr NaN
              else ebind (fdiv (newer - older) older) (\<lambda>q. Inr (q * Fin 100)))))"

definition cap_session :: "array_ops \<Rightarrow> SessionVpState \<Rightarrow> SessionVpState result" where
  "cap_session ao s =
     ebind (ensure_levels ao s) (\<lambda>s'.
       case (sv_last_levels s', sv_session_date s') of
         (Some (poc, _), Some d) \<Rightarrow>
           Inr (s'\<lparr>sv_session_pocs := push_max MAX_SESSION_POCS (d, poc) (sv_session_pocs s')\<rparr>)
       | _ \<Rightarrow> Inr s')"

text \<open>\<open>_add_bar\<close> on the running sums, with the grid of the state.\<close>

definition add_bar ::
  "array_ops \<Rightarrow> flt list \<Rightarrow> flt \<Rightarrow> VpBar \<Rightarrow> flt list \<times> flt \<Rightarrow> (flt list \<times> flt) result" where
  "add_bar ao buckets bucket_size b acc =
     (case acc of (profile, tot) \<Rightarrow>
        if vb_volume b \<le> 0 \<or> bucket_size \<le> 0 then Inr (profile, tot)
        else ebind (distribute_bar_volume ao b buckets bucket_size) (\<lambda>d.
               Inr (add_arrays profile d, tot + vb_volume b)))"

definition set_grid :: "array_ops \<Rightarrow> flt \<Rightarrow> flt \<Rightarrow> SessionVpState \<Rightarrow> SessionVpState result" where
  "set_grid ao high low s =
     ebind (session_bucket_grid ao high low (int NUM_BUCKETS)) (\<lambda>(buckets, bucket_size).
       Inr (s\<lparr>sv_session_high := high, sv_session_low := low, sv_price_buckets := Some buckets,
              sv_bucket_size := bucket_size, sv_volume_profile := Some (zeros NUM_BUCKETS), sv_total_volume := 0\<rparr>))"

definition add_bars :: "array_ops \<Rightarrow> bar list \<Rightarrow> SessionVpState \<Rightarrow> SessionVpState result" where
  "add_bars ao bs s =
     (case (sv_price_buckets s, sv_volume_profile s) of
        (Some buckets, Some profile) \<Rightarrow>
          ebind (efold (\<lambda>b acc. ebind (vp_bar b) (\<lambda>v. add_bar ao buckets (sv_bucket_size s) v acc)) bs
                   (profile, sv_total_volume s)) (\<lambda>(profile', tot).
            Inr (s\<lparr>sv_volume_profile := Some profile', sv_total_volume := tot\<rparr>))
      | _ \<Rightarrow> raise TypeError)"

definition update_incremental :: "array_ops \<Rightarrow> bar \<Rightarrow> SessionVpState \<Rightarrow> SessionVpState result" where
  "update_incremental ao b s =
     ebind (vp_bar b) (\<lambda>v.
       if sv_price_buckets s = None
       then ebind (set_grid ao (vb_high v) (vb_low v) s) (add_bars ao [b])
       else if sv_session_high s < vb_high v \<or> vb_low v < sv_session_low s
       then ebind (set_grid ao (py_max (sv_session_high s) (vb_high v)) (py_min (sv_session_low s) (vb_low v)) s) (\<lambda>s1.
              add_bars ao (sv_bars s1) s1)
       else add_bars ao [b] s)"

definition session_vp_update ::
  "array_ops \<Rightarrow> (pyval \<Rightarrow> string result) \<Rightarrow> bar \<Rightarrow> SessionVpState \<Rightarrow> SessionVpState result" where
  "session_vp_update ao bar_date b s =
     (let ts = get_or b ''timestamp'' PNone
      in ebind (if ts = PNone then Inr s
                else ebind (bar_date ts) (\<lambda>d.
                     ebind (if sv_session_date s \<noteq> None \<and> sv_session_date s \<noteq> Some d
                            then ebind (cap_session ao s) (\<lambda>s1. Inr (session_vp_reset s1)) else Inr s) (\<lambda>s1.
                       Inr (s1\<lparr>sv_session_date := Some d\<rparr>)))) (\<lambda>s2.
         update_incremental ao b (s2\<lparr>sv_bars := sv_bars s2 @ [b], sv_last_levels := None\<rparr>)))"

text \<open>A bar and the levels read after it, as the engine does.\<close>

definition session_vp_step ::
  "array_ops \<Rightarrow> (pyval \<Rightarrow> string result) \<Rightarrow> bar \<Rightarrow> SessionVpState \<Rightarrow> (vp_levels \<times> SessionVpState) result" where
  "session_vp_step ao bar_date b s = ebind (session_vp_update ao bar_date b s) (read_levels ao)"

section \<open>The profile of the last bars\<close>

record RollingVpState =
  rv_name :: string
  rv_window_bars :: int
  rv_bars :: "bar list"
  rv_current :: flt

definition RVP_PREFIXES :: "string list" where
  "RVP_PREFIXES = [''rvp_poc_'', ''rvp_vah_'', ''rvp_val_'']"

definition parse_window_bars :: "string \<Rightarrow> int result" where
  "parse_window_bars name =
     (case find (\<lambda>p. starts_with p name \<and> is_number (drop (length p) name) \<and> 1 \<le> digits_value (drop (length p) name))
             RVP_PREFIXES of
        Some p \<Rightarrow> Inr (digits_value (drop (length p) name))
      | None \<Rightarrow> raise (ValueError (''Unsupported rolling volume profile metric: '' @ name)))"

definition new_rolling_vp :: "string \<Rightarrow> RollingVpState result" where
  "new_rolling_vp name =
     ebind (parse_window_bars name) (\<lambda>w. Inr \<lparr>rv_name = name, rv_window_bars = w, rv_bars = [], rv_current = NaN\<rparr>)"

text \<open>The column of the name: POC, VAH or VAL.\<close>

definition rvp_column :: "string \<Rightarrow> vp_levels \<Rightarrow> flt" where
  "rvp_column name l =
     (if starts_with ''rvp_poc_'' name then fst l
      else if starts_with ''rvp_vah_'' name then fst (snd l) else snd (snd l))"

definition rolling_vp_update ::
  "array_ops \<Rightarrow> (bar list \<Rightarrow> VpBar list result) \<Rightarrow> bar \<Rightarrow> RollingVpState \<Rightarrow> (flt \<times> RollingVpState) result" where
  "rolling_vp_update ao to_rows b s =
     (let s1 = s\<lparr>rv_bars := rv_bars s @ [b]\<rparr>
      in if int (length (rv_bars s1)) < rv_window_bars s then Inr (NaN, s1\<lparr>rv_current := NaN\<rparr>)
         else ebind (to_rows (rv_bars s1)) (\<lambda>rows.
              ebind (compute_rolling_window_vp ao (rv_window_bars s) (int NUM_BUCKETS) rows) (\<lambda>levels.
                let v = rvp_column (rv_name s) (last levels) in Inr (v, s1\<lparr>rv_current := v\<rparr>))))"

definition rolling_vp_reset :: "RollingVpState \<Rightarrow> RollingVpState" where
  "rolling_vp_reset s = s\<lparr>rv_bars := [], rv_current := NaN\<rparr>"

end
