(* ===== verification/ProfileProperties.thy ===== *)
theory ProfileProperties
  imports SessionProfile
begin

text \<open>
  What the profiles promise: the value area is an interval around the point of control that holds its share
  of the volume; the incremental state of a session computes what the batch oracle computes; and two places
  where they do not: sessions without a price range, and the share of a market profile.
\<close>

section \<open>Value area\<close>

lemma item_at_inside: "0 \<le> i \<Longrightarrow> i < int (length xs) \<Longrightarrow> item_at xs i = Inr (xs ! nat i)"
  by (simp add: item_at_def)

lemma flt_not_below_minus_one: "0 \<le> v \<Longrightarrow> 0 \<le> t \<or> t = NaN \<Longrightarrow> \<not> v + t < (- 1 :: flt)"
proof
  assume v: "0 \<le> v" and t: "0 \<le> t \<or> t = NaN" and l: "v + t < (- 1 :: flt)"
  have n: "t \<noteq> NaN" "v \<noteq> NaN" using l by (auto dest: flt_less_not_NaN flt_le_not_NaN)
  have "0 \<le> v + t"
    using v t n by (cases v; cases t) (auto simp: zero_flt_def intro!: flr_ge_lower)
  moreover have "(- 1 :: flt) < 0" by (simp add: one_flt_def zero_flt_def)
  ultimately show False using l by (metis flt_le_less_trans flt_less_irrefl flt_less_trans)
qed

lemma expand_loop_interval:
  assumes "list_all ((\<le>) 0) profile" "0 \<le> tol \<or> tol = NaN" "0 \<le> lower" "lower \<le> upper" "upper < int (length profile)"
  shows "\<exists>l u a. expand_loop profile target tol lower upper acc = Inr (l, u, a) \<and> 0 \<le> l \<and> l \<le> lower \<and> upper \<le> u \<and>
    u < int (length profile) \<and> (a < target \<longrightarrow> l = 0 \<and> u = int (length profile) - 1)"
  using assms
proof (induction profile target tol lower upper acc rule: expand_loop.induct)
  case (1 profile target tol lower upper acc)
  let ?n = "int (length profile)"
  have nn: "0 \<le> profile ! i" if "i < length profile" for i using 1(4) that by (simp add: list_all_length)
  show ?case
  proof (cases "acc < target \<and> (0 < lower \<or> upper < ?n - 1)")
    case False
    then show ?thesis using 1(6-8) by (subst expand_loop.simps) (auto simp: Let_def)
  next
    case True
    define below where "below = (if 0 < lower then profile ! nat (lower - 1) else - 1)"
    define above where "above = (if upper < ?n - 1 then profile ! nat (upper + 1) else - 1)"
    have b: "(if 0 < lower then item_at profile (lower - 1) else Inr (- 1)) = Inr below"
      and a: "(if upper < ?n - 1 then item_at profile (upper + 1) else Inr (- 1)) = Inr above"
      using 1(6-8) by (auto simp: below_def above_def item_at_inside)
    have low: "0 < lower" if "above + tol < below"
    proof (rule ccontr)
      assume "\<not> 0 < lower"
      with True have u: "upper < ?n - 1" and "below = - 1" by (auto simp: below_def)
      moreover have "0 \<le> above" using nn [of "nat (upper + 1)"] u 1(6,7) by (simp add: above_def)
      ultimately show False using that flt_not_below_minus_one [OF _ 1(5)] by metis
    qed
    note step = expand_loop.simps [of profile target tol lower upper acc, unfolded Let_def, unfolded b a]
    consider (down) "above + tol < below" | (up) "\<not> above + tol < below" "upper < ?n - 1"
      | (rest) "\<not> above + tol < below" "\<not> upper < ?n - 1" "0 < lower" using True by blast
    then show ?thesis
    proof cases
      case down
      note d = item_at_inside [of "lower - 1" profile]
      show ?thesis using 1(1) [OF refl True down, of "profile ! nat (lower - 1)"] 1(4-8) low [OF down] down True d
        by (subst step) fastforce
    next
      case up
      note d = item_at_inside [of "upper + 1" profile]
      show ?thesis using 1(2) [OF refl True up, of "profile ! nat (upper + 1)"] 1(4-8) up True d
        by (subst step) fastforce
    next
      case rest
      note d = item_at_inside [of "lower - 1" profile]
      show ?thesis using 1(3) [OF refl True rest, of "profile ! nat (lower - 1)"] 1(4-8) rest True d
        by (subst step) fastforce
    qed
  qed
qed
lemma argmax_inside:
  assumes "array_laws ao" "xs \<noteq> []"
  shows "0 \<le> ao_argmax ao xs" "ao_argmax ao xs < int (length xs)"
  using assms by (auto simp: array_laws_def)

lemma sorted_between: "sorted_wrt (\<le>) xs \<Longrightarrow> \<forall>x \<in> set xs. x \<noteq> NaN \<Longrightarrow> i \<le> j \<Longrightarrow> j < length xs \<Longrightarrow> xs ! i \<le> xs ! j"
  for xs :: "flt list"
  using sorted_wrt_nth_less [of "(\<le>)" xs i j] by (cases "i = j") auto

lemma half_nonneg: "0 \<le> x \<Longrightarrow> 0 \<le> half x"
  by (cases x) (auto simp: half_def zero_flt_def intro!: flr_ge_lower)

lemma finite_plus: "is_finite x \<Longrightarrow> 0 \<le> y \<Longrightarrow> x + y \<noteq> NaN \<and> x - y \<noteq> NaN" for x y :: flt
  by (cases x; cases y) (auto simp: minus_flt_def)

lemma expand_loop_stop: "\<not> acc < target \<Longrightarrow> expand_loop profile target tol lower upper acc = Inr (lower, upper, acc)"
  by (subst expand_loop.simps) simp

lemma tolerance_nonneg: "0 \<le> py_max tot 0 * flr (1 / 10 ^ 9) \<or> py_max tot 0 * flr (1 / 10 ^ 9) = NaN"
proof (cases "tot = NaN")
  case False
  then have "0 \<le> py_max tot 0" by (cases tot) (auto simp: py_max_def zero_flt_def)
  moreover have "0 \<le> flr (1 / 10 ^ 9)" unfolding zero_flt_def by (rule flr_ge_lower) auto
  ultimately show ?thesis using flt_times_nonneg by blast
qed (simp add: py_max_def)


section \<open>The incremental profile of a session\<close>

lemma ao_max_snoc: "array_laws ao \<Longrightarrow> NaN \<notin> set (xs @ [x]) \<Longrightarrow> xs \<noteq> [] \<Longrightarrow> ao_max ao (xs @ [x]) = py_max (ao_max ao xs) x"
  by (cases xs) (auto simp: array_laws_def)

lemma ao_min_snoc: "array_laws ao \<Longrightarrow> NaN \<notin> set (xs @ [x]) \<Longrightarrow> xs \<noteq> [] \<Longrightarrow> ao_min ao (xs @ [x]) = py_min (ao_min ao xs) x"
  by (cases xs) (auto simp: array_laws_def)

lemma ao_max_one: "array_laws ao \<Longrightarrow> x \<noteq> NaN \<Longrightarrow> ao_max ao [x] = x \<and> ao_min ao [x] = x"
  by (auto simp: array_laws_def)

lemma efold_vp_bars:
  "emap vp_bar bs = Inr rs \<Longrightarrow> efold (\<lambda>b acc. ebind (vp_bar b) (\<lambda>v. f v acc)) bs acc = efold f rs acc"
proof (induction bs arbitrary: rs acc)
  case (Cons b bs)
  then obtain r rs' where r: "vp_bar b = Inr r" "emap vp_bar bs = Inr rs'" "rs = r # rs'" by auto
  have "efold (\<lambda>b acc. ebind (vp_bar b) (\<lambda>v. f v acc)) bs = efold f rs'" using Cons.IH [OF r(2)] by blast
  then show ?case using r by simp
qed simp

definition bar_numbers :: "VpBar \<Rightarrow> bool" where
  "bar_numbers b \<longleftrightarrow> vb_high b \<noteq> NaN \<and> vb_low b \<noteq> NaN \<and> vb_volume b \<noteq> NaN \<and> is_f64 (vb_volume b)"

definition session_grid :: "array_ops \<Rightarrow> VpBar list \<Rightarrow> (flt list \<times> flt) result" where
  "session_grid ao rs = session_bucket_grid ao (ao_max ao (map vb_high rs)) (ao_min ao (map vb_low rs)) (int NUM_BUCKETS)"

text \<open>
  What the state holds after the bars of a session: the range, the grid over it, and the running sums of all
  bars on that grid.
\<close>

definition tracks :: "array_ops \<Rightarrow> SessionVpState \<Rightarrow> VpBar list \<Rightarrow> bool" where
  "tracks ao s rs \<longleftrightarrow>
     emap vp_bar (sv_bars s) = Inr rs \<and> rs \<noteq> [] \<and> (\<forall>b \<in> set rs. bar_numbers b) \<and>
     sv_session_high s = ao_max ao (map vb_high rs) \<and> sv_session_low s = ao_min ao (map vb_low rs) \<and>
     (\<exists>buckets profile. sv_price_buckets s = Some buckets \<and> sv_volume_profile s = Some profile \<and>
        session_grid ao rs = Inr (buckets, sv_bucket_size s) \<and>
        efold (add_bar ao buckets (sv_bucket_size s)) rs (zeros NUM_BUCKETS, 0) = Inr (profile, sv_total_volume s))"

lemma emap_snoc: "emap f (xs @ [x]) = ebind (emap f xs) (\<lambda>ys. ebind (f x) (\<lambda>y. Inr (ys @ [y])))"
  by (induction xs) (auto simp: ebind_def split: sum.splits)

lemma tracks_first:
  assumes ao: "array_laws ao" and v: "vp_bar b = Inr v" "bar_numbers v" and s: "sv_bars s = [b]" "sv_price_buckets s = None"
    and u: "update_incremental ao b s = Inr s'"
  shows "tracks ao s' [v] \<and> sv_bars s' = sv_bars s \<and> sv_last_levels s' = sv_last_levels s \<and>
    sv_session_date s' = sv_session_date s"
proof -
  note m = ao_max_one [OF ao]
  from u v s obtain g size where g: "session_bucket_grid ao (vb_high v) (vb_low v) (int NUM_BUCKETS) = Inr (g, size)"
    and a: "add_bars ao [b] (s\<lparr>sv_session_high := vb_high v, sv_session_low := vb_low v, sv_price_buckets := Some g,
              sv_bucket_size := size, sv_volume_profile := Some (zeros NUM_BUCKETS), sv_total_volume := 0\<rparr>) = Inr s'"
    by (auto simp: update_incremental_def set_grid_def split: prod.splits)
  from a v obtain p t where e: "add_bar ao g size v (zeros NUM_BUCKETS, 0) = Inr (p, t)"
    and s': "s' = s\<lparr>sv_session_high := vb_high v, sv_session_low := vb_low v, sv_price_buckets := Some g,
              sv_bucket_size := size, sv_volume_profile := Some p, sv_total_volume := t\<rparr>"
    by (auto simp: add_bars_def split: prod.splits)
  show ?thesis using v s e g m [of "vb_high v"] m [of "vb_low v"]
    by (auto simp: tracks_def session_grid_def s' bar_numbers_def)
qed

lemma tracks_next:
  assumes ao: "array_laws ao" and v: "vp_bar b = Inr v" "bar_numbers v"
    and t: "tracks ao s rs" and u: "update_incremental ao b (s\<lparr>sv_bars := sv_bars s @ [b], sv_last_levels := None\<rparr>) = Inr s'"
  shows "tracks ao s' (rs @ [v]) \<and> sv_bars s' = sv_bars s @ [b] \<and> sv_last_levels s' = None \<and>
    sv_session_date s' = sv_session_date s"
proof -
  let ?s = "s\<lparr>sv_bars := sv_bars s @ [b], sv_last_levels := None\<rparr>"
  from t obtain g p where bs: "emap vp_bar (sv_bars s) = Inr rs" "rs \<noteq> []" "\<forall>b \<in> set rs. bar_numbers b"
    and hl: "sv_session_high s = ao_max ao (map vb_high rs)" "sv_session_low s = ao_min ao (map vb_low rs)"
    and g: "sv_price_buckets s = Some g" "sv_volume_profile s = Some p" "session_grid ao rs = Inr (g, sv_bucket_size s)"
    and e: "efold (add_bar ao g (sv_bucket_size s)) rs (zeros NUM_BUCKETS, 0) = Inr (p, sv_total_volume s)"
    unfolding tracks_def by auto
  have all: "emap vp_bar (sv_bars s @ [b]) = Inr (rs @ [v])" using bs(1) v(1) by (simp add: emap_snoc)
  have nums: "\<forall>b \<in> set (rs @ [v]). bar_numbers b" using bs(3) v(2) by auto
  have "NaN \<notin> set (map vb_high rs)" "NaN \<notin> set (map vb_low rs)" using bs(3) by (force simp: bar_numbers_def)+
  then have hi: "ao_max ao (map vb_high (rs @ [v])) = py_max (sv_session_high s) (vb_high v)"
    and lo: "ao_min ao (map vb_low (rs @ [v])) = py_min (sv_session_low s) (vb_low v)"
    using v(2) bs(2) ao_max_snoc [OF ao, of "map vb_high rs" "vb_high v"] ao_min_snoc [OF ao, of "map vb_low rs" "vb_low v"]
    by (auto simp: hl bar_numbers_def)
  show ?thesis
  proof (cases "sv_session_high s < vb_high v \<or> vb_low v < sv_session_low s")
    case True
    with u v g obtain g' size where
      g': "session_bucket_grid ao (py_max (sv_session_high s) (vb_high v)) (py_min (sv_session_low s) (vb_low v))
             (int NUM_BUCKETS) = Inr (g', size)"
      and a: "add_bars ao (sv_bars s @ [b]) (?s\<lparr>sv_session_high := py_max (sv_session_high s) (vb_high v),
          sv_session_low := py_min (sv_session_low s) (vb_low v), sv_price_buckets := Some g', sv_bucket_size := size,
          sv_volume_profile := Some (zeros NUM_BUCKETS), sv_total_volume := 0\<rparr>) = Inr s'"
      by (auto simp: update_incremental_def set_grid_def split: prod.splits)
    from a obtain p' t' where e': "efold (add_bar ao g' size) (rs @ [v]) (zeros NUM_BUCKETS, 0) = Inr (p', t')"
      and s': "s' = ?s\<lparr>sv_session_high := py_max (sv_session_high s) (vb_high v),
          sv_session_low := py_min (sv_session_low s) (vb_low v), sv_price_buckets := Some g', sv_bucket_size := size,
          sv_volume_profile := Some p', sv_total_volume := t'\<rparr>"
      by (auto simp: add_bars_def efold_vp_bars [OF all] split: prod.splits)
    show ?thesis using all nums hi lo g' e' by (auto simp: tracks_def session_grid_def s')
  next
    case False
    then have k: "py_max (sv_session_high s) (vb_high v) = sv_session_high s"
      "py_min (sv_session_low s) (vb_low v) = sv_session_low s" by (auto simp: py_max_def py_min_def)
    from False u v g have a: "add_bars ao [b] ?s = Inr s'" by (simp add: update_incremental_def)
    from a v g obtain p' t' where e': "add_bar ao g (sv_bucket_size s) v (p, sv_total_volume s) = Inr (p', t')"
      and s': "s' = ?s\<lparr>sv_volume_profile := Some p', sv_total_volume := t'\<rparr>"
      by (auto simp: add_bars_def split: prod.splits)
    have "session_grid ao (rs @ [v]) = session_grid ao rs" unfolding session_grid_def hi lo k by (simp add: hl)
    then show ?thesis using all nums hi lo k g e e' hl by (auto simp: tracks_def s' efold_append)
  qed
qed

text \<open>A session whose profile is defined: it has a price range, the grid over it has a width and some bar has volume.\<close>

definition session_live :: "array_ops \<Rightarrow> VpBar list \<Rightarrow> bool" where
  "session_live ao rs \<longleftrightarrow> ao_min ao (map vb_low rs) < ao_max ao (map vb_high rs) \<and>
     (case session_grid ao rs of Inl _ \<Rightarrow> False | Inr (_, bucket_size) \<Rightarrow> 0 < bucket_size) \<and>
     (\<exists>b \<in> set rs. 0 < vb_volume b)"

lemma add_volume_is_add_bar:
  "bar_numbers b \<Longrightarrow> 0 < width \<Longrightarrow> add_volume ao g width b acc = add_bar ao g width b acc"
  using flt_not_le [of "vb_volume b" 0]
  by (auto simp: add_volume_def add_bar_def bar_numbers_def Let_def flt_less_asym split: prod.splits)

lemma aggregate_is_running_sum:
  "\<forall>b \<in> set rs. bar_numbers b \<Longrightarrow> 0 < width \<Longrightarrow>
     efold (add_volume ao g width) rs acc = efold (add_bar ao g width) rs acc"
proof (induction rs arbitrary: acc)
  case (Cons b rs)
  then have "efold (add_volume ao g width) rs = efold (add_bar ao g width) rs" by auto
  then show ?case using Cons.prems by (simp add: add_volume_is_add_bar)
qed simp

lemma flt_add_commute: "x + y = y + x" for x y :: flt
  by (cases x; cases y) (simp_all only: plus_flt.simps add.commute)

lemma add_positive:
  fixes x y :: flt
  assumes "0 \<le> x" "is_f64 x" "0 < y" "is_f64 y"
  shows "x \<le> x + y \<and> 0 < x + y"
proof
  have n: "x + y \<noteq> NaN" using assms(1,3) by (cases x; cases y) (auto simp: zero_flt_def)
  note c = flt_add_commute [of x y]
  with n have m: "y + x \<noteq> NaN" by simp
  show "x \<le> x + y" using flt_add_up [OF assms(2) _ n] assms(3) by (simp add: flt_less_imp_le)
  show "0 < x + y" unfolding c using flt_add_up [OF assms(4,1) m] assms(3) by (rule flt_less_le_trans [rotated])
qed

lemma add_bar_total:
  assumes "add_bar ao g width b (p, t) = Inr (p', t')" "is_f64 t" "0 \<le> t" "bar_numbers b"
  shows "is_f64 t' \<and> t \<le> t' \<and> (0 < width \<and> 0 < vb_volume b \<longrightarrow> 0 < t')"
proof (cases "vb_volume b \<le> 0 \<or> width \<le> 0")
  case True
  then show ?thesis using assms flt_le_not_NaN [OF assms(3)] by (auto simp: add_bar_def dest: flt_less_asym)
next
  case False
  then have "0 < vb_volume b" using flt_not_le [of "vb_volume b" 0] assms(4) by (auto simp: bar_numbers_def)
  moreover from False assms(1) have "t' = t + vb_volume b" by (auto simp: add_bar_def)
  ultimately show ?thesis using add_positive [OF assms(3,2)] assms(4) by (simp add: bar_numbers_def)
qed

lemma running_total:
  assumes "efold (add_bar ao g width) rs (p, t) = Inr (p', t')" "is_f64 t" "0 \<le> t" "\<forall>b \<in> set rs. bar_numbers b"
  shows "t \<le> t' \<and> (0 < width \<and> (\<exists>b \<in> set rs. 0 < vb_volume b) \<longrightarrow> 0 < t')"
  using assms
proof (induction rs arbitrary: p t)
  case Nil
  then show ?case by (auto dest: flt_le_not_NaN)
next
  case (Cons b rs)
  then obtain p1 t1 where s: "add_bar ao g width b (p, t) = Inr (p1, t1)" "efold (add_bar ao g width) rs (p1, t1) = Inr (p', t')"
    by auto
  from add_bar_total [OF s(1)] Cons.prems have a: "is_f64 t1" "t \<le> t1" "0 < width \<and> 0 < vb_volume b \<longrightarrow> 0 < t1" by auto
  have "t1 \<le> t' \<and> (0 < width \<and> (\<exists>b \<in> set rs. 0 < vb_volume b) \<longrightarrow> 0 < t')"
    using Cons.IH [OF s(2) a(1)] flt_trans [OF Cons.prems(3) a(2)] Cons.prems(4) by auto
  then show ?case using a flt_trans [of t t1 t'] flt_less_le_trans [of 0 t1 t'] by auto
qed

lemma levels_after_bar:
  assumes ao: "array_laws ao" and t: "tracks ao s rs" and l: "sv_last_levels s = None" and live: "session_live ao rs"
    and r: "read_levels ao s = Inr (v, s')"
  shows "ebind (compute_session_volume_profile ao rs (int NUM_BUCKETS)) (\<lambda>p. Inr (levels_of p)) = Inr v"
proof -
  from t obtain g p where rs: "emap vp_bar (sv_bars s) = Inr rs" "rs \<noteq> []" "\<forall>b \<in> set rs. bar_numbers b"
    and g: "sv_price_buckets s = Some g" "sv_volume_profile s = Some p" "session_grid ao rs = Inr (g, sv_bucket_size s)"
    and e: "efold (add_bar ao g (sv_bucket_size s)) rs (zeros NUM_BUCKETS, 0) = Inr (p, sv_total_volume s)"
    unfolding tracks_def by auto
  from live g have w: "0 < sv_bucket_size s" and hl: "ao_min ao (map vb_low rs) < ao_max ao (map vb_high rs)"
    and some: "\<exists>b \<in> set rs. 0 < vb_volume b" by (auto simp: session_live_def)
  have pos: "0 < sv_total_volume s" using running_total [OF e _ _ rs(3)] w some by simp
  note npos = flt_less_asym(1) [OF pos]
  have len: "length g = NUM_BUCKETS"
    using g(3) ao by (auto simp: session_grid_def session_bucket_grid_def array_laws_def Let_def)
  have agg: "aggregate_session_volume ao rs g (sv_bucket_size s) = Inr (p, sv_total_volume s)"
    using aggregate_is_running_sum [OF rs(3) w] e by (simp add: aggregate_session_volume_def len)
  have "sv_bars s \<noteq> []" using rs by auto
  then have b: "ebind (build_volume_profile_result ao p g (sv_bucket_size s) (sv_total_volume s) (int NUM_BUCKETS))
      (\<lambda>r. Inr (levels_of r)) = Inr v"
    using r l g npos by (auto simp: read_levels_def ensure_levels_def extract_levels_def)
  show ?thesis
    using rs(2) flt_less_asym(1) [OF hl] npos g(3) agg b
    by (simp add: compute_session_volume_profile_def Let_def session_grid_def)
qed

lemma read_keeps:
  "read_levels ao s = Inr (v, s') \<Longrightarrow> tracks ao s rs \<Longrightarrow> tracks ao s' rs \<and> sv_session_date s' = sv_session_date s"
  by (auto simp: read_levels_def ensure_levels_def extract_levels_def tracks_def split: if_splits option.splits)

text \<open>The frame of a bar stream, and the bars of the session a row belongs to, up to the row.\<close>

definition frame_row :: "(pyval \<Rightarrow> string result) \<Rightarrow> bar \<Rightarrow> (string \<times> VpBar) result" where
  "frame_row bar_date b =
     ebind (bar_date (get_or b ''timestamp'' PNone)) (\<lambda>d. ebind (vp_bar b) (\<lambda>v. Inr (d, v)))"

definition last_run :: "vp_frame \<Rightarrow> VpBar list" where
  "last_run rows = map snd (rev (takeWhile (\<lambda>r. fst r = fst (last rows)) (rev rows)))"

lemma last_run_snoc:
  "last_run (rows @ [(d, v)]) = (if rows \<noteq> [] \<and> fst (last rows) = d then last_run rows @ [v] else [v])"
  by (cases rows rule: rev_cases) (auto simp: last_run_def)

lemma last_run_prefix:
  assumes "k < length session" "\<forall>r \<in> set session. fst r = d"
  shows "last_run (take (Suc k) session) = map snd (take (Suc k) session)"
proof -
  let ?t = "take (Suc k) session"
  have "?t \<noteq> []" using assms(1) by auto
  then have "last ?t \<in> set session" using in_set_takeD last_in_set by metis
  moreover have "\<forall>r \<in> set (rev ?t). fst r = d" using assms(2) by (auto dest: in_set_takeD)
  ultimately show ?thesis using assms(2) by (simp add: last_run_def takeWhile_eq_all_conv [THEN iffD2])
qed

lemma last_run_append:
  assumes "rest \<noteq> []" "session \<noteq> []" "\<forall>r \<in> set session. fst r = d" "fst (hd rest) \<noteq> d"
  shows "last_run (session @ rest) = last_run rest"
proof -
  have t: "takeWhile P (xs @ ys) = takeWhile P xs" if "\<exists>x \<in> set xs. \<not> P x" for P :: "string \<times> VpBar \<Rightarrow> bool" and xs ys
    using that by (induction xs) auto
  have l: "last (session @ rest) = last rest" using assms(1) by simp
  show ?thesis
  proof (cases "\<exists>r \<in> set (rev rest). fst r \<noteq> fst (last rest)")
    case True
    then show ?thesis by (simp only: last_run_def rev_append l t)
  next
    case False
    have "hd rest \<in> set (rev rest)" using assms(1) by simp
    with False have "fst (last rest) = fst (hd rest)" by metis
    moreover have "last session \<in> set session" using assms(2) by simp
    ultimately have "fst (last session) \<noteq> fst (last rest)" using assms(3,4) by metis
    then have e: "takeWhile (\<lambda>r. fst r = fst (last rest)) (rev session) = []"
      using assms(2) by (cases session rule: rev_cases) auto
    have "takeWhile (\<lambda>r. fst r = fst (last rest)) (rev rest @ rev session) =
        rev rest @ takeWhile (\<lambda>r. fst r = fst (last rest)) (rev session)"
      using False by (intro takeWhile_append2) blast
    moreover have "takeWhile (\<lambda>r. fst r = fst (last rest)) (rev rest) = rev rest"
      using False unfolding takeWhile_eq_all_conv by blast
    ultimately show ?thesis by (simp only: last_run_def rev_append l e append_Nil2)
  qed
qed

lemma expanding_rows:
  assumes "compute_expanding_session_volume_profiles ao rows n = Inr ws"
  shows "length ws = length rows \<and> (\<forall>i < length rows.
    ebind (compute_session_volume_profile ao (last_run (take (Suc i) rows)) n) (\<lambda>p. Inr (levels_of p)) = Inr (ws ! i))"
  using assms
proof (induction ao rows n arbitrary: ws rule: compute_expanding_session_volume_profiles.induct)
  case (1 ao rows n)
  show ?case
  proof (cases rows)
    case Nil
    then show ?thesis using 1(2) by (simp add: compute_expanding_session_volume_profiles.simps [of ao "[]"])
  next
    case (Cons r rs)
    obtain d b where r: "r = (d, b)" by fastforce
    let ?s = "takeWhile (\<lambda>r. fst r = d) rows" and ?r = "dropWhile (\<lambda>r. fst r = d) rows"
    let ?f = "\<lambda>k. ebind (compute_session_volume_profile ao (map snd (take (Suc k) ?s)) n) (\<lambda>p. Inr (levels_of p))"
    from 1(2) obtain us vs where u: "emap ?f [0..<length ?s] = Inr us"
      and v: "compute_expanding_session_volume_profiles ao ?r n = Inr vs" and ws: "ws = us @ vs"
      by (subst (asm) compute_expanding_session_volume_profiles.simps) (auto simp: Cons r Let_def)
    have IH: "length vs = length ?r" "\<forall>i < length ?r.
        ebind (compute_session_volume_profile ao (last_run (take (Suc i) ?r)) n) (\<lambda>p. Inr (levels_of p)) = Inr (vs ! i)"
      using 1(1) [OF Cons r [symmetric] refl refl v] by auto
    have lr: "length rows = length ?s + length ?r" by (metis length_append takeWhile_dropWhile_id)
    have sd: "\<forall>r \<in> set ?s. fst r = d" and sne: "?s \<noteq> []" and lu: "length us = length ?s"
      using emap_length [OF u] by (auto simp: Cons r dest: set_takeWhileD)
    have first: "ebind (compute_session_volume_profile ao (last_run (take (Suc i) rows)) n) (\<lambda>p. Inr (levels_of p)) = Inr (ws ! i)"
      if "i < length ?s" for i
    proof -
      have "take (Suc i) (?s @ ?r) = take (Suc i) ?s" using that by (simp del: takeWhile_dropWhile_id)
      then have "take (Suc i) rows = take (Suc i) ?s" by simp
      then show ?thesis using emap_nth [OF u, of i] that last_run_prefix [OF that sd] by (simp add: ws lu nth_append)
    qed
    have second: "ebind (compute_session_volume_profile ao (last_run (take (Suc i) rows)) n) (\<lambda>p. Inr (levels_of p)) = Inr (ws ! i)"
      if "length ?s \<le> i" "i < length rows" for i
    proof -
      let ?j = "i - length ?s"
      have j: "?j < length ?r" using that lr by linarith
      have "take (Suc i) (?s @ ?r) = ?s @ take (Suc ?j) ?r"
        using that(1) by (simp add: Suc_diff_le del: takeWhile_dropWhile_id)
      then have "take (Suc i) rows = ?s @ take (Suc ?j) ?r" by simp
      moreover have rne: "?r \<noteq> []" using j by (metis length_0_conv not_less_zero)
      moreover have "fst (hd ?r) \<noteq> d" using hd_dropWhile [OF rne] .
      moreover have "hd (take (Suc ?j) ?r) = hd ?r" by (simp add: hd_take)
      moreover have "take (Suc ?j) ?r \<noteq> []" using rne by (simp only: take_eq_Nil) simp
      ultimately have "last_run (take (Suc i) rows) = last_run (take (Suc ?j) ?r)"
        using last_run_append [OF _ sne sd] by simp
      then show ?thesis using IH(2) j that by (simp add: ws lu nth_append)
    qed
    have "length ws = length rows" unfolding ws length_append lu IH(1) lr ..
    then show ?thesis using first second linorder_not_le by blast
  qed
qed

definition follows :: "array_ops \<Rightarrow> SessionVpState \<Rightarrow> vp_frame \<Rightarrow> bool" where
  "follows ao s rows \<longleftrightarrow>
     (if rows = [] then s = new_session_vp
      else tracks ao s (last_run rows) \<and> sv_session_date s = Some (fst (last rows)))"

lemma cap_session_frame:
  "cap_session ao s = Inr s' \<Longrightarrow> sv_bars (session_vp_reset s') = [] \<and> sv_price_buckets (session_vp_reset s') = None"
  by (simp add: session_vp_reset_def)

text \<open>A level read from a state that holds the bars of a session.\<close>

definition reads_levels :: "array_ops \<Rightarrow> VpBar list \<Rightarrow> vp_levels \<Rightarrow> bool" where
  "reads_levels ao rs l \<longleftrightarrow> (\<exists>s s'. tracks ao s rs \<and> sv_last_levels s = None \<and> read_levels ao s = Inr (l, s'))"

lemma step_follows:
  assumes ao: "array_laws ao" and ts: "get_or b ''timestamp'' PNone \<noteq> PNone"
    and row: "frame_row bar_date b = Inr (d, v)" and num: "bar_numbers v" and f: "follows ao s rows"
    and st: "session_vp_step ao bar_date b s = Inr (l, s')"
  shows "follows ao s' (rows @ [(d, v)]) \<and> reads_levels ao (last_run (rows @ [(d, v)])) l"
proof -
  from row have bd: "bar_date (get_or b ''timestamp'' PNone) = Inr d" and v: "vp_bar b = Inr v"
    by (auto simp: frame_row_def)
  from st obtain s3 where up: "session_vp_update ao bar_date b s = Inr s3" and rd: "read_levels ao s3 = Inr (l, s')"
    by (auto simp: session_vp_step_def)
  have "tracks ao s3 (last_run (rows @ [(d, v)])) \<and> sv_session_date s3 = Some d \<and> sv_last_levels s3 = None"
  proof (cases "rows \<noteq> [] \<and> fst (last rows) = d")
    case True
    with f have t: "tracks ao s (last_run rows)" and sd: "sv_session_date s = Some d" by (auto simp: follows_def)
    let ?s = "s\<lparr>sv_session_date := Some d\<rparr>"
    have t': "tracks ao ?s (last_run rows)" using t by (simp add: tracks_def)
    have "update_incremental ao b (?s\<lparr>sv_bars := sv_bars ?s @ [b], sv_last_levels := None\<rparr>) = Inr s3"
      using up ts bd sd by (simp add: session_vp_update_def Let_def)
    from tracks_next [OF ao v num t' this] show ?thesis using True by (simp add: last_run_snoc)
  next
    case False
    obtain s1 where s1: "sv_bars s1 = []" "sv_price_buckets s1 = None"
      and u: "update_incremental ao b (s1\<lparr>sv_session_date := Some d, sv_bars := [b], sv_last_levels := None\<rparr>) = Inr s3"
    proof (cases "rows = []")
      case True
      with f have "s = new_session_vp" by (simp add: follows_def)
      then show ?thesis using up ts bd that [of s] by (simp add: session_vp_update_def Let_def new_session_vp_def)
    next
      case ne: False
      with f False have "sv_session_date s \<noteq> None \<and> sv_session_date s \<noteq> Some d" by (simp add: follows_def)
      with up ts bd obtain s0 where "cap_session ao s = Inr s0"
        "update_incremental ao b ((session_vp_reset s0)\<lparr>sv_session_date := Some d, sv_bars := [b], sv_last_levels := None\<rparr>) = Inr s3"
        by (auto simp: session_vp_update_def Let_def session_vp_reset_def)
      then show ?thesis using that [of "session_vp_reset s0"] cap_session_frame by simp
    qed
    from tracks_first [OF ao v num _ _ u] s1 show ?thesis using False by (auto simp: last_run_snoc)
  qed
  then have t: "tracks ao s3 (last_run (rows @ [(d, v)]))" and sd: "sv_session_date s3 = Some d" and n: "sv_last_levels s3 = None"
    by auto
  show ?thesis using read_keeps [OF rd t] sd t n rd by (auto simp: follows_def reads_levels_def)
qed

lemma feed_follows:
  assumes ao: "array_laws ao" and ts: "\<forall>b \<in> set bars. get_or b ''timestamp'' PNone \<noteq> PNone"
    and rows: "emap (frame_row bar_date) bars = Inr rows" and num: "\<forall>r \<in> set rows. bar_numbers (snd r)"
    and fd: "feed (session_vp_step ao bar_date) bars new_session_vp = Inr (vs, s)"
  shows "follows ao s rows \<and> (\<forall>i < length bars. reads_levels ao (last_run (take (Suc i) rows)) (vs ! i))"
  using ts rows num fd
proof (induction bars arbitrary: rows vs s rule: rev_induct)
  case Nil
  then show ?case by (simp add: follows_def)
next
  case (snoc b bars)
  from snoc.prems(2) obtain rows0 d v where r: "emap (frame_row bar_date) bars = Inr rows0"
    "frame_row bar_date b = Inr (d, v)" "rows = rows0 @ [(d, v)]" by (auto simp: emap_snoc)
  from snoc.prems(4) obtain vs0 s0 l where f: "feed (session_vp_step ao bar_date) bars new_session_vp = Inr (vs0, s0)"
    "session_vp_step ao bar_date b s0 = Inr (l, s)" "vs = vs0 @ [l]" by (auto simp: feed_append split: prod.splits)
  have len: "length rows0 = length bars" "length vs0 = length bars"
    using emap_length [OF r(1)] feed_length [OF f(1)] by simp_all
  have IH: "follows ao s0 rows0" "\<forall>i < length bars. reads_levels ao (last_run (take (Suc i) rows0)) (vs0 ! i)"
    using snoc.IH [OF _ r(1) _ f(1)] snoc.prems(1,3) r(3) by auto
  have st: "follows ao s (rows0 @ [(d, v)]) \<and> reads_levels ao (last_run (rows0 @ [(d, v)])) l"
    using step_follows [OF ao _ r(2) _ IH(1) f(2)] snoc.prems(1,3) r(3) by auto
  show ?case
  proof (intro conjI allI impI)
    show "follows ao s rows" using st r(3) by simp
    fix i assume "i < length (bars @ [b])"
    then show "reads_levels ao (last_run (take (Suc i) rows)) (vs ! i)"
      using st IH(2) len by (cases "i = length bars") (auto simp: r(3) f(3) nth_append less_Suc_eq)
  qed
qed

text \<open>
  C24. The incremental volume profile equals its batch oracle: whatever bars with time stamps are fed, session after
  session, the levels read after each bar are those the oracle computes for its row by distributing the volume of
  all bars of the session so far, as long as the session has a price range and volume.
\<close>

theorem session_levels_match_oracle:
  assumes ao: "array_laws ao" and ts: "\<forall>b \<in> set bars. get_or b ''timestamp'' PNone \<noteq> PNone"
    and rows: "emap (frame_row bar_date) bars = Inr rows" and num: "\<forall>r \<in> set rows. bar_numbers (snd r)"
    and fd: "feed (session_vp_step ao bar_date) bars new_session_vp = Inr (vs, s)"
    and batch: "compute_expanding_session_volume_profiles ao rows (int NUM_BUCKETS) = Inr ws"
  shows "length vs = length ws \<and>
    (\<forall>i < length ws. session_live ao (last_run (take (Suc i) rows)) \<longrightarrow> vs ! i = ws ! i)"
proof -
  have len: "length vs = length rows" "length bars = length rows"
    using feed_length [OF fd] emap_length [OF rows] by simp_all
  note ws = expanding_rows [OF batch]
  have "vs ! i = ws ! i" if i: "i < length ws" and live: "session_live ao (last_run (take (Suc i) rows))" for i
  proof -
    have r: "reads_levels ao (last_run (take (Suc i) rows)) (vs ! i)"
      using feed_follows [OF ao ts rows num fd] i ws len by simp
    then have "ebind (compute_session_volume_profile ao (last_run (take (Suc i) rows)) (int NUM_BUCKETS))
        (\<lambda>p. Inr (levels_of p)) = Inr (vs ! i)"
      using levels_after_bar [OF ao _ _ live] unfolding reads_levels_def by blast
    moreover have "ebind (compute_session_volume_profile ao (last_run (take (Suc i) rows)) (int NUM_BUCKETS))
        (\<lambda>p. Inr (levels_of p)) = Inr (ws ! i)" using i ws by simp
    ultimately show ?thesis by simp
  qed
  then show ?thesis using len ws by simp
qed

section \<open>Sessions without a price range\<close>

lemma no_width_no_volume: "width \<le> 0 \<Longrightarrow> efold (add_bar ao g width) rs acc = Inr acc"
  by (induction rs arbitrary: acc) (auto simp: add_bar_def split: prod.splits)

lemma no_width_no_levels:
  assumes r: "reads_levels ao rs l" and g: "session_grid ao rs = Inr (g, width)" "width \<le> 0"
  shows "l = no_levels"
proof -
  from r obtain s s' where t: "tracks ao s rs" and n: "sv_last_levels s = None" and rd: "read_levels ao s = Inr (l, s')"
    by (auto simp: reads_levels_def)
  from t g have "sv_total_volume s = 0" by (auto simp: tracks_def no_width_no_volume)
  then show ?thesis using rd n
    by (auto simp: read_levels_def ensure_levels_def extract_levels_def split: if_splits option.splits)
qed

lemma fold_same: "\<forall>y \<in> set xs. y = x \<Longrightarrow> f x x = x \<Longrightarrow> fold f xs x = x"
  by (induction xs) auto

lemma flat_bucket_grid:
  assumes "is_f64 (Fin q)"
  shows "\<exists>g. session_bucket_grid ao (Fin q) (Fin q) (int NUM_BUCKETS) = Inr (g, 0)"
proof -
  have two: "two_percent = Fin (5764607523034235 / 288230376151711744)" by code_simp
  have "flr q = Fin q" using assms by simp
  then have z: "Fin q - Fin q = (0 :: flt)" "(0 :: flt) * two_percent = 0" "Fin q - 0 = Fin q" "Fin q + 0 = Fin q"
    by (simp_all add: minus_flt_def zero_flt_def two)
  moreover have "float_of_int (int NUM_BUCKETS) = Inr (Fin 100)"
    using flr_numeral [of "num.Bit0 (num.Bit0 (num.Bit1 (num.Bit0 (num.Bit0 (num.Bit1 num.One)))))"]
    by (simp add: float_of_int_def NUM_BUCKETS_def)
  ultimately show ?thesis by (simp add: session_bucket_grid_def Let_def zero_flt_def NUM_BUCKETS_def)
qed

lemma extremes_Cons:
  assumes "array_laws ao" "NaN \<notin> set (x # xs)"
  shows "ao_max ao (x # xs) = fold (\<lambda>y m. py_max m y) xs x" "ao_min ao (x # xs) = fold (\<lambda>y m. py_min m y) xs x"
  using assms unfolding array_laws_def by blast+

lemma flat_grid:
  assumes ao: "array_laws ao" and rs: "rs \<noteq> []" "\<forall>b \<in> set rs. vb_high b = Fin q \<and> vb_low b = Fin q"
  shows "ao_max ao (map vb_high rs) = Fin q \<and> ao_min ao (map vb_low rs) = Fin q"
proof -
  obtain r rs' where r: "rs = r # rs'" using rs(1) by (cases rs) auto
  have same: "\<forall>y \<in> set (map vb_high rs'). y = Fin q" "\<forall>y \<in> set (map vb_low rs'). y = Fin q"
    and head: "vb_high r = Fin q" "vb_low r = Fin q" using rs(2) unfolding r by simp_all
  then have n: "NaN \<notin> set (vb_high r # map vb_high rs')" "NaN \<notin> set (vb_low r # map vb_low rs')" by force+
  have f: "fold (\<lambda>y m. py_max m y) (map vb_high rs') (Fin q) = Fin q" "fold (\<lambda>y m. py_min m y) (map vb_low rs') (Fin q) = Fin q"
    by (rule fold_same [OF same(1)], simp add: py_max_def, rule fold_same [OF same(2)], simp add: py_min_def)
  show ?thesis
    using extremes_Cons(1) [OF ao n(1)] extremes_Cons(2) [OF ao n(2)] f by (simp add: r head del: fold_map)
qed

text \<open>
  Sessions without a price range: while all bars of a session have one price, the batch oracle answers with that
  price as POC, VAH and VAL, but the incremental state answers NaN, whatever the volume of the bars: the two
  definitions that are meant to agree differ on every such row.
\<close>

theorem flat_session_diverges:
  assumes ao: "array_laws ao" and ts: "\<forall>b \<in> set bars. get_or b ''timestamp'' PNone \<noteq> PNone"
    and rows: "emap (frame_row bar_date) bars = Inr rows" and num: "\<forall>r \<in> set rows. bar_numbers (snd r)"
    and fd: "feed (session_vp_step ao bar_date) bars new_session_vp = Inr (vs, s)"
    and batch: "compute_expanding_session_volume_profiles ao rows (int NUM_BUCKETS) = Inr ws"
    and i: "i < length bars" and q: "is_f64 (Fin q)"
    and flat: "\<forall>b \<in> set (last_run (take (Suc i) rows)). vb_high b = Fin q \<and> vb_low b = Fin q"
  shows "vs ! i = (NaN, NaN, NaN) \<and> ws ! i = (Fin q, Fin q, Fin q)"
proof -
  have len: "length bars = length rows" using emap_length [OF rows] by simp
  have r: "reads_levels ao (last_run (take (Suc i) rows)) (vs ! i)"
    using feed_follows [OF ao ts rows num fd] i by simp
  then have ne: "last_run (take (Suc i) rows) \<noteq> []" by (auto simp: reads_levels_def tracks_def)
  note m = flat_grid [OF ao ne flat]
  obtain g where g: "session_grid ao (last_run (take (Suc i) rows)) = Inr (g, 0)"
    using flat_bucket_grid [OF q, of ao] m by (auto simp: session_grid_def)
  have "compute_session_volume_profile ao (last_run (take (Suc i) rows)) (int NUM_BUCKETS) =
      Inr (flat_profile (Fin q) (Fin q) (Fin q) 0 (int NUM_BUCKETS))"
    using ne m by (simp add: compute_session_volume_profile_def Let_def)
  moreover have "ebind (compute_session_volume_profile ao (last_run (take (Suc i) rows)) (int NUM_BUCKETS))
      (\<lambda>p. Inr (levels_of p)) = Inr (ws ! i)" using expanding_rows [OF batch] i len by simp
  ultimately have "ws ! i = (Fin q, Fin q, Fin q)" by (simp add: levels_of_def flat_profile_def)
  then show ?thesis using no_width_no_levels [OF r g] by (simp add: no_levels_def)
qed

section \<open>The value area of a market profile\<close>

definition visits :: "VpBar list \<Rightarrow> flt \<Rightarrow> flt \<Rightarrow> nat" where
  "visits bars bucket_size p = length (filter (\<lambda>b. touched (vb_high b) (vb_low b) bucket_size p) bars)"

lemma count_up: "n + 1 \<le> 2 ^ 53 \<Longrightarrow> Fin (of_nat n) + 1 = Fin (of_nat (n + 1)) \<and> Fin (of_nat n) + 0 = Fin (of_nat n)"
  using flr_int [of "int n + 1"] flr_int [of "int n"] by (simp add: one_flt_def zero_flt_def)

definition tally :: "flt list \<Rightarrow> (flt \<Rightarrow> nat) \<Rightarrow> flt list" where
  "tally buckets f = map (\<lambda>p. Fin (of_nat (f p))) buckets"

lemma add_counts:
  assumes "\<And>p. f p + 1 \<le> 2 ^ 53" "\<And>p. g p = f p + (if touched h l w p then 1 else 0)"
  shows "add_arrays (tally buckets f) (count_tpos_for_bar h l buckets w) = tally buckets g"
  using assms count_up by (induction buckets) (auto simp: add_arrays_def count_tpos_for_bar_def tally_def)

lemma tpo_counts:
  assumes "2 * length bars \<le> 2 ^ 53"
  shows "fold (add_tpos split buckets w) bars (zeros (length buckets), 0) =
    (tally buckets (\<lambda>p. (if split then 2 else 1) * visits bars w p), (if split then 2 else 1) * int (length bars))"
  using assms
proof (induction bars rule: rev_induct)
  case Nil
  then show ?case by (simp add: zeros_def visits_def map_replicate_const zero_flt_def tally_def)
next
  case (snoc b bars)
  let ?c = "count_tpos_for_bar (vb_high b) (vb_low b) buckets w"
  let ?t = "\<lambda>p. if touched (vb_high b) (vb_low b) w p then 1 else 0 :: nat"
  have s: "visits (bars @ [b]) w p = visits bars w p + ?t p" for p by (simp add: visits_def)
  have v: "visits bars w p \<le> length bars" for p by (simp add: visits_def)
  have m: "visits bars w p + 1 \<le> 2 ^ 53" "2 * visits bars w p + 1 \<le> 2 ^ 53" "2 * visits bars w p + ?t p + 1 \<le> 2 ^ 53" for p
    using v [of p] snoc.prems by simp_all
  have one: "add_arrays (tally buckets (visits bars w)) ?c = tally buckets (visits (bars @ [b]) w)"
    by (rule add_counts) (use m in \<open>simp_all add: s\<close>)
  have up: "add_arrays (tally buckets (\<lambda>p. 2 * visits bars w p)) ?c = tally buckets (\<lambda>p. 2 * visits bars w p + ?t p)"
    by (rule add_counts) (use m in \<open>simp_all\<close>)
  have two: "add_arrays (tally buckets (\<lambda>p. 2 * visits bars w p + ?t p)) ?c =
      tally buckets (\<lambda>p. 2 * visits (bars @ [b]) w p)"
    by (rule add_counts) (use m in \<open>simp_all add: s\<close>)
  show ?case using snoc one up two by (cases split) (simp_all add: add_tpos_def Let_def)
qed

text \<open>
  The value area of a market profile is not 68% of it: the share is taken of the number of periods, while every
  period visits many buckets.  When one bucket is visited by every bar of the session, the value area is that single
  bucket, however many other buckets the bars have visited as often.
\<close>

theorem market_value_area_one_bucket:
  assumes ao: "array_laws ao" and n: "2 * length bars \<le> 2 ^ 53" "bars \<noteq> []"
    and r: "compute_session_market_profile ao gap bars k = Inr r"
    and range: "ao_min ao (map vb_low bars) < ao_max ao (map vb_high bars)"
    and g: "session_bucket_grid ao (ao_max ao (map vb_high bars)) (ao_min ao (map vb_low bars)) k = Inr (buckets, w)"
    and p: "p \<in> set buckets" "\<forall>b \<in> set bars. touched (vb_high b) (vb_low b) w p"
  shows "\<exists>q \<in> set buckets. mp_poc r = q \<and> mp_vah r = q + half w \<and> mp_val r = q - half w \<and>
    mp_value_area_tpos r = mp_total_tpos r"
proof -
  from r range g n(2) obtain tb where tb: "get_tpo_bars_per_period (length bars) gap = Inr tb"
    by (auto simp: compute_session_market_profile_def Let_def flt_less_asym)
  let ?m = "if tb = 0 then 2 else 1 :: nat"
  define T where "T = (if tb = 0 then 2 else 1) * int (length bars)"
  let ?prof = "tally buckets (\<lambda>p. ?m * visits bars w p)"
  have len: "length buckets = nat k"
    using g ao by (auto simp: session_bucket_grid_def array_laws_def Let_def split: if_splits)
  have T: "0 < T" "T \<le> 2 ^ 53" "T = int (?m * length bars)" "\<not> T \<le> 0" using n by (auto simp: T_def)
  have ft: "float_of_int T = Inr (Fin (of_int T))"
    using flr_int [of T] T(1,2) by (simp add: float_of_int_def)
  have fold: "fold (add_tpos (tb = 0) buckets w) bars (zeros (nat k), 0) = (?prof, T)"
    using tpo_counts [OF n(1), of "tb = 0" buckets w] by (simp add: len T_def)
  obtain ed area counts where ed: "area_edges ao ?prof buckets w (Fin (of_int T)) = Inr ed"
    and area: "py_trunc (snd (snd (snd ed))) = Inr area"
    and rr: "mp_poc r = fst ed" "mp_vah r = fst (snd ed)" "mp_val r = fst (snd (snd ed))" "mp_total_tpos r = T"
      "mp_value_area_tpos r = area"
    using r n(2) flt_less_asym(1) [OF range] T(4)
    by (simp add: compute_session_market_profile_def Let_def g tb fold ft) (auto split: prod.splits)
  let ?i = "nat (ao_argmax ao ?prof)"
  have pne: "?prof \<noteq> []" using p(1) by (auto simp: tally_def)
  have pl: "length ?prof = length buckets" by (simp add: tally_def)
  note i = argmax_inside [OF ao pne, unfolded pl]
  then have at: "?prof ! ?i = Fin (of_nat (?m * visits bars w (buckets ! ?i)))" by (simp add: tally_def del: of_nat_mult)
  have "NaN \<notin> set ?prof" by (auto simp: tally_def)
  moreover have "visits bars w p = length bars" using p(2) by (auto simp: visits_def filter_id_conv)
  then have "Fin (of_nat (?m * length bars)) \<in> set ?prof" using p(1) unfolding tally_def by force
  ultimately have "Fin (of_nat (?m * length bars)) \<le> ?prof ! ?i" using ao unfolding array_laws_def by blast
  moreover have "visits bars w (buckets ! ?i) \<le> length bars" by (simp add: visits_def)
  ultimately have "visits bars w (buckets ! ?i) = length bars"
    unfolding at by (auto simp del: of_nat_mult split: if_splits)
  then have top: "?prof ! ?i = Fin (of_int T)" unfolding at T(3) by (simp only: of_int_of_nat_eq)
  have "TARGET_FRACTION \<le> 1" unfolding TARGET_FRACTION_def one_flt_def by (rule flr_le_upper) auto
  moreover have "is_f64 (Fin (of_int T))" using flr_int [of T] T(1,2) by simp
  moreover have "0 < Fin (of_int T)" using T(1) by (simp add: zero_flt_def)
  ultimately have "Fin (of_int T) * TARGET_FRACTION \<le> Fin (of_int T)" by (intro flt_scale_down) simp_all
  then have "\<not> Fin (of_int T) < Fin (of_int T) * TARGET_FRACTION" by (auto dest: flt_less_asym)
  then have "expand_value_area ?prof (ao_argmax ao ?prof) (Fin (of_int T)) =
      Inr (ao_argmax ao ?prof, ao_argmax ao ?prof, Fin (of_int T))"
    using i top pl by (simp add: expand_value_area_def item_at_inside expand_loop_stop)
  then have e: "ed = (buckets ! ?i, buckets ! ?i + half w, buckets ! ?i - half w, Fin (of_int T))"
    using ed i by (simp add: area_edges_def Let_def item_at_inside)
  then have "area = T" using area T(1) by simp
  then show ?thesis using rr e i by (auto intro!: bexI [of _ "buckets ! ?i"])
qed

end
