(* ===== verification/ProfileExamples.thy ===== *)
theory ProfileExamples
  imports ProfileProperties
begin

text \<open>Profiles of concrete sessions: the hypotheses of the properties hold for array functions one can run.\<close>

fun argmax_from :: "int \<Rightarrow> int \<Rightarrow> flt \<Rightarrow> flt list \<Rightarrow> int" where
  "argmax_from best i x [] = best"
| "argmax_from best i x (y # ys) = (if x < y then argmax_from i (i + 1) y ys else argmax_from best (i + 1) x ys)"

definition sample_linspace :: "flt \<Rightarrow> flt \<Rightarrow> nat \<Rightarrow> flt list" where
  "sample_linspace a b n = (case n of 0 \<Rightarrow> [] | Suc m \<Rightarrow> replicate m a @ [b])"

definition sample_ao :: array_ops where
  "sample_ao = \<lparr>ao_log = (\<lambda>_. 0), ao_sqrt = (\<lambda>_. 1), ao_exp = (\<lambda>_. 1), ao_sum = foldl (+) 0,
     ao_argmax = (\<lambda>xs. case xs of [] \<Rightarrow> 0 | x # ys \<Rightarrow> argmax_from 0 1 x ys), ao_argmin = (\<lambda>_. 0),
     ao_linspace = sample_linspace, ao_median = hd,
     ao_max = (\<lambda>xs. case xs of [] \<Rightarrow> NaN | x # ys \<Rightarrow> fold (\<lambda>y m. py_max m y) ys x),
     ao_min = (\<lambda>xs. case xs of [] \<Rightarrow> NaN | x # ys \<Rightarrow> fold (\<lambda>y m. py_min m y) ys x)\<rparr>"

lemma argmax_from_inside:
  "0 \<le> best \<Longrightarrow> best < i \<Longrightarrow> 0 \<le> argmax_from best i x ys \<and> argmax_from best i x ys < i + int (length ys)"
  by (induction best i x ys rule: argmax_from.induct) force+

lemma argmax_from_best:
  assumes "NaN \<notin> set ys" "x \<noteq> NaN" "0 \<le> best" "best < int (length xs)" "xs ! nat best = x" "\<forall>z \<in> set xs. z \<le> x"
  shows "\<forall>z \<in> set (xs @ ys). z \<le> (xs @ ys) ! nat (argmax_from best (int (length xs)) x ys)"
  using assms
proof (induction ys arbitrary: best x xs)
  case Nil
  then show ?case by simp
next
  case (Cons y ys)
  show ?case
  proof (cases "x < y")
    case True
    have "\<forall>z \<in> set (xs @ [y]). z \<le> y" using Cons.prems True by (auto intro: flt_trans flt_less_imp_le)
    then show ?thesis using Cons.IH [of y "int (length xs)" "xs @ [y]"] Cons.prems True by (simp add: add.commute)
  next
    case False
    have "y \<le> x" using False Cons.prems(1,2) by (metis flt_not_less list.set_intros(1))
    moreover have "(xs @ [y]) ! nat best = x" using Cons.prems by (auto simp: nth_append nat_less_iff)
    ultimately show ?thesis using Cons.IH [of x best "xs @ [y]"] Cons.prems False by (simp add: add.commute)
  qed
qed

lemma sample_ao_laws: "array_laws sample_ao"
proof -
  have "0 \<le> ao_argmax sample_ao xs \<and> ao_argmax sample_ao xs < int (length xs)" if "xs \<noteq> []" for xs
    using that argmax_from_inside [of 0 1] by (cases xs) (auto simp: sample_ao_def)
  moreover have "y \<le> xs ! nat (ao_argmax sample_ao xs)" if "NaN \<notin> set xs" "y \<in> set xs" for xs y
    using that argmax_from_best [of "tl xs" "hd xs" 0 "[hd xs]"] by (cases xs) (auto simp: sample_ao_def)
  ultimately show ?thesis
    unfolding array_laws_def by (simp add: sample_ao_def sample_linspace_def split: nat.splits)
qed

definition sample_bar :: "string \<Rightarrow> int \<Rightarrow> int \<Rightarrow> int \<Rightarrow> bar" where
  "sample_bar ts high low volume = [''timestamp'' \<mapsto> PStr ts, ''high'' \<mapsto> PFloat (flr (of_int high)),
     ''low'' \<mapsto> PFloat (flr (of_int low)), ''close'' \<mapsto> PFloat (flr (of_int low)), ''volume'' \<mapsto> PFloat (flr (of_int volume))]"

definition sample_date :: "pyval \<Rightarrow> string result" where
  "sample_date v = (case v of PStr s \<Rightarrow> Inr (take 10 s) | _ \<Rightarrow> raise TypeError)"

text \<open>One bar with a range of 100 to 110: its volume goes to the first bucket.\<close>

definition sample_ts :: string where
  "sample_ts = ''2024-01-02T10:00:00''"

lemma sample_vp_bar:
  "vp_bar (sample_bar sample_ts h l v) =
     Inr \<lparr>vb_high = flr (of_int h), vb_low = flr (of_int l), vb_close = flr (of_int l), vb_volume = flr (of_int v)\<rparr>"
  by (simp add: vp_bar_def bar_float_def sample_bar_def)

lemma sample_row:
  "frame_row sample_date (sample_bar sample_ts h l v) = Inr (take 10 sample_ts,
     \<lparr>vb_high = flr (of_int h), vb_low = flr (of_int l), vb_close = flr (of_int l), vb_volume = flr (of_int v)\<rparr>)"
  by (simp add: frame_row_def sample_vp_bar) (simp add: sample_bar_def get_or_def sample_date_def)

lemma first_bar:
  assumes b: "vp_bar b = Inr v" "get_or b ''timestamp'' PNone \<noteq> PNone" "bar_date (get_or b ''timestamp'' PNone) = Inr d"
    and g: "session_bucket_grid ao (vb_high v) (vb_low v) (int NUM_BUCKETS) = Inr (g, w)"
    and a: "add_bar ao g w v (zeros NUM_BUCKETS, 0) = Inr (p, t)"
    and l: "if t \<le> 0 then l = no_levels else \<exists>x. area_edges ao p g w t = Inr (fst l, fst (snd l), snd (snd l), x)"
  shows "\<exists>s. feed (session_vp_step ao bar_date) [b] new_session_vp = Inr ([l], s)"
proof -
  have "\<exists>s. session_vp_step ao bar_date b new_session_vp = Inr (l, s)"
    using l by (auto simp: session_vp_step_def session_vp_update_def Let_def b new_session_vp_def update_incremental_def
        set_grid_def g add_bars_def a read_levels_def ensure_levels_def extract_levels_def
        build_volume_profile_result_def levels_of_def split: if_splits)
  then show ?thesis by auto
qed

lemma flat_first_bar:
  "\<exists>s. feed (session_vp_step sample_ao sample_date) [sample_bar sample_ts 100 100 7] new_session_vp = Inr ([(NaN, NaN, NaN)], s)"
proof -
  have f: "flr (of_int 100) = Fin 100" by code_simp
  obtain g where g: "session_bucket_grid sample_ao (Fin 100) (Fin 100) (int NUM_BUCKETS) = Inr (g, 0)"
    using flat_bucket_grid [of 100] f by auto
  show ?thesis
    by (rule first_bar [OF sample_vp_bar, where g = g and w = 0 and t = 0])
      (use f g in \<open>auto simp: sample_bar_def get_or_def sample_date_def add_bar_def no_levels_def\<close>)
qed

lemma argmax_zeros: "argmax_from best i (Fin 5) (zeros n) = best"
  by (induction n arbitrary: i) (auto simp: zeros_def zero_flt_def)

lemma add_zeros: "add_arrays (zeros n) (zeros n) = zeros n"
  by (induction n) (auto simp: add_arrays_def zeros_def zero_flt_def)

lemma zeros_NUM_BUCKETS: "zeros NUM_BUCKETS = 0 # zeros 99"
  by (simp add: zeros_def NUM_BUCKETS_def numeral_eq_Suc)

lemma live_grid:
  "\<exists>g w. session_bucket_grid sample_ao (Fin 110) (Fin 100) (int NUM_BUCKETS) = Inr (g, w) \<and> 0 < w \<and> length g = NUM_BUCKETS"
proof -
  have "case fdiv (Fin 110 + (Fin 110 - Fin 100) * two_percent - (Fin 100 - (Fin 110 - Fin 100) * two_percent)) (Fin 100) of
      Inl _ \<Rightarrow> False | Inr w \<Rightarrow> 0 < w" by code_simp
  then obtain w where "fdiv (Fin 110 + (Fin 110 - Fin 100) * two_percent - (Fin 100 - (Fin 110 - Fin 100) * two_percent)) (Fin 100)
      = Inr w" "0 < w" by (auto split: sum.splits)
  moreover have "float_of_int (int NUM_BUCKETS) = Inr (Fin 100)" by code_simp
  moreover have "length (ao_linspace sample_ao a b (nat (int NUM_BUCKETS))) = NUM_BUCKETS" for a b
    using sample_ao_laws by (simp add: array_laws_def)
  ultimately show ?thesis by (simp add: session_bucket_grid_def Let_def)
qed

lemma live_bar_distribution:
  assumes "length g = NUM_BUCKETS"
  shows "distribute_bar_volume sample_ao \<lparr>vb_high = Fin 110, vb_low = Fin 100, vb_close = Fin 100, vb_volume = Fin 5\<rparr> g w =
    Inr (Fin 5 # zeros 99)"
proof -
  have "case fdiv (Fin 110 + Fin 100 + Fin 100) (Fin 3) of Inl _ \<Rightarrow> False | Inr _ \<Rightarrow> True" by code_simp
  then obtain tp where "fdiv (Fin 110 + Fin 100 + Fin 100) (Fin 3) = Inr tp" by (auto split: sum.splits)
  moreover have "parkinson_sigma sample_ao (Fin 110) (Fin 100) = Inr 0" by code_simp
  moreover have "g \<noteq> []" using assms by (auto simp: NUM_BUCKETS_def)
  moreover have "ao_argmin sample_ao xs = 0" for xs by (simp add: sample_ao_def)
  ultimately show ?thesis by (simp add: distribute_bar_volume_def assms zeros_NUM_BUCKETS)
qed

lemma live_first_bar:
  "\<exists>l s. feed (session_vp_step sample_ao sample_date) [sample_bar sample_ts 110 100 5] new_session_vp = Inr ([l], s)"
proof -
  have f: "flr (of_int 110) = Fin 110" "flr (of_int 100) = Fin 100" "flr (of_int 5) = Fin 5" by code_simp+
  obtain g w where g: "session_bucket_grid sample_ao (Fin 110) (Fin 100) (int NUM_BUCKETS) = Inr (g, w)" "0 < w"
    "length g = NUM_BUCKETS" using live_grid by blast
  let ?v = "\<lparr>vb_high = Fin 110, vb_low = Fin 100, vb_close = Fin 100, vb_volume = Fin 5\<rparr>"
  have five: "(0 :: flt) + Fin 5 = Fin 5" "\<not> Fin 5 \<le> 0" by code_simp+
  have add: "add_bar sample_ao g w ?v (zeros NUM_BUCKETS, 0) = Inr (Fin 5 # zeros 99, Fin 5)"
    using live_bar_distribution [OF g(3), of w] g(2) five add_zeros [of 99] flt_less_asym(1) [OF g(2)]
    by (simp add: add_bar_def zeros_NUM_BUCKETS) (simp add: add_arrays_def)
  have am: "ao_argmax sample_ao (Fin 5 # zeros 99) = 0" by (simp add: sample_ao_def argmax_zeros)
  have "\<not> Fin 5 < Fin 5 * TARGET_FRACTION" by code_simp
  then have ed: "\<exists>poc vah val x. area_edges sample_ao (Fin 5 # zeros 99) g w (Fin 5) = Inr (poc, vah, val, x)"
    using g(3) by (simp add: area_edges_def am item_at_inside expand_value_area_def expand_loop_stop NUM_BUCKETS_def)
  then obtain poc vah val x where ed: "area_edges sample_ao (Fin 5 # zeros 99) g w (Fin 5) = Inr (poc, vah, val, x)" by blast
  have "\<exists>s. feed (session_vp_step sample_ao sample_date) [sample_bar sample_ts 110 100 5] new_session_vp = Inr ([(poc, vah, val)], s)"
    by (rule first_bar [OF sample_vp_bar, where g = g and w = w and t = "Fin 5" and p = "Fin 5 # zeros 99"])
      (use f g add ed five in \<open>auto simp: sample_bar_def get_or_def sample_date_def\<close>)
  then show ?thesis by blast
qed

lemma expanding_one:
  "compute_expanding_session_volume_profiles ao [(d, v)] n =
     ebind (compute_session_volume_profile ao [v] n) (\<lambda>p. Inr [levels_of p])"
  by (cases "compute_session_volume_profile ao [v] n")
    (simp_all add: compute_expanding_session_volume_profiles.simps [of ao "[(d, v)]"]
      compute_expanding_session_volume_profiles.simps [of ao "[]"])

definition session_bar :: VpBar where
  "session_bar = \<lparr>vb_high = Fin 110, vb_low = Fin 100, vb_close = Fin 100, vb_volume = Fin 5\<rparr>"

lemma live_row: "frame_row sample_date (sample_bar sample_ts 110 100 5) = Inr (take 10 sample_ts, session_bar)"
proof -
  have "flr (of_int 110) = Fin 110" "flr (of_int 100) = Fin 100" "flr (of_int 5) = Fin 5" by code_simp+
  then show ?thesis by (simp only: sample_row session_bar_def)
qed

lemma live_session: "session_live sample_ao [session_bar]"
proof -
  have b: "(Fin 100 :: flt) < Fin 110" "(0 :: flt) < Fin 5" by code_simp+
  have "ao_max sample_ao [Fin 110] = Fin 110" "ao_min sample_ao [Fin 100] = Fin 100" by (simp_all add: sample_ao_def)
  then show ?thesis using live_grid b by (auto simp: session_live_def session_grid_def session_bar_def)
qed

lemma live_bar_numbers: "bar_numbers session_bar"
proof -
  have "is_f64 (Fin 5)" by code_simp
  then show ?thesis by (simp add: bar_numbers_def session_bar_def)
qed

lemma sample_timestamp: "get_or (sample_bar sample_ts h l v) ''timestamp'' PNone \<noteq> PNone"
  by (simp add: sample_bar_def get_or_def)

theorem session_levels_match_oracle_witness:
  "\<exists>vs s ws. feed (session_vp_step sample_ao sample_date) [sample_bar sample_ts 110 100 5] new_session_vp = Inr (vs, s) \<and>
     compute_expanding_session_volume_profiles sample_ao [(take 10 sample_ts, session_bar)] (int NUM_BUCKETS) = Inr ws \<and>
     length vs = 1 \<and> vs ! 0 = ws ! 0"
proof -
  obtain l s where f: "feed (session_vp_step sample_ao sample_date) [sample_bar sample_ts 110 100 5] new_session_vp = Inr ([l], s)"
    using live_first_bar by blast
  have rows: "emap (frame_row sample_date) [sample_bar sample_ts 110 100 5] = Inr [(take 10 sample_ts, session_bar)]"
    by (simp add: live_row)
  have run: "last_run [(take 10 sample_ts, session_bar)] = [session_bar]" by (simp add: last_run_def)
  have "reads_levels sample_ao [session_bar] l"
    using feed_follows [OF sample_ao_laws _ rows _ f] sample_timestamp live_bar_numbers by (simp add: run)
  then have "ebind (compute_session_volume_profile sample_ao [session_bar] (int NUM_BUCKETS)) (\<lambda>p. Inr (levels_of p)) = Inr l"
    using levels_after_bar [OF sample_ao_laws _ _ live_session] unfolding reads_levels_def by blast
  then have e: "compute_expanding_session_volume_profiles sample_ao [(take 10 sample_ts, session_bar)] (int NUM_BUCKETS) = Inr [l]"
    by (auto simp: expanding_one)
  show ?thesis
    using session_levels_match_oracle [OF sample_ao_laws _ rows _ f e] sample_timestamp live_bar_numbers f e live_session
    by (auto simp: run)
qed

theorem flat_session_diverges_witness:
  "\<exists>vs s ws. feed (session_vp_step sample_ao sample_date) [sample_bar sample_ts 100 100 7] new_session_vp = Inr (vs, s) \<and>
     compute_expanding_session_volume_profiles sample_ao
       [(take 10 sample_ts, \<lparr>vb_high = Fin 100, vb_low = Fin 100, vb_close = Fin 100, vb_volume = Fin 7\<rparr>)] (int NUM_BUCKETS) = Inr ws \<and>
     vs ! 0 = (NaN, NaN, NaN) \<and> ws ! 0 = (Fin 100, Fin 100, Fin 100)"
proof -
  let ?v = "\<lparr>vb_high = Fin 100, vb_low = Fin 100, vb_close = Fin 100, vb_volume = Fin 7\<rparr>"
  have f: "flr (of_int 100) = Fin 100" "flr (of_int 7) = Fin 7" "is_f64 (Fin 100)" "is_f64 (Fin 7)" by code_simp+
  obtain s where fd: "feed (session_vp_step sample_ao sample_date) [sample_bar sample_ts 100 100 7] new_session_vp =
      Inr ([(NaN, NaN, NaN)], s)" using flat_first_bar by blast
  have rows: "emap (frame_row sample_date) [sample_bar sample_ts 100 100 7] = Inr [(take 10 sample_ts, ?v)]"
    using sample_row [of 100 100 7] by (simp only: f) simp
  have run: "last_run [(take 10 sample_ts, ?v)] = [?v]" by (simp add: last_run_def)
  have "compute_session_volume_profile sample_ao [?v] (int NUM_BUCKETS) = Inr (flat_profile (Fin 100) (Fin 100) (Fin 100) 0 (int NUM_BUCKETS))"
    by (simp add: compute_session_volume_profile_def Let_def sample_ao_def)
  then have e: "compute_expanding_session_volume_profiles sample_ao [(take 10 sample_ts, ?v)] (int NUM_BUCKETS) =
      Inr [(Fin 100, Fin 100, Fin 100)]" by (simp add: expanding_one levels_of_def flat_profile_def)
  show ?thesis
    using flat_session_diverges [OF sample_ao_laws _ rows _ fd e, of 0 100] sample_timestamp f fd e
    by (auto simp: run bar_numbers_def)
qed


theorem market_value_area_one_bucket_witness:
  "\<exists>r. compute_session_market_profile sample_ao (Some (Fin 300)) [session_bar] 2 = Inr r \<and>
     mp_value_area_tpos r = mp_total_tpos r \<and> mp_total_tpos r = 1"
proof -
  have c: "case compute_session_market_profile sample_ao (Some (Fin 300)) [session_bar] 2 of
      Inl _ \<Rightarrow> False | Inr r \<Rightarrow> mp_total_tpos r = 1" by code_simp
  then obtain r where r: "compute_session_market_profile sample_ao (Some (Fin 300)) [session_bar] 2 = Inr r" "mp_total_tpos r = 1"
    by (auto split: sum.splits)
  let ?hi = "ao_max sample_ao (map vb_high [session_bar])" and ?lo = "ao_min sample_ao (map vb_low [session_bar])"
  have "?lo < ?hi" by code_simp
  moreover have "case session_bucket_grid sample_ao ?hi ?lo 2 of
      Inl _ \<Rightarrow> False | Inr (g, w) \<Rightarrow> g \<noteq> [] \<and> touched (Fin 110) (Fin 100) w (hd g)" by code_simp
  then obtain g w where "session_bucket_grid sample_ao ?hi ?lo 2 = Inr (g, w)" "g \<noteq> []" "touched (Fin 110) (Fin 100) w (hd g)"
    by (auto split: sum.splits prod.splits)
  ultimately have "mp_value_area_tpos r = mp_total_tpos r"
    using market_value_area_one_bucket [OF sample_ao_laws _ _ r(1), of g w "hd g"] by (auto simp: session_bar_def)
  with r show ?thesis by blast
qed

end
