(* ===== verification/RateLimiters.thy ===== *)
theory RateLimiters
  imports BacktestRunner StreamingStates
begin

text \<open>
  The rate limiters in front of the data vendors: \<open>rate_limiter.py\<close>, \<open>coinglass_rate_limiter.py\<close> and
  \<open>hyperliquid_rate_limiter.py\<close>.

    - A limiter is a record.  The code under its lock runs without interruption: every block
      \<open>with self._lock\<close> is one function of the state and of the clock reading made in it.
    - \<open>wait\<close> is a loop over such blocks with sleeps between them; \<open>Sleep\<close> carries the time it asks for.
    - \<open>sliding_step\<close> interleaves the blocks of any number of callers that share one limiter, with the reports
      of HTTP 429, the reset and the headers that change the limit.  A caller may wake up at any time.
    - The clock readings are an argument; what the properties need is that they do not decrease.
    - The locale \<open>sliding_admission\<close> states what the two limiters with a sliding window promise.
\<close>

section \<open>Sliding windows\<close>

record SlidingLimiter =
  rl_min_interval :: flt
  rl_max_per_minute :: int
  rl_max_retries :: int
  rl_base_backoff :: flt
  rl_last_request_time :: flt
  rl_request_times :: "flt list"
  rl_backoff_until :: flt

definition MAX_HISTORY :: nat where
  "MAX_HISTORY = 1000"

definition mk_limiter :: "flt \<Rightarrow> int \<Rightarrow> int \<Rightarrow> flt \<Rightarrow> SlidingLimiter" where
  "mk_limiter min_interval rpm retries base = \<lparr>rl_min_interval = min_interval, rl_max_per_minute = rpm,
     rl_max_retries = retries, rl_base_backoff = base, rl_last_request_time = 0, rl_request_times = [], rl_backoff_until = 0\<rparr>"

definition new_yahoo_limiter :: "flt \<Rightarrow> int \<Rightarrow> int \<Rightarrow> flt \<Rightarrow> SlidingLimiter result" where
  "new_yahoo_limiter rps rpm retries base = ebind (fdiv 1 rps) (\<lambda>mi. Inr (mk_limiter mi rpm retries base))"

definition new_coinglass_limiter :: "flt \<Rightarrow> int \<Rightarrow> int \<Rightarrow> flt \<Rightarrow> SlidingLimiter result" where
  "new_coinglass_limiter rps rpm retries base =
     ebind (if 0 < rps then fdiv 1 rps else Inr 0) (\<lambda>mi. Inr (mk_limiter mi rpm retries base))"

text \<open>The two blocks of \<open>wait\<close>.\<close>

definition backoff_over :: "flt \<Rightarrow> SlidingLimiter \<Rightarrow> bool" where
  "backoff_over now s \<longleftrightarrow> rl_backoff_until s - now \<le> 0"

datatype decision = Admit | Sleep flt

definition clear_stale :: "flt \<Rightarrow> SlidingLimiter \<Rightarrow> SlidingLimiter" where
  "clear_stale now s =
     (let minute_ago = now - Fin 60 in s\<lparr>rl_request_times := dropWhile (\<lambda>t. t < minute_ago) (rl_request_times s)\<rparr>)"

definition record_request :: "flt \<Rightarrow> SlidingLimiter \<Rightarrow> SlidingLimiter" where
  "record_request now s =
     s\<lparr>rl_last_request_time := now, rl_request_times := push_max MAX_HISTORY now (rl_request_times s)\<rparr>"

definition minute_window :: "flt \<Rightarrow> SlidingLimiter \<Rightarrow> (decision \<times> SlidingLimiter) result" where
  "minute_window now s =
     (if rl_max_per_minute s \<le> int (length (rl_request_times s))
      then (case rl_request_times s of
              [] \<Rightarrow> raise IndexError
            | oldest # _ \<Rightarrow> Inr (Sleep (py_max 0 (Fin 60 - (now - oldest))), s))
      else Inr (Admit, record_request now s))"

definition yahoo_admission :: "flt \<Rightarrow> SlidingLimiter \<Rightarrow> (decision \<times> SlidingLimiter) result" where
  "yahoo_admission now s =
     (let s1 = clear_stale now s; elapsed = now - rl_last_request_time s1
      in if elapsed < rl_min_interval s1 then Inr (Sleep (rl_min_interval s1 - elapsed), s1)
         else minute_window now s1)"

definition coinglass_admission :: "flt \<Rightarrow> SlidingLimiter \<Rightarrow> (decision \<times> SlidingLimiter) result" where
  "coinglass_admission now s =
     (let s1 = clear_stale now s; elapsed = now - rl_last_request_time s1
      in if 0 < rl_min_interval s1 \<and> elapsed < rl_min_interval s1 then Inr (Sleep (rl_min_interval s1 - elapsed), s1)
         else minute_window now s1)"

text \<open>\<open>on_rate_limit_error\<close>, \<open>reset\<close> and \<open>update_from_headers\<close>.\<close>

definition backoff_time :: "int \<Rightarrow> SlidingLimiter \<Rightarrow> flt" where
  "backoff_time attempt s = rl_base_backoff s * flr (2 powi (min attempt 10))"

definition rate_limited :: "int \<Rightarrow> flt \<Rightarrow> SlidingLimiter \<Rightarrow> flt \<times> SlidingLimiter" where
  "rate_limited attempt now s = (backoff_time attempt s, s\<lparr>rl_backoff_until := now + backoff_time attempt s\<rparr>)"

definition limiter_reset :: "SlidingLimiter \<Rightarrow> SlidingLimiter" where
  "limiter_reset s = s\<lparr>rl_request_times := [], rl_last_request_time := 0, rl_backoff_until := 0\<rparr>"

definition read_header :: "string \<times> string \<Rightarrow> SlidingLimiter \<Rightarrow> SlidingLimiter" where
  "read_header kv s =
     (if py_lower (fst kv) = ''api-key-max-limit''
      then (case parse_int (snd kv) of Some n \<Rightarrow> s\<lparr>rl_max_per_minute := max 1 n\<rparr> | None \<Rightarrow> s)
      else s)"

definition update_from_headers :: "(string \<times> string) list \<Rightarrow> SlidingLimiter \<Rightarrow> SlidingLimiter" where
  "update_from_headers headers s = fold read_header headers s"

section \<open>Callers that share a limiter\<close>

datatype phase = Idle | BackingOff | Admission

text \<open>The history \<open>ss_granted\<close> holds the times of the requests admitted since the last reset.\<close>

record sliding_system =
  ss_limiter :: SlidingLimiter
  ss_phase :: "nat \<Rightarrow> phase"
  ss_clock :: flt
  ss_granted :: "flt list"

type_synonym admission = "flt \<Rightarrow> SlidingLimiter \<Rightarrow> (decision \<times> SlidingLimiter) result"

inductive sliding_step :: "admission \<Rightarrow> sliding_system \<Rightarrow> sliding_system \<Rightarrow> bool" for admit where
  arrive: "ss_phase s c = Idle \<Longrightarrow> sliding_step admit s (s\<lparr>ss_phase := (ss_phase s)(c := BackingOff)\<rparr>)"
| backing_off: "ss_phase s c = BackingOff \<Longrightarrow> ss_clock s \<le> now \<Longrightarrow> \<not> backoff_over now (ss_limiter s) \<Longrightarrow>
     sliding_step admit s (s\<lparr>ss_clock := now\<rparr>)"
| backed_off: "ss_phase s c = BackingOff \<Longrightarrow> ss_clock s \<le> now \<Longrightarrow> backoff_over now (ss_limiter s) \<Longrightarrow>
     sliding_step admit s (s\<lparr>ss_clock := now, ss_phase := (ss_phase s)(c := Admission)\<rparr>)"
| must_sleep: "ss_phase s c = Admission \<Longrightarrow> ss_clock s \<le> now \<Longrightarrow> admit now (ss_limiter s) = Inr (Sleep w, l) \<Longrightarrow>
     sliding_step admit s (s\<lparr>ss_clock := now, ss_limiter := l\<rparr>)"
| grant: "ss_phase s c = Admission \<Longrightarrow> ss_clock s \<le> now \<Longrightarrow> admit now (ss_limiter s) = Inr (Admit, l) \<Longrightarrow>
     sliding_step admit s (s\<lparr>ss_clock := now, ss_limiter := l, ss_phase := (ss_phase s)(c := Idle),
                             ss_granted := ss_granted s @ [now]\<rparr>)"
| limited: "ss_clock s \<le> now \<Longrightarrow>
     sliding_step admit s (s\<lparr>ss_clock := now, ss_limiter := snd (rate_limited attempt now (ss_limiter s))\<rparr>)"
| headers: "sliding_step admit s (s\<lparr>ss_limiter := update_from_headers hs (ss_limiter s)\<rparr>)"
| reset: "sliding_step admit s (s\<lparr>ss_limiter := limiter_reset (ss_limiter s), ss_granted := []\<rparr>)"

inductive_cases sliding_stepE: "sliding_step admit s t"

definition start_system :: "SlidingLimiter \<Rightarrow> flt \<Rightarrow> sliding_system" where
  "start_system l now = \<lparr>ss_limiter = l, ss_phase = (\<lambda>_. Idle), ss_clock = now, ss_granted = []\<rparr>"

inductive sliding_reachable :: "admission \<Rightarrow> SlidingLimiter \<Rightarrow> sliding_system \<Rightarrow> bool" for admit l where
  start: "now \<noteq> NaN \<Longrightarrow> rl_request_times l = [] \<Longrightarrow> sliding_reachable admit l (start_system l now)"
| step: "sliding_reachable admit l s \<Longrightarrow> sliding_step admit s t \<Longrightarrow> sliding_reachable admit l t"

section \<open>Token bucket\<close>

definition CANDLE_WEIGHT_BASE :: int where
  "CANDLE_WEIGHT_BASE = 20"

definition calculate_candle_weight :: "int \<Rightarrow> int" where
  "calculate_candle_weight num_candles = CANDLE_WEIGHT_BASE + num_candles div 60"

record TokenLimiter =
  tl_max_weight :: int
  tl_replenish_rate :: flt
  tl_min_interval :: flt
  tl_current_weight :: flt
  tl_last_update :: flt
  tl_last_request_time :: flt
  tl_consecutive_429 :: int
  tl_backoff_until :: flt
  tl_total_requests :: int
  tl_total_weight_used :: int

definition new_token_limiter :: "int \<Rightarrow> int \<Rightarrow> flt \<Rightarrow> flt \<Rightarrow> TokenLimiter result" where
  "new_token_limiter rpm max_weight safety_margin now =
     ebind (float_of_int max_weight) (\<lambda>mw.
     ebind (py_trunc (mw * safety_margin)) (\<lambda>capacity.
     ebind (fdiv mw (Fin 60)) (\<lambda>rate.
     ebind (float_of_int rpm) (\<lambda>r.
     ebind (fdiv (Fin 60) r) (\<lambda>interval.
       Inr \<lparr>tl_max_weight = capacity, tl_replenish_rate = rate, tl_min_interval = interval, tl_current_weight = 0,
            tl_last_update = now, tl_last_request_time = 0, tl_consecutive_429 = 0, tl_backoff_until = 0,
            tl_total_requests = 0, tl_total_weight_used = 0\<rparr>)))))"

definition token_backoff_over :: "flt \<Rightarrow> TokenLimiter \<Rightarrow> bool" where
  "token_backoff_over now s \<longleftrightarrow> tl_backoff_until s - now \<le> 0"

definition replenish :: "flt \<Rightarrow> TokenLimiter \<Rightarrow> TokenLimiter" where
  "replenish now s =
     (let elapsed = now - tl_last_update s
      in s\<lparr>tl_current_weight := py_max 0 (tl_current_weight s - elapsed * tl_replenish_rate s), tl_last_update := now\<rparr>)"

text \<open>Every hundredth request the share of the capacity in use is computed for the log.\<close>

definition consume :: "int \<Rightarrow> flt \<Rightarrow> flt \<Rightarrow> TokenLimiter \<Rightarrow> TokenLimiter result" where
  "consume weight w now s =
     (let s1 = s\<lparr>tl_current_weight := tl_current_weight s + w, tl_last_request_time := now,
                 tl_total_requests := tl_total_requests s + 1, tl_total_weight_used := tl_total_weight_used s + weight\<rparr>
      in if tl_total_requests s1 mod 100 = 0
         then ebind (float_of_int (tl_max_weight s1)) (\<lambda>m. ebind (fdiv (tl_current_weight s1) m) (\<lambda>_. Inr s1))
         else Inr s1)"

definition token_admission :: "int \<Rightarrow> flt \<Rightarrow> TokenLimiter \<Rightarrow> (decision \<times> TokenLimiter) result" where
  "token_admission weight now s =
     (let s1 = replenish now s
      in ebind (float_of_int weight) (\<lambda>w.
         if Fin (of_int (tl_max_weight s1)) < tl_current_weight s1 + w
         then ebind (float_of_int (tl_max_weight s1)) (\<lambda>m.
              ebind (fdiv (tl_current_weight s1 + w - m) (tl_replenish_rate s1)) (\<lambda>t. Inr (Sleep t, s1)))
         else (let since_last = now - tl_last_request_time s1
               in if 0 < tl_min_interval s1 \<and> since_last < tl_min_interval s1
                  then Inr (Sleep (tl_min_interval s1 - since_last), s1)
                  else ebind (consume weight w now s1) (\<lambda>s2. Inr (Admit, s2)))))"

text \<open>The number \<open>draw\<close> is the one \<open>random.uniform\<close> draws from the unit interval.\<close>

definition token_rate_limited :: "flt \<Rightarrow> flt \<Rightarrow> TokenLimiter \<Rightarrow> TokenLimiter result" where
  "token_rate_limited draw now s =
     (let count = tl_consecutive_429 s + 1
      in if 1024 \<le> count then raise OverflowError
         else (let base = py_min (flr (2 powi count)) (Fin 60);
                   jitter = 0 + (base * Fin (1 / 4) - 0) * draw
               in Inr (s\<lparr>tl_consecutive_429 := count, tl_backoff_until := now + (base + jitter)\<rparr>)))"

definition on_success :: "TokenLimiter \<Rightarrow> TokenLimiter" where
  "on_success s = (if 0 < tl_consecutive_429 s then s\<lparr>tl_consecutive_429 := 0, tl_backoff_until := 0\<rparr> else s)"

definition get_stats :: "TokenLimiter \<Rightarrow> (string \<times> pyval) list result" where
  "get_stats s =
     ebind (if 0 < tl_max_weight s
            then ebind (float_of_int (tl_max_weight s)) (\<lambda>m. ebind (fdiv (tl_current_weight s) m) (\<lambda>q. Inr (q * Fin 100)))
            else Inr 0) (\<lambda>utilization.
       Inr [(''total_requests'', PInt (tl_total_requests s)),
            (''total_weight_used'', PInt (tl_total_weight_used s)),
            (''current_weight'', PStr (fmt_fixed 1 (tl_current_weight s) @ ''/'' @ show_int (tl_max_weight s))),
            (''utilization'', PStr (fmt_fixed 1 utilization @ ''%'')),
            (''consecutive_429_errors'', PInt (tl_consecutive_429 s))])"

text \<open>Any sequence of blocks on a shared bucket, with the weights that were admitted.\<close>

inductive token_run :: "TokenLimiter \<Rightarrow> TokenLimiter \<Rightarrow> int list \<Rightarrow> bool" for s0 where
  start: "token_run s0 s0 []"
| sleeping: "token_run s0 s ws \<Longrightarrow> 0 \<le> weight \<Longrightarrow> tl_last_update s \<le> now \<Longrightarrow>
     token_admission weight now s = Inr (Sleep t, s') \<Longrightarrow> token_run s0 s' ws"
| granted: "token_run s0 s ws \<Longrightarrow> 0 \<le> weight \<Longrightarrow> tl_last_update s \<le> now \<Longrightarrow>
     token_admission weight now s = Inr (Admit, s') \<Longrightarrow>
     token_run s0 s' (ws @ [weight])"
| limited: "token_run s0 s ws \<Longrightarrow> token_rate_limited draw now s = Inr s' \<Longrightarrow> token_run s0 s' ws"
| success: "token_run s0 s ws \<Longrightarrow> token_run s0 (on_success s) ws"

end
