(* ===== verification/RateLimitProperties.thy ===== *)
theory RateLimitProperties
  imports RateLimiters
begin

text \<open>
  What the rate limiters guarantee to any number of callers: no minute holds more requests than allowed, requests
  keep their distance, and the token bucket never holds more than its capacity; and what they do not guarantee: a
  caller that has passed the back-off check is not stopped by a later HTTP 429.
\<close>

section \<open>Times\<close>

definition recent :: "flt \<Rightarrow> flt list \<Rightarrow> flt list" where
  "recent now ts = filter (\<lambda>t. \<not> t < now - Fin 60) ts"

lemma flr_between_infinities: "flr q \<le> PosInf" "NegInf \<le> flr q"
  by (cases "flr q"; simp)+

lemma flt_minus_mono: "x \<le> y \<Longrightarrow> x - Fin c \<le> y - Fin c" for x y :: flt
  by (cases x; cases y) (auto simp: minus_flt_def flr_between_infinities intro: flr_mono)

lemma stale_later: "t < now - Fin 60 \<Longrightarrow> now \<le> now' \<Longrightarrow> t < now' - Fin 60"
  using flt_minus_mono flt_less_le_trans by blast

lemma recent_none: "\<forall>t \<in> set ts. t < now - Fin 60 \<Longrightarrow> recent now ts = []"
  by (simp add: recent_def filter_empty_conv)

lemma recent_append: "recent now (xs @ ys) = recent now xs @ recent now ys"
  by (simp add: recent_def)

lemma dropWhile_recent:
  "sorted_wrt (\<le>) ts \<Longrightarrow> dropWhile (\<lambda>t. t < now - Fin 60) ts = recent now ts"
proof (induction ts)
  case (Cons t ts)
  show ?case
  proof (cases "t < now - Fin 60")
    case False
    have "\<not> u < now - Fin 60" if "u \<in> set ts" for u
      using that Cons.prems False flt_le_less_trans [of t u] by auto
    then have "recent now ts = ts" by (simp add: recent_def filter_id_conv)
    then show ?thesis using False by (simp add: recent_def)
  qed (use Cons in \<open>simp add: recent_def\<close>)
qed (simp add: recent_def)

lemma all_stale:
  assumes "sorted_wrt (\<le>) xs" "xs \<noteq> []" "last xs < now - Fin 60"
  shows "recent now xs = []"
proof (rule recent_none, rule ballI)
  fix t assume "t \<in> set xs"
  with assms(2) have "t = last xs \<or> t \<in> set (butlast xs)" by (cases xs rule: rev_cases) auto
  moreover have "t \<le> last xs" if "t \<in> set (butlast xs)"
    using that assms(1,2) by (cases xs rule: rev_cases) (auto simp: sorted_wrt_append)
  ultimately show "t < now - Fin 60" using assms(3) flt_le_less_trans by blast
qed

section \<open>The interface of a sliding window\<close>

definition spaced :: "SlidingLimiter \<Rightarrow> flt \<Rightarrow> bool" where
  "spaced s now \<longleftrightarrow> \<not> (0 < rl_min_interval s \<and> now - rl_last_request_time s < rl_min_interval s)"

text \<open>
  The history of a limiter: the requests admitted so far, of which the window holds the last ones; those it has
  dropped are stale, unless the deque was full.
\<close>

definition history_ok :: "flt \<Rightarrow> flt list \<Rightarrow> SlidingLimiter \<Rightarrow> bool" where
  "history_ok clock granted l \<longleftrightarrow>
     sorted_wrt (\<le>) granted \<and> (\<forall>t \<in> set granted. t \<le> clock) \<and> clock \<noteq> NaN \<and>
     (granted \<noteq> [] \<longrightarrow> rl_last_request_time l = last granted) \<and>
     (\<exists>old. granted = old @ rl_request_times l \<and>
        (old \<noteq> [] \<longrightarrow> last old < clock - Fin 60 \<or> length (rl_request_times l) = MAX_HISTORY))"

lemma history_later: "history_ok clock granted l \<Longrightarrow> clock \<le> now \<Longrightarrow> history_ok now granted l"
  using stale_later [of _ clock now] flt_trans [of _ clock now] flt_le_not_NaN [of clock now]
  by (auto simp: history_ok_def)

lemma history_frame:
  "history_ok clock granted l \<Longrightarrow> rl_request_times l' = rl_request_times l \<Longrightarrow>
   rl_last_request_time l' = rl_last_request_time l \<Longrightarrow> history_ok clock granted l'"
  by (simp add: history_ok_def)

lemma clear_stale_window:
  "rl_request_times (clear_stale now l) = dropWhile (\<lambda>t. t < now - Fin 60) (rl_request_times l)"
  "rl_last_request_time (clear_stale now l) = rl_last_request_time l"
  "rl_max_per_minute (clear_stale now l) = rl_max_per_minute l" "rl_min_interval (clear_stale now l) = rl_min_interval l"
  by (simp_all add: clear_stale_def Let_def)

lemma history_clear:
  assumes h: "history_ok now granted l"
  shows "history_ok now granted (clear_stale now l)"
proof -
  let ?ts = "rl_request_times l" and ?P = "\<lambda>t. t < now - Fin 60"
  from h obtain old where o: "granted = old @ ?ts" "old \<noteq> [] \<longrightarrow> last old < now - Fin 60 \<or> length ?ts = MAX_HISTORY"
    by (auto simp: history_ok_def)
  let ?old = "old @ takeWhile ?P ?ts"
  have "last ?old < now - Fin 60 \<or> length (dropWhile ?P ?ts) = MAX_HISTORY" if "?old \<noteq> []"
  proof (cases "takeWhile ?P ?ts = []")
    case True
    then have "dropWhile ?P ?ts = ?ts" by (cases ?ts) (auto split: if_splits)
    then show ?thesis using True that o(2) by auto
  next
    case False
    then have "last (takeWhile ?P ?ts) \<in> set (takeWhile ?P ?ts)" by simp
    then show ?thesis using False set_takeWhileD by fastforce
  qed
  moreover have "granted = ?old @ dropWhile ?P ?ts" using o(1) by simp
  ultimately show ?thesis
    using h by (auto simp: history_ok_def clear_stale_window intro!: exI [of _ ?old])
qed

lemma history_grant:
  assumes h: "history_ok now granted l"
  shows "history_ok now (granted @ [now]) (record_request now l)"
proof -
  let ?ts = "rl_request_times l"
  from h obtain old where o: "granted = old @ ?ts" "old \<noteq> [] \<longrightarrow> last old < now - Fin 60 \<or> length ?ts = MAX_HISTORY"
    by (auto simp: history_ok_def)
  let ?k = "length (?ts @ [now]) - MAX_HISTORY"
  let ?old = "old @ take ?k (?ts @ [now])" and ?new = "drop ?k (?ts @ [now])"
  have "last ?old < now - Fin 60 \<or> length ?new = MAX_HISTORY" if "?old \<noteq> []"
  proof (cases "?k = 0")
    case True
    then show ?thesis using that o(2) by (auto simp: MAX_HISTORY_def)
  qed (simp add: MAX_HISTORY_def)
  moreover have "granted @ [now] = ?old @ ?new" by (simp only: o(1) append_assoc append_take_drop_id)
  moreover have "rl_request_times (record_request now l) = ?new"
    by (simp add: record_request_def push_max_def Let_def)
  ultimately have "\<exists>old. granted @ [now] = old @ rl_request_times (record_request now l) \<and>
      (old \<noteq> [] \<longrightarrow> last old < now - Fin 60 \<or> length (rl_request_times (record_request now l)) = MAX_HISTORY)" by metis
  moreover have "rl_last_request_time (record_request now l) = now" by (simp add: record_request_def)
  moreover have "sorted_wrt (\<le>) (granted @ [now])" "\<forall>t \<in> set (granted @ [now]). t \<le> now" "now \<noteq> NaN"
    using h by (auto simp: history_ok_def sorted_wrt_append)
  ultimately show ?thesis unfolding history_ok_def by (simp only: last_snoc) blast
qed

text \<open>While the limit fits the deque, the window is what is recent in the whole history.\<close>

lemma window_is_recent:
  assumes h: "history_ok now granted l" and few: "int (length (rl_request_times (clear_stale now l))) < int MAX_HISTORY"
  shows "rl_request_times (clear_stale now l) = recent now granted"
proof -
  from history_clear [OF h] obtain old where
    o: "granted = old @ rl_request_times (clear_stale now l)" "old \<noteq> [] \<longrightarrow> last old < now - Fin 60"
    and s: "sorted_wrt (\<le>) granted" using few by (auto simp: history_ok_def)
  have "recent now old = []"
    using o s all_stale [of old now] by (cases "old = []") (auto simp: recent_def sorted_wrt_append)
  moreover have "recent now (rl_request_times (clear_stale now l)) = rl_request_times (clear_stale now l)"
  proof -
    have "sorted_wrt (\<le>) (rl_request_times l)" using h by (auto simp: history_ok_def sorted_wrt_append)
    then show ?thesis by (simp add: clear_stale_window dropWhile_recent) (simp add: recent_def)
  qed
  ultimately show ?thesis using recent_append [of now old] o(1) by simp
qed

lemma header_frame:
  "rl_request_times (update_from_headers hs l) = rl_request_times l \<and>
   rl_last_request_time (update_from_headers hs l) = rl_last_request_time l"
proof (induction hs arbitrary: l)
  case (Cons h hs)
  have "rl_request_times (read_header h l) = rl_request_times l" "rl_last_request_time (read_header h l) = rl_last_request_time l"
    by (auto simp: read_header_def split: option.splits)
  then show ?case using Cons by (simp add: update_from_headers_def)
qed (simp add: update_from_headers_def)

locale sliding_admission =
  fixes admit :: admission
  assumes admit_grant: "admit now l = Inr (Admit, l') \<Longrightarrow>
      l' = record_request now (clear_stale now l) \<and> spaced l now \<and>
      int (length (rl_request_times (clear_stale now l))) < rl_max_per_minute l"
    and admit_sleep: "admit now l = Inr (Sleep w, l') \<Longrightarrow> l' = clear_stale now l"
begin

lemma step_history:
  assumes "sliding_step admit s t" "history_ok (ss_clock s) (ss_granted s) (ss_limiter s)"
  shows "history_ok (ss_clock t) (ss_granted t) (ss_limiter t)"
  using assms
proof (cases rule: sliding_step.cases)
  case (must_sleep c now w l)
  then show ?thesis using history_clear [OF history_later [OF assms(2)]] admit_sleep [OF must_sleep(4)] by auto
next
  case (grant c now l)
  then show ?thesis using history_grant [OF history_clear [OF history_later [OF assms(2)]]] admit_grant [OF grant(4)] by auto
next
  case (limited now attempt)
  then show ?thesis using history_frame [OF history_later [OF assms(2)]] by (auto simp: rate_limited_def)
next
  case (headers hs)
  then show ?thesis using history_frame [OF assms(2)] header_frame by auto
next
  case reset
  then show ?thesis using assms(2) by (auto simp: history_ok_def limiter_reset_def)
qed (use assms(2) history_later in auto)

lemma reachable_history:
  "sliding_reachable admit l s \<Longrightarrow> history_ok (ss_clock s) (ss_granted s) (ss_limiter s)"
proof (induction rule: sliding_reachable.induct)
  case (start now)
  then show ?case by (simp add: history_ok_def start_system_def)
qed (rule step_history)

lemma grant_within_limits:
  assumes "sliding_reachable admit l s" "ss_clock s \<le> now" "admit now (ss_limiter s) = Inr (Admit, l')"
    "rl_max_per_minute (ss_limiter s) \<le> int MAX_HISTORY"
  shows "int (length (recent now (ss_granted s))) < rl_max_per_minute (ss_limiter s) \<and>
    (ss_granted s \<noteq> [] \<longrightarrow> 0 < rl_min_interval (ss_limiter s) \<longrightarrow>
       \<not> now - last (ss_granted s) < rl_min_interval (ss_limiter s))"
proof -
  have h: "history_ok now (ss_granted s) (ss_limiter s)"
    using history_later [OF reachable_history [OF assms(1)] assms(2)] .
  have g: "spaced (ss_limiter s) now"
    "int (length (rl_request_times (clear_stale now (ss_limiter s)))) < rl_max_per_minute (ss_limiter s)"
    using admit_grant [OF assms(3)] by auto
  have "rl_request_times (clear_stale now (ss_limiter s)) = recent now (ss_granted s)"
    using window_is_recent [OF h] g(2) assms(4) by simp
  then show ?thesis using g h by (auto simp: spaced_def history_ok_def)
qed

end

interpretation yahoo: sliding_admission yahoo_admission
  by unfold_locales
    (auto simp: yahoo_admission_def minute_window_def Let_def spaced_def clear_stale_window split: if_splits list.splits)

interpretation coinglass: sliding_admission coinglass_admission
  by unfold_locales
    (auto simp: coinglass_admission_def minute_window_def Let_def spaced_def clear_stale_window split: if_splits list.splits)


text \<open>
  Beyond the 1000 entries of the history the limit per minute is never applied: the deque forgets the oldest
  requests, so its length stays below the limit.
\<close>

lemma history_length:
  "sliding_reachable yahoo_admission l s \<Longrightarrow> length (rl_request_times (ss_limiter s)) \<le> MAX_HISTORY"
proof (induction rule: sliding_reachable.induct)
  case (start now)
  then show ?case by (simp add: start_system_def)
next
  case (step s t)
  have clear: "length (rl_request_times (clear_stale now m)) \<le> length (rl_request_times m)" for now m
    by (simp add: clear_stale_window length_dropWhile_le)
  from step(2) show ?case
  proof (cases rule: sliding_step.cases)
    case (must_sleep c now w m)
    then show ?thesis using yahoo.admit_sleep [OF must_sleep(4)] clear [of now "ss_limiter s"] step(3) by simp
  next
    case (grant c now m)
    then show ?thesis using yahoo.admit_grant [OF grant(4)] by (auto simp: record_request_def push_max_def Let_def)
  next
    case (headers hs)
    then show ?thesis using step(3) header_frame [of hs "ss_limiter s"] by simp
  qed (use step in \<open>auto simp: rate_limited_def limiter_reset_def\<close>)
qed

lemma limit_above_history_ignored:
  assumes "sliding_reachable yahoo_admission l s" "1000 < rl_max_per_minute (ss_limiter s)"
    "\<not> now - rl_last_request_time (ss_limiter s) < rl_min_interval (ss_limiter s)"
  shows "\<exists>l'. yahoo_admission now (ss_limiter s) = Inr (Admit, l')"
proof -
  have "length (rl_request_times (clear_stale now (ss_limiter s))) \<le> 1000"
    using history_length [OF assms(1)] length_dropWhile_le [of _ "rl_request_times (ss_limiter s)"]
    by (simp add: clear_stale_window MAX_HISTORY_def) (meson le_trans)
  then show ?thesis
    using assms(2,3) by (simp add: yahoo_admission_def minute_window_def Let_def clear_stale_window)
qed

text \<open>The admission does not read the deadline of the back-off.\<close>

lemma admission_frame:
  assumes "admit = yahoo_admission \<or> admit = coinglass_admission" "admit now l = Inr (Admit, l')"
  shows "admit now (l\<lparr>rl_backoff_until := d\<rparr>) = Inr (Admit, l'\<lparr>rl_backoff_until := d\<rparr>)"
proof -
  have m: "minute_window now (m\<lparr>rl_backoff_until := d\<rparr>) = Inr (Admit, l'\<lparr>rl_backoff_until := d\<rparr>)"
    if "minute_window now m = Inr (Admit, l')" for m
    using that by (auto simp: minute_window_def record_request_def split: if_splits list.splits)
  have c: "clear_stale now (l\<lparr>rl_backoff_until := d\<rparr>) = (clear_stale now l)\<lparr>rl_backoff_until := d\<rparr>"
    by (simp add: clear_stale_def Let_def)
  from assms show ?thesis
    by (elim disjE) (auto simp: yahoo_admission_def coinglass_admission_def Let_def c m split: if_splits)
qed

text \<open>
  C28. A back-off does not stop callers that have passed its check: after a report of HTTP 429 the admission of a
  request is decided as if there had been no report, so a waiting caller is admitted before the deadline, although
  the deadline is meant to pause all callers.
\<close>

theorem late_backoff_ignored:
  assumes "admit = yahoo_admission \<or> admit = coinglass_admission" "sliding_reachable admit l s"
    "ss_phase s c = Admission" "ss_clock s \<le> t" "t \<le> now" "admit now (ss_limiter s) = Inr (Admit, l')"
  shows "\<exists>u v. sliding_step admit s u \<and> sliding_step admit u v \<and>
    rl_backoff_until (ss_limiter u) = t + backoff_time attempt (ss_limiter s) \<and>
    ss_granted v = ss_granted s @ [now] \<and> ss_phase v c = Idle"
proof -
  let ?d = "t + backoff_time attempt (ss_limiter s)"
  let ?u = "s\<lparr>ss_clock := t, ss_limiter := snd (rate_limited attempt t (ss_limiter s))\<rparr>"
  have "sliding_step admit s ?u" by (rule sliding_step.limited) (rule assms(4))
  moreover have "admit now (ss_limiter ?u) = Inr (Admit, l'\<lparr>rl_backoff_until := ?d\<rparr>)"
    using admission_frame [OF assms(1,6)] by (simp add: rate_limited_def)
  then have "sliding_step admit ?u (?u\<lparr>ss_clock := now, ss_limiter := l'\<lparr>rl_backoff_until := ?d\<rparr>,
      ss_phase := (ss_phase ?u)(c := Idle), ss_granted := ss_granted ?u @ [now]\<rparr>)"
    using assms(3,5) by (intro sliding_step.grant) simp_all
  moreover have "rl_backoff_until (ss_limiter ?u) = ?d" by (simp add: rate_limited_def)
  ultimately show ?thesis by fastforce
qed

section \<open>The token bucket\<close>

definition bucket_ok :: "TokenLimiter \<Rightarrow> bool" where
  "bucket_ok s \<longleftrightarrow> is_f64 (tl_current_weight s) \<and> 0 \<le> tl_current_weight s \<and>
     tl_current_weight s \<le> Fin (of_int (tl_max_weight s)) \<and> 0 \<le> tl_replenish_rate s"

lemma replenish_ok:
  assumes "bucket_ok s" "tl_last_update s \<le> now"
  shows "bucket_ok (replenish now s)" "tl_max_weight (replenish now s) = tl_max_weight s"
    "tl_total_requests (replenish now s) = tl_total_requests s"
    "tl_total_weight_used (replenish now s) = tl_total_weight_used s"
proof -
  let ?c = "tl_current_weight s" and ?used = "(now - tl_last_update s) * tl_replenish_rate s"
  have "py_max 0 (?c - ?used) \<le> ?c"
  proof (cases "0 < ?c - ?used")
    case True
    then have n: "?c - ?used \<noteq> NaN" using flt_less_not_NaN by blast
    then have "?used \<noteq> NaN" by auto
    then have "0 \<le> now - tl_last_update s" by (intro flt_minus_nonneg [OF assms(2)]) auto
    then have "0 \<le> ?used" using assms(1) \<open>?used \<noteq> NaN\<close> by (intro flt_times_nonneg) (simp_all add: bucket_ok_def)
    then show ?thesis using assms(1) n True flt_sub_down by (auto simp: bucket_ok_def py_max_def)
  qed (use assms in \<open>simp add: bucket_ok_def py_max_def\<close>)
  moreover have "is_f64 (py_max 0 (?c - ?used))" using py_max_cases [of 0 "?c - ?used"] by auto
  moreover have "0 \<le> py_max 0 (?c - ?used)" using py_max_ge by simp
  ultimately show "bucket_ok (replenish now s)"
    using assms(1) flt_trans by (auto simp: bucket_ok_def replenish_def Let_def)
qed (simp_all add: replenish_def Let_def)

lemma float_of_int_f64: "float_of_int n = Inr w \<Longrightarrow> is_f64 w"
  using is_f64_flr [of "of_int n"] by (auto simp: float_of_int_def split: flt.splits)

lemma weight_nonneg: "float_of_int n = Inr w \<Longrightarrow> 0 \<le> n \<Longrightarrow> 0 \<le> w" "float_of_int n = Inr w \<Longrightarrow> is_finite w"
  using flr_mono [of 0 "of_int n"] by (cases "flr (of_int n)"; auto simp: float_of_int_def zero_flt_def)+

lemma bucket_sum:
  fixes c w :: flt
  assumes "0 \<le> c" "c \<le> Fin m" "0 \<le> w" "is_finite w"
  shows "0 \<le> c + w" "c + w \<noteq> NaN" "is_f64 w \<Longrightarrow> w \<le> c + w"
  using assms flr_mono [of 0] flr_ge_lower by (cases c; cases w; auto simp: zero_flt_def)+

lemma weight_fits:
  assumes "float_of_int n = Inr w" "w \<le> Fin (of_int m)" "m < 2 ^ 53" "0 \<le> m"
  shows "n \<le> m"
proof (rule ccontr)
  assume "\<not> n \<le> m"
  then have "of_int (m + 1) \<le> (of_int n :: rat)" by (simp only: of_int_le_iff)
  then have "flr (of_int (m + 1)) \<le> flr (of_int n)" by (rule flr_mono)
  moreover have "flr (of_int (m + 1)) = Fin (of_int (m + 1))" using assms(3,4) by (intro flr_int) simp
  moreover have "flr (of_int n) = w" using assms(1) by (auto simp: float_of_int_def split: flt.splits)
  ultimately have "Fin (of_int (m + 1)) \<le> Fin (of_int m)" using assms(2) flt_trans by metis
  then show False by simp
qed

lemma bucket_admission:
  assumes "bucket_ok s" "tl_last_update s \<le> now" "token_admission weight now s = Inr (d, s')" "0 \<le> weight"
  shows "bucket_ok s'" "tl_max_weight s' = tl_max_weight s"
    "d = Admit \<Longrightarrow> tl_total_requests s' = tl_total_requests s + 1"
    "d = Admit \<Longrightarrow> tl_total_weight_used s' = tl_total_weight_used s + weight"
    "d = Admit \<Longrightarrow> \<exists>w. float_of_int weight = Inr w \<and> w \<le> Fin (of_int (tl_max_weight s))"
    "d \<noteq> Admit \<Longrightarrow> tl_total_requests s' = tl_total_requests s"
    "d \<noteq> Admit \<Longrightarrow> tl_total_weight_used s' = tl_total_weight_used s"
proof -
  let ?r = "replenish now s"
  note r = replenish_ok [OF assms(1,2)]
  from assms(3) obtain w where w: "float_of_int weight = Inr w" by (auto simp: token_admission_def Let_def)
  have w0: "0 \<le> w" "is_finite w" using weight_nonneg [OF w] assms(4) by blast+
  have "(d \<noteq> Admit \<and> s' = ?r) \<or> (d = Admit \<and> \<not> Fin (of_int (tl_max_weight s)) < tl_current_weight ?r + w \<and>
      consume weight w now ?r = Inr s')"
    using assms(3) w r(2) by (auto simp: token_admission_def Let_def split: if_splits)
  then consider (sleep) "d \<noteq> Admit" "s' = ?r"
    | (grant) "d = Admit" "\<not> Fin (of_int (tl_max_weight s)) < tl_current_weight ?r + w" "consume weight w now ?r = Inr s'"
    by blast
  then have "bucket_ok s' \<and> tl_max_weight s' = tl_max_weight s \<and>
    (d = Admit \<longrightarrow> tl_total_requests s' = tl_total_requests s + 1 \<and>
       tl_total_weight_used s' = tl_total_weight_used s + weight \<and> w \<le> Fin (of_int (tl_max_weight s))) \<and>
    (d \<noteq> Admit \<longrightarrow> tl_total_requests s' = tl_total_requests s \<and> tl_total_weight_used s' = tl_total_weight_used s)"
  proof cases
    case grant
    have s': "s' = ?r\<lparr>tl_current_weight := tl_current_weight ?r + w, tl_last_request_time := now,
        tl_total_requests := tl_total_requests ?r + 1, tl_total_weight_used := tl_total_weight_used ?r + weight\<rparr>"
      using grant(3) by (auto simp: consume_def Let_def split: if_splits)
    have c: "0 \<le> tl_current_weight ?r" "tl_current_weight ?r \<le> Fin (of_int (tl_max_weight s))"
      using r(1,2) by (auto simp: bucket_ok_def)
    note sum = bucket_sum [OF c w0] 
    then have le: "tl_current_weight ?r + w \<le> Fin (of_int (tl_max_weight s))" using grant(2) flt_not_less by blast
    have "w \<le> Fin (of_int (tl_max_weight s))"
      using flt_trans [OF _ le] sum(3) w float_of_int_f64 [OF w] by blast
    then show ?thesis using r grant(1) sum(1) le s' by (simp add: bucket_ok_def)
  qed (use r in simp)
  then show "bucket_ok s'" "tl_max_weight s' = tl_max_weight s"
    "d = Admit \<Longrightarrow> tl_total_requests s' = tl_total_requests s + 1"
    "d = Admit \<Longrightarrow> tl_total_weight_used s' = tl_total_weight_used s + weight"
    "d = Admit \<Longrightarrow> \<exists>w. float_of_int weight = Inr w \<and> w \<le> Fin (of_int (tl_max_weight s))"
    "d \<noteq> Admit \<Longrightarrow> tl_total_requests s' = tl_total_requests s"
    "d \<noteq> Admit \<Longrightarrow> tl_total_weight_used s' = tl_total_weight_used s"
    using w by auto
qed

text \<open>
  C27. The bucket never holds more weight than its capacity, whatever the callers do and however often the vendor
  reports HTTP 429; the statistics count exactly the admitted requests and their weights; and a request heavier than
  the capacity is never admitted, so that its caller waits for ever.
\<close>

theorem bucket_within_capacity:
  assumes "new_token_limiter rpm max_weight margin now = Inr s0" "0 \<le> max_weight" "0 \<le> tl_max_weight s0"
    "tl_max_weight s0 < 2 ^ 53" "token_run s0 s ws"
  shows "0 \<le> tl_current_weight s \<and> tl_current_weight s \<le> Fin (of_int (tl_max_weight s0)) \<and>
    tl_total_requests s = int (length ws) \<and> tl_total_weight_used s = sum_list ws \<and>
    (\<forall>w \<in> set ws. w \<le> tl_max_weight s0)"
proof -
  from assms(1) obtain mw r where n: "float_of_int max_weight = Inr mw" "fdiv mw (Fin 60) = Inr r"
    "tl_replenish_rate s0 = r" "tl_current_weight s0 = 0" "tl_total_requests s0 = 0" "tl_total_weight_used s0 = 0"
    by (auto simp: new_token_limiter_def)
  have "0 \<le> mw" "is_finite mw" using weight_nonneg n(1) assms(2) by auto
  then have "0 \<le> r" using n(2) flr_mono [of 0] by (cases mw) (auto simp: zero_flt_def)
  then have start: "bucket_ok s0" using n(3,4) assms(3) by (simp add: bucket_ok_def zero_flt_def)
  from assms(5) have "bucket_ok s \<and> tl_max_weight s = tl_max_weight s0 \<and> tl_total_requests s = int (length ws) \<and>
    tl_total_weight_used s = sum_list ws \<and> (\<forall>w \<in> set ws. w \<le> tl_max_weight s0)"
  proof (induction rule: token_run.induct)
    case start
    then show ?case using n \<open>bucket_ok s0\<close> by simp
  next
    case (sleeping s ws weight now t s')
    then show ?case using bucket_admission(1,2,6,7) [OF _ sleeping(3,4,2)] by simp
  next
    case (granted s ws weight now s')
    then have "\<exists>w. float_of_int weight = Inr w \<and> w \<le> Fin (of_int (tl_max_weight s0))"
      using bucket_admission(5) [OF _ granted(3,4,2)] by simp
    then have "weight \<le> tl_max_weight s0" using weight_fits assms(3,4) by blast
    then show ?case using granted bucket_admission(1-4) [OF _ granted(3,4,2)] by simp
  next
    case (limited s ws draw now s')
    then show ?case by (auto simp: token_rate_limited_def bucket_ok_def Let_def split: if_splits)
  next
    case (success s ws)
    then have "bucket_ok (on_success s)" by (auto simp: on_success_def bucket_ok_def)
    then show ?case using success by (auto simp: on_success_def bucket_ok_def)
  qed
  then show ?thesis by (auto simp: bucket_ok_def)
qed

section \<open>Examples\<close>

text \<open>One caller that has been admitted at time 10 asks again at time 20 and is admitted at time 30.\<close>

definition sample_limiter :: "flt \<Rightarrow> flt list \<Rightarrow> SlidingLimiter" where
  "sample_limiter t ts = (mk_limiter (Fin (1 / 2)) 2 3 (Fin 2))\<lparr>rl_last_request_time := t, rl_request_times := ts\<rparr>"

definition sample_system :: "phase \<Rightarrow> flt \<Rightarrow> flt \<Rightarrow> flt list \<Rightarrow> sliding_system" where
  "sample_system p now t ts =
     \<lparr>ss_limiter = sample_limiter t ts, ss_phase = (\<lambda>_. Idle)(0 := p), ss_clock = now, ss_granted = ts\<rparr>"

lemma sample_admission:
  "yahoo_admission (Fin 10) (sample_limiter 0 []) = Inr (Admit, sample_limiter (Fin 10) [Fin 10])"
  "yahoo_admission (Fin 30) (sample_limiter (Fin 10) [Fin 10]) = Inr (Admit, sample_limiter (Fin 30) [Fin 10, Fin 30])"
  by code_simp+

lemma sample_no_backoff: "backoff_over (Fin 10) (sample_limiter t ts)" "backoff_over (Fin 20) (sample_limiter t ts)"
  by (simp_all add: backoff_over_def sample_limiter_def mk_limiter_def zero_flt_def) (code_simp)+

lemma sample_system_reachable:
  "sliding_reachable yahoo_admission (sample_limiter 0 []) (sample_system Admission (Fin 20) (Fin 10) [Fin 10])"
proof -
  let ?R = "sliding_reachable yahoo_admission (sample_limiter 0 [])"
  have "?R (start_system (sample_limiter 0 []) 0)"
    by (rule sliding_reachable.start) (simp_all add: sample_limiter_def)
  moreover have "start_system (sample_limiter 0 []) 0 = sample_system Idle 0 0 []"
    by (simp add: start_system_def sample_system_def fun_eq_iff)
  ultimately have "?R (sample_system Idle 0 0 [])" by simp
  then have "?R (sample_system BackingOff 0 0 [])"
    by (rule sliding_reachable.step) (use sliding_step.arrive [of "sample_system Idle 0 0 []" 0] in \<open>simp add: sample_system_def\<close>)
  then have "?R (sample_system Admission (Fin 10) 0 [])"
    by (rule sliding_reachable.step)
      (use sliding_step.backed_off [of "sample_system BackingOff 0 0 []" 0 "Fin 10"] sample_no_backoff in
        \<open>simp add: sample_system_def zero_flt_def\<close>)
  then have "?R (sample_system Idle (Fin 10) (Fin 10) [Fin 10])"
    by (rule sliding_reachable.step)
      (use sliding_step.grant [of "sample_system Admission (Fin 10) 0 []" 0 "Fin 10"] sample_admission in
        \<open>simp add: sample_system_def\<close>)
  then have "?R (sample_system BackingOff (Fin 10) (Fin 10) [Fin 10])"
    by (rule sliding_reachable.step)
      (use sliding_step.arrive [of "sample_system Idle (Fin 10) (Fin 10) [Fin 10]" 0] in \<open>simp add: sample_system_def\<close>)
  then show ?thesis
    by (rule sliding_reachable.step)
      (use sliding_step.backed_off [of "sample_system BackingOff (Fin 10) (Fin 10) [Fin 10]" 0 "Fin 20"] sample_no_backoff in
        \<open>simp add: sample_system_def\<close>)
qed

lemma sample_facts:
  "ss_phase (sample_system Admission n t ts) 0 = Admission" "ss_clock (sample_system p n t ts) = n"
  "ss_limiter (sample_system p n t ts) = sample_limiter t ts" "ss_granted (sample_system p n t ts) = ts"
  "rl_max_per_minute (sample_limiter t ts) = 2"
  by (simp_all add: sample_system_def sample_limiter_def mk_limiter_def)


theorem late_backoff_ignored_witness:
  "\<exists>u v. sliding_step yahoo_admission (sample_system Admission (Fin 20) (Fin 10) [Fin 10]) u \<and>
     sliding_step yahoo_admission u v \<and>
     rl_backoff_until (ss_limiter u) = Fin 20 + backoff_time 10 (sample_limiter (Fin 10) [Fin 10]) \<and>
     ss_granted v = [Fin 10, Fin 30] \<and> ss_phase v 0 = Idle"
  using late_backoff_ignored [of yahoo_admission "sample_limiter 0 []" "sample_system Admission (Fin 20) (Fin 10) [Fin 10]"
      0 "Fin 20" "Fin 30" "sample_limiter (Fin 30) [Fin 10, Fin 30]" 10] sample_system_reachable sample_admission(2)
  by (simp add: sample_facts)

text \<open>A bucket of capacity 90 from which a request of 20 candles is taken at time 1.\<close>

definition sample_bucket :: TokenLimiter where
  "sample_bucket = (case new_token_limiter 60 100 (Fin (9 / 10)) 0 of Inr s \<Rightarrow> s)"

definition sample_bucket_used :: TokenLimiter where
  "sample_bucket_used = (case token_admission 20 1 sample_bucket of Inr (_, s) \<Rightarrow> s)"

theorem bucket_within_capacity_witness:
  "new_token_limiter 60 100 (Fin (9 / 10)) 0 = Inr sample_bucket \<and> tl_max_weight sample_bucket = 90 \<and>
   tl_current_weight sample_bucket_used \<le> Fin 90 \<and> tl_total_weight_used sample_bucket_used = 20"
proof -
  have n: "new_token_limiter 60 100 (Fin (9 / 10)) 0 = Inr sample_bucket" by code_simp
  have m: "tl_max_weight sample_bucket = 90" by code_simp
  have a: "token_admission 20 1 sample_bucket = Inr (Admit, sample_bucket_used)" by code_simp
  have "tl_last_update sample_bucket \<le> 1" by code_simp
  with a have "token_run sample_bucket sample_bucket_used ([] @ [20])"
    by (intro token_run.granted [OF token_run.start]) simp_all
  then show ?thesis using bucket_within_capacity [OF n] n m by simp
qed

end
