(* ===== verification/Portfolio.thy ===== *)
theory Portfolio
  imports WalkForward BacktestRunner "HOL-Library.AList" "HOL-Library.Char_ord" "HOL-Library.List_Lexorder"
begin

text \<open>
  The portfolio backtest: \<open>run_portfolio_backtest.py\<close> of the use cases, with \<open>portfolio_backtest_request.py\<close>,
  \<open>portfolio_config.py\<close> and \<open>portfolio_result.py\<close>.

    - The collaborators of the use case are the record \<open>portfolio_env\<close>: the strategy provider, the converter of bars,
      the engine and the text of an exception.  \<open>service_engine\<close> is the engine of the service, \<open>BacktestRunner.run\<close>.
    - The state of the loop over the assets is the record \<open>Assets\<close>; its dicts are association lists in the order of
      insertion, and a \<open>try\<close> block that fails keeps what it has written before.
    - \<open>value_at\<close> is the linear scan that the indexed lookup of \<open>aggregate_equity\<close> has replaced.
\<close>

section \<open>Requests and results\<close>

record AssetAllocation =
  al_symbol :: string
  al_strategy_name :: string
  al_weight :: flt
  al_max_position_size :: flt
  al_bars :: "(string \<times> pyval) list list"

record PortfolioBacktestRequest =
  pb_assets :: "AssetAllocation list"
  pb_initial_cash :: flt
  pb_interval :: string
  pb_execution :: ExecutionConfig
  pb_risk_per_trade :: flt

record PortfolioPoint =
  pp_date :: string
  pp_value :: flt
  pp_drawdown :: flt

record PortfolioResult =
  po_total_return :: flt
  po_sharpe_ratio :: flt
  po_max_drawdown :: flt
  po_equity_curve :: "PortfolioPoint list"
  po_per_asset_results :: "(string \<times> BacktestResult) list"
  po_correlation_matrix :: "flt list list"
  po_turnover :: flt
  po_cash_drag :: flt
  po_error :: string

definition portfolio_error :: "string \<Rightarrow> PortfolioResult" where
  "portfolio_error msg = \<lparr>po_total_return = 0, po_sharpe_ratio = 0, po_max_drawdown = 0, po_equity_curve = [],
     po_per_asset_results = [], po_correlation_matrix = [], po_turnover = 0, po_cash_drag = 0, po_error = msg\<rparr>"

record 's portfolio_env =
  pe_create :: "string \<Rightarrow> 's option result"
  pe_to_frame :: "(string \<times> pyval) list list \<Rightarrow> BarFrame option result"
  pe_engine :: "BarFrame \<Rightarrow> 's \<Rightarrow> flt \<Rightarrow> (string \<times> pyval) list \<Rightarrow> BacktestResult result"
  pe_text :: "py_error \<Rightarrow> string"

definition service_engine ::
  "pandas_ops \<Rightarrow> pow_fun \<Rightarrow> BarFrame \<Rightarrow> 's TradingStrategy \<times> 's \<Rightarrow> flt \<Rightarrow> (string \<times> pyval) list \<Rightarrow> BacktestResult result" where
  "service_engine pd fpow frame strategy initial params =
     ebind (BacktestRunner.run pd fpow frame (fst strategy) (snd strategy) initial (map_of params)) (\<lambda>(r, _). Inr r)"

section \<open>Curves\<close>

type_synonym curves = "(string \<times> EquityPoint list) list"

definition bar_return :: "EquityPoint \<times> EquityPoint \<Rightarrow> (string \<times> flt) list \<Rightarrow> (string \<times> flt) list result" where
  "bar_return pc returns =
     (case pc of (p, c) \<Rightarrow>
        let prev = eq_value p; curr = eq_value c; d = eq_date c
        in if 0 < prev \<and> d \<noteq> [] then ebind (fdiv (curr - prev) prev) (\<lambda>r. Inr (AList.update d r returns))
           else Inr returns)"

definition compute_returns :: "EquityPoint list \<Rightarrow> (string \<times> flt) list result" where
  "compute_returns eq = efold bar_return (zip eq (tl eq)) []"

definition all_dates :: "curves \<Rightarrow> string list" where
  "all_dates cs = filter (\<lambda>d. d \<noteq> []) (concat (map (\<lambda>(_, eq). map eq_date eq) cs))"

definition first_value :: "EquityPoint list \<Rightarrow> flt" where
  "first_value eq = (case eq of [] \<Rightarrow> 0 | e # _ \<Rightarrow> eq_value e)"

text \<open>A dict comprehension: the last point of a date stays.\<close>

definition index_curve :: "EquityPoint list \<Rightarrow> (string \<rightharpoonup> flt)" where
  "index_curve eq = foldl (\<lambda>m e. m(eq_date e \<mapsto> eq_value e)) Map.empty eq"

text \<open>One date: each asset's value, or the one carried forward, is added to the total.\<close>

definition carry_asset :: "string \<Rightarrow> string \<times> EquityPoint list \<Rightarrow> flt \<times> (string \<rightharpoonup> flt) \<Rightarrow> flt \<times> (string \<rightharpoonup> flt)" where
  "carry_asset date c tc =
     (case (c, tc) of ((name, eq), (total_value, carried)) \<Rightarrow>
        let carried1 = (case index_curve eq date of None \<Rightarrow> carried | Some v \<Rightarrow> carried(name \<mapsto> v))
        in (total_value + get_or carried1 name (first_value eq), carried1))"

definition portfolio_point :: "flt \<Rightarrow> string \<Rightarrow> flt \<Rightarrow> flt \<Rightarrow> (PortfolioPoint \<times> flt) result" where
  "portfolio_point initial date total0 peak0 =
     (let total_value = (if feq total0 0 then initial else total0); peak = py_max peak0 total_value
      in ebind (if 0 < peak then fdiv (peak - total_value) peak else Inr 0) (\<lambda>drawdown.
         Inr (\<lparr>pp_date = date, pp_value = py_round 2 total_value, pp_drawdown = py_round 4 drawdown\<rparr>, peak)))"

fun portfolio_points :: "curves \<Rightarrow> flt \<Rightarrow> string list \<Rightarrow> (string \<rightharpoonup> flt) \<Rightarrow> flt \<Rightarrow> PortfolioPoint list result" where
  "portfolio_points cs initial [] carried peak = Inr []"
| "portfolio_points cs initial (date # dates) carried peak =
     (case fold (carry_asset date) cs (0, carried) of (total0, carried1) \<Rightarrow>
        ebind (portfolio_point initial date total0 peak) (\<lambda>(p, peak1).
        ebind (portfolio_points cs initial dates carried1 peak1) (\<lambda>ps. Inr (p # ps))))"

record PortfolioMetrics =
  pm_total_return :: flt
  pm_sharpe_ratio :: flt
  pm_max_drawdown :: flt

definition no_metrics :: PortfolioMetrics where
  "no_metrics = \<lparr>pm_total_return = 0, pm_sharpe_ratio = 0, pm_max_drawdown = 0\<rparr>"

definition curve_metrics :: "pow_fun \<Rightarrow> flt list \<Rightarrow> flt \<Rightarrow> string \<Rightarrow> string \<Rightarrow> PortfolioMetrics result" where
  "curve_metrics fpow values initial interval calendar =
     (let final_value = (if values = [] then initial else last values)
      in ebind (if 0 < initial then fdiv (final_value - initial) initial else Inr 0) (\<lambda>total_return.
         ebind (if 1 < length values then calculate_daily_returns values else Inr []) (\<lambda>dr.
         ebind (if values = [] then Inr 0 else calculate_max_drawdown values) (\<lambda>max_dd.
         ebind (if dr = [] then Inr 0 else calculate_sharpe fpow dr 0 (fst (annualization_factor interval calendar))) (\<lambda>sharpe.
           Inr \<lparr>pm_total_return = py_round 4 total_return, pm_sharpe_ratio = py_round 4 sharpe,
                pm_max_drawdown = py_round 4 max_dd\<rparr>)))))"

definition aggregate_equity ::
  "pow_fun \<Rightarrow> curves \<Rightarrow> flt \<Rightarrow> string \<Rightarrow> string \<Rightarrow> (PortfolioPoint list \<times> PortfolioMetrics) result" where
  "aggregate_equity fpow cs initial interval calendar =
     (let dates = all_dates cs
      in if dates = [] then Inr ([], no_metrics)
         else ebind (portfolio_points cs initial (sort (remdups dates))
                       (map_of (map (\<lambda>(name, eq). (name, first_value eq)) cs)) initial) (\<lambda>ps.
              ebind (curve_metrics fpow (map pp_value ps) initial interval calendar) (\<lambda>m. Inr (ps, m))))"

text \<open>The scan that the index has replaced.\<close>

definition value_at :: "EquityPoint list \<Rightarrow> string \<Rightarrow> flt" where
  "value_at eq date =
     (if eq = [] then 0
      else (case find (\<lambda>e. eq_date e = date) eq of
              Some e \<Rightarrow> eq_value e
            | None \<Rightarrow> foldl (\<lambda>prev e. eq_value e) (first_value eq) (takeWhile (\<lambda>e. \<not> date < eq_date e) eq)))"

section \<open>Correlation\<close>

definition date_aligned_pearson :: "pow_fun \<Rightarrow> (string \<times> flt) list \<Rightarrow> (string \<times> flt) list \<Rightarrow> flt result" where
  "date_aligned_pearson fpow xs ys =
     (let common = sort (remdups (filter (\<lambda>d. d \<in> set (map fst ys)) (map fst xs)))
      in if length common < 2 then Inr 0
         else pearson fpow (map (\<lambda>d. get_or (map_of xs) d 0) common) (map (\<lambda>d. get_or (map_of ys) d 0) common))"

definition correlation_row :: "pow_fun \<Rightarrow> (string \<times> flt) list list \<Rightarrow> nat \<Rightarrow> flt list result" where
  "correlation_row fpow rs i =
     emap (\<lambda>j. if i = j then Inr 1 else date_aligned_pearson fpow (rs ! i) (rs ! j)) [0..<length rs]"

definition correlation_matrix :: "pow_fun \<Rightarrow> (string \<times> flt) list list \<Rightarrow> flt list list result" where
  "correlation_matrix fpow rs =
     (if length rs < 2 then Inr [[1]] else emap (correlation_row fpow rs) [0..<length rs])"

section \<open>The use case\<close>

record Assets =
  as_per_asset :: "(string \<times> BacktestResult) list"
  as_curves :: curves
  as_returns :: "(string \<times> (string \<times> flt) list) list"
  as_errors :: "string list"

definition no_assets :: Assets where
  "no_assets = \<lparr>as_per_asset = [], as_curves = [], as_returns = [], as_errors = []\<rparr>"

definition add_error :: "string \<Rightarrow> Assets \<Rightarrow> Assets" where
  "add_error msg s = s\<lparr>as_errors := as_errors s @ [msg]\<rparr>"

definition engine_params :: "PortfolioBacktestRequest \<Rightarrow> (string \<times> pyval) list" where
  "engine_params r =
     (let x = pb_execution r in
      [(''interval'', PStr (pb_interval r)), (''risk_per_trade'', PFloat (pb_risk_per_trade r)),
       (''leverage'', PFloat (leverage_multiplier x)), (''risk_mode'', PStr (risk_mode x)),
       (''commission_pct'', PFloat (commission_pct x)), (''slippage_pct'', PFloat (slippage_pct x)),
       (''cap_explicit_size'', PBool (cap_explicit_size x)),
       (''reject_oversized_explicit_orders'', PBool (reject_oversized_explicit_orders x)),
       (''allow_negative_cash'', PBool (allow_negative_cash x)), (''market_calendar'', PStr (market_calendar x)),
       (''borrow_fee_annual_pct'', PFloat (borrow_fee_annual_pct x)), (''margin_mode'', PStr (margin_mode x)),
       (''maintenance_margin_pct'', PFloat (maintenance_margin_pct x)),
       (''enable_funding'', PBool (enable_funding x)), (''funding_rate'', PFloat (funding_rate x))])"

definition curve_of :: "BacktestResult \<Rightarrow> EquityPoint list" where
  "curve_of r = (case r of ErrorResult _ \<Rightarrow> [] | Report p \<Rightarrow> rp_equity_curve p)"

definition keep_result :: "'s portfolio_env \<Rightarrow> string \<Rightarrow> BacktestResult result \<Rightarrow> Assets \<Rightarrow> Assets" where
  "keep_result env name answer s =
     (case answer of
        Inl e \<Rightarrow> add_error (name @ '': '' @ pe_text env e) s
      | Inr raw \<Rightarrow>
          let s1 = s\<lparr>as_per_asset := AList.update name raw (as_per_asset s)\<rparr>; eq = curve_of raw
          in if eq = [] then s1
             else let s2 = s1\<lparr>as_curves := AList.update name eq (as_curves s1)\<rparr>
                  in case compute_returns eq of
                       Inl e \<Rightarrow> add_error (name @ '': '' @ pe_text env e) s2
                     | Inr returns \<Rightarrow> if returns = [] then s2 else s2\<lparr>as_returns := AList.update name returns (as_returns s2)\<rparr>)"

definition run_asset :: "'s portfolio_env \<Rightarrow> PortfolioBacktestRequest \<Rightarrow> flt \<Rightarrow> AssetAllocation \<Rightarrow> Assets \<Rightarrow> Assets result" where
  "run_asset env r total_weight a s =
     ebind (pe_create env (al_strategy_name a)) (\<lambda>strategy.
     case strategy of
       None \<Rightarrow> Inr (add_error (''Strategy not found: '' @ al_strategy_name a) s)
     | Some st \<Rightarrow>
         if al_bars a = [] then Inr (add_error (''No bars for: '' @ al_symbol a) s)
         else ebind (pe_to_frame env (al_bars a)) (\<lambda>frame.
         case frame of
           None \<Rightarrow> Inr (add_error (''Empty frame for: '' @ al_symbol a) s)
         | Some f \<Rightarrow>
             if fr_rows f = [] then Inr (add_error (''Empty frame for: '' @ al_symbol a) s)
             else ebind (fdiv (al_weight a) total_weight) (\<lambda>share.
                  Inr (keep_result env (al_symbol a)
                         (pe_engine env f st (pb_initial_cash r * share) (engine_params r)) s))))"

definition execute :: "'s portfolio_env \<Rightarrow> pow_fun \<Rightarrow> PortfolioBacktestRequest \<Rightarrow> PortfolioResult result" where
  "execute env fpow r =
     (if pb_assets r = [] then Inr (portfolio_error ''No assets in portfolio'')
      else
        let total_weight = py_sum (map al_weight (pb_assets r))
        in if total_weight \<le> 0 then Inr (portfolio_error ''Total portfolio weight must be positive'')
           else
             ebind (efold (run_asset env r total_weight) (pb_assets r) no_assets) (\<lambda>s.
             if as_curves s = []
             then Inr (portfolio_error (if as_errors s = [] then ''All assets failed'' else intercalate ''; '' (as_errors s)))
             else
               ebind (aggregate_equity fpow (as_curves s) (pb_initial_cash r)
                        (if pb_interval r = [] then ''1d'' else pb_interval r) (market_calendar (pb_execution r))) (\<lambda>(ps, m).
               ebind (correlation_matrix fpow (map snd (as_returns s))) (\<lambda>corr.
                 Inr \<lparr>po_total_return = pm_total_return m, po_sharpe_ratio = pm_sharpe_ratio m,
                      po_max_drawdown = pm_max_drawdown m, po_equity_curve = ps,
                      po_per_asset_results = as_per_asset s, po_correlation_matrix = corr,
                      po_turnover = 0, po_cash_drag = 0, po_error = []\<rparr>))))"

end
