(* ===== verification/PortfolioProperties.thy ===== *)
theory PortfolioProperties
  imports Portfolio
begin

text \<open>
  What the portfolio computes: the indexed aggregation equals the scan it has replaced, the correlation matrix is
  square and symmetric with a diagonal of ones; and what it loses: the capital of an asset that fails.
\<close>

section \<open>The index against the scan\<close>

definition dated_curve :: "EquityPoint list \<Rightarrow> bool" where
  "dated_curve eq \<longleftrightarrow> eq \<noteq> [] \<and> sorted_wrt (\<lambda>p q. eq_date p < eq_date q) eq \<and> (\<forall>e \<in> set eq. eq_date e \<noteq> [])"

text \<open>The value known after the dates of a set.\<close>

definition known :: "string set \<Rightarrow> EquityPoint list \<Rightarrow> flt" where
  "known P eq = foldl (\<lambda>_ e. eq_value e) (first_value eq) (filter (\<lambda>e. eq_date e \<in> P) eq)"

lemma index_curve_map_of: "index_curve eq = map_of (rev (map (\<lambda>e. (eq_date e, eq_value e)) eq))"
proof (induction eq rule: rev_induct)
  case (snoc e eq)
  then show ?case by (simp add: index_curve_def fun_upd_def)
qed (simp add: index_curve_def)

lemma sorted_unique:
  assumes "sorted_wrt (\<lambda>p q. eq_date p < eq_date q) eq" "e \<in> set eq" "e' \<in> set eq" "eq_date e = eq_date e'"
  shows "e = e'"
  using assms by (induction eq) auto

lemma index_curve_sorted:
  assumes "sorted_wrt (\<lambda>p q. eq_date p < eq_date q) eq"
  shows "index_curve eq d = (case find (\<lambda>e. eq_date e = d) eq of None \<Rightarrow> None | Some e \<Rightarrow> Some (eq_value e))"
  using assms
proof (induction eq)
  case (Cons x eq)
  have "index_curve (x # eq) d = (case index_curve eq d of None \<Rightarrow> if eq_date x = d then Some (eq_value x) else None | Some v \<Rightarrow> Some v)"
    by (simp add: index_curve_map_of map_add_def split: option.splits)
  moreover have "find (\<lambda>e. eq_date e = d) eq = None" if "eq_date x = d" using Cons.prems that by (auto simp: find_None_iff)
  ultimately show ?case using Cons by (auto split: option.splits)
qed (simp add: index_curve_def)

text \<open>Learning a later date replaces what is known exactly when the curve has a point there.\<close>

lemma known_step:
  assumes s: "sorted_wrt (\<lambda>p q. eq_date p < eq_date q) eq" and P: "\<forall>x \<in> P. x < d"
  shows "known (insert d P) eq = (case index_curve eq d of None \<Rightarrow> known P eq | Some v \<Rightarrow> v)"
proof (cases "find (\<lambda>e. eq_date e = d) eq")
  case None
  then have "filter (\<lambda>e. eq_date e \<in> insert d P) eq = filter (\<lambda>e. eq_date e \<in> P) eq"
    by (intro filter_cong) (auto simp: find_None_iff)
  then show ?thesis using None by (simp add: known_def index_curve_sorted [OF s])
next
  case (Some e)
  then obtain us vs where eq: "eq = us @ e # vs" and e: "eq_date e = d"
    by (metis (mono_tags, lifting) find_Some_iff2 id_take_nth_drop)
  have v: "d < eq_date x" if "x \<in> set vs" for x using s that e by (auto simp: eq sorted_wrt_append)
  have "eq_date x \<notin> insert d P" if "x \<in> set vs" for x using v [OF that] P order_less_asym by fastforce
  then have "filter (\<lambda>e. eq_date e \<in> insert d P) vs = []" by (simp add: filter_empty_conv)
  then show ?thesis using Some e by (simp add: known_def eq index_curve_sorted [OF s, unfolded eq])
qed

text \<open>After all dates up to \<open>d\<close> it is the value the scan finds.\<close>

lemma known_scan:
  assumes c: "dated_curve eq" and D: "eq_date ` set eq \<subseteq> D"
  shows "known {x \<in> D. x \<le> d} eq = value_at eq d"
proof -
  from c have s: "sorted_wrt (\<lambda>p q. eq_date p < eq_date q) eq" and ne: "eq \<noteq> []" by (auto simp: dated_curve_def)
  have f: "filter (\<lambda>e. eq_date e \<in> {x \<in> D. x \<le> d}) eq = filter (\<lambda>e. eq_date e \<le> d) eq"
    using D by (intro filter_cong) auto
  have t: "filter (\<lambda>e. eq_date e \<le> d) xs = takeWhile (\<lambda>e. \<not> d < eq_date e) xs"
    if "sorted_wrt (\<lambda>p q. eq_date p < eq_date q) xs" for xs
    using that
  proof (induction xs)
    case (Cons x xs)
    have "filter (\<lambda>e. eq_date e \<le> d) xs = []" if "d < eq_date x"
      using Cons.prems that by (auto simp: filter_empty_conv intro: order_less_trans dest: leD less_imp_le)
    then show ?case using Cons by (auto simp: not_less)
  qed simp
  show ?thesis
  proof (cases "find (\<lambda>e. eq_date e = d) eq")
    case None
    then show ?thesis unfolding known_def f t [OF s] value_at_def using ne by simp
  next
    case (Some e)
    have "known (insert d {x \<in> D. x < d}) eq = eq_value e"
      using known_step [OF s, of "{x \<in> D. x < d}" d] Some by (simp add: index_curve_sorted [OF s])
    moreover have "d \<in> D" using Some D by (auto simp: find_Some_iff)
    then have "insert d {x \<in> D. x < d} = {x \<in> D. x \<le> d}" by (auto simp: less_le)
    ultimately show ?thesis using Some ne by (simp add: value_at_def)
  qed
qed

definition refreshed :: "string \<Rightarrow> (string \<rightharpoonup> flt) \<Rightarrow> string \<times> EquityPoint list \<Rightarrow> flt option" where
  "refreshed d carried c = (case index_curve (snd c) d of None \<Rightarrow> carried (fst c) | Some v \<Rightarrow> Some v)"

lemma carry_asset_eq:
  "carry_asset d c (t, carried) =
     (t + (case refreshed d carried c of None \<Rightarrow> first_value (snd c) | Some v \<Rightarrow> v), carried(fst c := refreshed d carried c))"
  by (cases c) (auto simp: carry_asset_def refreshed_def Let_def get_or_def split: option.splits)

lemma carry_fold:
  assumes "distinct (map fst cs)"
  shows "fst (fold (carry_asset d) cs (t, carried)) =
      foldl (\<lambda>t c. t + (case refreshed d carried c of None \<Rightarrow> first_value (snd c) | Some v \<Rightarrow> v)) t cs \<and>
    (\<forall>c \<in> set cs. snd (fold (carry_asset d) cs (t, carried)) (fst c) = refreshed d carried c) \<and>
    (\<forall>n. n \<notin> set (map fst cs) \<longrightarrow> snd (fold (carry_asset d) cs (t, carried)) n = carried n)"
  using assms
proof (induction cs arbitrary: t carried)
  case (Cons c cs)
  define u where "u = t + (case refreshed d carried c of None \<Rightarrow> first_value (snd c) | Some v \<Rightarrow> v)"
  define m where "m = carried(fst c := refreshed d carried c)"
  have step: "fold (carry_asset d) (c # cs) (t, carried) = fold (carry_asset d) cs (u, m)"
    by (simp add: carry_asset_eq u_def m_def)
  have same: "refreshed d m x = refreshed d carried x" if "x \<in> set cs" for x
  proof -
    have "fst x \<in> set (map fst cs)" using that by simp
    then have "fst x \<noteq> fst c" using Cons.prems unfolding list.map distinct.simps by metis
    then show ?thesis by (cases "index_curve (snd x) d") (simp_all add: refreshed_def m_def)
  qed
  have sums: "foldl (\<lambda>t c. t + (case refreshed d m c of None \<Rightarrow> first_value (snd c) | Some v \<Rightarrow> v)) u cs =
      foldl (\<lambda>t c. t + (case refreshed d carried c of None \<Rightarrow> first_value (snd c) | Some v \<Rightarrow> v)) u cs"
    by (rule foldl_cong) (simp_all add: same)
  have "fst c \<notin> set (map fst cs)" using Cons.prems by simp
  moreover have "m (fst c) = refreshed d carried c" "\<And>n. n \<noteq> fst c \<Longrightarrow> m n = carried n" by (simp_all add: m_def)
  moreover have "distinct (map fst cs)" using Cons.prems by simp
  note IH = Cons.IH [OF this, of u m, unfolded sums]
  ultimately show ?case unfolding step foldl_Cons u_def [symmetric] using IH same by simp
qed simp

definition scan_total :: "curves \<Rightarrow> flt \<Rightarrow> string \<Rightarrow> flt" where
  "scan_total cs initial d =
     (let t = foldl (\<lambda>t c. t + value_at (snd c) d) 0 cs in if feq t 0 then initial else t)"

lemma portfolio_point_total:
  "\<exists>p peak'. portfolio_point initial d t peak = Inr (p, peak') \<and> pp_date p = d \<and>
     pp_value p = py_round 2 (if feq t 0 then initial else t)"
proof -
  let ?v = "if feq t 0 then initial else t"
  have "\<exists>x. (if 0 < py_max peak ?v then fdiv (py_max peak ?v - ?v) (py_max peak ?v) else Inr 0) = Inr x"
    using fdiv_pos_total by auto
  then show ?thesis by (auto simp: portfolio_point_def Let_def)
qed

lemma points_scan:
  assumes "distinct (map fst cs)" "\<forall>c \<in> set cs. dated_curve (snd c)"
    and "\<forall>c \<in> set cs. eq_date ` set (snd c) \<subseteq> P \<union> set ds"
    and "sorted_wrt (<) ds" "\<forall>x \<in> P. \<forall>d \<in> set ds. x < d"
    and "\<forall>c \<in> set cs. carried (fst c) = Some (known P (snd c))"
  shows "\<exists>ps. portfolio_points cs initial ds carried peak = Inr ps \<and> map pp_date ps = ds \<and>
    (\<forall>p \<in> set ps. pp_value p = py_round 2 (scan_total cs initial (pp_date p)))"
  using assms(3-)
proof (induction ds arbitrary: P carried peak)
  case (Cons d ds)
  let ?f = "fold (carry_asset d) cs (0, carried)"
  have r: "refreshed d carried c = Some (known (insert d P) (snd c))" if "c \<in> set cs" for c
    using known_step [of "snd c" P d] Cons.prems(3,4) assms(2) that
    by (auto simp: refreshed_def dated_curve_def split: option.splits)
  have v: "known (insert d P) (snd c) = value_at (snd c) d" if "c \<in> set cs" for c
  proof -
    have "{x \<in> P \<union> set (d # ds). x \<le> d} = insert d P" using Cons.prems(2,3) by (auto simp: less_le not_le)
    then show ?thesis using known_scan [of "snd c" "P \<union> set (d # ds)" d] assms(2) Cons.prems(1) that by auto
  qed
  have "foldl (\<lambda>t c. t + (case refreshed d carried c of None \<Rightarrow> first_value (snd c) | Some v \<Rightarrow> v)) 0 cs =
      foldl (\<lambda>t c. t + value_at (snd c) d) 0 cs"
    by (rule foldl_cong) (simp_all add: r v)
  then have t: "fst ?f = foldl (\<lambda>t c. t + value_at (snd c) d) 0 cs" using carry_fold [OF assms(1)] by simp
  have carried: "\<forall>c \<in> set cs. snd ?f (fst c) = Some (known (insert d P) (snd c))"
    using carry_fold [OF assms(1), of d 0 carried] r by simp
  obtain p peak' where p: "portfolio_point initial d (fst ?f) peak = Inr (p, peak')" "pp_date p = d"
    "pp_value p = py_round 2 (scan_total cs initial d)"
    using portfolio_point_total [of initial d "fst ?f" peak] t by (auto simp: scan_total_def Let_def)
  have "\<forall>c \<in> set cs. eq_date ` set (snd c) \<subseteq> insert d P \<union> set ds" using Cons.prems(1) by auto
  moreover have "sorted_wrt (<) ds" "\<forall>x \<in> insert d P. \<forall>e \<in> set ds. x < e" using Cons.prems(2,3) by auto
  ultimately obtain ps where "portfolio_points cs initial ds (snd ?f) peak' = Inr ps" "map pp_date ps = ds"
    "\<forall>p \<in> set ps. pp_value p = py_round 2 (scan_total cs initial (pp_date p))"
    using Cons.IH [of "insert d P" "snd ?f" peak'] carried by blast
  then show ?case using p by (simp add: case_prod_beta)
qed simp

text \<open>
  C29. The indexed aggregation of the portfolio curve equals the scan it has replaced: for curves in the order of their
  dates it has one point for every date of any asset, in order, and the value of a point is the sum of the values
  the scan finds for each asset at that date, or the initial cash when that sum is zero.
\<close>

theorem portfolio_matches_scan:
  assumes "distinct (map fst cs)" "\<forall>c \<in> set cs. dated_curve (snd c)" "cs \<noteq> []"
  shows "\<exists>ps. aggregate_equity fpow cs initial interval calendar =
      ebind (curve_metrics fpow (map pp_value ps) initial interval calendar) (\<lambda>m. Inr (ps, m)) \<and>
    map pp_date ps = sort (remdups (all_dates cs)) \<and>
    (\<forall>p \<in> set ps. pp_value p = py_round 2 (scan_total cs initial (pp_date p)))"
proof -
  let ?ds = "sort (remdups (all_dates cs))"
  let ?first = "map_of (map (\<lambda>(name, eq). (name, first_value eq)) cs)"
  have dates: "eq_date ` set (snd c) \<subseteq> set ?ds" if "c \<in> set cs" for c
  proof
    fix d assume "d \<in> eq_date ` set (snd c)"
    then obtain e where e: "e \<in> set (snd c)" "d = eq_date e" by blast
    moreover have "d \<noteq> []" using bspec [OF assms(2) that] e by (auto simp: dated_curve_def)
    ultimately show "d \<in> set ?ds" using that by (cases c) (force simp: all_dates_def)
  qed
  have c: "last cs \<in> set cs" using assms(3) by simp
  then have "snd (last cs) \<noteq> []" using assms(2) unfolding dated_curve_def by blast
  then have "hd (snd (last cs)) \<in> set (snd (last cs))" by simp
  then have "eq_date (hd (snd (last cs))) \<in> set ?ds" using dates [OF c] by blast
  then have "all_dates cs \<noteq> []" by auto
  moreover have "?first (fst c) = Some (known {} (snd c))" if "c \<in> set cs" for c
  proof -
    have "map fst (map (\<lambda>(name, eq). (name, first_value eq)) cs) = map fst cs" by (induction cs) auto
    then have "distinct (map fst (map (\<lambda>(name, eq). (name, first_value eq)) cs))" using assms(1) by (simp only:)
    then show ?thesis using that by (intro map_of_is_SomeI) (cases c, auto simp: known_def rev_image_eqI)
  qed
  moreover have "sorted_wrt (<) ?ds" using strict_sorted_iff [of ?ds] by (simp add: strict_sorted_iff)
  ultimately show ?thesis
    using points_scan [OF assms(1,2), of "{}" ?ds ?first initial initial] dates
    by (auto simp: aggregate_equity_def Let_def)
qed

section \<open>The correlation matrix\<close>

lemma flt_times_commute: "x * y = y * x" for x y :: flt
  by (cases x; cases y) (simp_all add: mult.commute)

lemma covariance_commute: "covariance_sum mx my xs ys = covariance_sum my mx ys xs"
proof -
  have "map (\<lambda>(x, y). (x - mx) * (y - my)) (zip xs ys) = map (\<lambda>(y, x). (y - my) * (x - mx)) (zip ys xs)"
    unfolding zip_commute [of xs ys] by (simp add: flt_times_commute case_prod_beta comp_def)
  then show ?thesis by (simp add: covariance_sum_def)
qed

lemma correlate_commute:
  assumes "length xs = length ys" "correlate fpow xs ys = Inr v"
  shows "correlate fpow ys xs = Inr v"
proof -
  from assms(2) obtain mx my vx vy where d: "div_len (py_sum xs) (int (length xs)) = Inr mx"
    "div_len (py_sum ys) (int (length xs)) = Inr my" "square_sum fpow mx xs = Inr vx" "square_sum fpow my ys = Inr vy"
    and r: "(if feq vx 0 \<or> feq vy 0 then Inr 0
             else ebind (fpow (vx * vy) (flr (1 / 2))) (fdiv (covariance_sum mx my xs ys))) = Inr v"
    unfolding correlate_def by blast
  show ?thesis
    unfolding correlate_def assms(1) [symmetric] d ebind_Inr flt_times_commute [of vy vx] covariance_commute [of my mx ys xs]
    using r by (simp only: disj_commute)
qed

lemma pearson_commute: "length xs = length ys \<Longrightarrow> pearson fpow xs ys = Inr v \<Longrightarrow> pearson fpow ys xs = Inr v"
  using correlate_commute [of xs ys fpow v] by (cases "length ys < 2") (simp_all add: pearson_def)

definition common_dates :: "(string \<times> flt) list \<Rightarrow> (string \<times> flt) list \<Rightarrow> string list" where
  "common_dates xs ys = sort (remdups (filter (\<lambda>d. d \<in> set (map fst ys)) (map fst xs)))"

lemma common_dates_commute: "common_dates xs ys = common_dates ys xs"
proof -
  have "set (filter (\<lambda>d. d \<in> set (map fst ys)) (map fst xs)) = set (filter (\<lambda>d. d \<in> set (map fst xs)) (map fst ys))"
    unfolding set_filter by blast
  then show ?thesis unfolding common_dates_def sorted_list_of_set_sort_remdups [symmetric] by (simp only:)
qed

lemma aligned_eq:
  "date_aligned_pearson fpow xs ys =
     (let common = common_dates xs ys
      in if length common < 2 then Inr 0
         else pearson fpow (map (\<lambda>d. get_or (map_of xs) d 0) common) (map (\<lambda>d. get_or (map_of ys) d 0) common))"
  unfolding date_aligned_pearson_def common_dates_def by (rule refl)

lemma aligned_commute: "date_aligned_pearson fpow xs ys = Inr v \<Longrightarrow> date_aligned_pearson fpow ys xs = Inr v"
  unfolding aligned_eq Let_def common_dates_commute [of ys xs]
  by (auto intro!: pearson_commute split: if_splits)

text \<open>
  The correlation matrix of two or more assets is square with ones on the diagonal, and symmetric.
\<close>

theorem correlation_symmetric:
  assumes "correlation_matrix fpow rs = Inr m" "2 \<le> length rs" "i < length rs" "j < length rs"
  shows "length m = length rs \<and> length (m ! i) = length rs \<and> m ! i ! i = 1 \<and> m ! i ! j = m ! j ! i"
proof -
  have m: "emap (correlation_row fpow rs) [0..<length rs] = Inr m" using assms(1,2) by (simp add: correlation_matrix_def)
  have row: "correlation_row fpow rs k = Inr (m ! k)" if "k < length rs" for k using emap_nth [OF m, of k] that by simp
  have entry: "(if k = l then Inr 1 else date_aligned_pearson fpow (rs ! k) (rs ! l)) = Inr (m ! k ! l)"
    if "k < length rs" "l < length rs" for k l
  proof -
    have "[0..<length rs] ! l = l" "l < length [0..<length rs]" using that(2) by simp_all
    then show ?thesis using emap_nth [OF row [OF that(1), unfolded correlation_row_def], of l] by (simp only:)
  qed
  have "m ! i ! j = m ! j ! i"
    using entry [of i j] entry [of j i] aligned_commute [of fpow "rs ! i" "rs ! j"] assms(3,4) by (cases "i = j") auto
  then show ?thesis
    using emap_length [OF m] emap_length [OF row [OF assms(3), unfolded correlation_row_def]] entry [of i i] assms(3) by simp
qed

section \<open>Assets that fail\<close>

lemma value_at_flat:
  assumes "eq \<noteq> []" "\<forall>e \<in> set eq. eq_value e = v"
  shows "value_at eq d = v"
proof -
  have "foldl (\<lambda>_ e. eq_value e) v (takeWhile P eq) = v" for P
  proof (cases "takeWhile P eq" rule: rev_cases)
    case (snoc ys y)
    then have "y \<in> set eq" using set_takeWhileD [of y P eq] by simp
    then show ?thesis using assms(2) snoc by simp
  qed simp
  moreover have "first_value eq = v" using assms by (cases eq) (auto simp: first_value_def)
  moreover have "eq_value e = v" if "find (\<lambda>e. eq_date e = d) eq = Some e" for e
    using that assms(2) by (auto simp: find_Some_iff)
  ultimately show ?thesis using assms(1) by (auto simp: value_at_def split: option.splits)
qed

lemma py_round_int:
  assumes "\<bar>k\<bar> \<le> 2 ^ 53"
  shows "py_round n (Fin (of_int k)) = Fin (of_int k)"
proof -
  have "rne (of_int k * 10 ^ n :: rat) = k * 10 ^ n" using rne_of_int [of "k * 10 ^ n"] by simp
  then show ?thesis using flr_int [OF assms] by simp
qed

lemma curve_metrics_return:
  "curve_metrics fpow values initial interval calendar = Inr m \<Longrightarrow> values \<noteq> [] \<Longrightarrow> 0 < initial \<Longrightarrow>
   fdiv (last values - initial) initial = Inr x \<Longrightarrow> pm_total_return m = py_round 4 x"
  by (auto simp: curve_metrics_def Let_def)

text \<open>
  C30. An asset that fails takes its capital with it: when one of two assets of the same weight has no result and the
  other one never trades, the portfolio reports a loss of one half and no error.
\<close>

theorem failed_asset_loses_its_share:
  assumes "pb_assets r = [a, b]" "al_weight a = 1" "al_weight b = 1" "pb_initial_cash r = Fin (of_int (2 * k))"
    "0 < k" "k \<le> 2 ^ 52"
    and failed: "run_asset env r (Fin 2) a no_assets = Inr s" "as_curves s = []"
    and runs: "pe_create env (al_strategy_name b) = Inr (Some st)" "al_bars b \<noteq> []" "pe_to_frame env (al_bars b) = Inr (Some f)"
      "fr_rows f \<noteq> []" "pe_engine env f st (Fin (of_int k)) (engine_params r) = Inr (Report p)"
    and flat: "dated_curve (rp_equity_curve p)" "\<forall>e \<in> set (rp_equity_curve p). eq_value e = Fin (of_int k)"
    and result: "execute env fpow r = Inr res"
  shows "po_total_return res = Fin (- 1 / 2) \<and> po_error res = [] \<and>
    (\<forall>q \<in> set (po_equity_curve res). pp_value q = Fin (of_int k))"
proof -
  let ?eq = "rp_equity_curve p" and ?k = "Fin (of_int k)" and ?name = "al_symbol b"
  have w: "py_sum (map al_weight (pb_assets r)) = Fin 2" unfolding assms(1) list.map assms(2,3) by code_simp
  have share: "fdiv 1 (Fin 2) = Inr (Fin (1 / 2))" by code_simp
  have cash: "Fin (of_int (2 * k)) * Fin (1 / 2) = ?k" using flr_int [of k] assms(5,6) by simp
  have ne: "?eq \<noteq> []" using flat(1) by (simp add: dated_curve_def)
  obtain s' where s': "run_asset env r (Fin 2) b s = Inr s'" "as_curves s' = [(?name, ?eq)]"
  proof -
    have "run_asset env r (Fin 2) b s = Inr (keep_result env ?name (Inr (Report p)) s)"
      using runs assms(3,4) share cash by (simp add: run_asset_def)
    moreover have "as_curves (keep_result env ?name (Inr (Report p)) s) = [(?name, ?eq)]"
      using ne failed(2) by (auto simp: keep_result_def curve_of_def add_error_def Let_def split: sum.splits)
    ultimately show thesis using that by blast
  qed
  let ?cs = "[(?name, ?eq)]" and ?c = "Fin (of_int (2 * k))"
  let ?i = "if pb_interval r = [] then ''1d'' else pb_interval r" and ?cal = "market_calendar (pb_execution r)"
  obtain ps where agg: "aggregate_equity fpow ?cs ?c ?i ?cal = ebind (curve_metrics fpow (map pp_value ps) ?c ?i ?cal) (\<lambda>m. Inr (ps, m))"
    and d: "map pp_date ps = sort (remdups (all_dates ?cs))"
    and v: "\<forall>q \<in> set ps. pp_value q = py_round 2 (scan_total ?cs ?c (pp_date q))"
    using portfolio_matches_scan [of ?cs fpow ?c ?i ?cal] flat(1) by auto
  have total: "scan_total ?cs ?c x = ?k" for x
    using value_at_flat [OF ne flat(2)] flr_int [of k] assms(5,6) by (simp add: scan_total_def Let_def zero_flt_def feq_def)
  have "py_round 2 ?k = ?k" using assms(5,6) by (intro py_round_int) simp
  then have points: "\<forall>q \<in> set ps. pp_value q = ?k" using v total by simp
  have "eq_date (hd ?eq) \<in> set (all_dates ?cs)" using ne flat(1) by (auto simp: all_dates_def dated_curve_def)
  then have "sort (remdups (all_dates ?cs)) \<noteq> []" by (metis empty_iff empty_set set_remdups set_sort)
  then have "ps \<noteq> []" using d by auto
  then have last: "last (map pp_value ps) = ?k" "map pp_value ps \<noteq> []" using points by (simp_all add: last_map)
  have "- rat_of_int k / of_int (2 * k) = - 1 / 2" using assms(5) by (simp add: field_simps)
  moreover have "?k - ?c = Fin (- of_int k)"
    using flr_int [of "- k"] assms(5,6) by (simp add: minus_flt_def)
  moreover have "flr (- 1 / 2) = Fin (- 1 / 2)" by code_simp
  ultimately have loss: "fdiv (?k - ?c) ?c = Inr (Fin (- 1 / 2))" using assms(5) by simp
  have ef: "efold (run_asset env r (Fin 2)) (pb_assets r) no_assets = Inr s'"
    by (simp add: assms(1) failed(1) s'(1))
  have pos: "(Fin 2 \<le> (0::flt)) = False" by (simp add: zero_flt_def)
  have ne2: "(pb_assets r = []) = False" "(?cs = []) = False" using assms(1) by simp_all
  have run: "execute env fpow r = ebind (aggregate_equity fpow ?cs ?c ?i ?cal) (\<lambda>(ps, m).
      ebind (correlation_matrix fpow (map snd (as_returns s'))) (\<lambda>corr.
        Inr \<lparr>po_total_return = pm_total_return m, po_sharpe_ratio = pm_sharpe_ratio m,
             po_max_drawdown = pm_max_drawdown m, po_equity_curve = ps,
             po_per_asset_results = as_per_asset s', po_correlation_matrix = corr,
             po_turnover = 0, po_cash_drag = 0, po_error = []\<rparr>))"
    unfolding execute_def Let_def w ef ebind_Inr s'(2) assms(4) ne2 pos if_False by (rule refl)
  note out = result [unfolded run agg]
  from out obtain m where m: "curve_metrics fpow (map pp_value ps) ?c ?i ?cal = Inr m"
    "po_total_return res = pm_total_return m" "po_error res = []" "po_equity_curve res = ps"
    by (elim ebindE) auto
  have "pm_total_return m = py_round 4 (Fin (- 1 / 2))"
    using curve_metrics_return [OF m(1) last(2)] loss assms(5) unfolding last(1) by (simp add: zero_flt_def)
  moreover have "py_round 4 (Fin (- 1 / 2)) = Fin (- 1 / 2)" by code_simp
  ultimately show ?thesis using points m by simp
qed

end
