(* ===== verification/PortfolioExamples.thy ===== *)
theory PortfolioExamples
  imports PortfolioProperties RunProperties
begin

text \<open>Concrete portfolios: the hypotheses of the properties can hold.\<close>

definition sample_point :: "string \<Rightarrow> rat \<Rightarrow> EquityPoint" where
  "sample_point d v = \<lparr>eq_date = d, eq_close = 1, eq_value = Fin v, eq_drawdown = 0, eq_position = 0\<rparr>"

definition sample_curves :: curves where
  "sample_curves = [(''A'', [sample_point ''2024-01-01'' 100, sample_point ''2024-01-03'' 120]),
                    (''B'', [sample_point ''2024-01-02'' 50])]"

theorem portfolio_matches_scan_witness:
  "\<exists>ps. aggregate_equity square_pow sample_curves (Fin 150) ''1d'' '''' =
      ebind (curve_metrics square_pow (map pp_value ps) (Fin 150) ''1d'' '''') (\<lambda>m. Inr (ps, m)) \<and>
    map pp_date ps = [''2024-01-01'', ''2024-01-02'', ''2024-01-03''] \<and>
    map pp_value ps = [Fin 150, Fin 150, Fin 170]"
proof -
  have 1: "distinct (map fst sample_curves)" "sample_curves \<noteq> []" by code_simp+
  have 2: "\<forall>c \<in> set sample_curves. dated_curve (snd c)" by code_simp
  have 3: "sort (remdups (all_dates sample_curves)) = [''2024-01-01'', ''2024-01-02'', ''2024-01-03'']" by code_simp
  have 4: "map (\<lambda>d. py_round 2 (scan_total sample_curves (Fin 150) d)) [''2024-01-01'', ''2024-01-02'', ''2024-01-03''] =
      [Fin 150, Fin 150, Fin 170]" by code_simp
  obtain ps where ps: "aggregate_equity square_pow sample_curves (Fin 150) ''1d'' '''' =
      ebind (curve_metrics square_pow (map pp_value ps) (Fin 150) ''1d'' '''') (\<lambda>m. Inr (ps, m))"
    "map pp_date ps = [''2024-01-01'', ''2024-01-02'', ''2024-01-03'']"
    "\<forall>p \<in> set ps. pp_value p = py_round 2 (scan_total sample_curves (Fin 150) (pp_date p))"
    using portfolio_matches_scan [OF 1(1) 2 1(2), of square_pow "Fin 150" "''1d''" "''''"] unfolding 3 by (elim exE conjE)
  have "map pp_value ps = map (\<lambda>d. py_round 2 (scan_total sample_curves (Fin 150) d)) (map pp_date ps)"
    using ps(3) by simp
  then show ?thesis using ps(1,2) 4 by metis
qed

definition sample_returns :: "(string \<times> flt) list list" where
  "sample_returns = [[(''d1'', Fin (1 / 2)), (''d2'', Fin 1), (''d3'', Fin 0)], [(''d2'', Fin 1), (''d3'', Fin (- 1))]]"

theorem correlation_symmetric_witness:
  "\<exists>m. correlation_matrix square_pow sample_returns = Inr m \<and> length m = 2 \<and> m ! 0 ! 0 = 1 \<and> m ! 0 ! 1 = m ! 1 ! 0"
proof -
  have "case correlation_matrix square_pow sample_returns of Inl _ \<Rightarrow> False | Inr m \<Rightarrow> True" by code_simp
  then obtain m where m: "correlation_matrix square_pow sample_returns = Inr m" by (auto split: sum.splits)
  have "length sample_returns = 2" by (simp add: sample_returns_def)
  then show ?thesis using correlation_symmetric [OF m, of 0 1] m by auto
qed

text \<open>Two assets of which only the second one has a strategy; it never trades.\<close>

definition idle_strategy :: "unit TradingStrategy" where
  "idle_strategy = \<lparr>ts_meta_name = (\<lambda>_. ''idle''), ts_reset = (\<lambda>s. s), ts_on_bar = (\<lambda>_ _ _. Inr (None, ()))\<rparr>"

definition sample_portfolio_env :: "(unit TradingStrategy \<times> unit) portfolio_env" where
  "sample_portfolio_env = \<lparr>
     pe_create = (\<lambda>name. Inr (if name = ''idle'' then Some (idle_strategy, ()) else None)),
     pe_to_frame = (\<lambda>_. Inr (Some sample_frame)),
     pe_engine = service_engine sample_pandas square_pow,
     pe_text = (\<lambda>_. ''error'')\<rparr>"

definition sample_asset :: "string \<Rightarrow> string \<Rightarrow> AssetAllocation" where
  "sample_asset name strategy = \<lparr>al_symbol = name, al_strategy_name = strategy, al_weight = 1, al_max_position_size = 0,
     al_bars = [[(''date'', PStr ''2024-01-01'')]]\<rparr>"

definition sample_request :: PortfolioBacktestRequest where
  "sample_request = \<lparr>pb_assets = [sample_asset ''A'' ''missing'', sample_asset ''B'' ''idle''],
     pb_initial_cash = Fin 100000, pb_interval = ''1d'', pb_execution = default_config,
     pb_risk_per_trade = Fin (1 / 64)\<rparr>"

theorem failed_asset_loses_its_share_witness:
  "\<exists>res. execute sample_portfolio_env square_pow sample_request = Inr res \<and> po_total_return res = Fin (- 1 / 2) \<and>
     po_error res = []"
proof -
  let ?e = "service_engine sample_pandas square_pow sample_frame (idle_strategy, ()) (Fin 50000) (engine_params sample_request)"
  have "case ?e of Inr (Report p) \<Rightarrow> dated_curve (rp_equity_curve p) \<and> (\<forall>e \<in> set (rp_equity_curve p). eq_value e = Fin 50000)
    | _ \<Rightarrow> False" by code_simp
  then obtain p where p: "?e = Inr (Report p)" "dated_curve (rp_equity_curve p)"
    "\<forall>e \<in> set (rp_equity_curve p). eq_value e = Fin 50000"
    by (auto split: sum.splits BacktestResult.splits)
  have "case execute sample_portfolio_env square_pow sample_request of Inl _ \<Rightarrow> False | Inr _ \<Rightarrow> True" by code_simp
  then obtain res where res: "execute sample_portfolio_env square_pow sample_request = Inr res" by (auto split: sum.splits)
  have failed: "run_asset sample_portfolio_env sample_request (Fin 2) (sample_asset ''A'' ''missing'') no_assets =
      Inr (add_error ''Strategy not found: missing'' no_assets)"
    by (simp add: run_asset_def sample_portfolio_env_def sample_asset_def)
  have "po_total_return res = Fin (- 1 / 2) \<and> po_error res = [] \<and>
      (\<forall>q \<in> set (po_equity_curve res). pp_value q = Fin (of_int 50000))"
    by (rule failed_asset_loses_its_share [OF _ _ _ _ _ _ failed _ _ _ _ _ _ p(2) _ res, where b = "sample_asset ''B'' ''idle''"
          and st = "(idle_strategy, ())" and f = sample_frame and k = 50000])
      (use p in \<open>simp_all add: sample_request_def sample_asset_def sample_portfolio_env_def no_assets_def add_error_def sample_frame_def\<close>)
  then show ?thesis using res by blast
qed

end
