(* ===== verification/ResultAccess.thy ===== *)
theory ResultAccess
  imports BacktestRunner ParseHelpers "HOL-Library.AList" "HOL-Library.Char_ord" "HOL-Library.List_Lexorder"
begin

text \<open>
  Access to stored backtest results: \<open>backtest_result_projection.py\<close>, the use cases \<open>get_backtest_trades.py\<close>,
  \<open>get_backtest_equity.py\<close> and \<open>get_backtest_summary.py\<close>, and the store \<open>in_memory_backtest_result_store.py\<close>.

    - A result is the dict the engine answers with; trades and points of the equity curve are dicts.  A section that is
      no list of dicts raises.
    - Sorting is a stable insertion sort, which is what \<open>sorted\<close> computes when no key is NaN.
    - The identifier and the time of a new record are arguments.  The repository of SQLAlchemy is the record
      \<open>result_repo\<close> of its functions on a database of any type.
\<close>

section \<open>Sections of a result\<close>

type_synonym item = "(string \<times> pyval) list"

fun item_of :: "pyval \<Rightarrow> item result" where
  "item_of (PDict kvs) = Inr kvs"
| "item_of _ = raise AttributeError"

definition section_of :: "item \<Rightarrow> string \<Rightarrow> item list result" where
  "section_of r k = (case get_key r k (PList []) of PList xs \<Rightarrow> emap item_of xs | _ \<Rightarrow> raise TypeError)"

fun py_len :: "pyval \<Rightarrow> int result" where
  "py_len (PList xs) = Inr (int (length xs))"
| "py_len (PDict kvs) = Inr (int (length kvs))"
| "py_len (PStr s) = Inr (int (length s))"
| "py_len _ = raise TypeError"

fun py_iter :: "pyval \<Rightarrow> pyval list result" where
  "py_iter (PList xs) = Inr xs"
| "py_iter (PDict kvs) = Inr (map (\<lambda>kv. PStr (fst kv)) kvs)"
| "py_iter (PStr s) = Inr (map (\<lambda>c. PStr [c]) s)"
| "py_iter _ = raise TypeError"

text \<open>\<open>sorted\<close>: \<open>before a b\<close> says that the key of \<open>a\<close> is strictly first.\<close>

fun insert_by :: "('a \<Rightarrow> 'a \<Rightarrow> bool) \<Rightarrow> 'a \<Rightarrow> 'a list \<Rightarrow> 'a list" where
  "insert_by before x [] = [x]"
| "insert_by before x (y # ys) = (if before y x then y # insert_by before x ys else x # y # ys)"

definition sort_by :: "('a \<Rightarrow> 'a \<Rightarrow> bool) \<Rightarrow> 'a list \<Rightarrow> 'a list" where
  "sort_by before xs = foldr (insert_by before) xs []"

definition last_items :: "nat \<Rightarrow> 'a list \<Rightarrow> 'a list" where
  "last_items n xs = drop (length xs - n) xs"

section \<open>Summaries\<close>

definition SUMMARY_FIELDS :: "string list" where
  "SUMMARY_FIELDS = [''strategy_name'', ''symbol'', ''interval'', ''start_date'', ''end_date'', ''bar_count'',
     ''initial_cash'', ''final_value'', ''total_return'', ''annualized_return'', ''annualization_factor'',
     ''annualization_warning'', ''total_trades'', ''winning_trades'', ''losing_trades'', ''win_rate'', ''max_drawdown'',
     ''sharpe_ratio'', ''sortino_ratio'', ''profit_factor'', ''calmar_ratio'', ''total_commission'', ''total_borrow_cost'',
     ''total_fees'', ''total_slippage'', ''realized_pnl'', ''cash'', ''ending_position_size'', ''reconciliation_error'',
     ''commission_pct'', ''slippage_pct'', ''position_sizing'', ''warmup_bars'', ''first_tradable'', ''enrichment_mode'',
     ''live_parity_safe'', ''parity_warnings'', ''error'']"

definition pnl_of :: "item \<Rightarrow> flt result" where
  "pnl_of t = py_float (py_or (get_key t ''net_pnl'' (get_key t ''pnl'' (PFloat 0))) (PFloat 0))"

definition duration_of :: "item \<Rightarrow> int result" where
  "duration_of t = py_int (py_or (get_key t ''duration_bars'' (PInt 0)) (PInt 0))"

text \<open>The true division of two integers rounds once.\<close>

definition int_quotient :: "int \<Rightarrow> int \<Rightarrow> flt result" where
  "int_quotient a b =
     (if b = 0 then raise ZeroDivisionError
      else case flr (of_int a / of_int b) of Fin q \<Rightarrow> Inr (Fin q) | _ \<Rightarrow> raise OverflowError)"

definition sample_of :: "item list \<Rightarrow> pyval" where
  "sample_of ts = PList (map PDict ts)"

definition trade_summary :: "item list \<Rightarrow> item result" where
  "trade_summary ts =
     (if ts = []
      then Inr [(''count'', PInt 0), (''avg_pnl'', PFloat 0), (''avg_duration_bars'', PFloat 0),
                (''top_winners'', PList []), (''top_losers'', PList [])]
      else
        ebind (emap pnl_of ts) (\<lambda>pnls.
        ebind (emap duration_of ts) (\<lambda>durations.
        ebind (div_len (py_sum pnls) (int (length pnls))) (\<lambda>avg.
        ebind (int_quotient (sum_list durations) (int (length durations))) (\<lambda>dur.
          let ranked = map snd (sort_by (\<lambda>a b. fst a < fst b) (zip pnls ts))
          in Inr [(''count'', PInt (int (length ts))), (''avg_pnl'', PFloat (py_round 4 avg)),
                  (''avg_duration_bars'', PFloat (py_round 2 dur)),
                  (''top_winners'', sample_of (rev (last_items 5 ranked))),
                  (''top_losers'', sample_of (take 5 ranked))])))))"

definition summary_from_result :: "item \<Rightarrow> item result" where
  "summary_from_result r =
     ebind (py_len (get_key r ''diagnostics'' (PList []))) (\<lambda>nd.
     ebind (section_of r ''trades'') (\<lambda>ts.
     ebind (trade_summary ts) (\<lambda>ts.
       Inr (map (\<lambda>f. (f, get_key r f PNone)) (filter (\<lambda>f. map_of r f \<noteq> None) SUMMARY_FIELDS)
            @ [(''trust_diagnostics'', get_key r ''trust_diagnostics'' (PDict [])), (''diagnostic_count'', PInt nd),
               (''analytics_available'', PBool (truthy (get_key r ''analytics'' PNone))), (''trade_summary'', PDict ts)]))))"

definition analytics_count :: "item \<Rightarrow> int" where
  "analytics_count r = (if truthy (get_key r ''analytics'' PNone) then 1 else 0)"

definition counts_from_result :: "item \<Rightarrow> item result" where
  "counts_from_result r =
     ebind (py_len (get_key r ''trades'' (PList []))) (\<lambda>t.
     ebind (py_len (get_key r ''equity_curve'' (PList []))) (\<lambda>e.
     ebind (py_len (get_key r ''diagnostics'' (PList []))) (\<lambda>d.
       Inr [(''trades'', PInt t), (''equity_points'', PInt e), (''diagnostics'', PInt d),
            (''analytics'', PInt (analytics_count r))])))"

definition access_hint :: "string \<Rightarrow> string \<Rightarrow> string \<Rightarrow> pyval" where
  "access_hint call result_id args = PStr (call @ ''('' @ [CHR 39] @ result_id @ [CHR 39] @ args @ '')'')"

definition quoted :: "string \<Rightarrow> string" where
  "quoted s = [CHR 39] @ s @ [CHR 39]"

definition access_for_result :: "string \<Rightarrow> item" where
  "access_for_result i = [(''summary'', access_hint ''get_backtest_summary'' i ''''),
     (''trades'', access_hint ''get_backtest_trades'' i '', page=0, page_size=50''),
     (''equity'', access_hint ''get_backtest_equity'' i ('', mode='' @ quoted ''daily'')),
     (''full'', access_hint ''get_backtest_summary'' i ('', detail_level='' @ quoted ''full''))]"

definition warnings_from_result :: "item \<Rightarrow> pyval list result" where
  "warnings_from_result r =
     ebind (py_iter (get_key r ''parity_warnings'' (PList []))) (\<lambda>ws.
       let w = get_key r ''annualization_warning'' PNone
       in Inr ((if truthy w then [PStr (py_str w)] else []) @ map (\<lambda>x. PStr (py_str x)) ws
               @ (if truthy (get_key r ''diagnostics'' PNone)
                  then [PStr ''Execution diagnostics are available in the full result.''] else [])))"

definition normalize_detail_level :: "string \<Rightarrow> string" where
  "normalize_detail_level level =
     (let v = (if level = [] then ''summary'' else str_strip (py_lower level))
      in if v \<in> {''summary'', ''sample'', ''full''} then v else ''summary'')"

definition sample_payload :: "item \<Rightarrow> item result" where
  "sample_payload r =
     ebind (section_of r ''trades'') (\<lambda>ts.
     ebind (section_of r ''equity_curve'') (\<lambda>eq.
       Inr [(''samples'', PDict [(''first_trades'', sample_of (take 5 ts)), (''last_trades'', sample_of (last_items 5 ts)),
                                 (''first_equity_points'', sample_of (take 5 eq)), (''last_equity_points'', sample_of (last_items 5 eq))]),
            (''returned'', PDict [(''trades'', PInt (int (min (length ts) 10))), (''equity_points'', PInt (int (min (length eq) 10))),
                                  (''analytics'', PInt 0)])]))"

definition update_all :: "item \<Rightarrow> item \<Rightarrow> item" where
  "update_all kvs d = fold (\<lambda>(k, v). AList.update k v) kvs d"

definition compact_backtest_response :: "string \<Rightarrow> item \<Rightarrow> string \<Rightarrow> item result" where
  "compact_backtest_response i r level =
     (let normalized = normalize_detail_level level; err = get_key r ''error'' PNone
      in ebind (summary_from_result r) (\<lambda>summary.
         ebind (counts_from_result r) (\<lambda>counts.
         ebind (warnings_from_result r) (\<lambda>warnings.
         let payload = [(''status'', PStr (if truthy err then ''failed'' else ''completed'')), (''summary'', PDict summary),
               (''ids'', PDict [(''result_id'', PStr i)]), (''counts'', PDict counts),
               (''returned'', PDict [(''trades'', PInt 0), (''equity_points'', PInt 0), (''analytics'', PInt 0)]),
               (''access'', PDict (access_for_result i)), (''warnings'', PList warnings), (''error'', err)]
         in ebind (if normalized = ''summary'' then Inr payload
                   else ebind (sample_payload r) (\<lambda>s. Inr (update_all s payload))) (\<lambda>p1.
            if normalized = ''full''
            then Inr (update_all [(''result'', PDict r),
                   (''returned'', PDict (map (\<lambda>k. (k, get_key counts k PNone)) [''trades'', ''equity_points'', ''analytics'']))] p1)
            else Inr p1)))))"

section \<open>Pages\<close>

definition page_items :: "'a list \<Rightarrow> int \<Rightarrow> int \<Rightarrow> 'a list \<times> int \<times> int \<times> int \<times> int" where
  "page_items xs page0 size0 =
     (let n = int (length xs); page_size = max 1 (min size0 1000);
          total_pages = (if n \<noteq> 0 then (n + page_size - 1) div page_size else 0);
          page = (if total_pages \<noteq> 0 then max 0 (min page0 (total_pages - 1)) else 0);
          start = page * page_size; stop = min (start + page_size) n
      in (take (nat (stop - start)) (drop (nat start) xs), page, page_size, total_pages, n))"

datatype trade_key = NumberKey flt | TextKey string | NoKey

fun sort_value :: "pyval \<Rightarrow> trade_key" where
  "sort_value PNone = NoKey"
| "sort_value (PBool b) = NumberKey (if b then 1 else 0)"
| "sort_value (PInt i) = NumberKey (Fin (of_int i))"
| "sort_value (PFloat x) = NumberKey x"
| "sort_value (PStr s) = TextKey s"
| "sort_value v = TextKey (py_str v)"

fun key_before :: "trade_key \<Rightarrow> trade_key \<Rightarrow> bool" where
  "key_before NoKey _ = False"
| "key_before _ NoKey = True"
| "key_before (NumberKey a) (NumberKey b) = (a < b)"
| "key_before (TextKey a) (TextKey b) = (a < b)"
| "key_before _ _ = False"

definition mixed_keys :: "trade_key list \<Rightarrow> bool" where
  "mixed_keys ks \<longleftrightarrow> (\<exists>k \<in> set ks. case k of NumberKey _ \<Rightarrow> True | _ \<Rightarrow> False) \<and>
                     (\<exists>k \<in> set ks. case k of TextKey _ \<Rightarrow> True | _ \<Rightarrow> False)"

definition SORT_FIELDS :: "string list" where
  "SORT_FIELDS = [''entry_date'', ''exit_date'', ''entry_price'', ''exit_price'', ''pnl'', ''net_pnl'', ''gross_pnl'',
     ''pnl_pct'', ''duration_bars'']"

definition sorted_trades :: "item list \<Rightarrow> string \<Rightarrow> string \<Rightarrow> item list result" where
  "sorted_trades ts sort_field sort_dir =
     (let field = (if sort_field \<in> set SORT_FIELDS then sort_field else ''entry_date'');
          key = (\<lambda>t. sort_value (get_key t field PNone))
      in if mixed_keys (map key ts) then raise TypeError
         else Inr (sort_by (if py_lower sort_dir = ''desc'' then (\<lambda>a b. key_before (key b) (key a))
                            else (\<lambda>a b. key_before (key a) (key b))) ts))"

section \<open>Equity points\<close>

definition date_prefix :: "nat \<Rightarrow> item \<Rightarrow> string" where
  "date_prefix n p = take n (py_str (get_key p ''date'' (PStr '''')))"

definition downsample_by_prefix :: "item list \<Rightarrow> nat \<Rightarrow> item list" where
  "downsample_by_prefix curve n =
     (if n = 0 then curve else map snd (fold (\<lambda>p. AList.update (date_prefix n p) p) curve []))"

definition drawdown_of :: "item \<Rightarrow> flt result" where
  "drawdown_of p = py_float (py_or (get_key p ''drawdown'' (PFloat 0)) (PFloat 0))"

definition keep_worst :: "item \<Rightarrow> (string \<times> item) list \<Rightarrow> (string \<times> item) list result" where
  "keep_worst p worst =
     ebind (drawdown_of p) (\<lambda>d.
       if 0 \<le> d then Inr worst
       else let bucket = date_prefix 10 p
            in case map_of worst bucket of
                 None \<Rightarrow> Inr (AList.update bucket p worst)
               | Some c \<Rightarrow> ebind (drawdown_of c) (\<lambda>dc. Inr (if d < dc then AList.update bucket p worst else worst)))"

definition drawdown_events :: "item list \<Rightarrow> item list result" where
  "drawdown_events curve =
     ebind (efold keep_worst curve []) (\<lambda>worst.
       Inr (map (\<lambda>k. case map_of worst k of Some p \<Rightarrow> p | None \<Rightarrow> []) (sort (map fst worst))))"

definition has_iso_dates :: "item list \<Rightarrow> bool" where
  "has_iso_dates curve \<longleftrightarrow> (case curve of [] \<Rightarrow> True | p # _ \<Rightarrow> 10 \<le> length (py_str (get_key p ''date'' (PStr ''''))))"

definition equity_points :: "item list \<Rightarrow> string \<Rightarrow> item list result" where
  "equity_points curve mode =
     (let m = str_strip (py_lower mode); normalized = (if m = [] then ''daily'' else m)
      in if normalized = ''full'' \<or> normalized = ''page'' then Inr curve
         else if normalized = ''none'' then Inr []
         else if normalized = ''weekly'' then Inr (downsample_by_prefix curve 10)
         else if normalized = ''drawdown_events'' then drawdown_events curve
         else Inr (downsample_by_prefix curve (if has_iso_dates curve then 10 else 0)))"

section \<open>The store\<close>

record stored_record =
  sr_result_id :: string
  sr_created_at :: string
  sr_strategy_name :: string
  sr_symbol :: string
  sr_interval :: string
  sr_start_date :: string
  sr_end_date :: string
  sr_summary :: item
  sr_result :: item

definition text_of :: "item \<Rightarrow> string \<Rightarrow> string" where
  "text_of r k = py_str (get_key r k (PStr ''''))"

definition record_from_result :: "string \<Rightarrow> string \<Rightarrow> item \<Rightarrow> stored_record result" where
  "record_from_result i created r =
     ebind (summary_from_result r) (\<lambda>summary.
       Inr \<lparr>sr_result_id = i, sr_created_at = created, sr_strategy_name = text_of r ''strategy_name'',
            sr_symbol = text_of r ''symbol'', sr_interval = text_of r ''interval'', sr_start_date = text_of r ''start_date'',
            sr_end_date = text_of r ''end_date'', sr_summary = summary, sr_result = r\<rparr>)"

definition public_record :: "stored_record \<Rightarrow> item" where
  "public_record s =
     [(''result_id'', PStr (sr_result_id s)), (''created_at'', PStr (sr_created_at s)),
      (''strategy_name'', PStr (sr_strategy_name s)), (''symbol'', PStr (sr_symbol s)), (''interval'', PStr (sr_interval s)),
      (''start_date'', PStr (sr_start_date s)), (''end_date'', PStr (sr_end_date s)),
      (''bar_count'', get_key (sr_summary s) ''bar_count'' (PInt 0)),
      (''total_trades'', get_key (sr_summary s) ''total_trades'' (PInt 0)),
      (''total_return'', get_key (sr_summary s) ''total_return'' PNone),
      (''sharpe_ratio'', get_key (sr_summary s) ''sharpe_ratio'' PNone),
      (''max_drawdown'', get_key (sr_summary s) ''max_drawdown'' PNone),
      (''win_rate'', get_key (sr_summary s) ''win_rate'' PNone)]"

text \<open>An empty filter counts as no filter.\<close>

definition filter_set :: "string option \<Rightarrow> bool" where
  "filter_set f \<longleftrightarrow> f \<noteq> None \<and> f \<noteq> Some []"

definition record_matches :: "stored_record \<Rightarrow> string option \<Rightarrow> string option \<Rightarrow> bool" where
  "record_matches s symbol strategy_name \<longleftrightarrow>
     (filter_set symbol \<longrightarrow> py_upper (sr_symbol s) = py_upper (the symbol)) \<and>
     (filter_set strategy_name \<longrightarrow> sr_strategy_name s = the strategy_name)"

record 'db result_repo =
  rq_save :: "string \<Rightarrow> item \<Rightarrow> 'db \<Rightarrow> 'db result"
  rq_get :: "string \<Rightarrow> 'db \<Rightarrow> item option result"
  rq_list :: "string option \<Rightarrow> string option \<Rightarrow> int \<Rightarrow> 'db \<Rightarrow> item list result"
  rq_delete :: "string \<Rightarrow> 'db \<Rightarrow> (bool \<times> 'db) result"

record 'db result_store =
  st_max_results :: int
  st_records :: "(string \<times> stored_record) list"
  st_repo :: "'db result_repo option"
  st_db :: 'db

definition new_result_store :: "int \<Rightarrow> 'db result_repo option \<Rightarrow> 'db \<Rightarrow> 'db result_store" where
  "new_result_store max_results repo db = \<lparr>st_max_results = max 1 max_results, st_records = [], st_repo = repo, st_db = db\<rparr>"

definition drop_record :: "stored_record \<Rightarrow> 'db result_store \<Rightarrow> 'db result_store" where
  "drop_record x s =
     (if int (length (st_records s)) \<le> st_max_results s then s
      else s\<lparr>st_records := AList.delete (sr_result_id x) (st_records s)\<rparr>)"

definition enforce_max_results :: "'db result_store \<Rightarrow> 'db result_store" where
  "enforce_max_results s = fold drop_record (sort_key sr_created_at (map snd (st_records s))) s"

text \<open>\<open>save\<close>: an error of the repository is raised after the record is in memory.\<close>

definition remember :: "string \<Rightarrow> string \<Rightarrow> item \<Rightarrow> 'db result_store \<Rightarrow> 'db result_store result" where
  "remember i created r s =
     ebind (record_from_result i created r) (\<lambda>x.
       Inr (enforce_max_results (s\<lparr>st_records := AList.update i x (st_records s)\<rparr>)))"

definition save_result :: "string \<Rightarrow> string \<Rightarrow> item \<Rightarrow> 'db result_store \<Rightarrow> 'db result_store result" where
  "save_result i created r s =
     ebind (remember i created r s) (\<lambda>s1.
       case st_repo s1 of
         None \<Rightarrow> Inr s1
       | Some q \<Rightarrow> ebind (rq_save q i r (st_db s1)) (\<lambda>db. Inr (s1\<lparr>st_db := db\<rparr>)))"

definition get_result :: "string \<Rightarrow> 'db result_store \<Rightarrow> item option result" where
  "get_result i s =
     (case map_of (st_records s) i of
        Some x \<Rightarrow> Inr (Some (sr_result x))
      | None \<Rightarrow> (case st_repo s of None \<Rightarrow> Inr None | Some q \<Rightarrow> rq_get q i (st_db s)))"

definition merge_listing :: "item list \<Rightarrow> item list \<Rightarrow> (pyval \<times> item) list" where
  "merge_listing stored in_memory =
     fold (\<lambda>r. AList.update (get_key r ''result_id'' PNone) r) (stored @ in_memory) []"

definition list_results :: "string option \<Rightarrow> string option \<Rightarrow> int \<Rightarrow> 'db result_store \<Rightarrow> item list result" where
  "list_results symbol strategy_name limit0 s =
     (let limit = max 1 (min limit0 (st_max_results s));
          records = sort_by (\<lambda>a b. sr_created_at b < sr_created_at a) (map snd (st_records s));
          in_memory = map public_record (filter (\<lambda>x. record_matches x symbol strategy_name) records)
      in case st_repo s of
           None \<Rightarrow> Inr (take (nat limit) in_memory)
         | Some q \<Rightarrow> ebind (rq_list q symbol strategy_name limit (st_db s)) (\<lambda>stored.
             Inr (take (nat limit) (map snd (merge_listing stored in_memory)))))"

definition delete_result :: "string \<Rightarrow> 'db result_store \<Rightarrow> (bool \<times> 'db result_store) result" where
  "delete_result i s =
     (let existed = i \<in> set (map fst (st_records s)); s1 = s\<lparr>st_records := AList.delete i (st_records s)\<rparr>
      in case st_repo s1 of
           None \<Rightarrow> Inr (existed, s1)
         | Some q \<Rightarrow> ebind (rq_delete q i (st_db s1)) (\<lambda>(b, db). Inr (b \<or> existed, s1\<lparr>st_db := db\<rparr>)))"

section \<open>The use cases\<close>

record result_page =
  rg_found :: bool
  rg_result_id :: string
  rg_page :: int
  rg_page_size :: int
  rg_total_pages :: int
  rg_total :: int
  rg_count :: int
  rg_items :: "item list"
  rg_error :: "string option"

definition result_missing :: "string \<Rightarrow> result_page" where
  "result_missing i = \<lparr>rg_found = False, rg_result_id = i, rg_page = 0, rg_page_size = 0, rg_total_pages = 0,
     rg_total = 0, rg_count = 0, rg_items = [], rg_error = Some ''Backtest result not found''\<rparr>"

definition result_page_of :: "string \<Rightarrow> item list \<times> int \<times> int \<times> int \<times> int \<Rightarrow> result_page" where
  "result_page_of i p =
     (case p of (xs, page, sz, pages, n) \<Rightarrow>
        \<lparr>rg_found = True, rg_result_id = i, rg_page = page, rg_page_size = sz, rg_total_pages = pages,
         rg_total = n, rg_count = int (length xs), rg_items = xs, rg_error = None\<rparr>)"

definition get_backtest_trades :: "'db result_store \<Rightarrow> string \<Rightarrow> int \<Rightarrow> int \<Rightarrow> string \<Rightarrow> string \<Rightarrow> result_page result" where
  "get_backtest_trades s i page page_size sort_field sort_dir =
     ebind (get_result i s) (\<lambda>found.
     case found of
       None \<Rightarrow> Inr (result_missing i)
     | Some r \<Rightarrow> ebind (section_of r ''trades'') (\<lambda>ts.
         ebind (sorted_trades ts sort_field sort_dir) (\<lambda>xs.
           Inr (result_page_of i (page_items xs page page_size)))))"

definition get_backtest_equity :: "'db result_store \<Rightarrow> string \<Rightarrow> string \<Rightarrow> int \<Rightarrow> int \<Rightarrow> result_page result" where
  "get_backtest_equity s i mode page page_size =
     ebind (get_result i s) (\<lambda>found.
     case found of
       None \<Rightarrow> Inr (result_missing i)
     | Some r \<Rightarrow> ebind (section_of r ''equity_curve'') (\<lambda>curve.
         ebind (equity_points curve mode) (\<lambda>xs.
           Inr (result_page_of i (page_items xs page page_size)))))"

record summary_answer =
  sa_found :: bool
  sa_result_id :: string
  sa_response :: item
  sa_error :: "string option"

definition get_backtest_summary :: "'db result_store \<Rightarrow> string \<Rightarrow> string \<Rightarrow> summary_answer result" where
  "get_backtest_summary s i level =
     ebind (get_result i s) (\<lambda>found.
     case found of
       None \<Rightarrow> Inr \<lparr>sa_found = False, sa_result_id = i, sa_response = [], sa_error = Some ''Backtest result not found''\<rparr>
     | Some r \<Rightarrow> ebind (compact_backtest_response i r level) (\<lambda>x.
         Inr \<lparr>sa_found = True, sa_result_id = i, sa_response = x, sa_error = None\<rparr>))"

end
