(* ===== verification/ResultProperties.thy ===== *)
theory ResultProperties
  imports ResultAccess
begin

text \<open>
  Access to stored results: the pages of a list are the list, a saved result is found again and the store stays small;
  and two access modes that do not do what they are named after: the weekly curve is the daily one, and the drawdown
  events of a backtest are always empty.
\<close>

section \<open>Pages\<close>

lemma concat_chunks: "concat (map (\<lambda>p. take m (drop (p * m) xs)) [0..<q]) = take (q * m) xs"
proof (induction q)
  case (Suc q)
  then show ?case using take_add [of "q * m" m xs] by (simp add: add.commute)
qed simp

definition page_bound :: "int \<Rightarrow> int" where
  "page_bound k = max 1 (min k 1000)"

definition page_total :: "'a list \<Rightarrow> int \<Rightarrow> int" where
  "page_total xs k = (int (length xs) + page_bound k - 1) div page_bound k"

lemma page_bound_pos: "1 \<le> page_bound k" "page_bound k \<le> 1000"
  by (simp_all add: page_bound_def)

lemma page_total_pos: "xs \<noteq> [] \<Longrightarrow> 0 < page_total xs k"
  using page_bound_pos [of k] by (cases xs) (simp_all add: page_total_def pos_imp_zdiv_pos_iff pos_imp_zdiv_nonneg_iff)

lemma page_total_nil: "page_total [] k = 0"
  using page_bound_pos [of k] by (simp add: page_total_def)

lemma page_total_covers: "int (length xs) \<le> page_total xs k * page_bound k"
proof -
  let ?s = "page_bound k" and ?n = "int (length xs)"
  have "?n + ?s - 1 = (?n + ?s - 1) div ?s * ?s + (?n + ?s - 1) mod ?s" by simp
  moreover have "(?n + ?s - 1) mod ?s < ?s" using page_bound_pos [of k] by (intro pos_mod_bound) simp
  ultimately show ?thesis unfolding page_total_def by linarith
qed

text \<open>Every request is answered with one of the pages.\<close>

lemma page_items_clamped:
  "page_items xs page k =
     (let p = max 0 (min page (page_total xs k - 1)) in
      (take (nat (page_bound k)) (drop (nat (p * page_bound k)) xs), p, page_bound k, page_total xs k, int (length xs)))"
proof (cases "xs = []")
  case False
  let ?s = "page_bound k" and ?t = "page_total xs k"
  define p where "p = max 0 (min page (?t - 1))"
  have t: "0 < ?t" using page_total_pos [OF False] .
  have "0 \<le> p * ?s" using page_bound_pos [of k] by (simp add: p_def)
  then have "take (nat (min (p * ?s + ?s) (int (length xs)) - p * ?s)) (drop (nat (p * ?s)) xs) = take (nat ?s) (drop (nat (p * ?s)) xs)"
  proof (cases "p * ?s + ?s \<le> int (length xs)")
    case False
    then have "length (drop (nat (p * ?s)) xs) \<le> nat ?s" using \<open>0 \<le> p * ?s\<close> by simp
    then show ?thesis using False \<open>0 \<le> p * ?s\<close> by (simp add: min_def)
  qed (simp add: min_def)
  moreover have "page_items xs page k =
      (take (nat (min (p * ?s + ?s) (int (length xs)) - p * ?s)) (drop (nat (p * ?s)) xs), p, ?s, ?t, int (length xs))"
    using False t unfolding page_items_def Let_def page_bound_def [symmetric] page_total_def [symmetric] p_def by simp
  ultimately show ?thesis by (simp add: p_def Let_def)
qed (simp add: page_items_def Let_def page_total_nil page_bound_def)

text \<open>
  C37. Pages lose nothing: whatever page size is asked for, the pages of a list, in order, put together are the list;
  the size in use lies between 1 and 1000; and every request, also for a page that does not exist, is answered with
  one of these pages and its number.
\<close>

theorem pages_partition:
  "\<exists>pages sz. concat (map (\<lambda>p. fst (page_items xs (int p) k)) [0..<pages]) = xs \<and> 1 \<le> sz \<and> sz \<le> 1000 \<and>
     (\<forall>page. \<exists>p. snd (page_items xs page k) = (int p, sz, int pages, int (length xs)) \<and>
        fst (page_items xs page k) = fst (page_items xs (int p) k))"
proof -
  let ?s = "page_bound k" and ?t = "page_total xs k"
  have t: "0 \<le> ?t" using page_total_pos [of xs k] by (cases "xs = []") (auto simp: page_total_nil)
  have "fst (page_items xs (int p) k) = take (nat ?s) (drop (p * nat ?s) xs)" if "p < nat ?t" for p
    using that page_bound_pos [of k] by (simp add: page_items_clamped Let_def nat_mult_distrib)
  then have "concat (map (\<lambda>p. fst (page_items xs (int p) k)) [0..<nat ?t]) = concat (map (\<lambda>p. take (nat ?s) (drop (p * nat ?s) xs)) [0..<nat ?t])"
    by (intro arg_cong [of _ _ concat] map_cong) simp_all
  also have "\<dots> = take (nat ?t * nat ?s) xs" by (rule concat_chunks)
  also have "\<dots> = xs"
  proof -
    have "nat (?t * ?s) = nat ?t * nat ?s" using t by (rule nat_mult_distrib)
    then show ?thesis using page_total_covers [of xs k] by simp
  qed
  finally have "concat (map (\<lambda>p. fst (page_items xs (int p) k)) [0..<nat ?t]) = xs" .
  moreover have "snd (page_items xs page k) = (int (nat (max 0 (min page (?t - 1)))), ?s, int (nat ?t), int (length xs)) \<and>
      fst (page_items xs page k) = fst (page_items xs (int (nat (max 0 (min page (?t - 1))))) k)" for page
  proof -
    have "max 0 (min (max 0 (min page (?t - 1))) (?t - 1)) = max 0 (min page (?t - 1))" by simp
    then show ?thesis using t by (simp add: page_items_clamped Let_def)
  qed
  ultimately show ?thesis using page_bound_pos [of k] by blast
qed

section \<open>Equity points\<close>

lemma downsample_distinct:
  assumes "distinct (map (date_prefix n) curve)" "0 < n"
  shows "downsample_by_prefix curve n = curve"
proof -
  have "fold (\<lambda>p. AList.update (date_prefix n p) p) ps acc = acc @ map (\<lambda>p. (date_prefix n p, p)) ps"
    if "distinct (map fst acc @ map (date_prefix n) ps)" for ps acc
    using that
  proof (induction ps arbitrary: acc)
    case (Cons p ps)
    have "date_prefix n p \<notin> fst ` set acc" using Cons.prems by auto
    then have "AList.update (date_prefix n p) p acc = acc @ [(date_prefix n p, p)]" by (induction acc) auto
    then show ?case using Cons.IH [of "acc @ [(date_prefix n p, p)]"] Cons.prems by simp
  qed simp
  from this [of "[]" curve] show ?thesis using assms by (simp add: downsample_by_prefix_def comp_def)
qed

text \<open>
  The weekly equity curve is the daily one: for a curve with ISO dates both modes answer with the last point of
  every day, so the weekly curve of a backtest on daily bars has all its points.
\<close>

theorem weekly_curve_is_daily:
  assumes "has_iso_dates curve"
  shows "equity_points curve ''weekly'' = equity_points curve ''daily'' \<and>
    (distinct (map (date_prefix 10) curve) \<longrightarrow> equity_points curve ''weekly'' = Inr curve)"
proof -
  have w: "str_strip (py_lower ''weekly'') = ''weekly''" "str_strip (py_lower ''daily'') = ''daily''" by code_simp+
  show ?thesis using assms downsample_distinct [of 10 curve] by (simp add: equity_points_def w)
qed

section \<open>Drawdowns\<close>

definition point_item :: "EquityPoint \<Rightarrow> item" where
  "point_item p = [(''date'', PStr (eq_date p)), (''close'', PFloat (eq_close p)), (''value'', PFloat (eq_value p)),
     (''drawdown'', PFloat (eq_drawdown p)), (''position'', PFloat (eq_position p))]"

lemma drawdown_of_point: "drawdown_of (point_item p) = Inr (eq_drawdown p)"
  by (simp add: drawdown_of_def point_item_def get_key_def py_or_def)

lemma liquidate_open_drawdowns:
  assumes "liquidate_open c x d b = Inr b'" "curve_ok b" "p \<in> set (equity_curve (bk_state b'))"
  shows "eq_drawdown p = NaN \<or> 0 \<le> eq_drawdown p"
proof -
  have old: "eq_drawdown q = NaN \<or> 0 \<le> eq_drawdown q" if "q \<in> set (equity_curve (bk_state b))" for q
    using that assms(2) by (auto simp: curve_ok_def list_all_iff point_ok_def)
  show ?thesis
  proof (cases "feq (p_size (position (bk_state b))) 0")
    case True
    then show ?thesis using assms(1,3) old by (simp add: liquidate_open_def)
  next
    case False
    then obtain b1 where e: "exit_position c x d ''end_of_backtest'' b = Inr b1"
      using assms(1) by (auto simp: liquidate_open_def)
    then have same: "equity_curve (bk_state b1) = equity_curve (bk_state b)" "peak_value (bk_state b1) = peak_value (bk_state b)"
      using exit_position_orders [OF e] by (auto simp: same_orders_def)
    show ?thesis
    proof (cases "equity_curve (bk_state b1) = []")
      case True
      then show ?thesis using assms(1,3) False e by (simp add: liquidate_open_def Let_def)
    next
      case ne: False
      let ?s = "bk_state b1"
      let ?v = "portfolio_value ?s x" and ?p = "peak_value ?s"
      let ?p' = "if ?p < ?v then ?v else ?p"
      obtain dd where dd: "if 0 < ?p' then fdiv (?p' - ?v) ?p' = Inr dd else dd = 0"
        and b': "equity_curve (bk_state b') = set_last ((last (equity_curve ?s))\<lparr>eq_value := ?v, eq_position := 0, eq_drawdown := dd\<rparr>) (equity_curve ?s)"
        using assms(1) False e ne by (auto simp: liquidate_open_def Let_def split: if_splits)
      have "?p \<noteq> NaN" using assms(2) same(2) by (simp add: curve_ok_def)
      then have "?v = NaN \<or> ?v \<le> ?p'" using flt_not_less [of ?p ?v] flt_less_not_NaN [of ?p ?v] by auto
      then have "dd = NaN \<or> 0 \<le> dd" using drawdown_nonneg [OF dd] by blast
      then show ?thesis using assms(3) b' old same(1) by (auto simp: set_last_def dest: in_set_butlastD)
    qed
  qed
qed

lemma report_drawdowns:
  assumes "BacktestRunner.run pd fpow frame strategy st initial params = Inr (Report r, st')" "initial \<noteq> NaN"
    "p \<in> set (rp_equity_curve r)"
  shows "eq_drawdown p = NaN \<or> 0 \<le> eq_drawdown p"
  using assms(1)
proof (rule runE)
  fix risk w c b interval first_tradable
  assume l: "run_loop c (ts_on_bar strategy) (fr_rows frame) (ts_reset strategy st) initial risk (nat (max 0 w)) = Inr (b, st')"
    and bd: "build fpow (ts_meta_name strategy st') (bk_state b) initial interval (max 0 w) first_tradable c = Inr r"
  have curve: "rp_equity_curve r = equity_curve (bk_state b)" using bd by (rule buildE)
  show ?thesis using l
  proof (rule run_loopE)
    fix b0 x d
    assume r: "run_bars c (ts_on_bar strategy) risk (nat (max 0 w)) (fr_rows frame) (initial_book c initial, ts_reset strategy st) = Inr (b0, st')"
      and q: "liquidate_open c x d b0 = Inr b"
    have "curve_ok (initial_book c initial)" using assms(2) by (simp add: curve_ok_def initial_book_def new_state_def)
    then have "curve_ok b0" using run_bars_curve_ok [OF r] by simp
    then show ?thesis using liquidate_open_drawdowns [OF q] assms(3) curve by simp
  qed
qed

lemma no_events:
  assumes "\<forall>p \<in> set ps. 0 \<le> eq_drawdown p"
  shows "efold keep_worst (map point_item ps) worst = Inr worst"
  using assms by (induction ps) (simp_all add: keep_worst_def drawdown_of_point)

text \<open>
  C38. The mode for drawdown events answers with no event for every report of the engine: the mode selects points with
  a negative drawdown, and the drawdowns the engine records are fractions below the peak, which are never negative.
\<close>

theorem drawdown_events_hidden:
  assumes "BacktestRunner.run pd fpow frame strategy st initial params = Inr (Report r, st')" "initial \<noteq> NaN"
    "\<forall>p \<in> set (rp_equity_curve r). eq_drawdown p \<noteq> NaN"
  shows "equity_points (map point_item (rp_equity_curve r)) ''drawdown_events'' = Inr []"
proof -
  have "str_strip (py_lower ''drawdown_events'') = ''drawdown_events''" by code_simp
  moreover have "\<forall>p \<in> set (rp_equity_curve r). 0 \<le> eq_drawdown p" using report_drawdowns [OF assms(1,2)] assms(3) by blast
  ultimately show ?thesis by (simp add: equity_points_def drawdown_events_def no_events)
qed

section \<open>The store\<close>

definition records_ok :: "'db result_store \<Rightarrow> bool" where
  "records_ok s \<longleftrightarrow> distinct (map fst (st_records s)) \<and> (\<forall>(i, x) \<in> set (st_records s). sr_result_id x = i) \<and>
     1 \<le> st_max_results s \<and> int (length (st_records s)) \<le> st_max_results s"

lemma insort_last: "f y \<le> f x \<Longrightarrow> insort_key f y (ys @ [x]) = insort_key f y ys @ [x]"
  by (induction ys) auto

lemma sort_last: "\<forall>y \<in> set xs. f y \<le> f x \<Longrightarrow> sort_key f (xs @ [x]) = sort_key f xs @ [x]"
  by (induction xs) (simp_all add: insort_last)

lemma drop_record_full: "int (length (st_records s)) \<le> st_max_results s \<Longrightarrow> fold drop_record xs s = s"
  by (induction xs) (simp_all add: drop_record_def)

lemma length_delete:
  "distinct (map fst kvs) \<Longrightarrow> k \<in> fst ` set kvs \<Longrightarrow> length (AList.delete k kvs) = length kvs - 1"
proof (induction kvs)
  case (Cons kv kvs)
  show ?case
  proof (cases "fst kv = k")
    case True
    then have "k \<notin> fst ` set kvs" using Cons.prems by auto
    then have "AList.delete k kvs = kvs" by (induction kvs) (auto simp: AList.delete_eq)
    then show ?thesis using True by (cases kv) (simp add: AList.delete_eq)
  next
    case False
    then have "length (AList.delete k kvs) = length kvs - 1" "kvs \<noteq> []" using Cons by auto
    then show ?thesis using False by (cases kv) (simp add: AList.delete_eq)
  qed
qed simp

text \<open>One record over the limit: the oldest one goes.\<close>

lemma enforce_one_over:
  assumes "records_ok s" "i \<notin> fst ` set (st_records s)" "\<forall>(j, y) \<in> set (st_records s). sr_created_at y \<le> sr_created_at x"
    "sr_result_id x = i"
  shows "\<exists>old. set old \<subseteq> set (st_records s) \<and> st_records (enforce_max_results (s\<lparr>st_records := st_records s @ [(i, x)]\<rparr>)) = old @ [(i, x)] \<and>
    int (length (old @ [(i, x)])) \<le> st_max_results s \<and> distinct (map fst (old @ [(i, x)])) \<and>
    st_max_results (enforce_max_results (s\<lparr>st_records := st_records s @ [(i, x)]\<rparr>)) = st_max_results s \<and>
    st_repo (enforce_max_results (s\<lparr>st_records := st_records s @ [(i, x)]\<rparr>)) = st_repo s"
proof -
  let ?rs = "st_records s" and ?m = "s\<lparr>st_records := st_records s @ [(i, x)]\<rparr>"
  have sorted: "sort_key sr_created_at (map snd (?rs @ [(i, x)])) = sort_key sr_created_at (map snd ?rs) @ [x]"
  proof -
    have "\<forall>y \<in> set (map snd ?rs). sr_created_at y \<le> sr_created_at x" using assms(3) by auto
    then show ?thesis using sort_last [of "map snd ?rs" sr_created_at x] by simp
  qed
  show ?thesis
  proof (cases "int (length (?rs @ [(i, x)])) \<le> st_max_results s")
    case True
    then have "enforce_max_results ?m = ?m" by (simp add: enforce_max_results_def drop_record_full)
    then show ?thesis using True assms(1,2) by (auto simp: records_ok_def)
  next
    case False
    then have len: "int (length ?rs) = st_max_results s" "?rs \<noteq> []" using assms(1) by (auto simp: records_ok_def)
    have "sort_key sr_created_at (map snd ?rs) \<noteq> []" using len(2) by (metis length_0_conv length_map length_sort)
    then obtain y ys where y: "sort_key sr_created_at (map snd ?rs) = y # ys" by (cases "sort_key sr_created_at (map snd ?rs)") auto
    then have "y \<in> set (map snd ?rs)" by (metis list.set_intros(1) set_sort)
    then have id: "sr_result_id y \<in> fst ` set ?rs" using assms(1) by (force simp: records_ok_def)
    let ?old = "AList.delete (sr_result_id y) ?rs"
    have n: "length ?old = length ?rs - 1" using assms(1) id by (intro length_delete) (auto simp: records_ok_def)
    have "sr_result_id y \<noteq> i" using id assms(2) by auto
    then have "drop_record y ?m = s\<lparr>st_records := ?old @ [(i, x)]\<rparr>" using False by (simp add: drop_record_def AList.delete_eq)
    moreover have "int (length (?old @ [(i, x)])) \<le> st_max_results s" using n len by (cases ?rs) auto
    then have "fold drop_record (ys @ [x]) (s\<lparr>st_records := ?old @ [(i, x)]\<rparr>) = s\<lparr>st_records := ?old @ [(i, x)]\<rparr>"
      by (intro drop_record_full) simp
    ultimately have "enforce_max_results ?m = s\<lparr>st_records := ?old @ [(i, x)]\<rparr>"
      using sorted y by (simp add: enforce_max_results_def)
    moreover have "set ?old \<subseteq> set ?rs" by (auto simp: AList.delete_eq)
    moreover have "distinct (map fst (?old @ [(i, x)]))"
      using assms(1,2) by (auto simp: records_ok_def AList.delete_eq distinct_map_filter)
    ultimately show ?thesis using n len by (intro exI [of _ ?old]) (cases ?rs; simp)
  qed
qed

text \<open>
  C39. Round trip of the store: a result that has been saved under a new identifier is found again as it was saved, the
  store holds at most its maximum of results, and the others it holds are as they were; for results saved in the
  order of their times.
\<close>

theorem saved_result_found:
  assumes "save_result i created r s = Inr s'" "records_ok s" "i \<notin> fst ` set (st_records s)"
    "\<forall>(j, y) \<in> set (st_records s). sr_created_at y \<le> created"
  shows "get_result i s' = Inr (Some r) \<and> records_ok s' \<and> int (length (st_records s')) \<le> st_max_results s \<and>
    (\<forall>j x. j \<noteq> i \<longrightarrow> map_of (st_records s') j = Some x \<longrightarrow> map_of (st_records s) j = Some x)"
proof -
  from assms(1) obtain s1 where s1: "remember i created r s = Inr s1" "st_records s' = st_records s1" "st_max_results s' = st_max_results s1"
    by (auto simp: save_result_def split: option.splits)
  from s1(1) obtain x where x: "record_from_result i created r = Inr x"
    and e: "s1 = enforce_max_results (s\<lparr>st_records := AList.update i x (st_records s)\<rparr>)"
    by (auto simp: remember_def)
  have fields: "sr_result_id x = i" "sr_created_at x = created" "sr_result x = r" using x by (auto simp: record_from_result_def)
  have "AList.update i x kvs = kvs @ [(i, x)]" if "i \<notin> fst ` set kvs" for kvs using that by (induction kvs) auto
  with e assms(3) have s1_eq: "s1 = enforce_max_results (s\<lparr>st_records := st_records s @ [(i, x)]\<rparr>)" by simp
  obtain old where old: "set old \<subseteq> set (st_records s)" "st_records s' = old @ [(i, x)]" "int (length (old @ [(i, x)])) \<le> st_max_results s"
    "distinct (map fst (old @ [(i, x)]))" "st_max_results s' = st_max_results s"
    using enforce_one_over [OF assms(2,3) _ fields(1)] assms(4) fields(2) s1(2,3) unfolding s1_eq by auto
  have "i \<notin> fst ` set old" using old(4) by auto
  then have "map_of old i = None" by (simp add: map_of_eq_None_iff)
  then have "map_of (st_records s') i = Some x" using old(2) by (simp add: map_add_def)
  then have "get_result i s' = Inr (Some r)" using fields(3) by (simp add: get_result_def)
  moreover have "records_ok s'" using assms(2) old fields(1) by (auto simp: records_ok_def)
  moreover have "map_of (st_records s) j = Some y" if "j \<noteq> i" "map_of (st_records s') j = Some y" for j y
    using that old assms(2) by (auto simp: map_add_def records_ok_def split: option.splits dest!: map_of_SomeD intro!: map_of_is_SomeI)
  ultimately show ?thesis using old by simp
qed

end
