(* ===== verification/ResultExamples.thy ===== *)
theory ResultExamples
  imports ResultProperties RunProperties
begin

text \<open>Concrete results: the hypotheses of the properties can hold.\<close>

definition sample_item :: "string \<Rightarrow> item" where
  "sample_item d = [(''date'', PStr d), (''value'', PFloat 1)]"

theorem weekly_curve_is_daily_witness:
  "equity_points [sample_item ''2024-01-01'', sample_item ''2024-01-02'', sample_item ''2024-01-03''] ''weekly'' =
     Inr [sample_item ''2024-01-01'', sample_item ''2024-01-02'', sample_item ''2024-01-03'']"
proof -
  let ?curve = "[sample_item ''2024-01-01'', sample_item ''2024-01-02'', sample_item ''2024-01-03'']"
  have "has_iso_dates ?curve" "distinct (map (date_prefix 10) ?curve)" by code_simp+
  then show ?thesis using weekly_curve_is_daily [of ?curve] by blast
qed

theorem drawdown_events_hidden_witness:
  "\<exists>r. BacktestRunner.run sample_pandas square_pow sample_frame flip_strategy () (Fin 16384) Map.empty = Inr (Report r, ()) \<and>
     equity_points (map point_item (rp_equity_curve r)) ''drawdown_events'' = Inr []"
proof -
  have "case BacktestRunner.run sample_pandas square_pow sample_frame flip_strategy () (Fin 16384) Map.empty of
      Inr (Report r, _) \<Rightarrow> (\<forall>p \<in> set (rp_equity_curve r). eq_drawdown p \<noteq> NaN) | _ \<Rightarrow> False" by code_simp
  then obtain r where r: "BacktestRunner.run sample_pandas square_pow sample_frame flip_strategy () (Fin 16384) Map.empty = Inr (Report r, ())"
    and n: "\<forall>p \<in> set (rp_equity_curve r). eq_drawdown p \<noteq> NaN"
    by (auto split: sum.splits BacktestResult.splits)
  from drawdown_events_hidden [OF r _ n] r show ?thesis by auto
qed

definition sample_outcome :: item where
  "sample_outcome = [(''strategy_name'', PStr ''dip''), (''trades'', PList [PDict [(''net_pnl'', PFloat (Fin 5))]])]"

definition small_store :: "unit result_store" where
  "small_store = (case save_result ''bt_1'' ''2024-01-01'' sample_outcome (new_result_store 1 None ()) of Inr s \<Rightarrow> s)"

theorem saved_result_found_witness:
  "\<exists>s. save_result ''bt_2'' ''2024-01-02'' sample_outcome small_store = Inr s \<and> get_result ''bt_2'' s = Inr (Some sample_outcome) \<and>
     length (st_records s) \<le> 1"
proof -
  have "case save_result ''bt_2'' ''2024-01-02'' sample_outcome small_store of Inr s \<Rightarrow> True | Inl _ \<Rightarrow> False" by code_simp
  then obtain s where s: "save_result ''bt_2'' ''2024-01-02'' sample_outcome small_store = Inr s" by (auto split: sum.splits)
  have ok: "records_ok small_store" "''bt_2'' \<notin> fst ` set (st_records small_store)"
    "\<forall>(j, y) \<in> set (st_records small_store). sr_created_at y \<le> ''2024-01-02''" "st_max_results small_store = 1" by code_simp+
  show ?thesis using saved_result_found [OF s ok(1-3)] s ok(4) by auto
qed

end
