(* ===== verification/JobStores.thy ===== *)
theory JobStores
  imports OptimizationJobs
begin

text \<open>
  The job managers of the service: \<open>fetch_job_manager.py\<close> and \<open>strategy_pipeline_job_manager.py\<close> with their job
  entities, and what all job stores have in common.

    - The fields every job has are the record \<open>job_core\<close>; \<open>FetchJob\<close> and \<open>StrategyPipelineJob\<close> extend it.  The code of
      the two managers is the same but for the type of the job, so their store is one record and its operations are
      functions on any extension of \<open>job_core\<close>.
    - The fresh identifier, the clock and whether a loop of asyncio is running are arguments; \<open>_task\<close> tells whether the
      job has a task that can be cancelled.  A job without a task runs in a thread.
    - The locale \<open>job_dict\<close> states what is needed of a store: that dropping a job deletes it from the dict.  Its lemmas
      are the contract of \<open>cleanup_expired\<close> and \<open>_enforce_max_jobs_locked\<close>.
\<close>

section \<open>Jobs\<close>

record job_core =
  jb_job_id :: string
  jb_status :: string
  jb_error :: "string option"
  jb_created_at :: int

record FetchJob = job_core +
  fj_symbol :: pyval
  fj_source :: pyval
  fj_interval :: pyval
  fj_start_date :: pyval
  fj_end_date :: pyval
  fj_progress_pct :: int
  fj_result :: "string option"
  fj_task :: bool

record StrategyPipelineJob = job_core +
  sj_symbol :: pyval
  sj_source :: pyval
  sj_start_date :: pyval
  sj_end_date :: pyval
  sj_enrichment_mode :: pyval
  sj_progress_pct :: int
  sj_stage :: string
  sj_message :: string
  sj_result :: "metadata option"
  sj_task :: bool

definition param :: "metadata \<Rightarrow> string \<Rightarrow> pyval \<Rightarrow> pyval" where
  "param params k d = (case map_of params k of Some v \<Rightarrow> v | None \<Rightarrow> d)"

definition new_fetch_job :: "string \<Rightarrow> metadata \<Rightarrow> int \<Rightarrow> FetchJob" where
  "new_fetch_job i params now = \<lparr>jb_job_id = i, jb_status = ''queued'', jb_error = None, jb_created_at = now,
     fj_symbol = param params ''symbol'' (PStr ''''), fj_source = param params ''source'' (PStr ''yfinance''),
     fj_interval = param params ''interval'' (PStr ''1d''), fj_start_date = param params ''start_date'' PNone,
     fj_end_date = param params ''end_date'' PNone, fj_progress_pct = 0, fj_result = None, fj_task = False\<rparr>"

definition new_pipeline_job :: "string \<Rightarrow> metadata \<Rightarrow> int \<Rightarrow> StrategyPipelineJob" where
  "new_pipeline_job i params now = \<lparr>jb_job_id = i, jb_status = ''queued'', jb_error = None, jb_created_at = now,
     sj_symbol = param params ''symbol'' (PStr ''''), sj_source = param params ''source'' (PStr ''yfinance''),
     sj_start_date = param params ''start_date'' PNone, sj_end_date = param params ''end_date'' PNone,
     sj_enrichment_mode = param params ''enrichment_mode'' (PStr ''live_parity_streaming''), sj_progress_pct = 0,
     sj_stage = ''queued'', sj_message = '''', sj_result = None, sj_task = False\<rparr>"

definition finished :: "'a job_core_scheme \<Rightarrow> bool" where
  "finished j \<longleftrightarrow> jb_status j \<in> set TERMINAL"

section \<open>A store\<close>

record 'j job_store =
  js_jobs :: "(string \<times> 'j) list"
  js_max_jobs :: nat
  js_ttl :: int

definition new_job_store :: "int \<Rightarrow> int \<Rightarrow> 'j job_store" where
  "new_job_store max_jobs ttl_seconds = \<lparr>js_jobs = [], js_max_jobs = nat (max 1 max_jobs), js_ttl = 1000000 * max 1 ttl_seconds\<rparr>"

definition pop_job :: "string \<Rightarrow> 'j job_store \<Rightarrow> 'j job_store" where
  "pop_job i m = m\<lparr>js_jobs := AList.delete i (js_jobs m)\<rparr>"

definition expired_jobs :: "int \<Rightarrow> 'a job_core_scheme job_store \<Rightarrow> string list" where
  "expired_jobs now m = map fst (filter (\<lambda>(_, j). finished j \<and> jb_created_at j < now - js_ttl m) (js_jobs m))"

definition cleanup_jobs :: "int \<Rightarrow> 'a job_core_scheme job_store \<Rightarrow> 'a job_core_scheme job_store" where
  "cleanup_jobs now m = fold pop_job (expired_jobs now m) m"

definition pop_if_full :: "'a job_core_scheme \<Rightarrow> 'a job_core_scheme job_store \<Rightarrow> 'a job_core_scheme job_store" where
  "pop_if_full j m =
     (if length (js_jobs m) \<le> js_max_jobs m then m else if finished j then pop_job (jb_job_id j) m else m)"

definition enforce_limit :: "'a job_core_scheme job_store \<Rightarrow> 'a job_core_scheme job_store" where
  "enforce_limit m = fold pop_if_full (sort_key jb_created_at (map snd (js_jobs m))) m"

definition add_job :: "'a job_core_scheme \<Rightarrow> 'a job_core_scheme job_store \<Rightarrow> 'a job_core_scheme job_store" where
  "add_job j m = enforce_limit (m\<lparr>js_jobs := AList.update (jb_job_id j) j (js_jobs m)\<rparr>)"

definition start_fetch_job :: "int \<Rightarrow> string \<Rightarrow> bool \<Rightarrow> metadata \<Rightarrow> FetchJob job_store \<Rightarrow> FetchJob job_store" where
  "start_fetch_job now i in_loop params m = add_job ((new_fetch_job i params now)\<lparr>fj_task := in_loop\<rparr>) (cleanup_jobs now m)"

definition start_pipeline_job ::
  "int \<Rightarrow> string \<Rightarrow> bool \<Rightarrow> metadata \<Rightarrow> StrategyPipelineJob job_store \<Rightarrow> StrategyPipelineJob job_store" where
  "start_pipeline_job now i in_loop params m = add_job ((new_pipeline_job i params now)\<lparr>sj_task := in_loop\<rparr>) (cleanup_jobs now m)"

definition find_job :: "string \<Rightarrow> 'j job_store \<Rightarrow> 'j option" where
  "find_job i m = map_of (js_jobs m) i"

text \<open>\<open>update\<close>: the assignments to the attributes of the job are a function on it.\<close>

definition update_stored :: "string \<Rightarrow> ('j \<Rightarrow> 'j) \<Rightarrow> 'j job_store \<Rightarrow> 'j job_store" where
  "update_stored i f m =
     (case find_job i m of None \<Rightarrow> m | Some j \<Rightarrow> m\<lparr>js_jobs := AList.update i (f j) (js_jobs m)\<rparr>)"

text \<open>\<open>cancel\<close>; the flag tells whether a task was cancelled.\<close>

definition cancel_stored :: "('a job_core_scheme \<Rightarrow> bool) \<Rightarrow> string \<Rightarrow> 'a job_core_scheme job_store \<Rightarrow>
    bool \<times> 'a job_core_scheme job_store" where
  "cancel_stored task i m =
     (case find_job i m of
        None \<Rightarrow> (False, m)
      | Some j \<Rightarrow>
          if finished j then (False, m)
          else (task j, update_stored i (\<lambda>j. j\<lparr>jb_status := ''cancelled'', jb_error := Some ''Cancelled by user''\<rparr>) m))"

definition cancel_fetch_job :: "string \<Rightarrow> FetchJob job_store \<Rightarrow> bool \<times> FetchJob job_store" where
  "cancel_fetch_job = cancel_stored fj_task"

definition cancel_pipeline_job :: "string \<Rightarrow> StrategyPipelineJob job_store \<Rightarrow> bool \<times> StrategyPipelineJob job_store" where
  "cancel_pipeline_job = cancel_stored sj_task"

text \<open>\<open>clear\<close>: the identifiers of the jobs whose tasks are cancelled, for tasks that are not done.\<close>

definition clear_fetch_jobs :: "(string \<Rightarrow> bool) \<Rightarrow> FetchJob job_store \<Rightarrow> string list \<times> FetchJob job_store" where
  "clear_fetch_jobs done_task m =
     (map fst (filter (\<lambda>(i, j). fj_task j \<and> \<not> done_task i) (js_jobs m)), m\<lparr>js_jobs := []\<rparr>)"

section \<open>The contract of a store\<close>

definition keyed :: "('j \<Rightarrow> string) \<Rightarrow> (string \<times> 'j) list \<Rightarrow> bool" where
  "keyed ident kvs \<longleftrightarrow> distinct (map fst kvs) \<and> (\<forall>(i, j) \<in> set kvs. ident j = i)"

text \<open>A pass that keeps the jobs that are not finished and changes none.\<close>

definition drops_only :: "('j \<Rightarrow> bool) \<Rightarrow> (string \<times> 'j) list \<Rightarrow> (string \<times> 'j) list \<Rightarrow> bool" where
  "drops_only fin kvs kvs' \<longleftrightarrow>
     set kvs' \<subseteq> set kvs \<and> filter (\<lambda>(_, j). \<not> fin j) kvs' = filter (\<lambda>(_, j). \<not> fin j) kvs \<and> distinct (map fst kvs')"

lemma drops_only_refl: "distinct (map fst kvs) \<Longrightarrow> drops_only fin kvs kvs"
  by (simp add: drops_only_def)

lemma drops_only_trans: "drops_only fin a b \<Longrightarrow> drops_only fin b c \<Longrightarrow> drops_only fin a c"
  by (auto simp: drops_only_def)

lemma drops_only_delete:
  assumes "distinct (map fst kvs)" "\<And>j. (i, j) \<in> set kvs \<Longrightarrow> fin j"
  shows "drops_only fin kvs (AList.delete i kvs)"
  using assms by (auto simp: drops_only_def AList.delete_eq distinct_map_filter intro!: filter_cong)

text \<open>One step of \<open>_enforce_max_jobs_locked\<close>.\<close>

definition evict :: "('m \<Rightarrow> (string \<times> 'j) list) \<Rightarrow> ('m \<Rightarrow> nat) \<Rightarrow> ('j \<Rightarrow> bool) \<Rightarrow> ('j \<Rightarrow> string) \<Rightarrow> (string \<Rightarrow> 'm \<Rightarrow> 'm) \<Rightarrow>
    'j \<Rightarrow> 'm \<Rightarrow> 'm" where
  "evict jobs bound fin ident pop j m =
     (if length (jobs m) \<le> bound m then m else if fin j then pop (ident j) m else m)"

lemma drops_only_keyed: "drops_only fin kvs kvs' \<Longrightarrow> keyed ident kvs \<Longrightarrow> keyed ident kvs'"
  by (auto simp: keyed_def drops_only_def)

locale job_dict =
  fixes jobs :: "'m \<Rightarrow> (string \<times> 'j) list" and bound :: "'m \<Rightarrow> nat" and fin :: "'j \<Rightarrow> bool"
    and ident :: "'j \<Rightarrow> string" and pop :: "string \<Rightarrow> 'm \<Rightarrow> 'm"
  assumes jobs_pop: "jobs (pop i m) = AList.delete i (jobs m)" and bound_pop: "bound (pop i m) = bound m"
begin

lemma pop_expired:
  assumes "keyed ident (jobs m)" "\<And>i j. i \<in> set xs \<Longrightarrow> (i, j) \<in> set (jobs m) \<Longrightarrow> fin j"
  shows "drops_only fin (jobs m) (jobs (fold pop xs m)) \<and> keyed ident (jobs (fold pop xs m)) \<and> bound (fold pop xs m) = bound m"
  using assms
proof (induction xs arbitrary: m)
  case Nil
  then show ?case by (simp add: drops_only_refl keyed_def)
next
  case (Cons x xs)
  have d: "drops_only fin (jobs m) (jobs (pop x m))"
    unfolding jobs_pop by (rule drops_only_delete) (use Cons.prems in \<open>auto simp: keyed_def\<close>)
  then have k: "keyed ident (jobs (pop x m))" using Cons.prems(1) by (auto simp: keyed_def drops_only_def)
  have "fin j" if "i \<in> set xs" "(i, j) \<in> set (jobs (pop x m))" for i j
    using Cons.prems(2) [of i j] that d by (auto simp: drops_only_def)
  then show ?case using Cons.IH [OF k] drops_only_trans [OF d] bound_pop by simp
qed

lemma evict_step:
  assumes "keyed ident (jobs m)" "\<forall>j'. (ident j, j') \<in> set (jobs m) \<longrightarrow> j' = j"
  shows "drops_only fin (jobs m) (jobs (evict jobs bound fin ident pop j m))"
    "bound (evict jobs bound fin ident pop j m) = bound m"
    "\<not> length (jobs m) \<le> bound m \<Longrightarrow> fin j \<Longrightarrow> ident j \<notin> fst ` set (jobs (evict jobs bound fin ident pop j m))"
proof -
  have "distinct (map fst (jobs m))" using assms(1) by (simp add: keyed_def)
  moreover from this have "drops_only fin (jobs m) (AList.delete (ident j) (jobs m))" if "fin j"
    by (rule drops_only_delete) (use assms(2) that in auto)
  ultimately show "drops_only fin (jobs m) (jobs (evict jobs bound fin ident pop j m))"
    by (simp add: evict_def jobs_pop drops_only_refl)
qed (auto simp: evict_def bound_pop jobs_pop AList.delete_eq)

text \<open>The pass over the jobs that enforces the limit ends below it, or with jobs only that are not finished.\<close>

lemma evict_pass:
  assumes "keyed ident (jobs m)" "\<forall>j \<in> set js. \<forall>j'. (ident j, j') \<in> set (jobs m) \<longrightarrow> j' = j"
    and "m' = fold (evict jobs bound fin ident pop) js m"
  shows "drops_only fin (jobs m) (jobs m')" "bound m' = bound m"
    "length (jobs m') \<le> bound m \<or> (\<forall>j \<in> set js. fin j \<longrightarrow> ident j \<notin> fst ` set (jobs m'))"
proof -
  have "drops_only fin (jobs m) (jobs m') \<and> bound m' = bound m \<and>
    (length (jobs m') \<le> bound m \<or> (\<forall>j \<in> set js. fin j \<longrightarrow> ident j \<notin> fst ` set (jobs m')))"
    using assms
  proof (induction js arbitrary: m)
    case Nil
    then show ?case by (simp add: drops_only_refl keyed_def)
  next
    case (Cons j js)
    let ?m = "evict jobs bound fin ident pop j m"
    have uniq: "\<forall>j'. (ident j, j') \<in> set (jobs m) \<longrightarrow> j' = j" using Cons.prems(2) by simp
    note step = evict_step [OF Cons.prems(1) uniq]
    have sub: "set (jobs ?m) \<subseteq> set (jobs m)" using step(1) by (simp add: drops_only_def)
    have "\<forall>j \<in> set js. \<forall>j'. (ident j, j') \<in> set (jobs ?m) \<longrightarrow> j' = j" using Cons.prems(2) sub by (simp add: subset_iff)
    moreover have m': "m' = fold (evict jobs bound fin ident pop) js ?m" using Cons.prems(3) by simp
    ultimately have IH: "drops_only fin (jobs ?m) (jobs m')" "bound m' = bound ?m"
      "length (jobs m') \<le> bound ?m \<or> (\<forall>j \<in> set js. fin j \<longrightarrow> ident j \<notin> fst ` set (jobs m'))"
      using Cons.IH [OF drops_only_keyed [OF step(1) Cons.prems(1)]] by blast+
    have sub': "set (jobs m') \<subseteq> set (jobs ?m)" using IH(1) by (simp add: drops_only_def)
    have "length (jobs m') \<le> bound m \<or> (fin j \<longrightarrow> ident j \<notin> fst ` set (jobs m'))"
    proof (cases "length (jobs m) \<le> bound m")
      case True
      have "fold (evict jobs bound fin ident pop) js m = m" using True by (induction js) (simp_all add: evict_def)
      then show ?thesis using True m' by (simp add: evict_def)
    next
      case False
      then show ?thesis using step(3) sub' by blast
    qed
    then show ?case using drops_only_trans [OF step(1) IH(1)] IH(2,3) step(2) by auto
  qed
  then show "drops_only fin (jobs m) (jobs m')" "bound m' = bound m"
    "length (jobs m') \<le> bound m \<or> (\<forall>j \<in> set js. fin j \<longrightarrow> ident j \<notin> fst ` set (jobs m'))" by blast+
qed

text \<open>Adding a job under a new identifier and enforcing the limit.\<close>

lemma evict_all:
  assumes "keyed ident (jobs m)" "set js = snd ` set (jobs m)" "m' = fold (evict jobs bound fin ident pop) js m"
  shows "drops_only fin (jobs m) (jobs m')" "bound m' = bound m" "keyed ident (jobs m')"
    "length (jobs m') \<le> bound m \<or> (\<forall>(i, j) \<in> set (jobs m'). \<not> fin j)"
proof -
  have "\<forall>j \<in> set js. \<forall>j'. (ident j, j') \<in> set (jobs m) \<longrightarrow> j' = j"
    using assms(1,2) by (auto simp: keyed_def dest: eq_key_imp_eq_value)
  note pass = evict_pass [OF assms(1) this assms(3)]
  then show "drops_only fin (jobs m) (jobs m')" "bound m' = bound m" by blast+
  then show k: "keyed ident (jobs m')" using drops_only_keyed assms(1) by blast
  have "\<not> fin j" if "(i, j) \<in> set (jobs m')" "\<forall>j \<in> set js. fin j \<longrightarrow> ident j \<notin> fst ` set (jobs m')" for i j
  proof -
    have m: "(i, j) \<in> set (jobs m)" using that(1) pass(1) by (auto simp: drops_only_def)
    then have "snd (i, j) \<in> set js" unfolding assms(2) by (rule imageI)
    moreover have "ident j = i" using m assms(1) by (auto simp: keyed_def)
    moreover have "fst (i, j) \<in> fst ` set (jobs m')" using that(1) by (rule imageI)
    ultimately show ?thesis using that(2) by auto
  qed
  then show "length (jobs m') \<le> bound m \<or> (\<forall>(i, j) \<in> set (jobs m'). \<not> fin j)" using pass(3) by blast
qed

end

interpretation stored: job_dict js_jobs js_max_jobs finished jb_job_id pop_job
  by unfold_locales (simp_all add: pop_job_def)

interpretation optimization: job_dict jm_jobs jm_max_jobs terminal oj_job_id drop_job
  by unfold_locales (simp_all add: drop_job_def)

end
