(* ===== verification/IndicatorJobs.thy ===== *)
theory IndicatorJobs
  imports JobStores ResultAccess
begin

text \<open>
  Indicator jobs and their artifacts: \<open>indicator_job.py\<close>, \<open>in_memory_indicator_job_manager.py\<close> and the use case
  \<open>get_indicator_job_results.py\<close>.

    - A job is named by its identifier, in the dicts of the manager and wherever the code holds the object; an update
      of a job that is no longer in the dict cannot be seen through the manager.
    - A cached frame is of any type; \<open>pickle\<close> keeps its value.  Bars are dicts.
    - The repository of SQLAlchemy is the record \<open>artifact_repo\<close> of its functions on a database of any type; the text of
      a creation time is an argument.
    - The parameters of a request that the job copies are texts or absent.
    - The semaphore only delays the start of a runner and is left out.
\<close>

section \<open>The job\<close>

record IndicatorJob = job_core +
  ij_symbol :: string
  ij_source :: string
  ij_interval :: string
  ij_mode :: string
  ij_timeframe_alias :: string
  ij_start_date :: "string option"
  ij_end_date :: "string option"
  ij_progress_pct :: int
  ij_stage :: string
  ij_message :: string
  ij_total_bar_count :: int
  ij_indicators_applied :: "string list"
  ij_features_applied :: "string list"
  ij_failed_indicators :: "(string \<times> string) list"
  ij_metadata :: item

definition text_param :: "item \<Rightarrow> string \<Rightarrow> string \<Rightarrow> string" where
  "text_param params k d = (case map_of params k of Some (PStr s) \<Rightarrow> s | _ \<Rightarrow> d)"

definition opt_param :: "item \<Rightarrow> string \<Rightarrow> string option" where
  "opt_param params k = (case map_of params k of Some (PStr s) \<Rightarrow> Some s | _ \<Rightarrow> None)"

definition new_indicator_job :: "string \<Rightarrow> item \<Rightarrow> int \<Rightarrow> IndicatorJob" where
  "new_indicator_job i params now = \<lparr>jb_job_id = i, jb_status = ''queued'', jb_error = None, jb_created_at = now,
     ij_symbol = text_param params ''symbol'' '''', ij_source = text_param params ''source'' ''yfinance'',
     ij_interval = text_param params ''interval'' ''1d'', ij_mode = text_param params ''mode'' ''selected'',
     ij_timeframe_alias = text_param params ''timeframe_alias'' ''primary'',
     ij_start_date = opt_param params ''start_date'', ij_end_date = opt_param params ''end_date'',
     ij_progress_pct = 0, ij_stage = ''queued'', ij_message = '''', ij_total_bar_count = 0,
     ij_indicators_applied = [], ij_features_applied = [], ij_failed_indicators = [], ij_metadata = params\<rparr>"

datatype indicator_field =
    FStatus string
  | FProgress int
  | FStage string
  | FMessage string
  | FError string
  | FTotal int
  | FIndicators "string list"
  | FFeatures "string list"
  | FFailed "(string \<times> string) list"
  | FMetadata item

fun set_indicator_field :: "indicator_field \<Rightarrow> IndicatorJob \<Rightarrow> IndicatorJob" where
  "set_indicator_field (FStatus s) j = j\<lparr>jb_status := s\<rparr>"
| "set_indicator_field (FProgress n) j = j\<lparr>ij_progress_pct := n\<rparr>"
| "set_indicator_field (FStage s) j = j\<lparr>ij_stage := s\<rparr>"
| "set_indicator_field (FMessage s) j = j\<lparr>ij_message := s\<rparr>"
| "set_indicator_field (FError s) j = j\<lparr>jb_error := Some s\<rparr>"
| "set_indicator_field (FTotal n) j = j\<lparr>ij_total_bar_count := n\<rparr>"
| "set_indicator_field (FIndicators xs) j = j\<lparr>ij_indicators_applied := xs\<rparr>"
| "set_indicator_field (FFeatures xs) j = j\<lparr>ij_features_applied := xs\<rparr>"
| "set_indicator_field (FFailed xs) j = j\<lparr>ij_failed_indicators := xs\<rparr>"
| "set_indicator_field (FMetadata m) j = j\<lparr>ij_metadata := m\<rparr>"

definition update_indicator_job :: "indicator_field list \<Rightarrow> IndicatorJob \<Rightarrow> IndicatorJob" where
  "update_indicator_job u j = fold set_indicator_field u j"

section \<open>Metadata of an artifact\<close>

record bars_meta =
  lm_columns :: "string list"
  lm_start_date :: string
  lm_end_date :: string
  lm_bar_count :: int
  lm_null_counts :: "(string \<times> int) list"

definition timestamp_of :: "item \<Rightarrow> string" where
  "timestamp_of bar = py_str (get_key bar ''timestamp'' (PStr ''''))"

text \<open>One key of one bar: a column is noted when it is new, a null value is counted.\<close>

definition count_null :: "string \<Rightarrow> (string \<times> int) list \<Rightarrow> (string \<times> int) list" where
  "count_null k nulls = AList.update k (get_or (map_of nulls) k 0 + 1) nulls"

definition visit_key :: "item \<Rightarrow> string \<Rightarrow> string list \<times> (string \<times> int) list \<Rightarrow> string list \<times> (string \<times> int) list" where
  "visit_key bar k cn =
     (case cn of (columns, nulls) \<Rightarrow>
        let (columns, nulls) = (if k \<in> set columns then (columns, nulls) else (columns @ [k], AList.update k 0 nulls))
        in (columns, if get_key bar k PNone = PNone then count_null k nulls else nulls))"

definition compute_lightweight_meta :: "item list \<Rightarrow> bars_meta" where
  "compute_lightweight_meta bars =
     (if bars = [] then \<lparr>lm_columns = [], lm_start_date = '''', lm_end_date = '''', lm_bar_count = 0, lm_null_counts = []\<rparr>
      else let (columns, nulls) = fold (\<lambda>bar. fold (visit_key bar) (map fst bar)) bars ([], [])
           in \<lparr>lm_columns = columns, lm_start_date = timestamp_of (hd bars), lm_end_date = timestamp_of (last bars),
               lm_bar_count = int (length bars), lm_null_counts = nulls\<rparr>)"

definition columns_from_bars :: "item list \<Rightarrow> string list" where
  "columns_from_bars bars =
     fold (\<lambda>bar. fold (\<lambda>k columns. if k \<in> set columns then columns else columns @ [k]) (map fst bar)) bars []"

definition date_range :: "item list \<Rightarrow> string \<times> string" where
  "date_range bars = (if bars = [] then ('''', '''') else (timestamp_of (hd bars), timestamp_of (last bars)))"

definition null_counts :: "item list \<Rightarrow> string list \<Rightarrow> (string \<times> int) list" where
  "null_counts bars columns =
     map (\<lambda>c. (c, int (length (filter (\<lambda>bar. get_key bar c PNone = PNone) bars)))) columns"

definition RETENTION_POLICY :: string where
  "RETENTION_POLICY = ''durable_until_deleted''"

definition strings :: "string list \<Rightarrow> pyval" where
  "strings xs = PList (map PStr xs)"

definition count_dict :: "(string \<times> int) list \<Rightarrow> pyval" where
  "count_dict ns = PDict (map (\<lambda>(k, n). (k, PInt n)) ns)"

definition artifact_item :: "(int \<Rightarrow> string) \<Rightarrow> IndicatorJob \<Rightarrow> int \<Rightarrow> string \<Rightarrow> string \<Rightarrow> string list \<Rightarrow> (string \<times> int) list \<Rightarrow> item" where
  "artifact_item show_time j n start_date end_date columns nulls =
     [(''artifact_id'', PStr (jb_job_id j)), (''symbol'', PStr (ij_symbol j)), (''source'', PStr (ij_source j)),
      (''interval'', PStr (ij_interval j)), (''mode'', PStr (ij_mode j)), (''timeframe_alias'', PStr (ij_timeframe_alias j)),
      (''status'', PStr (jb_status j)), (''bar_count'', PInt n), (''start_date'', PStr start_date),
      (''end_date'', PStr end_date), (''columns'', strings columns),
      (''indicators_applied'', strings (ij_indicators_applied j)), (''features_applied'', strings (ij_features_applied j)),
      (''null_counts'', count_dict nulls), (''created_at'', PStr (show_time (jb_created_at j))), (''expires_at'', PNone),
      (''retention_policy'', PStr RETENTION_POLICY)]"

definition metadata_from_cache :: "(int \<Rightarrow> string) \<Rightarrow> IndicatorJob \<Rightarrow> bars_meta \<Rightarrow> bool \<Rightarrow> item" where
  "metadata_from_cache show_time j meta include_null_counts =
     artifact_item show_time j (lm_bar_count meta) (lm_start_date meta) (lm_end_date meta) (lm_columns meta)
       (if include_null_counts then lm_null_counts meta else [])"

definition metadata_from_job :: "(int \<Rightarrow> string) \<Rightarrow> IndicatorJob \<Rightarrow> item list \<Rightarrow> bool \<Rightarrow> item" where
  "metadata_from_job show_time j bars include_null_counts =
     (let columns = columns_from_bars bars; (start_date, end_date) = date_range bars
      in artifact_item show_time j (int (length bars)) start_date end_date columns
           (if include_null_counts then null_counts bars columns else []))"

definition job_matches :: "IndicatorJob \<Rightarrow> string option \<Rightarrow> string option \<Rightarrow> string option \<Rightarrow> bool" where
  "job_matches j symbol source interval \<longleftrightarrow>
     (filter_set symbol \<longrightarrow> ij_symbol j = py_upper (the symbol)) \<and>
     (filter_set source \<longrightarrow> ij_source j = the source) \<and> (filter_set interval \<longrightarrow> ij_interval j = the interval)"

section \<open>Pages of bars\<close>

definition in_range :: "string option \<Rightarrow> string option \<Rightarrow> item \<Rightarrow> bool" where
  "in_range start_date end_date bar \<longleftrightarrow>
     \<not> (filter_set start_date \<and> timestamp_of bar < the start_date) \<and>
     \<not> (filter_set end_date \<and> the end_date < timestamp_of bar)"

definition filter_bars :: "item list \<Rightarrow> string option \<Rightarrow> string option \<Rightarrow> item list" where
  "filter_bars bars start_date end_date = filter (in_range start_date end_date) bars"

definition project_bar :: "item \<Rightarrow> string list \<Rightarrow> item" where
  "project_bar bar columns = fold (\<lambda>c. AList.update c (get_key bar c PNone)) columns []"

record page_state =
  ps_columns :: "string list option"
  ps_projected :: "item list"
  ps_total :: int

definition page_bar :: "string option \<Rightarrow> string option \<Rightarrow> int \<Rightarrow> int \<Rightarrow> item \<Rightarrow> page_state \<Rightarrow> page_state" where
  "page_bar start_date end_date start_idx end_idx bar s =
     (if \<not> in_range start_date end_date bar then s
      else let columns = (case ps_columns s of None \<Rightarrow> map fst bar | Some cs \<Rightarrow> cs)
           in \<lparr>ps_columns = Some columns,
               ps_projected = (if start_idx \<le> ps_total s \<and> ps_total s < end_idx
                               then ps_projected s @ [project_bar bar columns] else ps_projected s),
               ps_total = ps_total s + 1\<rparr>)"

definition page_bars :: "item list \<Rightarrow> string list \<Rightarrow> string option \<Rightarrow> string option \<Rightarrow> int \<Rightarrow> int \<Rightarrow>
    item list \<times> int \<times> int \<times> int \<times> int \<times> string list" where
  "page_bars bars columns start_date end_date page0 size0 =
     (let page_size = max 1 (min size0 1000);
          start_idx = page0 * page_size; end_idx = start_idx + page_size;
          s = fold (page_bar start_date end_date start_idx end_idx) bars
                \<lparr>ps_columns = (if columns = [] then None else Some columns), ps_projected = [], ps_total = 0\<rparr>;
          n = ps_total s;
          total_pages = (if n \<noteq> 0 then (n + page_size - 1) div page_size else 0);
          page = (if total_pages \<noteq> 0 then max 0 (min page0 (total_pages - 1)) else 0)
      in (ps_projected s, page, page_size, total_pages, n, case ps_columns s of None \<Rightarrow> [] | Some cs \<Rightarrow> cs))"

section \<open>The manager\<close>

record 'db artifact_repo =
  ar_save :: "IndicatorJob \<Rightarrow> item list \<Rightarrow> pyval \<Rightarrow> 'db \<Rightarrow> 'db result"
  ar_get_bars :: "string \<Rightarrow> 'db \<Rightarrow> item list option result"
  ar_get_metadata :: "string \<Rightarrow> 'db \<Rightarrow> IndicatorJob option result"
  ar_list_metadata :: "string option \<Rightarrow> string option \<Rightarrow> string option \<Rightarrow> 'db \<Rightarrow> item list result"
  ar_describe :: "string \<Rightarrow> 'db \<Rightarrow> item option result"
  ar_query_bars :: "string \<Rightarrow> string list \<Rightarrow> string option \<Rightarrow> string option \<Rightarrow> int \<Rightarrow> int \<Rightarrow> 'db \<Rightarrow>
    (item list \<times> int \<times> int \<times> int \<times> int \<times> string list) result"
  ar_delete :: "string \<Rightarrow> 'db \<Rightarrow> (bool \<times> 'db) result"
  ar_find_by_hash :: "string \<Rightarrow> 'db \<Rightarrow> string option result"

record ('f, 'db) indicator_manager =
  im_jobs :: "(string \<times> IndicatorJob) list"
  im_tasks :: "string list"
  im_results :: "(string \<times> item list) list"
  im_frames :: "(string \<times> 'f) list"
  im_meta_cache :: "(string \<times> bars_meta) list"
  im_max_jobs :: nat
  im_ttl :: int
  im_repo :: "'db artifact_repo option"
  im_db :: 'db

definition new_indicator_manager :: "int \<Rightarrow> int \<Rightarrow> 'db artifact_repo option \<Rightarrow> 'db \<Rightarrow> ('f, 'db) indicator_manager" where
  "new_indicator_manager max_jobs ttl_seconds repo db = \<lparr>im_jobs = [], im_tasks = [], im_results = [], im_frames = [],
     im_meta_cache = [], im_max_jobs = nat (max 1 max_jobs), im_ttl = 1000000 * max 1 ttl_seconds, im_repo = repo, im_db = db\<rparr>"

text \<open>What \<open>cleanup_expired\<close> removes of a job, and what \<open>_enforce_max_jobs_locked\<close> removes.\<close>

definition forget_job :: "string \<Rightarrow> ('f, 'db) indicator_manager \<Rightarrow> ('f, 'db) indicator_manager" where
  "forget_job i m = m\<lparr>im_jobs := AList.delete i (im_jobs m), im_tasks := removeAll i (im_tasks m),
     im_results := AList.delete i (im_results m), im_frames := AList.delete i (im_frames m),
     im_meta_cache := AList.delete i (im_meta_cache m)\<rparr>"

definition evict_job :: "string \<Rightarrow> ('f, 'db) indicator_manager \<Rightarrow> ('f, 'db) indicator_manager" where
  "evict_job i m = m\<lparr>im_jobs := AList.delete i (im_jobs m), im_tasks := removeAll i (im_tasks m),
     im_results := AList.delete i (im_results m), im_meta_cache := AList.delete i (im_meta_cache m)\<rparr>"

definition expired_indicator_jobs :: "int \<Rightarrow> ('f, 'db) indicator_manager \<Rightarrow> string list" where
  "expired_indicator_jobs now m =
     map fst (filter (\<lambda>(_, j). finished j \<and> jb_created_at j < now - im_ttl m) (im_jobs m))"

definition cleanup_indicator_jobs :: "int \<Rightarrow> ('f, 'db) indicator_manager \<Rightarrow> ('f, 'db) indicator_manager" where
  "cleanup_indicator_jobs now m = fold forget_job (expired_indicator_jobs now m) m"

definition evict_if_full :: "IndicatorJob \<Rightarrow> ('f, 'db) indicator_manager \<Rightarrow> ('f, 'db) indicator_manager" where
  "evict_if_full j m =
     (if length (im_jobs m) \<le> im_max_jobs m then m else if finished j then evict_job (jb_job_id j) m else m)"

definition enforce_max_indicator_jobs :: "('f, 'db) indicator_manager \<Rightarrow> ('f, 'db) indicator_manager" where
  "enforce_max_indicator_jobs m = fold evict_if_full (sort_key jb_created_at (map snd (im_jobs m))) m"

definition start_indicator_job ::
  "int \<Rightarrow> string \<Rightarrow> bool \<Rightarrow> item \<Rightarrow> ('f, 'db) indicator_manager \<Rightarrow> ('f, 'db) indicator_manager" where
  "start_indicator_job now i in_loop params m =
     (let m1 = cleanup_indicator_jobs now m;
          m2 = (if in_loop then m1\<lparr>im_tasks := i # im_tasks m1\<rparr> else m1)
      in enforce_max_indicator_jobs (m2\<lparr>im_jobs := AList.update i (new_indicator_job i params now) (im_jobs m2)\<rparr>))"

definition get_indicator_job :: "string \<Rightarrow> ('f, 'db) indicator_manager \<Rightarrow> IndicatorJob option result" where
  "get_indicator_job i m =
     (case map_of (im_jobs m) i of
        Some j \<Rightarrow> Inr (Some j)
      | None \<Rightarrow> (case im_repo m of None \<Rightarrow> Inr None | Some r \<Rightarrow> ar_get_metadata r i (im_db m)))"

definition change_job :: "string \<Rightarrow> (IndicatorJob \<Rightarrow> IndicatorJob) \<Rightarrow> ('f, 'db) indicator_manager \<Rightarrow> ('f, 'db) indicator_manager" where
  "change_job i f m =
     (case map_of (im_jobs m) i of None \<Rightarrow> m | Some j \<Rightarrow> m\<lparr>im_jobs := AList.update i (f j) (im_jobs m)\<rparr>)"

definition update_indicator :: "string \<Rightarrow> indicator_field list \<Rightarrow> ('f, 'db) indicator_manager \<Rightarrow> ('f, 'db) indicator_manager" where
  "update_indicator i u m = change_job i (update_indicator_job u) m"

text \<open>
  \<open>store_result\<close> is given the object, whose metadata may hold a content hash.  When the repository cannot save, the
  exception leaves the method, and the bars stay in memory.
\<close>

definition store_result :: "IndicatorJob \<Rightarrow> item list \<Rightarrow> ('f, 'db) indicator_manager \<Rightarrow> ('f, 'db) indicator_manager \<times> unit result" where
  "store_result j bars m =
     (let i = jb_job_id j; n = int (length bars);
          m1 = change_job i (\<lambda>j. j\<lparr>ij_total_bar_count := n\<rparr>)
                 (m\<lparr>im_results := AList.update i bars (im_results m),
                    im_meta_cache := AList.update i (compute_lightweight_meta bars) (im_meta_cache m)\<rparr>)
      in case im_repo m of
           None \<Rightarrow> (m1, Inr ())
         | Some r \<Rightarrow> (case ar_save r (j\<lparr>ij_total_bar_count := n\<rparr>) bars (get_key (ij_metadata j) ''content_hash'' (PStr '''')) (im_db m1) of
             Inl e \<Rightarrow> (m1, Inl e)
           | Inr db \<Rightarrow> (m1\<lparr>im_db := db\<rparr>, Inr ())))"

definition store_frame :: "string \<Rightarrow> 'f \<Rightarrow> ('f, 'db) indicator_manager \<Rightarrow> ('f, 'db) indicator_manager" where
  "store_frame i frame m = m\<lparr>im_frames := AList.update i frame (im_frames m)\<rparr>"

definition get_artifact_bars :: "string \<Rightarrow> ('f, 'db) indicator_manager \<Rightarrow> item list option result" where
  "get_artifact_bars i m =
     (case map_of (im_results m) i of
        Some bars \<Rightarrow> Inr (Some bars)
      | None \<Rightarrow> (case im_repo m of None \<Rightarrow> Inr None | Some r \<Rightarrow> ar_get_bars r i (im_db m)))"

definition get_artifact_frame :: "string \<Rightarrow> ('f, 'db) indicator_manager \<Rightarrow> 'f option" where
  "get_artifact_frame i m = map_of (im_frames m) i"

definition list_entry :: "(int \<Rightarrow> string) \<Rightarrow> ('f, 'db) indicator_manager \<Rightarrow> IndicatorJob \<Rightarrow> item option" where
  "list_entry show_time m j =
     (case map_of (im_meta_cache m) (jb_job_id j) of
        Some meta \<Rightarrow> Some (metadata_from_cache show_time j meta False)
      | None \<Rightarrow> map_option (\<lambda>bars. metadata_from_job show_time j bars False) (map_of (im_results m) (jb_job_id j)))"

definition list_artifacts ::
  "(int \<Rightarrow> string) \<Rightarrow> string option \<Rightarrow> string option \<Rightarrow> string option \<Rightarrow> ('f, 'db) indicator_manager \<Rightarrow> item list result" where
  "list_artifacts show_time symbol source interval m =
     (case im_repo m of
        Some r \<Rightarrow> ar_list_metadata r symbol source interval (im_db m)
      | None \<Rightarrow> Inr (List.map_filter (list_entry show_time m)
                      (filter (\<lambda>j. job_matches j symbol source interval) (map snd (im_jobs m)))))"

definition describe_artifact :: "(int \<Rightarrow> string) \<Rightarrow> string \<Rightarrow> ('f, 'db) indicator_manager \<Rightarrow> item option result" where
  "describe_artifact show_time i m =
     (case im_repo m of
        Some r \<Rightarrow> ar_describe r i (im_db m)
      | None \<Rightarrow> ebind (get_indicator_job i m) (\<lambda>found.
          case found of
            None \<Rightarrow> Inr None
          | Some j \<Rightarrow>
              (case map_of (im_meta_cache m) i of
                 Some meta \<Rightarrow> Inr (Some (metadata_from_cache show_time j meta False))
               | None \<Rightarrow> ebind (get_artifact_bars i m) (\<lambda>bars.
                   Inr (map_option (\<lambda>bs. metadata_from_job show_time j bs True) bars)))))"

definition query_artifact_bars :: "string \<Rightarrow> string list \<Rightarrow> string option \<Rightarrow> string option \<Rightarrow> int \<Rightarrow> int \<Rightarrow>
    ('f, 'db) indicator_manager \<Rightarrow> (item list \<times> int \<times> int \<times> int \<times> int \<times> string list) result" where
  "query_artifact_bars i columns start_date end_date page page_size m =
     (case im_repo m of
        Some r \<Rightarrow> ar_query_bars r i columns start_date end_date page page_size (im_db m)
      | None \<Rightarrow> ebind (get_artifact_bars i m) (\<lambda>bars.
          case bars of
            None \<Rightarrow> raise (KeyError i)
          | Some bs \<Rightarrow> Inr (page_bars bs columns start_date end_date page page_size)))"

definition delete_artifact :: "string \<Rightarrow> ('f, 'db) indicator_manager \<Rightarrow> (bool \<times> ('f, 'db) indicator_manager) result" where
  "delete_artifact i m =
     (let existed = i \<in> set (map fst (im_results m)) \<or> i \<in> set (map fst (im_jobs m)); m1 = forget_job i m
      in case im_repo m1 of
           None \<Rightarrow> Inr (existed, m1)
         | Some r \<Rightarrow> ebind (ar_delete r i (im_db m1)) (\<lambda>(b, db). Inr (existed \<or> b, m1\<lparr>im_db := db\<rparr>)))"

definition get_result_page :: "string \<Rightarrow> int \<Rightarrow> int \<Rightarrow> ('f, 'db) indicator_manager \<Rightarrow> (item list \<times> int \<times> int \<times> int) result" where
  "get_result_page i page page_size m =
     (let bars = (case map_of (im_results m) i of Some bs \<Rightarrow> bs | None \<Rightarrow> [])
      in ebind (if bars \<noteq> [] then Inr bars
                else case im_repo m of
                       None \<Rightarrow> Inr []
                     | Some r \<Rightarrow> ebind (ar_get_bars r i (im_db m)) (\<lambda>bs. Inr (case bs of Some xs \<Rightarrow> xs | None \<Rightarrow> []))) (\<lambda>bs.
         case page_bars bs [] None None page page_size of (xs, p, sz, pages, _) \<Rightarrow> Inr (xs, p, sz, pages)))"

definition cancel_fields :: "indicator_field list" where
  "cancel_fields = [FStatus ''cancelled'', FError ''Cancelled by user'']"

text \<open>\<open>cancel\<close> answers with the job whenever there is one; \<open>cancel_all_non_terminal\<close> counts these answers.\<close>

definition cancel_indicator_job :: "string \<Rightarrow> ('f, 'db) indicator_manager \<Rightarrow> bool \<times> ('f, 'db) indicator_manager" where
  "cancel_indicator_job i m =
     (case map_of (im_jobs m) i of
        None \<Rightarrow> (False, m)
      | Some j \<Rightarrow> (True, if finished j then m else update_indicator i cancel_fields m))"

definition cancel_one :: "string \<Rightarrow> int \<times> ('f, 'db) indicator_manager \<Rightarrow> int \<times> ('f, 'db) indicator_manager" where
  "cancel_one i nm = (case cancel_indicator_job i (snd nm) of (found, m) \<Rightarrow> (if found then fst nm + 1 else fst nm, m))"

definition cancel_all_non_terminal :: "('f, 'db) indicator_manager \<Rightarrow> int \<times> ('f, 'db) indicator_manager" where
  "cancel_all_non_terminal m = fold cancel_one (map fst (im_jobs m)) (0, m)"

interpretation indicator_eviction: job_dict im_jobs im_max_jobs finished jb_job_id evict_job
  by unfold_locales (simp_all add: evict_job_def)

interpretation indicator_cleanup: job_dict im_jobs im_max_jobs finished jb_job_id forget_job
  by unfold_locales (simp_all add: forget_job_def)

section \<open>Results of a job\<close>

record job_results =
  jr_found :: bool
  jr_status :: string
  jr_page :: int
  jr_page_size :: int
  jr_total_pages :: int
  jr_total_bar_count :: int
  jr_bars :: "item list"
  jr_error :: "string option"

definition no_job_results :: "bool \<Rightarrow> string \<Rightarrow> string option \<Rightarrow> job_results" where
  "no_job_results found status err = \<lparr>jr_found = found, jr_status = status, jr_page = 0, jr_page_size = 500,
     jr_total_pages = 0, jr_total_bar_count = 0, jr_bars = [], jr_error = err\<rparr>"

definition get_job_results :: "string \<Rightarrow> int \<Rightarrow> int \<Rightarrow> ('f, 'db) indicator_manager \<Rightarrow> job_results result" where
  "get_job_results i page page_size m =
     ebind (get_indicator_job i m) (\<lambda>found.
     case found of
       None \<Rightarrow> Inr (no_job_results False '''' None)
     | Some j \<Rightarrow>
         if jb_status j \<noteq> ''completed''
         then Inr (no_job_results True (jb_status j) (Some (''Job is not complete (status: '' @ jb_status j @ '')'')))
         else ebind (get_result_page i page page_size m) (\<lambda>(bars, p, sz, pages).
              Inr \<lparr>jr_found = True, jr_status = jb_status j, jr_page = p, jr_page_size = sz, jr_total_pages = pages,
                   jr_total_bar_count = ij_total_bar_count j, jr_bars = bars, jr_error = None\<rparr>))"

end
