(* ===== verification/IndicatorRunner.thy ===== *)
theory IndicatorRunner
  imports IndicatorJobs DocumentParser
begin

text \<open>
  The worker of an indicator job: \<open>indicator_job_runner.py\<close>.

    - The worker is the list of what it does to the manager, with its result: the value of \<open>return\<close> or the exception.
      \<open>wbind\<close> runs one part after another; what has been done before an exception stays done.
    - \<open>worker_do\<close> applies one of these actions to the manager; \<open>worker_all\<close> all of them, up to the first that raises.
    - The collaborators are the record \<open>runner_env\<close>: the price cache, the search for an artifact with a hash, the
      artifact bars of the manager, the converter, the calculators, the strategy parser, the derivatives repository
      with its merge, the causal enricher and the hash of a payload.
    - The worker reads the job it was given; only its metadata change while it runs, and only by the worker.
\<close>

section \<open>Actions\<close>

datatype 'f worker_action =
    Update "indicator_field list"
  | SetMeta string pyval
  | StoreFrame 'f
  | StoreResult "item list"

type_synonym ('f, 'a) work = "'f worker_action list \<times> 'a result"

definition wreturn :: "'a \<Rightarrow> ('f, 'a) work" where
  "wreturn x = ([], Inr x)"

definition lift :: "'a result \<Rightarrow> ('f, 'a) work" where
  "lift r = ([], r)"

definition tell :: "'f worker_action \<Rightarrow> ('f, unit) work" where
  "tell a = ([a], Inr ())"

definition wbind :: "('f, 'a) work \<Rightarrow> ('a \<Rightarrow> ('f, 'b) work) \<Rightarrow> ('f, 'b) work" where
  "wbind w f =
     (case w of (as, r) \<Rightarrow>
        case r of Inl e \<Rightarrow> (as, Inl e) | Inr x \<Rightarrow> (case f x of (bs, r') \<Rightarrow> (as @ bs, r')))"

definition mark :: "int \<Rightarrow> string \<Rightarrow> string \<Rightarrow> ('f, unit) work" where
  "mark progress stage message =
     tell (Update [FStatus ''running'', FProgress progress, FStage stage, FMessage message])"

definition fail_job :: "string \<Rightarrow> ('f, unit) work" where
  "fail_job err = tell (Update [FStatus ''failed'', FProgress 100, FStage ''failed'', FError err])"

text \<open>A \<open>try\<close> block whose exception fails the job with a message; then the method returns \<open>None\<close>.\<close>

definition or_fail :: "(py_error \<Rightarrow> string) \<Rightarrow> string \<Rightarrow> 'a result \<Rightarrow> ('f, 'a option) work" where
  "or_fail text lead r =
     (case r of Inr x \<Rightarrow> wreturn (Some x) | Inl e \<Rightarrow> wbind (fail_job (lead @ text e)) (\<lambda>_. wreturn None))"

section \<open>The collaborators\<close>

record PriceBar =
  pb_symbol :: string
  pb_source :: string
  pb_interval :: string
  pb_timestamp :: string
  pb_open :: pyval
  pb_high :: pyval
  pb_low :: pyval
  pb_close :: pyval
  pb_volume :: pyval

definition bar_to_dict :: "PriceBar \<Rightarrow> item" where
  "bar_to_dict b = [(''timestamp'', PStr (pb_timestamp b)), (''open'', pb_open b), (''high'', pb_high b),
     (''low'', pb_low b), (''close'', pb_close b), (''volume'', pb_volume b)]"

record 'f runner_env =
  ie_query_bars :: "string \<Rightarrow> string \<Rightarrow> string \<Rightarrow> string option \<Rightarrow> string option \<Rightarrow> PriceBar list result"
  ie_find_by_hash :: "string \<Rightarrow> string option result"
  ie_artifact_bars :: "string \<Rightarrow> item list option result"
  ie_to_frame :: "item list \<Rightarrow> 'f result"
  ie_from_frame :: "'f \<Rightarrow> item list result"
  ie_calculate :: "'f \<Rightarrow> string list \<Rightarrow> ('f \<times> (string \<times> string) list) result"
  ie_features :: "'f \<Rightarrow> FeatureSpec list \<Rightarrow> 'f result"
  ie_parse :: "pyval \<Rightarrow> pyval \<Rightarrow> StrategyValidationResult result"
  ie_derivatives :: "(string \<Rightarrow> pyval list result) option"
  ie_merge :: "'f \<Rightarrow> pyval list \<Rightarrow> string \<Rightarrow> 'f result"
  ie_causal :: "item list \<Rightarrow> (string \<times> item list) list \<Rightarrow> StrategyDefinition \<Rightarrow> string list \<Rightarrow> (string \<times> string list) list \<Rightarrow>
    string \<Rightarrow> 'f result"
  ie_hash :: "item \<Rightarrow> string result"
  ie_text :: "py_error \<Rightarrow> string"

definition load_cached_bars_for_interval ::
  "'f runner_env \<Rightarrow> string \<Rightarrow> string \<Rightarrow> string \<Rightarrow> string option \<Rightarrow> string option \<Rightarrow> item list result" where
  "load_cached_bars_for_interval env symbol source interval start_date end_date =
     ebind (ie_query_bars env symbol source interval start_date end_date) (\<lambda>bars. Inr (map bar_to_dict bars))"

definition load_cached_bars :: "'f runner_env \<Rightarrow> IndicatorJob \<Rightarrow> item list result" where
  "load_cached_bars env j =
     load_cached_bars_for_interval env (ij_symbol j) (ij_source j) (ij_interval j) (ij_start_date j) (ij_end_date j)"

definition DERIVATIVES_FIELDS :: "string list" where
  "DERIVATIVES_FIELDS = [''open_interest'', ''open_interest_delta_1h'', ''open_interest_delta_24h'',
     ''cumulative_volume_delta'', ''funding_rate'', ''funding_rate_annualised'', ''long_short_ratio'',
     ''liquidations_long_1h'', ''liquidations_short_1h'', ''liquidations_long_24h'', ''liquidations_short_24h'']"

definition wants_derivatives :: "'f runner_env \<Rightarrow> string list \<Rightarrow> bool" where
  "wants_derivatives env indicators \<longleftrightarrow> ie_derivatives env \<noteq> None \<and> (\<exists>n \<in> set indicators. n \<in> set DERIVATIVES_FIELDS)"

section \<open>What to compute\<close>

definition diagnostics_of :: "StrategyValidationResult \<Rightarrow> pyval" where
  "diagnostics_of v = PList (map (\<lambda>e. PDict [(''path'', PStr (ve_path e)), (''message'', PStr (ve_message e)),
     (''code'', PStr (ve_code e))]) (vr_errors v))"

definition indicator_names :: "pyval \<Rightarrow> string list result" where
  "indicator_names v = ebind (py_iter v) (\<lambda>xs. Inr (map py_str xs))"

definition strategy_required_indicators ::
  "'f runner_env \<Rightarrow> IndicatorJob \<Rightarrow> ('f, (string list \<times> StrategyValidationResult option) option) work" where
  "strategy_required_indicators env j =
     (let definition' = get_key (ij_metadata j) ''definition'' PNone
      in if \<not> truthy definition'
         then wbind (fail_job ''definition_json is required for strategy_required mode'') (\<lambda>_. wreturn None)
         else wbind (lift (ie_parse env definition' (get_key (ij_metadata j) ''params'' (PDict [])))) (\<lambda>v.
              if \<not> vr_valid v
              then wbind (tell (Update [FStatus ''failed'', FProgress 100, FStage ''failed'',
                     FError ''Strategy definition is invalid'',
                     FMetadata (AList.update ''validation_errors'' (diagnostics_of v) (ij_metadata j))])) (\<lambda>_. wreturn None)
              else if ij_timeframe_alias j = ''primary'' then wreturn (Some (vr_primary_required_indicators v, Some v))
              else wreturn (Some (get_or (map_of (vr_informative_required_indicators v)) (ij_timeframe_alias j) [], Some v))))"

definition resolve_indicators ::
  "'f runner_env \<Rightarrow> IndicatorJob \<Rightarrow> ('f, (string list \<times> StrategyValidationResult option) option) work" where
  "resolve_indicators env j =
     (if ij_mode j = ''selected''
      then wbind (lift (indicator_names (get_key (ij_metadata j) ''indicators'' (PList [])))) (\<lambda>xs. wreturn (Some (xs, None)))
      else if ij_mode j \<noteq> ''strategy_required''
      then wbind (fail_job (''Unsupported indicator computation '' @ [CHR 39] @ ij_mode j @ [CHR 39])) (\<lambda>_. wreturn None)
      else strategy_required_indicators env j)"

definition opt_text :: "string option \<Rightarrow> pyval" where
  "opt_text t = (case t of None \<Rightarrow> PNone | Some s \<Rightarrow> PStr s)"

definition params_dict :: "pyval \<Rightarrow> item result" where
  "params_dict v = (case v of PDict kvs \<Rightarrow> Inr kvs | _ \<Rightarrow> raise TypeError)"

definition content_payload ::
  "'f runner_env \<Rightarrow> IndicatorJob \<Rightarrow> string list \<Rightarrow> StrategyValidationResult option \<Rightarrow> item result" where
  "content_payload env j indicators validation =
     ebind (params_dict (get_key (ij_metadata j) ''params'' (PDict []))) (\<lambda>params.
       Inr ([(''symbol'', PStr (py_upper (ij_symbol j))), (''source'', PStr (ij_source j)), (''interval'', PStr (ij_interval j)),
             (''mode'', PStr (ij_mode j)), (''indicators'', strings (sort indicators)),
             (''timeframe_alias'', PStr (ij_timeframe_alias j)),
             (''enrichment_mode'', get_key (ij_metadata j) ''enrichment_mode'' (PStr ''batch_full_frame'')),
             (''start_date'', opt_text (ij_start_date j)), (''end_date'', opt_text (ij_end_date j)),
             (''definition'', get_key (ij_metadata j) ''definition'' PNone), (''params'', PDict params),
             (''derivatives_merged'', PBool (wants_derivatives env indicators))]
            @ (case validation of
                 Some v \<Rightarrow> (case vr_definition v of
                    Some df \<Rightarrow> [(''features'', strings (sort (map ft_name (df_features df))))] | None \<Rightarrow> [])
               | None \<Rightarrow> [])))"

definition completed_fields :: "string \<Rightarrow> int \<Rightarrow> indicator_field list" where
  "completed_fields message n =
     [FStatus ''completed'', FProgress 100, FStage ''completed'', FMessage message, FTotal n]"

definition try_reuse_artifact :: "'f runner_env \<Rightarrow> IndicatorJob \<Rightarrow> string \<Rightarrow> ('f, bool) work" where
  "try_reuse_artifact env j content_hash =
     (if content_hash = [] then wreturn False
      else wbind (lift (ie_find_by_hash env content_hash)) (\<lambda>existing.
        case existing of
          None \<Rightarrow> wreturn False
        | Some i \<Rightarrow> wbind (lift (ie_artifact_bars env i)) (\<lambda>found.
            case found of
              None \<Rightarrow> wreturn False
            | Some bars \<Rightarrow>
                if bars = [] then wreturn False
                else wbind (tell (Update (completed_fields ''Reused existing artifact'' (int (length bars))))) (\<lambda>_.
                     wbind (tell (SetMeta ''content_hash'' (PStr content_hash))) (\<lambda>_.
                     wbind (tell (StoreResult bars)) (\<lambda>_. wreturn True))))))"

section \<open>Computing\<close>

definition merge_derivatives_if_needed :: "'f runner_env \<Rightarrow> IndicatorJob \<Rightarrow> 'f \<Rightarrow> string list \<Rightarrow> 'f result" where
  "merge_derivatives_if_needed env j frame indicators =
     (case ie_derivatives env of
        None \<Rightarrow> Inr frame
      | Some find_rows \<Rightarrow>
          if \<not> wants_derivatives env indicators then Inr frame
          else ebind (find_rows (ij_symbol j)) (\<lambda>rows.
               if rows = [] then Inr frame
               else ie_merge env frame rows (if ij_interval j = [] then ''1d'' else ij_interval j)))"

definition calculate_bars :: "'f runner_env \<Rightarrow> IndicatorJob \<Rightarrow> item list \<Rightarrow> string list \<Rightarrow>
    (item list \<times> 'f \<times> (string \<times> string) list) result" where
  "calculate_bars env j bars indicators =
     ebind (ie_to_frame env bars) (\<lambda>frame.
     ebind (merge_derivatives_if_needed env j frame indicators) (\<lambda>frame.
     ebind (ie_calculate env frame indicators) (\<lambda>(enriched, failed).
     ebind (ie_from_frame env enriched) (\<lambda>result'. Inr (result', enriched, failed)))))"

definition apply_indicators :: "'f runner_env \<Rightarrow> IndicatorJob \<Rightarrow> item list \<Rightarrow> string list \<Rightarrow> ('f, (item list \<times> 'f) option) work" where
  "apply_indicators env j bars indicators =
     (if indicators = []
      then wbind (tell (Update [FIndicators []])) (\<lambda>_.
           wbind (lift (ie_to_frame env bars)) (\<lambda>frame. wreturn (Some (bars, frame))))
      else wbind (mark 35 ''calculate_indicators'' (''Calculating '' @ show_int (int (length indicators)) @ '' indicators'')) (\<lambda>_.
           wbind (or_fail (ie_text env) ''Indicator calculation error: '' (calculate_bars env j bars indicators)) (\<lambda>r.
           case r of
             None \<Rightarrow> wreturn None
           | Some (result', enriched, failed) \<Rightarrow>
               wbind (tell (Update [FIndicators indicators])) (\<lambda>_.
               wbind (if failed = [] then wreturn () else tell (Update [FFailed failed])) (\<lambda>_.
                 wreturn (Some (result', enriched)))))))"

definition causal_message :: "item list \<Rightarrow> string" where
  "causal_message bars = ''Causal enrichment complete ('' @ show_int (int (length bars)) @ '' rows)''"

definition finish_causal :: "'f runner_env \<Rightarrow> 'f result \<Rightarrow> ('f, (item list \<times> 'f) option) work" where
  "finish_causal env enriched =
     wbind (or_fail (ie_text env) ''Causal enrichment error: '' enriched) (\<lambda>r.
     case r of
       None \<Rightarrow> wreturn None
     | Some frame \<Rightarrow> wbind (lift (ie_from_frame env frame)) (\<lambda>bars.
         wbind (mark 50 ''causal_enrichment'' (causal_message bars)) (\<lambda>_. wreturn (Some (bars, frame)))))"

fun load_informative :: "'f runner_env \<Rightarrow> IndicatorJob \<Rightarrow> InformativeTimeframe list \<Rightarrow> (string \<times> item list) list \<Rightarrow>
    ('f, (string \<times> item list) list option) work" where
  "load_informative env j [] acc = wreturn (Some acc)"
| "load_informative env j (t # ts) acc =
     wbind (mark 15 ''causal_enrichment'' (''Loading informative bars: '' @ it_alias t @ '' ('' @ it_interval t @ '')'')) (\<lambda>_.
     wbind (lift (load_cached_bars_for_interval env (if it_symbol t = [] then ij_symbol j else it_symbol t) (ij_source j)
                    (it_interval t) (ij_start_date j) (ij_end_date j))) (\<lambda>bars.
       if bars = []
       then wbind (fail_job (''No cached '' @ it_interval t @ '' bars for '' @ it_alias t)) (\<lambda>_. wreturn None)
       else load_informative env j ts (AList.update (it_alias t) bars acc)))"

definition apply_causal_enrichment ::
  "'f runner_env \<Rightarrow> IndicatorJob \<Rightarrow> item list \<Rightarrow> StrategyValidationResult \<Rightarrow> StrategyDefinition \<Rightarrow>
   ('f, (item list \<times> 'f) option) work" where
  "apply_causal_enrichment env j bars v df =
     wbind (mark 10 ''causal_enrichment'' ''Running causal streaming enrichment'') (\<lambda>_.
       if ij_timeframe_alias j \<noteq> ''primary''
       then finish_causal env (ie_causal env bars []
              (df\<lparr>df_timeframes := Some \<lparr>tf_primary = ij_interval j, tf_informative = []\<rparr>\<rparr>)
              (get_or (map_of (vr_informative_required_indicators v)) (ij_timeframe_alias j) []) [] ''crypto_24_7'')
       else wbind (load_informative env j (case df_timeframes df of None \<Rightarrow> [] | Some t \<Rightarrow> tf_informative t) []) (\<lambda>info.
            case info of
              None \<Rightarrow> wreturn None
            | Some info_bars \<Rightarrow>
                wbind (mark 20 ''causal_enrichment'' ''Enriching bars causally'') (\<lambda>_.
                finish_causal env (ie_causal env bars info_bars df (vr_primary_required_indicators v)
                  (vr_informative_required_indicators v) ''crypto_24_7''))))"

definition should_apply_features :: "IndicatorJob \<Rightarrow> StrategyValidationResult option \<Rightarrow> FeatureSpec list option" where
  "should_apply_features j validation =
     (if ij_mode j = ''strategy_required'' \<and> ij_timeframe_alias j = ''primary''
      then (case validation of
              None \<Rightarrow> None
            | Some v \<Rightarrow> (case vr_definition v of
                None \<Rightarrow> None
              | Some df \<Rightarrow> if df_features df = [] then None else Some (df_features df)))
      else None)"

definition apply_features ::
  "'f runner_env \<Rightarrow> IndicatorJob \<Rightarrow> item list \<Rightarrow> StrategyValidationResult option \<Rightarrow> 'f \<Rightarrow> ('f, (item list \<times> 'f) option) work" where
  "apply_features env j bars validation base_frame =
     (case should_apply_features j validation of
        None \<Rightarrow> wreturn (Some (bars, base_frame))
      | Some features \<Rightarrow>
          wbind (mark 70 ''calculate_features'' ''Calculating strategy features'') (\<lambda>_.
          wbind (or_fail (ie_text env) ''Feature calculation error: ''
                   (ebind (ie_features env base_frame features) (\<lambda>enriched.
                    ebind (ie_from_frame env enriched) (\<lambda>result'. Inr (result', enriched))))) (\<lambda>r.
          case r of
            None \<Rightarrow> wreturn None
          | Some (result', enriched) \<Rightarrow>
              wbind (tell (Update [FFeatures (map ft_name features)])) (\<lambda>_. wreturn (Some (result', enriched))))))"

section \<open>The run\<close>

text \<open>\<open>setdefault\<close> on the metadata of the job.\<close>

definition with_mode :: "IndicatorJob \<Rightarrow> IndicatorJob" where
  "with_mode j =
     (if map_of (ij_metadata j) ''enrichment_mode'' = None
      then j\<lparr>ij_metadata := AList.update ''enrichment_mode'' (PStr ''batch_full_frame'') (ij_metadata j)\<rparr> else j)"

definition enrich ::
  "'f runner_env \<Rightarrow> IndicatorJob \<Rightarrow> item list \<Rightarrow> string list \<Rightarrow> StrategyValidationResult option \<Rightarrow> ('f, (item list \<times> 'f) option) work" where
  "enrich env j bars indicators validation =
     (case validation of
        Some v \<Rightarrow>
          if get_key (ij_metadata j) ''enrichment_mode'' PNone = PStr ''live_parity_streaming''
          then (case vr_definition v of
                  None \<Rightarrow> lift (raise AttributeError)
                | Some df \<Rightarrow> apply_causal_enrichment env j bars v df)
          else apply_indicators env j bars indicators
      | None \<Rightarrow> apply_indicators env j bars indicators)"

definition compute_and_store :: "'f runner_env \<Rightarrow> IndicatorJob \<Rightarrow> item list \<Rightarrow> string list \<Rightarrow> StrategyValidationResult option \<Rightarrow>
    string \<Rightarrow> ('f, unit) work" where
  "compute_and_store env j bars indicators validation content_hash =
     wbind (enrich env j bars indicators validation) (\<lambda>r.
     case r of
       None \<Rightarrow> wreturn ()
     | Some (indicator_bars, indicator_frame) \<Rightarrow>
         wbind (apply_features env j indicator_bars validation indicator_frame) (\<lambda>enriched.
         case enriched of
           None \<Rightarrow> wreturn ()
         | Some (enriched_bars, frame) \<Rightarrow>
             wbind (tell (Update (completed_fields ''Indicator computation completed'' (int (length enriched_bars))))) (\<lambda>_.
             wbind (tell (StoreFrame frame)) (\<lambda>_.
             wbind (tell (SetMeta ''content_hash'' (PStr content_hash))) (\<lambda>_.
             tell (StoreResult enriched_bars))))))"

definition sync_run :: "'f runner_env \<Rightarrow> IndicatorJob \<Rightarrow> ('f, unit) work" where
  "sync_run env j =
     wbind (mark 5 ''query_cached_prices'' ''Loading cached bars'') (\<lambda>_.
     wbind (lift (load_cached_bars env j)) (\<lambda>bars.
       if bars = [] then fail_job ''No cached bars found for requested symbol/source/interval/date range''
       else wbind (resolve_indicators env j) (\<lambda>resolved.
         case resolved of
           None \<Rightarrow> wreturn ()
         | Some (indicators, validation) \<Rightarrow>
             let j1 = with_mode j
             in wbind (tell (SetMeta ''enrichment_mode'' (get_key (ij_metadata j1) ''enrichment_mode'' PNone))) (\<lambda>_.
                wbind (lift (content_payload env j1 indicators validation)) (\<lambda>payload.
                wbind (lift (ie_hash env payload)) (\<lambda>content_hash.
                wbind (try_reuse_artifact env j1 content_hash) (\<lambda>reused.
                  if reused then wreturn ()
                  else compute_and_store env j1 bars indicators validation content_hash)))))))"

text \<open>
  An action of the worker of job \<open>j\<close>.  Storing reads the job as it is then, or as it was given to the worker when it
  is no longer in the store.
\<close>

definition worker_do :: "IndicatorJob \<Rightarrow> 'f worker_action \<Rightarrow> ('f, 'db) indicator_manager \<Rightarrow> ('f, 'db) indicator_manager \<times> unit result" where
  "worker_do j a m =
     (let i = jb_job_id j
      in case a of
           Update u \<Rightarrow> (update_indicator i u m, Inr ())
         | SetMeta k v \<Rightarrow> (change_job i (\<lambda>j. j\<lparr>ij_metadata := AList.update k v (ij_metadata j)\<rparr>) m, Inr ())
         | StoreFrame f \<Rightarrow> (store_frame i f m, Inr ())
         | StoreResult bars \<Rightarrow> store_result (case map_of (im_jobs m) i of None \<Rightarrow> j | Some j' \<Rightarrow> j') bars m)"

fun worker_all :: "IndicatorJob \<Rightarrow> 'f worker_action list \<Rightarrow> ('f, 'db) indicator_manager \<Rightarrow> ('f, 'db) indicator_manager \<times> unit result" where
  "worker_all j [] m = (m, Inr ())"
| "worker_all j (a # as) m =
     (case worker_do j a m of (m', r) \<Rightarrow> (case r of Inl e \<Rightarrow> (m', Inl e) | Inr _ \<Rightarrow> worker_all j as m'))"

definition internal_error :: "'f runner_env \<Rightarrow> IndicatorJob \<Rightarrow> py_error \<Rightarrow> ('f, 'db) indicator_manager \<Rightarrow> ('f, 'db) indicator_manager" where
  "internal_error env j e m = update_indicator (jb_job_id j)
     [FStatus ''failed'', FProgress 100, FStage ''failed'', FError (''Internal error: '' @ ie_text env e)] m"

text \<open>\<open>run\<close>: an exception of an action, or of the method, fails the job.\<close>

definition run_worker :: "'f runner_env \<Rightarrow> IndicatorJob \<Rightarrow> ('f, 'db) indicator_manager \<Rightarrow> ('f, 'db) indicator_manager" where
  "run_worker env j m =
     (case sync_run env j of (as, r) \<Rightarrow>
        case worker_all j as m of (m', s) \<Rightarrow>
          case s of Inl e \<Rightarrow> internal_error env j e m' | Inr _ \<Rightarrow> (case r of Inl e \<Rightarrow> internal_error env j e m' | Inr _ \<Rightarrow> m'))"

end
