(* ===== verification/IndicatorProperties.thy ===== *)
theory IndicatorProperties
  imports IndicatorRunner ResultProperties JobProperties
begin

text \<open>
  Indicator jobs: every run of the worker ends completed or failed; a job is completed before its bars are stored; a
  page beyond the last one is empty but numbered as the last; the null counts of the cache and of the scan differ by
  the bars without the column; and starting a job drops finished jobs only.
\<close>

section \<open>Rules for the worker\<close>

text \<open>Actions that store nothing, and actions that end with the status failed.\<close>

fun stores :: "'f worker_action \<Rightarrow> bool" where
  "stores (StoreFrame f) = True"
| "stores (StoreResult bars) = True"
| "stores (Update u) = False"
| "stores (SetMeta k v) = False"

definition quiet :: "'f worker_action list \<Rightarrow> bool" where
  "quiet as \<longleftrightarrow> (\<forall>a \<in> set as. \<not> stores a)"

fun keeps_status :: "indicator_field \<Rightarrow> bool" where
  "keeps_status (FStatus s) = False"
| "keeps_status f = True"

definition failed_end :: "'f worker_action list \<Rightarrow> bool" where
  "failed_end as \<longleftrightarrow>
     (\<exists>pre u e. as = pre @ [Update (FStatus ''failed'' # u)] \<and> list_all keeps_status u \<and> FError e \<in> set u)"

definition completed_end :: "'f worker_action list \<Rightarrow> bool" where
  "completed_end as \<longleftrightarrow>
     (\<exists>pre msg bars mid. as = pre @ Update (completed_fields msg (int (length bars))) # mid @ [StoreResult bars] \<and>
        quiet pre \<and> list_all (\<lambda>a. (\<exists>f. a = StoreFrame f) \<or> (\<exists>k v. a = SetMeta k v)) mid)"

definition ended :: "'f worker_action list \<Rightarrow> bool" where
  "ended as \<longleftrightarrow> quiet as \<and> failed_end as \<or> completed_end as"

text \<open>
  \<open>calm w\<close>: a part that stores nothing.  \<open>careful w\<close>: also, when it gives up, it has failed the job.  \<open>ending w\<close>: when
  it returns, the job has ended.
\<close>

definition calm :: "('f, 'a) work \<Rightarrow> bool" where
  "calm w \<longleftrightarrow> quiet (fst w)"

definition careful :: "('f, 'a option) work \<Rightarrow> bool" where
  "careful w \<longleftrightarrow> quiet (fst w) \<and> (snd w = Inr None \<longrightarrow> failed_end (fst w))"

definition ending :: "('f, 'a) work \<Rightarrow> bool" where
  "ending w \<longleftrightarrow> (case snd w of Inl e \<Rightarrow> quiet (fst w) | Inr x \<Rightarrow> ended (fst w))"

named_theorems worker_rules

lemma quiet_append [simp]: "quiet (as @ bs) \<longleftrightarrow> quiet as \<and> quiet bs"
  by (auto simp: quiet_def)

lemma quiet_list [simp]: "quiet []" "quiet (a # as) \<longleftrightarrow> \<not> stores a \<and> quiet as"
  by (auto simp: quiet_def)

lemma failed_end_append: "failed_end bs \<Longrightarrow> failed_end (as @ bs)"
  unfolding failed_end_def by (elim exE, rule_tac x = "as @ pre" in exI) auto

lemma completed_end_append: "quiet as \<Longrightarrow> completed_end bs \<Longrightarrow> completed_end (as @ bs)"
  unfolding completed_end_def by (elim exE, rule_tac x = "as @ pre" in exI) auto

lemma ended_append: "quiet as \<Longrightarrow> ended bs \<Longrightarrow> ended (as @ bs)"
  by (auto simp: ended_def intro: failed_end_append completed_end_append)

lemma wbind_cases:
  obtains as e where "w = (as, Inl e)" "wbind w f = (as, Inl e)"
  | as x where "w = (as, Inr x)" "wbind w f = (as @ fst (f x), snd (f x))"
  by (cases w; cases "snd w") (auto simp: wbind_def split: prod.splits)

lemma calm_rules [worker_rules]:
  "calm (wreturn x)" "calm (lift r)" "calm (mark n s t)" "calm (tell (SetMeta k v))" "calm (tell (Update u))"
  "calm (fail_job t)"
  by (simp_all add: calm_def wreturn_def lift_def mark_def tell_def fail_job_def)

lemma calm_bind [worker_rules]: "calm w \<Longrightarrow> (\<And>x. calm (f x)) \<Longrightarrow> calm (wbind w f)"
  by (cases w f rule: wbind_cases) (simp_all add: calm_def)

lemma careful_return [worker_rules]: "careful (wreturn (Some x))" "careful (lift (raise e))"
  by (simp_all add: careful_def wreturn_def lift_def)

lemma careful_fail [worker_rules]: "careful (wbind (fail_job t) (\<lambda>_. wreturn None))"
  by (simp add: careful_def wbind_def fail_job_def tell_def wreturn_def failed_end_def)

lemma careful_or_fail [worker_rules]: "careful (or_fail t l r)"
  by (cases r) (simp_all add: or_fail_def careful_return careful_fail)

lemma careful_bind [worker_rules]: "calm w \<Longrightarrow> (\<And>x. careful (f x)) \<Longrightarrow> careful (wbind w f)"
  by (cases w f rule: wbind_cases) (auto simp: calm_def careful_def intro: failed_end_append)

lemma careful_option:
  assumes "careful w" "\<And>x. careful (g x)"
  shows "careful (wbind w (case_option (wreturn None) g))"
proof (cases w "case_option (wreturn None) g" rule: wbind_cases)
  case (2 as y)
  then show ?thesis using assms
    by (cases y) (auto simp: careful_def wreturn_def intro: failed_end_append)
qed (use assms(1) in \<open>simp add: careful_def\<close>)

lemma calm_if [worker_rules]: "calm v \<Longrightarrow> calm w \<Longrightarrow> calm (if c then v else w)"
  by simp

lemma careful_branches:
  "(c \<Longrightarrow> careful v) \<Longrightarrow> (\<not> c \<Longrightarrow> careful w) \<Longrightarrow> careful (if c then v else w)"
  "(\<And>x y. careful (h x y)) \<Longrightarrow> careful (case_prod h p)"
  "careful v \<Longrightarrow> (\<And>x. careful (g x)) \<Longrightarrow> careful (case_option v g r)"
  by (auto split: prod.split option.split)

lemma ending_tell [worker_rules]: "ending (fail_job t)"
  by (simp add: ending_def fail_job_def tell_def ended_def failed_end_def)

lemma ending_bind:
  assumes "calm w" "\<And>x. ending (f x)"
  shows "ending (wbind w f)"
proof (cases w f rule: wbind_cases)
  case (2 as x)
  then show ?thesis using assms(1) assms(2) [of x] by (auto simp: calm_def ending_def intro: ended_append split: sum.splits)
qed (use assms(1) in \<open>simp add: calm_def ending_def\<close>)

lemma ending_option:
  assumes "careful w" "\<And>x. ending (g x)"
  shows "ending (wbind w (case_option (wreturn ()) g))"
proof (cases w "case_option (wreturn ()) g" rule: wbind_cases)
  case (2 as y)
  then show ?thesis using assms(1) assms(2) [of "the y"]
    by (cases y) (auto simp: careful_def ending_def ended_def wreturn_def intro: failed_end_append completed_end_append split: sum.splits)
qed (use assms(1) in \<open>simp add: careful_def ending_def\<close>)

lemma careful_invalid:
  "careful (wbind (tell (Update [FStatus ''failed'', FProgress n, FStage s, FError e, FMetadata d])) (\<lambda>_. wreturn None))"
  by (simp add: careful_def wbind_def tell_def wreturn_def failed_end_def)

lemmas careful_rules = careful_return careful_fail careful_invalid careful_or_fail careful_option careful_bind
  careful_branches calm_rules calm_bind calm_if

section \<open>The parts of the worker\<close>

lemma resolve_careful: "careful (resolve_indicators env j)"
  unfolding resolve_indicators_def strategy_required_indicators_def Let_def by (rule careful_rules)+

lemma apply_indicators_careful: "careful (apply_indicators env j bars indicators)"
  unfolding apply_indicators_def by (rule careful_rules)+

lemma finish_causal_careful: "careful (finish_causal env r)"
  unfolding finish_causal_def by (rule careful_rules)+

lemma load_informative_careful: "careful (load_informative env j ts acc)"
  by (induction env j ts acc rule: load_informative.induct; unfold load_informative.simps; (rule careful_rules | assumption)+)

lemma causal_careful: "careful (apply_causal_enrichment env j bars v df)"
  unfolding apply_causal_enrichment_def
  by (rule finish_causal_careful load_informative_careful careful_rules)+

lemma enrich_careful: "careful (enrich env j bars indicators validation)"
  unfolding enrich_def by (rule causal_careful apply_indicators_careful careful_rules)+

lemma features_careful: "careful (apply_features env j bars validation frame)"
  unfolding apply_features_def by (rule careful_rules)+

text \<open>The tail of a run: completed, then the frame, the hash and the bars are stored.\<close>

lemma completed_endI:
  assumes "list_all (\<lambda>a. (\<exists>f. a = StoreFrame f) \<or> (\<exists>k v. a = SetMeta k v)) mid"
  shows "completed_end (Update (completed_fields msg (int (length bars))) # mid @ [StoreResult bars])"
  unfolding completed_end_def by (intro exI [of _ "[]"] exI [of _ msg] exI [of _ bars] exI [of _ mid]) (simp add: assms)

lemma ending_completed:
  "ending (wbind (tell (Update (completed_fields msg (int (length bars))))) (\<lambda>_. wbind (tell (StoreFrame frame)) (\<lambda>_.
     wbind (tell (SetMeta k v)) (\<lambda>_. tell (StoreResult bars)))))"
  using completed_endI [of "[StoreFrame frame, SetMeta k v]" msg bars] by (simp add: ending_def ended_def wbind_def tell_def)

lemma compute_ending: "ending (compute_and_store env j bars indicators validation h)"
  unfolding compute_and_store_def
  by (rule ending_option [OF enrich_careful], split prod.split, intro allI impI,
      rule ending_option [OF features_careful], split prod.split, intro allI impI, rule ending_completed)

text \<open>A part that tells whether it has ended the job.\<close>

definition trying :: "('f, bool) work \<Rightarrow> bool" where
  "trying w \<longleftrightarrow> (if snd w = Inr True then ended (fst w) else quiet (fst w))"

lemma trying_bind: "calm w \<Longrightarrow> (\<And>x. trying (f x)) \<Longrightarrow> trying (wbind w f)"
  by (cases w f rule: wbind_cases) (auto simp: calm_def trying_def intro: ended_append split: if_splits)

lemma trying_branches:
  "trying (wreturn False)" "trying v \<Longrightarrow> trying w \<Longrightarrow> trying (if c then v else w)"
  "trying v \<Longrightarrow> (\<And>x. trying (g x)) \<Longrightarrow> trying (case_option v g r)"
  by (auto simp: trying_def wreturn_def split: option.split)

lemma trying_completed:
  "trying (wbind (tell (Update (completed_fields msg (int (length bars))))) (\<lambda>_. wbind (tell (SetMeta k v)) (\<lambda>_.
     wbind (tell (StoreResult bars)) (\<lambda>_. wreturn True))))"
  using completed_endI [of "[SetMeta k v]" msg bars] by (simp add: trying_def ended_def wbind_def tell_def wreturn_def)

lemma try_reuse_trying: "trying (try_reuse_artifact env j h)"
  unfolding try_reuse_artifact_def by (rule trying_completed trying_branches trying_bind calm_rules)+

lemma ending_try:
  assumes "trying w" "ending v"
  shows "ending (wbind w (\<lambda>b. if b then wreturn () else v))"
proof (cases w "\<lambda>b. if b then wreturn () else v" rule: wbind_cases)
  case (2 as b)
  then show ?thesis using assms
    by (cases b) (auto simp: trying_def ending_def wreturn_def intro: ended_append split: sum.splits)
qed (use assms(1) in \<open>simp add: trying_def ending_def\<close>)

lemma sync_run_ending: "ending (sync_run env j)"
proof -
  have "ending (if c then fail_job t else w)" if "ending w" for c t and w :: "('a, unit) work"
    using that by (simp add: ending_tell)
  note branch = this
  show ?thesis
    unfolding sync_run_def Let_def
    by (rule ending_bind [OF calm_rules(3)] ending_bind [OF calm_rules(2)] ending_bind [OF calm_rules(4)] branch
          ending_option [OF resolve_careful] ending_try [OF try_reuse_trying compute_ending] | split prod.split, intro allI impI)+
qed

section \<open>The store during a run\<close>

fun act_job :: "'f worker_action \<Rightarrow> IndicatorJob \<Rightarrow> IndicatorJob" where
  "act_job (Update u) j = update_indicator_job u j"
| "act_job (SetMeta k v) j = j\<lparr>ij_metadata := AList.update k v (ij_metadata j)\<rparr>"
| "act_job (StoreFrame f) j = j"
| "act_job (StoreResult bars) j = j\<lparr>ij_total_bar_count := int (length bars)\<rparr>"

fun act_result :: "'f worker_action \<Rightarrow> item list option \<Rightarrow> item list option" where
  "act_result (StoreResult bars) r = Some bars"
| "act_result a r = r"

lemma set_indicator_field_id [simp]: "jb_job_id (set_indicator_field f j) = jb_job_id j"
  by (cases f) simp_all

lemma update_indicator_job_id [simp]: "jb_job_id (fold set_indicator_field u j) = jb_job_id j"
  by (induction u arbitrary: j) simp_all

lemma act_job_id [simp]: "jb_job_id (act_job a j) = jb_job_id j"
  by (cases a) (simp_all add: update_indicator_job_def)

definition holds :: "string \<Rightarrow> IndicatorJob \<Rightarrow> item list option \<Rightarrow> ('f, 'db) indicator_manager \<Rightarrow> bool" where
  "holds i j r m \<longleftrightarrow> map_of (im_jobs m) i = Some j \<and> jb_job_id j = i \<and> map_of (im_results m) i = r"

lemma worker_do_holds:
  assumes "holds (jb_job_id j) j' r m" "worker_do j a m = (m', x)"
  shows "holds (jb_job_id j) (act_job a j') (act_result a r) m' \<and> im_repo m' = im_repo m \<and> (x = Inr () \<or> stores a \<and> im_repo m \<noteq> None)"
  using assms
  by (cases a) (auto simp: holds_def worker_do_def Let_def update_indicator_def change_job_def store_frame_def store_result_def
    AList.update_conv' update_indicator_job_def split: option.splits sum.splits)

text \<open>All actions are done, or the storing of a result raises.\<close>

lemma worker_all_holds:
  assumes "holds (jb_job_id j) j' r m" "worker_all j as m = (m', Inr x)"
  shows "holds (jb_job_id j) (fold act_job as j') (fold act_result as r) m' \<and> im_repo m' = im_repo m"
  using assms
proof (induction as arbitrary: j' r m)
  case (Cons a as)
  obtain m1 y where s: "worker_do j a m = (m1, y)" by (rule prod.exhaust)
  then show ?case using worker_do_holds [OF Cons.prems(1) s] Cons.IH [of "act_job a j'" "act_result a r" m1] Cons.prems(2)
    by (auto split: sum.splits)
qed simp

lemma worker_all_raises:
  assumes "holds (jb_job_id j) j' r m" "worker_all j as m = (m', Inl e)"
  shows "\<exists>j'' r'. holds (jb_job_id j) j'' r' m'"
  using assms
proof (induction as arbitrary: j' r m)
  case (Cons a as)
  obtain m1 y where s: "worker_do j a m = (m1, y)" by (rule prod.exhaust)
  then show ?case using worker_do_holds [OF Cons.prems(1) s] Cons.IH [of "act_job a j'" "act_result a r" m1] Cons.prems(2)
    by (auto split: sum.splits)
qed simp

lemma worker_all_quiet:
  assumes "holds (jb_job_id j) j' r m" "im_repo m = None"
  shows "\<exists>m'. worker_all j as m = (m', Inr ())"
  using assms
proof (induction as arbitrary: j' r m)
  case (Cons a as)
  obtain m1 y where s: "worker_do j a m = (m1, y)" by (rule prod.exhaust)
  then show ?case using worker_do_holds [OF Cons.prems(1) s] Cons.IH [of "act_job a j'" "act_result a r" m1] Cons.prems(2)
    by (auto split: sum.splits)
qed simp

lemma internal_error_job:
  assumes "holds (jb_job_id j) j' r m"
  shows "\<exists>j''. get_indicator_job (jb_job_id j) (internal_error env j e m) = Inr (Some j'') \<and> jb_status j'' = ''failed'' \<and> jb_error j'' \<noteq> None"
  using assms by (simp add: holds_def internal_error_def update_indicator_def change_job_def get_indicator_job_def
    update_indicator_job_def AList.update_conv')

lemma keeps_status_fold: "list_all keeps_status u \<Longrightarrow> jb_status (fold set_indicator_field u j) = jb_status j"
proof (induction u arbitrary: j)
  case (Cons f u)
  then show ?case by (cases f) simp_all
qed simp

lemma error_kept: "jb_error j \<noteq> None \<Longrightarrow> jb_error (fold set_indicator_field u j) \<noteq> None"
proof (induction u arbitrary: j)
  case (Cons f u)
  then show ?case by (cases f) simp_all
qed simp

lemma error_set: "FError e \<in> set u \<Longrightarrow> jb_error (fold set_indicator_field u j) \<noteq> None"
proof (induction u arbitrary: j)
  case (Cons f u)
  then show ?case using error_kept [of "set_indicator_field (FError e) j" u] by (cases "f = FError e") auto
qed simp

lemma failed_end_job:
  assumes "failed_end as"
  shows "jb_status (fold act_job as j) = ''failed''" "jb_error (fold act_job as j) \<noteq> None"
proof -
  obtain pre u e where as: "as = pre @ [Update (FStatus ''failed'' # u)]" "list_all keeps_status u" "FError e \<in> set u"
    using assms by (auto simp: failed_end_def)
  show "jb_status (fold act_job as j) = ''failed''" using as by (simp add: update_indicator_job_def keeps_status_fold)
  show "jb_error (fold act_job as j) \<noteq> None" using error_set [OF as(3)] by (simp add: as(1) update_indicator_job_def)
qed

lemma aside_job:
  "list_all (\<lambda>a. (\<exists>f. a = StoreFrame f) \<or> (\<exists>k v. a = SetMeta k v)) mid \<Longrightarrow> jb_status (fold act_job mid j) = jb_status j"
  by (induction mid arbitrary: j) auto

lemma quiet_result: "quiet as \<Longrightarrow> fold act_result as r = r"
proof (induction as)
  case (Cons a as)
  then show ?case by (cases a) simp_all
qed simp


text \<open>
  C34. A job is completed before it has a result: in every run that completes a job, after some of the worker's actions,
  whoever asks for the results is told that the job is completed, that there are no bars and no error, and how many bars
  there will be; only later actions store the bars.  The manager is one without a database.
\<close>

theorem completed_before_result:
  assumes "map_of (im_jobs m) (jb_job_id j) = Some j" "im_repo m = None" "map_of (im_results m) (jb_job_id j) = None"
    and "get_indicator_job (jb_job_id j) (run_worker env j m) = Inr (Some j')" "jb_status j' = ''completed''"
  shows "\<exists>first rest mid. fst (sync_run env j) = first @ rest \<and> worker_all j first m = (mid, Inr ()) \<and>
    get_job_results (jb_job_id j) page k mid = Inr \<lparr>jr_found = True, jr_status = ''completed'', jr_page = 0,
      jr_page_size = max 1 (min k 1000), jr_total_pages = 0, jr_total_bar_count = ij_total_bar_count j', jr_bars = [], jr_error = None\<rparr>"
proof -
  obtain as r where run: "sync_run env j = (as, r)" by (rule prod.exhaust)
  have start: "holds (jb_job_id j) j None m" using assms by (simp add: holds_def)
  obtain m' where all: "worker_all j as m = (m', Inr ())" using worker_all_quiet [OF start assms(2)] by blast
  have after: "holds (jb_job_id j) (fold act_job as j) (fold act_result as None) m'" using worker_all_holds [OF start all] by blast
  have end': "run_worker env j m = m' \<and> ended as"
  proof (cases r)
    case (Inl e)
    then have "run_worker env j m = internal_error env j e m'" by (simp add: run_worker_def run all)
    then show ?thesis using internal_error_job [OF after, of env e] assms(4,5) by auto
  next
    case (Inr x)
    then show ?thesis using sync_run_ending [of env j] by (simp add: run_worker_def run all ending_def)
  qed
  then have j': "j' = fold act_job as j" using assms(4) after by (simp add: holds_def get_indicator_job_def)
  then have "\<not> failed_end as" using failed_end_job(1) assms(5) by fastforce
  then obtain pre msg bars mid where as: "as = pre @ Update (completed_fields msg (int (length bars))) # mid @ [StoreResult bars]"
    and pre: "quiet pre" using end' by (auto simp: ended_def completed_end_def)
  let ?first = "pre @ [Update (completed_fields msg (int (length bars)))]"
  obtain s where s: "worker_all j ?first m = (s, Inr ())" using worker_all_quiet [OF start assms(2)] by blast
  have at: "holds (jb_job_id j) (fold act_job ?first j) (fold act_result ?first None) s" "im_repo s = None"
    using worker_all_holds [OF start s] assms(2) by auto
  have results: "map_of (im_results s) (jb_job_id j) = None" using at(1) by (simp add: holds_def quiet_result [OF pre])
  have n: "ij_total_bar_count j' = int (length bars)" by (simp add: j' as)
  have job: "jb_status (fold act_job ?first j) = ''completed''" "ij_total_bar_count (fold act_job ?first j) = int (length bars)"
    by (simp_all add: update_indicator_job_def completed_fields_def)
  have "get_job_results (jb_job_id j) page k s = Inr \<lparr>jr_found = True, jr_status = ''completed'', jr_page = 0,
      jr_page_size = max 1 (min k 1000), jr_total_pages = 0, jr_total_bar_count = ij_total_bar_count j', jr_bars = [], jr_error = None\<rparr>"
    using at results job n
    by (simp add: get_job_results_def get_indicator_job_def get_result_page_def holds_def page_bars_def)
  moreover have "fst (sync_run env j) = ?first @ (mid @ [StoreResult bars])" using as run by simp
  ultimately show ?thesis using s by blast
qed

section \<open>Pages of bars\<close>

lemma page_bar_fold:
  fixes n lo hi :: int
  assumes "0 \<le> n"
  shows "fold (page_bar s e lo hi) bars \<lparr>ps_columns = c, ps_projected = p, ps_total = n\<rparr> =
    (let found = filter (in_range s e) bars;
         columns = (case c of Some cs \<Rightarrow> Some cs | None \<Rightarrow> (case found of [] \<Rightarrow> None | b # _ \<Rightarrow> Some (map fst b)))
     in \<lparr>ps_columns = columns,
         ps_projected = p @ map (\<lambda>b. project_bar b (the columns)) (take (nat (hi - max lo n)) (drop (nat (lo - n)) found)),
         ps_total = n + int (length found)\<rparr>)"
  using assms
proof (induction bars arbitrary: c p n)
  case Nil
  then show ?case by (auto simp: Let_def split: option.split)
next
  case (Cons b bars)
  show ?case
  proof (cases "in_range s e b")
    case True
    let ?found = "filter (in_range s e) bars" and ?cs = "case c of None \<Rightarrow> map fst b | Some cs \<Rightarrow> cs"
    consider "n < lo" | "lo \<le> n" "n < hi" | "lo \<le> n" "hi \<le> n" by linarith
    then have cut: "take (nat (hi - max lo n)) (drop (nat (lo - n)) (b # ?found)) =
        (if lo \<le> n \<and> n < hi then [b] else []) @ take (nat (hi - max lo (n + 1))) (drop (nat (lo - (n + 1))) ?found)"
    proof cases
      case 1
      then have "nat (lo - n) = Suc (nat (lo - (n + 1)))" "max lo n = max lo (n + 1)" by simp_all
      then show ?thesis using 1 by simp
    next
      case 2
      then have "nat (lo - n) = 0" "nat (lo - (n + 1)) = 0" "nat (hi - max lo n) = Suc (nat (hi - max lo (n + 1)))" by simp_all
      then show ?thesis using 2 by simp
    next
      case 3
      then have "nat (hi - max lo n) = 0" "nat (hi - max lo (n + 1)) = 0" by simp_all
      then show ?thesis using 3 by simp
    qed
    have "page_bar s e lo hi b \<lparr>ps_columns = c, ps_projected = p, ps_total = n\<rparr> =
        \<lparr>ps_columns = Some ?cs, ps_projected = p @ (if lo \<le> n \<and> n < hi then [project_bar b ?cs] else []), ps_total = n + 1\<rparr>"
      using True by (simp add: page_bar_def Let_def)
    moreover have "0 \<le> n + 1" using Cons.prems by simp
    ultimately have "fold (page_bar s e lo hi) (b # bars) \<lparr>ps_columns = c, ps_projected = p, ps_total = n\<rparr> =
        \<lparr>ps_columns = Some ?cs,
         ps_projected = (p @ (if lo \<le> n \<and> n < hi then [project_bar b ?cs] else [])) @
           map (\<lambda>b. project_bar b ?cs) (take (nat (hi - max lo (n + 1))) (drop (nat (lo - (n + 1))) ?found)),
         ps_total = n + 1 + int (length ?found)\<rparr>"
      by (simp add: Cons.IH Let_def)
    moreover have "map (\<lambda>b. project_bar b ?cs) (take (nat (hi - max lo n)) (drop (nat (lo - n)) (b # ?found))) =
        (if lo \<le> n \<and> n < hi then [project_bar b ?cs] else []) @
        map (\<lambda>b. project_bar b ?cs) (take (nat (hi - max lo (n + 1))) (drop (nat (lo - (n + 1))) ?found))"
      unfolding cut by simp
    moreover have "filter (in_range s e) (b # bars) = b # ?found" using True by simp
    moreover have "n + int (length (b # ?found)) = n + 1 + int (length ?found)" by simp
    ultimately show ?thesis by (cases c) (simp_all only: Let_def option.case list.case option.sel append_assoc)
  next
    case False
    then show ?thesis using Cons.IH [OF Cons.prems] by (simp add: page_bar_def)
  qed
qed

lemma page_window:
  fixes page k :: int and xs :: "'a list"
  defines "p \<equiv> max 0 (min page (page_total xs k - 1))"
  shows "take (nat (page * page_bound k + page_bound k - max (page * page_bound k) 0)) (drop (nat (page * page_bound k - 0)) xs) =
    (if p = page then take (nat (page_bound k)) (drop (nat (p * page_bound k)) xs) else [])"
proof (cases "page < 0")
  case True
  then have "page * page_bound k + page_bound k \<le> 0"
    using page_bound_pos(1) [of k] mult_right_mono [of "page + 1" 0 "page_bound k"] by (simp add: distrib_right)
  moreover have "p \<noteq> page" using True by (simp add: p_def)
  ultimately show ?thesis by simp
next
  case False
  then have pos: "0 \<le> page * page_bound k" using page_bound_pos(1) [of k] by simp
  show ?thesis
  proof (cases "page < page_total xs k")
    case True
    then have "p = page" using False by (simp add: p_def)
    then show ?thesis using pos by simp
  next
    case beyond: False
    then have "page_total xs k * page_bound k \<le> page * page_bound k" using page_bound_pos(1) [of k] by (intro mult_right_mono) simp_all
    then have "int (length xs) \<le> page * page_bound k" using page_total_covers [of xs k] by linarith
    then have "length xs \<le> nat (page * page_bound k)" by simp
    then have "drop (nat (page * page_bound k)) xs = []" by (rule drop_all)
    then show ?thesis by simp
  qed
qed

text \<open>
  C35. The page of an artifact, computed in one pass over the bars, is the page of the filtered and projected list when
  the page exists; for a page that does not exist it has no bars, but its number is that of the page nearest to the
  one asked for.
\<close>

theorem indicator_page_is_slice:
  "page_bars bars columns s e page k =
    (let found = filter_bars bars s e;
         shown = (if columns = [] then (case found of [] \<Rightarrow> [] | b # _ \<Rightarrow> map fst b) else columns);
         (xs, p, sz, pages, n) = page_items (map (\<lambda>b. project_bar b shown) found) page k
     in (if p = page then xs else [], p, sz, pages, n, shown))"
proof -
  let ?sz = "page_bound k"
  define found where "found = filter_bars bars s e"
  define shown where "shown = (if columns = [] then (case found of [] \<Rightarrow> [] | b # _ \<Rightarrow> map fst b) else columns)"
  define xs where "xs = map (\<lambda>b. project_bar b shown) found"
  define c where "c = (if columns = [] then (case found of [] \<Rightarrow> None | b # _ \<Rightarrow> Some (map fst b)) else Some columns)"
  define p where "p = max 0 (min page (page_total xs k - 1))"
  have "take (nat (page * ?sz + ?sz - max (page * ?sz) 0)) (drop (nat (page * ?sz - 0)) xs) =
      (if p = page then take (nat ?sz) (drop (nat (p * ?sz)) xs) else [])"
    unfolding p_def by (rule page_window)
  moreover have "map (\<lambda>b. project_bar b (the c)) (take i (drop j found)) = take i (drop j xs)" for i j
  proof (cases found)
    case (Cons b bs)
    then have "the c = shown" by (simp add: c_def shown_def)
    then show ?thesis by (simp only: xs_def take_map drop_map)
  qed (simp add: xs_def)
  ultimately have window: "map (\<lambda>b. project_bar b (the c))
      (take (nat (page * ?sz + ?sz - max (page * ?sz) 0)) (drop (nat (page * ?sz - 0)) found)) =
      (if p = page then take (nat ?sz) (drop (nat (p * ?sz)) xs) else [])" by simp
  have c: "(case if columns = [] then None else Some columns of None \<Rightarrow> (case found of [] \<Rightarrow> None | b # _ \<Rightarrow> Some (map fst b))
      | Some cs \<Rightarrow> Some cs) = c" by (simp add: c_def)
  have state: "fold (page_bar s e (page * ?sz) (page * ?sz + ?sz)) bars
      \<lparr>ps_columns = (if columns = [] then None else Some columns), ps_projected = [], ps_total = 0\<rparr> =
      \<lparr>ps_columns = c, ps_projected = (if p = page then take (nat ?sz) (drop (nat (p * ?sz)) xs) else []), ps_total = int (length xs)\<rparr>"
    unfolding page_bar_fold [OF order.refl] Let_def filter_bars_def [symmetric] found_def [symmetric] c window
    by (simp add: xs_def)
  have "(if int (length xs) \<noteq> 0 then (int (length xs) + ?sz - 1) div ?sz else 0) = page_total xs k"
    using page_total_nil by (auto simp: page_total_def)
  moreover have "(if page_total xs k \<noteq> 0 then max 0 (min page (page_total xs k - 1)) else 0) = p" by (simp add: p_def)
  moreover have "(case c of None \<Rightarrow> [] | Some cs \<Rightarrow> cs) = shown" by (simp add: c_def shown_def split: list.split)
  ultimately show ?thesis
    unfolding page_bars_def Let_def page_bound_def [symmetric] state page_state.simps found_def [symmetric] shown_def [symmetric]
      xs_def [symmetric] page_items_clamped prod.case by (simp add: p_def)
qed

section \<open>Counts of missing values\<close>

definition nulls_ok :: "string list \<times> (string \<times> int) list \<Rightarrow> bool" where
  "nulls_ok cn \<longleftrightarrow> (\<forall>c. c \<notin> set (fst cn) \<longrightarrow> map_of (snd cn) c = None)"

lemma visit_key_step:
  assumes "nulls_ok cn"
  shows "nulls_ok (visit_key bar k cn)"
    "fst (visit_key bar k cn) = (if k \<in> set (fst cn) then fst cn else fst cn @ [k])"
    "get_or (map_of (snd (visit_key bar k cn))) c 0 =
       get_or (map_of (snd cn)) c 0 + (if c = k \<and> get_key bar k PNone = PNone then 1 else 0)"
  using assms
  by (cases cn; auto simp: visit_key_def nulls_ok_def count_null_def get_or_def AList.update_conv' split: option.splits)+

lemma visit_bar:
  assumes "nulls_ok cn" "distinct ks"
  shows "nulls_ok (fold (visit_key bar) ks cn) \<and>
    fst (fold (visit_key bar) ks cn) = fold (\<lambda>k columns. if k \<in> set columns then columns else columns @ [k]) ks (fst cn) \<and>
    get_or (map_of (snd (fold (visit_key bar) ks cn))) c 0 =
      get_or (map_of (snd cn)) c 0 + (if c \<in> set ks \<and> get_key bar c PNone = PNone then 1 else 0)"
  using assms
proof (induction ks arbitrary: cn)
  case (Cons k ks)
  note step = visit_key_step [OF Cons.prems(1), of bar k]
  show ?case using Cons.IH [OF step(1)] Cons.prems(2) by (auto simp: step(2,3))
qed simp

lemma visit_bars:
  assumes "nulls_ok cn" "\<forall>bar \<in> set bars. distinct (map fst bar)"
  shows "fst (fold (\<lambda>bar. fold (visit_key bar) (map fst bar)) bars cn) =
      fold (\<lambda>bar. fold (\<lambda>k columns. if k \<in> set columns then columns else columns @ [k]) (map fst bar)) bars (fst cn) \<and>
    get_or (map_of (snd (fold (\<lambda>bar. fold (visit_key bar) (map fst bar)) bars cn))) c 0 =
      get_or (map_of (snd cn)) c 0 + int (length (filter (\<lambda>bar. c \<in> fst ` set bar \<and> get_key bar c PNone = PNone) bars))"
  using assms
proof (induction bars arbitrary: cn)
  case (Cons bar bars)
  note step = visit_bar [OF Cons.prems(1), of "map fst bar" bar c]
  show ?case using Cons.IH [of "fold (visit_key bar) (map fst bar) cn"] step Cons.prems(2) by auto
qed simp

text \<open>
  C40. The two counts of missing values of an artifact agree on the columns and differ in the numbers: the scan of
  the bars counts a bar that lacks the column, the counts made when the bars are stored do not.
\<close>

theorem cached_null_counts:
  assumes "\<forall>bar \<in> set bars. distinct (map fst bar)" "c \<in> set (columns_from_bars bars)"
  shows "lm_columns (compute_lightweight_meta bars) = columns_from_bars bars \<and>
    map_of (null_counts bars (columns_from_bars bars)) c =
      Some (get_or (map_of (lm_null_counts (compute_lightweight_meta bars))) c 0 +
            int (length (filter (\<lambda>bar. c \<notin> fst ` set bar) bars)))"
proof (cases "bars = []")
  case False
  have ok: "nulls_ok ([], [])" by (simp add: nulls_ok_def)
  obtain columns nulls where r: "fold (\<lambda>bar. fold (visit_key bar) (map fst bar)) bars ([], []) = (columns, nulls)"
    by (rule prod.exhaust)
  then have cached: "lm_columns (compute_lightweight_meta bars) = columns" "lm_null_counts (compute_lightweight_meta bars) = nulls"
    using False by (simp_all add: compute_lightweight_meta_def)
  from visit_bars [OF ok assms(1), of c] have visit: "columns = columns_from_bars bars"
    "get_or (map_of nulls) c 0 = int (length (filter (\<lambda>bar. c \<in> fst ` set bar \<and> get_key bar c PNone = PNone) bars))"
    unfolding r columns_from_bars_def by (simp_all add: get_or_def)
  have "length (filter (\<lambda>bar. get_key bar c PNone = PNone) bs) =
      length (filter (\<lambda>bar. c \<in> fst ` set bar \<and> get_key bar c PNone = PNone) bs) + length (filter (\<lambda>bar. c \<notin> fst ` set bar) bs)"
    for bs :: "item list"
  proof (induction bs)
    case (Cons bar bs)
    have "get_key bar c PNone = PNone" if "c \<notin> fst ` set bar"
      using that by (simp add: get_key_def map_of_eq_None_iff [THEN iffD2])
    then show ?case using Cons by auto
  qed simp
  then have len: "int (length (filter (\<lambda>bar. get_key bar c PNone = PNone) bars)) =
      get_or (map_of (lm_null_counts (compute_lightweight_meta bars))) c 0 + int (length (filter (\<lambda>bar. c \<notin> fst ` set bar) bars))"
    by (simp add: cached visit)
  have "map_of (map (\<lambda>c. (c, f c)) cs) c = Some (f c)" if "c \<in> set cs" for f :: "string \<Rightarrow> int" and cs
    using that by (simp add: map_of_map_restrict)
  from this [OF assms(2)] show ?thesis
    by (simp add: null_counts_def len cached visit(1) [symmetric])
qed (use assms(2) in \<open>simp add: columns_from_bars_def\<close>)

section \<open>Starting a job\<close>

lemma evict_if_full_eq: "evict_if_full = evict im_jobs im_max_jobs finished jb_job_id evict_job"
  by (intro ext) (simp add: evict_if_full_def evict_def)

lemma pop_if_full_eq: "pop_if_full = evict js_jobs js_max_jobs finished jb_job_id pop_job"
  by (intro ext) (simp add: pop_if_full_def evict_def)

lemma expired_finished:
  assumes "keyed jb_job_id (im_jobs m)" "i \<in> set (expired_indicator_jobs now m)" "(i, j) \<in> set (im_jobs m)"
  shows "finished j"
  using assms by (auto simp: expired_indicator_jobs_def keyed_def dest: eq_key_imp_eq_value)

lemma expired_job_finished:
  assumes "keyed jb_job_id (js_jobs m)" "i \<in> set (expired_jobs now m)" "(i, j) \<in> set (js_jobs m)"
  shows "finished j"
  using assms by (auto simp: expired_jobs_def keyed_def dest: eq_key_imp_eq_value)

lemma cleanup_indicator_drops:
  assumes "keyed jb_job_id (im_jobs m)"
  shows "drops_only finished (im_jobs m) (im_jobs (cleanup_indicator_jobs now m))"
    "im_max_jobs (cleanup_indicator_jobs now m) = im_max_jobs m"
  using indicator_cleanup.pop_expired [OF assms, of "expired_indicator_jobs now m"] expired_finished [OF assms]
  by (simp_all add: cleanup_indicator_jobs_def)

lemma cleanup_drops:
  assumes "keyed jb_job_id (js_jobs m)"
  shows "drops_only finished (js_jobs m) (js_jobs (cleanup_jobs now m))" "js_max_jobs (cleanup_jobs now m) = js_max_jobs m"
  using stored.pop_expired [OF assms, of "expired_jobs now m"] expired_job_finished [OF assms]
  by (simp_all add: cleanup_jobs_def)

text \<open>What a start does to the dict of any store, from the passes before and after the insertion.\<close>

lemma insert_keyed:
  assumes "keyed ident kvs" "i \<notin> fst ` set kvs" "drops_only fin kvs kvs1" "ident j = i"
  shows "AList.update i j kvs1 = kvs1 @ [(i, j)]" "keyed ident (AList.update i j kvs1)"
proof -
  have "i \<notin> fst ` set kvs1" using assms(2,3) by (auto simp: drops_only_def)
  then show u: "AList.update i j kvs1 = kvs1 @ [(i, j)]" by (rule update_fresh)
  show "keyed ident (AList.update i j kvs1)"
    unfolding u using drops_only_keyed [OF assms(3,1)] assms(4) \<open>i \<notin> fst ` set kvs1\<close> by (auto simp: keyed_def)
qed

lemma insert_between:
  assumes "keyed ident kvs" "i \<notin> fst ` set kvs" "drops_only fin kvs kvs1" "ident j = i" "\<not> fin j"
    and "drops_only fin (AList.update i j kvs1) kvs2"
  shows "filter (\<lambda>(_, j). \<not> fin j) kvs2 = filter (\<lambda>(_, j). \<not> fin j) kvs @ [(i, j)]"
  using insert_keyed(1) [OF assms(1-4)] assms(3,5,6) by (simp add: drops_only_def)

lemma forget_frames: "i \<notin> set xs \<Longrightarrow> map_of (im_frames (fold forget_job xs m)) i = map_of (im_frames m) i"
  by (induction xs arbitrary: m) (auto simp: forget_job_def AList.delete_conv')

lemma evict_frames: "im_frames (fold evict_if_full js m) = im_frames m"
  by (induction js arbitrary: m) (simp_all add: evict_if_full_def evict_job_def)

text \<open>
  C36. Starting an indicator job drops finished jobs only: the jobs that are queued or run stay, unchanged and in their
  order, and the new job follows them; afterwards the limit holds or no job is finished.  But the frame of a job that
  the limit drops is never freed: every frame that was cached stays, except those of expired jobs.
\<close>

theorem indicator_start_keeps_running:
  assumes "keyed jb_job_id (im_jobs m)" "i \<notin> fst ` set (im_jobs m)" "m' = start_indicator_job now i in_loop params m"
  shows "filter (\<lambda>(_, j). \<not> finished j) (im_jobs m') =
      filter (\<lambda>(_, j). \<not> finished j) (im_jobs m) @ [(i, new_indicator_job i params now)] \<and>
    (length (im_jobs m') \<le> im_max_jobs m \<or> (\<forall>(i, j) \<in> set (im_jobs m'). \<not> finished j)) \<and> keyed jb_job_id (im_jobs m') \<and>
    (\<forall>i'. i' \<notin> set (expired_indicator_jobs now m) \<longrightarrow> get_artifact_frame i' m' = get_artifact_frame i' m)"
proof -
  let ?j = "new_indicator_job i params now" and ?m1 = "cleanup_indicator_jobs now m"
  define m2 where "m2 = (if in_loop then ?m1\<lparr>im_tasks := i # im_tasks ?m1\<rparr> else ?m1)\<lparr>im_jobs := AList.update i ?j (im_jobs ?m1)\<rparr>"
  have m': "m' = fold (evict im_jobs im_max_jobs finished jb_job_id evict_job) (sort_key jb_created_at (map snd (im_jobs m2))) m2"
    unfolding assms(3) start_indicator_job_def Let_def enforce_max_indicator_jobs_def evict_if_full_eq m2_def by (cases in_loop) simp_all
  note clean = cleanup_indicator_drops [OF assms(1), of now]
  have j: "jb_job_id ?j = i" "\<not> finished ?j" by (simp_all add: new_indicator_job_def finished_def TERMINAL_def)
  have jobs2: "im_jobs m2 = AList.update i ?j (im_jobs ?m1)" "im_max_jobs m2 = im_max_jobs m" "im_frames m2 = im_frames ?m1"
    using clean(2) by (simp_all add: m2_def)
  have keyed: "keyed jb_job_id (im_jobs m2)" unfolding jobs2(1) by (rule insert_keyed(2) [where ident = jb_job_id, OF assms(1,2) clean(1) j(1)])
  note all = indicator_eviction.evict_all [OF keyed _ m']
  have "set (sort_key jb_created_at (map snd (im_jobs m2))) = snd ` set (im_jobs m2)" by simp
  note all = all [OF this]
  have "get_artifact_frame i' m' = get_artifact_frame i' m" if "i' \<notin> set (expired_indicator_jobs now m)" for i'
    using forget_frames [OF that] unfolding get_artifact_frame_def m' evict_if_full_eq [symmetric] evict_frames jobs2(3)
    by (simp add: cleanup_indicator_jobs_def)
  then show ?thesis
    using insert_between [where ident = jb_job_id, OF assms(1,2) clean(1) j all(1) [unfolded jobs2(1)]] all(3,4) jobs2(2) by simp
qed

text \<open>
  Starting a fetch job keeps the jobs that are queued or run, unchanged and in their order, with the new job after
  them, and afterwards the limit of the store holds or no job is finished.
\<close>

theorem fetch_start_keeps_running:
  assumes "keyed jb_job_id (js_jobs m)" "i \<notin> fst ` set (js_jobs m)" "m' = start_fetch_job now i in_loop params m"
  shows "filter (\<lambda>(_, j). \<not> finished j) (js_jobs m') =
      filter (\<lambda>(_, j). \<not> finished j) (js_jobs m) @ [(i, (new_fetch_job i params now)\<lparr>fj_task := in_loop\<rparr>)] \<and>
    (length (js_jobs m') \<le> js_max_jobs m \<or> (\<forall>(i, j) \<in> set (js_jobs m'). \<not> finished j)) \<and> keyed jb_job_id (js_jobs m')"
proof -
  let ?j = "(new_fetch_job i params now)\<lparr>fj_task := in_loop\<rparr>" and ?m1 = "cleanup_jobs now m"
  define m2 where "m2 = ?m1\<lparr>js_jobs := AList.update i ?j (js_jobs ?m1)\<rparr>"
  have j: "jb_job_id ?j = i" "\<not> finished ?j" by (simp_all add: new_fetch_job_def finished_def TERMINAL_def)
  have m': "m' = fold (evict js_jobs js_max_jobs finished jb_job_id pop_job) (sort_key jb_created_at (map snd (js_jobs m2))) m2"
    unfolding assms(3) start_fetch_job_def add_job_def enforce_limit_def pop_if_full_eq m2_def j(1) by simp
  note clean = cleanup_drops [OF assms(1), of now]
  have jobs2: "js_jobs m2 = AList.update i ?j (js_jobs ?m1)" "js_max_jobs m2 = js_max_jobs m"
    using clean(2) by (simp_all add: m2_def)
  have keyed: "keyed jb_job_id (js_jobs m2)" unfolding jobs2(1) by (rule insert_keyed(2) [where ident = jb_job_id, OF assms(1,2) clean(1) j(1)])
  have "set (sort_key jb_created_at (map snd (js_jobs m2))) = snd ` set (js_jobs m2)" by simp
  note all = stored.evict_all [OF keyed this m']
  show ?thesis
    using insert_between [where ident = jb_job_id, OF assms(1,2) clean(1) j all(1) [unfolded jobs2(1)]] all(3,4) jobs2(2) by simp
qed

end
