(* ===== verification/IndicatorExamples.thy ===== *)
theory IndicatorExamples
  imports IndicatorProperties
begin

text \<open>Concrete jobs: the hypotheses of the properties of the job stores and of the indicator worker can hold.\<close>

section \<open>A run that completes\<close>

definition one_bar :: "string \<Rightarrow> pyval \<Rightarrow> PriceBar" where
  "one_bar day volume = \<lparr>pb_symbol = ''BTC'', pb_source = ''yfinance'', pb_interval = ''1d'', pb_timestamp = day,
     pb_open = PFloat 1, pb_high = PFloat 1, pb_low = PFloat 1, pb_close = PFloat 1, pb_volume = volume\<rparr>"

definition two_bars :: "PriceBar list" where
  "two_bars = [one_bar ''2024-01-01'' (PInt 1), one_bar ''2024-01-02'' PNone]"

text \<open>Frames are the lists of bars; the calculator adds a column without values; there is no earlier artifact.\<close>

definition sample_runner :: "item list runner_env" where
  "sample_runner = \<lparr>ie_query_bars = \<lambda>_ _ _ _ _. Inr two_bars, ie_find_by_hash = \<lambda>_. Inr None, ie_artifact_bars = \<lambda>_. Inr None,
     ie_to_frame = Inr, ie_from_frame = Inr,
     ie_calculate = \<lambda>frame names. Inr (map (\<lambda>b. b @ map (\<lambda>n. (n, PNone)) names) frame, []),
     ie_features = \<lambda>frame _. Inr frame, ie_parse = \<lambda>_ _. raise TypeError, ie_derivatives = None,
     ie_merge = \<lambda>frame _ _. Inr frame, ie_causal = \<lambda>bars _ _ _ _ _. Inr bars, ie_hash = \<lambda>_. Inr ''h'', ie_text = \<lambda>_. ''error''\<rparr>"

definition sample_job :: IndicatorJob where
  "sample_job = new_indicator_job ''ind_1''
     [(''symbol'', PStr ''BTC''), (''mode'', PStr ''selected''), (''indicators'', PList [PStr ''sma_20''])] 0"

definition sample_manager :: "(item list, unit) indicator_manager" where
  "sample_manager = start_indicator_job 0 ''ind_1'' False
     [(''symbol'', PStr ''BTC''), (''mode'', PStr ''selected''), (''indicators'', PList [PStr ''sma_20''])]
     (new_indicator_manager 2 60 None ())"

lemma sample_stored: "map_of (im_jobs sample_manager) ''ind_1'' = Some sample_job" "im_repo sample_manager = None"
  "jb_job_id sample_job = ''ind_1''" "map_of (im_results sample_manager) ''ind_1'' = None"
  by code_simp+


definition completed_with :: "int \<Rightarrow> IndicatorJob option result \<Rightarrow> bool" where
  "completed_with n r = (case r of Inr (Some j) \<Rightarrow> jb_status j = ''completed'' \<and> ij_total_bar_count j = n | _ \<Rightarrow> False)"

theorem completed_before_result_witness:
  "\<exists>first rest mid. fst (sync_run sample_runner sample_job) = first @ rest \<and>
     worker_all sample_job first sample_manager = (mid, Inr ()) \<and>
     get_job_results ''ind_1'' 0 500 mid = Inr \<lparr>jr_found = True, jr_status = ''completed'', jr_page = 0,
       jr_page_size = 500, jr_total_pages = 0, jr_total_bar_count = 2, jr_bars = [], jr_error = None\<rparr>"
proof -
  have "completed_with 2 (get_indicator_job ''ind_1'' (run_worker sample_runner sample_job sample_manager))" by code_simp
  then obtain j' where j': "get_indicator_job ''ind_1'' (run_worker sample_runner sample_job sample_manager) = Inr (Some j')"
    "jb_status j' = ''completed''" "ij_total_bar_count j' = 2"
    by (auto simp: completed_with_def split: sum.splits option.splits)
  show ?thesis
    using completed_before_result [of sample_manager sample_job sample_runner j' 0 500] sample_stored j' by simp
qed

section \<open>Counts\<close>

definition late_column :: "item list" where
  "late_column = [[(''timestamp'', PStr ''2024-01-01'')], [(''timestamp'', PStr ''2024-01-02''), (''rsi_14'', PNone)]]"

theorem cached_null_counts_witness:
  "map_of (lm_null_counts (compute_lightweight_meta late_column)) ''rsi_14'' = Some 1 \<and>
   map_of (null_counts late_column (columns_from_bars late_column)) ''rsi_14'' = Some 2"
proof -
  have "\<forall>bar \<in> set late_column. distinct (map fst bar)" "''rsi_14'' \<in> set (columns_from_bars late_column)"
    "map_of (lm_null_counts (compute_lightweight_meta late_column)) ''rsi_14'' = Some 1"
    "int (length (filter (\<lambda>bar. ''rsi_14'' \<notin> fst ` set bar) late_column)) = 1" by code_simp+
  with cached_null_counts [of late_column "''rsi_14''"] show ?thesis by (simp add: get_or_def)
qed

section \<open>Starts\<close>

text \<open>A manager for one job, whose job has completed and left a frame.\<close>

definition full_manager :: "(item list, unit) indicator_manager" where
  "full_manager = store_frame ''ind_1'' [] (update_indicator ''ind_1'' (completed_fields ''done'' 0)
     (start_indicator_job 0 ''ind_1'' False [] (new_indicator_manager 1 60 None ())))"

theorem indicator_start_keeps_running_witness:
  "\<exists>m'. m' = start_indicator_job 1 ''ind_2'' False [] full_manager \<and> length (im_jobs m') \<le> 1 \<and>
     get_artifact_frame ''ind_1'' m' = Some [] \<and> get_indicator_job ''ind_1'' m' = Inr None"
proof -
  define m' where "m' = start_indicator_job 1 ''ind_2'' False [] full_manager"
  have ok: "keyed jb_job_id (im_jobs full_manager)" "''ind_2'' \<notin> fst ` set (im_jobs full_manager)"
    "''ind_1'' \<notin> set (expired_indicator_jobs 1 full_manager)" "im_max_jobs full_manager = 1"
    "get_artifact_frame ''ind_1'' full_manager = Some []" by code_simp+
  have new: "length (im_jobs m') \<le> 1" "get_indicator_job ''ind_1'' m' = Inr None" unfolding m'_def by code_simp+
  show ?thesis
    using indicator_start_keeps_running [OF ok(1,2) m'_def] ok(3,5) new m'_def by auto
qed

definition full_store :: "FetchJob job_store" where
  "full_store = start_fetch_job 0 ''job_1'' False [] (new_job_store 1 60)"

theorem fetch_start_keeps_running_witness:
  "\<exists>m'. m' = start_fetch_job 1 ''job_2'' False [] full_store \<and>
     map fst (filter (\<lambda>(_, j). \<not> finished j) (js_jobs m')) = [''job_1'', ''job_2'']"
proof -
  define m' where "m' = start_fetch_job 1 ''job_2'' False [] full_store"
  have ok: "keyed jb_job_id (js_jobs full_store)" "''job_2'' \<notin> fst ` set (js_jobs full_store)"
    "map fst (filter (\<lambda>(_, j). \<not> finished j) (js_jobs full_store)) = [''job_1'']" by code_simp+
  then show ?thesis using fetch_start_keeps_running [OF ok(1,2) m'_def] m'_def by auto
qed

end
