(* ===== verification/Spec2Isabelle.thy ===== *)
theory Spec2Isabelle
  imports RunProperties ExecutionProperties StreamingProperties EngineProperties DateProperties
    ParserProperties OptimizerExamples ProfileExamples RateLimitProperties PortfolioExamples ResultExamples
    IndicatorExamples
begin

text \<open>
  A verification development for finbar, a Python service that backtests rule-based trading strategies.

  \<^bold>\<open>The program.\<close> A strategy is a JSON document of condition trees, risk rules and indicators.  The
  package under src/packages/strategy-runtime (called R below) evaluates it bar by bar and simulates the
  account; the services under src/finbar/infrastructure/services (called F) validate the bars, drive the
  simulation and build the report; in live use the same strategy reads its indicators from an engine of
  incremental states.  The rest of src/finbar fetches and stores data and exposes the services as a REST
  API and as MCP tools.

  \<^bold>\<open>Theories and code.\<close>

    \<^item> \<open>Prelude\<close>: exceptions as values (\<open>py_error + 'a\<close>, \<open>ebind\<close>, \<open>efold\<close>, \<open>emap\<close>) and the hint collections.
    \<^item> \<open>PyFloat\<close>, \<open>PyVal\<close>, \<open>PyDatetime\<close>: the part of Python the code uses: binary64 floats computed exactly
      on rationals, with infinities and NaN; values, \<open>float()\<close>, \<open>repr\<close> and number formatting;
      \<open>datetime.fromisoformat\<close>, differences of dates and \<open>strftime\<close>.
    \<^item> \<open>SimConfig\<close>: R/simulation/enums.py, execution_config.py, leverage_config.py.
    \<^item> \<open>SimState\<close>, \<open>MarginManager\<close>: the state of a run (R/simulation/simulation_state.py, simulated_position.py,
      pending_entry.py, pending_exit.py, trade_record.py, backtest_diagnostic.py) and the account in
      full-margin mode (margin_account.py, margin_account_manager.py).
    \<^item> \<open>PositionSizer\<close>, \<open>ExitResolver\<close>, \<open>PositionCloser\<close>, \<open>PositionOpener\<close>, \<open>PositionExecutor\<close>: the files of
      the same names in R/simulation.  The state and the margin account travel together as a \<open>Book\<close>.
    \<^item> \<open>Conditions\<close>, \<open>RiskPrices\<close>, \<open>RuleStrategy\<close>: R/evaluation/condition_evaluator.py,
      json_risk_price_calculator.py, json_rule_based_strategy.py and the entities of R/domain they read.
    \<^item> \<open>BacktestLoop\<close>, \<open>BacktestRunner\<close>: F/backtest_runner.py: dates, pending orders, signals, the equity
      curve, the warmup, the loop over the bars, parameters and the entry point \<open>run\<close>.
    \<^item> \<open>DataValidator\<close>: F/backtest_data_validator.py.
    \<^item> \<open>Metrics\<close>, \<open>RollingMetrics\<close>: R/simulation/metrics (annualization.py, backtest_metrics.py,
      rolling_metrics.py); the copies under src/finbar/core/domain/services are the same code.
    \<^item> \<open>ResultBuilder\<close>: F/backtest_result_builder.py.
    \<^item> \<open>StreamingStates\<close>: the constant-memory indicators of R/indicators/streaming (SMA, EMA, RSI, ATR, ADX,
      Bollinger bands, IBS, KER, KAMA, MACD, RVOL, VWAP).
    \<^item> \<open>StreamingFactory\<close>, \<open>StreamingEngine\<close>: the names of the indicators, the registry that builds their
      states and the engine that shares, updates, reads and resets them.
    \<^item> \<open>StrategyEntities\<close>: the entities of a parsed document in R/domain/entities.
    \<^item> \<open>ParseHelpers\<close>, \<open>Catalog\<close>, \<open>DocumentParts\<close>, \<open>DocumentParser\<close>: R/parser: the helpers and errors; the indicator
      names a document may use (strategy_indicator_catalog.py, usable_metric_set.py, unified_metric_catalog.py);
      the resolvers of the sections; conditions, sides, limits, warnings, required columns, the serializer and
      strategy_definition_parser.py, which runs them.
    \<^item> \<open>ParamGrid\<close>, \<open>GridSearch\<close>, \<open>WalkForward\<close>, \<open>OptimizationJobs\<close>: F/grid_search_optimizer.py,
      walk_forward_fold_helpers.py, walk_forward_optimizer.py, in_memory_optimization_job_manager.py and the
      entities of src/finbar/core/domain they use.
    \<^item> \<open>VolumeProfile\<close>, \<open>SessionProfile\<close>: volume_profile.py, market_profile.py and _profile_utils.py of
      R/domain/services; the running profiles of R/indicators/streaming (incremental_session_vp_state.py,
      rolling_volume_profile_state.py).
    \<^item> \<open>RateLimiters\<close>: F/rate_limiter.py, coinglass_rate_limiter.py, hyperliquid_rate_limiter.py.
    \<^item> \<open>Portfolio\<close>: run_portfolio_backtest.py in src/finbar/core/application/use_cases.
    \<^item> \<open>ResultAccess\<close>: src/finbar/core/application/backtest_result_projection.py, the use cases get_backtest_trades.py,
      get_backtest_equity.py and get_backtest_summary.py, F/in_memory_backtest_result_store.py.
    \<^item> \<open>JobStores\<close>: F/fetch_job.py, fetch_job_manager.py, strategy_pipeline_job.py, strategy_pipeline_job_manager.py.
    \<^item> \<open>IndicatorJobs\<close>, \<open>IndicatorRunner\<close>: the indicator jobs with their artifacts
      (F/in_memory_indicator_job_manager.py, get_indicator_job_results.py) and their worker (F/indicator_job_runner.py).
    \<^item> \<open>ExecutionProperties\<close>, \<open>RunProperties\<close>, \<open>DateProperties\<close>, \<open>StreamingProperties\<close>, \<open>EngineProperties\<close>,
      \<open>ParserProperties\<close>, \<open>GridProperties\<close>, \<open>OptimizerProperties\<close>, \<open>WalkForwardProperties\<close>, \<open>JobProperties\<close>,
      \<open>ProfileProperties\<close>, \<open>RateLimitProperties\<close>, \<open>PortfolioProperties\<close>, \<open>ResultProperties\<close>, \<open>IndicatorProperties\<close>:
      the properties; \<open>OptimizerExamples\<close>, \<open>ProfileExamples\<close>, \<open>PortfolioExamples\<close>, \<open>ResultExamples\<close> and
      \<open>IndicatorExamples\<close> run the parts on concrete input.

  \<^bold>\<open>How state and effects are modelled.\<close> A class is a record (a datatype where it has variants) and a method
  a function that returns the updated record.  Code that can raise returns a sum with the exception on the
  left, and every \<open>raise\<close> and swallowed exception of the code is a branch.  Python integers are \<open>int\<close>; Python
  floats are \<open>flt\<close>, rounded once per operation.  Dicts whose order matters are association lists, the others
  maps.  The list of errors the parser fills is the second component of each step (\<open>'a checked\<close>).  A job is
  the list of the updates its worker sends; \<open>job_step\<close> interleaves them with requests to cancel.  The worker of an
  indicator job is the list of its actions with a value or an exception (\<open>work\<close>).  The callers of a rate limiter
  interleave by a step relation.  Code that may not
  return answers with an option, and \<open>None\<close> is the loop that does not end.  Log lines are left out.

  \<^bold>\<open>Parameters.\<close> Code outside the repository is an argument: \<open>pandas_ops\<close> (label text, monotonicity and
  number conversion of pandas), \<open>pow_fun\<close> (the C library), and the type of the indicator
  states that compute with pandas and numpy (\<open>engine_env\<close>), the decoders of JSON and YAML text, the registry of
  metric names, the numbers drawn by \<open>random\<close>, and the collaborators an optimiser is constructed with
  (\<open>optimizer_env\<close>); \<open>runner_engine\<close> is the engine of the service among them.  So are the operations of numpy on
  arrays (\<open>array_ops\<close>, with the laws \<open>array_laws\<close>), the collaborators of the portfolio use case (\<open>portfolio_env\<close>) and of
  the indicator worker (\<open>runner_env\<close>), the repositories of results and artifacts (\<open>result_repo\<close>, \<open>artifact_repo\<close>),
  identifiers and the readings of clocks.  What a property needs of them is a named
  hypothesis, such as \<open>numeric_agrees\<close>, and each such property has a witness with a concrete function.

  \<^bold>\<open>Interfaces.\<close> The locale \<open>rounding\<close> (what the simulation needs of float rounding) is interpreted by \<open>b64\<close>;
  \<open>streaming_state\<close> and \<open>streaming_value\<close> (an indicator state starts, updates and resets; its value is a
  function of the state) are interpreted by every indicator; \<open>indicator_capabilities\<close> (a name that resolves is
  supported) by the strategy catalog, and by the unified catalog when its registry is consistent;
  \<open>sliding_admission\<close> (one step of a limiter with a sliding window) by both sliding windows; \<open>job_dict\<close> (dropping a
  job deletes it from the dict of the store) by every store of jobs, twice by the indicator jobs, which drop a job in
  two ways.

  \<^bold>\<open>What the lemmas show.\<close>

    \<^item> Order handling: orders are filled only at the open of a later bar, never from the bar that caused them;
      at most one order is queued and it fits the position; queued exits are served; a backtest ends flat.
    \<^item> Settlement: what a close adds to the cash, the margin and the trade list; slippage, stops, targets and
      liquidation prices lie on the side they are meant to; sizes stay affordable.
    \<^item> Conditions: the two-pass evaluator computes the meaning of the tree, is total on values that fit a
      float, and keeps the crossover state independent of the position.
    \<^item> Validation and report: bad frames are refused and accepted ones fill inside the bar; the counts of the
      report agree with its trades; the rolling win rate equals a count over the window; drawdowns are fractions.
    \<^item> Indicators: the moving average is the mean of its window while no rounding is lost, RSI stays between 0
      and 100, the names the classifier calls streaming can be built, and the engine computes what independent
      states would; reset starts over.
    \<^item> Dates: what the loop writes is what the closer reads back.
    \<^item> Documents: a document accepted without errors is well formed, declares only indicators the catalog
      supports and reads only columns that are provided; condition trees survive serialization, except that a
      \<open>not\<close> group makes the serializer raise and percentages of the risk section are lost.
    \<^item> Optimisation: which values a range has, that the search stays within its budget and its job ends once, that the
      ranking is sorted and that test windows follow their training windows; and where the code goes wrong:
      the warmup is skipped twice, failed combinations win, test windows overlap, a cancelled job completes, and
      two loops need not end.
    \<^item> Profiles: the value area lies around the point of control inside the grid, and the running profile of a session
      has the levels of the profile computed anew after every bar, except for a session without a range.
    \<^item> Rate limits: no window ever admits more requests than its limit and the bucket stays within its capacity, for
      any interleaving of callers; but a backoff that is announced late is ignored by those already admitted.
    \<^item> Portfolio: the indexed aggregation is the linear scan; the share of a failed asset is shown as a loss.
    \<^item> Results: the pages of a list are the list and a saved result is found again; the weekly curve is the daily
      one, and the drawdown events of a backtest are always empty.
    \<^item> Jobs: a start drops finished jobs only and keeps the limit; every run of the indicator worker ends its job,
      with stored bars when it is completed; but it is completed before its bars are stored, the frames of dropped
      jobs stay, and the two counts of missing values differ.

  \<^bold>\<open>Bounds and fuel.\<close> Loops are structural recursion or terminate by a measure.  The only fuel is in the
  shortest decimal digits of \<open>repr(float)\<close>: 17 digits always identify a binary64 number.  The date round trip
  covers years 1000 to 9999, the years \<open>strftime\<close> writes with four digits on every platform.  Random search is
  bounded by its number of attempts.  Texts are lists of 8-bit characters; case and digits are modelled for ASCII.

  \<^bold>\<open>Not modelled.\<close> Fetchers, repositories and the API and MCP layers are input and output.  The pandas and
  numpy indicator calculators, the windowed indicator states and the statistical proxies work on data frames.  Of the
  catalog the queries that read tables of metric data are left out.  The use cases not named above connect a request to
  one of the modelled services or to a repository; the one that backtests a strategy document and the pipeline on top of
  it are the largest of them.  The manifest lists every part.
\<close>

end
